(* ===== verification/Prelude.thy ===== *)
theory Prelude
  imports Main "HOL-Library.Word"
begin

text \<open>
  Shared vocabulary of the development: the machine types the program uses, little-endian
  images of words, NUL-terminated byte strings, and reading and writing a byte range of an
  object (\<open>get\<close> and \<open>put\<close>), with the automation the component theories rely on.
\<close>

section \<open>Machine types\<close>

type_synonym byte = "8 word"
type_synonym u8 = "8 word"
type_synonym u32 = "32 word"
type_synonym u64 = "64 word"
type_synonym s32 = "32 word"
type_synonym s64 = "64 word"

text \<open>
  \<open>layout_simps\<close> collects the computed sizes and offsets of the C types, \<open>wire_simps\<close> the
  facts about fields of a byte image.
\<close>

named_theorems layout_simps
named_theorems wire_simps

section \<open>Byte ranges\<close>

definition get :: "nat \<Rightarrow> nat \<Rightarrow> 'a list \<Rightarrow> 'a list" where
  "get off n m = take n (drop off m)"

definition put :: "nat \<Rightarrow> 'a list \<Rightarrow> 'a list \<Rightarrow> 'a list" where
  "put off v m = take off m @ v @ drop (off + length v) m"

lemma length_get [simp]: "length (get off n m) = min n (length m - off)"
  by (simp add: get_def)

lemma length_put [simp]:
  "off + length v \<le> length m \<Longrightarrow> length (put off v m) = length m"
  by (simp add: put_def)

lemma get_put_same [simp]:
  "off \<le> length m \<Longrightarrow> n = length v \<Longrightarrow> get off n (put off v m) = v"
  by (simp add: get_def put_def)

lemma get_put_before:
  "off + n \<le> off' \<Longrightarrow> off' \<le> length m \<Longrightarrow> get off n (put off' v m) = get off n m"
  by (simp add: get_def put_def drop_take)

lemma get_put_after:
  assumes "off' + length v \<le> off" and "off' \<le> length m"
  shows "get off n (put off' v m) = get off n m"
proof -
  have "drop off (put off' v m) = drop off m"
    using assms by (simp add: put_def min_def drop_append)
  then show ?thesis by (simp add: get_def)
qed

lemma get_put_disjoint [simp]:
  "off + n \<le> off' \<or> off' + length v \<le> off \<Longrightarrow> off' \<le> length m \<Longrightarrow>
   get off n (put off' v m) = get off n m"
  using get_put_before get_put_after by blast

lemma get_append_left [simp]:
  "off + n \<le> length m \<Longrightarrow> get off n (m @ r) = get off n m"
  by (simp add: get_def)

lemma get_get:
  "off + n \<le> k \<Longrightarrow> get off n (get b k m) = get (b + off) n m"
  by (simp add: get_def take_drop min_def add.commute)

lemma get_all: "length m = n \<Longrightarrow> get 0 n m = m"
  by (simp add: get_def)

lemma put_all: "length v = length m \<Longrightarrow> put 0 v m = v"
  by (simp add: put_def)

section \<open>Little-endian images of words\<close>

primrec le_bytes :: "nat \<Rightarrow> 'a::len word \<Rightarrow> byte list" where
  "le_bytes 0 w = []"
| "le_bytes (Suc n) w = ucast w # le_bytes n (drop_bit 8 w)"

primrec le_nat :: "byte list \<Rightarrow> nat" where
  "le_nat [] = 0"
| "le_nat (b # bs) = unat b + 256 * le_nat bs"

definition le_word :: "byte list \<Rightarrow> 'a::len word" where
  "le_word bs = of_nat (le_nat bs)"

lemma length_le_bytes [simp]: "length (le_bytes n w) = n"
  by (induction n arbitrary: w) auto

lemma unat_ucast_byte: "unat (ucast w :: byte) = unat w mod 256"
  by (simp add: unsigned_ucast_eq unsigned_take_bit_eq take_bit_eq_mod)

lemma unat_drop_byte: "unat (drop_bit 8 w) = unat w div 256"
  by (subst unat_drop_bit_eq) (simp add: drop_bit_eq_div)

lemma le_nat_le_bytes: "le_nat (le_bytes n w) = unat w mod 256 ^ n"
proof (induction n arbitrary: w)
  case 0
  then show ?case by simp
next
  case (Suc n)
  have "unat w mod (256 * 256 ^ n) = 256 * (unat w div 256 mod 256 ^ n) + unat w mod 256"
    by (rule mod_mult2_eq)
  then show ?case
    by (simp add: Suc.IH unat_ucast_byte unat_drop_byte)
qed

lemma le_word_le_bytes:
  fixes w :: "'a::len word"
  assumes "LENGTH('a) \<le> 8 * n"
  shows "le_word (le_bytes n w) = w"
proof -
  have "unat w < 2 ^ LENGTH('a)" by simp
  also have "\<dots> \<le> 2 ^ (8 * n)" using assms by (simp add: power_increasing)
  also have "(2::nat) ^ (8 * n) = 256 ^ n" by (simp add: power_mult)
  finally have "unat w mod 256 ^ n = unat w" by simp
  then show ?thesis by (simp add: le_word_def le_nat_le_bytes)
qed

lemma le_word_le_bytes_64 [simp]: "le_word (le_bytes 8 (w :: u64)) = w"
  by (rule le_word_le_bytes) simp

lemma le_word_le_bytes_32 [simp]: "le_word (le_bytes 4 (w :: u32)) = w"
  by (rule le_word_le_bytes) simp

section \<open>NUL-terminated byte strings\<close>

definition cstr :: "byte list \<Rightarrow> byte list" where
  "cstr bs = takeWhile (\<lambda>b. b \<noteq> 0) bs"

lemma cstr_terminated:
  "0 \<notin> set s \<Longrightarrow> cstr (s @ 0 # rest) = s"
  by (induction s) (auto simp: cstr_def)

lemma cstr_append_terminated:
  "0 \<in> set bs \<Longrightarrow> cstr (bs @ rest) = cstr bs"
  by (induction bs) (auto simp: cstr_def)

lemma cstr_no_nul: "0 \<notin> set (cstr bs)"
  by (auto simp: cstr_def dest: set_takeWhileD)

lemma length_cstr_le: "length (cstr bs) \<le> length bs"
  by (simp add: cstr_def length_takeWhile_le)

lemma length_cstr_less: "0 \<in> set bs \<Longrightarrow> length (cstr bs) < length bs"
  by (induction bs) (auto simp: cstr_def)

lemma cstr_id: "0 \<notin> set bs \<Longrightarrow> cstr bs = bs"
  by (induction bs) (auto simp: cstr_def)

text \<open>The bytes of an ASCII literal, as the traced process and the Rust tools write them.\<close>

definition ascii :: "string \<Rightarrow> byte list" where
  "ascii s = map (\<lambda>c. of_nat (of_char c)) s"

lemma length_ascii [simp]: "length (ascii s) = length s"
  by (simp add: ascii_def)

end
