(* ===== verification/CLayout.thy ===== *)
theory CLayout
  imports Prelude
begin

text \<open>
  Data layout of C types on the LP64 targets of the program (the BPF target of clang, and
  \<^verbatim>\<open>repr(C)\<close> in Rust on x86_64 and aarch64): a scalar is aligned to its size, a field is
  placed at the next multiple of its alignment, a bit-field shares its container while it
  fits, and an aggregate is padded to a multiple of its alignment, to which unnamed bit-fields
  do not contribute. Positions are counted in
  bits, so that bit-fields and ordinary fields share one rule; sizes and offsets are in bytes.
\<close>

section \<open>C types and their layout\<close>

datatype ctype =
    Scalar nat
  | Array ctype nat
  | Struct "cfield list"
  | Union "cfield list"
  | Aligned nat ctype
and cfield =
    Field string ctype
  | Bits string nat nat

definition align_up :: "nat \<Rightarrow> nat \<Rightarrow> nat" where
  "align_up n a = (if a = 0 then n else (n + (a - 1)) div a * a)"

fun alignof :: "ctype \<Rightarrow> nat" and alignof_fields :: "cfield list \<Rightarrow> nat" where
  "alignof (Scalar n) = max 1 n"
| "alignof (Array t n) = alignof t"
| "alignof (Struct fs) = alignof_fields fs"
| "alignof (Union fs) = alignof_fields fs"
| "alignof (Aligned a t) = max a (alignof t)"
| "alignof_fields [] = 1"
| "alignof_fields (Field nm t # fs) = max (alignof t) (alignof_fields fs)"
| "alignof_fields (Bits nm sz w # fs) =
     (if nm = [] then alignof_fields fs else max sz (alignof_fields fs))"

text \<open>
  Where a field of the given width starts, in bits, when the fields before it end at
  \<open>pos\<close>. A bit-field starts a new container when it would straddle the current one; a
  zero-width bit-field ends the container.
\<close>

definition place_bits :: "nat \<Rightarrow> nat \<Rightarrow> nat \<Rightarrow> nat" where
  "place_bits pos sz w =
     (if w = 0 \<or> 8 * sz < pos mod (8 * sz) + w then align_up pos (8 * sz) else pos)"

fun sizeof :: "ctype \<Rightarrow> nat" and struct_end :: "nat \<Rightarrow> cfield list \<Rightarrow> nat"
  and union_size :: "cfield list \<Rightarrow> nat" where
  "sizeof (Scalar n) = n"
| "sizeof (Array t n) = n * sizeof t"
| "sizeof (Struct fs) = align_up (struct_end 0 fs) (8 * alignof_fields fs) div 8"
| "sizeof (Union fs) = align_up (union_size fs) (alignof_fields fs)"
| "sizeof (Aligned a t) = align_up (sizeof t) (max a (alignof t))"
| "struct_end pos [] = pos"
| "struct_end pos (Field nm t # fs) =
     struct_end (align_up pos (8 * alignof t) + 8 * sizeof t) fs"
| "struct_end pos (Bits nm sz w # fs) = struct_end (place_bits pos sz w + w) fs"
| "union_size [] = 0"
| "union_size (Field nm t # fs) = max (sizeof t) (union_size fs)"
| "union_size (Bits nm sz w # fs) = max ((w + 7) div 8) (union_size fs)"

fun offset_from :: "nat \<Rightarrow> cfield list \<Rightarrow> string \<Rightarrow> nat option" where
  "offset_from pos [] x = None"
| "offset_from pos (Field nm t # fs) x =
     (let p = align_up pos (8 * alignof t)
      in if nm = x then Some (p div 8) else offset_from (p + 8 * sizeof t) fs x)"
| "offset_from pos (Bits nm sz w # fs) x = offset_from (place_bits pos sz w + w) fs x"

definition offsetof :: "cfield list \<Rightarrow> string \<Rightarrow> nat option" where
  "offsetof fs x = offset_from 0 fs x"

fun field_size :: "cfield list \<Rightarrow> string \<Rightarrow> nat" where
  "field_size [] x = 0"
| "field_size (Field nm t # fs) x = (if nm = x then sizeof t else field_size fs x)"
| "field_size (Bits nm sz w # fs) x = field_size fs x"

text \<open>The layout as a table: name, offset and size of every named field, in one pass.\<close>

fun field_table :: "nat \<Rightarrow> cfield list \<Rightarrow> (string \<times> nat \<times> nat) list" where
  "field_table pos [] = []"
| "field_table pos (Field nm t # fs) =
     (nm, align_up pos (8 * alignof t) div 8, sizeof t) #
     field_table (align_up pos (8 * alignof t) + 8 * sizeof t) fs"
| "field_table pos (Bits nm sz w # fs) = field_table (place_bits pos sz w + w) fs"

text \<open>
  Writing a field of an object (its byte image) and reading it back. A name the struct does
  not have leaves the image alone.
\<close>

definition write_field :: "cfield list \<Rightarrow> string \<Rightarrow> byte list \<Rightarrow> byte list \<Rightarrow> byte list" where
  "write_field fs x v img = (case offsetof fs x of None \<Rightarrow> img | Some off \<Rightarrow> put off v img)"

definition read_field :: "cfield list \<Rightarrow> string \<Rightarrow> byte list \<Rightarrow> byte list" where
  "read_field fs x img =
     (case offsetof fs x of None \<Rightarrow> [] | Some off \<Rightarrow> get off (field_size fs x) img)"

section \<open>Facts about layouts\<close>

lemma align_up_ge: "n \<le> align_up n a"
proof (cases "a = 0")
  case False
  have "n + (a - 1) = (n + (a - 1)) div a * a + (n + (a - 1)) mod a" by simp
  moreover have "(n + (a - 1)) mod a < a" using False by (intro mod_less_divisor) simp
  ultimately show ?thesis using False unfolding align_up_def by (simp only: if_False)
qed (simp add: align_up_def)

lemma align_up_dvd: "0 < a \<Longrightarrow> a dvd align_up n a"
  by (simp add: align_up_def)

lemma align_up_byte: "0 < a \<Longrightarrow> 8 * (align_up n (8 * a) div 8) = align_up n (8 * a)"
proof -
  assume "0 < a"
  then have "8 * a dvd align_up n (8 * a)" by (intro align_up_dvd) simp
  then obtain k where "align_up n (8 * a) = 8 * a * k" by (rule dvdE)
  then show ?thesis by (simp add: mult.assoc)
qed

lemma offset_from_table: "offset_from pos fs x = map_option fst (map_of (field_table pos fs) x)"
  by (induction pos fs rule: field_table.induct) (auto simp: Let_def)

lemma field_size_from_table:
  "field_size fs x = (case map_of (field_table pos fs) x of None \<Rightarrow> 0 | Some (off, n) \<Rightarrow> n)"
  by (induction pos fs rule: field_table.induct) auto

lemma offsetof_table: "offsetof fs x = map_option fst (map_of (field_table 0 fs) x)"
  by (simp add: offsetof_def offset_from_table)

lemma field_size_table:
  "field_size fs x = (case map_of (field_table 0 fs) x of None \<Rightarrow> 0 | Some (off, n) \<Rightarrow> n)"
  by (rule field_size_from_table)

lemma alignof_pos: "0 < alignof t" and alignof_fields_pos: "0 < alignof_fields fs"
  by (induction t and fs rule: alignof_alignof_fields.induct) auto

lemma place_bits_ge: "pos \<le> place_bits pos sz w"
  by (simp add: place_bits_def align_up_ge)

lemma struct_end_ge: "pos \<le> struct_end pos fs"
proof (induction fs arbitrary: pos)
  case (Cons f fs)
  show ?case
  proof (cases f)
    case (Field nm t)
    then show ?thesis
      using Cons [of "align_up pos (8 * alignof t) + 8 * sizeof t"] align_up_ge [of pos "8 * alignof t"]
      by simp
  next
    case (Bits nm sz w)
    then show ?thesis
      using Cons [of "place_bits pos sz w + w"] place_bits_ge [of pos sz w] by simp
  qed
qed simp

text \<open>A named field lies between the end of the fields before it and the end of the struct.\<close>

lemma offset_from_bounds:
  "offset_from pos fs x = Some off \<Longrightarrow>
   pos \<le> 8 * off \<and> 8 * (off + field_size fs x) \<le> struct_end pos fs"
proof (induction fs arbitrary: pos)
  case (Cons f fs)
  show ?case
  proof (cases f)
    case (Field nm t)
    let ?p = "align_up pos (8 * alignof t)"
    have p: "8 * (?p div 8) = ?p" by (rule align_up_byte) (rule alignof_pos)
    have e: "?p + 8 * sizeof t \<le> struct_end (?p + 8 * sizeof t) fs" by (rule struct_end_ge)
    show ?thesis
    proof (cases "nm = x")
      case True
      then show ?thesis
        using Field Cons.prems p e align_up_ge [of pos "8 * alignof t"] by (auto simp: Let_def)
    next
      case False
      then show ?thesis
        using Field Cons.prems Cons.IH [of "?p + 8 * sizeof t"] align_up_ge [of pos "8 * alignof t"]
        by (auto simp: Let_def)
    qed
  next
    case (Bits nm sz w)
    then show ?thesis
      using Cons.prems Cons.IH [of "place_bits pos sz w + w"] place_bits_ge [of pos sz w] by auto
  qed
qed simp

lemma offset_from_disjoint:
  assumes "offset_from pos fs x = Some a" and "offset_from pos fs y = Some b" and "x \<noteq> y"
  shows "a + field_size fs x \<le> b \<or> b + field_size fs y \<le> a"
  using assms
proof (induction fs arbitrary: pos)
  case (Cons f fs)
  show ?case
  proof (cases f)
    case (Field nm t)
    let ?p = "align_up pos (8 * alignof t)"
    have p: "8 * (?p div 8) = ?p" by (rule align_up_byte) (rule alignof_pos)
    show ?thesis
      using Field Cons.prems Cons.IH [of "?p + 8 * sizeof t"] p
        offset_from_bounds [of "?p + 8 * sizeof t" fs x a]
        offset_from_bounds [of "?p + 8 * sizeof t" fs y b]
      by (auto simp: Let_def split: if_splits)
  next
    case (Bits nm sz w)
    then show ?thesis using Cons by auto
  qed
qed simp

lemma struct_end_le_sizeof: "struct_end 0 fs \<le> 8 * sizeof (Struct fs)"
  using align_up_ge [of "struct_end 0 fs" "8 * alignof_fields fs"]
  by (simp add: align_up_byte alignof_fields_pos)

lemma offsetof_fits:
  "offsetof fs x = Some off \<Longrightarrow> off + field_size fs x \<le> sizeof (Struct fs)"
  using offset_from_bounds [of 0 fs x off] struct_end_le_sizeof [of fs]
  by (simp add: offsetof_def)

section \<open>Reading a field after writing one\<close>

definition has_field :: "cfield list \<Rightarrow> string \<Rightarrow> bool" where
  "has_field fs x \<longleftrightarrow> offsetof fs x \<noteq> None"

lemma length_write_field [simp]:
  "length img = sizeof (Struct fs) \<Longrightarrow> length v = field_size fs x \<Longrightarrow>
   length (write_field fs x v img) = sizeof (Struct fs)"
  using offsetof_fits [of fs x] by (auto simp: write_field_def split: option.splits)

lemma read_write_same:
  "has_field fs x \<Longrightarrow> length img = sizeof (Struct fs) \<Longrightarrow> length v = field_size fs x \<Longrightarrow>
   read_field fs x (write_field fs x v img) = v"
  using offsetof_fits [of fs x]
  by (auto simp: write_field_def read_field_def has_field_def split: option.splits)

lemma read_write_other:
  assumes "x \<noteq> y" and "length img = sizeof (Struct fs)" and "length v = field_size fs y"
  shows "read_field fs x (write_field fs y v img) = read_field fs x img"
proof (cases "offsetof fs x")
  case (Some a)
  show ?thesis
  proof (cases "offsetof fs y")
    case (Some b)
    have "a + field_size fs x \<le> b \<or> b + field_size fs y \<le> a"
      using offset_from_disjoint [of 0 fs x a y b] Some \<open>offsetof fs x = Some a\<close> assms(1)
      by (simp add: offsetof_def)
    then show ?thesis
      using Some \<open>offsetof fs x = Some a\<close> assms(2,3) offsetof_fits [of fs y b]
      by (simp add: read_field_def write_field_def)
  qed (simp add: write_field_def)
qed (simp add: read_field_def)

lemma read_field_append [simp]:
  "length img = sizeof (Struct fs) \<Longrightarrow> read_field fs x (img @ rest) = read_field fs x img"
  using offsetof_fits [of fs x] by (auto simp: read_field_def split: option.splits)

lemma length_read_field:
  "has_field fs x \<Longrightarrow> sizeof (Struct fs) \<le> length img \<Longrightarrow>
   length (read_field fs x img) = field_size fs x"
  using offsetof_fits [of fs x] by (auto simp: read_field_def has_field_def split: option.splits)

text \<open>
  Writing all fields of an object over what its memory held before: padding keeps its old
  contents. \<open>fields_ok\<close> is the side condition (each name a field, written once, at its size).
\<close>

definition write_fields :: "cfield list \<Rightarrow> (string \<times> byte list) list \<Rightarrow> byte list \<Rightarrow> byte list" where
  "write_fields fs us img = fold (\<lambda>(x, v). write_field fs x v) us img"

definition fields_ok :: "cfield list \<Rightarrow> (string \<times> byte list) list \<Rightarrow> bool" where
  "fields_ok fs us \<longleftrightarrow> distinct (map fst us) \<and>
     list_all (\<lambda>(x, v). has_field fs x \<and> length v = field_size fs x) us"

lemma fields_ok_Cons:
  "fields_ok fs ((x, v) # us) \<longleftrightarrow>
   x \<notin> fst ` set us \<and> has_field fs x \<and> length v = field_size fs x \<and> fields_ok fs us"
  by (auto simp: fields_ok_def)

lemma length_write_fields:
  "fields_ok fs us \<Longrightarrow> length img = sizeof (Struct fs) \<Longrightarrow>
   length (write_fields fs us img) = sizeof (Struct fs)"
  unfolding write_fields_def
  by (induction us arbitrary: img) (auto simp: fields_ok_Cons split: prod.splits simp del: sizeof.simps)

lemma read_write_fields_other:
  "fields_ok fs us \<Longrightarrow> length img = sizeof (Struct fs) \<Longrightarrow> x \<notin> fst ` set us \<Longrightarrow>
   read_field fs x (write_fields fs us img) = read_field fs x img"
  unfolding write_fields_def
proof (induction us arbitrary: img)
  case (Cons u us)
  obtain y v where u: "u = (y, v)" by (cases u)
  have l: "length (write_field fs y v img) = sizeof (Struct fs)"
    using Cons.prems u by (simp add: fields_ok_Cons del: sizeof.simps)
  have o: "read_field fs x (write_field fs y v img) = read_field fs x img"
    using Cons.prems u by (intro read_write_other) (auto simp: fields_ok_Cons)
  show ?case
    using Cons.IH [OF _ l] Cons.prems u o by (simp add: fields_ok_Cons del: sizeof.simps)
qed simp

lemma read_write_fields:
  "fields_ok fs us \<Longrightarrow> length img = sizeof (Struct fs) \<Longrightarrow> (x, v) \<in> set us \<Longrightarrow>
   read_field fs x (write_fields fs us img) = v"
proof (induction us arbitrary: img)
  case (Cons u us)
  obtain y w where u: "u = (y, w)" by (cases u)
  have l: "length (write_field fs y w img) = sizeof (Struct fs)"
    using Cons.prems u by (simp add: fields_ok_Cons del: sizeof.simps)
  have step: "write_fields fs ((y, w) # us) img = write_fields fs us (write_field fs y w img)"
    by (simp add: write_fields_def)
  show ?case
  proof (cases "(x, v) = (y, w)")
    case True
    have "read_field fs y (write_field fs y w img) = w"
      using Cons.prems u by (intro read_write_same) (auto simp: fields_ok_Cons)
    then show ?thesis
      using read_write_fields_other [OF _ l, of us y] Cons.prems(1) True
      by (simp add: step u fields_ok_Cons)
  next
    case False
    then show ?thesis
      using Cons.IH [OF _ l] Cons.prems u by (auto simp: step fields_ok_Cons simp del: sizeof.simps)
  qed
qed simp

lemma write_fields_parts:
  "fields_ok fs us \<Longrightarrow> length img = sizeof (Struct fs) \<Longrightarrow>
   length (write_fields fs us img) = sizeof (Struct fs) \<and>
   list_all (\<lambda>(x, v). read_field fs x (write_fields fs us img) = v) us"
  using length_write_fields read_write_fields [of fs us img]
  by (auto simp: list_all_iff simp del: sizeof.simps)

text \<open>Two layouts that put a field at the same place read it alike.\<close>

lemma read_field_cong:
  "map_of (field_table 0 fs) x = map_of (field_table 0 gs) y \<Longrightarrow>
   read_field fs x img = read_field gs y img"
  by (simp add: read_field_def offsetof_table field_size_table split: option.split)

lemmas table_simps = offsetof_table field_size_table

text \<open>The scalar types of the program, as its headers name them.\<close>

abbreviation char_t :: ctype where "char_t \<equiv> Scalar 1"
abbreviation bool_t :: ctype where "bool_t \<equiv> Scalar 1"
abbreviation u8_t :: ctype where "u8_t \<equiv> Scalar 1"
abbreviation u32_t :: ctype where "u32_t \<equiv> Scalar 4"
abbreviation s32_t :: ctype where "s32_t \<equiv> Scalar 4"
abbreviation u64_t :: ctype where "u64_t \<equiv> Scalar 8"
abbreviation s64_t :: ctype where "s64_t \<equiv> Scalar 8"

abbreviation ptr_t :: ctype where "ptr_t \<equiv> Scalar 8"
abbreviation enum_t :: ctype where "enum_t \<equiv> Scalar 4"

section \<open>Runs of unnamed bit-fields\<close>

text \<open>
  Padding written as a run of unnamed 64-bit bit-fields, as the kernel headers do, goes to the
  next multiple of 64 bits and then advances by 64 bits each.
\<close>

lemma place_bits_word: "place_bits pos 8 64 = align_up pos 64"
  by (auto simp: place_bits_def align_up_def)

lemma align_up_word: "64 dvd pos \<Longrightarrow> align_up pos 64 = pos" and dvd_align_up_word: "64 dvd align_up pos 64"
  by (auto simp: align_up_def)

lemma struct_end_padding_dvd:
  "64 dvd pos \<Longrightarrow> struct_end pos (replicate n (Bits nm 8 64) @ fs) = struct_end (pos + 64 * n) fs"
  by (induction n arbitrary: pos) (simp_all add: place_bits_word align_up_word add.assoc)

lemma offset_from_padding_dvd:
  "64 dvd pos \<Longrightarrow> offset_from pos (replicate n (Bits nm 8 64) @ fs) x = offset_from (pos + 64 * n) fs x"
  by (induction n arbitrary: pos) (simp_all add: place_bits_word align_up_word add.assoc)

lemma struct_end_padding:
  "0 < n \<Longrightarrow> struct_end pos (replicate n (Bits nm 8 64) @ fs) = struct_end (align_up pos 64 + 64 * n) fs"
  by (cases n) (simp_all add: place_bits_word struct_end_padding_dvd dvd_align_up_word add.assoc)

lemma offset_from_padding:
  "0 < n \<Longrightarrow> offset_from pos (replicate n (Bits nm 8 64) @ fs) x =
     offset_from (align_up pos 64 + 64 * n) fs x"
  by (cases n) (simp_all add: place_bits_word offset_from_padding_dvd dvd_align_up_word add.assoc)

text \<open>Looking up an offset one member at a time, with the position computed at once.\<close>

lemma offset_from_steps:
  "nm \<noteq> x \<Longrightarrow> offset_from pos (Field nm t # fs) x =
     offset_from (align_up pos (8 * alignof t) + 8 * sizeof t) fs x"
  "offset_from pos (Field x t # fs) x = Some (align_up pos (8 * alignof t) div 8)"
  by (simp_all add: Let_def)

lemma alignof_fields_append:
  "alignof_fields (fs @ gs) = max (alignof_fields fs) (alignof_fields gs)"
proof (induction fs)
  case (Cons f fs)
  then show ?case by (cases f) auto
qed (use alignof_fields_pos [of gs] in simp)

lemma alignof_padding: "alignof_fields (replicate n (Bits [] sz w)) = 1"
  by (induction n) auto

end
