(* ===== verification/TracingTypes.thy ===== *)
theory TracingTypes
  imports CLayout
begin

text \<open>
  The data of \<^verbatim>\<open>extractors/ebpf/src/bpf/tracing.bpf.c\<close>: the size macros, the ring buffer
  maps, and the C structs the handlers fill. A struct is a record; its layout is the list of
  its fields with their C types, and \<open>X_image m old\<close> is the bytes of the object \<open>m\<close> in memory
  that held \<open>old\<close> before (the padding keeps its old contents).
\<close>

section \<open>Size macros\<close>

definition MAX_PEER_ADDR_LENGTH :: nat where "MAX_PEER_ADDR_LENGTH = 62 + 6"
definition MAX_PEER_CONN_TYPE_LENGTH :: nat where "MAX_PEER_CONN_TYPE_LENGTH = 20"
definition MAX_MSG_TYPE_LENGTH :: nat where "MAX_MSG_TYPE_LENGTH = 12"
definition MAX_SMALL_MSG_LENGTH :: nat where "MAX_SMALL_MSG_LENGTH = 256"
definition MAX_MEDIUM_MSG_LENGTH :: nat where "MAX_MEDIUM_MSG_LENGTH = 4096"
definition MAX_LARGE_MSG_LENGTH :: nat where "MAX_LARGE_MSG_LENGTH = 65536"
definition MAX_HUGE_MSG_LENGTH :: nat where "MAX_HUGE_MSG_LENGTH = 4194304"
definition PAGE_SIZE :: nat where "PAGE_SIZE = 4096"
definition NET_MSG_PAGES :: nat where "NET_MSG_PAGES = 128"
definition METADATA_SIZE :: nat where
  "METADATA_SIZE =
     8 + MAX_PEER_ADDR_LENGTH + MAX_PEER_CONN_TYPE_LENGTH + MAX_MSG_TYPE_LENGTH + 1 + 8"
definition MAX_MISBEHAVING_MESSAGE_LENGTH :: nat where "MAX_MISBEHAVING_MESSAGE_LENGTH = 128"
definition NET_CONN_PAGES :: nat where "NET_CONN_PAGES = 64"
definition MEMPOOL_PAGES :: nat where "MEMPOOL_PAGES = 64"
definition TXID_LENGHT :: nat where "TXID_LENGHT = 32"
definition REMOVAL_REASON_LENGTH :: nat where "REMOVAL_REASON_LENGTH = 9"
definition REJECTION_REASON_LENGTH :: nat where "REJECTION_REASON_LENGTH = 113"
definition VALIDATION_BLOCK_CONNECTED_PAGES :: nat where "VALIDATION_BLOCK_CONNECTED_PAGES = 64"
definition HASH_LENGHT :: nat where "HASH_LENGHT = 32"

lemmas macro_defs =
  MAX_PEER_ADDR_LENGTH_def MAX_PEER_CONN_TYPE_LENGTH_def MAX_MSG_TYPE_LENGTH_def
  MAX_SMALL_MSG_LENGTH_def MAX_MEDIUM_MSG_LENGTH_def MAX_LARGE_MSG_LENGTH_def
  MAX_HUGE_MSG_LENGTH_def PAGE_SIZE_def NET_MSG_PAGES_def METADATA_SIZE_def MAX_MISBEHAVING_MESSAGE_LENGTH_def
  NET_CONN_PAGES_def MEMPOOL_PAGES_def TXID_LENGHT_def REMOVAL_REASON_LENGTH_def
  REJECTION_REASON_LENGTH_def VALIDATION_BLOCK_CONNECTED_PAGES_def HASH_LENGHT_def

section \<open>Ring buffer maps\<close>

datatype ring =
    net_msg_small | net_msg_medium | net_msg_large | net_msg_huge
  | net_conn_inbound | net_conn_outbound | net_conn_closed | net_conn_inbound_evicted
  | net_conn_misbehaving
  | mempool_added | mempool_removed | mempool_replaced | mempool_rejected
  | validation_block_connected

text \<open>The \<^verbatim>\<open>max_entries\<close> each \<^verbatim>\<open>RINGBUFFER\<close> declaration asks for, in bytes.\<close>

fun max_entries :: "ring \<Rightarrow> nat" where
  "max_entries net_msg_small = (MAX_SMALL_MSG_LENGTH + METADATA_SIZE) * 1024"
| "max_entries net_msg_medium = (MAX_MEDIUM_MSG_LENGTH + METADATA_SIZE) * 1024"
| "max_entries net_msg_large = (MAX_LARGE_MSG_LENGTH + METADATA_SIZE) * 1024"
| "max_entries net_msg_huge = (MAX_HUGE_MSG_LENGTH + METADATA_SIZE) * 128"
| "max_entries net_conn_inbound = NET_CONN_PAGES"
| "max_entries net_conn_outbound = NET_CONN_PAGES"
| "max_entries net_conn_closed = NET_CONN_PAGES"
| "max_entries net_conn_inbound_evicted = NET_CONN_PAGES"
| "max_entries net_conn_misbehaving = NET_CONN_PAGES"
| "max_entries mempool_added = MEMPOOL_PAGES"
| "max_entries mempool_removed = MEMPOOL_PAGES"
| "max_entries mempool_replaced = MEMPOOL_PAGES"
| "max_entries mempool_rejected = MEMPOOL_PAGES"
| "max_entries validation_block_connected = VALIDATION_BLOCK_CONNECTED_PAGES"

section \<open>P2P messages\<close>

record Metadata =
  md_id :: u64
  md_addr :: "byte list"
  md_conn_type :: "byte list"
  md_msg_type :: "byte list"
  md_msg_inbound :: bool
  md_msg_size :: u64

definition Metadata_layout :: "cfield list" where
  "Metadata_layout =
     [Field ''id'' u64_t,
      Field ''addr'' (Array char_t MAX_PEER_ADDR_LENGTH),
      Field ''conn_type'' (Array char_t MAX_PEER_CONN_TYPE_LENGTH),
      Field ''msg_type'' (Array char_t MAX_MSG_TYPE_LENGTH),
      Field ''msg_inbound'' bool_t,
      Field ''msg_size'' u64_t]"

text \<open>
  \<^verbatim>\<open>SmallP2PMessage\<close>, \<^verbatim>\<open>MediumP2PMessage\<close>, \<^verbatim>\<open>LargeP2PMessage\<close> and \<^verbatim>\<open>HugeP2PMessage\<close> have the
  same two fields and differ in the length of the payload array.
\<close>

record P2PMessage_c =
  msg_meta :: Metadata
  msg_payload :: "byte list"

definition P2PMessage_layout :: "nat \<Rightarrow> cfield list" where
  "P2PMessage_layout cap =
     [Field ''meta'' (Struct Metadata_layout), Field ''payload'' (Array u8_t cap)]"

definition SmallP2PMessage :: "cfield list" where
  "SmallP2PMessage = P2PMessage_layout MAX_SMALL_MSG_LENGTH"

definition MediumP2PMessage :: "cfield list" where
  "MediumP2PMessage = P2PMessage_layout MAX_MEDIUM_MSG_LENGTH"

definition LargeP2PMessage :: "cfield list" where
  "LargeP2PMessage = P2PMessage_layout MAX_LARGE_MSG_LENGTH"

definition HugeP2PMessage :: "cfield list" where
  "HugeP2PMessage = P2PMessage_layout MAX_HUGE_MSG_LENGTH"

definition bool_byte :: "bool \<Rightarrow> byte" where
  "bool_byte b = (if b then 1 else 0)"

definition Metadata_fields :: "Metadata \<Rightarrow> (string \<times> byte list) list" where
  "Metadata_fields m =
     [(''id'', le_bytes 8 (md_id m)), (''addr'', md_addr m), (''conn_type'', md_conn_type m),
      (''msg_type'', md_msg_type m), (''msg_inbound'', [bool_byte (md_msg_inbound m)]),
      (''msg_size'', le_bytes 8 (md_msg_size m))]"

definition Metadata_image :: "Metadata \<Rightarrow> byte list \<Rightarrow> byte list" where
  "Metadata_image m old = write_fields Metadata_layout (Metadata_fields m) old"

definition P2PMessage_image :: "cfield list \<Rightarrow> P2PMessage_c \<Rightarrow> byte list \<Rightarrow> byte list" where
  "P2PMessage_image fs m old =
     write_fields fs
       [(''meta'', Metadata_image (msg_meta m) (read_field fs ''meta'' old)),
        (''payload'', msg_payload m)] old"

text \<open>What an object in uninitialised ring buffer memory holds before it is written.\<close>

definition Metadata_at :: "byte list \<Rightarrow> Metadata" where
  "Metadata_at img =
     \<lparr>md_id = le_word (read_field Metadata_layout ''id'' img),
      md_addr = read_field Metadata_layout ''addr'' img,
      md_conn_type = read_field Metadata_layout ''conn_type'' img,
      md_msg_type = read_field Metadata_layout ''msg_type'' img,
      md_msg_inbound = (read_field Metadata_layout ''msg_inbound'' img \<noteq> [0]),
      md_msg_size = le_word (read_field Metadata_layout ''msg_size'' img)\<rparr>"

definition P2PMessage_at :: "cfield list \<Rightarrow> byte list \<Rightarrow> P2PMessage_c" where
  "P2PMessage_at fs img =
     \<lparr>msg_meta = Metadata_at (read_field fs ''meta'' img),
      msg_payload = read_field fs ''payload'' img\<rparr>"

section \<open>Connections\<close>

record Connection_c =
  cc_id :: u64
  cc_addr :: "byte list"
  cc_type :: "byte list"
  cc_network :: u32

definition Connection_layout :: "cfield list" where
  "Connection_layout =
     [Field ''id'' u64_t,
      Field ''addr'' (Array char_t MAX_PEER_ADDR_LENGTH),
      Field ''type'' (Array char_t MAX_PEER_CONN_TYPE_LENGTH),
      Field ''network'' u32_t]"

definition Connection_fields :: "Connection_c \<Rightarrow> (string \<times> byte list) list" where
  "Connection_fields c =
     [(''id'', le_bytes 8 (cc_id c)), (''addr'', cc_addr c), (''type'', cc_type c),
      (''network'', le_bytes 4 (cc_network c))]"

definition Connection_image :: "Connection_c \<Rightarrow> byte list \<Rightarrow> byte list" where
  "Connection_image c old = write_fields Connection_layout (Connection_fields c) old"

definition Connection_zero :: Connection_c where
  "Connection_zero =
     \<lparr>cc_id = 0, cc_addr = replicate MAX_PEER_ADDR_LENGTH 0,
      cc_type = replicate MAX_PEER_CONN_TYPE_LENGTH 0, cc_network = 0\<rparr>"

text \<open>
  \<^verbatim>\<open>ClosedConnection\<close>, \<^verbatim>\<open>InboundConnection\<close> and \<^verbatim>\<open>OutboundConnection\<close> are a \<^verbatim>\<open>Connection\<close>
  followed by one \<^verbatim>\<open>u64\<close>.
\<close>

record ClosedConnection_c =
  closed_conn :: Connection_c
  closed_time_established :: u64

definition ClosedConnection_layout :: "cfield list" where
  "ClosedConnection_layout =
     [Field ''conn'' (Struct Connection_layout), Field ''time_established'' u64_t]"

definition ClosedConnection_image :: "ClosedConnection_c \<Rightarrow> byte list \<Rightarrow> byte list" where
  "ClosedConnection_image c old =
     write_fields ClosedConnection_layout
       [(''conn'', Connection_image (closed_conn c) (read_field ClosedConnection_layout ''conn'' old)),
        (''time_established'', le_bytes 8 (closed_time_established c))] old"

record InboundConnection_c =
  inbound_conn :: Connection_c
  inbound_existing_connections :: u64

definition InboundConnection_layout :: "cfield list" where
  "InboundConnection_layout =
     [Field ''conn'' (Struct Connection_layout), Field ''existing_connections'' u64_t]"

definition InboundConnection_image :: "InboundConnection_c \<Rightarrow> byte list \<Rightarrow> byte list" where
  "InboundConnection_image c old =
     write_fields InboundConnection_layout
       [(''conn'', Connection_image (inbound_conn c) (read_field InboundConnection_layout ''conn'' old)),
        (''existing_connections'', le_bytes 8 (inbound_existing_connections c))] old"

record OutboundConnection_c =
  outbound_conn :: Connection_c
  outbound_existing_connections :: u64

definition OutboundConnection_layout :: "cfield list" where
  "OutboundConnection_layout =
     [Field ''conn'' (Struct Connection_layout), Field ''existing_connections'' u64_t]"

definition OutboundConnection_image :: "OutboundConnection_c \<Rightarrow> byte list \<Rightarrow> byte list" where
  "OutboundConnection_image c old =
     write_fields OutboundConnection_layout
       [(''conn'', Connection_image (outbound_conn c) (read_field OutboundConnection_layout ''conn'' old)),
        (''existing_connections'', le_bytes 8 (outbound_existing_connections c))] old"

record MisbehavingConnection_c =
  misb_id :: u64
  misb_message :: "byte list"

definition MisbehavingConnection_layout :: "cfield list" where
  "MisbehavingConnection_layout =
     [Field ''id'' u64_t, Field ''message'' (Array char_t MAX_MISBEHAVING_MESSAGE_LENGTH)]"

definition MisbehavingConnection_image :: "MisbehavingConnection_c \<Rightarrow> byte list \<Rightarrow> byte list" where
  "MisbehavingConnection_image c old =
     write_fields MisbehavingConnection_layout
       [(''id'', le_bytes 8 (misb_id c)), (''message'', misb_message c)] old"

section \<open>Mempool\<close>

record MempoolAdded_c =
  added_txid :: "byte list"
  added_vsize :: s32
  added_fee :: s64

definition MempoolAdded_layout :: "cfield list" where
  "MempoolAdded_layout =
     [Field ''txid'' (Array u8_t TXID_LENGHT), Field ''vsize'' s32_t, Field ''fee'' s64_t]"

definition MempoolAdded_image :: "MempoolAdded_c \<Rightarrow> byte list \<Rightarrow> byte list" where
  "MempoolAdded_image a old =
     write_fields MempoolAdded_layout
       [(''txid'', added_txid a), (''vsize'', le_bytes 4 (added_vsize a)),
        (''fee'', le_bytes 8 (added_fee a))] old"

record MempoolRemoved_c =
  removed_txid :: "byte list"
  removed_reason :: "byte list"
  removed_vsize :: s32
  removed_fee :: s64
  removed_entry_time :: u64

definition MempoolRemoved_layout :: "cfield list" where
  "MempoolRemoved_layout =
     [Field ''txid'' (Array u8_t TXID_LENGHT),
      Field ''reason'' (Array char_t REMOVAL_REASON_LENGTH),
      Field ''vsize'' s32_t, Field ''fee'' s64_t, Field ''entry_time'' u64_t]"

definition MempoolRemoved_image :: "MempoolRemoved_c \<Rightarrow> byte list \<Rightarrow> byte list" where
  "MempoolRemoved_image r old =
     write_fields MempoolRemoved_layout
       [(''txid'', removed_txid r), (''reason'', removed_reason r),
        (''vsize'', le_bytes 4 (removed_vsize r)), (''fee'', le_bytes 8 (removed_fee r)),
        (''entry_time'', le_bytes 8 (removed_entry_time r))] old"

record MempoolReplaced_c =
  repl_replaced_txid :: "byte list"
  repl_replaced_vsize :: s32
  repl_replaced_fee :: s64
  repl_replaced_entry_time :: u64
  repl_replacement_id :: "byte list"
  repl_replacement_vsize :: s32
  repl_replacement_fee :: s64
  repl_replaced_by_transaction :: bool

definition MempoolReplaced_layout :: "cfield list" where
  "MempoolReplaced_layout =
     [Field ''replaced_txid'' (Array u8_t TXID_LENGHT),
      Field ''replaced_vsize'' s32_t,
      Field ''replaced_fee'' s64_t,
      Field ''replaced_entry_time'' u64_t,
      Field ''replacement_id'' (Array u8_t TXID_LENGHT),
      Field ''replacement_vsize'' s32_t,
      Field ''replacement_fee'' s64_t,
      Field ''replaced_by_transaction'' bool_t]"

definition MempoolReplaced_image :: "MempoolReplaced_c \<Rightarrow> byte list \<Rightarrow> byte list" where
  "MempoolReplaced_image r old =
     write_fields MempoolReplaced_layout
       [(''replaced_txid'', repl_replaced_txid r),
        (''replaced_vsize'', le_bytes 4 (repl_replaced_vsize r)),
        (''replaced_fee'', le_bytes 8 (repl_replaced_fee r)),
        (''replaced_entry_time'', le_bytes 8 (repl_replaced_entry_time r)),
        (''replacement_id'', repl_replacement_id r),
        (''replacement_vsize'', le_bytes 4 (repl_replacement_vsize r)),
        (''replacement_fee'', le_bytes 8 (repl_replacement_fee r)),
        (''replaced_by_transaction'', [bool_byte (repl_replaced_by_transaction r)])] old"

record MempoolRejected_c =
  rej_txid :: "byte list"
  rej_reason :: "byte list"

definition MempoolRejected_layout :: "cfield list" where
  "MempoolRejected_layout =
     [Field ''txid'' (Array u8_t TXID_LENGHT),
      Field ''reason'' (Array char_t REJECTION_REASON_LENGTH)]"

definition MempoolRejected_image :: "MempoolRejected_c \<Rightarrow> byte list \<Rightarrow> byte list" where
  "MempoolRejected_image r old =
     write_fields MempoolRejected_layout
       [(''txid'', rej_txid r), (''reason'', rej_reason r)] old"

section \<open>Validation\<close>

record BlockConnected_c =
  bc_hash :: "byte list"
  bc_height :: s32
  bc_transactions :: u64
  bc_inputs :: s32
  bc_sigops :: u64
  bc_connection_time :: u64

definition BlockConnected_layout :: "cfield list" where
  "BlockConnected_layout =
     [Field ''hash'' (Array u8_t HASH_LENGHT),
      Field ''height'' s32_t,
      Field ''transactions'' u64_t,
      Field ''inputs'' s32_t,
      Field ''sigops'' u64_t,
      Field ''connection_time'' u64_t]"

definition BlockConnected_image :: "BlockConnected_c \<Rightarrow> byte list \<Rightarrow> byte list" where
  "BlockConnected_image b old =
     write_fields BlockConnected_layout
       [(''hash'', bc_hash b), (''height'', le_bytes 4 (bc_height b)),
        (''transactions'', le_bytes 8 (bc_transactions b)),
        (''inputs'', le_bytes 4 (bc_inputs b)), (''sigops'', le_bytes 8 (bc_sigops b)),
        (''connection_time'', le_bytes 8 (bc_connection_time b))] old"

section \<open>Computed sizes\<close>

lemmas layout_defs =
  Metadata_layout_def P2PMessage_layout_def SmallP2PMessage_def MediumP2PMessage_def
  LargeP2PMessage_def HugeP2PMessage_def Connection_layout_def ClosedConnection_layout_def
  InboundConnection_layout_def OutboundConnection_layout_def MisbehavingConnection_layout_def
  MempoolAdded_layout_def MempoolRemoved_layout_def MempoolReplaced_layout_def
  MempoolRejected_layout_def BlockConnected_layout_def

lemma sizeof_Metadata [layout_simps]: "sizeof (Struct Metadata_layout) = 120"
  by (simp add: layout_defs macro_defs align_up_def)

lemma sizeof_SmallP2PMessage [layout_simps]: "sizeof (Struct SmallP2PMessage) = 376"
  by (simp add: layout_defs macro_defs align_up_def)

lemma sizeof_MediumP2PMessage [layout_simps]: "sizeof (Struct MediumP2PMessage) = 4216"
  by (simp add: layout_defs macro_defs align_up_def)

lemma sizeof_LargeP2PMessage [layout_simps]: "sizeof (Struct LargeP2PMessage) = 65656"
  by (simp add: layout_defs macro_defs align_up_def)

lemma sizeof_HugeP2PMessage [layout_simps]: "sizeof (Struct HugeP2PMessage) = 4194424"
  by (simp add: layout_defs macro_defs align_up_def)

lemma sizeof_Connection [layout_simps]: "sizeof (Struct Connection_layout) = 104"
  by (simp add: layout_defs macro_defs align_up_def)

lemma sizeof_ClosedConnection [layout_simps]: "sizeof (Struct ClosedConnection_layout) = 112"
  by (simp add: layout_defs macro_defs align_up_def)

lemma sizeof_InboundConnection [layout_simps]: "sizeof (Struct InboundConnection_layout) = 112"
  by (simp add: layout_defs macro_defs align_up_def)

lemma sizeof_OutboundConnection [layout_simps]: "sizeof (Struct OutboundConnection_layout) = 112"
  by (simp add: layout_defs macro_defs align_up_def)

lemma sizeof_MisbehavingConnection [layout_simps]:
  "sizeof (Struct MisbehavingConnection_layout) = 136"
  by (simp add: layout_defs macro_defs align_up_def)

lemma sizeof_MempoolAdded [layout_simps]: "sizeof (Struct MempoolAdded_layout) = 48"
  by (simp add: layout_defs macro_defs align_up_def)

lemma sizeof_MempoolRemoved [layout_simps]: "sizeof (Struct MempoolRemoved_layout) = 64"
  by (simp add: layout_defs macro_defs align_up_def)

lemma sizeof_MempoolReplaced [layout_simps]: "sizeof (Struct MempoolReplaced_layout) = 112"
  by (simp add: layout_defs macro_defs align_up_def)

lemma sizeof_MempoolRejected [layout_simps]: "sizeof (Struct MempoolRejected_layout) = 145"
  by (simp add: layout_defs macro_defs align_up_def)

lemma sizeof_BlockConnected [layout_simps]: "sizeof (Struct BlockConnected_layout) = 72"
  by (simp add: layout_defs macro_defs align_up_def)

section \<open>Computed fields\<close>

lemmas layout_calc =
  layout_defs macro_defs align_up_def offsetof_def has_field_def Let_def

lemma Metadata_table [layout_simps]:
  "field_table 0 Metadata_layout =
     [(''id'', 0, 8), (''addr'', 8, 68), (''conn_type'', 76, 20), (''msg_type'', 96, 12),
      (''msg_inbound'', 108, 1), (''msg_size'', 112, 8)]"
  by (simp add: layout_calc)

lemma Metadata_offsets [layout_simps]:
  "offsetof Metadata_layout ''id'' = Some 0"
  "offsetof Metadata_layout ''addr'' = Some 8"
  "offsetof Metadata_layout ''conn_type'' = Some 76"
  "offsetof Metadata_layout ''msg_type'' = Some 96"
  "offsetof Metadata_layout ''msg_inbound'' = Some 108"
  "offsetof Metadata_layout ''msg_size'' = Some 112"
  by (simp_all add: table_simps Metadata_table)

lemma Metadata_field_sizes [layout_simps]:
  "field_size Metadata_layout ''id'' = 8"
  "field_size Metadata_layout ''addr'' = 68"
  "field_size Metadata_layout ''conn_type'' = 20"
  "field_size Metadata_layout ''msg_type'' = 12"
  "field_size Metadata_layout ''msg_inbound'' = 1"
  "field_size Metadata_layout ''msg_size'' = 8"
  by (simp_all add: table_simps Metadata_table)

lemma P2PMessage_offsets [layout_simps]:
  "offsetof (P2PMessage_layout cap) ''meta'' = Some 0"
  "offsetof (P2PMessage_layout cap) ''payload'' = Some 120"
  by (simp_all add: layout_calc)

lemma P2PMessage_field_sizes [layout_simps]:
  "field_size (P2PMessage_layout cap) ''meta'' = 120"
  "field_size (P2PMessage_layout cap) ''payload'' = cap"
  by (simp_all add: layout_calc)

text \<open>The character arrays of an object have the declared lengths.\<close>

definition Metadata_wf :: "Metadata \<Rightarrow> bool" where
  "Metadata_wf m \<longleftrightarrow> length (md_addr m) = MAX_PEER_ADDR_LENGTH \<and>
     length (md_conn_type m) = MAX_PEER_CONN_TYPE_LENGTH \<and>
     length (md_msg_type m) = MAX_MSG_TYPE_LENGTH"

definition P2PMessage_wf :: "nat \<Rightarrow> P2PMessage_c \<Rightarrow> bool" where
  "P2PMessage_wf cap m \<longleftrightarrow> Metadata_wf (msg_meta m) \<and> length (msg_payload m) = cap"

lemma Metadata_fields_ok: "Metadata_wf m \<Longrightarrow> fields_ok Metadata_layout (Metadata_fields m)"
  by (simp add: fields_ok_def Metadata_fields_def Metadata_wf_def has_field_def layout_simps macro_defs)

lemma length_Metadata_image:
  "Metadata_wf m \<Longrightarrow> length old = 120 \<Longrightarrow> length (Metadata_image m old) = 120"
  using length_write_fields [OF Metadata_fields_ok, of m old]
  by (simp add: Metadata_image_def sizeof_Metadata del: sizeof.simps)

lemma read_Metadata:
  assumes "Metadata_wf m" and "length old = 120"
  shows "read_field Metadata_layout ''id'' (Metadata_image m old) = le_bytes 8 (md_id m)"
    and "read_field Metadata_layout ''addr'' (Metadata_image m old) = md_addr m"
    and "read_field Metadata_layout ''conn_type'' (Metadata_image m old) = md_conn_type m"
    and "read_field Metadata_layout ''msg_type'' (Metadata_image m old) = md_msg_type m"
    and "read_field Metadata_layout ''msg_inbound'' (Metadata_image m old) =
           [bool_byte (md_msg_inbound m)]"
    and "read_field Metadata_layout ''msg_size'' (Metadata_image m old) = le_bytes 8 (md_msg_size m)"
  unfolding Metadata_image_def
  by (rule read_write_fields [OF Metadata_fields_ok];
      use assms in \<open>simp add: sizeof_Metadata Metadata_fields_def del: sizeof.simps\<close>)+

lemma Metadata_at_wf: "length img = 120 \<Longrightarrow> Metadata_wf (Metadata_at img)"
  by (simp add: Metadata_at_def Metadata_wf_def read_field_def layout_simps macro_defs)

lemma Metadata_at_image:
  "Metadata_wf m \<Longrightarrow> length old = 120 \<Longrightarrow> Metadata_at (Metadata_image m old) = m"
  by (simp add: Metadata_at_def read_Metadata bool_byte_def)

text \<open>The four message structs have no padding at the end: their payload lengths are multiples of 8.\<close>

lemma sizeof_P2PMessage: "8 dvd cap \<Longrightarrow> sizeof (Struct (P2PMessage_layout cap)) = 120 + cap"
  by (auto simp: layout_calc elim!: dvdE)

lemma P2PMessage_fields_ok:
  "length meta = 120 \<Longrightarrow> length pl = cap \<Longrightarrow>
   fields_ok (P2PMessage_layout cap) [(''meta'', meta), (''payload'', pl)]"
  by (simp add: fields_ok_def has_field_def layout_simps)

lemma P2PMessage_image_parts:
  assumes "P2PMessage_wf cap m" and "8 dvd cap" and "length old = 120 + cap"
  shows "length (P2PMessage_image (P2PMessage_layout cap) m old) = 120 + cap"
    and "read_field (P2PMessage_layout cap) ''meta'' (P2PMessage_image (P2PMessage_layout cap) m old)
         = Metadata_image (msg_meta m) (take 120 old)"
    and "read_field (P2PMessage_layout cap) ''payload'' (P2PMessage_image (P2PMessage_layout cap) m old)
         = msg_payload m"
proof -
  let ?fs = "P2PMessage_layout cap"
  let ?meta = "Metadata_image (msg_meta m) (read_field ?fs ''meta'' old)"
  let ?us = "[(''meta'', ?meta), (''payload'', msg_payload m)]"
  have meta: "read_field ?fs ''meta'' old = take 120 old"
    by (simp add: read_field_def layout_simps get_def)
  have len: "length ?meta = 120"
    using assms by (intro length_Metadata_image) (simp_all add: meta P2PMessage_wf_def)
  have ok: "fields_ok ?fs ?us"
    using assms len by (intro P2PMessage_fields_ok) (simp_all add: P2PMessage_wf_def)
  have sz: "length old = sizeof (Struct ?fs)"
    using assms by (simp add: sizeof_P2PMessage del: sizeof.simps)
  show "length (P2PMessage_image ?fs m old) = 120 + cap"
    using length_write_fields [OF ok sz] assms(2)
    by (simp add: P2PMessage_image_def sizeof_P2PMessage del: sizeof.simps)
  show "read_field ?fs ''meta'' (P2PMessage_image ?fs m old) = Metadata_image (msg_meta m) (take 120 old)"
    unfolding P2PMessage_image_def meta [symmetric] by (rule read_write_fields [OF ok sz]) simp
  show "read_field ?fs ''payload'' (P2PMessage_image ?fs m old) = msg_payload m"
    unfolding P2PMessage_image_def by (rule read_write_fields [OF ok sz]) simp
qed

lemma P2PMessage_at_wf:
  "length img = 120 + cap \<Longrightarrow> P2PMessage_wf cap (P2PMessage_at (P2PMessage_layout cap) img)"
  by (simp add: P2PMessage_at_def P2PMessage_wf_def Metadata_at_wf read_field_def layout_simps)

end
