(* ===== verification/BpfHelpers.thy ===== *)
theory BpfHelpers
  imports TracingTypes
begin

text \<open>
  The kernel's side of a BPF program. The helpers are kernel code: they are the fields of
  \<open>bpf_env\<close>, parameters of every handler, with their documented behaviour as the predicates
  \<open>probe_ok\<close> and \<open>reserve_ok\<close>. What a handler does to the world is the sequence of helper
  calls it makes with an effect, so a handler takes the calls made so far and returns them
  extended; the answer of a helper may depend on all of them.
\<close>

section \<open>Helper calls\<close>

datatype bpf_call =
    Reserve ring u64 bool
  | Submit ring "byte list" u64
  | Output ring "byte list" u64 s64
  | Printk string u64

type_synonym trace = "bpf_call list"

text \<open>
  \<open>probe_user env dst sz src\<close> and \<open>probe_user_str env dst sz src\<close> are what the buffer
  \<open>dst\<close> holds after \<^verbatim>\<open>bpf_probe_read_user(dst, size, src)\<close> and
  \<^verbatim>\<open>bpf_probe_read_user_str(dst, size, src)\<close>; the program ignores their return codes.
  \<open>reserve_result\<close> is the memory a reservation gets (its old contents), \<open>output_result\<close> the
  return code of \<^verbatim>\<open>bpf_ringbuf_output\<close>.
\<close>

record bpf_env =
  probe_user :: "byte list \<Rightarrow> u32 \<Rightarrow> u64 \<Rightarrow> byte list"
  probe_user_str :: "byte list \<Rightarrow> u32 \<Rightarrow> u64 \<Rightarrow> byte list"
  reserve_result :: "trace \<Rightarrow> ring \<Rightarrow> u64 \<Rightarrow> u64 \<Rightarrow> byte list option"
  output_result :: "trace \<Rightarrow> ring \<Rightarrow> byte list \<Rightarrow> u64 \<Rightarrow> s64"

definition bpf_ringbuf_reserve ::
  "bpf_env \<Rightarrow> trace \<Rightarrow> ring \<Rightarrow> nat \<Rightarrow> u64 \<Rightarrow> byte list option \<times> trace" where
  "bpf_ringbuf_reserve env tr r sz flags =
     (let res = reserve_result env tr r (of_nat sz) flags
      in (res, tr @ [Reserve r (of_nat sz) (res \<noteq> None)]))"

definition bpf_ringbuf_submit :: "trace \<Rightarrow> ring \<Rightarrow> byte list \<Rightarrow> u64 \<Rightarrow> trace" where
  "bpf_ringbuf_submit tr r data flags = tr @ [Submit r data flags]"

definition bpf_ringbuf_output ::
  "bpf_env \<Rightarrow> trace \<Rightarrow> ring \<Rightarrow> byte list \<Rightarrow> u64 \<Rightarrow> s64 \<times> trace" where
  "bpf_ringbuf_output env tr r data flags =
     (let rc = output_result env tr r data flags in (rc, tr @ [Output r data flags rc]))"

definition bpf_printk :: "trace \<Rightarrow> string \<Rightarrow> u64 \<Rightarrow> trace" where
  "bpf_printk tr fmt arg = tr @ [Printk fmt arg]"

definition bpf_probe_read_user :: "bpf_env \<Rightarrow> byte list \<Rightarrow> u32 \<Rightarrow> u64 \<Rightarrow> byte list" where
  "bpf_probe_read_user env dst sz src = probe_user env dst sz src"

definition bpf_probe_read_user_str :: "bpf_env \<Rightarrow> byte list \<Rightarrow> u64 \<Rightarrow> byte list" where
  \<comment> \<open>the program always passes the size of the destination array\<close>
  "bpf_probe_read_user_str env dst src = probe_user_str env dst (of_nat (length dst)) src"

section \<open>What the calls amount to\<close>

text \<open>The records a ring buffer's consumer will see, in order.\<close>

fun delivered :: "ring \<Rightarrow> trace \<Rightarrow> byte list list" where
  "delivered r [] = []"
| "delivered r (Submit r' data flags # tr) =
     (if r' = r then data # delivered r tr else delivered r tr)"
| "delivered r (Output r' data flags rc # tr) =
     (if r' = r \<and> rc = 0 then data # delivered r tr else delivered r tr)"
| "delivered r (Reserve r' sz ok # tr) = delivered r tr"
| "delivered r (Printk fmt arg # tr) = delivered r tr"

text \<open>
  Reservations of a ring that were neither submitted nor discarded yet; the verifier rejects a
  program that returns with one of its own.
\<close>

fun outstanding :: "ring \<Rightarrow> trace \<Rightarrow> int" where
  "outstanding r [] = 0"
| "outstanding r (Reserve r' sz ok # tr) =
     (if r' = r \<and> ok then 1 else 0) + outstanding r tr"
| "outstanding r (Submit r' data flags # tr) = (if r' = r then - 1 else 0) + outstanding r tr"
| "outstanding r (Output r' data flags rc # tr) = outstanding r tr"
| "outstanding r (Printk fmt arg # tr) = outstanding r tr"

lemma delivered_append [simp]: "delivered r (tr @ tr') = delivered r tr @ delivered r tr'"
  by (induction r tr rule: delivered.induct) auto

lemma outstanding_append [simp]: "outstanding r (tr @ tr') = outstanding r tr + outstanding r tr'"
  by (induction r tr rule: outstanding.induct) auto

section \<open>Documented behaviour of the helpers\<close>

text \<open>
  The memory of the traced process is a partial map from addresses to bytes.
  \<open>user_bytes_at mem p bs\<close>: the bytes \<open>bs\<close> are readable at \<open>p\<close>.
  \<open>user_cstr_at mem p s\<close>: the NUL-terminated string \<open>s\<close> is.
\<close>

type_synonym user_mem = "u64 \<Rightarrow> byte option"

fun user_bytes_at :: "user_mem \<Rightarrow> u64 \<Rightarrow> byte list \<Rightarrow> bool" where
  "user_bytes_at mem p [] = True"
| "user_bytes_at mem p (b # bs) = (mem p = Some b \<and> user_bytes_at mem (p + 1) bs)"

definition user_cstr_at :: "user_mem \<Rightarrow> u64 \<Rightarrow> byte list \<Rightarrow> bool" where
  "user_cstr_at mem p s \<longleftrightarrow> 0 \<notin> set s \<and> user_bytes_at mem p (s @ [0])"

text \<open>
  What \<^verbatim>\<open>bpf_probe_read_user_str\<close> leaves in a buffer of at least one byte: the string cut to
  one byte less than the buffer, a NUL, and the rest of the buffer untouched.
\<close>

definition str_into :: "byte list \<Rightarrow> byte list \<Rightarrow> byte list" where
  "str_into dst s =
     (let s' = take (length dst - 1) s in s' @ 0 # drop (length s' + 1) dst)"

definition probe_ok :: "bpf_env \<Rightarrow> user_mem \<Rightarrow> bool" where
  "probe_ok env mem \<longleftrightarrow>
     (\<forall>dst sz src. unat sz \<le> length dst \<longrightarrow> length (probe_user env dst sz src) = length dst) \<and>
     (\<forall>dst sz src bs. unat sz \<le> length dst \<longrightarrow> length bs = unat sz \<longrightarrow>
        user_bytes_at mem src bs \<longrightarrow> probe_user env dst sz src = bs @ drop (length bs) dst) \<and>
     (\<forall>dst sz src. unat sz = length dst \<longrightarrow>
        length (probe_user_str env dst sz src) = length dst) \<and>
     (\<forall>dst sz src s. unat sz = length dst \<longrightarrow> 0 < length dst \<longrightarrow>
        user_cstr_at mem src s \<longrightarrow> probe_user_str env dst sz src = str_into dst s)"

text \<open>A successful reservation has the size asked for.\<close>

definition reserve_ok :: "bpf_env \<Rightarrow> bool" where
  "reserve_ok env \<longleftrightarrow>
     (\<forall>tr r sz flags img. reserve_result env tr r sz flags = Some img \<longrightarrow>
        length img = unat sz)"

lemma reserve_okD:
  "reserve_ok env \<Longrightarrow> reserve_result env tr r (of_nat n) flags = Some img \<Longrightarrow> n < 2 ^ 64 \<Longrightarrow>
   length img = n"
  by (auto simp: reserve_ok_def unat_of_nat take_bit_nat_eq_self)

lemma length_probe_user:
  "probe_ok env mem \<Longrightarrow> unat sz \<le> length dst \<Longrightarrow>
   length (bpf_probe_read_user env dst sz src) = length dst"
  by (simp add: probe_ok_def bpf_probe_read_user_def)

lemma probe_user_bytes:
  "probe_ok env mem \<Longrightarrow> unat sz \<le> length dst \<Longrightarrow> user_bytes_at mem src bs \<Longrightarrow>
   length bs = unat sz \<Longrightarrow> bpf_probe_read_user env dst sz src = bs @ drop (length bs) dst"
  by (simp add: probe_ok_def bpf_probe_read_user_def)

lemma length_probe_user_str:
  "probe_ok env mem \<Longrightarrow> length dst < 2 ^ 32 \<Longrightarrow>
   length (bpf_probe_read_user_str env dst src) = length dst"
  by (simp add: probe_ok_def bpf_probe_read_user_str_def unat_of_nat take_bit_nat_eq_self)

lemma probe_user_str_into:
  "probe_ok env mem \<Longrightarrow> 0 < length dst \<Longrightarrow> length dst < 2 ^ 32 \<Longrightarrow> user_cstr_at mem src s \<Longrightarrow>
   bpf_probe_read_user_str env dst src = str_into dst s"
  by (simp add: probe_ok_def bpf_probe_read_user_str_def unat_of_nat take_bit_nat_eq_self)

lemma length_str_into [simp]: "0 < length dst \<Longrightarrow> length (str_into dst s) = length dst"
  by (cases dst) (auto simp: str_into_def Let_def min_def)

lemma cstr_str_into:
  "0 < length dst \<Longrightarrow> 0 \<notin> set s \<Longrightarrow> cstr (str_into dst s) = take (length dst - 1) s"
  by (auto simp: str_into_def Let_def dest: in_set_takeD intro: cstr_terminated)

lemma nul_in_str_into: "0 \<in> set (str_into dst s)"
  by (simp add: str_into_def Let_def)

text \<open>Reading the same string twice into one buffer is reading it once.\<close>

lemma str_into_idem: "0 < length dst \<Longrightarrow> str_into (str_into dst s) s = str_into dst s"
  by (cases dst) (auto simp: str_into_def Let_def min_def)

lemma user_cstr_no_nul: "user_cstr_at mem p s \<Longrightarrow> 0 \<notin> set s"
  by (simp add: user_cstr_at_def)

end
