(* ===== verification/NetMessages.thy ===== *)
theory NetMessages
  imports BpfHelpers
begin

text \<open>
  The two P2P message tracepoints of \<^verbatim>\<open>tracing.bpf.c\<close>. A message is copied into a record of
  the smallest of four ring buffers that fits it. The record is reserved in the ring buffer
  itself, so it starts with whatever that memory held: the handlers overwrite the fields in
  place and the rest of each character array, and the padding, keep their old bytes.
\<close>

section \<open>Helpers that fill the metadata\<close>

definition set_meta_data1 :: "Metadata \<Rightarrow> u64 \<Rightarrow> bool \<Rightarrow> u64 \<Rightarrow> Metadata" where
  "set_meta_data1 meta id' inbound msg_size =
     meta\<lparr>md_id := id', md_msg_inbound := inbound, md_msg_size := msg_size\<rparr>"

definition set_meta_data2 :: "bpf_env \<Rightarrow> Metadata \<Rightarrow> u64 \<Rightarrow> u64 \<Rightarrow> u64 \<Rightarrow> Metadata" where
  "set_meta_data2 env meta addr conn_type msg_type =
     meta\<lparr>md_addr := bpf_probe_read_user_str env (md_addr meta) addr,
          md_conn_type := bpf_probe_read_user_str env (md_conn_type meta) conn_type,
          md_msg_type := bpf_probe_read_user_str env (md_msg_type meta) msg_type\<rparr>"

section \<open>The handlers\<close>

definition handle_net_msg_inbound ::
  "bpf_env \<Rightarrow> trace \<Rightarrow> u64 \<Rightarrow> u64 \<Rightarrow> u64 \<Rightarrow> u64 \<Rightarrow> u64 \<Rightarrow> u64 \<Rightarrow> s32 \<times> trace" where
  "handle_net_msg_inbound env tr id' addr conn_type msg_type msg_size payload =
     (let IS_INBOUND = True;
          finish = (\<lambda>tr. (- 1, bpf_printk tr ''inbound msg: return -1.( msg size is %d'' msg_size))
      in if msg_size \<le> of_nat MAX_SMALL_MSG_LENGTH then
           (case bpf_ringbuf_reserve env tr net_msg_small (sizeof (Struct SmallP2PMessage)) 0 of
              (Some mem, tr) \<Rightarrow>
                (let msg = P2PMessage_at SmallP2PMessage mem;
                     msg = msg\<lparr>msg_meta := set_meta_data1 (msg_meta msg) id' IS_INBOUND msg_size\<rparr>;
                     msg = msg\<lparr>msg_meta := set_meta_data2 env (msg_meta msg) addr conn_type msg_type\<rparr>;
                     msg = msg\<lparr>msg_payload :=
                       bpf_probe_read_user env (msg_payload msg) (ucast msg_size) payload\<rparr>
                 in (0, bpf_ringbuf_submit tr net_msg_small (P2PMessage_image SmallP2PMessage msg mem) 0))
            | (None, tr) \<Rightarrow>
                finish (bpf_printk tr ''small inbound msg: not able to reserve. msg size is %d'' msg_size))
         else if msg_size \<le> of_nat MAX_MEDIUM_MSG_LENGTH then
           (case bpf_ringbuf_reserve env tr net_msg_medium (sizeof (Struct MediumP2PMessage)) 0 of
              (Some mem, tr) \<Rightarrow>
                (let msg = P2PMessage_at MediumP2PMessage mem;
                     msg = msg\<lparr>msg_meta := set_meta_data1 (msg_meta msg) id' IS_INBOUND msg_size\<rparr>;
                     msg = msg\<lparr>msg_meta := set_meta_data2 env (msg_meta msg) addr conn_type msg_type\<rparr>;
                     msg = msg\<lparr>msg_meta := (msg_meta msg)\<lparr>md_msg_type :=
                       bpf_probe_read_user_str env (md_msg_type (msg_meta msg)) msg_type\<rparr>\<rparr>;
                     msg = msg\<lparr>msg_payload :=
                       bpf_probe_read_user env (msg_payload msg) (ucast msg_size) payload\<rparr>
                 in (0, bpf_ringbuf_submit tr net_msg_medium (P2PMessage_image MediumP2PMessage msg mem) 0))
            | (None, tr) \<Rightarrow>
                finish (bpf_printk tr ''medium inbound msg: not able to reserve. msg size is %d'' msg_size))
         else if msg_size \<le> of_nat MAX_LARGE_MSG_LENGTH then
           (case bpf_ringbuf_reserve env tr net_msg_large (sizeof (Struct LargeP2PMessage)) 0 of
              (Some mem, tr) \<Rightarrow>
                (let msg = P2PMessage_at LargeP2PMessage mem;
                     msg = msg\<lparr>msg_meta := set_meta_data1 (msg_meta msg) id' IS_INBOUND msg_size\<rparr>;
                     msg = msg\<lparr>msg_meta := set_meta_data2 env (msg_meta msg) addr conn_type msg_type\<rparr>;
                     msg = msg\<lparr>msg_payload :=
                       bpf_probe_read_user env (msg_payload msg) (ucast msg_size) payload\<rparr>
                 in (0, bpf_ringbuf_submit tr net_msg_large (P2PMessage_image LargeP2PMessage msg mem) 0))
            | (None, tr) \<Rightarrow>
                finish (bpf_printk tr ''large inbound msg: not able to reserve. msg size is %d'' msg_size))
         else if msg_size \<le> of_nat MAX_HUGE_MSG_LENGTH then
           (case bpf_ringbuf_reserve env tr net_msg_huge (sizeof (Struct HugeP2PMessage)) 0 of
              (Some mem, tr) \<Rightarrow>
                (let msg = P2PMessage_at HugeP2PMessage mem;
                     msg = msg\<lparr>msg_meta := set_meta_data1 (msg_meta msg) id' IS_INBOUND msg_size\<rparr>;
                     msg = msg\<lparr>msg_meta := set_meta_data2 env (msg_meta msg) addr conn_type msg_type\<rparr>;
                     msg = msg\<lparr>msg_payload :=
                       bpf_probe_read_user env (msg_payload msg) (ucast msg_size) payload\<rparr>
                 in (0, bpf_ringbuf_submit tr net_msg_huge (P2PMessage_image HugeP2PMessage msg mem) 0))
            | (None, tr) \<Rightarrow>
                finish (bpf_printk tr ''huge inbound msg: not able to reserve. msg size is %d'' msg_size))
         else finish tr)"

definition handle_net_msg_outbound ::
  "bpf_env \<Rightarrow> trace \<Rightarrow> u64 \<Rightarrow> u64 \<Rightarrow> u64 \<Rightarrow> u64 \<Rightarrow> u64 \<Rightarrow> u64 \<Rightarrow> s32 \<times> trace" where
  "handle_net_msg_outbound env tr id' addr conn_type msg_type msg_size payload =
     (let IS_INBOUND = False;
          finish = (\<lambda>tr. (- 1, bpf_printk tr ''outbound msg: return -1. msg size is %d'' msg_size))
      in if msg_size \<le> of_nat MAX_SMALL_MSG_LENGTH then
           (case bpf_ringbuf_reserve env tr net_msg_small (sizeof (Struct SmallP2PMessage)) 0 of
              (Some mem, tr) \<Rightarrow>
                (let msg = P2PMessage_at SmallP2PMessage mem;
                     msg = msg\<lparr>msg_meta := set_meta_data1 (msg_meta msg) id' IS_INBOUND msg_size\<rparr>;
                     msg = msg\<lparr>msg_meta := set_meta_data2 env (msg_meta msg) addr conn_type msg_type\<rparr>;
                     msg = msg\<lparr>msg_payload :=
                       bpf_probe_read_user env (msg_payload msg) (ucast msg_size) payload\<rparr>
                 in (0, bpf_ringbuf_submit tr net_msg_small (P2PMessage_image SmallP2PMessage msg mem) 0))
            | (None, tr) \<Rightarrow>
                finish (bpf_printk tr ''small outbound msg: not able to reserve. msg size is %d'' msg_size))
         else if msg_size \<le> of_nat MAX_MEDIUM_MSG_LENGTH then
           (case bpf_ringbuf_reserve env tr net_msg_medium (sizeof (Struct MediumP2PMessage)) 0 of
              (Some mem, tr) \<Rightarrow>
                (let msg = P2PMessage_at MediumP2PMessage mem;
                     msg = msg\<lparr>msg_meta := set_meta_data1 (msg_meta msg) id' IS_INBOUND msg_size\<rparr>;
                     msg = msg\<lparr>msg_meta := set_meta_data2 env (msg_meta msg) addr conn_type msg_type\<rparr>;
                     msg = msg\<lparr>msg_meta := (msg_meta msg)\<lparr>md_msg_type :=
                       bpf_probe_read_user_str env (md_msg_type (msg_meta msg)) msg_type\<rparr>\<rparr>;
                     msg = msg\<lparr>msg_payload :=
                       bpf_probe_read_user env (msg_payload msg) (ucast msg_size) payload\<rparr>
                 in (0, bpf_ringbuf_submit tr net_msg_medium (P2PMessage_image MediumP2PMessage msg mem) 0))
            | (None, tr) \<Rightarrow>
                finish (bpf_printk tr ''medium outbound msg: not able to reserve. msg size is %d'' msg_size))
         else if msg_size \<le> of_nat MAX_LARGE_MSG_LENGTH then
           (case bpf_ringbuf_reserve env tr net_msg_large (sizeof (Struct LargeP2PMessage)) 0 of
              (Some mem, tr) \<Rightarrow>
                (let msg = P2PMessage_at LargeP2PMessage mem;
                     msg = msg\<lparr>msg_meta := set_meta_data1 (msg_meta msg) id' IS_INBOUND msg_size\<rparr>;
                     msg = msg\<lparr>msg_meta := set_meta_data2 env (msg_meta msg) addr conn_type msg_type\<rparr>;
                     msg = msg\<lparr>msg_payload :=
                       bpf_probe_read_user env (msg_payload msg) (ucast msg_size) payload\<rparr>
                 in (0, bpf_ringbuf_submit tr net_msg_large (P2PMessage_image LargeP2PMessage msg mem) 0))
            | (None, tr) \<Rightarrow>
                finish (bpf_printk tr ''large outbound msg: not able to reserve. msg size is %d'' msg_size))
         else if msg_size \<le> of_nat MAX_HUGE_MSG_LENGTH then
           (case bpf_ringbuf_reserve env tr net_msg_huge (sizeof (Struct HugeP2PMessage)) 0 of
              (Some mem, tr) \<Rightarrow>
                (let msg = P2PMessage_at HugeP2PMessage mem;
                     msg = msg\<lparr>msg_meta := set_meta_data1 (msg_meta msg) id' IS_INBOUND msg_size\<rparr>;
                     msg = msg\<lparr>msg_meta := set_meta_data2 env (msg_meta msg) addr conn_type msg_type\<rparr>;
                     msg = msg\<lparr>msg_payload :=
                       bpf_probe_read_user env (msg_payload msg) (ucast msg_size) payload\<rparr>
                 in (0, bpf_ringbuf_submit tr net_msg_huge (P2PMessage_image HugeP2PMessage msg mem) 0))
            | (None, tr) \<Rightarrow>
                finish (bpf_printk tr ''huge outbound msg: not able to reserve. msg size is %d'' msg_size))
         else finish tr)"

section \<open>One handler for both directions\<close>

text \<open>
  The record a handler writes over the reserved memory \<open>mem\<close>. \<open>reread\<close> says whether the message
  type is copied twice, which the handlers do in the medium class only.
\<close>

definition net_msg_fill ::
  "bpf_env \<Rightarrow> nat \<Rightarrow> bool \<Rightarrow> bool \<Rightarrow> u64 \<Rightarrow> u64 \<Rightarrow> u64 \<Rightarrow> u64 \<Rightarrow> u64 \<Rightarrow> u64 \<Rightarrow> byte list \<Rightarrow> P2PMessage_c"
where
  "net_msg_fill env cap reread inbound id' addr conn_type msg_type msg_size payload mem =
     (let msg = P2PMessage_at (P2PMessage_layout cap) mem;
          meta = set_meta_data2 env (set_meta_data1 (msg_meta msg) id' inbound msg_size)
                   addr conn_type msg_type
      in \<lparr>msg_meta =
            (if reread then meta\<lparr>md_msg_type := bpf_probe_read_user_str env (md_msg_type meta) msg_type\<rparr>
             else meta),
          msg_payload = bpf_probe_read_user env (msg_payload msg) (ucast msg_size) payload\<rparr>)"

text \<open>The smallest class that fits: its ring buffer, payload length, and name in the log.\<close>

definition msg_class :: "u64 \<Rightarrow> (ring \<times> nat \<times> string) option" where
  "msg_class msg_size =
     (if unat msg_size \<le> MAX_SMALL_MSG_LENGTH then Some (net_msg_small, MAX_SMALL_MSG_LENGTH, ''small'')
      else if unat msg_size \<le> MAX_MEDIUM_MSG_LENGTH
        then Some (net_msg_medium, MAX_MEDIUM_MSG_LENGTH, ''medium'')
      else if unat msg_size \<le> MAX_LARGE_MSG_LENGTH
        then Some (net_msg_large, MAX_LARGE_MSG_LENGTH, ''large'')
      else if unat msg_size \<le> MAX_HUGE_MSG_LENGTH
        then Some (net_msg_huge, MAX_HUGE_MSG_LENGTH, ''huge'')
      else None)"

definition direction_name :: "bool \<Rightarrow> string" where
  "direction_name inbound = (if inbound then ''inbound'' else ''outbound'')"

definition give_up :: "bool \<Rightarrow> trace \<Rightarrow> u64 \<Rightarrow> s32 \<times> trace" where
  "give_up inbound tr msg_size =
     (- 1, bpf_printk tr (direction_name inbound @
             (if inbound then '' msg: return -1.( msg size is %d'' else '' msg: return -1. msg size is %d''))
             msg_size)"

definition net_msg_handler ::
  "bool \<Rightarrow> bpf_env \<Rightarrow> trace \<Rightarrow> u64 \<Rightarrow> u64 \<Rightarrow> u64 \<Rightarrow> u64 \<Rightarrow> u64 \<Rightarrow> u64 \<Rightarrow> s32 \<times> trace" where
  "net_msg_handler inbound env tr id' addr conn_type msg_type msg_size payload =
     (case msg_class msg_size of
        None \<Rightarrow> give_up inbound tr msg_size
      | Some (r, cap, name) \<Rightarrow>
          (case bpf_ringbuf_reserve env tr r (120 + cap) 0 of
             (None, tr) \<Rightarrow>
               give_up inbound
                 (bpf_printk tr (name @ '' '' @ direction_name inbound @
                    '' msg: not able to reserve. msg size is %d'') msg_size) msg_size
           | (Some mem, tr) \<Rightarrow>
               (0, bpf_ringbuf_submit tr r
                     (P2PMessage_image (P2PMessage_layout cap)
                        (net_msg_fill env cap (r = net_msg_medium) inbound id' addr conn_type
                           msg_type msg_size payload mem) mem) 0)))"

lemma msg_size_le_iff:
  "(msg_size :: u64) \<le> of_nat MAX_SMALL_MSG_LENGTH \<longleftrightarrow> unat msg_size \<le> MAX_SMALL_MSG_LENGTH"
  "msg_size \<le> of_nat MAX_MEDIUM_MSG_LENGTH \<longleftrightarrow> unat msg_size \<le> MAX_MEDIUM_MSG_LENGTH"
  "msg_size \<le> of_nat MAX_LARGE_MSG_LENGTH \<longleftrightarrow> unat msg_size \<le> MAX_LARGE_MSG_LENGTH"
  "msg_size \<le> of_nat MAX_HUGE_MSG_LENGTH \<longleftrightarrow> unat msg_size \<le> MAX_HUGE_MSG_LENGTH"
  by (simp_all add: macro_defs word_le_nat_alt)

lemma sizeof_messages:
  "sizeof (Struct SmallP2PMessage) = 120 + MAX_SMALL_MSG_LENGTH"
  "sizeof (Struct MediumP2PMessage) = 120 + MAX_MEDIUM_MSG_LENGTH"
  "sizeof (Struct LargeP2PMessage) = 120 + MAX_LARGE_MSG_LENGTH"
  "sizeof (Struct HugeP2PMessage) = 120 + MAX_HUGE_MSG_LENGTH"
  by (simp_all add: layout_simps macro_defs del: sizeof.simps)

lemma inbound_eq_handler:
  "handle_net_msg_inbound env tr id' addr conn_type msg_type msg_size payload =
   net_msg_handler True env tr id' addr conn_type msg_type msg_size payload"
  unfolding handle_net_msg_inbound_def net_msg_handler_def msg_class_def msg_size_le_iff sizeof_messages
  by (simp add: net_msg_fill_def give_up_def direction_name_def Let_def SmallP2PMessage_def
      MediumP2PMessage_def LargeP2PMessage_def HugeP2PMessage_def P2PMessage_at_def
      split: option.split prod.split)

lemma outbound_eq_handler:
  "handle_net_msg_outbound env tr id' addr conn_type msg_type msg_size payload =
   net_msg_handler False env tr id' addr conn_type msg_type msg_size payload"
  unfolding handle_net_msg_outbound_def net_msg_handler_def msg_class_def msg_size_le_iff sizeof_messages
  by (simp add: net_msg_fill_def give_up_def direction_name_def Let_def SmallP2PMessage_def
      MediumP2PMessage_def LargeP2PMessage_def HugeP2PMessage_def P2PMessage_at_def
      split: option.split prod.split)

section \<open>What a delivered message holds\<close>

lemma msg_class_cases:
  assumes "msg_class msg_size = Some (r, cap, name)"
  shows "unat msg_size \<le> cap" and "8 dvd cap" and "cap \<le> 4194304"
  using assms by (auto simp: msg_class_def macro_defs split: if_splits)

lemma msg_class_None: "msg_class msg_size = None \<longleftrightarrow> MAX_HUGE_MSG_LENGTH < unat msg_size"
  by (auto simp: msg_class_def macro_defs)

lemma msg_class_SomeI: "unat msg_size \<le> MAX_HUGE_MSG_LENGTH \<Longrightarrow> \<exists>r cap name. msg_class msg_size = Some (r, cap, name)"
  by (auto simp: msg_class_def)

lemma unat_ucast_msg_size: "unat (msg_size :: u64) \<le> 4194304 \<Longrightarrow> unat (ucast msg_size :: u32) = unat msg_size"
  by (simp add: unsigned_ucast_eq unsigned_take_bit_eq take_bit_nat_eq_self)

lemma set_meta_data2_wf:
  "probe_ok env mem \<Longrightarrow> Metadata_wf m \<Longrightarrow> Metadata_wf (set_meta_data2 env m addr conn_type msg_type)"
  by (simp add: Metadata_wf_def set_meta_data2_def length_probe_user_str macro_defs)

lemma set_meta_data1_wf: "Metadata_wf m \<Longrightarrow> Metadata_wf (set_meta_data1 m id' inbound msg_size)"
  by (simp add: Metadata_wf_def set_meta_data1_def)

lemma set_meta_data2_strings:
  assumes "probe_ok env mem" and "Metadata_wf m"
    and "user_cstr_at mem addr a" and "user_cstr_at mem conn_type c" and "user_cstr_at mem msg_type t"
  shows "set_meta_data2 env m addr conn_type msg_type =
     m\<lparr>md_addr := str_into (md_addr m) a, md_conn_type := str_into (md_conn_type m) c,
       md_msg_type := str_into (md_msg_type m) t\<rparr>"
  using assms by (simp add: set_meta_data2_def Metadata_wf_def macro_defs probe_user_str_into flip: length_0_conv)

lemma net_msg_fill_wf:
  assumes "probe_ok env mem" and "length img = 120 + cap" and "cap \<le> 4194304" and "unat msg_size \<le> cap"
  shows "P2PMessage_wf cap
    (net_msg_fill env cap reread inbound id' addr conn_type msg_type msg_size payload img)"
proof -
  have wf: "P2PMessage_wf cap (P2PMessage_at (P2PMessage_layout cap) img)"
    using assms(2) by (rule P2PMessage_at_wf)
  have pl: "length (bpf_probe_read_user env (msg_payload (P2PMessage_at (P2PMessage_layout cap) img))
      (ucast msg_size) payload) = cap"
    using assms wf by (simp add: P2PMessage_wf_def length_probe_user unat_ucast_msg_size)
  have meta: "Metadata_wf (set_meta_data2 env (set_meta_data1
      (msg_meta (P2PMessage_at (P2PMessage_layout cap) img)) id' inbound msg_size) addr conn_type msg_type)"
    using wf by (intro set_meta_data2_wf [OF assms(1)] set_meta_data1_wf) (simp add: P2PMessage_wf_def)
  then show ?thesis
    using pl by (simp add: net_msg_fill_def Let_def P2PMessage_wf_def Metadata_wf_def
        length_probe_user_str [OF assms(1)] macro_defs)
qed

text \<open>
  The fields of a filled message, for strings and a payload the process holds. Both copies of
  the message type give the same array, so \<open>reread\<close> makes no difference.
\<close>

lemma net_msg_fill_fields:
  assumes env: "probe_ok env mem" and img: "length img = 120 + cap"
    and cap: "cap \<le> 4194304" and fits: "unat msg_size \<le> cap"
    and a: "user_cstr_at mem addr a" and c: "user_cstr_at mem conn_type c"
    and t: "user_cstr_at mem msg_type t"
    and m: "m = net_msg_fill env cap reread inbound id' addr conn_type msg_type msg_size payload img"
  shows "md_id (msg_meta m) = id'" and "md_msg_inbound (msg_meta m) = inbound"
    and "md_msg_size (msg_meta m) = msg_size"
    and "cstr (md_addr (msg_meta m)) = take (MAX_PEER_ADDR_LENGTH - 1) a"
    and "cstr (md_conn_type (msg_meta m)) = take (MAX_PEER_CONN_TYPE_LENGTH - 1) c"
    and "cstr (md_msg_type (msg_meta m)) = take (MAX_MSG_TYPE_LENGTH - 1) t"
proof -
  let ?m0 = "set_meta_data1 (msg_meta (P2PMessage_at (P2PMessage_layout cap) img)) id' inbound msg_size"
  have wf0: "Metadata_wf ?m0"
    using P2PMessage_at_wf [OF img] by (intro set_meta_data1_wf) (simp add: P2PMessage_wf_def)
  note strings = set_meta_data2_strings [OF env wf0 a c t]
  have type: "bpf_probe_read_user_str env (str_into (md_msg_type ?m0) t) msg_type
      = str_into (md_msg_type ?m0) t"
    using wf0 by (subst probe_user_str_into [OF env _ _ t])
      (auto simp: Metadata_wf_def macro_defs str_into_idem)
  have meta: "msg_meta m = ?m0\<lparr>md_addr := str_into (md_addr ?m0) a,
      md_conn_type := str_into (md_conn_type ?m0) c, md_msg_type := str_into (md_msg_type ?m0) t\<rparr>"
    by (simp add: m net_msg_fill_def Let_def strings type)
  show "md_id (msg_meta m) = id'" and "md_msg_inbound (msg_meta m) = inbound"
    and "md_msg_size (msg_meta m) = msg_size"
    by (simp_all add: meta set_meta_data1_def)
  show "cstr (md_addr (msg_meta m)) = take (MAX_PEER_ADDR_LENGTH - 1) a"
    and "cstr (md_conn_type (msg_meta m)) = take (MAX_PEER_CONN_TYPE_LENGTH - 1) c"
    and "cstr (md_msg_type (msg_meta m)) = take (MAX_MSG_TYPE_LENGTH - 1) t"
    using wf0 user_cstr_no_nul [OF a] user_cstr_no_nul [OF c] user_cstr_no_nul [OF t]
    by (simp_all add: meta cstr_str_into Metadata_wf_def macro_defs flip: length_greater_0_conv)
qed

lemma net_msg_fill_payload:
  assumes "probe_ok env mem" and "length img = 120 + cap" and "cap \<le> 4194304"
    and "unat msg_size \<le> cap" and "length bs = unat msg_size" and "user_bytes_at mem payload bs"
  shows "take (unat msg_size) (msg_payload
     (net_msg_fill env cap reread inbound id' addr conn_type msg_type msg_size payload img)) = bs"
  using assms P2PMessage_at_wf [OF assms(2)]
  by (simp add: net_msg_fill_def Let_def probe_user_bytes unat_ucast_msg_size P2PMessage_wf_def)

end
