(* ===== verification/EventHandlers.thy ===== *)
theory EventHandlers
  imports BpfHelpers
begin

text \<open>
  The connection, mempool and validation tracepoints of \<^verbatim>\<open>tracing.bpf.c\<close>. Each handler
  builds a zero-initialised struct on its stack, fills it, and copies it into its own ring
  buffer; the return code of \<^verbatim>\<open>bpf_ringbuf_output\<close> (a \<^verbatim>\<open>long\<close>) is its result (an \<^verbatim>\<open>int\<close>).
\<close>

section \<open>Output of a stack object\<close>

text \<open>The bytes of a \<^verbatim>\<open>= {}\<close> object before its fields are written.\<close>

definition zeroed :: "cfield list \<Rightarrow> byte list" where
  "zeroed fs = replicate (sizeof (Struct fs)) 0"

definition output_event :: "bpf_env \<Rightarrow> trace \<Rightarrow> ring \<Rightarrow> byte list \<Rightarrow> s32 \<times> trace" where
  "output_event env tr r data =
     (case bpf_ringbuf_output env tr r data 0 of (rc, tr') \<Rightarrow> (ucast rc, tr'))"

section \<open>Connections\<close>

definition set_conn_data1 :: "Connection_c \<Rightarrow> u64 \<Rightarrow> u64 \<Rightarrow> Connection_c" where
  "set_conn_data1 conn id' network = conn\<lparr>cc_id := id', cc_network := ucast network\<rparr>"

definition set_conn_data2 :: "bpf_env \<Rightarrow> Connection_c \<Rightarrow> u64 \<Rightarrow> u64 \<Rightarrow> Connection_c" where
  "set_conn_data2 env conn addr type =
     conn\<lparr>cc_addr := bpf_probe_read_user_str env (cc_addr conn) addr,
          cc_type := bpf_probe_read_user_str env (cc_type conn) type\<rparr>"

definition handle_net_conn_inbound ::
  "bpf_env \<Rightarrow> trace \<Rightarrow> u64 \<Rightarrow> u64 \<Rightarrow> u64 \<Rightarrow> u64 \<Rightarrow> u64 \<Rightarrow> s32 \<times> trace" where
  "handle_net_conn_inbound env tr id' addr type network existing_connections =
     (let inbound = \<lparr>inbound_conn = Connection_zero, inbound_existing_connections = 0\<rparr>;
          inbound = inbound\<lparr>inbound_conn := set_conn_data1 (inbound_conn inbound) id' network\<rparr>;
          inbound = inbound\<lparr>inbound_conn := set_conn_data2 env (inbound_conn inbound) addr type\<rparr>;
          inbound = inbound\<lparr>inbound_existing_connections := existing_connections\<rparr>
      in output_event env tr net_conn_inbound
           (InboundConnection_image inbound (zeroed InboundConnection_layout)))"

definition handle_net_conn_outbound ::
  "bpf_env \<Rightarrow> trace \<Rightarrow> u64 \<Rightarrow> u64 \<Rightarrow> u64 \<Rightarrow> u64 \<Rightarrow> u64 \<Rightarrow> s32 \<times> trace" where
  "handle_net_conn_outbound env tr id' addr type network existing_connections =
     (let outbound = \<lparr>outbound_conn = Connection_zero, outbound_existing_connections = 0\<rparr>;
          outbound = outbound\<lparr>outbound_conn := set_conn_data1 (outbound_conn outbound) id' network\<rparr>;
          outbound = outbound\<lparr>outbound_conn := set_conn_data2 env (outbound_conn outbound) addr type\<rparr>;
          outbound = outbound\<lparr>outbound_existing_connections := existing_connections\<rparr>
      in output_event env tr net_conn_outbound
           (OutboundConnection_image outbound (zeroed OutboundConnection_layout)))"

definition handle_net_conn_closed ::
  "bpf_env \<Rightarrow> trace \<Rightarrow> u64 \<Rightarrow> u64 \<Rightarrow> u64 \<Rightarrow> u64 \<Rightarrow> u64 \<Rightarrow> s32 \<times> trace" where
  "handle_net_conn_closed env tr id' addr type network time_established =
     (let closed = \<lparr>closed_conn = Connection_zero, closed_time_established = 0\<rparr>;
          closed = closed\<lparr>closed_conn := set_conn_data1 (closed_conn closed) id' network\<rparr>;
          closed = closed\<lparr>closed_conn := set_conn_data2 env (closed_conn closed) addr type\<rparr>;
          closed = closed\<lparr>closed_time_established := time_established\<rparr>
      in output_event env tr net_conn_closed
           (ClosedConnection_image closed (zeroed ClosedConnection_layout)))"

definition handle_net_conn_inbound_evicted ::
  "bpf_env \<Rightarrow> trace \<Rightarrow> u64 \<Rightarrow> u64 \<Rightarrow> u64 \<Rightarrow> u64 \<Rightarrow> u64 \<Rightarrow> s32 \<times> trace" where
  "handle_net_conn_inbound_evicted env tr id' addr type network time_established =
     (let evicted = \<lparr>closed_conn = Connection_zero, closed_time_established = 0\<rparr>;
          evicted = evicted\<lparr>closed_conn := set_conn_data1 (closed_conn evicted) id' network\<rparr>;
          evicted = evicted\<lparr>closed_conn := set_conn_data2 env (closed_conn evicted) addr type\<rparr>;
          evicted = evicted\<lparr>closed_time_established := time_established\<rparr>
      in output_event env tr net_conn_inbound_evicted
           (ClosedConnection_image evicted (zeroed ClosedConnection_layout)))"

definition handle_net_conn_misbehaving ::
  "bpf_env \<Rightarrow> trace \<Rightarrow> u64 \<Rightarrow> u64 \<Rightarrow> s32 \<times> trace" where
  "handle_net_conn_misbehaving env tr id' message =
     (let misbehaving = \<lparr>misb_id = 0, misb_message = replicate MAX_MISBEHAVING_MESSAGE_LENGTH 0\<rparr>;
          misbehaving = misbehaving\<lparr>misb_id := id'\<rparr>;
          misbehaving = misbehaving\<lparr>misb_message :=
            bpf_probe_read_user_str env (misb_message misbehaving) message\<rparr>
      in output_event env tr net_conn_misbehaving
           (MisbehavingConnection_image misbehaving (zeroed MisbehavingConnection_layout)))"

section \<open>Mempool\<close>

definition handle_mempool_added ::
  "bpf_env \<Rightarrow> trace \<Rightarrow> u64 \<Rightarrow> s32 \<Rightarrow> s64 \<Rightarrow> s32 \<times> trace" where
  "handle_mempool_added env tr txid vsize fee =
     (let added = \<lparr>added_txid = replicate TXID_LENGHT 0, added_vsize = 0, added_fee = 0\<rparr>;
          added = added\<lparr>added_txid :=
            bpf_probe_read_user env (added_txid added) (of_nat TXID_LENGHT) txid\<rparr>;
          added = added\<lparr>added_vsize := vsize\<rparr>;
          added = added\<lparr>added_fee := fee\<rparr>
      in output_event env tr mempool_added (MempoolAdded_image added (zeroed MempoolAdded_layout)))"

definition handle_mempool_removed ::
  "bpf_env \<Rightarrow> trace \<Rightarrow> u64 \<Rightarrow> u64 \<Rightarrow> s32 \<Rightarrow> s64 \<Rightarrow> u64 \<Rightarrow> s32 \<times> trace" where
  "handle_mempool_removed env tr txid reason vsize fee entry_time =
     (let removed = \<lparr>removed_txid = replicate TXID_LENGHT 0,
                     removed_reason = replicate REMOVAL_REASON_LENGTH 0,
                     removed_vsize = 0, removed_fee = 0, removed_entry_time = 0\<rparr>;
          removed = removed\<lparr>removed_txid :=
            bpf_probe_read_user env (removed_txid removed) (of_nat TXID_LENGHT) txid\<rparr>;
          removed = removed\<lparr>removed_reason :=
            bpf_probe_read_user_str env (removed_reason removed) reason\<rparr>;
          removed = removed\<lparr>removed_vsize := vsize\<rparr>;
          removed = removed\<lparr>removed_fee := fee\<rparr>;
          removed = removed\<lparr>removed_entry_time := entry_time\<rparr>
      in output_event env tr mempool_removed
           (MempoolRemoved_image removed (zeroed MempoolRemoved_layout)))"

definition handle_mempool_replaced ::
  "bpf_env \<Rightarrow> trace \<Rightarrow> u64 \<Rightarrow> s32 \<Rightarrow> s64 \<Rightarrow> u64 \<Rightarrow> u64 \<Rightarrow> s32 \<Rightarrow> s64 \<Rightarrow> bool \<Rightarrow> s32 \<times> trace" where
  "handle_mempool_replaced env tr replaced_txid replaced_vsize replaced_fee replaced_entry_time
       replacement_id replacement_vsize replacement_fee replaced_by_transaction =
     (let replaced = \<lparr>repl_replaced_txid = replicate TXID_LENGHT 0, repl_replaced_vsize = 0,
                      repl_replaced_fee = 0, repl_replaced_entry_time = 0,
                      repl_replacement_id = replicate TXID_LENGHT 0, repl_replacement_vsize = 0,
                      repl_replacement_fee = 0, repl_replaced_by_transaction = False\<rparr>;
          replaced = replaced\<lparr>repl_replaced_txid :=
            bpf_probe_read_user env (repl_replaced_txid replaced) (of_nat TXID_LENGHT) replaced_txid\<rparr>;
          replaced = replaced\<lparr>repl_replaced_vsize := replaced_vsize\<rparr>;
          replaced = replaced\<lparr>repl_replaced_fee := replaced_fee\<rparr>;
          replaced = replaced\<lparr>repl_replaced_entry_time := replaced_entry_time\<rparr>;
          replaced = replaced\<lparr>repl_replacement_id :=
            bpf_probe_read_user env (repl_replacement_id replaced) (of_nat TXID_LENGHT) replacement_id\<rparr>;
          replaced = replaced\<lparr>repl_replacement_vsize := replacement_vsize\<rparr>;
          replaced = replaced\<lparr>repl_replacement_fee := replacement_fee\<rparr>;
          replaced = replaced\<lparr>repl_replaced_by_transaction := replaced_by_transaction\<rparr>
      in output_event env tr mempool_replaced
           (MempoolReplaced_image replaced (zeroed MempoolReplaced_layout)))"

definition handle_mempool_rejected :: "bpf_env \<Rightarrow> trace \<Rightarrow> u64 \<Rightarrow> u64 \<Rightarrow> s32 \<times> trace" where
  "handle_mempool_rejected env tr txid reason =
     (let rejected = \<lparr>rej_txid = replicate TXID_LENGHT 0,
                      rej_reason = replicate REJECTION_REASON_LENGTH 0\<rparr>;
          rejected = rejected\<lparr>rej_txid :=
            bpf_probe_read_user env (rej_txid rejected) (of_nat TXID_LENGHT) txid\<rparr>;
          rejected = rejected\<lparr>rej_reason :=
            bpf_probe_read_user_str env (rej_reason rejected) reason\<rparr>
      in output_event env tr mempool_rejected
           (MempoolRejected_image rejected (zeroed MempoolRejected_layout)))"

section \<open>Validation\<close>

definition handle_validation_block_connected ::
  "bpf_env \<Rightarrow> trace \<Rightarrow> u64 \<Rightarrow> s32 \<Rightarrow> u64 \<Rightarrow> s32 \<Rightarrow> u64 \<Rightarrow> u64 \<Rightarrow> s32 \<times> trace" where
  "handle_validation_block_connected env tr hash height transactions inputs sigops connection_time =
     (let connected = \<lparr>bc_hash = replicate HASH_LENGHT 0, bc_height = 0, bc_transactions = 0,
                       bc_inputs = 0, bc_sigops = 0, bc_connection_time = 0\<rparr>;
          connected = connected\<lparr>bc_hash :=
            bpf_probe_read_user env (bc_hash connected) (of_nat HASH_LENGHT) hash\<rparr>;
          connected = connected\<lparr>bc_height := height\<rparr>;
          connected = connected\<lparr>bc_transactions := transactions\<rparr>;
          connected = connected\<lparr>bc_inputs := inputs\<rparr>;
          connected = connected\<lparr>bc_sigops := sigops\<rparr>;
          connected = connected\<lparr>bc_connection_time := connection_time\<rparr>
      in output_event env tr validation_block_connected
           (BlockConnected_image connected (zeroed BlockConnected_layout)))"

end
