(* ===== verification/TracingLayouts.thy ===== *)
theory TracingLayouts
  imports TracingTypes
begin

text \<open>
  The computed layouts of the structs of \<^verbatim>\<open>tracing.bpf.c\<close>, and what a consumer reads at each
  field of their byte images. An object is well-formed when its arrays have their declared
  lengths, which every handler keeps.
\<close>

lemmas image_simps = fields_ok_def has_field_def macro_defs

section \<open>Connection\<close>

definition Connection_wf :: "Connection_c \<Rightarrow> bool" where
  "Connection_wf c \<longleftrightarrow> length (cc_addr c) = MAX_PEER_ADDR_LENGTH \<and>
     length (cc_type c) = MAX_PEER_CONN_TYPE_LENGTH"

lemma Connection_table [layout_simps]:
  "field_table 0 Connection_layout =
     [(''id'', 0, 8),
      (''addr'', 8, 68),
      (''type'', 76, 20),
      (''network'', 96, 4)]"
  by (simp add: layout_calc)

lemma Connection_offsets [layout_simps]:
  "offsetof Connection_layout ''id'' = Some 0"
  "offsetof Connection_layout ''addr'' = Some 8"
  "offsetof Connection_layout ''type'' = Some 76"
  "offsetof Connection_layout ''network'' = Some 96"
  by (simp_all add: table_simps Connection_table)

lemma Connection_field_sizes [layout_simps]:
  "field_size Connection_layout ''id'' = 8"
  "field_size Connection_layout ''addr'' = 68"
  "field_size Connection_layout ''type'' = 20"
  "field_size Connection_layout ''network'' = 4"
  by (simp_all add: table_simps Connection_table)

lemma Connection_image_fields:
  assumes "Connection_wf c" and "length old = 104"
  shows "length (Connection_image c old) = 104"
    and "read_field Connection_layout ''id'' (Connection_image c old) =
           le_bytes 8 (cc_id c)"
    and "read_field Connection_layout ''addr'' (Connection_image c old) =
           cc_addr c"
    and "read_field Connection_layout ''type'' (Connection_image c old) =
           cc_type c"
    and "read_field Connection_layout ''network'' (Connection_image c old) =
           le_bytes 4 (cc_network c)"
  using write_fields_parts [of Connection_layout
      "Connection_fields c" old] assms
  by (simp_all add: Connection_image_def Connection_wf_def Connection_fields_def image_simps layout_simps
      del: sizeof.simps)

section \<open>ClosedConnection\<close>

definition ClosedConnection_wf :: "ClosedConnection_c \<Rightarrow> bool" where
  "ClosedConnection_wf c \<longleftrightarrow> Connection_wf (closed_conn c)"

lemma ClosedConnection_table [layout_simps]:
  "field_table 0 ClosedConnection_layout =
     [(''conn'', 0, 104),
      (''time_established'', 104, 8)]"
  by (simp add: layout_calc)

lemma ClosedConnection_offsets [layout_simps]:
  "offsetof ClosedConnection_layout ''conn'' = Some 0"
  "offsetof ClosedConnection_layout ''time_established'' = Some 104"
  by (simp_all add: table_simps ClosedConnection_table)

lemma ClosedConnection_field_sizes [layout_simps]:
  "field_size ClosedConnection_layout ''conn'' = 104"
  "field_size ClosedConnection_layout ''time_established'' = 8"
  by (simp_all add: table_simps ClosedConnection_table)

lemma ClosedConnection_image_fields:
  assumes "ClosedConnection_wf c" and "length old = 112"
  shows "length (ClosedConnection_image c old) = 112"
    and "read_field ClosedConnection_layout ''conn'' (ClosedConnection_image c old) =
           Connection_image (closed_conn c) (take 104 old)"
    and "read_field ClosedConnection_layout ''time_established'' (ClosedConnection_image c old) =
           le_bytes 8 (closed_time_established c)"
  using write_fields_parts [of ClosedConnection_layout
      "[(''conn'', Connection_image (closed_conn c) (take 104 old)), (''time_established'', le_bytes 8 (closed_time_established c))]" old]
    Connection_image_fields(1) [of "closed_conn c" "take 104 old"] assms
  by (simp_all add: ClosedConnection_image_def ClosedConnection_wf_def read_field_def get_def image_simps layout_simps
      del: sizeof.simps)

section \<open>InboundConnection\<close>

definition InboundConnection_wf :: "InboundConnection_c \<Rightarrow> bool" where
  "InboundConnection_wf c \<longleftrightarrow> Connection_wf (inbound_conn c)"

lemma InboundConnection_table [layout_simps]:
  "field_table 0 InboundConnection_layout =
     [(''conn'', 0, 104),
      (''existing_connections'', 104, 8)]"
  by (simp add: layout_calc)

lemma InboundConnection_offsets [layout_simps]:
  "offsetof InboundConnection_layout ''conn'' = Some 0"
  "offsetof InboundConnection_layout ''existing_connections'' = Some 104"
  by (simp_all add: table_simps InboundConnection_table)

lemma InboundConnection_field_sizes [layout_simps]:
  "field_size InboundConnection_layout ''conn'' = 104"
  "field_size InboundConnection_layout ''existing_connections'' = 8"
  by (simp_all add: table_simps InboundConnection_table)

lemma InboundConnection_image_fields:
  assumes "InboundConnection_wf c" and "length old = 112"
  shows "length (InboundConnection_image c old) = 112"
    and "read_field InboundConnection_layout ''conn'' (InboundConnection_image c old) =
           Connection_image (inbound_conn c) (take 104 old)"
    and "read_field InboundConnection_layout ''existing_connections'' (InboundConnection_image c old) =
           le_bytes 8 (inbound_existing_connections c)"
  using write_fields_parts [of InboundConnection_layout
      "[(''conn'', Connection_image (inbound_conn c) (take 104 old)), (''existing_connections'', le_bytes 8 (inbound_existing_connections c))]" old]
    Connection_image_fields(1) [of "inbound_conn c" "take 104 old"] assms
  by (simp_all add: InboundConnection_image_def InboundConnection_wf_def read_field_def get_def image_simps layout_simps
      del: sizeof.simps)

section \<open>OutboundConnection\<close>

definition OutboundConnection_wf :: "OutboundConnection_c \<Rightarrow> bool" where
  "OutboundConnection_wf c \<longleftrightarrow> Connection_wf (outbound_conn c)"

lemma OutboundConnection_table [layout_simps]:
  "field_table 0 OutboundConnection_layout =
     [(''conn'', 0, 104),
      (''existing_connections'', 104, 8)]"
  by (simp add: layout_calc)

lemma OutboundConnection_offsets [layout_simps]:
  "offsetof OutboundConnection_layout ''conn'' = Some 0"
  "offsetof OutboundConnection_layout ''existing_connections'' = Some 104"
  by (simp_all add: table_simps OutboundConnection_table)

lemma OutboundConnection_field_sizes [layout_simps]:
  "field_size OutboundConnection_layout ''conn'' = 104"
  "field_size OutboundConnection_layout ''existing_connections'' = 8"
  by (simp_all add: table_simps OutboundConnection_table)

lemma OutboundConnection_image_fields:
  assumes "OutboundConnection_wf c" and "length old = 112"
  shows "length (OutboundConnection_image c old) = 112"
    and "read_field OutboundConnection_layout ''conn'' (OutboundConnection_image c old) =
           Connection_image (outbound_conn c) (take 104 old)"
    and "read_field OutboundConnection_layout ''existing_connections'' (OutboundConnection_image c old) =
           le_bytes 8 (outbound_existing_connections c)"
  using write_fields_parts [of OutboundConnection_layout
      "[(''conn'', Connection_image (outbound_conn c) (take 104 old)), (''existing_connections'', le_bytes 8 (outbound_existing_connections c))]" old]
    Connection_image_fields(1) [of "outbound_conn c" "take 104 old"] assms
  by (simp_all add: OutboundConnection_image_def OutboundConnection_wf_def read_field_def get_def image_simps layout_simps
      del: sizeof.simps)

section \<open>MisbehavingConnection\<close>

definition MisbehavingConnection_wf :: "MisbehavingConnection_c \<Rightarrow> bool" where
  "MisbehavingConnection_wf c \<longleftrightarrow> length (misb_message c) = MAX_MISBEHAVING_MESSAGE_LENGTH"

lemma MisbehavingConnection_table [layout_simps]:
  "field_table 0 MisbehavingConnection_layout =
     [(''id'', 0, 8),
      (''message'', 8, 128)]"
  by (simp add: layout_calc)

lemma MisbehavingConnection_offsets [layout_simps]:
  "offsetof MisbehavingConnection_layout ''id'' = Some 0"
  "offsetof MisbehavingConnection_layout ''message'' = Some 8"
  by (simp_all add: table_simps MisbehavingConnection_table)

lemma MisbehavingConnection_field_sizes [layout_simps]:
  "field_size MisbehavingConnection_layout ''id'' = 8"
  "field_size MisbehavingConnection_layout ''message'' = 128"
  by (simp_all add: table_simps MisbehavingConnection_table)

lemma MisbehavingConnection_image_fields:
  assumes "MisbehavingConnection_wf c" and "length old = 136"
  shows "length (MisbehavingConnection_image c old) = 136"
    and "read_field MisbehavingConnection_layout ''id'' (MisbehavingConnection_image c old) =
           le_bytes 8 (misb_id c)"
    and "read_field MisbehavingConnection_layout ''message'' (MisbehavingConnection_image c old) =
           misb_message c"
  using write_fields_parts [of MisbehavingConnection_layout
      "[(''id'', le_bytes 8 (misb_id c)), (''message'', misb_message c)]" old] assms
  by (simp_all add: MisbehavingConnection_image_def MisbehavingConnection_wf_def image_simps layout_simps
      del: sizeof.simps)

section \<open>MempoolAdded\<close>

definition MempoolAdded_wf :: "MempoolAdded_c \<Rightarrow> bool" where
  "MempoolAdded_wf c \<longleftrightarrow> length (added_txid c) = TXID_LENGHT"

lemma MempoolAdded_table [layout_simps]:
  "field_table 0 MempoolAdded_layout =
     [(''txid'', 0, 32),
      (''vsize'', 32, 4),
      (''fee'', 40, 8)]"
  by (simp add: layout_calc)

lemma MempoolAdded_offsets [layout_simps]:
  "offsetof MempoolAdded_layout ''txid'' = Some 0"
  "offsetof MempoolAdded_layout ''vsize'' = Some 32"
  "offsetof MempoolAdded_layout ''fee'' = Some 40"
  by (simp_all add: table_simps MempoolAdded_table)

lemma MempoolAdded_field_sizes [layout_simps]:
  "field_size MempoolAdded_layout ''txid'' = 32"
  "field_size MempoolAdded_layout ''vsize'' = 4"
  "field_size MempoolAdded_layout ''fee'' = 8"
  by (simp_all add: table_simps MempoolAdded_table)

lemma MempoolAdded_image_fields:
  assumes "MempoolAdded_wf c" and "length old = 48"
  shows "length (MempoolAdded_image c old) = 48"
    and "read_field MempoolAdded_layout ''txid'' (MempoolAdded_image c old) =
           added_txid c"
    and "read_field MempoolAdded_layout ''vsize'' (MempoolAdded_image c old) =
           le_bytes 4 (added_vsize c)"
    and "read_field MempoolAdded_layout ''fee'' (MempoolAdded_image c old) =
           le_bytes 8 (added_fee c)"
  using write_fields_parts [of MempoolAdded_layout
      "[(''txid'', added_txid c), (''vsize'', le_bytes 4 (added_vsize c)), (''fee'', le_bytes 8 (added_fee c))]" old] assms
  by (simp_all add: MempoolAdded_image_def MempoolAdded_wf_def image_simps layout_simps
      del: sizeof.simps)

section \<open>MempoolRemoved\<close>

definition MempoolRemoved_wf :: "MempoolRemoved_c \<Rightarrow> bool" where
  "MempoolRemoved_wf c \<longleftrightarrow> length (removed_txid c) = TXID_LENGHT \<and>
     length (removed_reason c) = REMOVAL_REASON_LENGTH"

lemma MempoolRemoved_table [layout_simps]:
  "field_table 0 MempoolRemoved_layout =
     [(''txid'', 0, 32),
      (''reason'', 32, 9),
      (''vsize'', 44, 4),
      (''fee'', 48, 8),
      (''entry_time'', 56, 8)]"
  by (simp add: layout_calc)

lemma MempoolRemoved_offsets [layout_simps]:
  "offsetof MempoolRemoved_layout ''txid'' = Some 0"
  "offsetof MempoolRemoved_layout ''reason'' = Some 32"
  "offsetof MempoolRemoved_layout ''vsize'' = Some 44"
  "offsetof MempoolRemoved_layout ''fee'' = Some 48"
  "offsetof MempoolRemoved_layout ''entry_time'' = Some 56"
  by (simp_all add: table_simps MempoolRemoved_table)

lemma MempoolRemoved_field_sizes [layout_simps]:
  "field_size MempoolRemoved_layout ''txid'' = 32"
  "field_size MempoolRemoved_layout ''reason'' = 9"
  "field_size MempoolRemoved_layout ''vsize'' = 4"
  "field_size MempoolRemoved_layout ''fee'' = 8"
  "field_size MempoolRemoved_layout ''entry_time'' = 8"
  by (simp_all add: table_simps MempoolRemoved_table)

lemma MempoolRemoved_image_fields:
  assumes "MempoolRemoved_wf c" and "length old = 64"
  shows "length (MempoolRemoved_image c old) = 64"
    and "read_field MempoolRemoved_layout ''txid'' (MempoolRemoved_image c old) =
           removed_txid c"
    and "read_field MempoolRemoved_layout ''reason'' (MempoolRemoved_image c old) =
           removed_reason c"
    and "read_field MempoolRemoved_layout ''vsize'' (MempoolRemoved_image c old) =
           le_bytes 4 (removed_vsize c)"
    and "read_field MempoolRemoved_layout ''fee'' (MempoolRemoved_image c old) =
           le_bytes 8 (removed_fee c)"
    and "read_field MempoolRemoved_layout ''entry_time'' (MempoolRemoved_image c old) =
           le_bytes 8 (removed_entry_time c)"
  using write_fields_parts [of MempoolRemoved_layout
      "[(''txid'', removed_txid c), (''reason'', removed_reason c), (''vsize'', le_bytes 4 (removed_vsize c)), (''fee'', le_bytes 8 (removed_fee c)), (''entry_time'', le_bytes 8 (removed_entry_time c))]" old] assms
  by (simp_all add: MempoolRemoved_image_def MempoolRemoved_wf_def image_simps layout_simps
      del: sizeof.simps)

section \<open>MempoolReplaced\<close>

definition MempoolReplaced_wf :: "MempoolReplaced_c \<Rightarrow> bool" where
  "MempoolReplaced_wf c \<longleftrightarrow> length (repl_replaced_txid c) = TXID_LENGHT \<and>
     length (repl_replacement_id c) = TXID_LENGHT"

lemma MempoolReplaced_table [layout_simps]:
  "field_table 0 MempoolReplaced_layout =
     [(''replaced_txid'', 0, 32),
      (''replaced_vsize'', 32, 4),
      (''replaced_fee'', 40, 8),
      (''replaced_entry_time'', 48, 8),
      (''replacement_id'', 56, 32),
      (''replacement_vsize'', 88, 4),
      (''replacement_fee'', 96, 8),
      (''replaced_by_transaction'', 104, 1)]"
  by (simp add: layout_calc)

lemma MempoolReplaced_offsets [layout_simps]:
  "offsetof MempoolReplaced_layout ''replaced_txid'' = Some 0"
  "offsetof MempoolReplaced_layout ''replaced_vsize'' = Some 32"
  "offsetof MempoolReplaced_layout ''replaced_fee'' = Some 40"
  "offsetof MempoolReplaced_layout ''replaced_entry_time'' = Some 48"
  "offsetof MempoolReplaced_layout ''replacement_id'' = Some 56"
  "offsetof MempoolReplaced_layout ''replacement_vsize'' = Some 88"
  "offsetof MempoolReplaced_layout ''replacement_fee'' = Some 96"
  "offsetof MempoolReplaced_layout ''replaced_by_transaction'' = Some 104"
  by (simp_all add: table_simps MempoolReplaced_table)

lemma MempoolReplaced_field_sizes [layout_simps]:
  "field_size MempoolReplaced_layout ''replaced_txid'' = 32"
  "field_size MempoolReplaced_layout ''replaced_vsize'' = 4"
  "field_size MempoolReplaced_layout ''replaced_fee'' = 8"
  "field_size MempoolReplaced_layout ''replaced_entry_time'' = 8"
  "field_size MempoolReplaced_layout ''replacement_id'' = 32"
  "field_size MempoolReplaced_layout ''replacement_vsize'' = 4"
  "field_size MempoolReplaced_layout ''replacement_fee'' = 8"
  "field_size MempoolReplaced_layout ''replaced_by_transaction'' = 1"
  by (simp_all add: table_simps MempoolReplaced_table)

lemma MempoolReplaced_image_fields:
  assumes "MempoolReplaced_wf c" and "length old = 112"
  shows "length (MempoolReplaced_image c old) = 112"
    and "read_field MempoolReplaced_layout ''replaced_txid'' (MempoolReplaced_image c old) =
           repl_replaced_txid c"
    and "read_field MempoolReplaced_layout ''replaced_vsize'' (MempoolReplaced_image c old) =
           le_bytes 4 (repl_replaced_vsize c)"
    and "read_field MempoolReplaced_layout ''replaced_fee'' (MempoolReplaced_image c old) =
           le_bytes 8 (repl_replaced_fee c)"
    and "read_field MempoolReplaced_layout ''replaced_entry_time'' (MempoolReplaced_image c old) =
           le_bytes 8 (repl_replaced_entry_time c)"
    and "read_field MempoolReplaced_layout ''replacement_id'' (MempoolReplaced_image c old) =
           repl_replacement_id c"
    and "read_field MempoolReplaced_layout ''replacement_vsize'' (MempoolReplaced_image c old) =
           le_bytes 4 (repl_replacement_vsize c)"
    and "read_field MempoolReplaced_layout ''replacement_fee'' (MempoolReplaced_image c old) =
           le_bytes 8 (repl_replacement_fee c)"
    and "read_field MempoolReplaced_layout ''replaced_by_transaction'' (MempoolReplaced_image c old) =
           [bool_byte (repl_replaced_by_transaction c)]"
  using write_fields_parts [of MempoolReplaced_layout
      "[(''replaced_txid'', repl_replaced_txid c), (''replaced_vsize'', le_bytes 4 (repl_replaced_vsize c)), (''replaced_fee'', le_bytes 8 (repl_replaced_fee c)), (''replaced_entry_time'', le_bytes 8 (repl_replaced_entry_time c)), (''replacement_id'', repl_replacement_id c), (''replacement_vsize'', le_bytes 4 (repl_replacement_vsize c)), (''replacement_fee'', le_bytes 8 (repl_replacement_fee c)), (''replaced_by_transaction'', [bool_byte (repl_replaced_by_transaction c)])]" old] assms
  by (simp_all add: MempoolReplaced_image_def MempoolReplaced_wf_def image_simps layout_simps
      del: sizeof.simps)

section \<open>MempoolRejected\<close>

definition MempoolRejected_wf :: "MempoolRejected_c \<Rightarrow> bool" where
  "MempoolRejected_wf c \<longleftrightarrow> length (rej_txid c) = TXID_LENGHT \<and>
     length (rej_reason c) = REJECTION_REASON_LENGTH"

lemma MempoolRejected_table [layout_simps]:
  "field_table 0 MempoolRejected_layout =
     [(''txid'', 0, 32),
      (''reason'', 32, 113)]"
  by (simp add: layout_calc)

lemma MempoolRejected_offsets [layout_simps]:
  "offsetof MempoolRejected_layout ''txid'' = Some 0"
  "offsetof MempoolRejected_layout ''reason'' = Some 32"
  by (simp_all add: table_simps MempoolRejected_table)

lemma MempoolRejected_field_sizes [layout_simps]:
  "field_size MempoolRejected_layout ''txid'' = 32"
  "field_size MempoolRejected_layout ''reason'' = 113"
  by (simp_all add: table_simps MempoolRejected_table)

lemma MempoolRejected_image_fields:
  assumes "MempoolRejected_wf c" and "length old = 145"
  shows "length (MempoolRejected_image c old) = 145"
    and "read_field MempoolRejected_layout ''txid'' (MempoolRejected_image c old) =
           rej_txid c"
    and "read_field MempoolRejected_layout ''reason'' (MempoolRejected_image c old) =
           rej_reason c"
  using write_fields_parts [of MempoolRejected_layout
      "[(''txid'', rej_txid c), (''reason'', rej_reason c)]" old] assms
  by (simp_all add: MempoolRejected_image_def MempoolRejected_wf_def image_simps layout_simps
      del: sizeof.simps)

section \<open>BlockConnected\<close>

definition BlockConnected_wf :: "BlockConnected_c \<Rightarrow> bool" where
  "BlockConnected_wf c \<longleftrightarrow> length (bc_hash c) = HASH_LENGHT"

lemma BlockConnected_table [layout_simps]:
  "field_table 0 BlockConnected_layout =
     [(''hash'', 0, 32),
      (''height'', 32, 4),
      (''transactions'', 40, 8),
      (''inputs'', 48, 4),
      (''sigops'', 56, 8),
      (''connection_time'', 64, 8)]"
  by (simp add: layout_calc)

lemma BlockConnected_offsets [layout_simps]:
  "offsetof BlockConnected_layout ''hash'' = Some 0"
  "offsetof BlockConnected_layout ''height'' = Some 32"
  "offsetof BlockConnected_layout ''transactions'' = Some 40"
  "offsetof BlockConnected_layout ''inputs'' = Some 48"
  "offsetof BlockConnected_layout ''sigops'' = Some 56"
  "offsetof BlockConnected_layout ''connection_time'' = Some 64"
  by (simp_all add: table_simps BlockConnected_table)

lemma BlockConnected_field_sizes [layout_simps]:
  "field_size BlockConnected_layout ''hash'' = 32"
  "field_size BlockConnected_layout ''height'' = 4"
  "field_size BlockConnected_layout ''transactions'' = 8"
  "field_size BlockConnected_layout ''inputs'' = 4"
  "field_size BlockConnected_layout ''sigops'' = 8"
  "field_size BlockConnected_layout ''connection_time'' = 8"
  by (simp_all add: table_simps BlockConnected_table)

lemma BlockConnected_image_fields:
  assumes "BlockConnected_wf c" and "length old = 72"
  shows "length (BlockConnected_image c old) = 72"
    and "read_field BlockConnected_layout ''hash'' (BlockConnected_image c old) =
           bc_hash c"
    and "read_field BlockConnected_layout ''height'' (BlockConnected_image c old) =
           le_bytes 4 (bc_height c)"
    and "read_field BlockConnected_layout ''transactions'' (BlockConnected_image c old) =
           le_bytes 8 (bc_transactions c)"
    and "read_field BlockConnected_layout ''inputs'' (BlockConnected_image c old) =
           le_bytes 4 (bc_inputs c)"
    and "read_field BlockConnected_layout ''sigops'' (BlockConnected_image c old) =
           le_bytes 8 (bc_sigops c)"
    and "read_field BlockConnected_layout ''connection_time'' (BlockConnected_image c old) =
           le_bytes 8 (bc_connection_time c)"
  using write_fields_parts [of BlockConnected_layout
      "[(''hash'', bc_hash c), (''height'', le_bytes 4 (bc_height c)), (''transactions'', le_bytes 8 (bc_transactions c)), (''inputs'', le_bytes 4 (bc_inputs c)), (''sigops'', le_bytes 8 (bc_sigops c)), (''connection_time'', le_bytes 8 (bc_connection_time c))]" old] assms
  by (simp_all add: BlockConnected_image_def BlockConnected_wf_def image_simps layout_simps
      del: sizeof.simps)

end
