(* ===== verification/HandlerFacts.thy ===== *)
theory HandlerFacts
  imports NetMessages EventHandlers TracingLayouts
begin

text \<open>
  What every handler of \<^verbatim>\<open>tracing.bpf.c\<close> keeps, as one interface with an interpretation per
  handler: it only appends helper calls, returns with no reservation of its own outstanding, adds
  at most one record, and only to its own ring buffers. Tracepoint hits then compose into runs
  of the whole program.
\<close>

section \<open>The contract of a handler\<close>

locale bpf_handler =
  fixes step :: "trace \<Rightarrow> s32 \<times> trace"
    and rings :: "ring set"
  assumes appends: "\<exists>calls. snd (step tr) = tr @ calls \<and>
    (\<forall>r. outstanding r calls = 0) \<and>
    (\<forall>r. r \<notin> rings \<longrightarrow> delivered r calls = []) \<and>
    (\<forall>r. length (delivered r calls) \<le> 1)"
begin

lemma balanced: "outstanding r (snd (step tr)) = outstanding r tr"
  using appends [of tr] by auto

lemma foreign_rings: "r \<notin> rings \<Longrightarrow> delivered r (snd (step tr)) = delivered r tr"
  using appends [of tr] by auto

lemma at_most_one: "\<exists>new. delivered r (snd (step tr)) = delivered r tr @ new \<and> length new \<le> 1"
  using appends [of tr] by auto

end

text \<open>The message handlers reserve and submit; the others copy a finished object.\<close>

lemma net_msg_handler_calls:
  "\<exists>calls. snd (net_msg_handler inbound env tr id' addr conn_type msg_type msg_size payload) = tr @ calls \<and>
     (\<forall>r. outstanding r calls = 0) \<and>
     (\<forall>r. r \<notin> {net_msg_small, net_msg_medium, net_msg_large, net_msg_huge} \<longrightarrow> delivered r calls = []) \<and>
     (\<forall>r. length (delivered r calls) \<le> 1)"
proof (cases "msg_class msg_size")
  case None
  then show ?thesis by (simp add: net_msg_handler_def give_up_def bpf_printk_def)
next
  case (Some c)
  obtain r cap name where c: "c = (r, cap, name)" by (cases c)
  have r: "r \<in> {net_msg_small, net_msg_medium, net_msg_large, net_msg_huge}"
    using Some c by (auto simp: msg_class_def split: if_splits)
  show ?thesis
  proof (cases "reserve_result env tr r (of_nat (120 + cap)) 0")
    case None
    then show ?thesis
      using Some c by (simp add: net_msg_handler_def give_up_def bpf_printk_def bpf_ringbuf_reserve_def)
  next
    case img: (Some img)
    then show ?thesis
      using Some c r by (auto simp: net_msg_handler_def bpf_ringbuf_submit_def bpf_ringbuf_reserve_def)
  qed
qed

lemma output_event_calls:
  "\<exists>calls. snd (output_event env tr r data) = tr @ calls \<and>
     (\<forall>q. outstanding q calls = 0) \<and> (\<forall>q. q \<notin> {r} \<longrightarrow> delivered q calls = []) \<and>
     (\<forall>q. length (delivered q calls) \<le> 1)"
  by (simp add: output_event_def bpf_ringbuf_output_def Let_def)

interpretation msg_in: bpf_handler
    "\<lambda>tr. handle_net_msg_inbound env tr id' addr conn_type msg_type msg_size payload"
    "{net_msg_small, net_msg_medium, net_msg_large, net_msg_huge}"
  for env id' addr conn_type msg_type msg_size payload
  by unfold_locales (use net_msg_handler_calls in \<open>simp add: inbound_eq_handler\<close>)

interpretation msg_out: bpf_handler
    "\<lambda>tr. handle_net_msg_outbound env tr id' addr conn_type msg_type msg_size payload"
    "{net_msg_small, net_msg_medium, net_msg_large, net_msg_huge}"
  for env id' addr conn_type msg_type msg_size payload
  by unfold_locales (use net_msg_handler_calls in \<open>simp add: outbound_eq_handler\<close>)

interpretation conn_in: bpf_handler
    "\<lambda>tr. handle_net_conn_inbound env tr id' addr type network existing" "{net_conn_inbound}"
  for env id' addr type network existing
  by unfold_locales (unfold handle_net_conn_inbound_def Let_def, rule output_event_calls)

interpretation conn_out: bpf_handler
    "\<lambda>tr. handle_net_conn_outbound env tr id' addr type network existing" "{net_conn_outbound}"
  for env id' addr type network existing
  by unfold_locales (unfold handle_net_conn_outbound_def Let_def, rule output_event_calls)

interpretation conn_closed: bpf_handler
    "\<lambda>tr. handle_net_conn_closed env tr id' addr type network established" "{net_conn_closed}"
  for env id' addr type network established
  by unfold_locales (unfold handle_net_conn_closed_def Let_def, rule output_event_calls)

interpretation conn_evicted: bpf_handler
    "\<lambda>tr. handle_net_conn_inbound_evicted env tr id' addr type network established"
    "{net_conn_inbound_evicted}"
  for env id' addr type network established
  by unfold_locales (unfold handle_net_conn_inbound_evicted_def Let_def, rule output_event_calls)

interpretation conn_misbehaving: bpf_handler
    "\<lambda>tr. handle_net_conn_misbehaving env tr id' message" "{net_conn_misbehaving}"
  for env id' message
  by unfold_locales (unfold handle_net_conn_misbehaving_def Let_def, rule output_event_calls)

interpretation mp_added: bpf_handler
    "\<lambda>tr. handle_mempool_added env tr txid vsize fee" "{mempool_added}"
  for env txid vsize fee
  by unfold_locales (unfold handle_mempool_added_def Let_def, rule output_event_calls)

interpretation mp_removed: bpf_handler
    "\<lambda>tr. handle_mempool_removed env tr txid reason vsize fee entry_time" "{mempool_removed}"
  for env txid reason vsize fee entry_time
  by unfold_locales (unfold handle_mempool_removed_def Let_def, rule output_event_calls)

interpretation mp_replaced: bpf_handler
    "\<lambda>tr. handle_mempool_replaced env tr txid vsize fee entry_time rid rvsize rfee by_tx"
    "{mempool_replaced}"
  for env txid vsize fee entry_time rid rvsize rfee by_tx
  by unfold_locales (unfold handle_mempool_replaced_def Let_def, rule output_event_calls)

interpretation mp_rejected: bpf_handler
    "\<lambda>tr. handle_mempool_rejected env tr txid reason" "{mempool_rejected}"
  for env txid reason
  by unfold_locales (unfold handle_mempool_rejected_def Let_def, rule output_event_calls)

interpretation block_connected: bpf_handler
    "\<lambda>tr. handle_validation_block_connected env tr hash height transactions inputs sigops time"
    "{validation_block_connected}"
  for env hash height transactions inputs sigops time
  by unfold_locales (unfold handle_validation_block_connected_def Let_def, rule output_event_calls)

section \<open>Tracepoint hits\<close>

text \<open>A hit is a tracepoint of bitcoind firing with its arguments.\<close>

datatype hit =
    HitMsgInbound u64 u64 u64 u64 u64 u64
  | HitMsgOutbound u64 u64 u64 u64 u64 u64
  | HitConnInbound u64 u64 u64 u64 u64
  | HitConnOutbound u64 u64 u64 u64 u64
  | HitConnClosed u64 u64 u64 u64 u64
  | HitConnEvicted u64 u64 u64 u64 u64
  | HitConnMisbehaving u64 u64
  | HitMempoolAdded u64 s32 s64
  | HitMempoolRemoved u64 u64 s32 s64 u64
  | HitMempoolReplaced u64 s32 s64 u64 u64 s32 s64 bool
  | HitMempoolRejected u64 u64
  | HitBlockConnected u64 s32 u64 s32 u64 u64

fun invoke :: "bpf_env \<Rightarrow> hit \<Rightarrow> trace \<Rightarrow> s32 \<times> trace" where
  "invoke env (HitMsgInbound i a c t n p) tr = handle_net_msg_inbound env tr i a c t n p"
| "invoke env (HitMsgOutbound i a c t n p) tr = handle_net_msg_outbound env tr i a c t n p"
| "invoke env (HitConnInbound i a t n e) tr = handle_net_conn_inbound env tr i a t n e"
| "invoke env (HitConnOutbound i a t n e) tr = handle_net_conn_outbound env tr i a t n e"
| "invoke env (HitConnClosed i a t n e) tr = handle_net_conn_closed env tr i a t n e"
| "invoke env (HitConnEvicted i a t n e) tr = handle_net_conn_inbound_evicted env tr i a t n e"
| "invoke env (HitConnMisbehaving i m) tr = handle_net_conn_misbehaving env tr i m"
| "invoke env (HitMempoolAdded x v f) tr = handle_mempool_added env tr x v f"
| "invoke env (HitMempoolRemoved x r v f e) tr = handle_mempool_removed env tr x r v f e"
| "invoke env (HitMempoolReplaced x v f e y w g b) tr = handle_mempool_replaced env tr x v f e y w g b"
| "invoke env (HitMempoolRejected x r) tr = handle_mempool_rejected env tr x r"
| "invoke env (HitBlockConnected h k t i s c) tr = handle_validation_block_connected env tr h k t i s c"

text \<open>The name of the BPF program a hit runs, and the ring buffers it may write.\<close>

fun hit_function :: "hit \<Rightarrow> string" where
  "hit_function (HitMsgInbound i a c t n p) = ''handle_net_msg_inbound''"
| "hit_function (HitMsgOutbound i a c t n p) = ''handle_net_msg_outbound''"
| "hit_function (HitConnInbound i a t n e) = ''handle_net_conn_inbound''"
| "hit_function (HitConnOutbound i a t n e) = ''handle_net_conn_outbound''"
| "hit_function (HitConnClosed i a t n e) = ''handle_net_conn_closed''"
| "hit_function (HitConnEvicted i a t n e) = ''handle_net_conn_inbound_evicted''"
| "hit_function (HitConnMisbehaving i m) = ''handle_net_conn_misbehaving''"
| "hit_function (HitMempoolAdded x v f) = ''handle_mempool_added''"
| "hit_function (HitMempoolRemoved x r v f e) = ''handle_mempool_removed''"
| "hit_function (HitMempoolReplaced x v f e y w g b) = ''handle_mempool_replaced''"
| "hit_function (HitMempoolRejected x r) = ''handle_mempool_rejected''"
| "hit_function (HitBlockConnected h k t i s c) = ''handle_validation_block_connected''"

fun hit_rings :: "hit \<Rightarrow> ring set" where
  "hit_rings (HitMsgInbound i a c t n p) = {net_msg_small, net_msg_medium, net_msg_large, net_msg_huge}"
| "hit_rings (HitMsgOutbound i a c t n p) = {net_msg_small, net_msg_medium, net_msg_large, net_msg_huge}"
| "hit_rings (HitConnInbound i a t n e) = {net_conn_inbound}"
| "hit_rings (HitConnOutbound i a t n e) = {net_conn_outbound}"
| "hit_rings (HitConnClosed i a t n e) = {net_conn_closed}"
| "hit_rings (HitConnEvicted i a t n e) = {net_conn_inbound_evicted}"
| "hit_rings (HitConnMisbehaving i m) = {net_conn_misbehaving}"
| "hit_rings (HitMempoolAdded x v f) = {mempool_added}"
| "hit_rings (HitMempoolRemoved x r v f e) = {mempool_removed}"
| "hit_rings (HitMempoolReplaced x v f e y w g b) = {mempool_replaced}"
| "hit_rings (HitMempoolRejected x r) = {mempool_rejected}"
| "hit_rings (HitBlockConnected h k t i s c) = {validation_block_connected}"

fun run_hits :: "bpf_env \<Rightarrow> hit list \<Rightarrow> trace \<Rightarrow> trace" where
  "run_hits env [] tr = tr"
| "run_hits env (h # hs) tr = run_hits env hs (snd (invoke env h tr))"

text \<open>Every hit keeps the contract: the interpretations, one per kind of hit.\<close>

interpretation any_hit: bpf_handler "invoke env h" "hit_rings h"
  for env h
  by unfold_locales
    (cases h; simp only: invoke.simps hit_rings.simps;
      rule msg_in.appends msg_out.appends conn_in.appends conn_out.appends conn_closed.appends
        conn_evicted.appends conn_misbehaving.appends mp_added.appends mp_removed.appends
        mp_replaced.appends mp_rejected.appends block_connected.appends)

lemma run_hits_balanced: "outstanding r (run_hits env hs tr) = outstanding r tr"
  by (induction env hs tr rule: run_hits.induct) (simp_all add: any_hit.balanced)

lemma run_hits_delivered:
  "\<exists>new. delivered r (run_hits env hs tr) = delivered r tr @ new \<and>
     length new \<le> length (filter (\<lambda>h. r \<in> hit_rings h) hs)"
proof (induction env hs tr rule: run_hits.induct)
  case (2 env h hs tr)
  obtain n1 where 1: "delivered r (snd (invoke env h tr)) = delivered r tr @ n1" "length n1 \<le> 1"
      "r \<notin> hit_rings h \<longrightarrow> n1 = []"
    using any_hit.at_most_one [of r env h tr] any_hit.foreign_rings [of r h env tr] by auto
  obtain n2 where "delivered r (run_hits env hs (snd (invoke env h tr))) =
        delivered r (snd (invoke env h tr)) @ n2"
      "length n2 \<le> length (filter (\<lambda>h. r \<in> hit_rings h) hs)"
    using "2.IH" by blast
  then show ?case using 1 by (intro exI [of _ "n1 @ n2"]) auto
qed simp

end
