(* ===== verification/RustStd.thy ===== *)
theory RustStd
  imports Prelude
begin

text \<open>
  The parts of the Rust standard library the program rests on: faults as values, the \<^verbatim>\<open>?\<close>
  operator and \<^verbatim>\<open>String::from_utf8_lossy\<close>. A Rust \<^verbatim>\<open>String\<close> is the list of its UTF-8 bytes. The decoder
  follows the standard library's chunk iterator: it accepts the longest well-formed sequence,
  and replaces each maximal ill-formed prefix by U+FFFD.
\<close>

section \<open>Faults\<close>

text \<open>
  A panic of safe code, a read of \<^verbatim>\<open>unsafe\<close> code past its slice, and the creation of a value
  its type does not have (both undefined behaviour).
\<close>

datatype fault = SlicePanic | OutOfBoundsRead | InvalidValue

fun is_ok :: "'e + 'a \<Rightarrow> bool" where
  "is_ok (Inl e) = False"
| "is_ok (Inr x) = True"

section \<open>Results\<close>

text \<open>The \<^verbatim>\<open>?\<close> operator.\<close>

definition bind_res :: "'e + 'a \<Rightarrow> ('a \<Rightarrow> 'e + 'b) \<Rightarrow> 'e + 'b" where
  "bind_res r f = (case r of Inl e \<Rightarrow> Inl e | Inr x \<Rightarrow> f x)"

lemma bind_res_simps [simp]:
  "bind_res (Inl e) f = Inl e"
  "bind_res (Inr x) f = f x"
  by (simp_all add: bind_res_def)

section \<open>Lossy UTF-8 decoding\<close>

definition cont_byte :: "byte \<Rightarrow> bool" where
  "cont_byte b \<longleftrightarrow> 0x80 \<le> b \<and> b \<le> 0xBF"

definition second_of_3 :: "byte \<Rightarrow> byte \<Rightarrow> bool" where
  "second_of_3 b c \<longleftrightarrow>
     (b = 0xE0 \<and> 0xA0 \<le> c \<and> c \<le> 0xBF) \<or>
     (0xE1 \<le> b \<and> b \<le> 0xEC \<and> cont_byte c) \<or>
     (b = 0xED \<and> 0x80 \<le> c \<and> c \<le> 0x9F) \<or>
     (0xEE \<le> b \<and> b \<le> 0xEF \<and> cont_byte c)"

definition second_of_4 :: "byte \<Rightarrow> byte \<Rightarrow> bool" where
  "second_of_4 b c \<longleftrightarrow>
     (b = 0xF0 \<and> 0x90 \<le> c \<and> c \<le> 0xBF) \<or>
     (0xF1 \<le> b \<and> b \<le> 0xF3 \<and> cont_byte c) \<or>
     (b = 0xF4 \<and> 0x80 \<le> c \<and> c \<le> 0x8F)"

text \<open>How many of the bytes that follow satisfy the given tests, in order.\<close>

fun accept :: "(byte \<Rightarrow> bool) list \<Rightarrow> byte list \<Rightarrow> nat" where
  "accept (p # ps) (b # bs) = (if p b then Suc (accept ps bs) else 0)"
| "accept ps bs = 0"

text \<open>The length of the first chunk of a non-empty string, and whether it is well-formed.\<close>

definition utf8_tests :: "byte \<Rightarrow> (byte \<Rightarrow> bool) list option" where
  "utf8_tests b =
     (if b < 0x80 then Some []
      else if 0xC2 \<le> b \<and> b \<le> 0xDF then Some [cont_byte]
      else if 0xE0 \<le> b \<and> b \<le> 0xEF then Some [second_of_3 b, cont_byte]
      else if 0xF0 \<le> b \<and> b \<le> 0xF4 then Some [second_of_4 b, cont_byte, cont_byte]
      else None)"

fun utf8_chunk :: "byte list \<Rightarrow> nat \<times> bool" where
  "utf8_chunk [] = (0, True)"
| "utf8_chunk (b # bs) =
     (case utf8_tests b of
        None \<Rightarrow> (1, False)
      | Some ps \<Rightarrow> (let n = accept ps bs in (Suc n, n = length ps)))"

lemma utf8_chunk_shrinks:
  "bs \<noteq> [] \<Longrightarrow> (n, ok) = utf8_chunk bs \<Longrightarrow> length (drop n bs) < length bs"
  by (cases bs) (auto simp: Let_def split: option.splits)

definition replacement :: "byte list" where
  "replacement = [0xEF, 0xBF, 0xBD]"

function from_utf8_lossy :: "byte list \<Rightarrow> byte list" where
  "from_utf8_lossy bs =
     (if bs = [] then []
      else (case utf8_chunk bs of
              (n, ok) \<Rightarrow> (if ok then take n bs else replacement) @ from_utf8_lossy (drop n bs)))"
  by pat_completeness auto
termination
  by (relation "measure length") (auto intro: utf8_chunk_shrinks simp del: length_drop)

declare from_utf8_lossy.simps [simp del]

function utf8_valid :: "byte list \<Rightarrow> bool" where
  "utf8_valid bs =
     (if bs = [] then True
      else (case utf8_chunk bs of (n, ok) \<Rightarrow> ok \<and> utf8_valid (drop n bs)))"
  by pat_completeness auto
termination
  by (relation "measure length") (auto intro: utf8_chunk_shrinks simp del: length_drop)

declare utf8_valid.simps [simp del]

lemma from_utf8_lossy_Nil [simp]: "from_utf8_lossy [] = []"
  by (simp add: from_utf8_lossy.simps)

lemma utf8_valid_Nil [simp]: "utf8_valid []"
  by (simp add: utf8_valid.simps)

lemma accept_append: "accept ps bs = length ps \<Longrightarrow> accept ps (bs @ cs) = length ps"
  by (induction ps bs rule: accept.induct) (auto split: if_splits)

lemma accept_le: "accept ps bs \<le> length bs"
  by (induction ps bs rule: accept.induct) auto

lemma accept_take: "accept ps bs = length ps \<Longrightarrow> accept ps (take (length ps) bs) = length ps"
  by (induction ps bs rule: accept.induct) (auto split: if_splits)

text \<open>A well-formed chunk in front of a valid string is valid.\<close>

lemma utf8_chunk_take_append:
  assumes "utf8_chunk bs = (n, True)" and "bs \<noteq> []"
  shows "utf8_chunk (take n bs @ cs) = (n, True)"
  using assms
  by (cases bs) (auto simp: Let_def accept_take accept_append split: option.splits)

lemma utf8_chunk_le: "utf8_chunk bs = (n, ok) \<Longrightarrow> n \<le> length bs"
  using accept_le by (cases bs) (auto simp: Let_def split: option.splits)

lemma utf8_valid_chunk_append:
  assumes "utf8_chunk bs = (n, True)" and "bs \<noteq> []" and "utf8_valid cs"
  shows "utf8_valid (take n bs @ cs)"
  using utf8_chunk_take_append [OF assms(1,2), of cs] assms(3) utf8_chunk_le [OF assms(1)]
  by (subst utf8_valid.simps) simp

lemma utf8_valid_replacement_append: "utf8_valid cs \<Longrightarrow> utf8_valid (replacement @ cs)"
  by (subst utf8_valid.simps)
    (simp add: replacement_def utf8_tests_def second_of_3_def cont_byte_def Let_def)

lemma utf8_valid_from_utf8_lossy: "utf8_valid (from_utf8_lossy bs)"
proof (induction bs rule: from_utf8_lossy.induct)
  case (1 bs)
  show ?case
  proof (cases "bs = []")
    case False
    obtain n ok where c: "utf8_chunk bs = (n, ok)" by (cases "utf8_chunk bs")
    have "utf8_valid (from_utf8_lossy (drop n bs))" by (rule "1.IH" [OF False c [symmetric]])
    then show ?thesis
      using False c utf8_valid_chunk_append utf8_valid_replacement_append
      by (subst from_utf8_lossy.simps) auto
  qed simp
qed

lemma from_utf8_lossy_valid: "utf8_valid bs \<Longrightarrow> from_utf8_lossy bs = bs"
proof (induction bs rule: from_utf8_lossy.induct)
  case (1 bs)
  show ?case
  proof (cases "bs = []")
    case False
    obtain n ok where c: "utf8_chunk bs = (n, ok)" by (cases "utf8_chunk bs")
    have v: "ok \<and> utf8_valid (drop n bs)"
      using "1.prems" False c by (subst (asm) utf8_valid.simps) simp
    then have "from_utf8_lossy (drop n bs) = drop n bs"
      using "1.IH" [OF False c [symmetric]] by simp
    then show ?thesis using False c v by (subst from_utf8_lossy.simps) simp
  qed simp
qed

lemma utf8_valid_ascii: "\<forall>b \<in> set bs. b < 0x80 \<Longrightarrow> utf8_valid bs"
  by (induction bs) (simp_all add: utf8_valid.simps [of "_ # _"] utf8_tests_def Let_def)

lemma from_utf8_lossy_ascii: "\<forall>b \<in> set bs. b < 0x80 \<Longrightarrow> from_utf8_lossy bs = bs"
  by (rule from_utf8_lossy_valid) (rule utf8_valid_ascii)

end
