(* ===== verification/Ctypes.thy ===== *)
theory Ctypes
  imports CLayout RustStd
begin

text \<open>
  \<^verbatim>\<open>shared/src/protobuf/ebpf_extractor/ctypes.rs\<close>: the Rust mirror of the C structs. Each
  \<^verbatim>\<open>repr(C)\<close> struct is a record with its own layout, written from the Rust declaration, and
  \<^verbatim>\<open>from_bytes\<close> reads it from the bytes of a ring buffer record. A read past the slice, an
  invalid \<^verbatim>\<open>bool\<close>, and an out-of-range slice are faults.
\<close>

section \<open>Sizes\<close>

definition rs_MAX_PEER_ADDR_LENGTH :: nat where "rs_MAX_PEER_ADDR_LENGTH = 62 + 6"
definition rs_MAX_PEER_CONN_TYPE_LENGTH :: nat where "rs_MAX_PEER_CONN_TYPE_LENGTH = 20"
definition rs_MAX_MSG_TYPE_LENGTH :: nat where "rs_MAX_MSG_TYPE_LENGTH = 12"
definition rs_MAX_MISBEHAVING_MESSAGE_LENGTH :: nat where "rs_MAX_MISBEHAVING_MESSAGE_LENGTH = 128"
definition MAX_P2P_MESSAGE_SIZE :: nat where "MAX_P2P_MESSAGE_SIZE = 4194304"
definition rs_TXID_LENGTH :: nat where "rs_TXID_LENGTH = 32"
definition rs_REMOVAL_REASON_LENGTH :: nat where "rs_REMOVAL_REASON_LENGTH = 9"
definition rs_REJECTION_REASON_LENGTH :: nat where "rs_REJECTION_REASON_LENGTH = 118"
definition rs_HASH_LENGTH :: nat where "rs_HASH_LENGTH = 32"

lemmas rs_size_defs =
  rs_MAX_PEER_ADDR_LENGTH_def rs_MAX_PEER_CONN_TYPE_LENGTH_def rs_MAX_MSG_TYPE_LENGTH_def
  rs_MAX_MISBEHAVING_MESSAGE_LENGTH_def MAX_P2P_MESSAGE_SIZE_def rs_TXID_LENGTH_def
  rs_REMOVAL_REASON_LENGTH_def rs_REJECTION_REASON_LENGTH_def rs_HASH_LENGTH_def

section \<open>Reading a struct\<close>

definition bool_of_byte :: "byte list \<Rightarrow> bool option" where
  "bool_of_byte bs = (if bs = [0] then Some False else if bs = [1] then Some True else None)"

text \<open>\<^verbatim>\<open>ptr::read_unaligned(x.as_ptr() as *const T)\<close>: it does not look at the slice's length.\<close>

definition read_unaligned ::
  "cfield list \<Rightarrow> (byte list \<Rightarrow> 'a option) \<Rightarrow> byte list \<Rightarrow> fault + 'a" where
  "read_unaligned fs dec x =
     (if length x < sizeof (Struct fs) then Inl OutOfBoundsRead
      else case dec (take (sizeof (Struct fs)) x) of None \<Rightarrow> Inl InvalidValue | Some v \<Rightarrow> Inr v)"

text \<open>A character array up to its first NUL, as a \<^verbatim>\<open>String\<close>.\<close>

definition chars_to_string :: "byte list \<Rightarrow> byte list" where
  "chars_to_string cs = from_utf8_lossy (cstr cs)"

section \<open>P2P messages\<close>

record P2PMessageMetadata =
  peer_id :: u64
  peer_addr :: "byte list"
  peer_conn_type :: "byte list"
  msg_type :: "byte list"
  msg_inbound :: bool
  msg_size :: u64

definition P2PMessageMetadata_layout :: "cfield list" where
  "P2PMessageMetadata_layout =
     [Field ''peer_id'' u64_t,
      Field ''peer_addr'' (Array u8_t rs_MAX_PEER_ADDR_LENGTH),
      Field ''peer_conn_type'' (Array u8_t rs_MAX_PEER_CONN_TYPE_LENGTH),
      Field ''msg_type'' (Array u8_t rs_MAX_MSG_TYPE_LENGTH),
      Field ''msg_inbound'' bool_t,
      Field ''msg_size'' u64_t]"

definition P2PMessageMetadata_decode :: "byte list \<Rightarrow> P2PMessageMetadata option" where
  "P2PMessageMetadata_decode x =
     map_option (\<lambda>b. \<lparr>
       peer_id = le_word (read_field P2PMessageMetadata_layout ''peer_id'' x),
       peer_addr = read_field P2PMessageMetadata_layout ''peer_addr'' x,
       peer_conn_type = read_field P2PMessageMetadata_layout ''peer_conn_type'' x,
       msg_type = read_field P2PMessageMetadata_layout ''msg_type'' x,
       msg_inbound = b,
       msg_size = le_word (read_field P2PMessageMetadata_layout ''msg_size'' x)\<rparr>)
     (bool_of_byte (read_field P2PMessageMetadata_layout ''msg_inbound'' x))"

definition P2PMessageMetadata_from_bytes :: "byte list \<Rightarrow> fault + P2PMessageMetadata" where
  "P2PMessageMetadata_from_bytes x =
     read_unaligned P2PMessageMetadata_layout P2PMessageMetadata_decode x"

definition peer_addr_str :: "P2PMessageMetadata \<Rightarrow> byte list" where
  "peer_addr_str m = chars_to_string (peer_addr m)"

definition peer_conn_type_str :: "P2PMessageMetadata \<Rightarrow> byte list" where
  "peer_conn_type_str m = chars_to_string (peer_conn_type m)"

definition msg_type_str :: "P2PMessageMetadata \<Rightarrow> byte list" where
  "msg_type_str m = chars_to_string (msg_type m)"

record P2PMessage =
  meta :: P2PMessageMetadata
  payload :: "byte list"

text \<open>
  \<^verbatim>\<open>P2PMessage::from_bytes\<close>: safe slices around one unsafe read. The two slice expressions
  panic when the record is too short.
\<close>

definition P2PMessage_from_bytes :: "byte list \<Rightarrow> fault + P2PMessage" where
  "P2PMessage_from_bytes x =
     (let n = sizeof (Struct P2PMessageMetadata_layout)
      in if length x < n then Inl SlicePanic
         else case read_unaligned P2PMessageMetadata_layout P2PMessageMetadata_decode (take n x) of
                Inl e \<Rightarrow> Inl e
              | Inr m \<Rightarrow>
                  (let payload_size = min (unat (msg_size m)) MAX_P2P_MESSAGE_SIZE
                   in if length x < n + payload_size then Inl SlicePanic
                      else Inr \<lparr>meta = m, payload = take payload_size (drop n x)\<rparr>))"

section \<open>Connections\<close>

record Connection_rs =
  rc_id :: u64
  rc_addr :: "byte list"
  rc_conn_type :: "byte list"
  rc_network :: u32

definition Connection_rs_layout :: "cfield list" where
  "Connection_rs_layout =
     [Field ''id'' u64_t,
      Field ''addr'' (Array u8_t rs_MAX_PEER_ADDR_LENGTH),
      Field ''conn_type'' (Array u8_t rs_MAX_PEER_CONN_TYPE_LENGTH),
      Field ''network'' u32_t]"

definition Connection_rs_decode :: "byte list \<Rightarrow> Connection_rs" where
  "Connection_rs_decode x =
     \<lparr>rc_id = le_word (read_field Connection_rs_layout ''id'' x),
      rc_addr = read_field Connection_rs_layout ''addr'' x,
      rc_conn_type = read_field Connection_rs_layout ''conn_type'' x,
      rc_network = le_word (read_field Connection_rs_layout ''network'' x)\<rparr>"

definition conn_addr_str :: "Connection_rs \<Rightarrow> byte list" where
  "conn_addr_str c = chars_to_string (rc_addr c)"

definition conn_type_str :: "Connection_rs \<Rightarrow> byte list" where
  "conn_type_str c = chars_to_string (rc_conn_type c)"

record ClosedConnection_rs =
  rcl_connection :: Connection_rs
  rcl_time_established :: u64

definition ClosedConnection_rs_layout :: "cfield list" where
  "ClosedConnection_rs_layout =
     [Field ''connection'' (Struct Connection_rs_layout), Field ''time_established'' u64_t]"

definition ClosedConnection_from_bytes :: "byte list \<Rightarrow> fault + ClosedConnection_rs" where
  "ClosedConnection_from_bytes x =
     read_unaligned ClosedConnection_rs_layout
       (\<lambda>x. Some \<lparr>rcl_connection =
              Connection_rs_decode (read_field ClosedConnection_rs_layout ''connection'' x),
            rcl_time_established =
              le_word (read_field ClosedConnection_rs_layout ''time_established'' x)\<rparr>) x"

record InboundConnection_rs =
  ri_connection :: Connection_rs
  ri_existing_connections :: u64

definition InboundConnection_rs_layout :: "cfield list" where
  "InboundConnection_rs_layout =
     [Field ''connection'' (Struct Connection_rs_layout), Field ''existing_connections'' u64_t]"

definition InboundConnection_from_bytes :: "byte list \<Rightarrow> fault + InboundConnection_rs" where
  "InboundConnection_from_bytes x =
     read_unaligned InboundConnection_rs_layout
       (\<lambda>x. Some \<lparr>ri_connection =
              Connection_rs_decode (read_field InboundConnection_rs_layout ''connection'' x),
            ri_existing_connections =
              le_word (read_field InboundConnection_rs_layout ''existing_connections'' x)\<rparr>) x"

record OutboundConnection_rs =
  ro_connection :: Connection_rs
  ro_existing_connections :: u64

definition OutboundConnection_rs_layout :: "cfield list" where
  "OutboundConnection_rs_layout =
     [Field ''connection'' (Struct Connection_rs_layout), Field ''existing_connections'' u64_t]"

definition OutboundConnection_from_bytes :: "byte list \<Rightarrow> fault + OutboundConnection_rs" where
  "OutboundConnection_from_bytes x =
     read_unaligned OutboundConnection_rs_layout
       (\<lambda>x. Some \<lparr>ro_connection =
              Connection_rs_decode (read_field OutboundConnection_rs_layout ''connection'' x),
            ro_existing_connections =
              le_word (read_field OutboundConnection_rs_layout ''existing_connections'' x)\<rparr>) x"

record MisbehavingConnection_rs =
  rm_id :: u64
  rm_message :: "byte list"

definition MisbehavingConnection_rs_layout :: "cfield list" where
  "MisbehavingConnection_rs_layout =
     [Field ''id'' u64_t, Field ''message'' (Array u8_t rs_MAX_MISBEHAVING_MESSAGE_LENGTH)]"

definition MisbehavingConnection_from_bytes :: "byte list \<Rightarrow> fault + MisbehavingConnection_rs" where
  "MisbehavingConnection_from_bytes x =
     read_unaligned MisbehavingConnection_rs_layout
       (\<lambda>x. Some \<lparr>rm_id = le_word (read_field MisbehavingConnection_rs_layout ''id'' x),
            rm_message = read_field MisbehavingConnection_rs_layout ''message'' x\<rparr>) x"

definition misbehaving_message_str :: "MisbehavingConnection_rs \<Rightarrow> byte list" where
  "misbehaving_message_str c = chars_to_string (rm_message c)"

section \<open>Mempool\<close>

record MempoolAdded_rs =
  ra_txid :: "byte list"
  ra_vsize :: s32
  ra_fee :: s64

definition MempoolAdded_rs_layout :: "cfield list" where
  "MempoolAdded_rs_layout =
     [Field ''txid'' (Array u8_t rs_TXID_LENGTH), Field ''vsize'' s32_t, Field ''fee'' s64_t]"

definition MempoolAdded_from_bytes :: "byte list \<Rightarrow> fault + MempoolAdded_rs" where
  "MempoolAdded_from_bytes x =
     read_unaligned MempoolAdded_rs_layout
       (\<lambda>x. Some \<lparr>ra_txid = read_field MempoolAdded_rs_layout ''txid'' x,
            ra_vsize = le_word (read_field MempoolAdded_rs_layout ''vsize'' x),
            ra_fee = le_word (read_field MempoolAdded_rs_layout ''fee'' x)\<rparr>) x"

record MempoolRemoved_rs =
  rr_txid :: "byte list"
  rr_reason :: "byte list"
  rr_vsize :: s32
  rr_fee :: s64
  rr_entry_time :: u64

definition MempoolRemoved_rs_layout :: "cfield list" where
  "MempoolRemoved_rs_layout =
     [Field ''txid'' (Array u8_t rs_TXID_LENGTH),
      Field ''reason'' (Array u8_t rs_REMOVAL_REASON_LENGTH),
      Field ''vsize'' s32_t, Field ''fee'' s64_t, Field ''entry_time'' u64_t]"

definition MempoolRemoved_from_bytes :: "byte list \<Rightarrow> fault + MempoolRemoved_rs" where
  "MempoolRemoved_from_bytes x =
     read_unaligned MempoolRemoved_rs_layout
       (\<lambda>x. Some \<lparr>rr_txid = read_field MempoolRemoved_rs_layout ''txid'' x,
            rr_reason = read_field MempoolRemoved_rs_layout ''reason'' x,
            rr_vsize = le_word (read_field MempoolRemoved_rs_layout ''vsize'' x),
            rr_fee = le_word (read_field MempoolRemoved_rs_layout ''fee'' x),
            rr_entry_time = le_word (read_field MempoolRemoved_rs_layout ''entry_time'' x)\<rparr>) x"

definition removed_reason_str :: "MempoolRemoved_rs \<Rightarrow> byte list" where
  "removed_reason_str r = chars_to_string (rr_reason r)"

record MempoolReplaced_rs =
  rp_replaced_txid :: "byte list"
  rp_replaced_vsize :: s32
  rp_replaced_fee :: s64
  rp_replaced_entry_time :: u64
  rp_replacement_id :: "byte list"
  rp_replacement_vsize :: s32
  rp_replacement_fee :: s64
  rp_replaced_by_transaction :: bool

definition MempoolReplaced_rs_layout :: "cfield list" where
  "MempoolReplaced_rs_layout =
     [Field ''replaced_txid'' (Array u8_t rs_TXID_LENGTH),
      Field ''replaced_vsize'' s32_t,
      Field ''replaced_fee'' s64_t,
      Field ''replaced_entry_time'' u64_t,
      Field ''replacement_id'' (Array u8_t rs_TXID_LENGTH),
      Field ''replacement_vsize'' s32_t,
      Field ''replacement_fee'' s64_t,
      Field ''replaced_by_transaction'' bool_t]"

definition MempoolReplaced_from_bytes :: "byte list \<Rightarrow> fault + MempoolReplaced_rs" where
  "MempoolReplaced_from_bytes x =
     read_unaligned MempoolReplaced_rs_layout
       (\<lambda>x. map_option (\<lambda>b. \<lparr>
            rp_replaced_txid = read_field MempoolReplaced_rs_layout ''replaced_txid'' x,
            rp_replaced_vsize = le_word (read_field MempoolReplaced_rs_layout ''replaced_vsize'' x),
            rp_replaced_fee = le_word (read_field MempoolReplaced_rs_layout ''replaced_fee'' x),
            rp_replaced_entry_time =
              le_word (read_field MempoolReplaced_rs_layout ''replaced_entry_time'' x),
            rp_replacement_id = read_field MempoolReplaced_rs_layout ''replacement_id'' x,
            rp_replacement_vsize =
              le_word (read_field MempoolReplaced_rs_layout ''replacement_vsize'' x),
            rp_replacement_fee =
              le_word (read_field MempoolReplaced_rs_layout ''replacement_fee'' x),
            rp_replaced_by_transaction = b\<rparr>)
          (bool_of_byte (read_field MempoolReplaced_rs_layout ''replaced_by_transaction'' x))) x"

record MempoolRejected_rs =
  rj_txid :: "byte list"
  rj_reason :: "byte list"

definition MempoolRejected_rs_layout :: "cfield list" where
  "MempoolRejected_rs_layout =
     [Field ''txid'' (Array u8_t rs_TXID_LENGTH),
      Field ''reason'' (Array u8_t rs_REJECTION_REASON_LENGTH)]"

definition MempoolRejected_from_bytes :: "byte list \<Rightarrow> fault + MempoolRejected_rs" where
  "MempoolRejected_from_bytes x =
     read_unaligned MempoolRejected_rs_layout
       (\<lambda>x. Some \<lparr>rj_txid = read_field MempoolRejected_rs_layout ''txid'' x,
            rj_reason = read_field MempoolRejected_rs_layout ''reason'' x\<rparr>) x"

definition rejected_reason_str :: "MempoolRejected_rs \<Rightarrow> byte list" where
  "rejected_reason_str r = chars_to_string (rj_reason r)"

section \<open>Validation\<close>

record ValidationBlockConnected_rs =
  rb_hash :: "byte list"
  rb_height :: s32
  rb_transactions :: u64
  rb_inputs :: s32
  rb_sigops :: u64
  rb_connection_time :: u64

definition ValidationBlockConnected_layout :: "cfield list" where
  "ValidationBlockConnected_layout =
     [Field ''hash'' (Array u8_t rs_HASH_LENGTH),
      Field ''height'' s32_t,
      Field ''transactions'' u64_t,
      Field ''inputs'' s32_t,
      Field ''sigops'' u64_t,
      Field ''connection_time'' u64_t]"

definition ValidationBlockConnected_from_bytes ::
  "byte list \<Rightarrow> fault + ValidationBlockConnected_rs" where
  "ValidationBlockConnected_from_bytes x =
     read_unaligned ValidationBlockConnected_layout
       (\<lambda>x. Some \<lparr>rb_hash = read_field ValidationBlockConnected_layout ''hash'' x,
            rb_height = le_word (read_field ValidationBlockConnected_layout ''height'' x),
            rb_transactions = le_word (read_field ValidationBlockConnected_layout ''transactions'' x),
            rb_inputs = le_word (read_field ValidationBlockConnected_layout ''inputs'' x),
            rb_sigops = le_word (read_field ValidationBlockConnected_layout ''sigops'' x),
            rb_connection_time =
              le_word (read_field ValidationBlockConnected_layout ''connection_time'' x)\<rparr>) x"

end
