(* ===== verification/EbpfEvents.thy ===== *)
theory EbpfEvents
  imports Ctypes
begin

text \<open>
  From the Rust structs to the published protobuf events: the \<^verbatim>\<open>From\<close> conversions of
  \<^verbatim>\<open>connection.rs\<close>, \<^verbatim>\<open>mempool.rs\<close> and \<^verbatim>\<open>validation.rs\<close>, \<^verbatim>\<open>ConnType::from(String)\<close>, the
  metadata of a P2P message and its decoding. The protobuf messages are the records of the
  \<^verbatim>\<open>.proto\<close> files.
\<close>

section \<open>Connection types\<close>

datatype ConnType =
    Unknown | Inbound | OutboundFullRelay | BlockRelayOnly | Feeler | Manual | AddrFetch
  | PrivateBroadcast

definition ConnType_from :: "byte list \<Rightarrow> ConnType" where
  "ConnType_from s =
     (if s = ascii ''inbound'' then Inbound
      else if s = ascii ''outbound-full-relay'' then OutboundFullRelay
      else if s = ascii ''block-relay-only'' then BlockRelayOnly
      else if s = ascii ''feeler'' then Feeler
      else if s = ascii ''manual'' then Manual
      else if s = ascii ''addr-fetch'' then AddrFetch
      else if s = ascii ''private-broadcast'' then PrivateBroadcast
      else Unknown)"

text \<open>The protobuf number of a connection type (\<^verbatim>\<open>conn_type as i32\<close>).\<close>

fun ConnType_i32 :: "ConnType \<Rightarrow> s32" where
  "ConnType_i32 Unknown = 0"
| "ConnType_i32 Inbound = 1"
| "ConnType_i32 OutboundFullRelay = 2"
| "ConnType_i32 BlockRelayOnly = 3"
| "ConnType_i32 Feeler = 4"
| "ConnType_i32 Manual = 5"
| "ConnType_i32 AddrFetch = 6"
| "ConnType_i32 PrivateBroadcast = 7"

section \<open>Connection events\<close>

record Connection_pb =
  pc_peer_id :: u64
  pc_addr :: "byte list"
  pc_conn_type :: s32
  pc_network :: u32

record ClosedConnection_pb =
  pcl_conn :: Connection_pb
  pcl_time_established :: u64

record EvictedInboundConnection_pb =
  pe_conn :: Connection_pb
  pe_time_established :: u64

record InboundConnection_pb =
  pi_conn :: Connection_pb
  pi_existing_connections :: u64

record OutboundConnection_pb =
  po_conn :: Connection_pb
  po_existing_connections :: u64

record MisbehavingConnection_pb =
  pm_id :: u64
  pm_message :: "byte list"

datatype ConnectionEvent =
    Closed ClosedConnection_pb
  | InboundEvicted EvictedInboundConnection_pb
  | ConnInbound InboundConnection_pb
  | ConnOutbound OutboundConnection_pb
  | Misbehaving MisbehavingConnection_pb

definition Connection_from :: "Connection_rs \<Rightarrow> Connection_pb" where
  "Connection_from conn =
     \<lparr>pc_peer_id = rc_id conn, pc_addr = conn_addr_str conn,
      pc_conn_type = ConnType_i32 (ConnType_from (conn_type_str conn)),
      pc_network = rc_network conn\<rparr>"

definition ClosedConnection_from :: "ClosedConnection_rs \<Rightarrow> ClosedConnection_pb" where
  "ClosedConnection_from c =
     \<lparr>pcl_conn = Connection_from (rcl_connection c), pcl_time_established = rcl_time_established c\<rparr>"

definition EvictedInboundConnection_from :: "ClosedConnection_rs \<Rightarrow> EvictedInboundConnection_pb" where
  "EvictedInboundConnection_from c =
     \<lparr>pe_conn = Connection_from (rcl_connection c), pe_time_established = rcl_time_established c\<rparr>"

definition InboundConnection_from :: "InboundConnection_rs \<Rightarrow> InboundConnection_pb" where
  "InboundConnection_from c =
     \<lparr>pi_conn = Connection_from (ri_connection c),
      pi_existing_connections = ri_existing_connections c\<rparr>"

definition OutboundConnection_from :: "OutboundConnection_rs \<Rightarrow> OutboundConnection_pb" where
  "OutboundConnection_from c =
     \<lparr>po_conn = Connection_from (ro_connection c),
      po_existing_connections = ro_existing_connections c\<rparr>"

definition MisbehavingConnection_from :: "MisbehavingConnection_rs \<Rightarrow> MisbehavingConnection_pb" where
  "MisbehavingConnection_from c = \<lparr>pm_id = rm_id c, pm_message = misbehaving_message_str c\<rparr>"

section \<open>Mempool events\<close>

record Added_pb =
  pa_txid :: "byte list"
  pa_vsize :: s32
  pa_fee :: s64

record Removed_pb =
  pr_txid :: "byte list"
  pr_reason :: "byte list"
  pr_vsize :: s32
  pr_fee :: s64
  pr_entry_time :: u64

record Rejected_pb =
  pj_txid :: "byte list"
  pj_reason :: "byte list"

record Replaced_pb =
  pp_replaced_txid :: "byte list"
  pp_replaced_vsize :: s32
  pp_replaced_fee :: s64
  pp_replaced_entry_time :: u64
  pp_replacement_id :: "byte list"
  pp_replacement_vsize :: s32
  pp_replacement_fee :: s64
  pp_replaced_by_transaction :: bool

datatype MempoolEvent =
    Added Added_pb
  | Replaced Replaced_pb
  | Removed Removed_pb
  | Rejected Rejected_pb

definition Added_from :: "MempoolAdded_rs \<Rightarrow> Added_pb" where
  "Added_from a = \<lparr>pa_txid = ra_txid a, pa_vsize = ra_vsize a, pa_fee = ra_fee a\<rparr>"

definition Removed_from :: "MempoolRemoved_rs \<Rightarrow> Removed_pb" where
  "Removed_from r =
     \<lparr>pr_txid = rr_txid r, pr_reason = removed_reason_str r, pr_vsize = rr_vsize r,
      pr_fee = rr_fee r, pr_entry_time = rr_entry_time r\<rparr>"

definition Rejected_from :: "MempoolRejected_rs \<Rightarrow> Rejected_pb" where
  "Rejected_from r = \<lparr>pj_txid = rj_txid r, pj_reason = rejected_reason_str r\<rparr>"

definition Replaced_from :: "MempoolReplaced_rs \<Rightarrow> Replaced_pb" where
  "Replaced_from r =
     \<lparr>pp_replaced_txid = rp_replaced_txid r, pp_replaced_vsize = rp_replaced_vsize r,
      pp_replaced_fee = rp_replaced_fee r, pp_replaced_entry_time = rp_replaced_entry_time r,
      pp_replacement_id = rp_replacement_id r, pp_replacement_vsize = rp_replacement_vsize r,
      pp_replacement_fee = rp_replacement_fee r,
      pp_replaced_by_transaction = rp_replaced_by_transaction r\<rparr>"

section \<open>Validation events\<close>

record BlockConnected_pb =
  pb_hash :: "byte list"
  pb_height :: s32
  pb_transactions :: s64
  pb_inputs :: s32
  pb_sigops :: s64
  pb_connection_time :: u64

text \<open>\<^verbatim>\<open>as i64\<close> keeps the bits of the \<^verbatim>\<open>u64\<close>.\<close>

definition BlockConnected_from :: "ValidationBlockConnected_rs \<Rightarrow> BlockConnected_pb" where
  "BlockConnected_from c =
     \<lparr>pb_hash = rb_hash c, pb_height = rb_height c, pb_transactions = rb_transactions c,
      pb_inputs = rb_inputs c, pb_sigops = rb_sigops c, pb_connection_time = rb_connection_time c\<rparr>"

section \<open>P2P message events\<close>

record Metadata_pb =
  pmd_peer_id :: u64
  pmd_addr :: "byte list"
  pmd_conn_type :: s32
  pmd_command :: "byte list"
  pmd_inbound :: bool
  pmd_size :: u64

definition create_protobuf_metadata :: "P2PMessageMetadata \<Rightarrow> Metadata_pb" where
  "create_protobuf_metadata m =
     \<lparr>pmd_peer_id = peer_id m, pmd_addr = peer_addr_str m,
      pmd_conn_type = ConnType_i32 (ConnType_from (peer_conn_type_str m)),
      pmd_command = msg_type_str m, pmd_inbound = msg_inbound m, pmd_size = msg_size m\<rparr>"

text \<open>
  Decoding a payload is \<^verbatim>\<open>rust-bitcoin\<close>'s: \<open>rb_decode\<close> is \<^verbatim>\<open>RawNetworkMessage::consensus_decode\<close>
  followed by the conversion to the protobuf message, on the bytes of a raw message;
  \<open>sha256d\<close> is its double SHA-256.
\<close>

record ('m, 'e) rust_bitcoin =
  rb_decode :: "byte list \<Rightarrow> 'e + 'm"
  sha256d :: "byte list \<Rightarrow> byte list"

datatype 'm Msg = Decoded 'm | Emptyaddrv2 bool | Oldping bool

record 'm MessageEvent =
  me_meta :: Metadata_pb
  me_msg :: "'m Msg"

text \<open>
  The first 16 bytes of the raw message: a zero magic and the command, copied byte by byte
  until the first NUL.
\<close>

fun copy_command :: "nat \<Rightarrow> byte list \<Rightarrow> byte list \<Rightarrow> byte list" where
  "copy_command i [] raw = raw"
| "copy_command i (b # bs) raw = (if b = 0 then raw else copy_command (Suc i) bs (raw[4 + i := b]))"

definition raw_network_message ::
  "('m, 'e) rust_bitcoin \<Rightarrow> P2PMessageMetadata \<Rightarrow> byte list \<Rightarrow> byte list" where
  "raw_network_message rb m pl =
     copy_command 0 (msg_type m) (replicate 16 0) @
     le_bytes 4 (ucast (msg_size m) :: u32) @ take 4 (sha256d rb pl) @ pl"

definition decode_rust_bitcoin_network_message ::
  "('m, 'e) rust_bitcoin \<Rightarrow> P2PMessageMetadata \<Rightarrow> byte list \<Rightarrow> (P2PMessageMetadata \<times> 'e) + 'm" where
  "decode_rust_bitcoin_network_message rb m pl =
     (case rb_decode rb (raw_network_message rb m pl) of
        Inr rnm \<Rightarrow> Inr rnm
      | Inl e \<Rightarrow> Inl (m, e))"

definition decode_weird_network_message :: "P2PMessageMetadata \<Rightarrow> byte list \<Rightarrow> 'm Msg option" where
  "decode_weird_network_message m pl =
     (if msg_type_str m = ascii ''addrv2'' \<and> msg_size m = 0 then Some (Emptyaddrv2 True)
      else if msg_type_str m = ascii ''ping'' \<and> msg_size m = 0 then Some (Oldping True)
      else None)"

definition decode_network_message ::
  "('m, 'e) rust_bitcoin \<Rightarrow> P2PMessageMetadata \<Rightarrow> byte list \<Rightarrow> (P2PMessageMetadata \<times> 'e) + 'm Msg" where
  "decode_network_message rb m pl =
     (case decode_rust_bitcoin_network_message rb m pl of
        Inr rnm \<Rightarrow> Inr (Decoded rnm)
      | Inl e \<Rightarrow>
          (case decode_weird_network_message m pl of
             Some message \<Rightarrow> Inr message
           | None \<Rightarrow> Inl e))"

definition decode_to_protobuf_network_message ::
  "('m, 'e) rust_bitcoin \<Rightarrow> P2PMessage \<Rightarrow> (P2PMessageMetadata \<times> 'e) + 'm Msg" where
  "decode_to_protobuf_network_message rb msg = decode_network_message rb (meta msg) (payload msg)"

end
