(* ===== verification/WireFormat.thy ===== *)
theory WireFormat
  imports TracingLayouts EbpfEvents
begin

text \<open>
  The records of the ring buffers as an interface between the C program and the Rust one: the
  computed layouts of the Rust structs, field by field the C ones, and the locale of a channel
  (what the consumer decodes from the bytes of an object is a function of the object), with
  one interpretation per struct.
\<close>

section \<open>The Rust layouts\<close>

lemmas rs_layout_calc =
  P2PMessageMetadata_layout_def Connection_rs_layout_def ClosedConnection_rs_layout_def
  InboundConnection_rs_layout_def OutboundConnection_rs_layout_def
  MisbehavingConnection_rs_layout_def MempoolAdded_rs_layout_def MempoolRemoved_rs_layout_def
  MempoolReplaced_rs_layout_def MempoolRejected_rs_layout_def ValidationBlockConnected_layout_def
  rs_size_defs align_up_def offsetof_def has_field_def Let_def

lemma P2PMessageMetadata_layout_size [layout_simps]: "sizeof (Struct P2PMessageMetadata_layout) = 120"
  by (simp add: rs_layout_calc)

lemma P2PMessageMetadata_layout_table [layout_simps]:
  "field_table 0 P2PMessageMetadata_layout =
     [(''peer_id'', 0, 8),
      (''peer_addr'', 8, 68),
      (''peer_conn_type'', 76, 20),
      (''msg_type'', 96, 12),
      (''msg_inbound'', 108, 1),
      (''msg_size'', 112, 8)]"
  by (simp add: rs_layout_calc)

lemma P2PMessageMetadata_layout_reads [wire_simps]:
  "read_field P2PMessageMetadata_layout ''peer_id'' x = read_field Metadata_layout ''id'' x"
  "read_field P2PMessageMetadata_layout ''peer_addr'' x = read_field Metadata_layout ''addr'' x"
  "read_field P2PMessageMetadata_layout ''peer_conn_type'' x = read_field Metadata_layout ''conn_type'' x"
  "read_field P2PMessageMetadata_layout ''msg_type'' x = read_field Metadata_layout ''msg_type'' x"
  "read_field P2PMessageMetadata_layout ''msg_inbound'' x = read_field Metadata_layout ''msg_inbound'' x"
  "read_field P2PMessageMetadata_layout ''msg_size'' x = read_field Metadata_layout ''msg_size'' x"
  by (intro read_field_cong; simp add: P2PMessageMetadata_layout_table Metadata_table)+

lemma Connection_rs_layout_size [layout_simps]: "sizeof (Struct Connection_rs_layout) = 104"
  by (simp add: rs_layout_calc)

lemma Connection_rs_layout_table [layout_simps]:
  "field_table 0 Connection_rs_layout =
     [(''id'', 0, 8),
      (''addr'', 8, 68),
      (''conn_type'', 76, 20),
      (''network'', 96, 4)]"
  by (simp add: rs_layout_calc)

lemma Connection_rs_layout_reads [wire_simps]:
  "read_field Connection_rs_layout ''id'' x = read_field Connection_layout ''id'' x"
  "read_field Connection_rs_layout ''addr'' x = read_field Connection_layout ''addr'' x"
  "read_field Connection_rs_layout ''conn_type'' x = read_field Connection_layout ''type'' x"
  "read_field Connection_rs_layout ''network'' x = read_field Connection_layout ''network'' x"
  by (intro read_field_cong; simp add: Connection_rs_layout_table Connection_table)+

lemma ClosedConnection_rs_layout_size [layout_simps]: "sizeof (Struct ClosedConnection_rs_layout) = 112"
  by (simp add: rs_layout_calc)

lemma ClosedConnection_rs_layout_table [layout_simps]:
  "field_table 0 ClosedConnection_rs_layout =
     [(''connection'', 0, 104),
      (''time_established'', 104, 8)]"
  by (simp add: rs_layout_calc)

lemma ClosedConnection_rs_layout_reads [wire_simps]:
  "read_field ClosedConnection_rs_layout ''connection'' x = read_field ClosedConnection_layout ''conn'' x"
  "read_field ClosedConnection_rs_layout ''time_established'' x = read_field ClosedConnection_layout ''time_established'' x"
  by (intro read_field_cong; simp add: ClosedConnection_rs_layout_table ClosedConnection_table)+

lemma InboundConnection_rs_layout_size [layout_simps]: "sizeof (Struct InboundConnection_rs_layout) = 112"
  by (simp add: rs_layout_calc)

lemma InboundConnection_rs_layout_table [layout_simps]:
  "field_table 0 InboundConnection_rs_layout =
     [(''connection'', 0, 104),
      (''existing_connections'', 104, 8)]"
  by (simp add: rs_layout_calc)

lemma InboundConnection_rs_layout_reads [wire_simps]:
  "read_field InboundConnection_rs_layout ''connection'' x = read_field InboundConnection_layout ''conn'' x"
  "read_field InboundConnection_rs_layout ''existing_connections'' x = read_field InboundConnection_layout ''existing_connections'' x"
  by (intro read_field_cong; simp add: InboundConnection_rs_layout_table InboundConnection_table)+

lemma OutboundConnection_rs_layout_size [layout_simps]: "sizeof (Struct OutboundConnection_rs_layout) = 112"
  by (simp add: rs_layout_calc)

lemma OutboundConnection_rs_layout_table [layout_simps]:
  "field_table 0 OutboundConnection_rs_layout =
     [(''connection'', 0, 104),
      (''existing_connections'', 104, 8)]"
  by (simp add: rs_layout_calc)

lemma OutboundConnection_rs_layout_reads [wire_simps]:
  "read_field OutboundConnection_rs_layout ''connection'' x = read_field OutboundConnection_layout ''conn'' x"
  "read_field OutboundConnection_rs_layout ''existing_connections'' x = read_field OutboundConnection_layout ''existing_connections'' x"
  by (intro read_field_cong; simp add: OutboundConnection_rs_layout_table OutboundConnection_table)+

lemma MisbehavingConnection_rs_layout_size [layout_simps]: "sizeof (Struct MisbehavingConnection_rs_layout) = 136"
  by (simp add: rs_layout_calc)

lemma MisbehavingConnection_rs_layout_table [layout_simps]:
  "field_table 0 MisbehavingConnection_rs_layout =
     [(''id'', 0, 8),
      (''message'', 8, 128)]"
  by (simp add: rs_layout_calc)

lemma MisbehavingConnection_rs_layout_reads [wire_simps]:
  "read_field MisbehavingConnection_rs_layout ''id'' x = read_field MisbehavingConnection_layout ''id'' x"
  "read_field MisbehavingConnection_rs_layout ''message'' x = read_field MisbehavingConnection_layout ''message'' x"
  by (intro read_field_cong; simp add: MisbehavingConnection_rs_layout_table MisbehavingConnection_table)+

lemma MempoolAdded_rs_layout_size [layout_simps]: "sizeof (Struct MempoolAdded_rs_layout) = 48"
  by (simp add: rs_layout_calc)

lemma MempoolAdded_rs_layout_table [layout_simps]:
  "field_table 0 MempoolAdded_rs_layout =
     [(''txid'', 0, 32),
      (''vsize'', 32, 4),
      (''fee'', 40, 8)]"
  by (simp add: rs_layout_calc)

lemma MempoolAdded_rs_layout_reads [wire_simps]:
  "read_field MempoolAdded_rs_layout ''txid'' x = read_field MempoolAdded_layout ''txid'' x"
  "read_field MempoolAdded_rs_layout ''vsize'' x = read_field MempoolAdded_layout ''vsize'' x"
  "read_field MempoolAdded_rs_layout ''fee'' x = read_field MempoolAdded_layout ''fee'' x"
  by (intro read_field_cong; simp add: MempoolAdded_rs_layout_table MempoolAdded_table)+

lemma MempoolRemoved_rs_layout_size [layout_simps]: "sizeof (Struct MempoolRemoved_rs_layout) = 64"
  by (simp add: rs_layout_calc)

lemma MempoolRemoved_rs_layout_table [layout_simps]:
  "field_table 0 MempoolRemoved_rs_layout =
     [(''txid'', 0, 32),
      (''reason'', 32, 9),
      (''vsize'', 44, 4),
      (''fee'', 48, 8),
      (''entry_time'', 56, 8)]"
  by (simp add: rs_layout_calc)

lemma MempoolRemoved_rs_layout_reads [wire_simps]:
  "read_field MempoolRemoved_rs_layout ''txid'' x = read_field MempoolRemoved_layout ''txid'' x"
  "read_field MempoolRemoved_rs_layout ''reason'' x = read_field MempoolRemoved_layout ''reason'' x"
  "read_field MempoolRemoved_rs_layout ''vsize'' x = read_field MempoolRemoved_layout ''vsize'' x"
  "read_field MempoolRemoved_rs_layout ''fee'' x = read_field MempoolRemoved_layout ''fee'' x"
  "read_field MempoolRemoved_rs_layout ''entry_time'' x = read_field MempoolRemoved_layout ''entry_time'' x"
  by (intro read_field_cong; simp add: MempoolRemoved_rs_layout_table MempoolRemoved_table)+

lemma MempoolReplaced_rs_layout_size [layout_simps]: "sizeof (Struct MempoolReplaced_rs_layout) = 112"
  by (simp add: rs_layout_calc)

lemma MempoolReplaced_rs_layout_table [layout_simps]:
  "field_table 0 MempoolReplaced_rs_layout =
     [(''replaced_txid'', 0, 32),
      (''replaced_vsize'', 32, 4),
      (''replaced_fee'', 40, 8),
      (''replaced_entry_time'', 48, 8),
      (''replacement_id'', 56, 32),
      (''replacement_vsize'', 88, 4),
      (''replacement_fee'', 96, 8),
      (''replaced_by_transaction'', 104, 1)]"
  by (simp add: rs_layout_calc)

lemma MempoolReplaced_rs_layout_reads [wire_simps]:
  "read_field MempoolReplaced_rs_layout ''replaced_txid'' x = read_field MempoolReplaced_layout ''replaced_txid'' x"
  "read_field MempoolReplaced_rs_layout ''replaced_vsize'' x = read_field MempoolReplaced_layout ''replaced_vsize'' x"
  "read_field MempoolReplaced_rs_layout ''replaced_fee'' x = read_field MempoolReplaced_layout ''replaced_fee'' x"
  "read_field MempoolReplaced_rs_layout ''replaced_entry_time'' x = read_field MempoolReplaced_layout ''replaced_entry_time'' x"
  "read_field MempoolReplaced_rs_layout ''replacement_id'' x = read_field MempoolReplaced_layout ''replacement_id'' x"
  "read_field MempoolReplaced_rs_layout ''replacement_vsize'' x = read_field MempoolReplaced_layout ''replacement_vsize'' x"
  "read_field MempoolReplaced_rs_layout ''replacement_fee'' x = read_field MempoolReplaced_layout ''replacement_fee'' x"
  "read_field MempoolReplaced_rs_layout ''replaced_by_transaction'' x = read_field MempoolReplaced_layout ''replaced_by_transaction'' x"
  by (intro read_field_cong; simp add: MempoolReplaced_rs_layout_table MempoolReplaced_table)+

lemma MempoolRejected_rs_layout_size [layout_simps]: "sizeof (Struct MempoolRejected_rs_layout) = 150"
  by (simp add: rs_layout_calc)

lemma MempoolRejected_rs_layout_table [layout_simps]:
  "field_table 0 MempoolRejected_rs_layout =
     [(''txid'', 0, 32),
      (''reason'', 32, 118)]"
  by (simp add: rs_layout_calc)

lemma MempoolRejected_rs_layout_reads [wire_simps]:
  "read_field MempoolRejected_rs_layout ''txid'' x = read_field MempoolRejected_layout ''txid'' x"
  by (intro read_field_cong; simp add: MempoolRejected_rs_layout_table MempoolRejected_table)+

lemma ValidationBlockConnected_layout_size [layout_simps]: "sizeof (Struct ValidationBlockConnected_layout) = 72"
  by (simp add: rs_layout_calc)

lemma ValidationBlockConnected_layout_table [layout_simps]:
  "field_table 0 ValidationBlockConnected_layout =
     [(''hash'', 0, 32),
      (''height'', 32, 4),
      (''transactions'', 40, 8),
      (''inputs'', 48, 4),
      (''sigops'', 56, 8),
      (''connection_time'', 64, 8)]"
  by (simp add: rs_layout_calc)

lemma ValidationBlockConnected_layout_reads [wire_simps]:
  "read_field ValidationBlockConnected_layout ''hash'' x = read_field BlockConnected_layout ''hash'' x"
  "read_field ValidationBlockConnected_layout ''height'' x = read_field BlockConnected_layout ''height'' x"
  "read_field ValidationBlockConnected_layout ''transactions'' x = read_field BlockConnected_layout ''transactions'' x"
  "read_field ValidationBlockConnected_layout ''inputs'' x = read_field BlockConnected_layout ''inputs'' x"
  "read_field ValidationBlockConnected_layout ''sigops'' x = read_field BlockConnected_layout ''sigops'' x"
  "read_field ValidationBlockConnected_layout ''connection_time'' x = read_field BlockConnected_layout ''connection_time'' x"
  by (intro read_field_cong; simp add: ValidationBlockConnected_layout_table BlockConnected_table)+

end
