(* ===== verification/Channels.thy ===== *)
theory Channels
  imports WireFormat
begin

text \<open>
  The interface between the two halves of the extractor. A \<open>channel\<close> is a ring buffer seen by
  its consumer: whatever the memory under the record held before, and whatever follows the
  record, decoding it gives the view of the object the BPF program wrote. \<open>slack\<close> is how many
  bytes past the record the decoder needs; a \<open>sound_channel\<close> needs none. Every struct of
  \<^verbatim>\<open>tracing.bpf.c\<close> is interpreted with its Rust decoder.
\<close>

section \<open>The channel locale\<close>

locale channel =
  fixes image :: "'c \<Rightarrow> byte list \<Rightarrow> byte list"
    and wf :: "'c \<Rightarrow> bool"
    and record_size :: nat
    and slack :: nat
    and decode :: "byte list \<Rightarrow> fault + 'e"
    and view :: "'c \<Rightarrow> 'e"
  assumes length_image: "wf c \<Longrightarrow> length old = record_size \<Longrightarrow> length (image c old) = record_size"
    and decode_image: "wf c \<Longrightarrow> length old = record_size \<Longrightarrow> slack \<le> length rest \<Longrightarrow>
           decode (image c old @ rest) = Inr (view c)"
begin

text \<open>Stale bytes under the record never show.\<close>

lemma stale_irrelevant:
  "wf c \<Longrightarrow> length old = record_size \<Longrightarrow> length old' = record_size \<Longrightarrow> slack \<le> length rest \<Longrightarrow>
   decode (image c old @ rest) = decode (image c old' @ rest)"
  by (simp add: decode_image)

text \<open>Equal bytes mean equal events: the record loses nothing the event shows.\<close>

lemma image_determines_view:
  assumes "wf c" and "wf c'" and "length old = record_size" and "length old' = record_size"
    and "image c old = image c' old'"
  shows "view c = view c'"
proof -
  let ?rest = "replicate slack (0 :: byte)"
  have "decode (image c old @ ?rest) = Inr (view c)"
    using assms by (intro decode_image) simp_all
  moreover have "decode (image c' old' @ ?rest) = Inr (view c')"
    using assms by (intro decode_image) simp_all
  ultimately show ?thesis using assms(5) by simp
qed

end

locale sound_channel = channel image wf record_size 0 decode view
  for image :: "'c \<Rightarrow> byte list \<Rightarrow> byte list" and wf :: "'c \<Rightarrow> bool" and record_size :: nat
    and decode :: "byte list \<Rightarrow> fault + 'e" and view :: "'c \<Rightarrow> 'e"
begin

lemma decode_exact: "wf c \<Longrightarrow> length old = record_size \<Longrightarrow> decode (image c old) = Inr (view c)"
  using decode_image [of c old "[]"] by simp

text \<open>Draining a ring buffer gives the events in the order they were written.\<close>

lemma drain_in_order:
  "list_all (\<lambda>(c, old). wf c \<and> length old = record_size) xs \<Longrightarrow>
   map decode (map (\<lambda>(c, old). image c old) xs) = map (\<lambda>(c, old). Inr (view c)) xs"
  by (induction xs) (auto simp: decode_exact)

end

section \<open>Decoding an image\<close>

lemma read_unaligned_image:
  "length img = sizeof (Struct fs) \<Longrightarrow>
   read_unaligned fs dec (img @ rest) =
     (case dec img of None \<Rightarrow> Inl InvalidValue | Some v \<Rightarrow> Inr v)"
  by (simp add: read_unaligned_def)

lemma bool_of_byte_bool [simp]: "bool_of_byte [bool_byte b] = Some b"
  by (simp add: bool_of_byte_def bool_byte_def)

section \<open>Connections\<close>

definition Connection_view :: "Connection_c \<Rightarrow> Connection_pb" where
  "Connection_view c =
     \<lparr>pc_peer_id = cc_id c, pc_addr = chars_to_string (cc_addr c),
      pc_conn_type = ConnType_i32 (ConnType_from (chars_to_string (cc_type c))),
      pc_network = cc_network c\<rparr>"

lemma Connection_decode_image:
  "Connection_wf c \<Longrightarrow> length old = 104 \<Longrightarrow>
   Connection_from (Connection_rs_decode (Connection_image c old)) = Connection_view c"
  by (simp add: Connection_from_def Connection_rs_decode_def Connection_view_def conn_addr_str_def
      conn_type_str_def wire_simps Connection_image_fields)

definition decode_closed :: "byte list \<Rightarrow> fault + ClosedConnection_pb" where
  "decode_closed x = map_sum id ClosedConnection_from (ClosedConnection_from_bytes x)"

definition decode_evicted :: "byte list \<Rightarrow> fault + EvictedInboundConnection_pb" where
  "decode_evicted x = map_sum id EvictedInboundConnection_from (ClosedConnection_from_bytes x)"

definition decode_inbound :: "byte list \<Rightarrow> fault + InboundConnection_pb" where
  "decode_inbound x = map_sum id InboundConnection_from (InboundConnection_from_bytes x)"

definition decode_outbound :: "byte list \<Rightarrow> fault + OutboundConnection_pb" where
  "decode_outbound x = map_sum id OutboundConnection_from (OutboundConnection_from_bytes x)"

definition decode_misbehaving :: "byte list \<Rightarrow> fault + MisbehavingConnection_pb" where
  "decode_misbehaving x = map_sum id MisbehavingConnection_from (MisbehavingConnection_from_bytes x)"

definition Closed_view :: "ClosedConnection_c \<Rightarrow> ClosedConnection_pb" where
  "Closed_view c =
     \<lparr>pcl_conn = Connection_view (closed_conn c), pcl_time_established = closed_time_established c\<rparr>"

definition Evicted_view :: "ClosedConnection_c \<Rightarrow> EvictedInboundConnection_pb" where
  "Evicted_view c =
     \<lparr>pe_conn = Connection_view (closed_conn c), pe_time_established = closed_time_established c\<rparr>"

definition Inbound_view :: "InboundConnection_c \<Rightarrow> InboundConnection_pb" where
  "Inbound_view c =
     \<lparr>pi_conn = Connection_view (inbound_conn c),
      pi_existing_connections = inbound_existing_connections c\<rparr>"

definition Outbound_view :: "OutboundConnection_c \<Rightarrow> OutboundConnection_pb" where
  "Outbound_view c =
     \<lparr>po_conn = Connection_view (outbound_conn c),
      po_existing_connections = outbound_existing_connections c\<rparr>"

definition Misbehaving_view :: "MisbehavingConnection_c \<Rightarrow> MisbehavingConnection_pb" where
  "Misbehaving_view c = \<lparr>pm_id = misb_id c, pm_message = chars_to_string (misb_message c)\<rparr>"

interpretation closed_ch: sound_channel ClosedConnection_image ClosedConnection_wf 112 decode_closed Closed_view
  by unfold_locales
    (simp_all add: decode_closed_def ClosedConnection_from_bytes_def ClosedConnection_from_def
      Closed_view_def ClosedConnection_wf_def read_unaligned_image ClosedConnection_image_fields
      Connection_decode_image wire_simps layout_simps del: sizeof.simps)

interpretation evicted_ch: sound_channel ClosedConnection_image ClosedConnection_wf 112 decode_evicted Evicted_view
  by unfold_locales
    (simp_all add: decode_evicted_def ClosedConnection_from_bytes_def EvictedInboundConnection_from_def
      Evicted_view_def ClosedConnection_wf_def read_unaligned_image ClosedConnection_image_fields
      Connection_decode_image wire_simps layout_simps del: sizeof.simps)

interpretation inbound_ch: sound_channel InboundConnection_image InboundConnection_wf 112 decode_inbound Inbound_view
  by unfold_locales
    (simp_all add: decode_inbound_def InboundConnection_from_bytes_def InboundConnection_from_def
      Inbound_view_def InboundConnection_wf_def read_unaligned_image InboundConnection_image_fields
      Connection_decode_image wire_simps layout_simps del: sizeof.simps)

interpretation outbound_ch: sound_channel OutboundConnection_image OutboundConnection_wf 112 decode_outbound Outbound_view
  by unfold_locales
    (simp_all add: decode_outbound_def OutboundConnection_from_bytes_def OutboundConnection_from_def
      Outbound_view_def OutboundConnection_wf_def read_unaligned_image OutboundConnection_image_fields
      Connection_decode_image wire_simps layout_simps del: sizeof.simps)

interpretation misbehaving_ch: sound_channel MisbehavingConnection_image MisbehavingConnection_wf 136
    decode_misbehaving Misbehaving_view
  by unfold_locales
    (simp_all add: decode_misbehaving_def MisbehavingConnection_from_bytes_def
      MisbehavingConnection_from_def Misbehaving_view_def misbehaving_message_str_def
      read_unaligned_image MisbehavingConnection_image_fields wire_simps layout_simps
      del: sizeof.simps)

section \<open>Mempool\<close>

definition decode_added :: "byte list \<Rightarrow> fault + Added_pb" where
  "decode_added x = map_sum id Added_from (MempoolAdded_from_bytes x)"

definition decode_removed :: "byte list \<Rightarrow> fault + Removed_pb" where
  "decode_removed x = map_sum id Removed_from (MempoolRemoved_from_bytes x)"

definition decode_replaced :: "byte list \<Rightarrow> fault + Replaced_pb" where
  "decode_replaced x = map_sum id Replaced_from (MempoolReplaced_from_bytes x)"

definition decode_rejected :: "byte list \<Rightarrow> fault + Rejected_pb" where
  "decode_rejected x = map_sum id Rejected_from (MempoolRejected_from_bytes x)"

definition Added_view :: "MempoolAdded_c \<Rightarrow> Added_pb" where
  "Added_view a = \<lparr>pa_txid = added_txid a, pa_vsize = added_vsize a, pa_fee = added_fee a\<rparr>"

definition Removed_view :: "MempoolRemoved_c \<Rightarrow> Removed_pb" where
  "Removed_view r =
     \<lparr>pr_txid = removed_txid r, pr_reason = chars_to_string (removed_reason r),
      pr_vsize = removed_vsize r, pr_fee = removed_fee r, pr_entry_time = removed_entry_time r\<rparr>"

definition Replaced_view :: "MempoolReplaced_c \<Rightarrow> Replaced_pb" where
  "Replaced_view r =
     \<lparr>pp_replaced_txid = repl_replaced_txid r, pp_replaced_vsize = repl_replaced_vsize r,
      pp_replaced_fee = repl_replaced_fee r, pp_replaced_entry_time = repl_replaced_entry_time r,
      pp_replacement_id = repl_replacement_id r, pp_replacement_vsize = repl_replacement_vsize r,
      pp_replacement_fee = repl_replacement_fee r,
      pp_replaced_by_transaction = repl_replaced_by_transaction r\<rparr>"

definition Rejected_view :: "MempoolRejected_c \<Rightarrow> Rejected_pb" where
  "Rejected_view r = \<lparr>pj_txid = rej_txid r, pj_reason = chars_to_string (rej_reason r)\<rparr>"

interpretation added_ch: sound_channel MempoolAdded_image MempoolAdded_wf 48 decode_added Added_view
  by unfold_locales
    (simp_all add: decode_added_def MempoolAdded_from_bytes_def Added_from_def Added_view_def
      read_unaligned_image MempoolAdded_image_fields wire_simps layout_simps del: sizeof.simps)

interpretation removed_ch: sound_channel MempoolRemoved_image MempoolRemoved_wf 64 decode_removed Removed_view
  by unfold_locales
    (simp_all add: decode_removed_def MempoolRemoved_from_bytes_def Removed_from_def Removed_view_def
      removed_reason_str_def read_unaligned_image MempoolRemoved_image_fields wire_simps layout_simps
      del: sizeof.simps)

interpretation replaced_ch: sound_channel MempoolReplaced_image MempoolReplaced_wf 112 decode_replaced Replaced_view
  by unfold_locales
    (simp_all add: decode_replaced_def MempoolReplaced_from_bytes_def Replaced_from_def
      Replaced_view_def read_unaligned_image MempoolReplaced_image_fields wire_simps layout_simps
      del: sizeof.simps)

text \<open>
  The C reason array has 113 bytes, the Rust one 118: the decoder reads five bytes past the
  record. When they exist the event is still right, since the handlers' strings are
  NUL-terminated within the 113.
\<close>

definition MempoolRejected_terminated :: "MempoolRejected_c \<Rightarrow> bool" where
  "MempoolRejected_terminated r \<longleftrightarrow> MempoolRejected_wf r \<and> 0 \<in> set (rej_reason r)"

lemma rejected_reason_at:
  assumes "MempoolRejected_wf r" and "length old = 145" and "5 \<le> length rest"
  shows "read_field MempoolRejected_rs_layout ''reason'' (take 150 (MempoolRejected_image r old @ rest))
     = rej_reason r @ take 5 rest"
proof -
  let ?img = "MempoolRejected_image r old"
  have len: "length ?img = 145" using assms by (simp add: MempoolRejected_image_fields)
  have "get 32 113 ?img = rej_reason r"
    using MempoolRejected_image_fields(3) [OF assms(1,2)]
    by (simp add: read_field_def layout_simps)
  then have "drop 32 ?img = rej_reason r"
    using len by (simp add: get_def)
  moreover have "length (rej_reason r) = 113"
    using assms(1) by (simp add: MempoolRejected_wf_def macro_defs)
  ultimately show ?thesis
    using len assms(3)
    by (simp add: read_field_def table_simps MempoolRejected_rs_layout_table get_def)
qed

lemma rejected_txid_at:
  assumes "MempoolRejected_wf r" and "length old = 145"
  shows "read_field MempoolRejected_rs_layout ''txid'' (take 150 (MempoolRejected_image r old @ rest))
     = rej_txid r"
proof -
  have len: "length (MempoolRejected_image r old) = 145"
    using assms by (simp add: MempoolRejected_image_fields)
  have "read_field MempoolRejected_rs_layout ''txid'' (take 150 (MempoolRejected_image r old @ rest))
      = get 0 32 (MempoolRejected_image r old)"
    using len by (simp add: read_field_def table_simps MempoolRejected_rs_layout_table)
  also have "\<dots> = rej_txid r"
    using MempoolRejected_image_fields(2) [OF assms] by (simp add: read_field_def layout_simps)
  finally show ?thesis .
qed

interpretation rejected_ch: channel MempoolRejected_image MempoolRejected_terminated 145 5
    decode_rejected Rejected_view
proof unfold_locales
  fix c old
  show "MempoolRejected_terminated c \<Longrightarrow> length old = 145 \<Longrightarrow> length (MempoolRejected_image c old) = 145"
    by (simp add: MempoolRejected_terminated_def MempoolRejected_image_fields)
next
  fix c and old rest :: "byte list"
  assume c: "MempoolRejected_terminated c" and len: "length old = 145" "5 \<le> length rest"
  then have wf: "MempoolRejected_wf c" and nul: "0 \<in> set (rej_reason c)"
    by (simp_all add: MempoolRejected_terminated_def)
  show "decode_rejected (MempoolRejected_image c old @ rest) = Inr (Rejected_view c)"
    using rejected_reason_at [OF wf len] rejected_txid_at [OF wf len(1), of rest]
      MempoolRejected_image_fields(1) [OF wf len(1)] len(2) nul
    by (simp add: decode_rejected_def MempoolRejected_from_bytes_def read_unaligned_def
        Rejected_from_def Rejected_view_def rejected_reason_str_def chars_to_string_def
        cstr_append_terminated MempoolRejected_rs_layout_size del: sizeof.simps take_append)
qed

section \<open>Validation\<close>

definition decode_block_connected :: "byte list \<Rightarrow> fault + BlockConnected_pb" where
  "decode_block_connected x = map_sum id BlockConnected_from (ValidationBlockConnected_from_bytes x)"

definition BlockConnected_view :: "BlockConnected_c \<Rightarrow> BlockConnected_pb" where
  "BlockConnected_view b =
     \<lparr>pb_hash = bc_hash b, pb_height = bc_height b, pb_transactions = bc_transactions b,
      pb_inputs = bc_inputs b, pb_sigops = bc_sigops b, pb_connection_time = bc_connection_time b\<rparr>"

interpretation block_connected_ch: sound_channel BlockConnected_image BlockConnected_wf 72
    decode_block_connected BlockConnected_view
  by unfold_locales
    (simp_all add: decode_block_connected_def ValidationBlockConnected_from_bytes_def
      BlockConnected_from_def BlockConnected_view_def read_unaligned_image BlockConnected_image_fields
      wire_simps layout_simps del: sizeof.simps)

section \<open>P2P messages\<close>

definition Metadata_view :: "Metadata \<Rightarrow> P2PMessageMetadata" where
  "Metadata_view m =
     \<lparr>peer_id = md_id m, peer_addr = md_addr m, peer_conn_type = md_conn_type m,
      msg_type = md_msg_type m, msg_inbound = md_msg_inbound m, msg_size = md_msg_size m\<rparr>"

definition P2PMessage_view :: "P2PMessage_c \<Rightarrow> P2PMessage" where
  "P2PMessage_view m =
     \<lparr>meta = Metadata_view (msg_meta m),
      payload = take (unat (md_msg_size (msg_meta m))) (msg_payload m)\<rparr>"

definition P2PMessage_fits :: "nat \<Rightarrow> P2PMessage_c \<Rightarrow> bool" where
  "P2PMessage_fits cap m \<longleftrightarrow> P2PMessage_wf cap m \<and> 8 dvd cap \<and> cap \<le> MAX_P2P_MESSAGE_SIZE \<and>
     unat (md_msg_size (msg_meta m)) \<le> cap"

lemma Metadata_decode_image:
  "Metadata_wf m \<Longrightarrow> length old = 120 \<Longrightarrow>
   P2PMessageMetadata_decode (Metadata_image m old) = Some (Metadata_view m)"
  by (simp add: P2PMessageMetadata_decode_def Metadata_view_def read_Metadata wire_simps)

lemma P2PMessage_decode_image:
  assumes fits: "P2PMessage_fits cap m" and old: "length old = 120 + cap"
  shows "P2PMessage_from_bytes (P2PMessage_image (P2PMessage_layout cap) m old @ rest) =
     Inr (P2PMessage_view m)"
proof -
  let ?fs = "P2PMessage_layout cap" and ?img = "P2PMessage_image (P2PMessage_layout cap) m old"
  have wf: "P2PMessage_wf cap m" and dvd: "8 dvd cap" using fits by (simp_all add: P2PMessage_fits_def)
  note parts = P2PMessage_image_parts [OF wf dvd old]
  have meta_wf: "Metadata_wf (msg_meta m)" using wf by (simp add: P2PMessage_wf_def)
  have meta: "take 120 ?img = Metadata_image (msg_meta m) (take 120 old)"
    using parts(2) by (simp add: read_field_def layout_simps get_def)
  have pl: "drop 120 ?img = msg_payload m"
    using parts(1,3) by (simp add: read_field_def layout_simps get_def)
  have mlen: "length (Metadata_image (msg_meta m) (take 120 old)) = 120"
    using meta_wf old by (intro length_Metadata_image) simp_all
  have "read_unaligned P2PMessageMetadata_layout P2PMessageMetadata_decode (take 120 (?img @ rest))
      = Inr (Metadata_view (msg_meta m))"
    using read_unaligned_image [of "take 120 ?img" P2PMessageMetadata_layout P2PMessageMetadata_decode "[]"]
      Metadata_decode_image [OF meta_wf, of "take 120 old"] parts(1) old
    by (simp add: meta mlen layout_simps del: sizeof.simps)
  moreover have "take (unat (md_msg_size (msg_meta m))) (drop 120 (?img @ rest)) =
      take (unat (md_msg_size (msg_meta m))) (msg_payload m)"
    using parts(1) pl fits wf by (simp add: P2PMessage_fits_def P2PMessage_wf_def)
  ultimately show ?thesis
    using parts(1) fits
    by (simp add: P2PMessage_from_bytes_def P2PMessage_view_def Metadata_view_def P2PMessage_fits_def
        layout_simps Let_def min_def del: sizeof.simps)
qed

interpretation p2p_ch: sound_channel "P2PMessage_image (P2PMessage_layout cap)" "P2PMessage_fits cap"
    "120 + cap" P2PMessage_from_bytes P2PMessage_view
  for cap
  by unfold_locales
    (simp_all add: P2PMessage_decode_image, simp add: P2PMessage_fits_def P2PMessage_image_parts)

end
