(* ===== verification/ExtractorHandlers.thy ===== *)
theory ExtractorHandlers
  imports EbpfEvents
begin

text \<open>
  The ring buffer callbacks of \<^verbatim>\<open>extractors/ebpf/src/lib.rs\<close>, with \<^verbatim>\<open>Event::new\<close> and the NATS
  subjects. A callback gets the bytes of one record and the clock; it returns the code libbpf
  sees and the publications it spawned. The protobuf encoding and the NATS client are libraries:
  a publication is the subject and the event handed to them. A fault of \<^verbatim>\<open>from_bytes\<close> is the
  fault of the callback.
\<close>

section \<open>Events and subjects\<close>

datatype Subject = Mempool | NetMsg | NetConn | Validation | Rpc | Ipc | P2PExtractor | LogExtractor

fun Subject_display :: "Subject \<Rightarrow> string" where
  "Subject_display Mempool = ''mempool''"
| "Subject_display NetConn = ''netconn''"
| "Subject_display NetMsg = ''netmsg''"
| "Subject_display Validation = ''validation''"
| "Subject_display Rpc = ''rpc''"
| "Subject_display Ipc = ''ipc''"
| "Subject_display P2PExtractor = ''p2p-extractor''"
| "Subject_display LogExtractor = ''log-extractor''"

datatype 'm EbpfEvent =
    MessageEv "'m MessageEvent"
  | ConnectionEv ConnectionEvent
  | MempoolEv MempoolEvent
  | ValidationEv BlockConnected_pb

record 'p Event =
  timestamp :: u64
  peer_observer_event :: 'p

text \<open>
  The clock is the number of nanoseconds since the UNIX epoch, or \<open>None\<close> when the system time is
  before it (a \<^verbatim>\<open>SystemTimeError\<close>).
\<close>

type_synonym clock = "nat option"

datatype system_time_error = SystemTimeError

definition Event_new :: "clock \<Rightarrow> 'p \<Rightarrow> system_time_error + 'p Event" where
  "Event_new now ev =
     (case now of
        None \<Rightarrow> Inl SystemTimeError
      | Some nanos \<Rightarrow> Inr \<lparr>timestamp = of_nat (nanos div 1000000), peer_observer_event = ev\<rparr>)"

section \<open>The callbacks\<close>

definition RINGBUFF_CALLBACK_OK :: s32 where "RINGBUFF_CALLBACK_OK = 0"
definition RINGBUFF_CALLBACK_SYSTEM_TIME_ERROR :: s32 where
  "RINGBUFF_CALLBACK_SYSTEM_TIME_ERROR = - 5"
definition RINGBUFF_CALLBACK_UNABLE_TO_PARSE_P2P_MSG :: s32 where
  "RINGBUFF_CALLBACK_UNABLE_TO_PARSE_P2P_MSG = - 20"

type_synonym 'm published = "(Subject \<times> 'm EbpfEvent Event) list"
type_synonym 'm callback_result = "fault + s32 \<times> 'm published"

text \<open>The common tail of the callbacks: stamp the event, spawn its publication.\<close>

definition publish_event :: "clock \<Rightarrow> Subject \<Rightarrow> 'm EbpfEvent \<Rightarrow> s32 \<times> 'm published" where
  "publish_event now subject ev =
     (case Event_new now ev of
        Inr p \<Rightarrow> (RINGBUFF_CALLBACK_OK, [(subject, p)])
      | Inl e \<Rightarrow> (RINGBUFF_CALLBACK_SYSTEM_TIME_ERROR, []))"

definition rs_handle_net_conn_closed :: "byte list \<Rightarrow> clock \<Rightarrow> 'm callback_result" where
  "rs_handle_net_conn_closed data now =
     (case ClosedConnection_from_bytes data of
        Inl f \<Rightarrow> Inl f
      | Inr closed \<Rightarrow>
          Inr (publish_event now NetConn (ConnectionEv (Closed (ClosedConnection_from closed)))))"

definition rs_handle_net_conn_outbound :: "byte list \<Rightarrow> clock \<Rightarrow> 'm callback_result" where
  "rs_handle_net_conn_outbound data now =
     (case OutboundConnection_from_bytes data of
        Inl f \<Rightarrow> Inl f
      | Inr outbound \<Rightarrow>
          Inr (publish_event now NetConn
            (ConnectionEv (ConnOutbound (OutboundConnection_from outbound)))))"

definition rs_handle_net_conn_inbound :: "byte list \<Rightarrow> clock \<Rightarrow> 'm callback_result" where
  "rs_handle_net_conn_inbound data now =
     (case InboundConnection_from_bytes data of
        Inl f \<Rightarrow> Inl f
      | Inr inbound \<Rightarrow>
          Inr (publish_event now NetConn
            (ConnectionEv (ConnInbound (InboundConnection_from inbound)))))"

definition rs_handle_net_conn_inbound_evicted :: "byte list \<Rightarrow> clock \<Rightarrow> 'm callback_result" where
  "rs_handle_net_conn_inbound_evicted data now =
     (case ClosedConnection_from_bytes data of
        Inl f \<Rightarrow> Inl f
      | Inr evicted \<Rightarrow>
          Inr (publish_event now NetConn
            (ConnectionEv (InboundEvicted (EvictedInboundConnection_from evicted)))))"

definition rs_handle_net_conn_misbehaving :: "byte list \<Rightarrow> clock \<Rightarrow> 'm callback_result" where
  "rs_handle_net_conn_misbehaving data now =
     (case MisbehavingConnection_from_bytes data of
        Inl f \<Rightarrow> Inl f
      | Inr misbehaving \<Rightarrow>
          Inr (publish_event now NetConn
            (ConnectionEv (Misbehaving (MisbehavingConnection_from misbehaving)))))"

definition rs_handle_net_message ::
  "('m, 'e) rust_bitcoin \<Rightarrow> byte list \<Rightarrow> clock \<Rightarrow> 'm callback_result" where
  "rs_handle_net_message rb data now =
     (case P2PMessage_from_bytes data of
        Inl f \<Rightarrow> Inl f
      | Inr message \<Rightarrow>
          (case decode_to_protobuf_network_message rb message of
             Inl e \<Rightarrow> Inr (RINGBUFF_CALLBACK_UNABLE_TO_PARSE_P2P_MSG, [])
           | Inr protobuf_message \<Rightarrow>
               Inr (publish_event now NetMsg
                 (MessageEv \<lparr>me_meta = create_protobuf_metadata (meta message),
                             me_msg = protobuf_message\<rparr>))))"

definition rs_handle_mempool_added :: "byte list \<Rightarrow> clock \<Rightarrow> 'm callback_result" where
  "rs_handle_mempool_added data now =
     (case MempoolAdded_from_bytes data of
        Inl f \<Rightarrow> Inl f
      | Inr added \<Rightarrow> Inr (publish_event now Mempool (MempoolEv (Added (Added_from added)))))"

definition rs_handle_mempool_removed :: "byte list \<Rightarrow> clock \<Rightarrow> 'm callback_result" where
  "rs_handle_mempool_removed data now =
     (case MempoolRemoved_from_bytes data of
        Inl f \<Rightarrow> Inl f
      | Inr removed \<Rightarrow> Inr (publish_event now Mempool (MempoolEv (Removed (Removed_from removed)))))"

definition rs_handle_mempool_replaced :: "byte list \<Rightarrow> clock \<Rightarrow> 'm callback_result" where
  "rs_handle_mempool_replaced data now =
     (case MempoolReplaced_from_bytes data of
        Inl f \<Rightarrow> Inl f
      | Inr replaced \<Rightarrow>
          Inr (publish_event now Mempool (MempoolEv (Replaced (Replaced_from replaced)))))"

definition rs_handle_mempool_rejected :: "byte list \<Rightarrow> clock \<Rightarrow> 'm callback_result" where
  "rs_handle_mempool_rejected data now =
     (case MempoolRejected_from_bytes data of
        Inl f \<Rightarrow> Inl f
      | Inr rejected \<Rightarrow>
          Inr (publish_event now Mempool (MempoolEv (Rejected (Rejected_from rejected)))))"

definition rs_handle_validation_block_connected :: "byte list \<Rightarrow> clock \<Rightarrow> 'm callback_result" where
  "rs_handle_validation_block_connected data now =
     (case ValidationBlockConnected_from_bytes data of
        Inl f \<Rightarrow> Inl f
      | Inr connected \<Rightarrow>
          Inr (publish_event now Validation (ValidationEv (BlockConnected_from connected))))"

section \<open>Facts about the common tail\<close>

lemma publish_event_ok:
  "publish_event (Some t) subject ev =
     (RINGBUFF_CALLBACK_OK, [(subject, \<lparr>timestamp = of_nat (t div 1000000), peer_observer_event = ev\<rparr>)])"
  by (simp add: publish_event_def Event_new_def)

lemma publish_event_no_clock:
  "publish_event None subject ev = (RINGBUFF_CALLBACK_SYSTEM_TIME_ERROR, [])"
  by (simp add: publish_event_def Event_new_def)

end
