(* ===== verification/Delivery.thy ===== *)
theory Delivery
  imports HandlerFacts Channels ExtractorHandlers
begin

text \<open>
  From a tracepoint to the published event: what each BPF handler puts into its ring buffer, and
  what the Rust callback makes of it. The lemmas here compute the object a handler builds and its
  view; the channels of \<^theory_text>\<open>Channels\<close> carry it across.
\<close>

section \<open>Delivering an event\<close>

text \<open>
  A handler's result \<open>res\<close> delivers the event \<open>ev\<close> on the ring buffer \<open>r\<close>: it returns 0, the ring
  buffer holds exactly one more record, and the callback publishes \<open>ev\<close> under the subject.
\<close>

definition publishes :: "'m callback_result \<Rightarrow> nat \<Rightarrow> Subject \<Rightarrow> 'm EbpfEvent \<Rightarrow> bool" where
  "publishes res t subject ev \<longleftrightarrow>
     res = Inr (RINGBUFF_CALLBACK_OK,
       [(subject, \<lparr>timestamp = of_nat (t div 1000000), peer_observer_event = ev\<rparr>)])"

definition delivers ::
  "trace \<Rightarrow> s32 \<times> trace \<Rightarrow> ring \<Rightarrow> (byte list \<Rightarrow> clock \<Rightarrow> 'm callback_result) \<Rightarrow> Subject \<Rightarrow>
   'm EbpfEvent \<Rightarrow> bool" where
  "delivers tr res r cb subject ev \<longleftrightarrow>
     fst res = 0 \<and>
     (\<exists>data. delivered r (snd res) = delivered r tr @ [data] \<and>
        (\<forall>t. publishes (cb data (Some t)) t subject ev))"

text \<open>The ring buffer accepts what the handler outputs.\<close>

definition has_room :: "bpf_env \<Rightarrow> trace \<Rightarrow> ring \<Rightarrow> bool" where
  "has_room env tr r \<longleftrightarrow> (\<forall>data. output_result env tr r data 0 = 0)"

lemma output_event_room:
  "has_room env tr r \<Longrightarrow> output_event env tr r data = (0, tr @ [Output r data 0 0])"
  by (simp add: has_room_def output_event_def bpf_ringbuf_output_def Let_def)

lemma delivers_outputI:
  assumes "has_room env tr r" and "\<And>t. publishes (cb data (Some t)) t subject ev"
  shows "delivers tr (output_event env tr r data) r cb subject ev"
  using assms by (simp add: delivers_def output_event_room)

lemma length_zeroed: "length (zeroed fs) = sizeof (Struct fs)"
  by (simp add: zeroed_def)

lemma map_sum_Inr: "map_sum id f x = Inr y \<longleftrightarrow> (\<exists>v. x = Inr v \<and> y = f v)"
  by (cases x) auto

text \<open>What a character array holds as a string once a C string was read into it.\<close>

lemma chars_str_into:
  "0 < length dst \<Longrightarrow> 0 \<notin> set s \<Longrightarrow>
   chars_to_string (str_into dst s) = from_utf8_lossy (take (length dst - 1) s)"
  by (simp add: chars_to_string_def cstr_str_into)

section \<open>Connections\<close>

definition filled_conn :: "bpf_env \<Rightarrow> u64 \<Rightarrow> u64 \<Rightarrow> u64 \<Rightarrow> u64 \<Rightarrow> Connection_c" where
  "filled_conn env id' addr type network =
     set_conn_data2 env (set_conn_data1 Connection_zero id' network) addr type"

definition expected_connection :: "u64 \<Rightarrow> byte list \<Rightarrow> byte list \<Rightarrow> u64 \<Rightarrow> Connection_pb" where
  "expected_connection id' a c network =
     \<lparr>pc_peer_id = id',
      pc_addr = from_utf8_lossy (take (MAX_PEER_ADDR_LENGTH - 1) a),
      pc_conn_type = ConnType_i32 (ConnType_from (from_utf8_lossy (take (MAX_PEER_CONN_TYPE_LENGTH - 1) c))),
      pc_network = ucast network\<rparr>"

lemma filled_conn_wf: "probe_ok env mem \<Longrightarrow> Connection_wf (filled_conn env id' addr type network)"
  by (simp add: filled_conn_def set_conn_data1_def set_conn_data2_def Connection_zero_def
      Connection_wf_def length_probe_user_str macro_defs)

lemma filled_conn_view:
  assumes "probe_ok env mem" and "user_cstr_at mem addr a" and "user_cstr_at mem type c"
  shows "Connection_view (filled_conn env id' addr type network) = expected_connection id' a c network"
  using assms user_cstr_no_nul [OF assms(2)] user_cstr_no_nul [OF assms(3)]
  by (simp add: filled_conn_def set_conn_data1_def set_conn_data2_def Connection_zero_def
      Connection_view_def expected_connection_def probe_user_str_into chars_str_into macro_defs)

lemma closed_publishes:
  assumes "Connection_wf c"
    and data: "data = ClosedConnection_image \<lparr>closed_conn = c, closed_time_established = e\<rparr>
                    (zeroed ClosedConnection_layout)"
  shows "publishes (rs_handle_net_conn_closed data (Some t)) t NetConn
           (ConnectionEv (Closed \<lparr>pcl_conn = Connection_view c, pcl_time_established = e\<rparr>))"
    and "publishes (rs_handle_net_conn_inbound_evicted data (Some t)) t NetConn
           (ConnectionEv (InboundEvicted \<lparr>pe_conn = Connection_view c, pe_time_established = e\<rparr>))"
proof -
  let ?c = "\<lparr>closed_conn = c, closed_time_established = e\<rparr>"
  have wf: "ClosedConnection_wf ?c" using assms by (simp add: ClosedConnection_wf_def)
  have len: "length (zeroed ClosedConnection_layout) = 112" by (simp add: length_zeroed layout_simps del: sizeof.simps)
  obtain v where "ClosedConnection_from_bytes data = Inr v" "ClosedConnection_from v = Closed_view ?c"
    using closed_ch.decode_exact [OF wf len] by (auto simp: data decode_closed_def map_sum_Inr)
  then show "publishes (rs_handle_net_conn_closed data (Some t)) t NetConn
      (ConnectionEv (Closed \<lparr>pcl_conn = Connection_view c, pcl_time_established = e\<rparr>))"
    by (simp add: publishes_def rs_handle_net_conn_closed_def publish_event_ok Closed_view_def)
  obtain w where "ClosedConnection_from_bytes data = Inr w" "EvictedInboundConnection_from w = Evicted_view ?c"
    using evicted_ch.decode_exact [OF wf len] by (auto simp: data decode_evicted_def map_sum_Inr)
  then show "publishes (rs_handle_net_conn_inbound_evicted data (Some t)) t NetConn
      (ConnectionEv (InboundEvicted \<lparr>pe_conn = Connection_view c, pe_time_established = e\<rparr>))"
    by (simp add: publishes_def rs_handle_net_conn_inbound_evicted_def publish_event_ok Evicted_view_def)
qed

lemma inbound_publishes:
  assumes "Connection_wf c"
  shows "publishes (rs_handle_net_conn_inbound (InboundConnection_image
             \<lparr>inbound_conn = c, inbound_existing_connections = e\<rparr> (zeroed InboundConnection_layout)) (Some t)) t NetConn
           (ConnectionEv (ConnInbound \<lparr>pi_conn = Connection_view c, pi_existing_connections = e\<rparr>))"
  using inbound_ch.decode_exact [of "\<lparr>inbound_conn = c, inbound_existing_connections = e\<rparr>"
      "zeroed InboundConnection_layout"] assms
  by (auto simp: publishes_def rs_handle_net_conn_inbound_def publish_event_ok Inbound_view_def
      InboundConnection_wf_def decode_inbound_def map_sum_Inr length_zeroed layout_simps simp del: sizeof.simps)

lemma outbound_publishes:
  assumes "Connection_wf c"
  shows "publishes (rs_handle_net_conn_outbound (OutboundConnection_image
             \<lparr>outbound_conn = c, outbound_existing_connections = e\<rparr> (zeroed OutboundConnection_layout)) (Some t)) t NetConn
           (ConnectionEv (ConnOutbound \<lparr>po_conn = Connection_view c, po_existing_connections = e\<rparr>))"
  using outbound_ch.decode_exact [of "\<lparr>outbound_conn = c, outbound_existing_connections = e\<rparr>"
      "zeroed OutboundConnection_layout"] assms
  by (auto simp: publishes_def rs_handle_net_conn_outbound_def publish_event_ok Outbound_view_def
      OutboundConnection_wf_def decode_outbound_def map_sum_Inr length_zeroed layout_simps simp del: sizeof.simps)

lemma misbehaving_publishes:
  assumes "MisbehavingConnection_wf c"
  shows "publishes (rs_handle_net_conn_misbehaving (MisbehavingConnection_image c
             (zeroed MisbehavingConnection_layout)) (Some t)) t NetConn
           (ConnectionEv (Misbehaving (Misbehaving_view c)))"
  using misbehaving_ch.decode_exact [of c "zeroed MisbehavingConnection_layout"] assms
  by (auto simp: publishes_def rs_handle_net_conn_misbehaving_def publish_event_ok
      decode_misbehaving_def map_sum_Inr length_zeroed layout_simps simp del: sizeof.simps)

section \<open>Mempool and validation\<close>

lemma added_publishes:
  assumes "MempoolAdded_wf c"
  shows "publishes (rs_handle_mempool_added (MempoolAdded_image c (zeroed MempoolAdded_layout)) (Some t)) t
           Mempool (MempoolEv (Added (Added_view c)))"
  using added_ch.decode_exact [of c "zeroed MempoolAdded_layout"] assms
  by (auto simp: publishes_def rs_handle_mempool_added_def publish_event_ok
      decode_added_def map_sum_Inr length_zeroed layout_simps simp del: sizeof.simps)

lemma removed_publishes:
  assumes "MempoolRemoved_wf c"
  shows "publishes (rs_handle_mempool_removed (MempoolRemoved_image c (zeroed MempoolRemoved_layout)) (Some t)) t
           Mempool (MempoolEv (Removed (Removed_view c)))"
  using removed_ch.decode_exact [of c "zeroed MempoolRemoved_layout"] assms
  by (auto simp: publishes_def rs_handle_mempool_removed_def publish_event_ok
      decode_removed_def map_sum_Inr length_zeroed layout_simps simp del: sizeof.simps)

lemma replaced_publishes:
  assumes "MempoolReplaced_wf c"
  shows "publishes (rs_handle_mempool_replaced (MempoolReplaced_image c (zeroed MempoolReplaced_layout)) (Some t)) t
           Mempool (MempoolEv (Replaced (Replaced_view c)))"
  using replaced_ch.decode_exact [of c "zeroed MempoolReplaced_layout"] assms
  by (auto simp: publishes_def rs_handle_mempool_replaced_def publish_event_ok
      decode_replaced_def map_sum_Inr length_zeroed layout_simps simp del: sizeof.simps)

lemma rejected_publishes:
  assumes "MempoolRejected_terminated c" and "5 \<le> length rest"
  shows "publishes (rs_handle_mempool_rejected
             (MempoolRejected_image c (zeroed MempoolRejected_layout) @ rest) (Some t)) t
           Mempool (MempoolEv (Rejected (Rejected_view c)))"
  using rejected_ch.decode_image [of c "zeroed MempoolRejected_layout" rest] assms
  by (auto simp: publishes_def rs_handle_mempool_rejected_def publish_event_ok
      decode_rejected_def map_sum_Inr length_zeroed layout_simps simp del: sizeof.simps)

lemma block_connected_publishes:
  assumes "BlockConnected_wf c"
  shows "publishes (rs_handle_validation_block_connected
             (BlockConnected_image c (zeroed BlockConnected_layout)) (Some t)) t
           Validation (ValidationEv (BlockConnected_view c))"
  using block_connected_ch.decode_exact [of c "zeroed BlockConnected_layout"] assms
  by (auto simp: publishes_def rs_handle_validation_block_connected_def publish_event_ok
      decode_block_connected_def map_sum_Inr length_zeroed layout_simps simp del: sizeof.simps)

lemma probe_exact:
  "probe_ok env mem \<Longrightarrow> n < 2 ^ 32 \<Longrightarrow> length bs = n \<Longrightarrow> user_bytes_at mem src bs \<Longrightarrow>
   bpf_probe_read_user env (replicate n 0) (of_nat n) src = bs"
  using probe_user_bytes [of env mem "of_nat n" "replicate n 0" src bs]
  by (simp add: unat_of_nat take_bit_nat_eq_self)

end
