(* ===== verification/MessageDelivery.thy ===== *)
theory MessageDelivery
  imports Delivery
begin

text \<open>
  A P2P message from the tracepoint to the published event. The raw network message the callback
  rebuilds for \<^verbatim>\<open>rust-bitcoin\<close> is stated here as bytes: the code builds it in place.
\<close>

section \<open>The rebuilt network message\<close>

lemma copy_command_spec:
  "4 + i + length cs \<le> length raw \<Longrightarrow>
   copy_command i cs raw = take (4 + i) raw @ cstr cs @ drop (4 + i + length (cstr cs)) raw"
proof (induction i cs raw rule: copy_command.induct)
  case (1 i raw)
  then show ?case by (simp add: cstr_def)
next
  case (2 i b bs raw)
  show ?case
  proof (cases "b = 0")
    case True
    then show ?thesis by (simp add: cstr_def)
  next
    case False
    have "copy_command (Suc i) bs (raw[4 + i := b]) =
        take (5 + i) (raw[4 + i := b]) @ cstr bs @ drop (5 + i + length (cstr bs)) (raw[4 + i := b])"
      using "2.IH" [OF False] "2.prems" by simp
    also have "take (5 + i) (raw[4 + i := b]) = take (4 + i) raw @ [b]"
      using "2.prems" take_Suc_conv_app_nth [of "4 + i" "raw[4 + i := b]"] by simp
    finally show ?thesis
      using False by (simp add: cstr_def add.assoc)
  qed
qed

text \<open>Magic zero, the command padded to 12 bytes, the length, the checksum, the payload.\<close>

definition expected_raw ::
  "('m, 'e) rust_bitcoin \<Rightarrow> byte list \<Rightarrow> u64 \<Rightarrow> byte list \<Rightarrow> byte list" where
  "expected_raw rb cmd sz bs =
     replicate 4 0 @ cmd @ replicate (12 - length cmd) 0 @
     le_bytes 4 (ucast sz :: u32) @ take 4 (sha256d rb bs) @ bs"

lemma raw_network_message_expected:
  assumes "length (msg_type m) = 12" and "cstr (msg_type m) = cmd"
  shows "raw_network_message rb m bs = expected_raw rb cmd (msg_size m) bs"
  using assms length_cstr_le [of "msg_type m"]
  by (simp add: raw_network_message_def expected_raw_def copy_command_spec)

section \<open>The event of a message\<close>

text \<open>
  The decoded message: what \<^verbatim>\<open>rust-bitcoin\<close> makes of the raw message, or one of the two known
  oddities when it cannot decode it.
\<close>

definition expected_msg ::
  "('m, 'e) rust_bitcoin \<Rightarrow> byte list \<Rightarrow> u64 \<Rightarrow> byte list \<Rightarrow> 'm Msg option" where
  "expected_msg rb cmd sz bs =
     (case rb_decode rb (expected_raw rb cmd sz bs) of
        Inr m \<Rightarrow> Some (Decoded m)
      | Inl e \<Rightarrow>
          if from_utf8_lossy cmd = ascii ''addrv2'' \<and> sz = 0 then Some (Emptyaddrv2 True)
          else if from_utf8_lossy cmd = ascii ''ping'' \<and> sz = 0 then Some (Oldping True)
          else None)"

definition expected_metadata ::
  "u64 \<Rightarrow> bool \<Rightarrow> u64 \<Rightarrow> byte list \<Rightarrow> byte list \<Rightarrow> byte list \<Rightarrow> Metadata_pb" where
  "expected_metadata id' inbound sz a c cmd =
     \<lparr>pmd_peer_id = id',
      pmd_addr = from_utf8_lossy (take (MAX_PEER_ADDR_LENGTH - 1) a),
      pmd_conn_type = ConnType_i32 (ConnType_from (from_utf8_lossy (take (MAX_PEER_CONN_TYPE_LENGTH - 1) c))),
      pmd_command = from_utf8_lossy cmd, pmd_inbound = inbound, pmd_size = sz\<rparr>"

definition message_result ::
  "Metadata_pb \<Rightarrow> 'm Msg option \<Rightarrow> nat \<Rightarrow> 'm callback_result" where
  "message_result md decoded t =
     (case decoded of
        None \<Rightarrow> Inr (RINGBUFF_CALLBACK_UNABLE_TO_PARSE_P2P_MSG, [])
      | Some m \<Rightarrow> Inr (RINGBUFF_CALLBACK_OK,
          [(NetMsg, \<lparr>timestamp = of_nat (t div 1000000),
                     peer_observer_event = MessageEv \<lparr>me_meta = md, me_msg = m\<rparr>\<rparr>)]))"

lemma net_message_result:
  assumes "P2PMessage_fits cap m" and "length old = 120 + cap"
    and cmd: "cstr (md_msg_type (msg_meta m)) = cmd"
    and bs: "take (unat (md_msg_size (msg_meta m))) (msg_payload m) = bs"
  shows "rs_handle_net_message rb (P2PMessage_image (P2PMessage_layout cap) m old) (Some t) =
     message_result (create_protobuf_metadata (Metadata_view (msg_meta m)))
       (expected_msg rb cmd (md_msg_size (msg_meta m)) bs) t"
proof -
  let ?v = "P2PMessage_view m"
  have "length (md_msg_type (msg_meta m)) = 12"
    using assms(1) by (simp add: P2PMessage_fits_def P2PMessage_wf_def Metadata_wf_def macro_defs)
  then have raw: "raw_network_message rb (meta ?v) (payload ?v) =
      expected_raw rb cmd (md_msg_size (msg_meta m)) bs"
    using raw_network_message_expected [of "meta ?v" cmd rb bs] cmd bs
    by (simp add: P2PMessage_view_def Metadata_view_def)
  have cmd': "msg_type_str (meta ?v) = from_utf8_lossy cmd"
    and sz: "msg_size (meta ?v) = md_msg_size (msg_meta m)"
    using cmd by (simp_all add: P2PMessage_view_def Metadata_view_def msg_type_str_def chars_to_string_def)
  have meta: "meta ?v = Metadata_view (msg_meta m)" by (simp add: P2PMessage_view_def)
  show ?thesis
    using p2p_ch.decode_exact [OF assms(1,2)]
    by (simp add: rs_handle_net_message_def decode_to_protobuf_network_message_def
        decode_network_message_def decode_rust_bitcoin_network_message_def
        decode_weird_network_message_def raw cmd' sz message_result_def expected_msg_def
        publish_event_ok split: sum.split) (simp add: meta)
qed

section \<open>Delivery of a message\<close>

text \<open>
  \<open>can_reserve\<close>: the ring buffer of the message's class has room. \<open>delivers_message\<close>: the handler
  returns 0, that ring buffer holds one more record, and the callback maps it to the event of
  the message.
\<close>

definition can_reserve :: "bpf_env \<Rightarrow> trace \<Rightarrow> u64 \<Rightarrow> bool" where
  "can_reserve env tr sz =
     (case msg_class sz of
        None \<Rightarrow> False
      | Some (r, cap, name) \<Rightarrow> reserve_result env tr r (of_nat (120 + cap)) 0 \<noteq> None)"

definition delivers_message ::
  "('m, 'e) rust_bitcoin \<Rightarrow> trace \<Rightarrow> s32 \<times> trace \<Rightarrow> u64 \<Rightarrow> Metadata_pb \<Rightarrow> 'm Msg option \<Rightarrow> bool" where
  "delivers_message rb tr res sz md decoded \<longleftrightarrow>
     fst res = 0 \<and>
     (\<exists>r cap name data. msg_class sz = Some (r, cap, name) \<and>
        delivered r (snd res) = delivered r tr @ [data] \<and>
        (\<forall>t. rs_handle_net_message rb data (Some t) = message_result md decoded t))"

lemma net_msg_handler_delivers:
  assumes env: "probe_ok env mem" "reserve_ok env"
    and a: "user_cstr_at mem addr a" and c: "user_cstr_at mem conn_type c"
    and t: "user_cstr_at mem mtype t"
    and bs: "user_bytes_at mem pay bs" "length bs = unat sz"
    and room: "can_reserve env tr sz"
  shows "delivers_message rb tr
     (net_msg_handler inbound env tr id' addr conn_type mtype sz pay) sz
     (expected_metadata id' inbound sz a c (take (MAX_MSG_TYPE_LENGTH - 1) t))
     (expected_msg rb (take (MAX_MSG_TYPE_LENGTH - 1) t) sz bs)"
proof -
  obtain r cap name img where cl: "msg_class sz = Some (r, cap, name)"
    and img: "reserve_result env tr r (of_nat (120 + cap)) 0 = Some img"
    using room by (auto simp: can_reserve_def split: option.splits)
  note fits = msg_class_cases [OF cl]
  have len: "length img = 120 + cap"
    using reserve_okD [OF env(2) img] fits(3) by simp
  let ?m = "net_msg_fill env cap (r = net_msg_medium) inbound id' addr conn_type mtype sz pay img"
  note fields = net_msg_fill_fields [OF env(1) len fits(3,1) a c t refl,
      of "r = net_msg_medium" inbound id' pay]
  have pl: "take (unat (md_msg_size (msg_meta ?m))) (msg_payload ?m) = bs"
    using net_msg_fill_payload [OF env(1) len fits(3,1) bs(2,1)] fields(3) by simp
  have ok: "P2PMessage_fits cap ?m"
    using net_msg_fill_wf [OF env(1) len fits(3,1)] fits fields(3)
    by (simp add: P2PMessage_fits_def MAX_P2P_MESSAGE_SIZE_def)
  have md: "create_protobuf_metadata (Metadata_view (msg_meta ?m)) =
      expected_metadata id' inbound sz a c (take (MAX_MSG_TYPE_LENGTH - 1) t)"
    using fields by (simp add: create_protobuf_metadata_def Metadata_view_def expected_metadata_def
        peer_addr_str_def peer_conn_type_str_def msg_type_str_def chars_to_string_def)
  show ?thesis
    using cl img net_message_result [OF ok len fields(6) pl, of rb] md fields(3)
    by (simp add: delivers_message_def net_msg_handler_def bpf_ringbuf_reserve_def bpf_ringbuf_submit_def)
qed

end
