(* ===== verification/HandlerDelivery.thy ===== *)
theory HandlerDelivery
  imports MessageDelivery
begin

text \<open>
  The delivery of every tracepoint but the P2P messages: each handler outputs the object whose
  view is the event of the tracepoint's arguments, and the callback publishes it.
\<close>

lemma conn_inbound_delivers:
  assumes "probe_ok env mem" and "user_cstr_at mem addr a" and "user_cstr_at mem type c"
    and "has_room env tr net_conn_inbound"
  shows "delivers tr (handle_net_conn_inbound env tr id' addr type network existing)
     net_conn_inbound rs_handle_net_conn_inbound NetConn
     (ConnectionEv (ConnInbound \<lparr>pi_conn = expected_connection id' a c network, pi_existing_connections = existing\<rparr>))"
proof -
  have "handle_net_conn_inbound env tr id' addr type network existing =
      output_event env tr net_conn_inbound
        (InboundConnection_image \<lparr>inbound_conn = filled_conn env id' addr type network,
           inbound_existing_connections = existing\<rparr> (zeroed InboundConnection_layout))"
    by (simp add: handle_net_conn_inbound_def filled_conn_def Let_def)
  then show ?thesis
    by (simp add: delivers_outputI [OF assms(4)] filled_conn_view [OF assms(1,2,3), symmetric]
        inbound_publishes [OF filled_conn_wf [OF assms(1)]])
qed

lemma conn_outbound_delivers:
  assumes "probe_ok env mem" and "user_cstr_at mem addr a" and "user_cstr_at mem type c"
    and "has_room env tr net_conn_outbound"
  shows "delivers tr (handle_net_conn_outbound env tr id' addr type network existing)
     net_conn_outbound rs_handle_net_conn_outbound NetConn
     (ConnectionEv (ConnOutbound \<lparr>po_conn = expected_connection id' a c network, po_existing_connections = existing\<rparr>))"
proof -
  have "handle_net_conn_outbound env tr id' addr type network existing =
      output_event env tr net_conn_outbound
        (OutboundConnection_image \<lparr>outbound_conn = filled_conn env id' addr type network,
           outbound_existing_connections = existing\<rparr> (zeroed OutboundConnection_layout))"
    by (simp add: handle_net_conn_outbound_def filled_conn_def Let_def)
  then show ?thesis
    by (simp add: delivers_outputI [OF assms(4)] filled_conn_view [OF assms(1,2,3), symmetric]
        outbound_publishes [OF filled_conn_wf [OF assms(1)]])
qed

lemma conn_closed_delivers:
  assumes "probe_ok env mem" and "user_cstr_at mem addr a" and "user_cstr_at mem type c"
    and "has_room env tr net_conn_closed"
  shows "delivers tr (handle_net_conn_closed env tr id' addr type network established)
     net_conn_closed rs_handle_net_conn_closed NetConn
     (ConnectionEv (Closed \<lparr>pcl_conn = expected_connection id' a c network, pcl_time_established = established\<rparr>))"
proof -
  have "handle_net_conn_closed env tr id' addr type network established =
      output_event env tr net_conn_closed
        (ClosedConnection_image \<lparr>closed_conn = filled_conn env id' addr type network,
           closed_time_established = established\<rparr> (zeroed ClosedConnection_layout))"
    by (simp add: handle_net_conn_closed_def filled_conn_def Let_def)
  then show ?thesis
    by (simp add: delivers_outputI [OF assms(4)] filled_conn_view [OF assms(1,2,3), symmetric]
        closed_publishes(1) [OF filled_conn_wf [OF assms(1)] refl])
qed

lemma conn_evicted_delivers:
  assumes "probe_ok env mem" and "user_cstr_at mem addr a" and "user_cstr_at mem type c"
    and "has_room env tr net_conn_inbound_evicted"
  shows "delivers tr (handle_net_conn_inbound_evicted env tr id' addr type network established)
     net_conn_inbound_evicted rs_handle_net_conn_inbound_evicted NetConn
     (ConnectionEv (InboundEvicted \<lparr>pe_conn = expected_connection id' a c network, pe_time_established = established\<rparr>))"
proof -
  have "handle_net_conn_inbound_evicted env tr id' addr type network established =
      output_event env tr net_conn_inbound_evicted
        (ClosedConnection_image \<lparr>closed_conn = filled_conn env id' addr type network,
           closed_time_established = established\<rparr> (zeroed ClosedConnection_layout))"
    by (simp add: handle_net_conn_inbound_evicted_def filled_conn_def Let_def)
  then show ?thesis
    by (simp add: delivers_outputI [OF assms(4)] filled_conn_view [OF assms(1,2,3), symmetric]
        closed_publishes(2) [OF filled_conn_wf [OF assms(1)] refl])
qed

lemma conn_misbehaving_delivers:
  assumes "probe_ok env mem" and "user_cstr_at mem message s"
    and "has_room env tr net_conn_misbehaving"
  shows "delivers tr (handle_net_conn_misbehaving env tr id' message)
     net_conn_misbehaving rs_handle_net_conn_misbehaving NetConn
     (ConnectionEv (Misbehaving
        \<lparr>pm_id = id', pm_message = from_utf8_lossy (take (MAX_MISBEHAVING_MESSAGE_LENGTH - 1) s)\<rparr>))"
proof -
  let ?c = "\<lparr>misb_id = id', misb_message =
      bpf_probe_read_user_str env (replicate MAX_MISBEHAVING_MESSAGE_LENGTH 0) message\<rparr>"
  have wf: "MisbehavingConnection_wf ?c"
    by (simp add: MisbehavingConnection_wf_def length_probe_user_str [OF assms(1)] macro_defs)
  have view: "Misbehaving_view ?c =
      \<lparr>pm_id = id', pm_message = from_utf8_lossy (take (MAX_MISBEHAVING_MESSAGE_LENGTH - 1) s)\<rparr>"
    using user_cstr_no_nul [OF assms(2)]
    by (simp add: Misbehaving_view_def probe_user_str_into [OF assms(1) _ _ assms(2)] chars_str_into
        macro_defs)
  have "handle_net_conn_misbehaving env tr id' message = output_event env tr net_conn_misbehaving
      (MisbehavingConnection_image ?c (zeroed MisbehavingConnection_layout))"
    by (simp add: handle_net_conn_misbehaving_def Let_def)
  then show ?thesis
    by (simp add: delivers_outputI [OF assms(3)] view [unfolded One_nat_def, symmetric] misbehaving_publishes [OF wf])
qed

lemma mempool_added_delivers:
  assumes "probe_ok env mem" and "user_bytes_at mem txid h" and "length h = 32"
    and "has_room env tr mempool_added"
  shows "delivers tr (handle_mempool_added env tr txid vsize fee)
     mempool_added rs_handle_mempool_added Mempool
     (MempoolEv (Added \<lparr>pa_txid = h, pa_vsize = vsize, pa_fee = fee\<rparr>))"
proof -
  let ?c = "\<lparr>added_txid = h, added_vsize = vsize, added_fee = fee\<rparr>"
  have wf: "MempoolAdded_wf ?c" using assms(3) by (simp add: MempoolAdded_wf_def macro_defs)
  have "handle_mempool_added env tr txid vsize fee = output_event env tr mempool_added
      (MempoolAdded_image ?c (zeroed MempoolAdded_layout))"
    using probe_exact [OF assms(1) _ assms(3,2)]
    by (simp add: handle_mempool_added_def Let_def macro_defs)
  then show ?thesis
    by (simp add: delivers_outputI [OF assms(4)] added_publishes [OF wf, unfolded Added_view_def, simplified])
qed

lemma mempool_removed_delivers:
  assumes "probe_ok env mem" and "user_bytes_at mem txid h" and "length h = 32"
    and "user_cstr_at mem reason s" and "has_room env tr mempool_removed"
  shows "delivers tr (handle_mempool_removed env tr txid reason vsize fee entry_time)
     mempool_removed rs_handle_mempool_removed Mempool
     (MempoolEv (Removed \<lparr>pr_txid = h, pr_reason = from_utf8_lossy (take (REMOVAL_REASON_LENGTH - 1) s),
        pr_vsize = vsize, pr_fee = fee, pr_entry_time = entry_time\<rparr>))"
proof -
  let ?r = "str_into (replicate REMOVAL_REASON_LENGTH 0) s"
  let ?c = "\<lparr>removed_txid = h, removed_reason = ?r, removed_vsize = vsize, removed_fee = fee,
      removed_entry_time = entry_time\<rparr>"
  have wf: "MempoolRemoved_wf ?c" using assms(3) by (simp add: MempoolRemoved_wf_def macro_defs)
  have view: "Removed_view ?c = \<lparr>pr_txid = h,
      pr_reason = from_utf8_lossy (take (REMOVAL_REASON_LENGTH - 1) s),
      pr_vsize = vsize, pr_fee = fee, pr_entry_time = entry_time\<rparr>"
    using user_cstr_no_nul [OF assms(4)] by (simp add: Removed_view_def chars_str_into macro_defs)
  have "handle_mempool_removed env tr txid reason vsize fee entry_time =
      output_event env tr mempool_removed (MempoolRemoved_image ?c (zeroed MempoolRemoved_layout))"
    using probe_exact [OF assms(1) _ assms(3,2)]
    by (simp add: handle_mempool_removed_def Let_def probe_user_str_into [OF assms(1) _ _ assms(4)] macro_defs)
  then show ?thesis
    by (simp add: delivers_outputI [OF assms(5)] view [unfolded One_nat_def, symmetric] removed_publishes [OF wf])
qed

lemma mempool_replaced_delivers:
  assumes "probe_ok env mem" and "user_bytes_at mem replaced_txid h" and "length h = 32"
    and "user_bytes_at mem replacement_id g" and "length g = 32"
    and "has_room env tr mempool_replaced"
  shows "delivers tr (handle_mempool_replaced env tr replaced_txid vsize fee entry_time
        replacement_id rvsize rfee by_transaction)
     mempool_replaced rs_handle_mempool_replaced Mempool
     (MempoolEv (Replaced \<lparr>pp_replaced_txid = h, pp_replaced_vsize = vsize, pp_replaced_fee = fee,
        pp_replaced_entry_time = entry_time, pp_replacement_id = g, pp_replacement_vsize = rvsize,
        pp_replacement_fee = rfee, pp_replaced_by_transaction = by_transaction\<rparr>))"
proof -
  let ?c = "\<lparr>repl_replaced_txid = h, repl_replaced_vsize = vsize, repl_replaced_fee = fee,
      repl_replaced_entry_time = entry_time, repl_replacement_id = g, repl_replacement_vsize = rvsize,
      repl_replacement_fee = rfee, repl_replaced_by_transaction = by_transaction\<rparr>"
  have wf: "MempoolReplaced_wf ?c" using assms(3,5) by (simp add: MempoolReplaced_wf_def macro_defs)
  have "handle_mempool_replaced env tr replaced_txid vsize fee entry_time replacement_id rvsize rfee
        by_transaction =
      output_event env tr mempool_replaced (MempoolReplaced_image ?c (zeroed MempoolReplaced_layout))"
    using probe_exact [OF assms(1) _ assms(3,2)] probe_exact [OF assms(1) _ assms(5,4)]
    by (simp add: handle_mempool_replaced_def Let_def macro_defs)
  then show ?thesis
    by (simp add: delivers_outputI [OF assms(6)] replaced_publishes [OF wf, unfolded Replaced_view_def, simplified])
qed

lemma block_connected_delivers:
  assumes "probe_ok env mem" and "user_bytes_at mem hash h" and "length h = 32"
    and "has_room env tr validation_block_connected"
  shows "delivers tr (handle_validation_block_connected env tr hash height transactions inputs sigops time)
     validation_block_connected rs_handle_validation_block_connected Validation
     (ValidationEv \<lparr>pb_hash = h, pb_height = height, pb_transactions = transactions,
        pb_inputs = inputs, pb_sigops = sigops, pb_connection_time = time\<rparr>)"
proof -
  let ?c = "\<lparr>bc_hash = h, bc_height = height, bc_transactions = transactions, bc_inputs = inputs,
      bc_sigops = sigops, bc_connection_time = time\<rparr>"
  have wf: "BlockConnected_wf ?c" using assms(3) by (simp add: BlockConnected_wf_def macro_defs)
  have "handle_validation_block_connected env tr hash height transactions inputs sigops time =
      output_event env tr validation_block_connected
        (BlockConnected_image ?c (zeroed BlockConnected_layout))"
    using probe_exact [OF assms(1) _ assms(3,2)]
    by (simp add: handle_validation_block_connected_def Let_def macro_defs)
  then show ?thesis
    by (simp add: delivers_outputI [OF assms(4)]
        block_connected_publishes [OF wf, unfolded BlockConnected_view_def, simplified])
qed

lemma handle_mempool_rejected_output:
  assumes "probe_ok env mem" and "has_room env tr mempool_rejected"
  shows "handle_mempool_rejected env tr txid reason =
     (0, tr @ [Output mempool_rejected (MempoolRejected_image
        \<lparr>rej_txid = bpf_probe_read_user env (replicate TXID_LENGHT 0) (of_nat TXID_LENGHT) txid,
         rej_reason = bpf_probe_read_user_str env (replicate REJECTION_REASON_LENGTH 0) reason\<rparr>
        (zeroed MempoolRejected_layout)) 0 0])"
  by (simp add: handle_mempool_rejected_def Let_def output_event_room [OF assms(2)])

lemma rejected_wf:
  assumes "probe_ok env mem"
  shows "MempoolRejected_wf
     \<lparr>rej_txid = bpf_probe_read_user env (replicate TXID_LENGHT 0) (of_nat TXID_LENGHT) txid,
      rej_reason = bpf_probe_read_user_str env (replicate REJECTION_REASON_LENGTH 0) reason\<rparr>"
  by (simp add: MempoolRejected_wf_def length_probe_user [OF assms] length_probe_user_str [OF assms]
      macro_defs)

lemma length_zeroed_rejected: "length (zeroed MempoolRejected_layout) = 145"
  by (simp add: length_zeroed layout_simps del: sizeof.simps)

lemma mempool_rejected_overreads:
  assumes "probe_ok env mem" and "has_room env tr mempool_rejected"
  shows "\<exists>data. delivered mempool_rejected (snd (handle_mempool_rejected env tr txid reason)) =
       delivered mempool_rejected tr @ [data] \<and> length data = 145 \<and>
     (\<forall>now. (rs_handle_mempool_rejected data now :: 'm callback_result) = Inl OutOfBoundsRead)"
  using MempoolRejected_image_fields(1) [OF rejected_wf [OF assms(1)] length_zeroed_rejected]
  by (simp add: handle_mempool_rejected_output [OF assms] rs_handle_mempool_rejected_def
      MempoolRejected_from_bytes_def read_unaligned_def MempoolRejected_rs_layout_size del: sizeof.simps)

lemma mempool_rejected_delivers:
  assumes "probe_ok env mem" and "user_bytes_at mem txid h" and "length h = 32"
    and "user_cstr_at mem reason s" and "has_room env tr mempool_rejected" and "5 \<le> length rest"
  shows "\<exists>data. handle_mempool_rejected env tr txid reason =
       (0, tr @ [Output mempool_rejected data 0 0]) \<and>
     publishes (rs_handle_mempool_rejected (data @ rest) (Some t)) t Mempool
       (MempoolEv (Rejected
          \<lparr>pj_txid = h, pj_reason = from_utf8_lossy (take (REJECTION_REASON_LENGTH - 1) s)\<rparr>))"
proof -
  let ?c = "\<lparr>rej_txid = h, rej_reason = str_into (replicate REJECTION_REASON_LENGTH 0) s\<rparr>"
  have reads: "bpf_probe_read_user env (replicate TXID_LENGHT 0) (of_nat TXID_LENGHT) txid = h"
    "bpf_probe_read_user_str env (replicate REJECTION_REASON_LENGTH 0) reason =
       str_into (replicate REJECTION_REASON_LENGTH 0) s"
    using probe_exact [OF assms(1) _ assms(3,2)]
    by (simp_all add: probe_user_str_into [OF assms(1) _ _ assms(4)] macro_defs)
  have ok: "MempoolRejected_terminated ?c"
    using assms(3) by (simp add: MempoolRejected_terminated_def MempoolRejected_wf_def nul_in_str_into macro_defs)
  have view: "Rejected_view ?c =
      \<lparr>pj_txid = h, pj_reason = from_utf8_lossy (take (REJECTION_REASON_LENGTH - 1) s)\<rparr>"
    using user_cstr_no_nul [OF assms(4)] by (simp add: Rejected_view_def chars_str_into macro_defs)
  show ?thesis
    using rejected_publishes [OF ok assms(6), of t]
    by (simp add: handle_mempool_rejected_output [OF assms(1,5)] reads view)
qed

end
