(* ===== verification/ReferenceHelpers.thy ===== *)
theory ReferenceHelpers
  imports BpfHelpers
begin

text \<open>
  An implementation of the documented helpers over any user memory: the contract \<open>probe_ok\<close> is
  satisfiable for every memory, and the concrete instances of the theorems use it. A failed read
  zeroes its destination, as the kernel does. The ring buffers of \<open>ref_env\<close> always have room;
  a reservation hands out memory full of the given stale byte.
\<close>

fun read_mem :: "user_mem \<Rightarrow> u64 \<Rightarrow> nat \<Rightarrow> byte list option" where
  "read_mem mem p 0 = Some []"
| "read_mem mem p (Suc n) =
     (case mem p of None \<Rightarrow> None | Some b \<Rightarrow> map_option (Cons b) (read_mem mem (p + 1) n))"

fun read_str :: "user_mem \<Rightarrow> u64 \<Rightarrow> nat \<Rightarrow> byte list option" where
  "read_str mem p 0 = Some []"
| "read_str mem p (Suc n) =
     (case mem p of
        None \<Rightarrow> None
      | Some b \<Rightarrow> (if b = 0 then Some [] else map_option (Cons b) (read_str mem (p + 1) n)))"

definition ref_probe_user :: "user_mem \<Rightarrow> byte list \<Rightarrow> u32 \<Rightarrow> u64 \<Rightarrow> byte list" where
  "ref_probe_user mem dst sz src =
     (case read_mem mem src (unat sz) of
        Some bs \<Rightarrow> bs @ drop (unat sz) dst
      | None \<Rightarrow> replicate (unat sz) 0 @ drop (unat sz) dst)"

definition ref_probe_user_str :: "user_mem \<Rightarrow> byte list \<Rightarrow> u32 \<Rightarrow> u64 \<Rightarrow> byte list" where
  "ref_probe_user_str mem dst sz src =
     (case read_str mem src (unat sz - 1) of
        Some s \<Rightarrow> take (unat sz) (s @ 0 # drop (length s + 1) dst)
      | None \<Rightarrow> replicate (unat sz) 0)"

definition ref_env :: "user_mem \<Rightarrow> byte \<Rightarrow> bpf_env" where
  "ref_env mem stale =
     \<lparr>probe_user = ref_probe_user mem,
      probe_user_str = ref_probe_user_str mem,
      reserve_result = (\<lambda>tr r sz flags. Some (replicate (unat sz) stale)),
      output_result = (\<lambda>tr r data flags. 0)\<rparr>"

lemma length_read_mem: "read_mem mem p n = Some bs \<Longrightarrow> length bs = n"
  by (induction mem p n arbitrary: bs rule: read_mem.induct) (auto split: option.splits)

lemma read_mem_bytes: "user_bytes_at mem p bs \<Longrightarrow> read_mem mem p (length bs) = Some bs"
  by (induction mem p bs rule: user_bytes_at.induct) auto

lemma length_read_str: "read_str mem p n = Some s \<Longrightarrow> length s \<le> n"
  by (induction mem p n arbitrary: s rule: read_str.induct) (auto split: option.splits if_splits)

lemma read_str_cstr:
  "0 \<notin> set s \<Longrightarrow> user_bytes_at mem p (s @ [0]) \<Longrightarrow> read_str mem p n = Some (take n s)"
proof (induction s arbitrary: p n)
  case Nil
  then show ?case by (cases n) auto
next
  case (Cons b s)
  then show ?case by (cases n) auto
qed

lemma ref_probe_ok: "probe_ok (ref_env mem stale) mem"
  unfolding probe_ok_def
proof (intro conjI allI impI)
  fix dst :: "byte list" and sz :: u32 and src :: u64
  assume "unat sz \<le> length dst"
  then show "length (probe_user (ref_env mem stale) dst sz src) = length dst"
    by (auto simp: ref_env_def ref_probe_user_def dest: length_read_mem split: option.split)
next
  fix dst bs :: "byte list" and sz :: u32 and src :: u64
  assume "length bs = unat sz" and "user_bytes_at mem src bs"
  then show "probe_user (ref_env mem stale) dst sz src = bs @ drop (length bs) dst"
    using read_mem_bytes [of mem src bs] by (simp add: ref_env_def ref_probe_user_def)
next
  fix dst :: "byte list" and sz :: u32 and src :: u64
  assume "unat sz = length dst"
  then show "length (probe_user_str (ref_env mem stale) dst sz src) = length dst"
    by (auto simp: ref_env_def ref_probe_user_str_def min_def dest: length_read_str split: option.split)
next
  fix dst s :: "byte list" and sz :: u32 and src :: u64
  assume "unat sz = length dst" and "0 < length dst" and "user_cstr_at mem src s"
  then show "probe_user_str (ref_env mem stale) dst sz src = str_into dst s"
    by (cases dst)
      (auto simp: ref_env_def ref_probe_user_str_def user_cstr_at_def read_str_cstr str_into_def Let_def min_def)
qed

lemma ref_reserve_ok: "reserve_ok (ref_env mem stale)"
  by (simp add: reserve_ok_def ref_env_def)

text \<open>A small process image: byte strings placed at addresses.\<close>

fun place :: "(u64 \<times> byte list) list \<Rightarrow> user_mem" where
  "place [] q = None"
| "place ((p, bs) # rest) q =
     (if unat (q - p) < length bs then Some (bs ! unat (q - p)) else place rest q)"

text \<open>A string is found at its own address, and regions placed at lower addresses do not hide it.\<close>

lemma user_bytes_at_offsets:
  "(\<And>i. i < length bs \<Longrightarrow> mem (p + of_nat i) = Some (bs ! i)) \<Longrightarrow> user_bytes_at mem p bs"
proof (induction bs arbitrary: p)
  case Nil
  then show ?case by simp
next
  case (Cons b bs)
  have "mem (p + 1 + of_nat i) = Some (bs ! i)" if "i < length bs" for i
    using Cons.prems [of "Suc i"] that by (simp add: add.assoc)
  then show ?case using Cons.IH [of "p + 1"] Cons.prems [of 0] by simp
qed

lemma user_bytes_at_offsetsD:
  "user_bytes_at mem p bs \<Longrightarrow> i < length bs \<Longrightarrow> mem (p + of_nat i) = Some (bs ! i)"
proof (induction bs arbitrary: p i)
  case Nil
  then show ?case by simp
next
  case (Cons b bs)
  then show ?case by (cases i) (auto simp: add.assoc [symmetric])
qed

lemma place_here:
  "length bs < 2 ^ 64 \<Longrightarrow> user_bytes_at (place ((p, bs) # rest)) p bs"
  by (rule user_bytes_at_offsets) (simp add: unat_of_nat take_bit_nat_eq_self)

lemma place_above:
  assumes at: "user_bytes_at (place rest) q bs'"
    and apart: "unat p + length bs \<le> unat q" and fits: "unat q + length bs' < 2 ^ 64"
  shows "user_bytes_at (place ((p, bs) # rest)) q bs'"
proof (rule user_bytes_at_offsets)
  fix i
  assume i: "i < length bs'"
  have "unat (q + of_nat i) = unat q + i"
    using i fits by (simp add: unat_word_ariths unat_of_nat take_bit_nat_eq_self)
  moreover have "unat (q + of_nat i - p) = unat (q + of_nat i) - unat p"
    using calculation apart by (simp add: unat_sub word_le_nat_alt)
  ultimately have "length bs \<le> unat (q + of_nat i - p)" using apart by simp
  then show "place ((p, bs) # rest) (q + of_nat i) = Some (bs' ! i)"
    using user_bytes_at_offsetsD [OF at i] by simp
qed

definition demo_mem :: user_mem where
  "demo_mem = place
     [(0x1000, ascii ''127.0.0.1:8333'' @ [0]), (0x2000, ascii ''inbound'' @ [0]),
      (0x3000, ascii ''ping'' @ [0]), (0x4000, [1, 2, 3, 4, 5, 6, 7, 8]),
      (0x5000, replicate 32 7), (0x6000, ascii ''expiry'' @ [0])]"

lemma demo_strings:
  "user_cstr_at demo_mem 0x1000 (ascii ''127.0.0.1:8333'')"
  "user_cstr_at demo_mem 0x2000 (ascii ''inbound'')"
  "user_cstr_at demo_mem 0x3000 (ascii ''ping'')"
  "user_cstr_at demo_mem 0x6000 (ascii ''expiry'')"
  unfolding user_cstr_at_def demo_mem_def
  by (simp add: ascii_def, (intro place_here place_above; simp add: ascii_def)?)+

lemma demo_bytes:
  "user_bytes_at demo_mem 0x4000 [1, 2, 3, 4, 5, 6, 7, 8]"
  "user_bytes_at demo_mem 0x5000 (replicate 32 7)"
  unfolding demo_mem_def by (intro place_here place_above; simp add: ascii_def)+

end
