(* ===== verification/EndToEnd.thy ===== *)
theory EndToEnd
  imports HandlerDelivery ReferenceHelpers
begin

text \<open>
  The properties of the tracepoints, end to end: a tracepoint of bitcoind fires, the BPF handler
  runs, the ring buffer holds a record, and the Rust callback publishes the event. The memory of
  bitcoind is arbitrary; the helpers keep their documented contract (\<open>probe_ok\<close>, \<open>reserve_ok\<close>)
  and the ring buffer accepts the record (\<open>has_room\<close>, \<open>can_reserve\<close>) where the property does not say what
  happens otherwise. Every property has a
  concrete instance on the reference helpers.
\<close>

section \<open>P2P messages\<close>

definition demo_rb :: "(nat, unit) rust_bitcoin" where
  "demo_rb =
     \<lparr>rb_decode = (\<lambda>raw. if take 8 raw = replicate 4 0 @ ascii ''ping'' then Inr (length raw) else Inl ()),
      sha256d = (\<lambda>bs. replicate 32 0xAB)\<rparr>"

lemma demo_can_reserve: "can_reserve (ref_env mem stale) tr 8"
  by (simp add: can_reserve_def msg_class_def ref_env_def macro_defs)

lemma ref_has_room: "has_room (ref_env mem stale) tr r"
  by (simp add: has_room_def ref_env_def)

text \<open>C4: An inbound P2P message reaches its subscribers or is dropped whole. Let the inbound_message
tracepoint fire with arguments that can be read: strings at the three addresses and a payload of as many
bytes as it says. When the message has at most 4,194,304 bytes and the ring buffer of its size class has
room, the handler puts one record into that smallest ring buffer that fits, whatever bytes its memory held
before, and the callback publishes one event with the peer's id, the direction, the size, the address,
connection type and command cut to the 67, 19 and 11 bytes their arrays have room for, and the message that
rust-bitcoin decodes from exactly the payload bytes in bitcoind's memory under the command as it was cut (a
command of twelve bytes, such as getcfheaders, loses its last); when it cannot be decoded (and is not an
empty addrv2 or ping), the callback returns the parse error and publishes nothing. In all other cases
the handler returns -1 and no ring buffer gets a record.\<close>

theorem net_msg_inbound_event:
  assumes "probe_ok env mem" and "reserve_ok env"
    and "user_cstr_at mem addr a" and "user_cstr_at mem conn_type c" and "user_cstr_at mem mtype t"
    and "user_bytes_at mem pay bs" and "length bs = unat sz"
  shows "if can_reserve env tr sz
    then delivers_message rb tr (handle_net_msg_inbound env tr id' addr conn_type mtype sz pay) sz
      (expected_metadata id' True sz a c (take (MAX_MSG_TYPE_LENGTH - 1) t))
      (expected_msg rb (take (MAX_MSG_TYPE_LENGTH - 1) t) sz bs)
    else fst (handle_net_msg_inbound env tr id' addr conn_type mtype sz pay) = - 1 \<and>
      (\<forall>r. delivered r (snd (handle_net_msg_inbound env tr id' addr conn_type mtype sz pay)) = delivered r tr)"
proof (cases "can_reserve env tr sz")
  case True
  then show ?thesis
    unfolding inbound_eq_handler using net_msg_handler_delivers [OF assms True] by simp
next
  case False
  then show ?thesis
    by (auto simp: inbound_eq_handler net_msg_handler_def give_up_def bpf_printk_def
        bpf_ringbuf_reserve_def can_reserve_def Let_def split: option.splits)
qed

theorem net_msg_inbound_event_witness:
  "delivers_message demo_rb []
     (handle_net_msg_inbound (ref_env demo_mem 0xEE) [] 7 0x1000 0x2000 0x3000 8 0x4000) 8
     (expected_metadata 7 True 8 (ascii ''127.0.0.1:8333'') (ascii ''inbound'') (ascii ''ping''))
     (Some (Decoded 32))"
proof -
  have "expected_msg demo_rb (ascii ''ping'') 8 [1, 2, 3, 4, 5, 6, 7, 8] = Some (Decoded 32)"
    by (simp add: expected_msg_def expected_raw_def demo_rb_def ascii_def)
  then show ?thesis
    using net_msg_inbound_event [OF ref_probe_ok [of demo_mem "0xEE"] ref_reserve_ok
        demo_strings(1,2,3) demo_bytes(1), where rb = demo_rb and id' = 7 and tr = "[]" and sz = 8]
    by (simp add: macro_defs demo_can_reserve)
qed

text \<open>An outbound P2P message of at most 4,194,304 bytes reaches its subscribers. When the
  outbound_message tracepoint fires, the handler puts one record into the smallest ring buffer that
  fits, whatever bytes that memory held before, and the callback publishes one event with the
  peer's id, address, connection type, command, direction and size, and with the message that
  rust-bitcoin decodes from exactly the payload bytes in bitcoind's memory; when it cannot be
  decoded (and is not an empty addrv2 or ping), the callback returns the parse error and publishes
  nothing.\<close>

theorem net_msg_outbound_event:
  assumes "probe_ok env mem" and "reserve_ok env"
    and "user_cstr_at mem addr a" and "user_cstr_at mem conn_type c" and "user_cstr_at mem mtype t"
    and "user_bytes_at mem pay bs" and "length bs = unat sz"
    and "can_reserve env tr sz"
  shows "delivers_message rb tr (handle_net_msg_outbound env tr id' addr conn_type mtype sz pay) sz
     (expected_metadata id' False sz a c (take (MAX_MSG_TYPE_LENGTH - 1) t))
     (expected_msg rb (take (MAX_MSG_TYPE_LENGTH - 1) t) sz bs)"
  unfolding outbound_eq_handler by (rule net_msg_handler_delivers [OF assms])

theorem net_msg_outbound_event_witness:
  "delivers_message demo_rb []
     (handle_net_msg_outbound (ref_env demo_mem 0xEE) [] 7 0x1000 0x2000 0x3000 8 0x4000) 8
     (expected_metadata 7 False 8 (ascii ''127.0.0.1:8333'') (ascii ''inbound'') (ascii ''ping''))
     (Some (Decoded 32))"
proof -
  have "expected_msg demo_rb (ascii ''ping'') 8 [1, 2, 3, 4, 5, 6, 7, 8] = Some (Decoded 32)"
    by (simp add: expected_msg_def expected_raw_def demo_rb_def ascii_def)
  then show ?thesis
    using net_msg_outbound_event [OF ref_probe_ok [of demo_mem "0xEE"] ref_reserve_ok
        demo_strings(1,2,3) demo_bytes(1) _ demo_can_reserve, where rb = demo_rb and id' = 7 and tr = "[]"]
    by (simp add: macro_defs)
qed

section \<open>Connections\<close>

text \<open>A new inbound connection is published faithfully: the tracepoint's arguments and the strings in
  bitcoind's memory become one event on the netconn subject with the peer id, the address and
  connection type (cut to the C arrays and decoded as UTF-8), the network and the number of existing connections.\<close>

theorem conn_inbound_event:
  assumes "probe_ok env mem" and "user_cstr_at mem addr a" and "user_cstr_at mem type c"
    and "has_room env tr net_conn_inbound"
  shows "delivers tr (handle_net_conn_inbound env tr id' addr type network existing)
     net_conn_inbound rs_handle_net_conn_inbound NetConn
     (ConnectionEv (ConnInbound \<lparr>pi_conn = expected_connection id' a c network, pi_existing_connections = existing\<rparr>))"
  using assms by (rule conn_inbound_delivers)

theorem conn_inbound_event_witness:
  "delivers [] (handle_net_conn_inbound (ref_env demo_mem 0) [] 7 0x1000 0x2000 1 99)
     net_conn_inbound rs_handle_net_conn_inbound NetConn
     (ConnectionEv (ConnInbound \<lparr>pi_conn = expected_connection 7 (ascii ''127.0.0.1:8333'') (ascii ''inbound'') 1, pi_existing_connections = 99\<rparr>) :: unit EbpfEvent)"
  by (rule conn_inbound_event [OF ref_probe_ok demo_strings(1,2) ref_has_room])

text \<open>A new outbound connection is published faithfully: the tracepoint's arguments and the strings in
  bitcoind's memory become one event on the netconn subject with the peer id, the address and
  connection type (cut to the C arrays and decoded as UTF-8), the network and the number of existing connections.\<close>

theorem conn_outbound_event:
  assumes "probe_ok env mem" and "user_cstr_at mem addr a" and "user_cstr_at mem type c"
    and "has_room env tr net_conn_outbound"
  shows "delivers tr (handle_net_conn_outbound env tr id' addr type network existing)
     net_conn_outbound rs_handle_net_conn_outbound NetConn
     (ConnectionEv (ConnOutbound \<lparr>po_conn = expected_connection id' a c network, po_existing_connections = existing\<rparr>))"
  using assms by (rule conn_outbound_delivers)

theorem conn_outbound_event_witness:
  "delivers [] (handle_net_conn_outbound (ref_env demo_mem 0) [] 7 0x1000 0x2000 1 99)
     net_conn_outbound rs_handle_net_conn_outbound NetConn
     (ConnectionEv (ConnOutbound \<lparr>po_conn = expected_connection 7 (ascii ''127.0.0.1:8333'') (ascii ''inbound'') 1, po_existing_connections = 99\<rparr>) :: unit EbpfEvent)"
  by (rule conn_outbound_event [OF ref_probe_ok demo_strings(1,2) ref_has_room])

text \<open>A closed connection is published faithfully: the tracepoint's arguments and the strings in
  bitcoind's memory become one event on the netconn subject with the peer id, the address and
  connection type (cut to the C arrays and decoded as UTF-8), the network and the time it was established.\<close>

theorem conn_closed_event:
  assumes "probe_ok env mem" and "user_cstr_at mem addr a" and "user_cstr_at mem type c"
    and "has_room env tr net_conn_closed"
  shows "delivers tr (handle_net_conn_closed env tr id' addr type network established)
     net_conn_closed rs_handle_net_conn_closed NetConn
     (ConnectionEv (Closed \<lparr>pcl_conn = expected_connection id' a c network, pcl_time_established = established\<rparr>))"
  using assms by (rule conn_closed_delivers)

theorem conn_closed_event_witness:
  "delivers [] (handle_net_conn_closed (ref_env demo_mem 0) [] 7 0x1000 0x2000 1 99)
     net_conn_closed rs_handle_net_conn_closed NetConn
     (ConnectionEv (Closed \<lparr>pcl_conn = expected_connection 7 (ascii ''127.0.0.1:8333'') (ascii ''inbound'') 1, pcl_time_established = 99\<rparr>) :: unit EbpfEvent)"
  by (rule conn_closed_event [OF ref_probe_ok demo_strings(1,2) ref_has_room])

text \<open>An evicted inbound connection is published faithfully: the tracepoint's arguments and the strings in
  bitcoind's memory become one event on the netconn subject with the peer id, the address and
  connection type (cut to the C arrays and decoded as UTF-8), the network and the time it was established.\<close>

theorem conn_evicted_event:
  assumes "probe_ok env mem" and "user_cstr_at mem addr a" and "user_cstr_at mem type c"
    and "has_room env tr net_conn_inbound_evicted"
  shows "delivers tr (handle_net_conn_inbound_evicted env tr id' addr type network established)
     net_conn_inbound_evicted rs_handle_net_conn_inbound_evicted NetConn
     (ConnectionEv (InboundEvicted \<lparr>pe_conn = expected_connection id' a c network, pe_time_established = established\<rparr>))"
  using assms by (rule conn_evicted_delivers)

theorem conn_evicted_event_witness:
  "delivers [] (handle_net_conn_inbound_evicted (ref_env demo_mem 0) [] 7 0x1000 0x2000 1 99)
     net_conn_inbound_evicted rs_handle_net_conn_inbound_evicted NetConn
     (ConnectionEv (InboundEvicted \<lparr>pe_conn = expected_connection 7 (ascii ''127.0.0.1:8333'') (ascii ''inbound'') 1, pe_time_established = 99\<rparr>) :: unit EbpfEvent)"
  by (rule conn_evicted_event [OF ref_probe_ok demo_strings(1,2) ref_has_room])

text \<open>A misbehaving peer is published faithfully: peer id and the message, cut to 127 bytes, as
  one event on the netconn subject.\<close>

theorem conn_misbehaving_event:
  assumes "probe_ok env mem" and "user_cstr_at mem message s"
    and "has_room env tr net_conn_misbehaving"
  shows "delivers tr (handle_net_conn_misbehaving env tr id' message)
     net_conn_misbehaving rs_handle_net_conn_misbehaving NetConn
     (ConnectionEv (Misbehaving
        \<lparr>pm_id = id', pm_message = from_utf8_lossy (take (MAX_MISBEHAVING_MESSAGE_LENGTH - 1) s)\<rparr>))"
  using assms by (rule conn_misbehaving_delivers)

theorem conn_misbehaving_event_witness:
  "delivers [] (handle_net_conn_misbehaving (ref_env demo_mem 0) [] 7 0x3000)
     net_conn_misbehaving rs_handle_net_conn_misbehaving NetConn
     (ConnectionEv (Misbehaving \<lparr>pm_id = 7, pm_message = ascii ''ping''\<rparr>) :: unit EbpfEvent)"
  using conn_misbehaving_event [OF ref_probe_ok demo_strings(3) ref_has_room]
  by (simp add: macro_defs from_utf8_lossy_ascii ascii_def)

section \<open>Mempool and validation\<close>

text \<open>A transaction added to the mempool is published faithfully: the 32 txid bytes of
  bitcoind's memory, the virtual size and the fee, as one event on the mempool subject.\<close>

theorem mempool_added_event:
  assumes "probe_ok env mem" and "user_bytes_at mem txid h" and "length h = 32"
    and "has_room env tr mempool_added"
  shows "delivers tr (handle_mempool_added env tr txid vsize fee)
     mempool_added rs_handle_mempool_added Mempool
     (MempoolEv (Added \<lparr>pa_txid = h, pa_vsize = vsize, pa_fee = fee\<rparr>))"
  using assms by (rule mempool_added_delivers)

theorem mempool_added_event_witness:
  "delivers [] (handle_mempool_added (ref_env demo_mem 0) [] 0x5000 141 1000)
     mempool_added rs_handle_mempool_added Mempool
     (MempoolEv (Added \<lparr>pa_txid = replicate 32 7, pa_vsize = 141, pa_fee = 1000\<rparr>) :: unit EbpfEvent)"
  by (rule mempool_added_event [OF ref_probe_ok demo_bytes(2) _ ref_has_room]) simp

text \<open>A transaction removed from the mempool is published faithfully: txid, the reason cut to
  eight bytes, virtual size, fee and entry time.\<close>

theorem mempool_removed_event:
  assumes "probe_ok env mem" and "user_bytes_at mem txid h" and "length h = 32"
    and "user_cstr_at mem reason s" and "has_room env tr mempool_removed"
  shows "delivers tr (handle_mempool_removed env tr txid reason vsize fee entry_time)
     mempool_removed rs_handle_mempool_removed Mempool
     (MempoolEv (Removed \<lparr>pr_txid = h, pr_reason = from_utf8_lossy (take (REMOVAL_REASON_LENGTH - 1) s),
        pr_vsize = vsize, pr_fee = fee, pr_entry_time = entry_time\<rparr>))"
  using assms by (rule mempool_removed_delivers)

theorem mempool_removed_event_witness:
  "delivers [] (handle_mempool_removed (ref_env demo_mem 0) [] 0x5000 0x6000 141 1000 1700000000)
     mempool_removed rs_handle_mempool_removed Mempool
     (MempoolEv (Removed \<lparr>pr_txid = replicate 32 7, pr_reason = ascii ''expiry'', pr_vsize = 141,
        pr_fee = 1000, pr_entry_time = 1700000000\<rparr>) :: unit EbpfEvent)"
  using mempool_removed_event [OF ref_probe_ok demo_bytes(2) _ demo_strings(4) ref_has_room]
  by (simp add: macro_defs from_utf8_lossy_ascii ascii_def)

text \<open>A replacement in the mempool is published faithfully: both ids with their sizes and fees,
  the entry time of the replaced transaction, and whether the replacement is a transaction.\<close>

theorem mempool_replaced_event:
  assumes "probe_ok env mem" and "user_bytes_at mem replaced_txid h" and "length h = 32"
    and "user_bytes_at mem replacement_id g" and "length g = 32"
    and "has_room env tr mempool_replaced"
  shows "delivers tr (handle_mempool_replaced env tr replaced_txid vsize fee entry_time
        replacement_id rvsize rfee by_transaction)
     mempool_replaced rs_handle_mempool_replaced Mempool
     (MempoolEv (Replaced \<lparr>pp_replaced_txid = h, pp_replaced_vsize = vsize, pp_replaced_fee = fee,
        pp_replaced_entry_time = entry_time, pp_replacement_id = g, pp_replacement_vsize = rvsize,
        pp_replacement_fee = rfee, pp_replaced_by_transaction = by_transaction\<rparr>))"
  using assms by (rule mempool_replaced_delivers)

theorem mempool_replaced_event_witness:
  "delivers [] (handle_mempool_replaced (ref_env demo_mem 0) [] 0x5000 141 1000 1700000000
        0x5000 200 3000 True)
     mempool_replaced rs_handle_mempool_replaced Mempool
     (MempoolEv (Replaced \<lparr>pp_replaced_txid = replicate 32 7, pp_replaced_vsize = 141,
        pp_replaced_fee = 1000, pp_replaced_entry_time = 1700000000,
        pp_replacement_id = replicate 32 7, pp_replacement_vsize = 200, pp_replacement_fee = 3000,
        pp_replaced_by_transaction = True\<rparr>) :: unit EbpfEvent)"
  by (rule mempool_replaced_event [OF ref_probe_ok demo_bytes(2) _ demo_bytes(2) _ ref_has_room]) simp_all

text \<open>A connected block is published faithfully: the block hash, height, transaction and input
  counts, sigops and connection time reach the validation subject unchanged.\<close>

theorem block_connected_event:
  assumes "probe_ok env mem" and "user_bytes_at mem hash h" and "length h = 32"
    and "has_room env tr validation_block_connected"
  shows "delivers tr (handle_validation_block_connected env tr hash height transactions inputs sigops time)
     validation_block_connected rs_handle_validation_block_connected Validation
     (ValidationEv \<lparr>pb_hash = h, pb_height = height, pb_transactions = transactions,
        pb_inputs = inputs, pb_sigops = sigops, pb_connection_time = time\<rparr>)"
  using assms by (rule block_connected_delivers)

theorem block_connected_event_witness:
  "delivers [] (handle_validation_block_connected (ref_env demo_mem 0) [] 0x5000 840000 3050 7000 9000 12345)
     validation_block_connected rs_handle_validation_block_connected Validation
     (ValidationEv \<lparr>pb_hash = replicate 32 7, pb_height = 840000, pb_transactions = 3050,
        pb_inputs = 7000, pb_sigops = 9000, pb_connection_time = 12345\<rparr> :: unit EbpfEvent)"
  by (rule block_connected_event [OF ref_probe_ok demo_bytes(2) _ ref_has_room]) simp

section \<open>The rejected transactions\<close>

text \<open>C6: The record of a rejected transaction is shorter than what its callback reads. The C struct
  has a reason of 113 bytes, the Rust struct one of 118: every record the handler outputs has 145
  bytes, and the callback's unaligned read of 150 bytes goes past it, whatever was rejected.\<close>

theorem mempool_rejected_overread:
  assumes "probe_ok env mem" and "has_room env tr mempool_rejected"
  shows "\<exists>data. delivered mempool_rejected (snd (handle_mempool_rejected env tr txid reason)) =
       delivered mempool_rejected tr @ [data] \<and> length data = 145 \<and>
     rs_handle_mempool_rejected data now = Inl OutOfBoundsRead"
  using mempool_rejected_overreads [OF assms] by blast

theorem mempool_rejected_overread_witness:
  "\<exists>data. delivered mempool_rejected
       (snd (handle_mempool_rejected (ref_env demo_mem 0) [] 0x5000 0x6000)) =
       delivered mempool_rejected [] @ [data] \<and> length data = 145 \<and>
     (rs_handle_mempool_rejected data (Some 0) :: unit callback_result) = Inl OutOfBoundsRead"
  by (rule mempool_rejected_overread [OF ref_probe_ok ref_has_room])

text \<open>When the ring buffer memory continues for at least five bytes past the record, as it does
  in the mapped buffer, the event of a rejected transaction is right whatever those bytes are: the
  txid and the reason, cut to 112 bytes, on the mempool subject.\<close>

theorem mempool_rejected_event:
  assumes "probe_ok env mem" and "user_bytes_at mem txid h" and "length h = 32"
    and "user_cstr_at mem reason s" and "has_room env tr mempool_rejected" and "5 \<le> length rest"
  shows "\<exists>data. handle_mempool_rejected env tr txid reason =
       (0, tr @ [Output mempool_rejected data 0 0]) \<and>
     publishes (rs_handle_mempool_rejected (data @ rest) (Some t)) t Mempool
       (MempoolEv (Rejected
          \<lparr>pj_txid = h, pj_reason = from_utf8_lossy (take (REJECTION_REASON_LENGTH - 1) s)\<rparr>))"
  using assms by (rule mempool_rejected_delivers)

theorem mempool_rejected_event_witness:
  "\<exists>data. handle_mempool_rejected (ref_env demo_mem 0) [] 0x5000 0x6000 =
       (0, [] @ [Output mempool_rejected data 0 0]) \<and>
     publishes (rs_handle_mempool_rejected (data @ [9, 9, 9, 9, 9]) (Some 5)) 5 Mempool
       (MempoolEv (Rejected \<lparr>pj_txid = replicate 32 7,
          pj_reason = from_utf8_lossy (take (REJECTION_REASON_LENGTH - 1) (ascii ''expiry''))\<rparr>) :: unit EbpfEvent)"
  by (rule mempool_rejected_event [OF ref_probe_ok demo_bytes(2) _ demo_strings(4) ref_has_room]) simp_all

end
