(* ===== verification/Listener.thy ===== *)
theory Listener
  imports ExtractorHandlers TracingTypes
begin

text \<open>
  Startup of the extractor: the tracepoint tables, the command line, finding the pid of
  bitcoind, and \<^verbatim>\<open>init_bpf_listener\<close>, which looks up the maps, registers a callback per ring
  buffer and attaches the tracepoints (\<^verbatim>\<open>extractors/ebpf/src/lib.rs\<close>). libbpf is a parameter:
  which maps and programs the loaded object has, and whether registering, attaching and building
  succeed.
\<close>

section \<open>Tracepoints\<close>

record Tracepoint =
  tp_context :: string
  tp_name :: string
  tp_function :: string

definition TRACEPOINTS_NET_MESSAGE :: "Tracepoint list" where
  "TRACEPOINTS_NET_MESSAGE =
     [\<lparr>tp_context = ''net'', tp_name = ''inbound_message'', tp_function = ''handle_net_msg_inbound''\<rparr>,
      \<lparr>tp_context = ''net'', tp_name = ''outbound_message'', tp_function = ''handle_net_msg_outbound''\<rparr>]"

definition TRACEPOINTS_NET_CONN :: "Tracepoint list" where
  "TRACEPOINTS_NET_CONN =
     [\<lparr>tp_context = ''net'', tp_name = ''inbound_connection'', tp_function = ''handle_net_conn_inbound''\<rparr>,
      \<lparr>tp_context = ''net'', tp_name = ''outbound_connection'', tp_function = ''handle_net_conn_outbound''\<rparr>,
      \<lparr>tp_context = ''net'', tp_name = ''closed_connection'', tp_function = ''handle_net_conn_closed''\<rparr>,
      \<lparr>tp_context = ''net'', tp_name = ''evicted_inbound_connection'',
       tp_function = ''handle_net_conn_inbound_evicted''\<rparr>,
      \<lparr>tp_context = ''net'', tp_name = ''misbehaving_connection'',
       tp_function = ''handle_net_conn_misbehaving''\<rparr>]"

definition TRACEPOINTS_MEMPOOL :: "Tracepoint list" where
  "TRACEPOINTS_MEMPOOL =
     [\<lparr>tp_context = ''mempool'', tp_name = ''added'', tp_function = ''handle_mempool_added''\<rparr>,
      \<lparr>tp_context = ''mempool'', tp_name = ''removed'', tp_function = ''handle_mempool_removed''\<rparr>,
      \<lparr>tp_context = ''mempool'', tp_name = ''replaced'', tp_function = ''handle_mempool_replaced''\<rparr>,
      \<lparr>tp_context = ''mempool'', tp_name = ''rejected'', tp_function = ''handle_mempool_rejected''\<rparr>]"

definition TRACEPOINTS_VALIDATION :: "Tracepoint list" where
  "TRACEPOINTS_VALIDATION =
     [\<lparr>tp_context = ''validation'', tp_name = ''block_connected'',
       tp_function = ''handle_validation_block_connected''\<rparr>]"

section \<open>The command line\<close>

text \<open>File names and file contents are strings of Unicode code points.\<close>

type_synonym ustring = "nat list"

record Args =
  bitcoind_pid_arg :: "int option"
  bitcoind_pid_file :: "ustring option"
  no_p2pmsg_tracepoints :: bool
  no_connection_tracepoints :: bool
  no_mempool_tracepoints :: bool
  no_validation_tracepoints :: bool
  no_idle_exit :: bool

definition no_tracepoints_enabled :: "Args \<Rightarrow> bool" where
  "no_tracepoints_enabled args \<longleftrightarrow>
     no_p2pmsg_tracepoints args \<and> no_connection_tracepoints args \<and>
     no_validation_tracepoints args \<and> no_mempool_tracepoints args"

section \<open>The pid of bitcoind\<close>

datatype run_error =
    NoProcessWithPid int
  | NoPidFile ustring
  | ReadingPidFile ustring
  | ParsingPidFile ustring
  | PidFileNotSet
  | MapNotFound ring
  | ProgNotFound string
  | LibbpfError
  | ClockWentBack

text \<open>\<^verbatim>\<open>TransientStartupError\<close> is found by downcasting the error.\<close>

fun is_transient :: "run_error \<Rightarrow> bool" where
  "is_transient (NoProcessWithPid p) = True"
| "is_transient (NoPidFile f) = True"
| "is_transient e = False"

text \<open>The operating system: opening and reading a file, and \<^verbatim>\<open>/proc/<pid>/stat\<close>.\<close>

datatype file_result = CannotOpen | CannotRead | Content ustring

record os =
  read_file :: "ustring \<Rightarrow> file_result"
  process_exists :: "int \<Rightarrow> bool"

text \<open>\<^verbatim>\<open>str::trim\<close> (Unicode \<^verbatim>\<open>White_Space\<close>) and \<^verbatim>\<open>str::parse::<i32>\<close>.\<close>

definition is_whitespace :: "nat \<Rightarrow> bool" where
  "is_whitespace c \<longleftrightarrow>
     (9 \<le> c \<and> c \<le> 13) \<or> c = 32 \<or> c = 0x85 \<or> c = 0xA0 \<or> c = 0x1680 \<or>
     (0x2000 \<le> c \<and> c \<le> 0x200A) \<or> c = 0x2028 \<or> c = 0x2029 \<or> c = 0x202F \<or> c = 0x205F \<or> c = 0x3000"

definition trim :: "ustring \<Rightarrow> ustring" where
  "trim s = rev (dropWhile is_whitespace (rev (dropWhile is_whitespace s)))"

fun parse_digits :: "nat \<Rightarrow> ustring \<Rightarrow> nat option" where
  "parse_digits acc [] = Some acc"
| "parse_digits acc (c # cs) =
     (if 48 \<le> c \<and> c \<le> 57 then parse_digits (10 * acc + (c - 48)) cs else None)"

definition in_i32 :: "int \<Rightarrow> bool" where
  "in_i32 n \<longleftrightarrow> - (2 ^ 31) \<le> n \<and> n < 2 ^ 31"

fun parse_i32 :: "ustring \<Rightarrow> int option" where
  "parse_i32 [] = None"
| "parse_i32 (c # cs) =
     (let sign = (if c = 45 then - 1 else 1 :: int);
          digits = (if c = 43 \<or> c = 45 then cs else c # cs)
      in if digits = [] then None
         else case parse_digits 0 digits of
                None \<Rightarrow> None
              | Some n \<Rightarrow> (if in_i32 (sign * int n) then Some (sign * int n) else None))"

definition bitcoind_pid :: "os \<Rightarrow> Args \<Rightarrow> run_error + int" where
  "bitcoind_pid sys args =
     (case bitcoind_pid_arg args of
        Some pid \<Rightarrow> Inr pid
      | None \<Rightarrow>
          (case bitcoind_pid_file args of
             None \<Rightarrow> Inl PidFileNotSet
           | Some path \<Rightarrow>
               (case read_file sys path of
                  CannotOpen \<Rightarrow> Inl (NoPidFile path)
                | CannotRead \<Rightarrow> Inl (ReadingPidFile path)
                | Content content \<Rightarrow>
                    (case parse_i32 (trim content) of
                       None \<Rightarrow> Inl (ParsingPidFile path)
                     | Some pid \<Rightarrow> Inr pid))))"

definition try_get_running_process_pid :: "os \<Rightarrow> Args \<Rightarrow> run_error + int" where
  "try_get_running_process_pid sys args =
     bind_res (bitcoind_pid sys args)
       (\<lambda>pid. if process_exists sys pid then Inr pid else Inl (NoProcessWithPid pid))"

section \<open>The listener\<close>

text \<open>Which callback a ring buffer gets.\<close>

datatype callback =
    cb_net_message | cb_conn_inbound | cb_conn_outbound | cb_conn_closed | cb_conn_inbound_evicted
  | cb_conn_misbehaving | cb_block_connected | cb_mempool_added | cb_mempool_removed
  | cb_mempool_rejected | cb_mempool_replaced

record libbpf =
  object_loads :: bool
  has_map :: "ring \<Rightarrow> bool"
  add_succeeds :: "ring \<Rightarrow> bool"
  has_prog :: "string \<Rightarrow> bool"
  attach_succeeds :: "int \<Rightarrow> Tracepoint \<Rightarrow> bool"
  build_succeeds :: bool

fun find_maps :: "libbpf \<Rightarrow> ring list \<Rightarrow> run_error + unit" where
  "find_maps lib [] = Inr ()"
| "find_maps lib (r # rs) = (if has_map lib r then find_maps lib rs else Inl (MapNotFound r))"

fun add_rings :: "libbpf \<Rightarrow> (ring \<times> callback) list \<Rightarrow> run_error + (ring \<times> callback) list" where
  "add_rings lib [] = Inr []"
| "add_rings lib ((r, cb) # rs) =
     (if add_succeeds lib r then bind_res (add_rings lib rs) (\<lambda>added. Inr ((r, cb) # added))
      else Inl LibbpfError)"

text \<open>One block of \<^verbatim>\<open>init_bpf_listener\<close>: the maps are looked up in any case, and added if enabled.\<close>

definition init_group ::
  "libbpf \<Rightarrow> bool \<Rightarrow> (ring \<times> callback) list \<Rightarrow> run_error + (ring \<times> callback) list" where
  "init_group lib disabled grp =
     bind_res (find_maps lib (map fst grp))
       (\<lambda>_. if disabled then Inr [] else add_rings lib grp)"

definition net_msg_group :: "(ring \<times> callback) list" where
  "net_msg_group =
     [(net_msg_small, cb_net_message), (net_msg_medium, cb_net_message),
      (net_msg_large, cb_net_message), (net_msg_huge, cb_net_message)]"

definition net_conn_group :: "(ring \<times> callback) list" where
  "net_conn_group =
     [(net_conn_inbound, cb_conn_inbound), (net_conn_outbound, cb_conn_outbound),
      (net_conn_closed, cb_conn_closed), (net_conn_inbound_evicted, cb_conn_inbound_evicted),
      (net_conn_misbehaving, cb_conn_misbehaving)]"

definition validation_group :: "(ring \<times> callback) list" where
  "validation_group = [(validation_block_connected, cb_block_connected)]"

definition mempool_group :: "(ring \<times> callback) list" where
  "mempool_group =
     [(mempool_added, cb_mempool_added), (mempool_removed, cb_mempool_removed),
      (mempool_rejected, cb_mempool_rejected), (mempool_replaced, cb_mempool_replaced)]"

definition active_tracepoints :: "Args \<Rightarrow> Tracepoint list" where
  "active_tracepoints args =
     (if no_p2pmsg_tracepoints args then [] else TRACEPOINTS_NET_MESSAGE) @
     (if no_connection_tracepoints args then [] else TRACEPOINTS_NET_CONN) @
     (if no_validation_tracepoints args then [] else TRACEPOINTS_VALIDATION) @
     (if no_mempool_tracepoints args then [] else TRACEPOINTS_MEMPOOL)"

fun attach_all :: "libbpf \<Rightarrow> int \<Rightarrow> Tracepoint list \<Rightarrow> run_error + Tracepoint list" where
  "attach_all lib pid [] = Inr []"
| "attach_all lib pid (t # ts) =
     (if \<not> has_prog lib (tp_function t) then Inl (ProgNotFound (tp_function t))
      else if \<not> attach_succeeds lib pid t then Inl LibbpfError
      else bind_res (attach_all lib pid ts) (\<lambda>links. Inr (t # links)))"

text \<open>What stays alive after initialisation: the attached process, the callbacks, the links.\<close>

record listener =
  l_pid :: int
  l_callbacks :: "(ring \<times> callback) list"
  l_links :: "Tracepoint list"

definition init_bpf_listener :: "libbpf \<Rightarrow> Args \<Rightarrow> int \<Rightarrow> run_error + listener" where
  "init_bpf_listener lib args pid =
     (if \<not> object_loads lib then Inl LibbpfError
      else bind_res (init_group lib (no_p2pmsg_tracepoints args) net_msg_group) (\<lambda>c1.
           bind_res (init_group lib (no_connection_tracepoints args) net_conn_group) (\<lambda>c2.
           bind_res (init_group lib (no_validation_tracepoints args) validation_group) (\<lambda>c3.
           bind_res (init_group lib (no_mempool_tracepoints args) mempool_group) (\<lambda>c4.
           bind_res (attach_all lib pid (active_tracepoints args)) (\<lambda>links.
           if build_succeeds lib
           then Inr \<lparr>l_pid = pid, l_callbacks = c1 @ c2 @ c3 @ c4, l_links = links\<rparr>
           else Inl LibbpfError))))))"

section \<open>What initialisation establishes\<close>

lemma bind_res_Inr: "bind_res r f = Inr y \<longleftrightarrow> (\<exists>x. r = Inr x \<and> f x = Inr y)"
  by (cases r) auto

lemma add_rings_Inr: "add_rings lib grp = Inr cs \<Longrightarrow> cs = grp"
  by (induction lib grp arbitrary: cs rule: add_rings.induct) (auto simp: bind_res_Inr split: if_splits)

lemma attach_all_Inr: "attach_all lib pid ts = Inr links \<Longrightarrow> links = ts"
  by (induction lib pid ts arbitrary: links rule: attach_all.induct)
    (auto simp: bind_res_Inr split: if_splits)

lemma find_maps_Inr: "find_maps lib rs = Inr () \<longleftrightarrow> list_all (has_map lib) rs"
  by (induction lib rs rule: find_maps.induct) auto

lemma init_group_Inr:
  "init_group lib disabled grp = Inr cs \<Longrightarrow>
   list_all (has_map lib) (map fst grp) \<and> cs = (if disabled then [] else grp)"
  by (auto simp: init_group_def bind_res_Inr find_maps_Inr dest: add_rings_Inr)

definition all_maps :: "ring list" where
  "all_maps = map fst (net_msg_group @ net_conn_group @ validation_group @ mempool_group)"

lemma init_bpf_listener_Inr:
  assumes "init_bpf_listener lib args pid = Inr l"
  shows "l_pid l = pid" and "l_links l = active_tracepoints args"
    and "l_callbacks l =
      (if no_p2pmsg_tracepoints args then [] else net_msg_group) @
      (if no_connection_tracepoints args then [] else net_conn_group) @
      (if no_validation_tracepoints args then [] else validation_group) @
      (if no_mempool_tracepoints args then [] else mempool_group)"
    and "list_all (has_map lib) all_maps"
  using assms
  by (auto simp: init_bpf_listener_def bind_res_Inr all_maps_def
      dest!: init_group_Inr attach_all_Inr split: if_splits)

section \<open>Reading a pid file\<close>

text \<open>The decimal digits of a number, as bitcoind writes them.\<close>

fun decimal :: "nat \<Rightarrow> ustring" where
  "decimal n = (if n < 10 then [48 + n] else decimal (n div 10) @ [48 + n mod 10])"

declare decimal.simps [simp del]

lemma parse_digits_append:
  "parse_digits acc (xs @ ys) =
     (case parse_digits acc xs of None \<Rightarrow> None | Some a \<Rightarrow> parse_digits a ys)"
  by (induction acc xs rule: parse_digits.induct) auto

lemma parse_digits_decimal: "parse_digits 0 (decimal n) = Some n"
proof (induction n rule: decimal.induct)
  case (1 n)
  show ?case
  proof (cases "n < 10")
    case True
    then show ?thesis by (simp add: decimal.simps [of n])
  next
    case False
    then show ?thesis
      using "1.IH" by (simp add: decimal.simps [of n] parse_digits_append)
  qed
qed

lemma decimal_digits: "c \<in> set (decimal n) \<Longrightarrow> 48 \<le> c \<and> c \<le> 57"
proof (induction n rule: decimal.induct)
  case (1 n)
  show ?case
  proof (cases "n < 10")
    case True
    then show ?thesis using "1.prems" by (auto simp: decimal.simps [of n])
  next
    case False
    then show ?thesis using 1 by (auto simp: decimal.simps [of n])
  qed
qed

lemma decimal_not_Nil: "decimal n \<noteq> []"
  by (subst decimal.simps) simp

lemma digit_not_whitespace: "48 \<le> c \<and> c \<le> 57 \<Longrightarrow> \<not> is_whitespace c"
  by (auto simp: is_whitespace_def)

lemma trim_surrounded:
  assumes "list_all is_whitespace pre" and "list_all is_whitespace post"
    and "s \<noteq> []" and "\<not> is_whitespace (hd s)" and "\<not> is_whitespace (last s)"
  shows "trim (pre @ s @ post) = s"
proof -
  have "dropWhile is_whitespace (pre @ s @ post) = s @ post"
    using assms by (subst dropWhile_append2) (auto simp: list_all_iff neq_Nil_conv)
  moreover have "dropWhile is_whitespace (rev post @ rev s) = rev s"
    using assms by (subst dropWhile_append2) (auto simp: list_all_iff neq_Nil_conv last_rev dropWhile_eq_self_iff hd_rev)
  ultimately show ?thesis by (simp add: trim_def)
qed

lemma trim_decimal: "list_all is_whitespace post \<Longrightarrow> trim (decimal n @ post) = decimal n"
  using trim_surrounded [of "[]" post "decimal n"] decimal_not_Nil [of n]
    digit_not_whitespace decimal_digits [of "hd (decimal n)" n] decimal_digits [of "last (decimal n)" n]
  by simp

lemma parse_i32_decimal: "int n < 2 ^ 31 \<Longrightarrow> parse_i32 (decimal n) = Some (int n)"
  using parse_digits_decimal [of n] decimal_not_Nil [of n] decimal_digits [of "hd (decimal n)" n]
  by (cases "decimal n") (auto simp: in_i32_def Let_def)

lemma parse_i32_range: "parse_i32 s = Some n \<Longrightarrow> in_i32 n"
  by (cases s) (auto simp: Let_def split: if_splits option.splits)

end
