(* ===== verification/ExtractorLoop.thy ===== *)
theory ExtractorLoop
  imports Listener
begin

text \<open>
  The run loop of the extractor (\<^verbatim>\<open>run\<close> in \<^verbatim>\<open>extractors/ebpf/src/lib.rs\<close>) as a state machine.
  One iteration checks for shutdown, polls the ring buffers, re-attaches after a restart of
  bitcoind, and watches for inactivity. What the world answers during an iteration is a
  \<open>tick\<close>; the clock is read several times, as in the code. Times are nanoseconds.
\<close>

section \<open>State and inputs\<close>

definition seconds :: "nat \<Rightarrow> nat" where "seconds n = n * 1000000000"

definition NO_EVENTS_ERROR_DURATION :: nat where "NO_EVENTS_ERROR_DURATION = seconds (60 * 3)"
definition NO_EVENTS_WARN_DURATION :: nat where "NO_EVENTS_WARN_DURATION = seconds 60"

record loop_state =
  pid :: int
  attached :: listener
  last_event_timestamp :: nat
  has_warned_about_no_events :: bool

text \<open>\<^verbatim>\<open>shutdown_rx.has_changed()\<close> together with the value in the channel.\<close>

datatype shutdown = Unchanged | Changed bool | SenderDropped

record tick =
  t_shutdown :: shutdown
  t_poll :: int
  t_now_poll :: nat
  t_exists :: "int \<Rightarrow> bool"
  t_os :: os
  t_libbpf :: libbpf
  t_now_init :: nat
  t_now_check :: nat
  t_now_reset :: nat

datatype log =
    LogShutdown | LogShutdownClosed | LogParseWarning | LogTimeWarning | LogPollError int
  | LogProcessExited int | LogNoEventsError | LogRestartHint | LogNoEventsWarn

datatype outcome = Continue loop_state | Return | Fail run_error

section \<open>One iteration\<close>

definition should_stop :: "shutdown \<Rightarrow> log option" where
  "should_stop sd =
     (case sd of
        Changed b \<Rightarrow> (if b then Some LogShutdown else None)
      | SenderDropped \<Rightarrow> Some LogShutdownClosed
      | Unchanged \<Rightarrow> None)"

definition handle_poll :: "tick \<Rightarrow> loop_state \<Rightarrow> log list \<times> loop_state" where
  "handle_poll t s =
     (let other = t_poll t
      in if other = sint RINGBUFF_CALLBACK_OK then ([], s)
         else if other = sint RINGBUFF_CALLBACK_UNABLE_TO_PARSE_P2P_MSG then ([LogParseWarning], s)
         else if other = sint RINGBUFF_CALLBACK_SYSTEM_TIME_ERROR then ([LogTimeWarning], s)
         else if other \<le> 0 then ([LogPollError other], s)
         else ([], s\<lparr>last_event_timestamp := t_now_poll t, has_warned_about_no_events := False\<rparr>))"

definition check_process :: "Args \<Rightarrow> tick \<Rightarrow> loop_state \<Rightarrow> log list \<times> (run_error + loop_state)" where
  "check_process args t s =
     (if pid s = 0 \<or> \<not> t_exists t (pid s) then
        (let logs = (if pid s \<noteq> 0 then [LogProcessExited (pid s)] else []);
             s = s\<lparr>pid := 0\<rparr>
         in case try_get_running_process_pid (t_os t) args of
              Inr new_pid \<Rightarrow>
                (case init_bpf_listener (t_libbpf t) args new_pid of
                   Inl e \<Rightarrow> (logs, Inl e)
                 | Inr l \<Rightarrow>
                     (logs, Inr (s\<lparr>pid := l_pid l, attached := l,
                                  last_event_timestamp := t_now_init t,
                                  has_warned_about_no_events := False\<rparr>)))
            | Inl e \<Rightarrow> (if is_transient e then (logs, Inr s) else (logs, Inl e)))
      else ([], Inr s))"

definition check_idle :: "Args \<Rightarrow> tick \<Rightarrow> loop_state \<Rightarrow> log list \<times> outcome" where
  "check_idle args t s =
     (if t_now_check t < last_event_timestamp s then ([], Fail ClockWentBack)
      else
        (let duration_since_last_event = t_now_check t - last_event_timestamp s
         in if NO_EVENTS_ERROR_DURATION \<le> duration_since_last_event then
              (if \<not> no_idle_exit args then ([LogNoEventsError, LogRestartHint], Return)
               else ([LogNoEventsError],
                     Continue (s\<lparr>last_event_timestamp := t_now_reset t,
                                 has_warned_about_no_events := False\<rparr>)))
            else if NO_EVENTS_WARN_DURATION \<le> duration_since_last_event \<and>
                    \<not> has_warned_about_no_events s then
              ([LogNoEventsWarn], Continue (s\<lparr>has_warned_about_no_events := True\<rparr>))
            else ([], Continue s)))"

definition iteration :: "Args \<Rightarrow> tick \<Rightarrow> loop_state \<Rightarrow> log list \<times> outcome" where
  "iteration args t s =
     (case should_stop (t_shutdown t) of
        Some l \<Rightarrow> ([l], Return)
      | None \<Rightarrow>
          (case handle_poll t s of (logs1, s1) \<Rightarrow>
             (case check_process args t s1 of
                (logs2, Inl e) \<Rightarrow> (logs1 @ logs2, Fail e)
              | (logs2, Inr s2) \<Rightarrow>
                  (case check_idle args t s2 of
                     (logs3, out) \<Rightarrow> (logs1 @ logs2 @ logs3, out)))))"

section \<open>The run\<close>

text \<open>
  \<open>run_loop\<close> consumes one tick per iteration; a run whose ticks are used up is still running.
  \<open>start\<close> is the part of \<^verbatim>\<open>run\<close> before the loop; the NATS connection is a library, which
  succeeds or not.
\<close>

fun run_loop :: "Args \<Rightarrow> tick list \<Rightarrow> loop_state \<Rightarrow> log list \<times> outcome" where
  "run_loop args [] s = ([], Continue s)"
| "run_loop args (t # ts) s =
     (case iteration args t s of
        (logs, Continue s') \<Rightarrow> (case run_loop args ts s' of (logs', out) \<Rightarrow> (logs @ logs', out))
      | (logs, out) \<Rightarrow> (logs, out))"

definition start :: "os \<Rightarrow> (unit \<Rightarrow> run_error + unit) \<Rightarrow> libbpf \<Rightarrow> nat \<Rightarrow> Args \<Rightarrow> outcome" where
  "start sys connect_nats lib now args =
     (if no_tracepoints_enabled args then Return
      else case try_get_running_process_pid sys args of
             Inl e \<Rightarrow> Fail e
           | Inr p \<Rightarrow>
               (case connect_nats () of
                  Inl e \<Rightarrow> Fail e
                | Inr u \<Rightarrow>
                    (case init_bpf_listener lib args p of
                       Inl e \<Rightarrow> Fail e
                     | Inr l \<Rightarrow>
                         Continue \<lparr>pid = l_pid l, attached = l, last_event_timestamp = now,
                                   has_warned_about_no_events = False\<rparr>)))"

text \<open>The same machine as a relation between loop states, and what it can reach.\<close>

inductive loop_step :: "Args \<Rightarrow> loop_state \<Rightarrow> loop_state \<Rightarrow> bool" for args where
  step: "snd (iteration args t s) = Continue s' \<Longrightarrow> loop_step args s s'"

inductive loop_reachable :: "Args \<Rightarrow> loop_state \<Rightarrow> bool" for args where
  started: "start sys connect_nats lib now args = Continue s \<Longrightarrow> loop_reachable args s"
| stepped: "loop_reachable args s \<Longrightarrow> loop_step args s s' \<Longrightarrow> loop_reachable args s'"

inductive_cases loop_stepE: "loop_step args s s'"

section \<open>Invariants of the loop\<close>

text \<open>
  The extractor either waits for bitcoind (pid 0) or is attached to the process it watches, with
  exactly the callbacks and tracepoints its arguments ask for.
\<close>

definition attached_ok :: "Args \<Rightarrow> listener \<Rightarrow> bool" where
  "attached_ok args l \<longleftrightarrow> l_links l = active_tracepoints args \<and>
     l_callbacks l =
       (if no_p2pmsg_tracepoints args then [] else net_msg_group) @
       (if no_connection_tracepoints args then [] else net_conn_group) @
       (if no_validation_tracepoints args then [] else validation_group) @
       (if no_mempool_tracepoints args then [] else mempool_group)"

definition loop_inv :: "Args \<Rightarrow> loop_state \<Rightarrow> bool" where
  "loop_inv args s \<longleftrightarrow> (pid s = 0 \<or> pid s = l_pid (attached s)) \<and> attached_ok args (attached s)"

lemma init_attached_ok: "init_bpf_listener lib args p = Inr l \<Longrightarrow> attached_ok args l"
  using init_bpf_listener_Inr unfolding attached_ok_def by blast

lemma start_inv: "start sys connect_nats lib now args = Continue s \<Longrightarrow> loop_inv args s"
  by (auto simp: start_def loop_inv_def init_attached_ok split: if_splits sum.splits)

lemma handle_poll_frame:
  "handle_poll t s = (logs, s') \<Longrightarrow> pid s' = pid s \<and> attached s' = attached s"
  by (auto simp: handle_poll_def Let_def split: if_splits)

lemma check_process_inv:
  "check_process args t s = (logs, Inr s') \<Longrightarrow> loop_inv args s \<Longrightarrow> loop_inv args s'"
  by (auto simp: check_process_def loop_inv_def Let_def init_attached_ok split: if_splits sum.splits)

lemma check_idle_frame:
  "check_idle args t s = (logs, Continue s') \<Longrightarrow> pid s' = pid s \<and> attached s' = attached s"
  by (auto simp: check_idle_def Let_def split: if_splits)

lemma iteration_inv:
  assumes "snd (iteration args t s) = Continue s'" and "loop_inv args s"
  shows "loop_inv args s'"
proof -
  obtain logs1 s1 where 1: "handle_poll t s = (logs1, s1)" by (cases "handle_poll t s")
  have inv1: "loop_inv args s1" using handle_poll_frame [OF 1] assms(2) by (simp add: loop_inv_def)
  obtain logs2 s2 where 2: "check_process args t s1 = (logs2, Inr s2)"
    using assms(1) 1 by (auto simp: iteration_def split: option.splits prod.splits sum.splits)
  have inv2: "loop_inv args s2" using check_process_inv [OF 2 inv1] .
  obtain logs3 where "check_idle args t s2 = (logs3, Continue s')"
    using assms(1) 1 2 by (auto simp: iteration_def split: option.splits prod.splits)
  then show ?thesis using check_idle_frame inv2 by (auto simp: loop_inv_def)
qed

lemma reachable_inv: "loop_reachable args s \<Longrightarrow> loop_inv args s"
  by (induction rule: loop_reachable.induct) (auto intro: start_inv iteration_inv elim: loop_stepE)

section \<open>How an iteration ends\<close>

text \<open>
  The process check either keeps the state, re-attaches, or fails; the time of the last activity
  an iteration compares the clock with is the latest of these.
\<close>

definition process_gone :: "tick \<Rightarrow> loop_state \<Rightarrow> bool" where
  "process_gone t s \<longleftrightarrow> pid s = 0 \<or> \<not> t_exists t (pid s)"

definition restart_result :: "Args \<Rightarrow> tick \<Rightarrow> run_error + listener" where
  "restart_result args t =
     bind_res (try_get_running_process_pid (t_os t) args) (init_bpf_listener (t_libbpf t) args)"

text \<open>Errors of finding the process are retried when transient; errors of attaching never are.\<close>

definition process_failure :: "Args \<Rightarrow> tick \<Rightarrow> loop_state \<Rightarrow> run_error option" where
  "process_failure args t s =
     (if process_gone t s then
        (case try_get_running_process_pid (t_os t) args of
           Inl e \<Rightarrow> (if is_transient e then None else Some e)
         | Inr p \<Rightarrow>
             (case init_bpf_listener (t_libbpf t) args p of Inl e \<Rightarrow> Some e | Inr l \<Rightarrow> None))
      else None)"

definition last_activity :: "Args \<Rightarrow> tick \<Rightarrow> loop_state \<Rightarrow> nat" where
  "last_activity args t s =
     (if process_gone t s \<and> is_ok (restart_result args t) then t_now_init t
      else if 0 < t_poll t then t_now_poll t
      else last_event_timestamp s)"

lemma is_ok_iff: "is_ok r \<longleftrightarrow> (\<exists>x. r = Inr x)"
  by (cases r) auto

lemma callback_codes:
  "sint RINGBUFF_CALLBACK_OK = 0"
  "sint RINGBUFF_CALLBACK_UNABLE_TO_PARSE_P2P_MSG = - 20"
  "sint RINGBUFF_CALLBACK_SYSTEM_TIME_ERROR = - 5"
  by (simp_all add: RINGBUFF_CALLBACK_OK_def RINGBUFF_CALLBACK_UNABLE_TO_PARSE_P2P_MSG_def
      RINGBUFF_CALLBACK_SYSTEM_TIME_ERROR_def)

lemma handle_poll_state:
  "snd (handle_poll t s) =
     (if 0 < t_poll t
      then s\<lparr>last_event_timestamp := t_now_poll t, has_warned_about_no_events := False\<rparr> else s)"
  by (simp add: handle_poll_def callback_codes Let_def)

lemma check_process_result:
  "snd (check_process args t s) =
     (case process_failure args t s of
        Some e \<Rightarrow> Inl e
      | None \<Rightarrow>
          Inr (if process_gone t s then
                 (case restart_result args t of
                    Inr l \<Rightarrow> s\<lparr>pid := l_pid l, attached := l, last_event_timestamp := t_now_init t,
                              has_warned_about_no_events := False\<rparr>
                  | Inl e \<Rightarrow> s\<lparr>pid := 0\<rparr>)
               else s))"
  by (auto simp: check_process_def process_failure_def process_gone_def restart_result_def Let_def
      split: sum.split)

lemma process_gone_poll [simp]: "process_gone t (snd (handle_poll t s)) = process_gone t s"
  by (simp add: handle_poll_state process_gone_def)

lemma process_failure_poll [simp]: "process_failure args t (snd (handle_poll t s)) = process_failure args t s"
  by (simp add: process_failure_def)

text \<open>The state the idle check of an iteration sees, when the process check does not fail.\<close>

definition checked_state :: "Args \<Rightarrow> tick \<Rightarrow> loop_state \<Rightarrow> loop_state" where
  "checked_state args t s =
     (let s1 = snd (handle_poll t s)
      in if process_gone t s then
           (case restart_result args t of
              Inr l \<Rightarrow> s1\<lparr>pid := l_pid l, attached := l, last_event_timestamp := t_now_init t,
                        has_warned_about_no_events := False\<rparr>
            | Inl e \<Rightarrow> s1\<lparr>pid := 0\<rparr>)
         else s1)"

lemma checked_state_activity: "last_event_timestamp (checked_state args t s) = last_activity args t s"
  by (simp add: checked_state_def last_activity_def handle_poll_state is_ok_iff Let_def split: sum.split)

lemma iteration_cases:
  "snd (iteration args t s) =
     (if should_stop (t_shutdown t) \<noteq> None then Return
      else case process_failure args t s of
             Some e \<Rightarrow> Fail e
           | None \<Rightarrow> snd (check_idle args t (checked_state args t s)))"
proof -
  obtain logs1 s1 where p: "handle_poll t s = (logs1, s1)" by (cases "handle_poll t s")
  obtain logs2 r where c: "check_process args t s1 = (logs2, r)" by (cases "check_process args t s1")
  have "snd (check_process args t (snd (handle_poll t s))) =
      (case process_failure args t s of
         Some e \<Rightarrow> Inl e | None \<Rightarrow> Inr (checked_state args t s))"
    by (simp only: check_process_result process_gone_poll process_failure_poll checked_state_def Let_def)
  then have r: "r = (case process_failure args t s of
         Some e \<Rightarrow> Inl e | None \<Rightarrow> Inr (checked_state args t s))"
    by (simp add: p c)
  show ?thesis
    unfolding iteration_def by (simp add: p c r split: option.split prod.split)
qed

lemma check_idle_Return:
  "snd (check_idle args t s) = Return \<longleftrightarrow>
   last_event_timestamp s + NO_EVENTS_ERROR_DURATION \<le> t_now_check t \<and> \<not> no_idle_exit args"
  by (auto simp: check_idle_def Let_def NO_EVENTS_ERROR_DURATION_def seconds_def)

lemma check_idle_Fail:
  "snd (check_idle args t s) = Fail e \<longleftrightarrow> t_now_check t < last_event_timestamp s \<and> e = ClockWentBack"
  by (auto simp: check_idle_def Let_def)

section \<open>Runs\<close>

lemma run_loop_snoc_Continue:
  "snd (run_loop args (t # ts) s) =
     (case snd (iteration args t s) of
        Continue s' \<Rightarrow> snd (run_loop args ts s') | out \<Rightarrow> out)"
  by (auto split: prod.splits outcome.splits)

text \<open>
  A world in which nothing forces the extractor to stop: no shutdown, no error that is not
  transient, and a clock that does not run backwards with respect to its last reading.
\<close>

definition harmless :: "Args \<Rightarrow> tick \<Rightarrow> loop_state \<Rightarrow> bool" where
  "harmless args t s \<longleftrightarrow> should_stop (t_shutdown t) = None \<and> process_failure args t s = None \<and>
     last_activity args t s \<le> t_now_check t"

lemma harmless_iteration:
  assumes "harmless args t s" and "no_idle_exit args"
  shows "\<exists>s'. snd (iteration args t s) = Continue s'"
proof (cases "snd (iteration args t s)")
  case Return
  then show ?thesis
    using assms by (simp add: iteration_cases harmless_def check_idle_Return)
next
  case (Fail e)
  then show ?thesis
    using assms by (simp add: iteration_cases harmless_def check_idle_Fail checked_state_activity)
qed simp

text \<open>
  A quiet run: bitcoind stays, no poll reports an event, and the clock stays below the error
  threshold. Polls may fail or time out.
\<close>

definition quiet :: "loop_state \<Rightarrow> tick \<Rightarrow> bool" where
  "quiet s t \<longleftrightarrow> should_stop (t_shutdown t) = None \<and> \<not> process_gone t s \<and> t_poll t \<le> 0 \<and>
     last_event_timestamp s \<le> t_now_check t \<and>
     t_now_check t < last_event_timestamp s + NO_EVENTS_ERROR_DURATION"

lemma quiet_handle_poll:
  "t_poll t \<le> 0 \<Longrightarrow> \<exists>logs. handle_poll t s = (logs, s) \<and> LogNoEventsWarn \<notin> set logs"
  by (simp add: handle_poll_def Let_def)

lemma warned_same: "has_warned_about_no_events s = w \<Longrightarrow> s\<lparr>has_warned_about_no_events := w\<rparr> = s"
  by (cases s) simp

lemma quiet_iteration:
  assumes "quiet s t"
  shows "\<exists>logs warned. iteration args t s =
           (logs, Continue (s\<lparr>has_warned_about_no_events := warned\<rparr>)) \<and>
         count_list logs LogNoEventsWarn = (if warned \<and> \<not> has_warned_about_no_events s then 1 else 0) \<and>
         (has_warned_about_no_events s \<longrightarrow> warned)"
proof -
  obtain logs where poll: "handle_poll t s = (logs, s)" "LogNoEventsWarn \<notin> set logs"
    using quiet_handle_poll assms by (auto simp: quiet_def)
  have proc: "check_process args t s = ([], Inr s)"
    using assms by (simp add: check_process_def quiet_def process_gone_def)
  have cnt: "count_list logs LogNoEventsWarn = 0" using poll(2) by (simp add: count_list_0_iff)
  let ?due = "NO_EVENTS_WARN_DURATION \<le> t_now_check t - last_event_timestamp s"
  let ?warn = "?due \<and> \<not> has_warned_about_no_events s"
  have clock: "\<not> t_now_check t < last_event_timestamp s"
      "\<not> NO_EVENTS_ERROR_DURATION \<le> t_now_check t - last_event_timestamp s"
    using assms by (simp_all add: quiet_def) linarith
  show ?thesis
  proof (cases ?warn)
    case True
    then have "check_idle args t s = ([LogNoEventsWarn], Continue (s\<lparr>has_warned_about_no_events := True\<rparr>))"
      by (simp only: check_idle_def Let_def clock if_False if_True simp_thms)
    then have "iteration args t s =
        (logs @ [LogNoEventsWarn], Continue (s\<lparr>has_warned_about_no_events := True\<rparr>))"
      using assms poll(1) proc by (simp add: iteration_def quiet_def)
    then show ?thesis
      using cnt True by (intro exI [of _ "logs @ [LogNoEventsWarn]"] exI [of _ True]) simp
  next
    case False
    then have "check_idle args t s = ([], Continue s)"
      by (simp only: check_idle_def Let_def clock if_False)
    then have "iteration args t s = (logs, Continue s)"
      using assms poll(1) proc by (simp add: iteration_def quiet_def)
    then show ?thesis
      using cnt
      by (intro exI [of _ logs] exI [of _ "has_warned_about_no_events s"]) (simp add: warned_same)
  qed
qed

lemma quiet_warned [simp]: "quiet (s\<lparr>has_warned_about_no_events := w\<rparr>) t = quiet s t"
  by (simp add: quiet_def process_gone_def)

lemma quiet_run_warnings:
  "list_all (quiet s) ts \<Longrightarrow>
   count_list (fst (run_loop args ts s)) LogNoEventsWarn \<le> (if has_warned_about_no_events s then 0 else 1)"
proof (induction ts arbitrary: s)
  case (Cons t ts)
  obtain logs warned where it: "iteration args t s = (logs, Continue (s\<lparr>has_warned_about_no_events := warned\<rparr>))"
      "count_list logs LogNoEventsWarn = (if warned \<and> \<not> has_warned_about_no_events s then 1 else 0)"
      "has_warned_about_no_events s \<longrightarrow> warned"
    using quiet_iteration [of s t args] Cons.prems by auto
  let ?s' = "s\<lparr>has_warned_about_no_events := warned\<rparr>"
  have "count_list (fst (run_loop args ts ?s')) LogNoEventsWarn \<le> (if warned then 0 else 1)"
    using Cons.IH [of ?s'] Cons.prems by (simp add: list_all_iff)
  then show ?case
    using it by (auto split: prod.splits if_splits)
qed simp

end
