(* ===== verification/Pipeline.thy ===== *)
theory Pipeline
  imports MessageDelivery ReferenceHelpers ExtractorLoop
begin

text \<open>
  The whole path as one machine: the BPF program runs on a sequence of tracepoint hits, and the
  callbacks the listener registered consume what the ring buffers hold. The properties here hold
  for every sequence of hits, whatever the ring buffers refuse.
\<close>

section \<open>The callbacks as a consumer\<close>

text \<open>What a registered callback runs, and which callback decodes the struct of a ring buffer.\<close>

fun run_callback ::
  "('m, 'e) rust_bitcoin \<Rightarrow> callback \<Rightarrow> byte list \<Rightarrow> clock \<Rightarrow> 'm callback_result" where
  "run_callback rb cb_net_message = rs_handle_net_message rb"
| "run_callback rb cb_conn_inbound = rs_handle_net_conn_inbound"
| "run_callback rb cb_conn_outbound = rs_handle_net_conn_outbound"
| "run_callback rb cb_conn_closed = rs_handle_net_conn_closed"
| "run_callback rb cb_conn_inbound_evicted = rs_handle_net_conn_inbound_evicted"
| "run_callback rb cb_conn_misbehaving = rs_handle_net_conn_misbehaving"
| "run_callback rb cb_block_connected = rs_handle_validation_block_connected"
| "run_callback rb cb_mempool_added = rs_handle_mempool_added"
| "run_callback rb cb_mempool_removed = rs_handle_mempool_removed"
| "run_callback rb cb_mempool_rejected = rs_handle_mempool_rejected"
| "run_callback rb cb_mempool_replaced = rs_handle_mempool_replaced"

fun ring_callback :: "ring \<Rightarrow> callback" where
  "ring_callback net_msg_small = cb_net_message"
| "ring_callback net_msg_medium = cb_net_message"
| "ring_callback net_msg_large = cb_net_message"
| "ring_callback net_msg_huge = cb_net_message"
| "ring_callback net_conn_inbound = cb_conn_inbound"
| "ring_callback net_conn_outbound = cb_conn_outbound"
| "ring_callback net_conn_closed = cb_conn_closed"
| "ring_callback net_conn_inbound_evicted = cb_conn_inbound_evicted"
| "ring_callback net_conn_misbehaving = cb_conn_misbehaving"
| "ring_callback mempool_added = cb_mempool_added"
| "ring_callback mempool_removed = cb_mempool_removed"
| "ring_callback mempool_replaced = cb_mempool_replaced"
| "ring_callback mempool_rejected = cb_mempool_rejected"
| "ring_callback validation_block_connected = cb_block_connected"

section \<open>Which records the callbacks accept\<close>

text \<open>A record is a well-formed object of the ring buffer's struct over some old memory.\<close>

fun record_ok :: "ring \<Rightarrow> byte list \<Rightarrow> bool" where
  "record_ok net_msg_small d = (\<exists>m old. P2PMessage_fits MAX_SMALL_MSG_LENGTH m \<and>
     length old = 120 + MAX_SMALL_MSG_LENGTH \<and> d = P2PMessage_image SmallP2PMessage m old)"
| "record_ok net_msg_medium d = (\<exists>m old. P2PMessage_fits MAX_MEDIUM_MSG_LENGTH m \<and>
     length old = 120 + MAX_MEDIUM_MSG_LENGTH \<and> d = P2PMessage_image MediumP2PMessage m old)"
| "record_ok net_msg_large d = (\<exists>m old. P2PMessage_fits MAX_LARGE_MSG_LENGTH m \<and>
     length old = 120 + MAX_LARGE_MSG_LENGTH \<and> d = P2PMessage_image LargeP2PMessage m old)"
| "record_ok net_msg_huge d = (\<exists>m old. P2PMessage_fits MAX_HUGE_MSG_LENGTH m \<and>
     length old = 120 + MAX_HUGE_MSG_LENGTH \<and> d = P2PMessage_image HugeP2PMessage m old)"
| "record_ok net_conn_inbound d =
     (\<exists>c. InboundConnection_wf c \<and> d = InboundConnection_image c (zeroed InboundConnection_layout))"
| "record_ok net_conn_outbound d =
     (\<exists>c. OutboundConnection_wf c \<and> d = OutboundConnection_image c (zeroed OutboundConnection_layout))"
| "record_ok net_conn_closed d =
     (\<exists>c. ClosedConnection_wf c \<and> d = ClosedConnection_image c (zeroed ClosedConnection_layout))"
| "record_ok net_conn_inbound_evicted d =
     (\<exists>c. ClosedConnection_wf c \<and> d = ClosedConnection_image c (zeroed ClosedConnection_layout))"
| "record_ok net_conn_misbehaving d = (\<exists>c. MisbehavingConnection_wf c \<and>
     d = MisbehavingConnection_image c (zeroed MisbehavingConnection_layout))"
| "record_ok mempool_added d =
     (\<exists>c. MempoolAdded_wf c \<and> d = MempoolAdded_image c (zeroed MempoolAdded_layout))"
| "record_ok mempool_removed d =
     (\<exists>c. MempoolRemoved_wf c \<and> d = MempoolRemoved_image c (zeroed MempoolRemoved_layout))"
| "record_ok mempool_replaced d =
     (\<exists>c. MempoolReplaced_wf c \<and> d = MempoolReplaced_image c (zeroed MempoolReplaced_layout))"
| "record_ok mempool_rejected d =
     (\<exists>c. MempoolRejected_wf c \<and> d = MempoolRejected_image c (zeroed MempoolRejected_layout))"
| "record_ok validation_block_connected d =
     (\<exists>c. BlockConnected_wf c \<and> d = BlockConnected_image c (zeroed BlockConnected_layout))"

lemma msg_class_record_ok:
  assumes "msg_class sz = Some (r, cap, name)" and "P2PMessage_fits cap m" and "length old = 120 + cap"
  shows "record_ok r (P2PMessage_image (P2PMessage_layout cap) m old)"
  using assms
  by (auto simp: msg_class_def SmallP2PMessage_def MediumP2PMessage_def LargeP2PMessage_def
      HugeP2PMessage_def split: if_splits)

text \<open>Every record a hit adds is such an object, whatever bitcoind's memory holds.\<close>

lemma net_msg_handler_records:
  assumes env: "probe_ok env mem" "reserve_ok env"
    and "d \<in> set (delivered r (snd (net_msg_handler inbound env tr id' addr ct mt sz pay)))"
    and "d \<notin> set (delivered r tr)"
  shows "record_ok r d"
proof -
  obtain q cap name where cl: "msg_class sz = Some (q, cap, name)"
    using assms(3,4) by (auto simp: net_msg_handler_def give_up_def bpf_printk_def split: option.splits)
  note fits = msg_class_cases [OF cl]
  obtain img where img: "reserve_result env tr q (of_nat (120 + cap)) 0 = Some img"
    using assms(3,4) cl
    by (cases "reserve_result env tr q (of_nat (120 + cap)) 0")
      (auto simp: net_msg_handler_def give_up_def bpf_printk_def bpf_ringbuf_reserve_def Let_def)
  have len: "length img = 120 + cap" using reserve_okD [OF env(2) img] fits(3) by simp
  let ?m = "net_msg_fill env cap (q = net_msg_medium) inbound id' addr ct mt sz pay img"
  have "r = q \<and> d = P2PMessage_image (P2PMessage_layout cap) ?m img"
    using assms(3,4) cl img
    by (auto simp: net_msg_handler_def bpf_ringbuf_reserve_def bpf_ringbuf_submit_def Let_def
        split: if_splits)
  moreover have "md_msg_size (msg_meta ?m) = sz"
    by (simp add: net_msg_fill_def set_meta_data1_def set_meta_data2_def Let_def)
  then have "P2PMessage_fits cap ?m"
    using net_msg_fill_wf [OF env(1) len fits(3,1)] fits
    by (simp add: P2PMessage_fits_def MAX_P2P_MESSAGE_SIZE_def)
  ultimately show ?thesis using msg_class_record_ok [OF cl _ len] by simp
qed

lemma output_event_records:
  "d \<in> set (delivered r (snd (output_event env tr q data))) \<Longrightarrow> d \<notin> set (delivered r tr) \<Longrightarrow>
   r = q \<and> d = data"
  by (auto simp: output_event_def bpf_ringbuf_output_def Let_def split: if_splits)

lemma hit_records:
  assumes env: "probe_ok env mem" "reserve_ok env"
    and "d \<in> set (delivered r (snd (invoke env h tr)))" and "d \<notin> set (delivered r tr)"
  shows "record_ok r d"
  using assms(3,4)
proof (cases h)
  case (HitMsgInbound i a c t n p)
  then show ?thesis
    using assms(3,4) net_msg_handler_records [OF env] by (simp add: inbound_eq_handler)
next
  case (HitMsgOutbound i a c t n p)
  then show ?thesis
    using assms(3,4) net_msg_handler_records [OF env] by (simp add: outbound_eq_handler)
qed (auto dest!: output_event_records
      simp: handle_net_conn_inbound_def handle_net_conn_outbound_def handle_net_conn_closed_def
        handle_net_conn_inbound_evicted_def handle_net_conn_misbehaving_def handle_mempool_added_def
        handle_mempool_removed_def handle_mempool_replaced_def handle_mempool_rejected_def
        handle_validation_block_connected_def Let_def,
      (rule exI, rule conjI [OF _ refl], simp add: set_conn_data1_def set_conn_data2_def
        Connection_zero_def Connection_wf_def InboundConnection_wf_def OutboundConnection_wf_def
        ClosedConnection_wf_def MisbehavingConnection_wf_def MempoolAdded_wf_def MempoolRemoved_wf_def
        MempoolReplaced_wf_def MempoolRejected_wf_def BlockConnected_wf_def
        length_probe_user [OF env(1)] length_probe_user_str [OF env(1)] macro_defs)+)

lemma run_hits_records:
  assumes env: "probe_ok env mem" "reserve_ok env"
  shows "d \<in> set (delivered r (run_hits env hs tr)) \<Longrightarrow> d \<notin> set (delivered r tr) \<Longrightarrow> record_ok r d"
proof (induction hs arbitrary: tr)
  case (Cons h hs)
  then show ?case
    using hit_records [OF env] by (cases "d \<in> set (delivered r (snd (invoke env h tr)))") auto
qed simp

section \<open>Every record is decoded\<close>

lemma length_zeroed_layouts:
  "length (zeroed InboundConnection_layout) = 112"
  "length (zeroed OutboundConnection_layout) = 112"
  "length (zeroed ClosedConnection_layout) = 112"
  "length (zeroed MisbehavingConnection_layout) = 136"
  "length (zeroed MempoolAdded_layout) = 48"
  "length (zeroed MempoolRemoved_layout) = 64"
  "length (zeroed MempoolReplaced_layout) = 112"
  "length (zeroed BlockConnected_layout) = 72"
  by (simp_all add: length_zeroed layout_simps del: sizeof.simps)

lemma handler_objects_decode:
  "InboundConnection_wf xinbound \<Longrightarrow>
   InboundConnection_from_bytes (InboundConnection_image xinbound (zeroed InboundConnection_layout)) \<noteq> Inl f"
  "OutboundConnection_wf xoutbound \<Longrightarrow>
   OutboundConnection_from_bytes (OutboundConnection_image xoutbound (zeroed OutboundConnection_layout)) \<noteq> Inl f"
  "ClosedConnection_wf xclosed \<Longrightarrow>
   ClosedConnection_from_bytes (ClosedConnection_image xclosed (zeroed ClosedConnection_layout)) \<noteq> Inl f"
  "MisbehavingConnection_wf xmisbehaving \<Longrightarrow>
   MisbehavingConnection_from_bytes (MisbehavingConnection_image xmisbehaving (zeroed MisbehavingConnection_layout)) \<noteq> Inl f"
  "MempoolAdded_wf xadded \<Longrightarrow>
   MempoolAdded_from_bytes (MempoolAdded_image xadded (zeroed MempoolAdded_layout)) \<noteq> Inl f"
  "MempoolRemoved_wf xremoved \<Longrightarrow>
   MempoolRemoved_from_bytes (MempoolRemoved_image xremoved (zeroed MempoolRemoved_layout)) \<noteq> Inl f"
  "MempoolReplaced_wf xreplaced \<Longrightarrow>
   MempoolReplaced_from_bytes (MempoolReplaced_image xreplaced (zeroed MempoolReplaced_layout)) \<noteq> Inl f"
  "BlockConnected_wf xblock_connected \<Longrightarrow>
   ValidationBlockConnected_from_bytes (BlockConnected_image xblock_connected (zeroed BlockConnected_layout)) \<noteq> Inl f"
  subgoal
    using inbound_ch.decode_exact [of xinbound "zeroed InboundConnection_layout"]
    by (auto simp: decode_inbound_def length_zeroed_layouts)
  subgoal
    using outbound_ch.decode_exact [of xoutbound "zeroed OutboundConnection_layout"]
    by (auto simp: decode_outbound_def length_zeroed_layouts)
  subgoal
    using closed_ch.decode_exact [of xclosed "zeroed ClosedConnection_layout"]
    by (auto simp: decode_closed_def length_zeroed_layouts)
  subgoal
    using misbehaving_ch.decode_exact [of xmisbehaving "zeroed MisbehavingConnection_layout"]
    by (auto simp: decode_misbehaving_def length_zeroed_layouts)
  subgoal
    using added_ch.decode_exact [of xadded "zeroed MempoolAdded_layout"]
    by (auto simp: decode_added_def length_zeroed_layouts)
  subgoal
    using removed_ch.decode_exact [of xremoved "zeroed MempoolRemoved_layout"]
    by (auto simp: decode_removed_def length_zeroed_layouts)
  subgoal
    using replaced_ch.decode_exact [of xreplaced "zeroed MempoolReplaced_layout"]
    by (auto simp: decode_replaced_def length_zeroed_layouts)
  subgoal
    using block_connected_ch.decode_exact [of xblock_connected "zeroed BlockConnected_layout"]
    by (auto simp: decode_block_connected_def length_zeroed_layouts)
  done

lemma record_ok_callback:
  assumes "record_ok r d" and "r \<noteq> mempool_rejected"
  shows "\<exists>res. run_callback rb (ring_callback r) d now = Inr res"
proof -
  have msg: "\<exists>res. rs_handle_net_message rb (P2PMessage_image (P2PMessage_layout cap) m old) now = Inr res"
    if "P2PMessage_fits cap m" "length old = 120 + cap" for cap m old
    using p2p_ch.decode_exact [OF that] by (auto simp: rs_handle_net_message_def split: sum.split)
  note msgs = msg [of MAX_SMALL_MSG_LENGTH, folded SmallP2PMessage_def]
    msg [of MAX_MEDIUM_MSG_LENGTH, folded MediumP2PMessage_def]
    msg [of MAX_LARGE_MSG_LENGTH, folded LargeP2PMessage_def]
    msg [of MAX_HUGE_MSG_LENGTH, folded HugeP2PMessage_def]
  note handlers = rs_handle_net_conn_inbound_def rs_handle_net_conn_outbound_def
    rs_handle_net_conn_closed_def rs_handle_net_conn_inbound_evicted_def
    rs_handle_net_conn_misbehaving_def rs_handle_mempool_added_def rs_handle_mempool_removed_def
    rs_handle_mempool_replaced_def rs_handle_validation_block_connected_def
  show ?thesis
  proof (cases r)
    case net_msg_small
    then show ?thesis using assms msgs(1) by auto
  next
    case net_msg_medium
    then show ?thesis using assms msgs(2) by auto
  next
    case net_msg_large
    then show ?thesis using assms msgs(3) by auto
  next
    case net_msg_huge
    then show ?thesis using assms msgs(4) by auto
  qed (use assms in \<open>auto simp: handlers handler_objects_decode split: sum.split\<close>)
qed

text \<open>C5: No callback ever panics, reads past its record, or creates an invalid value on a record
  the BPF program wrote: for every sequence of tracepoint hits, whatever strings and sizes
  bitcoind passes, every record in every ring buffer is decoded without a fault. The one
  exception is the ring buffer of rejected transactions, whose callback over-reads.\<close>

theorem callbacks_never_fault:
  assumes "probe_ok env mem" and "reserve_ok env" and "r \<noteq> mempool_rejected"
  shows "list_all (\<lambda>d. is_ok (run_callback rb (ring_callback r) d now))
     (delivered r (run_hits env hs []))"
  unfolding list_all_iff
proof
  fix d
  assume "d \<in> set (delivered r (run_hits env hs []))"
  then have "record_ok r d" using run_hits_records [OF assms(1,2)] by simp
  then show "is_ok (run_callback rb (ring_callback r) d now)"
    using record_ok_callback [OF _ assms(3)] by (simp add: is_ok_iff)
qed

theorem callbacks_never_fault_witness:
  "list_all (\<lambda>d. is_ok (run_callback
       (\<lparr>rb_decode = \<lambda>raw. Inl (), sha256d = \<lambda>bs. []\<rparr> :: (nat, unit) rust_bitcoin)
       (ring_callback mempool_added) d (Some 0)))
     (delivered mempool_added
       (run_hits (ref_env demo_mem 0xFF) [HitMempoolAdded 0x5000 1 2, HitMempoolAdded 0 3 4] []))"
  by (rule callbacks_never_fault [OF ref_probe_ok ref_reserve_ok]) simp

section \<open>The handlers and the ring buffers\<close>

text \<open>C40: The two P2P message handlers, written out for four message classes each, are one routine:
  pick the smallest class whose payload length covers the message, reserve a record of 120 bytes
  of metadata plus that length, fill it and submit it, or log and return -1. They differ in the
  direction flag and the log text only; copying the message type twice, as the medium class does,
  is part of the reference too.\<close>

theorem net_msg_handlers_equal:
  "handle_net_msg_inbound env tr id' addr conn_type mtype sz pay =
     net_msg_handler True env tr id' addr conn_type mtype sz pay \<and>
   handle_net_msg_outbound env tr id' addr conn_type mtype sz pay =
     net_msg_handler False env tr id' addr conn_type mtype sz pay"
  by (simp add: inbound_eq_handler outbound_eq_handler)

text \<open>A message larger than 4,194,304 bytes is dropped in both directions: the handler returns
  -1, no ring buffer changes, no reservation is made, and only a log line is written.\<close>

theorem too_large_dropped:
  assumes "4194304 < unat sz"
  shows "handle_net_msg_inbound env tr id' addr conn_type mtype sz pay =
       (- 1, tr @ [Printk ''inbound msg: return -1.( msg size is %d'' sz]) \<and>
     handle_net_msg_outbound env tr id' addr conn_type mtype sz pay =
       (- 1, tr @ [Printk ''outbound msg: return -1. msg size is %d'' sz])"
proof -
  have "msg_class sz = None" using assms by (simp add: msg_class_None macro_defs)
  then show ?thesis
    by (simp add: inbound_eq_handler outbound_eq_handler net_msg_handler_def give_up_def
        direction_name_def bpf_printk_def)
qed

theorem too_large_dropped_witness:
  "handle_net_msg_inbound (ref_env demo_mem 0) [] 1 2 3 4 4194305 5 =
       (- 1, [] @ [Printk ''inbound msg: return -1.( msg size is %d'' 4194305]) \<and>
     handle_net_msg_outbound (ref_env demo_mem 0) [] 1 2 3 4 4194305 5 =
       (- 1, [] @ [Printk ''outbound msg: return -1. msg size is %d'' 4194305])"
  by (rule too_large_dropped) simp

text \<open>When the ring buffer of the message's class is full the message is lost, never corrupted:
  the handler returns -1 and no ring buffer gets a record. It does not fall back to a larger
  class.\<close>

theorem full_ring_drops:
  assumes "\<not> can_reserve env tr sz"
  shows "fst (handle_net_msg_inbound env tr id' addr conn_type mtype sz pay) = - 1 \<and>
     delivered r (snd (handle_net_msg_inbound env tr id' addr conn_type mtype sz pay)) = delivered r tr \<and>
     fst (handle_net_msg_outbound env tr id' addr conn_type mtype sz pay) = - 1 \<and>
     delivered r (snd (handle_net_msg_outbound env tr id' addr conn_type mtype sz pay)) = delivered r tr"
  using assms
  by (auto simp: inbound_eq_handler outbound_eq_handler net_msg_handler_def give_up_def bpf_printk_def
      bpf_ringbuf_reserve_def can_reserve_def Let_def split: option.splits)

theorem full_ring_drops_witness:
  "let env = (ref_env demo_mem 0)\<lparr>reserve_result := \<lambda>tr r sz flags. None\<rparr>
   in fst (handle_net_msg_inbound env [] 7 0x1000 0x2000 0x3000 8 0x4000) = - 1 \<and>
      delivered net_msg_small (snd (handle_net_msg_inbound env [] 7 0x1000 0x2000 0x3000 8 0x4000)) =
        delivered net_msg_small [] \<and>
      fst (handle_net_msg_outbound env [] 7 0x1000 0x2000 0x3000 8 0x4000) = - 1 \<and>
      delivered net_msg_small (snd (handle_net_msg_outbound env [] 7 0x1000 0x2000 0x3000 8 0x4000)) =
        delivered net_msg_small []"
  unfolding Let_def
  by (rule full_ring_drops) (simp add: can_reserve_def msg_class_def macro_defs)

text \<open>C32: The BPF program leaks no ring buffer reservation: over every sequence of tracepoint hits,
  with reservations granted or refused in any way, the number of reserved but not submitted
  records of every ring buffer is unchanged.\<close>

theorem no_reservation_leaks: "outstanding r (run_hits env hs tr) = outstanding r tr"
  by (rule run_hits_balanced)

text \<open>A ring buffer gets at most one record per hit, only from hits of its own tracepoints, and
  records already in it are never changed or reordered: over every sequence of hits the ring
  buffer's contents grow by at most the number of hits that may write it.\<close>

theorem rings_grow_by_hits:
  "\<exists>new. delivered r (run_hits env hs tr) = delivered r tr @ new \<and>
     length new \<le> length (filter (\<lambda>h. r \<in> hit_rings h) hs)"
  by (rule run_hits_delivered)

end
