(* ===== verification/Refinement.thy ===== *)
theory Refinement
  imports Pipeline HandlerDelivery
begin

text \<open>
  The whole path against an abstract specification. The specification of a tracepoint hit is the
  ring buffer it goes to and what the subscribers see of it, read off bitcoind's memory: no
  structs, no bytes, no layouts. The program, run on any sequence of hits with room in the ring
  buffers, produces for every ring buffer exactly the specified results, in order.
\<close>

section \<open>The specification of a hit\<close>

text \<open>The ring buffer of a hit; a message beyond the largest class has none.\<close>

fun hit_ring :: "hit \<Rightarrow> ring option" where
  "hit_ring (HitMsgInbound i a c t n p) = map_option fst (msg_class n)"
| "hit_ring (HitMsgOutbound i a c t n p) = map_option fst (msg_class n)"
| "hit_ring (HitConnInbound i a t n e) = Some net_conn_inbound"
| "hit_ring (HitConnOutbound i a t n e) = Some net_conn_outbound"
| "hit_ring (HitConnClosed i a t n e) = Some net_conn_closed"
| "hit_ring (HitConnEvicted i a t n e) = Some net_conn_inbound_evicted"
| "hit_ring (HitConnMisbehaving i m) = Some net_conn_misbehaving"
| "hit_ring (HitMempoolAdded x v f) = Some mempool_added"
| "hit_ring (HitMempoolRemoved x r v f e) = Some mempool_removed"
| "hit_ring (HitMempoolReplaced x v f e y w g b) = Some mempool_replaced"
| "hit_ring (HitMempoolRejected x r) = Some mempool_rejected"
| "hit_ring (HitBlockConnected h k t i s c) = Some validation_block_connected"

text \<open>The result of a callback that publishes one event at the time \<open>t\<close>.\<close>

definition published :: "Subject \<Rightarrow> 'm EbpfEvent \<Rightarrow> nat \<Rightarrow> 'm callback_result" where
  "published subject ev t = Inr (RINGBUFF_CALLBACK_OK,
     [(subject, \<lparr>timestamp = of_nat (t div 1000000), peer_observer_event = ev\<rparr>)])"

text \<open>The strings and the payload of a P2P message, and its result as a function of the time.\<close>

definition message_spec ::
  "('m, 'e) rust_bitcoin \<Rightarrow> user_mem \<Rightarrow> bool \<Rightarrow> u64 \<Rightarrow> u64 \<Rightarrow> u64 \<Rightarrow> u64 \<Rightarrow> u64 \<Rightarrow> u64 \<Rightarrow>
   (nat \<Rightarrow> 'm callback_result) \<Rightarrow> bool" where
  "message_spec rb mem inbound i a c t n p res \<longleftrightarrow>
     msg_class n = None \<or>
     (\<exists>addr ctype mtype bs. user_cstr_at mem a addr \<and> user_cstr_at mem c ctype \<and>
        user_cstr_at mem t mtype \<and> user_bytes_at mem p bs \<and> length bs = unat n \<and>
        res = message_result
          (expected_metadata i inbound n addr ctype (take (MAX_MSG_TYPE_LENGTH - 1) mtype))
          (expected_msg rb (take (MAX_MSG_TYPE_LENGTH - 1) mtype) n bs))"

definition conn_spec ::
  "user_mem \<Rightarrow> u64 \<Rightarrow> u64 \<Rightarrow> u64 \<Rightarrow> u64 \<Rightarrow> (Connection_pb \<Rightarrow> ConnectionEvent) \<Rightarrow>
   (nat \<Rightarrow> 'm callback_result) \<Rightarrow> bool" where
  "conn_spec mem i a t n ev res \<longleftrightarrow>
     (\<exists>addr ctype. user_cstr_at mem a addr \<and> user_cstr_at mem t ctype \<and>
        res = published NetConn (ConnectionEv (ev (expected_connection i addr ctype n))))"

text \<open>\<open>hit_spec rb mem h res\<close>: the subscribers see \<open>res\<close> of the hit \<open>h\<close>.\<close>

fun hit_spec ::
  "('m, 'e) rust_bitcoin \<Rightarrow> user_mem \<Rightarrow> hit \<Rightarrow> (nat \<Rightarrow> 'm callback_result) \<Rightarrow> bool" where
  "hit_spec rb mem (HitMsgInbound i a c t n p) res = message_spec rb mem True i a c t n p res"
| "hit_spec rb mem (HitMsgOutbound i a c t n p) res = message_spec rb mem False i a c t n p res"
| "hit_spec rb mem (HitConnInbound i a t n e) res =
     conn_spec mem i a t n (\<lambda>c. ConnInbound \<lparr>pi_conn = c, pi_existing_connections = e\<rparr>) res"
| "hit_spec rb mem (HitConnOutbound i a t n e) res =
     conn_spec mem i a t n (\<lambda>c. ConnOutbound \<lparr>po_conn = c, po_existing_connections = e\<rparr>) res"
| "hit_spec rb mem (HitConnClosed i a t n e) res =
     conn_spec mem i a t n (\<lambda>c. Closed \<lparr>pcl_conn = c, pcl_time_established = e\<rparr>) res"
| "hit_spec rb mem (HitConnEvicted i a t n e) res =
     conn_spec mem i a t n (\<lambda>c. InboundEvicted \<lparr>pe_conn = c, pe_time_established = e\<rparr>) res"
| "hit_spec rb mem (HitConnMisbehaving i m) res =
     (\<exists>s. user_cstr_at mem m s \<and> res = published NetConn (ConnectionEv (Misbehaving
        \<lparr>pm_id = i, pm_message = from_utf8_lossy (take (MAX_MISBEHAVING_MESSAGE_LENGTH - 1) s)\<rparr>)))"
| "hit_spec rb mem (HitMempoolAdded x v f) res =
     (\<exists>txid. user_bytes_at mem x txid \<and> length txid = 32 \<and>
        res = published Mempool (MempoolEv (Added \<lparr>pa_txid = txid, pa_vsize = v, pa_fee = f\<rparr>)))"
| "hit_spec rb mem (HitMempoolRemoved x r v f e) res =
     (\<exists>txid s. user_bytes_at mem x txid \<and> length txid = 32 \<and> user_cstr_at mem r s \<and>
        res = published Mempool (MempoolEv (Removed
          \<lparr>pr_txid = txid, pr_reason = from_utf8_lossy (take (REMOVAL_REASON_LENGTH - 1) s),
           pr_vsize = v, pr_fee = f, pr_entry_time = e\<rparr>)))"
| "hit_spec rb mem (HitMempoolReplaced x v f e y w g b) res =
     (\<exists>txid rid. user_bytes_at mem x txid \<and> length txid = 32 \<and>
        user_bytes_at mem y rid \<and> length rid = 32 \<and>
        res = published Mempool (MempoolEv (Replaced
          \<lparr>pp_replaced_txid = txid, pp_replaced_vsize = v, pp_replaced_fee = f,
           pp_replaced_entry_time = e, pp_replacement_id = rid, pp_replacement_vsize = w,
           pp_replacement_fee = g, pp_replaced_by_transaction = b\<rparr>)))"
| "hit_spec rb mem (HitMempoolRejected x r) res = (res = (\<lambda>t. Inl OutOfBoundsRead))"
| "hit_spec rb mem (HitBlockConnected h k t i s c) res =
     (\<exists>hash. user_bytes_at mem h hash \<and> length hash = 32 \<and>
        res = published Validation (ValidationEv
          \<lparr>pb_hash = hash, pb_height = k, pb_transactions = t, pb_inputs = i, pb_sigops = s,
           pb_connection_time = c\<rparr>))"

text \<open>Ring buffers with room at every point of every run.\<close>

definition roomy :: "bpf_env \<Rightarrow> bool" where
  "roomy env \<longleftrightarrow> (\<forall>tr r. has_room env tr r) \<and>
     (\<forall>tr n. msg_class n \<noteq> None \<longrightarrow> can_reserve env tr n)"

section \<open>One hit\<close>

text \<open>A hit adds, to its ring buffer only, one record that its callback maps to the result.\<close>

definition adds_result ::
  "('m, 'e) rust_bitcoin \<Rightarrow> trace \<Rightarrow> trace \<Rightarrow> ring option \<Rightarrow> (nat \<Rightarrow> 'm callback_result) \<Rightarrow> bool" where
  "adds_result rb tr tr' target res \<longleftrightarrow>
     (\<exists>data. (\<forall>r. delivered r tr' = delivered r tr @ (if target = Some r then [data] else [])) \<and>
        (\<forall>r t. target = Some r \<longrightarrow> run_callback rb (ring_callback r) data (Some t) = res t))"

lemma adds_resultI:
  assumes "delivered q tr' = delivered q tr @ [data]"
    and "\<And>r. r \<noteq> q \<Longrightarrow> delivered r tr' = delivered r tr"
    and "\<And>t. run_callback rb (ring_callback q) data (Some t) = res t"
  shows "adds_result rb tr tr' (Some q) res"
  using assms unfolding adds_result_def by (intro exI [of _ data]) auto

lemma delivers_adds_result:
  assumes "delivers tr (invoke env h tr) q cb subject ev" and "hit_rings h = {q}"
    and "run_callback rb (ring_callback q) = cb"
  shows "adds_result rb tr (snd (invoke env h tr)) (Some q) (published subject ev)"
proof -
  obtain data where "delivered q (snd (invoke env h tr)) = delivered q tr @ [data]"
      and "\<And>t. publishes (cb data (Some t)) t subject ev"
    using assms(1) by (auto simp: delivers_def)
  then show ?thesis
    using any_hit.foreign_rings [of _ h env tr] assms(2,3)
    by (intro adds_resultI) (auto simp: publishes_def published_def)
qed

lemma msg_class_callback: "msg_class n = Some (r, cap, name) \<Longrightarrow> ring_callback r = cb_net_message"
  by (auto simp: msg_class_def split: if_splits)

lemma net_msg_handler_foreign:
  "map_option fst (msg_class n) \<noteq> Some r \<Longrightarrow>
   delivered r (snd (net_msg_handler inbound env tr i a c t n p)) = delivered r tr"
  by (cases "msg_class n")
    (auto simp: net_msg_handler_def give_up_def bpf_printk_def bpf_ringbuf_reserve_def
      bpf_ringbuf_submit_def Let_def split: option.splits)

lemma net_msg_adds_result:
  assumes "probe_ok env mem" and "reserve_ok env" and "roomy env"
    and "message_spec rb mem inbound i a c t n p res"
  shows "adds_result rb tr (snd (net_msg_handler inbound env tr i a c t n p))
    (map_option fst (msg_class n)) res"
proof (cases "msg_class n")
  case None
  then show ?thesis by (simp add: adds_result_def net_msg_handler_foreign)
next
  case (Some x)
  obtain addr ctype mtype bs where at: "user_cstr_at mem a addr" "user_cstr_at mem c ctype"
      "user_cstr_at mem t mtype" "user_bytes_at mem p bs" "length bs = unat n"
    and res: "res = message_result
          (expected_metadata i inbound n addr ctype (take (MAX_MSG_TYPE_LENGTH - 1) mtype))
          (expected_msg rb (take (MAX_MSG_TYPE_LENGTH - 1) mtype) n bs)"
    using assms(4) Some by (auto simp: message_spec_def)
  have room: "can_reserve env tr n" using assms(3) Some unfolding roomy_def by blast
  obtain r cap name data where x: "msg_class n = Some (r, cap, name)"
    and data: "delivered r (snd (net_msg_handler inbound env tr i a c t n p)) = delivered r tr @ [data]"
    and cb: "\<And>u. rs_handle_net_message rb data (Some u) = res u"
    using net_msg_handler_delivers [OF assms(1,2) at room, of rb inbound i]
    by (auto simp: delivers_message_def res)
  have "adds_result rb tr (snd (net_msg_handler inbound env tr i a c t n p)) (Some r) res"
    by (rule adds_resultI [OF data])
      (simp_all add: net_msg_handler_foreign x msg_class_callback [OF x] cb)
  then show ?thesis by (simp add: x)
qed

lemma hit_adds_result:
  assumes "probe_ok env mem" and "reserve_ok env" and "roomy env" and spec: "hit_spec rb mem h res"
  shows "adds_result rb tr (snd (invoke env h tr)) (hit_ring h) res"
proof -
  have room: "has_room env tr r" for r using assms(3) by (simp add: roomy_def)
  note add = delivers_adds_result [of tr env h]
  show ?thesis
  proof (cases h)
    case (HitMsgInbound i a c t n p)
    then show ?thesis using spec net_msg_adds_result [OF assms(1-3)] by (simp add: inbound_eq_handler)
  next
    case (HitMsgOutbound i a c t n p)
    then show ?thesis using spec net_msg_adds_result [OF assms(1-3)] by (simp add: outbound_eq_handler)
  next
    case (HitConnInbound i a t n e)
    then show ?thesis
      using spec add conn_inbound_delivers [OF assms(1) _ _ room] by (fastforce simp: conn_spec_def)
  next
    case (HitConnOutbound i a t n e)
    then show ?thesis
      using spec add conn_outbound_delivers [OF assms(1) _ _ room] by (fastforce simp: conn_spec_def)
  next
    case (HitConnClosed i a t n e)
    then show ?thesis
      using spec add conn_closed_delivers [OF assms(1) _ _ room] by (fastforce simp: conn_spec_def)
  next
    case (HitConnEvicted i a t n e)
    then show ?thesis
      using spec add conn_evicted_delivers [OF assms(1) _ _ room] by (fastforce simp: conn_spec_def)
  next
    case (HitConnMisbehaving i m)
    then show ?thesis using spec add conn_misbehaving_delivers [OF assms(1) _ room] by fastforce
  next
    case (HitMempoolAdded x v f)
    then show ?thesis using spec add mempool_added_delivers [OF assms(1) _ _ room] by fastforce
  next
    case (HitMempoolRemoved x r v f e)
    then show ?thesis using spec add mempool_removed_delivers [OF assms(1) _ _ _ room] by fastforce
  next
    case (HitMempoolReplaced x v f e y w g b)
    then show ?thesis using spec add mempool_replaced_delivers [OF assms(1) _ _ _ _ room] by fastforce
  next
    case (HitMempoolRejected x r)
    obtain data where "delivered mempool_rejected (snd (invoke env h tr)) = delivered mempool_rejected tr @ [data]"
        and "\<And>t. (rs_handle_mempool_rejected data (Some t) :: 'a callback_result) = Inl OutOfBoundsRead"
      using mempool_rejected_overreads [OF assms(1) room] HitMempoolRejected by force
    then show ?thesis
      using spec any_hit.foreign_rings [of _ h env tr] HitMempoolRejected
      by (simp only: hit_ring.simps, intro adds_resultI [of _ _ _ data]) auto
  next
    case (HitBlockConnected b k t i s c)
    then show ?thesis using spec add block_connected_delivers [OF assms(1) _ _ room] by fastforce
  qed
qed

section \<open>Runs of hits\<close>

text \<open>What a ring buffer's callback is to return, in order: the results of the ring buffer's hits.\<close>

definition ring_results ::
  "ring \<Rightarrow> nat \<Rightarrow> (hit \<times> (nat \<Rightarrow> 'm callback_result)) list \<Rightarrow> 'm callback_result list" where
  "ring_results r t xs = map (\<lambda>(h, res). res t) (filter (\<lambda>(h, res). hit_ring h = Some r) xs)"

definition consumed ::
  "('m, 'e) rust_bitcoin \<Rightarrow> ring \<Rightarrow> nat \<Rightarrow> trace \<Rightarrow> 'm callback_result list" where
  "consumed rb r t tr = map (\<lambda>d. run_callback rb (ring_callback r) d (Some t)) (delivered r tr)"

lemma consumed_step:
  "adds_result rb tr tr' target res \<Longrightarrow>
   consumed rb r t tr' = consumed rb r t tr @ (if target = Some r then [res t] else [])"
  by (auto simp: adds_result_def consumed_def)

lemma run_hits_refines:
  assumes "probe_ok env mem" and "reserve_ok env" and "roomy env"
  shows "list_all (\<lambda>(h, res). hit_spec rb mem h res) xs \<Longrightarrow>
    consumed rb r t (run_hits env (map fst xs) tr) = consumed rb r t tr @ ring_results r t xs"
proof (induction xs arbitrary: tr)
  case (Cons x xs)
  obtain h res where x: "x = (h, res)" by (cases x)
  have "adds_result rb tr (snd (invoke env h tr)) (hit_ring h) res"
    by (rule hit_adds_result [OF assms]) (use Cons.prems in \<open>simp add: x\<close>)
  from consumed_step [OF this, of r t] show ?case
    using Cons.IH [of "snd (invoke env h tr)"] Cons.prems by (simp add: x ring_results_def)
qed (simp add: ring_results_def)

text \<open>C1: The pipeline refines its specification. Let any sequence of tracepoints of any kind fire, with
  readable arguments and room in the ring buffers. Then for every ring buffer, the callback
  draining it returns exactly the specified results of the hits that belong to it, in the order of
  the hits: every event is published once, complete, unmixed with others and in order (for the
  ring buffer of rejected transactions, the specified result is the over-read).\<close>

theorem pipeline_refines:
  assumes "probe_ok env mem" and "reserve_ok env" and "roomy env"
    and "list_all (\<lambda>(h, res). hit_spec rb mem h res) xs"
  shows "map (\<lambda>d. run_callback rb (ring_callback r) d (Some t))
      (delivered r (run_hits env (map fst xs) [])) =
    map (\<lambda>(h, res). res t) (filter (\<lambda>(h, res). hit_ring h = Some r) xs)"
  using run_hits_refines [OF assms, of r t "[]"] by (simp add: consumed_def ring_results_def)

definition demo_hits :: "(hit \<times> (nat \<Rightarrow> unit callback_result)) list" where
  "demo_hits =
     [(HitConnMisbehaving 1 0x3000,
        published NetConn (ConnectionEv (Misbehaving \<lparr>pm_id = 1, pm_message = ascii ''ping''\<rparr>))),
      (HitMempoolAdded 0x5000 141 1000,
        published Mempool (MempoolEv (Added \<lparr>pa_txid = replicate 32 7, pa_vsize = 141, pa_fee = 1000\<rparr>))),
      (HitConnMisbehaving 2 0x6000,
        published NetConn (ConnectionEv (Misbehaving \<lparr>pm_id = 2, pm_message = ascii ''expiry''\<rparr>)))]"

definition demo_decoder :: "(unit, unit) rust_bitcoin" where
  "demo_decoder = \<lparr>rb_decode = \<lambda>raw. Inl (), sha256d = \<lambda>bs. replicate 32 0\<rparr>"

lemma ref_roomy: "roomy (ref_env mem stale)"
  by (auto simp: roomy_def has_room_def can_reserve_def ref_env_def)

lemma demo_hits_spec: "list_all (\<lambda>(h, res). hit_spec demo_decoder demo_mem h res) demo_hits"
proof -
  have "hit_spec demo_decoder demo_mem (HitConnMisbehaving i p)
      (published NetConn (ConnectionEv (Misbehaving \<lparr>pm_id = i, pm_message = s\<rparr>)))"
    if "user_cstr_at demo_mem p s" "length s < 128" "\<forall>b \<in> set s. b < 0x80" for i p s
    using that by (auto simp: macro_defs from_utf8_lossy_ascii intro!: exI [of _ s])
  then show ?thesis
    using demo_strings(3,4) demo_bytes(2)
    by (simp add: demo_hits_def) (auto simp: ascii_def)
qed

theorem pipeline_refines_witness:
  "map (\<lambda>d. run_callback demo_decoder (ring_callback net_conn_misbehaving) d (Some 5000000))
      (delivered net_conn_misbehaving (run_hits (ref_env demo_mem 0) (map fst demo_hits) [])) =
    map (\<lambda>(h, res). res 5000000) (filter (\<lambda>(h, res). hit_ring h = Some net_conn_misbehaving) demo_hits)"
  by (rule pipeline_refines [OF ref_probe_ok ref_reserve_ok ref_roomy demo_hits_spec])

end
