(* ===== verification/DataProperties.thy ===== *)
theory DataProperties
  imports EndToEnd
begin

text \<open>
  Properties of the data the two halves share: the C structs and the Rust structs lay out the
  same, which strings survive the fixed-size arrays, what the decoded strings are, and what the
  ring buffer declarations ask for.
\<close>

section \<open>Layouts\<close>

text \<open>What a layout means on the wire: offset and size of every field, and the size of the whole.\<close>

definition layout_shape :: "cfield list \<Rightarrow> (nat \<times> nat) list \<times> nat" where
  "layout_shape fs = (map snd (field_table 0 fs), sizeof (Struct fs))"

text \<open>C7: The C structs of the BPF program and the Rust structs that reinterpret their bytes agree on
  the offset and size of every field and on the total size, for all structs but
  MempoolRejected, whose reason array is five bytes longer in Rust.\<close>

theorem c_and_rust_layouts:
  "layout_shape Metadata_layout = layout_shape P2PMessageMetadata_layout \<and>
   layout_shape Connection_layout = layout_shape Connection_rs_layout \<and>
   layout_shape ClosedConnection_layout = layout_shape ClosedConnection_rs_layout \<and>
   layout_shape InboundConnection_layout = layout_shape InboundConnection_rs_layout \<and>
   layout_shape OutboundConnection_layout = layout_shape OutboundConnection_rs_layout \<and>
   layout_shape MisbehavingConnection_layout = layout_shape MisbehavingConnection_rs_layout \<and>
   layout_shape MempoolAdded_layout = layout_shape MempoolAdded_rs_layout \<and>
   layout_shape MempoolRemoved_layout = layout_shape MempoolRemoved_rs_layout \<and>
   layout_shape MempoolReplaced_layout = layout_shape MempoolReplaced_rs_layout \<and>
   layout_shape BlockConnected_layout = layout_shape ValidationBlockConnected_layout \<and>
   layout_shape MempoolRejected_layout = ([(0, 32), (32, 113)], 145) \<and>
   layout_shape MempoolRejected_rs_layout = ([(0, 32), (32, 118)], 150)"
  by (simp add: layout_shape_def layout_simps MempoolRejected_rs_layout_table
      MempoolRejected_rs_layout_size del: sizeof.simps)

section \<open>Strings in fixed-size arrays\<close>

text \<open>
  A string survives the trip through a character array exactly when it leaves room for the NUL.
\<close>

lemma str_into_survives:
  assumes "0 < length dst" and "0 \<notin> set s"
  shows "cstr (str_into dst s) = s \<longleftrightarrow> length s < length dst"
proof -
  have "take (length dst - 1) s = s \<longleftrightarrow> length s \<le> length dst - 1"
    by (simp add: take_all_iff)
  then show ?thesis using assms(1) cstr_str_into [OF assms] by (cases dst) auto
qed

text \<open>C38: The strings of a P2P message survive their arrays exactly when they are shorter than the
  array: an address of up to 67 bytes, a connection type of up to 19, a message type of up to 11.
  The NUL takes the last byte, so a 12-byte command is cut, and so is a Tor v3 address with a
  five-digit port (68 bytes).\<close>

theorem message_strings_survive_iff:
  assumes "probe_ok env mem" and "Metadata_wf m"
    and "user_cstr_at mem addr a" and "user_cstr_at mem conn_type c" and "user_cstr_at mem mtype t"
  shows "(cstr (md_addr (set_meta_data2 env m addr conn_type mtype)) = a \<longleftrightarrow> length a < 68) \<and>
     (cstr (md_conn_type (set_meta_data2 env m addr conn_type mtype)) = c \<longleftrightarrow> length c < 20) \<and>
     (cstr (md_msg_type (set_meta_data2 env m addr conn_type mtype)) = t \<longleftrightarrow> length t < 12)"
proof -
  have len: "length (md_addr m) = 68" "length (md_conn_type m) = 20" "length (md_msg_type m) = 12"
    using assms(2) by (simp_all add: Metadata_wf_def macro_defs)
  note nul = assms(3,4,5) [THEN user_cstr_no_nul]
  show ?thesis
    unfolding set_meta_data2_strings [OF assms]
    using str_into_survives [of "md_addr m" a] str_into_survives [of "md_conn_type m" c]
      str_into_survives [of "md_msg_type m" t] len nul by simp
qed

definition long_mem :: user_mem where
  "long_mem = place
     [(0x1000, replicate 62 0x61 @ ascii '':18333'' @ [0]), (0x2000, ascii ''outbound-full-relay'' @ [0]),
      (0x3000, ascii ''getcfcheckpt'' @ [0])]"

lemma long_strings:
  "user_cstr_at long_mem 0x1000 (replicate 62 0x61 @ ascii '':18333'')"
  "user_cstr_at long_mem 0x2000 (ascii ''outbound-full-relay'')"
  "user_cstr_at long_mem 0x3000 (ascii ''getcfcheckpt'')"
  unfolding user_cstr_at_def long_mem_def
  by (simp add: ascii_def, (intro place_here place_above; simp add: ascii_def)?)+

definition empty_meta :: Metadata where
  "empty_meta = \<lparr>md_id = 0, md_addr = replicate 68 0, md_conn_type = replicate 20 0,
     md_msg_type = replicate 12 0, md_msg_inbound = False, md_msg_size = 0\<rparr>"

theorem message_strings_survive_iff_witness:
  "let md = set_meta_data2 (ref_env long_mem 0) empty_meta 0x1000 0x2000 0x3000
   in cstr (md_addr md) \<noteq> replicate 62 0x61 @ ascii '':18333'' \<and>
      cstr (md_conn_type md) = ascii ''outbound-full-relay'' \<and>
      cstr (md_msg_type md) \<noteq> ascii ''getcfcheckpt''"
  using message_strings_survive_iff [OF ref_probe_ok [of long_mem 0] _ long_strings, of empty_meta]
  by (simp add: Let_def empty_meta_def Metadata_wf_def macro_defs)

text \<open>A removal reason is reported in full exactly when it has at most eight bytes, and a
  rejection reason when it has at most 112: the reason sizelimit of bitcoind is published as
  sizelimi.\<close>

theorem reasons_survive_iff:
  assumes "probe_ok env mem" and "user_cstr_at mem reason s"
  shows "(chars_to_string (bpf_probe_read_user_str env (replicate REMOVAL_REASON_LENGTH 0) reason) =
        from_utf8_lossy (take 8 s)) \<and>
     (cstr (bpf_probe_read_user_str env (replicate REMOVAL_REASON_LENGTH 0) reason) = s \<longleftrightarrow>
        length s \<le> 8) \<and>
     (cstr (bpf_probe_read_user_str env (replicate REJECTION_REASON_LENGTH 0) reason) = s \<longleftrightarrow>
        length s \<le> 112)"
  using user_cstr_no_nul [OF assms(2)] str_into_survives [of "replicate 9 0" s]
    str_into_survives [of "replicate 113 0" s]
  by (auto simp: probe_user_str_into [OF assms(1) _ _ assms(2)] chars_str_into macro_defs)

definition sizelimit_mem :: user_mem where
  "sizelimit_mem = place [(0x1000, ascii ''sizelimit'' @ [0])]"

theorem reasons_survive_iff_witness:
  "chars_to_string (bpf_probe_read_user_str (ref_env sizelimit_mem 0) (replicate REMOVAL_REASON_LENGTH 0) 0x1000)
     = ascii ''sizelimi''"
proof -
  have "user_cstr_at sizelimit_mem 0x1000 (ascii ''sizelimit'')"
    unfolding user_cstr_at_def sizelimit_mem_def by (simp add: ascii_def)
  then show ?thesis
    using reasons_survive_iff [OF ref_probe_ok [of sizelimit_mem 0]]
    by (simp add: ascii_def from_utf8_lossy_ascii)
qed

text \<open>
  Whatever bytes bitcoind passed, a published string is valid UTF-8, and decoding it again changes
  nothing.
\<close>

lemma published_strings_valid:
  "utf8_valid (chars_to_string cs)" "from_utf8_lossy (chars_to_string cs) = chars_to_string cs"
  by (simp_all add: chars_to_string_def utf8_valid_from_utf8_lossy from_utf8_lossy_valid)

section \<open>Connection types\<close>

text \<open>The names bitcoind gives the connection types.\<close>

fun conn_type_name :: "ConnType \<Rightarrow> string" where
  "conn_type_name Unknown = ''''"
| "conn_type_name Inbound = ''inbound''"
| "conn_type_name OutboundFullRelay = ''outbound-full-relay''"
| "conn_type_name BlockRelayOnly = ''block-relay-only''"
| "conn_type_name Feeler = ''feeler''"
| "conn_type_name Manual = ''manual''"
| "conn_type_name AddrFetch = ''addr-fetch''"
| "conn_type_name PrivateBroadcast = ''private-broadcast''"

text \<open>Every connection type of bitcoind is recognised: its name fits the 20-byte array of the C
  structs (the longest one just so), and reading it back gives that type, whatever the array held
  before; distinct types get distinct protobuf numbers.\<close>

theorem connection_types_roundtrip:
  assumes "length dst = MAX_PEER_CONN_TYPE_LENGTH"
  shows "ConnType_from (chars_to_string (str_into dst (ascii (conn_type_name ct)))) = ct \<and>
     (ConnType_i32 ct = ConnType_i32 ct' \<longrightarrow> ct = ct')"
proof
  have dst: "0 < length dst" using assms by (simp add: macro_defs flip: length_greater_0_conv)
  have "0 \<notin> set (ascii (conn_type_name ct))" by (cases ct) (simp_all add: ascii_def)
  moreover have "take (length dst - 1) (ascii (conn_type_name ct)) = ascii (conn_type_name ct)"
    using assms by (cases ct) (simp_all add: macro_defs)
  moreover have "\<forall>b \<in> set (ascii (conn_type_name ct)). b < 0x80"
    by (cases ct) (simp_all add: ascii_def)
  ultimately have "chars_to_string (str_into dst (ascii (conn_type_name ct))) = ascii (conn_type_name ct)"
    using dst by (simp add: chars_str_into from_utf8_lossy_ascii)
  moreover have "ConnType_from (ascii (conn_type_name ct)) = ct"
    by (cases ct) (simp_all add: ConnType_from_def ascii_def)
  ultimately show "ConnType_from (chars_to_string (str_into dst (ascii (conn_type_name ct)))) = ct"
    by simp
  show "ConnType_i32 ct = ConnType_i32 ct' \<longrightarrow> ct = ct'"
    by (cases ct; cases ct') simp_all
qed

theorem connection_types_roundtrip_witness:
  "ConnType_from (chars_to_string (str_into (replicate 20 0xFF) (ascii ''outbound-full-relay''))) =
     OutboundFullRelay"
  using connection_types_roundtrip [of "replicate 20 0xFF" OutboundFullRelay] by (simp add: macro_defs)

section \<open>Capacity of the ring buffers\<close>

text \<open>The size of the largest record of a ring buffer.\<close>

fun record_size :: "ring \<Rightarrow> nat" where
  "record_size net_msg_small = sizeof (Struct SmallP2PMessage)"
| "record_size net_msg_medium = sizeof (Struct MediumP2PMessage)"
| "record_size net_msg_large = sizeof (Struct LargeP2PMessage)"
| "record_size net_msg_huge = sizeof (Struct HugeP2PMessage)"
| "record_size net_conn_inbound = sizeof (Struct InboundConnection_layout)"
| "record_size net_conn_outbound = sizeof (Struct OutboundConnection_layout)"
| "record_size net_conn_closed = sizeof (Struct ClosedConnection_layout)"
| "record_size net_conn_inbound_evicted = sizeof (Struct ClosedConnection_layout)"
| "record_size net_conn_misbehaving = sizeof (Struct MisbehavingConnection_layout)"
| "record_size mempool_added = sizeof (Struct MempoolAdded_layout)"
| "record_size mempool_removed = sizeof (Struct MempoolRemoved_layout)"
| "record_size mempool_replaced = sizeof (Struct MempoolReplaced_layout)"
| "record_size mempool_rejected = sizeof (Struct MempoolRejected_layout)"
| "record_size validation_block_connected = sizeof (Struct BlockConnected_layout)"

text \<open>The page macros reach max_entries as a number of bytes: every ring buffer of connection,
  mempool and validation events declares 64 bytes, less than one page, and for all of them but
  two that is less than a single record; a P2P message ring buffer declares at least 127 records
  of its class. No declaration is a multiple of the page size, so each relies on the loader to
  round it up.\<close>

theorem declared_capacities:
  "(if r \<in> {net_msg_small, net_msg_medium, net_msg_large, net_msg_huge}
    then 127 * record_size r \<le> max_entries r
    else max_entries r = 64 \<and> (record_size r \<le> max_entries r \<longleftrightarrow> r \<in> {mempool_added, mempool_removed})) \<and>
   \<not> PAGE_SIZE dvd max_entries r"
  by (cases r) (simp_all add: layout_simps macro_defs del: sizeof.simps)

end
