(* ===== verification/ListenerProperties.thy ===== *)
theory ListenerProperties
  imports Pipeline
begin

text \<open>
  Properties of the extractor's startup and of its run loop, with concrete instances: finding the
  process, initialising the listener, when the loop ends, when it must not, and what every
  reachable state satisfies.
\<close>

section \<open>A concrete world\<close>

definition demo_args :: Args where
  "demo_args =
     \<lparr>bitcoind_pid_arg = None, bitcoind_pid_file = Some [112],
      no_p2pmsg_tracepoints = False, no_connection_tracepoints = False,
      no_mempool_tracepoints = False, no_validation_tracepoints = False, no_idle_exit = False\<rparr>"

text \<open>The pid file holds 42 and a newline, and process 42 runs.\<close>

definition demo_os :: os where
  "demo_os = \<lparr>read_file = \<lambda>f. Content [52, 50, 10], process_exists = \<lambda>p. p = 42\<rparr>"

definition demo_lib :: libbpf where
  "demo_lib =
     \<lparr>object_loads = True, has_map = \<lambda>r. True, add_succeeds = \<lambda>r. True, has_prog = \<lambda>f. True,
      attach_succeeds = \<lambda>p t. True, build_succeeds = True\<rparr>"

definition demo_listener :: listener where
  "demo_listener = \<lparr>l_pid = 42,
     l_callbacks = net_msg_group @ net_conn_group @ validation_group @ mempool_group,
     l_links = active_tracepoints demo_args\<rparr>"

lemma demo_pid: "try_get_running_process_pid demo_os demo_args = Inr 42"
  by (simp add: try_get_running_process_pid_def bitcoind_pid_def demo_os_def demo_args_def trim_def
      is_whitespace_def in_i32_def)

section \<open>Finding the process\<close>

text \<open>A pid file is read back exactly: for the pid bitcoind writes in decimal, followed by any
  white space such as a newline, the extractor finds that pid, for every pid a signed 32-bit
  integer holds; the pid on the command line takes precedence over the file.\<close>

theorem pid_file_roundtrip:
  assumes "bitcoind_pid_file args = Some path"
    and "read_file sys path = Content (decimal n @ post)"
    and "list_all is_whitespace post" and "int n < 2 ^ 31"
  shows "bitcoind_pid sys args =
     Inr (case bitcoind_pid_arg args of Some p \<Rightarrow> p | None \<Rightarrow> int n)"
  using assms(1,2) parse_i32_decimal [OF assms(4)]
  by (simp add: bitcoind_pid_def trim_decimal [OF assms(3)] split: option.split)

theorem pid_file_roundtrip_witness: "bitcoind_pid demo_os demo_args = Inr 42"
  using pid_file_roundtrip [of demo_args "[112]" demo_os 42 "[10]"]
  by (simp add: demo_args_def demo_os_def decimal.simps is_whitespace_def)

text \<open>What the loop treats as transient, and retries for ever, is exactly a pid file that cannot
  be opened and a pid without a running process; an unreadable file, contents that are not a
  signed 32-bit number, and missing arguments end the extractor. A pid taken from the file always
  fits 32 bits.\<close>

theorem pid_errors:
  "(\<exists>e. try_get_running_process_pid sys args = Inl e \<and> is_transient e) \<longleftrightarrow>
     (case bitcoind_pid_arg args of
        Some p \<Rightarrow> \<not> process_exists sys p
      | None \<Rightarrow>
          (case bitcoind_pid_file args of
             None \<Rightarrow> False
           | Some path \<Rightarrow>
               (case read_file sys path of
                  CannotOpen \<Rightarrow> True
                | CannotRead \<Rightarrow> False
                | Content c \<Rightarrow>
                    (case parse_i32 (trim c) of
                       None \<Rightarrow> False
                     | Some p \<Rightarrow> in_i32 p \<and> \<not> process_exists sys p))))"
  by (auto simp: try_get_running_process_pid_def bitcoind_pid_def dest: parse_i32_range
      split: option.splits file_result.splits)

section \<open>Initialising the listener\<close>

definition enabled_rings :: "Args \<Rightarrow> (ring \<times> callback) list" where
  "enabled_rings args =
     (if no_p2pmsg_tracepoints args then [] else net_msg_group) @
     (if no_connection_tracepoints args then [] else net_conn_group) @
     (if no_validation_tracepoints args then [] else validation_group) @
     (if no_mempool_tracepoints args then [] else mempool_group)"

lemma add_rings_Inr_iff:
  "add_rings lib grp = Inr cs \<longleftrightarrow> list_all (\<lambda>(r, cb). add_succeeds lib r) grp \<and> cs = grp"
  by (induction lib grp arbitrary: cs rule: add_rings.induct) (auto simp: bind_res_Inr)

lemma attach_all_Inr_iff:
  "attach_all lib p ts = Inr links \<longleftrightarrow>
     list_all (\<lambda>t. has_prog lib (tp_function t) \<and> attach_succeeds lib p t) ts \<and> links = ts"
  by (induction lib p ts arbitrary: links rule: attach_all.induct) (auto simp: bind_res_Inr)

lemma init_group_Inr_iff:
  "init_group lib disabled grp = Inr cs \<longleftrightarrow>
     list_all (has_map lib) (map fst grp) \<and>
     (\<not> disabled \<longrightarrow> list_all (\<lambda>(r, cb). add_succeeds lib r) grp) \<and> cs = (if disabled then [] else grp)"
  by (auto simp: init_group_def bind_res_Inr find_maps_Inr add_rings_Inr_iff)

lemma init_Inr_iff:
  "init_bpf_listener lib args p = Inr l \<longleftrightarrow>
     object_loads lib \<and> list_all (has_map lib) all_maps \<and>
     list_all (\<lambda>(r, cb). add_succeeds lib r) (enabled_rings args) \<and>
     list_all (\<lambda>t. has_prog lib (tp_function t) \<and> attach_succeeds lib p t) (active_tracepoints args) \<and>
     build_succeeds lib \<and>
     l = \<lparr>l_pid = p, l_callbacks = enabled_rings args, l_links = active_tracepoints args\<rparr>"
  by (auto simp: init_bpf_listener_def bind_res_Inr init_group_Inr_iff attach_all_Inr_iff
      all_maps_def enabled_rings_def)

text \<open>The listener is initialised exactly when the object loads, all fourteen maps exist (also
  those of disabled groups), a callback can be added for every ring buffer of an enabled group,
  every tracepoint of an enabled group has a program that attaches to the process, and the ring
  buffer manager builds; it then holds exactly those callbacks and links, for that process.\<close>

theorem init_bpf_listener_iff:
  "init_bpf_listener lib args p = Inr l \<longleftrightarrow>
     object_loads lib \<and> list_all (has_map lib) all_maps \<and>
     list_all (\<lambda>(r, cb). add_succeeds lib r) (enabled_rings args) \<and>
     list_all (\<lambda>t. has_prog lib (tp_function t) \<and> attach_succeeds lib p t) (active_tracepoints args) \<and>
     build_succeeds lib \<and>
     l = \<lparr>l_pid = p, l_callbacks = enabled_rings args, l_links = active_tracepoints args\<rparr>"
  by (rule init_Inr_iff)

lemma demo_init: "init_bpf_listener demo_lib demo_args 42 = Inr demo_listener"
  by (simp add: init_Inr_iff demo_lib_def demo_args_def demo_listener_def enabled_rings_def
      list_all_iff)

text \<open>No record is left without a reader: once the listener is initialised, every tracepoint it
  attached has a callback registered on each ring buffer its BPF handler may write, and it is the
  callback that decodes that ring buffer's struct.\<close>

theorem callbacks_cover_tracepoints:
  assumes "init_bpf_listener lib args p = Inr l"
    and "hit_function h \<in> set (map tp_function (l_links l))" and "r \<in> hit_rings h"
  shows "map_of (l_callbacks l) r = Some (ring_callback r)"
  using assms(2,3)
  by (cases h)
    (auto simp: init_bpf_listener_Inr [OF assms(1)] active_tracepoints_def TRACEPOINTS_NET_MESSAGE_def
      TRACEPOINTS_NET_CONN_def TRACEPOINTS_VALIDATION_def TRACEPOINTS_MEMPOOL_def net_msg_group_def
      net_conn_group_def validation_group_def mempool_group_def split: if_splits)

theorem callbacks_cover_tracepoints_witness:
  "map_of (l_callbacks demo_listener) net_msg_huge = Some cb_net_message"
  using callbacks_cover_tracepoints [OF demo_init, of "HitMsgOutbound 0 0 0 0 0 0" net_msg_huge]
  by (simp add: demo_listener_def demo_args_def active_tracepoints_def TRACEPOINTS_NET_MESSAGE_def)

section \<open>The run loop\<close>

text \<open>
  A tick in which the process answers, the clock stands at \<open>now\<close> throughout, and the poll returns
  \<open>n\<close>.
\<close>

definition demo_tick :: "int \<Rightarrow> nat \<Rightarrow> tick" where
  "demo_tick n now =
     \<lparr>t_shutdown = Unchanged, t_poll = n, t_now_poll = now, t_exists = \<lambda>p. p = 42, t_os = demo_os,
      t_libbpf = demo_lib, t_now_init = now, t_now_check = now, t_now_reset = now\<rparr>"

definition demo_state :: loop_state where
  "demo_state = \<lparr>pid = 42, attached = demo_listener, last_event_timestamp = 0,
     has_warned_about_no_events = False\<rparr>"

text \<open>Starting with every tracepoint group disabled ends the extractor at once without touching
  the process or the kernel, and nothing else makes it end without an error before its loop: any
  other failure to start is an error, including a bitcoind that is not running yet.\<close>

theorem start_returns_iff: "start sys connect lib now args = Return \<longleftrightarrow> no_tracepoints_enabled args"
  by (auto simp: start_def split: sum.splits)

text \<open>An iteration ends the extractor without error exactly when shutdown was signalled (or the
  sender is gone), or when idle exit is enabled, re-attaching did not fail, and at least 180
  seconds passed since the last activity: a positive poll, a re-attach, or the last reset. Failed
  polls, unparsable messages among them, do not count as activity.\<close>

theorem iteration_returns_iff:
  "snd (iteration args t s) = Return \<longleftrightarrow>
     should_stop (t_shutdown t) \<noteq> None \<or>
     (process_failure args t s = None \<and> \<not> no_idle_exit args \<and>
      last_activity args t s + 180 * 1000000000 \<le> t_now_check t)"
  by (auto simp: iteration_cases check_idle_Return checked_state_activity NO_EVENTS_ERROR_DURATION_def
      seconds_def split: option.split)

theorem iteration_returns_iff_witness:
  "snd (iteration demo_args (demo_tick (- 20) (seconds 180)) demo_state) = Return"
  by (rule iteration_returns_iff [THEN iffD2])
    (simp add: demo_tick_def demo_state_def demo_args_def should_stop_def process_failure_def
      process_gone_def last_activity_def seconds_def)

text \<open>An iteration fails exactly when, with no shutdown signalled, re-attaching after bitcoind
  went away fails for a reason that is not transient, or the clock is behind the last activity.
  A failing poll of the ring buffers never fails the extractor.\<close>

theorem iteration_fails_iff:
  "snd (iteration args t s) = Fail e \<longleftrightarrow>
     should_stop (t_shutdown t) = None \<and>
     (process_failure args t s = Some e \<or>
      (process_failure args t s = None \<and> t_now_check t < last_activity args t s \<and> e = ClockWentBack))"
  by (auto simp: iteration_cases check_idle_Fail checked_state_activity split: option.split)

text \<open>C37: Whatever the loop goes through, it either waits for bitcoind with pid 0 or watches the
  process its listener is attached to, and the listener always holds exactly the callbacks and
  tracepoints the arguments enable.\<close>

theorem loop_reachable_invariant:
  assumes "loop_reachable args s"
  shows "(pid s = 0 \<or> pid s = l_pid (attached s)) \<and>
     l_callbacks (attached s) = enabled_rings args \<and> l_links (attached s) = active_tracepoints args"
  using reachable_inv [OF assms] by (simp add: loop_inv_def attached_ok_def enabled_rings_def)

lemma demo_start:
  "start demo_os (\<lambda>_. Inr ()) demo_lib 0 demo_args = Continue demo_state"
  using demo_pid demo_init
  by (simp add: start_def no_tracepoints_enabled_def demo_state_def demo_listener_def demo_args_def)

theorem loop_reachable_invariant_witness:
  "l_callbacks (attached demo_state) = enabled_rings demo_args"
  using loop_reachable_invariant [OF loop_reachable.started [OF demo_start]] by simp

text \<open>When bitcoind is gone and a new process is found and attached to, the same iteration
  continues with the new listener, the new pid, a fresh activity time and no pending warning:
  the extractor survives a restart of bitcoind.\<close>

theorem reattaches:
  assumes "should_stop (t_shutdown t) = None" and "process_gone t s"
    and "try_get_running_process_pid (t_os t) args = Inr p"
    and "init_bpf_listener (t_libbpf t) args p = Inr l"
    and "t_now_init t \<le> t_now_check t" and "t_now_check t < t_now_init t + NO_EVENTS_WARN_DURATION"
  shows "snd (iteration args t s) =
     Continue \<lparr>pid = p, attached = l, last_event_timestamp = t_now_init t,
               has_warned_about_no_events = False\<rparr>"
proof -
  have pf: "process_failure args t s = None" and rr: "restart_result args t = Inr l"
    using assms(3,4) by (simp_all add: process_failure_def restart_result_def)
  have cs: "checked_state args t s = \<lparr>pid = p, attached = l, last_event_timestamp = t_now_init t,
      has_warned_about_no_events = False\<rparr>"
    using assms(2) init_bpf_listener_Inr(1) [OF assms(4)]
    by (simp add: checked_state_def rr handle_poll_state)
  show ?thesis
    using assms(1,5,6) pf
    by (simp add: iteration_cases cs check_idle_def Let_def NO_EVENTS_WARN_DURATION_def
        NO_EVENTS_ERROR_DURATION_def seconds_def)
qed

theorem reattaches_witness:
  "snd (iteration demo_args (demo_tick 0 (seconds 500)) (demo_state\<lparr>pid := 7\<rparr>)) =
     Continue \<lparr>pid = 42, attached = demo_listener, last_event_timestamp = seconds 500,
               has_warned_about_no_events = False\<rparr>"
  using reattaches [of "demo_tick 0 (seconds 500)" "demo_state\<lparr>pid := 7\<rparr>" demo_args 42 demo_listener]
    demo_pid demo_init
  by (simp add: demo_tick_def should_stop_def process_gone_def NO_EVENTS_WARN_DURATION_def seconds_def)

section \<open>Long runs\<close>

text \<open>
  A world that gives the loop no reason to fail: no shutdown, finding bitcoind fails at most
  transiently and attaching to a found process succeeds, and the clock readings never decrease,
  starting from \<open>now\<close>. It does not depend on the loop's state.
\<close>

definition restart_ok :: "Args \<Rightarrow> tick \<Rightarrow> bool" where
  "restart_ok args t =
     (case try_get_running_process_pid (t_os t) args of
        Inl e \<Rightarrow> is_transient e
      | Inr p \<Rightarrow> is_ok (init_bpf_listener (t_libbpf t) args p))"

fun steady :: "Args \<Rightarrow> nat \<Rightarrow> tick list \<Rightarrow> bool" where
  "steady args now [] = True"
| "steady args now (t # ts) =
     (should_stop (t_shutdown t) = None \<and> restart_ok args t \<and>
      now \<le> t_now_poll t \<and> t_now_poll t \<le> t_now_init t \<and> t_now_init t \<le> t_now_check t \<and>
      t_now_check t \<le> t_now_reset t \<and> steady args (t_now_reset t) ts)"

lemma restart_ok_no_failure: "restart_ok args t \<Longrightarrow> process_failure args t s = None"
  by (auto simp: restart_ok_def process_failure_def split: sum.splits)

lemma steady_harmless:
  "steady args now (t # ts) \<Longrightarrow> last_event_timestamp s \<le> now \<Longrightarrow> harmless args t s"
  by (auto simp: harmless_def restart_ok_no_failure last_activity_def)

lemma steady_next:
  assumes "steady args now (t # ts)" and "last_event_timestamp s \<le> now"
    and "snd (iteration args t s) = Continue s'"
  shows "last_event_timestamp s' \<le> t_now_reset t"
proof -
  have "last_activity args t s \<le> t_now_check t"
    using steady_harmless [OF assms(1,2)] by (simp add: harmless_def)
  then have act: "last_event_timestamp (checked_state args t s) \<le> t_now_reset t"
    using assms(1) by (simp add: checked_state_activity)
  have "snd (check_idle args t (checked_state args t s)) = Continue s'"
    using assms(1,3) restart_ok_no_failure [of args t s] by (simp add: iteration_cases split: if_splits)
  then show ?thesis
    using act by (auto simp: check_idle_def Let_def split: if_splits)
qed

text \<open>With idle exit disabled the extractor runs for ever in a steady world: however long
  bitcoind stays away, restarts, or stays silent, and whatever the polls return, no iteration
  ends the loop.\<close>

theorem no_idle_exit_never_ends:
  assumes "no_idle_exit args" and "steady args now ts" and "last_event_timestamp s \<le> now"
  shows "\<exists>s'. snd (run_loop args ts s) = Continue s'"
  using assms(2,3)
proof (induction ts arbitrary: now s)
  case (Cons t ts)
  obtain s1 where s1: "snd (iteration args t s) = Continue s1"
    using harmless_iteration [OF steady_harmless [OF Cons.prems] assms(1)] by blast
  then have "last_event_timestamp s1 \<le> t_now_reset t" using steady_next [OF Cons.prems] by simp
  then have "\<exists>s'. snd (run_loop args ts s1) = Continue s'" using Cons.IH [of "t_now_reset t" s1] Cons.prems(1) by simp
  then show ?case using s1 by (simp add: run_loop_snoc_Continue del: run_loop.simps)
qed simp

theorem no_idle_exit_never_ends_witness:
  "\<exists>s'. snd (run_loop (demo_args\<lparr>no_idle_exit := True\<rparr>)
     [demo_tick (- 20) (seconds 200), demo_tick 0 (seconds 900)] demo_state) = Continue s'"
proof -
  have "try_get_running_process_pid demo_os (demo_args\<lparr>no_idle_exit := True\<rparr>) = Inr 42"
    using demo_pid by (simp add: try_get_running_process_pid_def bitcoind_pid_def demo_args_def)
  moreover have "is_ok (init_bpf_listener demo_lib (demo_args\<lparr>no_idle_exit := True\<rparr>) 42)"
    by (simp add: is_ok_iff init_Inr_iff demo_lib_def demo_args_def list_all_iff)
  ultimately show ?thesis
    by (intro no_idle_exit_never_ends [where now = 0])
      (simp_all add: demo_tick_def demo_state_def should_stop_def restart_ok_def seconds_def)
qed

text \<open>A stream of messages that rust-bitcoin cannot parse does not keep the extractor alive: when
  idle exit is enabled, bitcoind keeps running, and no poll returns a positive count for 180
  seconds, the loop ends, however many records were consumed and rejected meanwhile.\<close>

theorem only_failing_polls_end_the_loop:
  assumes "\<not> no_idle_exit args" and "steady args now ts" and "last_event_timestamp s \<le> now"
    and "pid s \<noteq> 0" and "list_all (\<lambda>t. t_poll t \<le> 0 \<and> t_exists t (pid s)) ts"
    and "ts \<noteq> []" and "last_event_timestamp s + 180 * 1000000000 \<le> t_now_check (last ts)"
  shows "snd (run_loop args ts s) = Return"
  using assms(2-)
proof (induction ts arbitrary: now s)
  case (Cons t ts)
  have gone: "\<not> process_gone t s" and poll: "t_poll t \<le> 0" and stop: "should_stop (t_shutdown t) = None"
    using Cons.prems by (simp_all add: process_gone_def)
  have cs: "checked_state args t s = s" using gone poll by (simp add: checked_state_def handle_poll_state)
  have pf: "process_failure args t s = None" using gone by (simp add: process_failure_def)
  have clock: "last_event_timestamp s \<le> t_now_check t" using Cons.prems(1,2) by simp
  show ?case
  proof (cases "last_event_timestamp s + 180 * 1000000000 \<le> t_now_check t")
    case True
    then have "snd (iteration args t s) = Return"
      using stop pf assms(1) by (simp add: iteration_cases cs check_idle_Return NO_EVENTS_ERROR_DURATION_def seconds_def)
    then show ?thesis by (simp add: run_loop_snoc_Continue del: run_loop.simps)
  next
    case False
    then obtain w where w: "snd (iteration args t s) = Continue (s\<lparr>has_warned_about_no_events := w\<rparr>)"
      using quiet_iteration [of s t args] stop gone poll clock
      by (auto simp: quiet_def NO_EVENTS_ERROR_DURATION_def seconds_def)
    have "ts \<noteq> []" using False Cons.prems(6) by auto
    then have "snd (run_loop args ts (s\<lparr>has_warned_about_no_events := w\<rparr>)) = Return"
      using Cons.prems clock by (intro Cons.IH [where now = "t_now_reset t"]) auto
    then show ?thesis using w by (simp add: run_loop_snoc_Continue del: run_loop.simps)
  qed
qed simp

theorem only_failing_polls_end_the_loop_witness:
  "snd (run_loop demo_args [demo_tick (- 20) (seconds 100), demo_tick (- 20) (seconds 180)] demo_state) =
     Return"
  using demo_pid demo_init
  by (intro only_failing_polls_end_the_loop [where now = 0])
    (simp_all add: demo_tick_def demo_state_def should_stop_def restart_ok_def seconds_def demo_args_def)

text \<open>The inactivity warning is logged at most once per quiet period, however many iterations it
  spans, and not at all if it was logged before.\<close>

theorem warned_at_most_once:
  assumes "list_all (quiet s) ts"
  shows "count_list (fst (run_loop args ts s)) LogNoEventsWarn \<le>
     (if has_warned_about_no_events s then 0 else 1)"
  using assms by (rule quiet_run_warnings)

theorem warned_at_most_once_witness:
  "count_list (fst (run_loop demo_args
      [demo_tick 0 (seconds 70), demo_tick (- 5) (seconds 80), demo_tick 0 (seconds 90)] demo_state))
     LogNoEventsWarn \<le> 1"
  using warned_at_most_once [of demo_state
      "[demo_tick 0 (seconds 70), demo_tick (- 5) (seconds 80), demo_tick 0 (seconds 90)]" demo_args]
  by (simp add: demo_tick_def demo_state_def should_stop_def quiet_def process_gone_def
      NO_EVENTS_ERROR_DURATION_def seconds_def del: run_loop.simps)

end
