(* ===== verification/RustIo.thy ===== *)
theory RustIo
  imports RustStd "HOL-Library.Sublist"
begin

text \<open>
  Byte streams of the Rust standard library: what a \<^verbatim>\<open>Read\<close> yields before it ends, and
  \<^verbatim>\<open>BufWriter\<close> over a file, with \<^verbatim>\<open>write\<close>, \<^verbatim>\<open>flush\<close> and the default \<^verbatim>\<open>write_all\<close>. The
  operating system decides how many bytes each write call takes or that it fails; that decision
  is an input of the model. The locale \<open>byte_sink\<close> states what the users of a writer rely on.
\<close>

section \<open>Errors\<close>

datatype io_error = UnexpectedEof | WriteZero | AlreadyExists | OtherError | OsError nat

section \<open>Reading\<close>

text \<open>
  A reader is the bytes it still yields and how it ends after them: with end of file, or with an
  error (of the disk, or of a decompressor).
\<close>

record reader =
  rd_bytes :: "byte list"
  rd_end :: "io_error option"

section \<open>Buffered writing\<close>

text \<open>
  The fate of one \<^verbatim>\<open>write\<close> call on a file: it takes at most \<open>n\<close> bytes of what it is given, or it
  fails. Calls after the last listed fate take everything.
\<close>

datatype fate = Takes nat | Fails io_error

record bufw =
  bw_disk :: "byte list"
  bw_buf :: "byte list"
  bw_cap :: nat
  bw_fates :: "fate list"

definition bufw_new :: "nat \<Rightarrow> fate list \<Rightarrow> bufw" where
  "bufw_new cap fates = \<lparr>bw_disk = [], bw_buf = [], bw_cap = cap, bw_fates = fates\<rparr>"

text \<open>\<^verbatim>\<open>File::write\<close>.\<close>

definition file_write :: "byte list \<Rightarrow> bufw \<Rightarrow> (io_error + nat) \<times> bufw" where
  "file_write data w =
     (case bw_fates w of
        [] \<Rightarrow> (Inr (length data), w\<lparr>bw_disk := bw_disk w @ data\<rparr>)
      | Fails e # fs \<Rightarrow> (Inl e, w\<lparr>bw_fates := fs\<rparr>)
      | Takes n # fs \<Rightarrow>
          (Inr (min n (length data)),
           w\<lparr>bw_fates := fs, bw_disk := bw_disk w @ take n data\<rparr>))"

text \<open>
  \<^verbatim>\<open>BufWriter::flush_buf\<close>: write until the buffer is empty. The bytes that reached the file leave
  the buffer, also when a later call fails.
\<close>

function flush_buf :: "bufw \<Rightarrow> (io_error + unit) \<times> bufw" where
  "flush_buf w =
     (if bw_buf w = [] then (Inr (), w)
      else case file_write (bw_buf w) w of
          (Inl e, w') \<Rightarrow> (Inl e, w')
        | (Inr n, w') \<Rightarrow>
            if n = 0 then (Inl WriteZero, w')
            else flush_buf (w'\<lparr>bw_buf := drop n (bw_buf w)\<rparr>))"
  by pat_completeness auto
termination
  by (relation "measure (\<lambda>w. length (bw_buf w))") auto

declare flush_buf.simps [simp del]

text \<open>Dropping a \<^verbatim>\<open>BufWriter\<close> flushes it once more and ignores an error; the file is what then is on disk.\<close>

definition bufw_drop :: "bufw \<Rightarrow> byte list" where
  "bufw_drop w = bw_disk (snd (flush_buf w))"

text \<open>\<^verbatim>\<open>BufWriter::write\<close>.\<close>

definition bufw_write :: "byte list \<Rightarrow> bufw \<Rightarrow> (io_error + nat) \<times> bufw" where
  "bufw_write data w =
     (let spare = bw_cap w - length (bw_buf w) in
      if length data < spare then (Inr (length data), w\<lparr>bw_buf := bw_buf w @ data\<rparr>)
      else case (if spare < length data then flush_buf w else (Inr (), w)) of
          (Inl e, w') \<Rightarrow> (Inl e, w')
        | (Inr _, w') \<Rightarrow>
            if bw_cap w' \<le> length data then file_write data w'
            else (Inr (length data), w'\<lparr>bw_buf := bw_buf w' @ data\<rparr>))"

text \<open>\<^verbatim>\<open>Write::write_all\<close> for a writer given by its \<^verbatim>\<open>write\<close>.\<close>

function write_all :: "(byte list \<Rightarrow> 'w \<Rightarrow> (io_error + nat) \<times> 'w) \<Rightarrow> byte list \<Rightarrow> 'w \<Rightarrow> (io_error + unit) \<times> 'w" where
  "write_all wr data w =
     (if data = [] then (Inr (), w)
      else case wr data w of
          (Inl e, w') \<Rightarrow> (Inl e, w')
        | (Inr n, w') \<Rightarrow> if n = 0 then (Inl WriteZero, w') else write_all wr (drop n data) w')"
  by pat_completeness auto
termination
  by (relation "measure (\<lambda>(wr, data, w). length data)") auto

declare write_all.simps [simp del]

section \<open>What the users of a writer rely on\<close>

text \<open>
  \<open>contents\<close> is everything the writer accepted, \<open>persistent\<close> what has left the process. A call
  accepts a prefix of its data, an error accepts nothing; what is persistent stays, and is always
  the beginning of the contents; after a successful flush it is all of them. \<open>calm\<close> says that no
  write call will fail; then no operation does.
\<close>

locale byte_sink =
  fixes wr :: "byte list \<Rightarrow> 'w \<Rightarrow> (io_error + nat) \<times> 'w"
    and flush :: "'w \<Rightarrow> (io_error + unit) \<times> 'w"
    and contents :: "'w \<Rightarrow> byte list"
    and persistent :: "'w \<Rightarrow> byte list"
    and calm :: "'w \<Rightarrow> bool"
  assumes write_ok: "wr data w = (Inr n, w') \<Longrightarrow>
        n \<le> length data \<and> contents w' = contents w @ take n data"
    and write_err: "wr data w = (Inl e, w') \<Longrightarrow> contents w' = contents w"
    and write_persistent: "wr data w = (r, w') \<Longrightarrow> prefix (persistent w) (persistent w')"
    and write_calm: "calm w \<Longrightarrow> data \<noteq> [] \<Longrightarrow> \<exists>n w'. wr data w = (Inr n, w') \<and> 0 < n \<and> calm w'"
    and flush_contents: "flush w = (q, w') \<Longrightarrow> contents w' = contents w"
    and flush_persistent: "flush w = (q, w') \<Longrightarrow> prefix (persistent w) (persistent w')"
    and flush_ok: "flush w = (Inr u, w') \<Longrightarrow> persistent w' = contents w'"
    and flush_calm: "calm w \<Longrightarrow> \<exists>w'. flush w = (Inr (), w') \<and> calm w'"
    and persistent_prefix: "prefix (persistent w) (contents w)"
begin

lemma write_all_calls:
  "case write_all wr data w of
     (Inr _, w') \<Rightarrow> contents w' = contents w @ data \<and> prefix (persistent w) (persistent w')
   | (Inl _, w') \<Rightarrow> (\<exists>k. contents w' = contents w @ take k data) \<and> prefix (persistent w) (persistent w')"
proof (induction "length data" arbitrary: data w rule: less_induct)
  case less
  show ?case
  proof (cases "data = []")
    case True
    then show ?thesis by (simp add: write_all.simps)
  next
    case False
    obtain r w1 where call: "wr data w = (r, w1)" by fastforce
    show ?thesis
    proof (cases r)
      case (Inl e)
      then have "contents w1 = contents w @ take 0 data" using call write_err by simp
      with False call Inl write_persistent [OF call] show ?thesis
        by (auto simp: write_all.simps [of wr data w] simp del: take0)
    next
      case (Inr n)
      from write_ok [OF call [unfolded Inr]]
      have n: "n \<le> length data" "contents w1 = contents w @ take n data" by simp_all
      show ?thesis
      proof (cases "n = 0")
        case True
        then have "contents w1 = contents w @ take 0 data" using n by simp
        with False call Inr True write_persistent [OF call] show ?thesis
          by (auto simp: write_all.simps [of wr data w] simp del: take0)
      next
        case pos: False
        with False n have "length (drop n data) < length data" by simp
        note IH = less [OF this, of w1]
        have unfold: "write_all wr data w = write_all wr (drop n data) w1"
          using False pos call Inr by (simp add: write_all.simps [of wr data w])
        have later: "\<exists>k'. take n data @ take k (drop n data) = take k' data" for k
          by (rule exI [of _ "n + k"]) (simp add: take_add)
        have trans: "prefix (persistent w1) p \<Longrightarrow> prefix (persistent w) p" for p
          using write_persistent [OF call] by (rule prefix_order.trans)
        show ?thesis
          using IH n later trans
          by (auto simp: unfold split: sum.splits prod.splits) metis
      qed
    qed
  qed
qed

lemma write_all_ok: "write_all wr data w = (Inr u, w') \<Longrightarrow> contents w' = contents w @ data"
  using write_all_calls [where data = data and w = w] by simp

lemma write_all_err:
  "write_all wr data w = (Inl e, w') \<Longrightarrow> \<exists>k. contents w' = contents w @ take k data"
  using write_all_calls [where data = data and w = w] by simp

lemma write_all_persistent:
  "write_all wr data w = (r, w') \<Longrightarrow> prefix (persistent w) (persistent w')"
  using write_all_calls [where data = data and w = w] by (cases r) simp_all

lemma write_all_calm: "calm w \<Longrightarrow> \<exists>w'. write_all wr data w = (Inr (), w') \<and> calm w'"
proof (induction "length data" arbitrary: data w rule: less_induct)
  case less
  show ?case
  proof (cases "data = []")
    case True
    with less.prems show ?thesis by (simp add: write_all.simps)
  next
    case False
    then obtain n w1 where call: "wr data w = (Inr n, w1)" "0 < n" "calm w1"
      using write_calm [OF less.prems] by blast
    from False call(2) have "length (drop n data) < length data" by simp
    from less(1) [OF this call(3)] show ?thesis
      using False call by (simp add: write_all.simps [of wr data w])
  qed
qed

end

section \<open>\<^verbatim>\<open>BufWriter\<close> is such a writer\<close>

definition bufw_contents :: "bufw \<Rightarrow> byte list" where
  "bufw_contents w = bw_disk w @ bw_buf w"

fun takes_some :: "fate \<Rightarrow> bool" where
  "takes_some (Takes n) \<longleftrightarrow> 0 < n"
| "takes_some (Fails e) \<longleftrightarrow> False"

definition bufw_calm :: "bufw \<Rightarrow> bool" where
  "bufw_calm w \<longleftrightarrow> list_all takes_some (bw_fates w)"

lemma file_write_ok:
  "file_write data w = (Inr n, w') \<Longrightarrow>
   n \<le> length data \<and> bw_disk w' = bw_disk w @ take n data \<and> bw_buf w' = bw_buf w"
  by (auto simp: file_write_def min_def split: list.splits fate.splits)

lemma file_write_err:
  "file_write data w = (Inl e, w') \<Longrightarrow> bw_disk w' = bw_disk w \<and> bw_buf w' = bw_buf w"
  by (auto simp: file_write_def split: list.splits fate.splits)

lemma file_write_calm:
  "bufw_calm w \<Longrightarrow> data \<noteq> [] \<Longrightarrow> \<exists>n w'. file_write data w = (Inr n, w') \<and> 0 < n \<and> bufw_calm w'"
  by (auto simp: file_write_def bufw_calm_def split: list.splits fate.splits)

lemma file_write_cap: "file_write data w = (r, w') \<Longrightarrow> bw_cap w' = bw_cap w"
  by (auto simp: file_write_def split: list.splits fate.splits)

lemma flush_buf_calls:
  "flush_buf w = (r, w') \<Longrightarrow>
   bufw_contents w' = bufw_contents w \<and> prefix (bw_disk w) (bw_disk w') \<and>
   bw_cap w' = bw_cap w \<and> (r = Inr () \<longrightarrow> bw_buf w' = [])"
proof (induction w arbitrary: r w' rule: flush_buf.induct)
  case (1 w)
  show ?case
  proof (cases "bw_buf w = []")
    case True
    with "1.prems" show ?thesis by (simp add: flush_buf.simps [of w])
  next
    case False
    obtain q w1 where call: "file_write (bw_buf w) w = (q, w1)" by fastforce
    show ?thesis
    proof (cases q)
      case (Inl e)
      with "1.prems" False call have "r = Inl e" "w' = w1" by (simp_all add: flush_buf.simps [of w])
      with file_write_err [OF call [unfolded Inl]] file_write_cap [OF call] show ?thesis
        by (simp add: bufw_contents_def)
    next
      case (Inr n)
      note w1 = file_write_ok [OF call [unfolded Inr]] file_write_cap [OF call]
      show ?thesis
      proof (cases "n = 0")
        case True
        with "1.prems" False call Inr have "r = Inl WriteZero" "w' = w1"
          by (simp_all add: flush_buf.simps [of w])
        with w1 True show ?thesis by (simp add: bufw_contents_def)
      next
        case pos: False
        let ?w2 = "w1\<lparr>bw_buf := drop n (bw_buf w)\<rparr>"
        from "1.prems" False call Inr pos have "flush_buf ?w2 = (r, w')"
          by (simp add: flush_buf.simps [of w])
        from "1.IH" [OF False call [symmetric] Inr pos this] w1 show ?thesis
          by (auto simp: bufw_contents_def prefix_def)
      qed
    qed
  qed
qed

lemma bufw_drop_between: "prefix (bw_disk w) (bufw_drop w) \<and> prefix (bufw_drop w) (bufw_contents w)"
proof -
  obtain r w' where call: "flush_buf w = (r, w')" by (meson surj_pair)
  then have "bufw_drop w = bw_disk w'" by (simp add: bufw_drop_def)
  then show ?thesis using flush_buf_calls [OF call] by (metis bufw_contents_def prefixI)
qed

lemma bufw_drop_flushed: "flush_buf w = (Inr u, w') \<Longrightarrow> bufw_drop w' = bw_disk w'"
  using flush_buf_calls [of w "Inr u" w'] by (simp add: bufw_drop_def flush_buf.simps [of w'])

lemma flush_buf_calm: "bufw_calm w \<Longrightarrow> \<exists>w'. flush_buf w = (Inr (), w') \<and> bufw_calm w'"
proof (induction w rule: flush_buf.induct)
  case (1 w)
  show ?case
  proof (cases "bw_buf w = []")
    case True
    with "1.prems" show ?thesis by (simp add: flush_buf.simps [of w])
  next
    case False
    from file_write_calm [OF "1.prems" False] obtain n w1
      where call: "file_write (bw_buf w) w = (Inr n, w1)" "0 < n" "bufw_calm w1" by blast
    then have "bufw_calm (w1\<lparr>bw_buf := drop n (bw_buf w)\<rparr>)" by (simp add: bufw_calm_def)
    from "1.IH" [OF False call(1) [symmetric] refl _ this] call(2) False call(1) show ?thesis
      by (simp add: flush_buf.simps [of w])
  qed
qed

lemma bufw_write_calls:
  assumes "bufw_write data w = (r, w')"
  shows "(case r of Inr n \<Rightarrow> n \<le> length data \<and> bufw_contents w' = bufw_contents w @ take n data
          | Inl e \<Rightarrow> bufw_contents w' = bufw_contents w) \<and> prefix (bw_disk w) (bw_disk w')"
proof (cases "length data < bw_cap w - length (bw_buf w)")
  case True
  with assms show ?thesis by (auto simp: bufw_write_def bufw_contents_def Let_def)
next
  case False
  obtain q w1 where first: "(if bw_cap w - length (bw_buf w) < length data then flush_buf w
      else (Inr (), w)) = (q, w1)" by fastforce
  then have w1: "bufw_contents w1 = bufw_contents w" "prefix (bw_disk w) (bw_disk w1)"
    "bw_cap w1 = bw_cap w"
    using flush_buf_calls [of w q w1] by (auto split: if_splits)
  have empty: "bw_buf w1 = [] \<or> data = []" if "q = Inr ()" "bw_cap w \<le> length data"
  proof (cases "bw_cap w - length (bw_buf w) < length data")
    case True
    with first that show ?thesis using flush_buf_calls [of w q w1] by simp
  next
    case small: False
    with that(2) False show ?thesis using first by (cases data; cases "bw_buf w") auto
  qed
  have rest: "(case q of Inl e \<Rightarrow> (Inl e, w1) | Inr _ \<Rightarrow>
      if bw_cap w1 \<le> length data then file_write data w1
      else (Inr (length data), w1\<lparr>bw_buf := bw_buf w1 @ data\<rparr>)) = (r, w')"
    using assms False first by (simp add: bufw_write_def Let_def)
  show ?thesis
  proof (cases q)
    case (Inl e)
    with rest w1 show ?thesis by auto
  next
    case (Inr u)
    show ?thesis
    proof (cases "bw_cap w \<le> length data")
      case True
      with rest Inr w1 have call: "file_write data w1 = (r, w')" by simp
      from empty True Inr have buf: "bw_buf w1 = [] \<or> data = []" by simp
      show ?thesis
      proof (cases r)
        case (Inl e)
        with file_write_err [of data w1 e w'] call w1 buf show ?thesis
          by (simp add: bufw_contents_def)
      next
        case ok: (Inr n)
        with file_write_ok [of data w1 n w'] call have
          "n \<le> length data" "bufw_contents w' = bufw_contents w1 @ take n data"
          "prefix (bw_disk w1) (bw_disk w')"
          using buf by (auto simp: bufw_contents_def)
        with w1 ok show ?thesis by (auto intro: prefix_order.trans)
      qed
    next
      case small: False
      with rest Inr w1 show ?thesis by (auto simp: bufw_contents_def)
    qed
  qed
qed

lemma bufw_write_calm:
  assumes "bufw_calm w" and "data \<noteq> []"
  shows "\<exists>n w'. bufw_write data w = (Inr n, w') \<and> 0 < n \<and> bufw_calm w'"
proof -
  obtain w1 where w1: "(if bw_cap w - length (bw_buf w) < length data then flush_buf w
      else (Inr (), w)) = (Inr (), w1)" "bufw_calm w1"
    using flush_buf_calm [OF assms(1)] assms(1)
    by (cases "bw_cap w - length (bw_buf w) < length data") auto
  have buffered: "bufw_calm (v\<lparr>bw_buf := b\<rparr>)" if "bufw_calm v" for v b
    using that by (simp add: bufw_calm_def)
  show ?thesis
    using assms w1 file_write_calm [OF w1(2) assms(2)] buffered
    by (auto simp: bufw_write_def Let_def)
qed

interpretation bufw: byte_sink bufw_write flush_buf bufw_contents bw_disk bufw_calm
proof (unfold_locales, goal_cases)
  case (1 data w n w')
  then show ?case using bufw_write_calls [of data w "Inr n" w'] by simp
next
  case (2 data w e w')
  then show ?case using bufw_write_calls [of data w "Inl e" w'] by simp
next
  case (3 data w r w')
  then show ?case using bufw_write_calls [of data w r w'] by blast
next
  case (4 w data)
  then show ?case by (rule bufw_write_calm)
next
  case (5 w r w')
  then show ?case using flush_buf_calls by blast
next
  case (6 w r w')
  then show ?case using flush_buf_calls by blast
next
  case (7 w u w')
  then show ?case using flush_buf_calls [of w "Inr ()" w'] by (simp add: bufw_contents_def)
next
  case (8 w)
  then show ?case by (rule flush_buf_calm)
next
  case (9 w)
  then show ?case by (simp add: bufw_contents_def)
qed

end
