(* ===== verification/ArchiveRead.thy ===== *)
theory ArchiveRead
  imports RustIo
begin

text \<open>
  Reading archive files: \<^verbatim>\<open>tools/archive/src/read.rs\<close> and the loop of \<^verbatim>\<open>replayer.rs\<close>. The
  protobuf library \<^verbatim>\<open>prost\<close> is a parameter: the length delimiter and the bodies of the two kinds
  of messages. The locale \<open>length_delimiter\<close> states what reading relies on; the documented
  base-128 varint fulfils it.
\<close>

unbundle bit_operations_syntax

section \<open>The protobuf library\<close>

record ('h, 'e) prost =
  encode_delim :: "nat \<Rightarrow> byte list"
  decode_delim :: "byte list \<Rightarrow> nat option"
  encode_header :: "'h \<Rightarrow> byte list"
  decode_header :: "byte list \<Rightarrow> 'h option"
  encode_event :: "'e \<Rightarrow> byte list"
  decode_event :: "byte list \<Rightarrow> 'e option"

text \<open>\<^verbatim>\<open>encode_length_delimited_to_vec\<close>.\<close>

definition length_delimited :: "('h, 'e) prost \<Rightarrow> byte list \<Rightarrow> byte list" where
  "length_delimited p body = encode_delim p (length body) @ body"

section \<open>The reader\<close>

text \<open>
  The bytes of a length delimiter, pulled off the stream one by one; \<open>acc\<close> are the ones already
  read.
\<close>

fun read_prefix ::
    "io_error option \<Rightarrow> byte list \<Rightarrow> byte list \<Rightarrow> (io_error + byte list option) \<times> byte list" where
  "read_prefix ending acc [] =
     ((let e = (case ending of None \<Rightarrow> UnexpectedEof | Some e \<Rightarrow> e) in
       if e = UnexpectedEof \<and> acc = [] then Inr None else Inl e), [])"
| "read_prefix ending acc (b # bs) =
     (if b AND 0x80 = 0 \<or> length (acc @ [b]) = 10 then (Inr (Some (acc @ [b])), bs)
      else read_prefix ending (acc @ [b]) bs)"

definition read_length_delimiter ::
    "('h, 'e) prost \<Rightarrow> reader \<Rightarrow> (io_error + nat option) \<times> reader" where
  "read_length_delimiter p r =
     (case read_prefix (rd_end r) [] (rd_bytes r) of
        (Inl e, rest) \<Rightarrow> (Inl e, r\<lparr>rd_bytes := rest\<rparr>)
      | (Inr None, rest) \<Rightarrow> (Inr None, r\<lparr>rd_bytes := rest\<rparr>)
      | (Inr (Some bytes), rest) \<Rightarrow>
          (case decode_delim p bytes of
             Some len \<Rightarrow> (Inr (Some len), r\<lparr>rd_bytes := rest\<rparr>)
           | None \<Rightarrow> (Inl OtherError, r\<lparr>rd_bytes := rest\<rparr>)))"

definition read_message ::
    "('h, 'e) prost \<Rightarrow> (byte list \<Rightarrow> 'm option) \<Rightarrow> reader \<Rightarrow> (io_error + 'm option) \<times> reader" where
  "read_message p decode r =
     (case read_length_delimiter p r of
        (Inl e, r') \<Rightarrow> (Inl e, r')
      | (Inr None, r') \<Rightarrow> (Inr None, r')
      | (Inr (Some len), r') \<Rightarrow>
          (let buf = take len (rd_bytes r'); r'' = r'\<lparr>rd_bytes := drop len (rd_bytes r')\<rparr> in
           if length buf < len then
             (Inl (case rd_end r' of None \<Rightarrow> UnexpectedEof | Some e \<Rightarrow> e), r'')
           else case decode buf of
               Some msg \<Rightarrow> (Inr (Some msg), r'')
             | None \<Rightarrow> (Inl OtherError, r'')))"

definition ArchiveReader_new :: "('h, 'e) prost \<Rightarrow> reader \<Rightarrow> io_error + 'h \<times> reader" where
  "ArchiveReader_new p r =
     (case read_message p (decode_header p) r of
        (Inl e, r') \<Rightarrow> Inl e
      | (Inr None, r') \<Rightarrow> Inl OtherError
      | (Inr (Some h), r') \<Rightarrow> Inr (h, r'))"

definition archive_next :: "('h, 'e) prost \<Rightarrow> reader \<Rightarrow> (io_error + 'e) option \<times> reader" where
  "archive_next p r =
     (case read_message p (decode_event p) r of
        (Inl e, r') \<Rightarrow> (Some (Inl e), r')
      | (Inr None, r') \<Rightarrow> (None, r')
      | (Inr (Some ev), r') \<Rightarrow> (Some (Inr ev), r'))"

section \<open>Progress\<close>

lemma read_prefix_shorter:
  "read_prefix ending acc bs = (Inr (Some bytes), rest) \<Longrightarrow> length rest < length bs"
proof (induction bs arbitrary: acc)
  case Nil
  then show ?case by (simp add: Let_def split: if_splits)
next
  case (Cons b bs)
  then show ?case by (fastforce split: if_splits)
qed

lemma read_message_shorter:
  "read_message p decode r = (Inr (Some m), r') \<Longrightarrow> length (rd_bytes r') < length (rd_bytes r)"
  by (auto simp: read_message_def read_length_delimiter_def Let_def dest!: read_prefix_shorter
      split: prod.splits sum.splits option.splits if_splits)

lemma archive_next_shorter:
  "archive_next p r = (Some (Inr ev), r') \<Longrightarrow> length (rd_bytes r') < length (rd_bytes r)"
  by (auto simp: archive_next_def dest: read_message_shorter
      split: prod.splits sum.splits option.splits)

section \<open>The replayer\<close>

text \<open>
  The loop of \<^verbatim>\<open>replay_file\<close>: the events it gets until the end of the archive or the first error.
\<close>

function replay_events :: "('h, 'e) prost \<Rightarrow> reader \<Rightarrow> 'e list \<times> io_error option" where
  "replay_events p r =
     (case archive_next p r of
        (None, r') \<Rightarrow> ([], None)
      | (Some (Inl e), r') \<Rightarrow> ([], Some e)
      | (Some (Inr ev), r') \<Rightarrow> (let (evs, e) = replay_events p r' in (ev # evs, e)))"
  by pat_completeness auto
termination
  by (relation "measure (\<lambda>(p, r). length (rd_bytes r))") (auto dest: archive_next_shorter [OF sym])

declare replay_events.simps [simp del]

text \<open>
  \<^verbatim>\<open>Path::extension\<close> on paths whose last component is a name: what follows the last dot of that
  name, unless the dot is its first character.
\<close>

definition file_name :: "string \<Rightarrow> string" where
  "file_name path = rev (takeWhile (\<lambda>c. c \<noteq> CHR ''/'') (dropWhile (\<lambda>c. c = CHR ''/'') (rev path)))"

definition extension :: "string \<Rightarrow> string option" where
  "extension path =
     (let name = rev (file_name path); ext = takeWhile (\<lambda>c. c \<noteq> CHR ''.'') name;
          stem = dropWhile (\<lambda>c. c \<noteq> CHR ''.'') name
      in if length stem \<le> 1 then None else Some (rev ext))"

lemma extension_zst [simp]: "extension (x @ ''.bin.zst'') = Some ''zst''"
  by (simp add: extension_def file_name_def)

lemma extension_bin [simp]: "extension (x @ ''.bin'') \<noteq> Some ''zst''"
  by (simp add: extension_def file_name_def)

text \<open>
  The files of the system and the zstd decoder: opening a file gives its bytes or an error;
  creating the decoder gives the reader of the decompressed bytes or an error.
\<close>

record archive_os =
  os_open :: "string \<Rightarrow> io_error + byte list"
  os_zstd :: "byte list \<Rightarrow> io_error + reader"

definition ArchiveReader_open ::
    "archive_os \<Rightarrow> ('h, 'e) prost \<Rightarrow> string \<Rightarrow> io_error + 'h \<times> reader" where
  "ArchiveReader_open os p path =
     bind_res (os_open os path) (\<lambda>file.
     bind_res (if extension path = Some ''zst'' then os_zstd os file
               else Inr \<lparr>rd_bytes = file, rd_end = None\<rparr>) (\<lambda>reader.
     ArchiveReader_new p reader))"

datatype replay_error = ReadingArchive io_error | ErrorAtEvent nat io_error

definition replay_file :: "archive_os \<Rightarrow> ('h, 'e) prost \<Rightarrow> string \<Rightarrow> replay_error + nat" where
  "replay_file os p path =
     (case ArchiveReader_open os p path of
        Inl e \<Rightarrow> Inl (ReadingArchive e)
      | Inr (h, r) \<Rightarrow>
          (case replay_events p r of
             (evs, None) \<Rightarrow> Inr (length evs)
           | (evs, Some e) \<Rightarrow> Inl (ErrorAtEvent (length evs + 1) e)))"

fun replayer_run :: "archive_os \<Rightarrow> ('h, 'e) prost \<Rightarrow> bool \<Rightarrow> string list \<Rightarrow> bool" where
  "replayer_run os p had_error [] = had_error"
| "replayer_run os p had_error (path # paths) =
     (case replay_file os p path of
        Inr n \<Rightarrow> replayer_run os p had_error paths
      | Inl e \<Rightarrow> replayer_run os p True paths)"

section \<open>What reading relies on\<close>

text \<open>
  A length delimiter is at most ten bytes, of which exactly the last has its top bit clear, and
  decoding gives the length back. \<^verbatim>\<open>usize\<close> has 64 bits.
\<close>

fun delimiter_shape :: "byte list \<Rightarrow> bool" where
  "delimiter_shape [] \<longleftrightarrow> False"
| "delimiter_shape [b] \<longleftrightarrow> b AND 0x80 = 0"
| "delimiter_shape (b # c # bs) \<longleftrightarrow> b AND 0x80 \<noteq> 0 \<and> delimiter_shape (c # bs)"

locale length_delimiter =
  fixes encode :: "nat \<Rightarrow> byte list"
    and decode :: "byte list \<Rightarrow> nat option"
  assumes decode_encode: "n < 2 ^ 64 \<Longrightarrow> decode (encode n) = Some n"
    and encode_shape: "n < 2 ^ 64 \<Longrightarrow> delimiter_shape (encode n)"
    and encode_length: "n < 2 ^ 64 \<Longrightarrow> length (encode n) \<le> 10"
begin

lemma read_prefix_shape:
  "delimiter_shape bs \<Longrightarrow> length acc + length bs \<le> 10 \<Longrightarrow>
   read_prefix ending acc (bs @ rest) = (Inr (Some (acc @ bs)), rest)"
proof (induction bs arbitrary: acc rule: delimiter_shape.induct)
  case (3 b c bs)
  then have "read_prefix ending acc ((b # c # bs) @ rest) = read_prefix ending (acc @ [b]) ((c # bs) @ rest)"
    by simp
  also have "\<dots> = (Inr (Some ((acc @ [b]) @ c # bs)), rest)"
    using "3.prems" by (intro "3.IH") simp_all
  finally show ?case by simp
qed simp_all

lemma read_prefix_truncated:
  "delimiter_shape bs \<Longrightarrow> length acc + length bs \<le> 10 \<Longrightarrow> k < length bs \<Longrightarrow> 0 < length acc + k \<Longrightarrow>
   read_prefix None acc (take k bs) = (Inl UnexpectedEof, [])"
proof (induction bs arbitrary: acc k rule: delimiter_shape.induct)
  case (3 b c bs)
  then show ?case by (cases k) auto
qed auto

lemma encode_not_Nil: "n < 2 ^ 64 \<Longrightarrow> encode n \<noteq> []"
  using encode_shape by fastforce

lemma read_delimiter:
  "n < 2 ^ 64 \<Longrightarrow> read_prefix ending [] (encode n @ rest) = (Inr (Some (encode n)), rest)"
  by (simp add: read_prefix_shape encode_shape encode_length)

lemma read_delimiter_truncated:
  "n < 2 ^ 64 \<Longrightarrow> 0 < k \<Longrightarrow> k < length (encode n) \<Longrightarrow>
   read_prefix None [] (take k (encode n)) = (Inl UnexpectedEof, [])"
  by (simp add: read_prefix_truncated encode_shape encode_length)

end

subsection \<open>The documented varint\<close>

text \<open>
  Seven bits per byte, the least significant group first, the top bit set on all bytes but the
  last. A decoder rejects values that do not fit 64 bits.
\<close>

fun varint :: "nat \<Rightarrow> byte list" where
  "varint n = (if n < 128 then [of_nat n] else of_nat (128 + n mod 128) # varint (n div 128))"

declare varint.simps [simp del]

fun varint_value :: "byte list \<Rightarrow> nat" where
  "varint_value [] = 0"
| "varint_value (b # bs) = unat b mod 128 + 128 * varint_value bs"

definition varint_decode :: "byte list \<Rightarrow> nat option" where
  "varint_decode bs =
     (if delimiter_shape bs \<and> varint_value bs < 2 ^ 64 then Some (varint_value bs) else None)"

lemma high_bit: "\<not> odd (n div 2 ^ 7) \<longleftrightarrow> n < 128" if "n < 256" for n :: nat
proof (cases "n < 128")
  case True
  then show ?thesis by simp
next
  case False
  then have "n div 128 = 1" using that by (intro div_nat_eqI) simp_all
  then have "n div 2 ^ 7 = 1" by simp
  with False show ?thesis by simp
qed

lemma top_bit: "(b :: byte) AND 0x80 = 0 \<longleftrightarrow> unat b < 128"
proof -
  have "b AND 0x80 = 0 \<longleftrightarrow> \<not> bit b 7"
    using and_exp_eq_0_iff_not_bit [of b 7] by simp
  also have "bit b 7 \<longleftrightarrow> bit (unat b) 7" by (simp add: bit_unsigned_iff)
  also have "\<dots> \<longleftrightarrow> odd (unat b div 2 ^ 7)" by (rule bit_iff_odd)
  also have "\<not> odd (unat b div 2 ^ 7) \<longleftrightarrow> unat b < 128" by (rule high_bit) (use unsigned_less [of b] in simp)
  finally show ?thesis .
qed

lemma unat_byte: "unat (of_nat n :: byte) = n mod 256"
  by (simp add: unat_of_nat)

lemma varint_not_Nil [simp]: "varint n \<noteq> []"
  by (subst varint.simps) simp

lemma varint_value_varint: "varint_value (varint n) = n"
proof (induction n rule: varint.induct)
  case (1 n)
  show ?case
  proof (cases "n < 128")
    case True
    then show ?thesis by (simp add: varint.simps [of n] unat_byte)
  next
    case False
    have "(128 + n mod 128) mod 128 = n mod 128" by simp
    with False "1.IH" show ?thesis
      by (simp add: varint.simps [of n] unat_byte del: of_nat_add)
  qed
qed

lemma varint_shape: "delimiter_shape (varint n)"
proof (induction n rule: varint.induct)
  case (1 n)
  show ?case
  proof (cases "n < 128")
    case True
    then show ?thesis by (simp add: varint.simps [of n] top_bit unat_byte)
  next
    case False
    then obtain c cs where "varint (n div 128) = c # cs" by (meson varint_not_Nil neq_Nil_conv)
    with False "1.IH" show ?thesis
      by (simp add: varint.simps [of n] top_bit unat_byte del: of_nat_add)
  qed
qed

lemma length_varint: "n < 128 ^ k \<Longrightarrow> 0 < k \<Longrightarrow> length (varint n) \<le> k"
proof (induction k arbitrary: n)
  case (Suc k)
  show ?case
  proof (cases "n < 128")
    case True
    then show ?thesis by (simp add: varint.simps [of n])
  next
    case False
    then have "0 < k" using Suc.prems by (cases k) auto
    moreover have "n div 128 < 128 ^ k" using Suc.prems by (simp add: div_less_iff_less_mult mult.commute)
    ultimately have "length (varint (n div 128)) \<le> k" by (rule Suc.IH [rotated])
    with False show ?thesis by (simp add: varint.simps [of n])
  qed
qed simp

interpretation varint: length_delimiter varint varint_decode
proof
  fix n :: nat
  assume n: "n < 2 ^ 64"
  then show "varint_decode (varint n) = Some n"
    by (simp add: varint_decode_def varint_shape varint_value_varint)
  show "delimiter_shape (varint n)" by (rule varint_shape)
  from n have "n < 128 ^ 10" by simp
  then show "length (varint n) \<le> 10" by (rule length_varint) simp
qed

end
