(* ===== verification/ArchiveFormat.thy ===== *)
theory ArchiveFormat
  imports ArchiveRead
begin

text \<open>
  The archive file format: a delimited header, then delimited events. What reading gives for a
  whole file, for a file cut off at any byte, and for a source that ends with an error.
\<close>

section \<open>The format\<close>

abbreviation event_frame :: "('h, 'e) prost \<Rightarrow> 'e \<Rightarrow> byte list" where
  "event_frame p ev \<equiv> length_delimited p (encode_event p ev)"

abbreviation header_frame :: "('h, 'e) prost \<Rightarrow> 'h \<Rightarrow> byte list" where
  "header_frame p h \<equiv> length_delimited p (encode_header p h)"

definition event_frames :: "('h, 'e) prost \<Rightarrow> 'e list \<Rightarrow> byte list" where
  "event_frames p es = concat (map (event_frame p) es)"

definition archive_bytes :: "('h, 'e) prost \<Rightarrow> 'h \<Rightarrow> 'e list \<Rightarrow> byte list" where
  "archive_bytes p h es = header_frame p h @ event_frames p es"

lemma event_frames_simps [simp]:
  "event_frames p [] = []"
  "event_frames p (ev # es) = event_frame p ev @ event_frames p es"
  "event_frames p (es @ es') = event_frames p es @ event_frames p es'"
  by (simp_all add: event_frames_def)

lemma archive_bytes_snoc:
  "archive_bytes p h (es @ [ev]) = archive_bytes p h es @ event_frame p ev"
  by (simp add: archive_bytes_def)

text \<open>
  What the theorems ask of \<^verbatim>\<open>prost\<close>: it decodes the delimiters and the messages it encoded, and
  an encoded message has a length that fits 64 bits.
\<close>

definition codes :: "('m \<Rightarrow> byte list) \<Rightarrow> (byte list \<Rightarrow> 'm option) \<Rightarrow> 'm \<Rightarrow> bool" where
  "codes encode decode m \<longleftrightarrow> decode (encode m) = Some m \<and> length (encode m) < 2 ^ 64"

definition delimits :: "('h, 'e) prost \<Rightarrow> bool" where
  "delimits p \<longleftrightarrow> length_delimiter (encode_delim p) (decode_delim p)"

definition event_codes :: "('h, 'e) prost \<Rightarrow> 'e \<Rightarrow> bool" where
  "event_codes p = codes (encode_event p) (decode_event p)"

definition header_codes :: "('h, 'e) prost \<Rightarrow> 'h \<Rightarrow> bool" where
  "header_codes p = codes (encode_header p) (decode_header p)"

section \<open>One message\<close>

abbreviation source :: "byte list \<Rightarrow> io_error option \<Rightarrow> reader" where
  "source bs ending \<equiv> \<lparr>rd_bytes = bs, rd_end = ending\<rparr>"

lemmas delimiter_laws =
  length_delimiter.read_delimiter length_delimiter.decode_encode
  length_delimiter.read_delimiter_truncated length_delimiter.encode_not_Nil

lemma read_frame:
  assumes "delimits p" and "codes encode decode m"
  shows "read_message p decode (source (length_delimited p (encode m) @ rest) ending) =
         (Inr (Some m), source rest ending)"
  using assms
  by (simp add: read_message_def read_length_delimiter_def length_delimited_def codes_def
      delimits_def delimiter_laws)

lemma read_end:
  "read_message p decode (source [] ending) =
   ((case ending of None \<Rightarrow> Inr None
     | Some e \<Rightarrow> if e = UnexpectedEof then Inr None else Inl e), source [] ending)"
  by (simp add: read_message_def read_length_delimiter_def split: option.split)

lemma read_cut_frame:
  assumes "delimits p" and "codes encode decode m"
    and "0 < k" and "k < length (length_delimited p (encode m))"
  shows "\<exists>r. read_message p decode (source (take k (length_delimited p (encode m))) None) =
             (Inl UnexpectedEof, r)"
proof (cases "k < length (encode_delim p (length (encode m)))")
  case True
  with assms show ?thesis
    by (simp add: read_message_def read_length_delimiter_def length_delimited_def codes_def
        delimits_def delimiter_laws)
next
  case False
  with assms show ?thesis
    by (auto simp: read_message_def read_length_delimiter_def length_delimited_def codes_def
        delimits_def delimiter_laws Let_def)
qed

lemma frame_not_Nil: "delimits p \<Longrightarrow> codes encode decode m \<Longrightarrow> length_delimited p (encode m) \<noteq> []"
  by (simp add: length_delimited_def delimits_def codes_def delimiter_laws)

section \<open>Many messages\<close>

lemma replay_frame:
  assumes "delimits p" and "event_codes p ev"
  shows "replay_events p (source (event_frame p ev @ rest) ending) =
         (let (evs, e) = replay_events p (source rest ending) in (ev # evs, e))"
  using assms
  by (simp add: replay_events.simps [of p "source (event_frame p ev @ rest) ending"]
      archive_next_def read_frame event_codes_def)

lemma replay_frames:
  assumes "delimits p" and "list_all (event_codes p) es"
  shows "replay_events p (source (event_frames p es @ rest) ending) =
         (let (evs, e) = replay_events p (source rest ending) in (es @ evs, e))"
  using assms(2) by (induction es) (simp_all add: replay_frame [OF assms(1)] split_beta)

lemma replay_end:
  "replay_events p (source [] ending) = ([], if ending = Some UnexpectedEof then None else ending)"
  by (simp add: replay_events.simps [of p "source [] ending"] archive_next_def read_end
      split: option.split)

lemma replay_cut_frame:
  assumes "delimits p" and "event_codes p ev" and "0 < k" and "k < length (event_frame p ev)"
  shows "replay_events p (source (take k (event_frame p ev)) None) = ([], Some UnexpectedEof)"
proof -
  obtain r where "read_message p (decode_event p) (source (take k (event_frame p ev)) None) =
      (Inl UnexpectedEof, r)"
    using read_cut_frame assms by (metis event_codes_def)
  then show ?thesis by (subst replay_events.simps) (simp add: archive_next_def)
qed

text \<open>Every complete event before the cut is read, then the end or the truncation is noticed.\<close>

lemma replay_take:
  assumes "delimits p" and "list_all (event_codes p) es"
  shows "\<exists>n \<le> length es.
     length (event_frames p (take n es)) \<le> k \<and>
     (n < length es \<longrightarrow> k < length (event_frames p (take (Suc n) es))) \<and>
     replay_events p (source (take k (event_frames p es)) None) =
       (take n es,
        if n = length es \<or> k = length (event_frames p (take n es)) then None
        else Some UnexpectedEof)"
  using assms(2)
proof (induction es arbitrary: k)
  case Nil
  then show ?case by (simp add: replay_end)
next
  case (Cons ev es)
  let ?f = "event_frame p ev"
  show ?case
  proof (cases "length ?f \<le> k")
    case True
    then obtain j where k: "k = length ?f + j" by (metis le_add_diff_inverse)
    from Cons.IH [of j] Cons.prems obtain n where n: "n \<le> length es" "length (event_frames p (take n es)) \<le> j"
      "n < length es \<longrightarrow> j < length (event_frames p (take (Suc n) es))"
      "replay_events p (source (take j (event_frames p es)) None) =
         (take n es, if n = length es \<or> j = length (event_frames p (take n es)) then None
                     else Some UnexpectedEof)"
      by auto
    with k Cons.prems show ?thesis
      by (intro exI [of _ "Suc n"]) (simp add: replay_frame [OF assms(1)])
  next
    case False
    then have cut: "replay_events p (source (take k (event_frames p (ev # es))) None) =
        ([], if k = 0 then None else Some UnexpectedEof)"
      using replay_cut_frame [OF assms(1), of ev k] Cons.prems by (auto simp: replay_end)
    with False show ?thesis by (intro exI [of _ 0]) simp
  qed
qed

section \<open>What is on any input\<close>

text \<open>
  A length delimiter as it is taken off the stream: up to the first byte with a clear top bit, at most
  ten bytes. \<open>framed\<close> is what a replay that gives these events has read, and \<open>stops\<close> how it ends with
  what is left of the bytes.
\<close>

definition is_delimiter :: "byte list \<Rightarrow> bool" where
  "is_delimiter pre \<longleftrightarrow>
     pre \<noteq> [] \<and> length pre \<le> 10 \<and> list_all (\<lambda>b. b AND 0x80 \<noteq> 0) (butlast pre) \<and>
     (last pre AND 0x80 = 0 \<or> length pre = 10)"

definition end_error :: "io_error option \<Rightarrow> io_error" where
  "end_error ending = (case ending of None \<Rightarrow> UnexpectedEof | Some e \<Rightarrow> e)"

fun framed :: "('h, 'e) prost \<Rightarrow> (byte list \<times> byte list) list \<Rightarrow> 'e list \<Rightarrow> bool" where
  "framed p [] [] = True"
| "framed p ((pre, body) # frames) (ev # evs) =
     (is_delimiter pre \<and> decode_delim p pre = Some (length body) \<and> decode_event p body = Some ev \<and>
      framed p frames evs)"
| "framed p _ _ = False"

definition stops :: "('h, 'e) prost \<Rightarrow> io_error option \<Rightarrow> byte list \<Rightarrow> io_error option \<Rightarrow> bool" where
  "stops p ending rest res \<longleftrightarrow>
     (case res of
        None \<Rightarrow> rest = [] \<and> end_error ending = UnexpectedEof
      | Some e \<Rightarrow>
          list_all (\<lambda>b. b AND 0x80 \<noteq> 0) rest \<and> length rest < 10 \<and> e = end_error ending \<and>
            (rest \<noteq> [] \<or> e \<noteq> UnexpectedEof) \<or>
          (\<exists>pre body. rest = pre @ body \<and> is_delimiter pre \<and>
             (case decode_delim p pre of
                None \<Rightarrow> e = OtherError
              | Some len \<Rightarrow>
                  if length body < len then e = end_error ending
                  else decode_event p (take len body) = None \<and> e = OtherError)))"

lemma stops_at_delimiter:
  assumes "is_delimiter pre" and "case decode_delim p pre of
      None \<Rightarrow> e = OtherError
    | Some len \<Rightarrow>
        if length body < len then e = end_error ending
        else decode_event p (take len body) = None \<and> e = OtherError"
  shows "stops p ending (pre @ body) (Some e)"
  using assms unfolding stops_def by (simp only: option.case) blast

lemma read_prefix_parts:
  assumes "length acc < 10"
  shows "case read_prefix ending acc bs of
      (Inr (Some bytes), rest) \<Rightarrow>
        \<exists>pre. bytes = acc @ pre \<and> bs = pre @ rest \<and> pre \<noteq> [] \<and> length bytes \<le> 10 \<and>
          list_all (\<lambda>b. b AND 0x80 \<noteq> 0) (butlast pre) \<and> (last pre AND 0x80 = 0 \<or> length bytes = 10)
    | (Inr None, rest) \<Rightarrow> bs = [] \<and> end_error ending = UnexpectedEof
    | (Inl e, rest) \<Rightarrow>
        list_all (\<lambda>b. b AND 0x80 \<noteq> 0) bs \<and> length acc + length bs < 10 \<and> e = end_error ending \<and>
        (acc @ bs \<noteq> [] \<or> e \<noteq> UnexpectedEof)"
  using assms
proof (induction bs arbitrary: acc)
  case Nil
  then show ?case by (cases "end_error ending = UnexpectedEof") (auto simp: Let_def simp flip: end_error_def)
next
  case (Cons b bs)
  show ?case
  proof (cases "b AND 0x80 = 0 \<or> length (acc @ [b]) = 10")
    case True
    then show ?thesis using Cons.prems by (intro prod.case_eq_if [THEN iffD2]) auto
  next
    case False
    then have step: "read_prefix ending acc (b # bs) = read_prefix ending (acc @ [b]) bs"
      and high: "b AND 0x80 \<noteq> 0" "length (acc @ [b]) < 10" using Cons.prems by auto
    obtain out rest where out: "read_prefix ending (acc @ [b]) bs = (out, rest)" by (meson surj_pair)
    note ih = Cons.IH [OF high(2), unfolded out]
    show ?thesis
    proof (cases out)
      case (Inl e)
      then show ?thesis using ih high by (simp add: step out)
    next
      case (Inr bytes')
      show ?thesis
      proof (cases bytes')
        case None
        then have "bs = []" using ih Inr by simp
        then show ?thesis using out Inr None by (simp add: Let_def split: if_splits)
      next
        case (Some bytes)
        with ih Inr obtain pre where "bytes = acc @ b # pre" "bs = pre @ rest" "pre \<noteq> []" "length bytes \<le> 10"
          "list_all (\<lambda>b. b AND 0x80 \<noteq> 0) (butlast pre)" "last pre AND 0x80 = 0 \<or> length bytes = 10" by auto
        moreover have "read_prefix ending acc (b # bs) = (Inr (Some bytes), rest)" using step out Inr Some by simp
        ultimately show ?thesis using high(1) by (simp only: prod.case sum.case option.case) (auto intro!: exI [of _ "b # pre"])
      qed
    qed
  qed
qed

lemma next_parts:
  "case archive_next p r of
     (Some (Inr ev), r') \<Rightarrow>
       \<exists>pre body. rd_bytes r = pre @ body @ rd_bytes r' \<and> is_delimiter pre \<and>
         decode_delim p pre = Some (length body) \<and> decode_event p body = Some ev \<and> rd_end r' = rd_end r
   | (Some (Inl e), r') \<Rightarrow> stops p (rd_end r) (rd_bytes r) (Some e)
   | (None, r') \<Rightarrow> stops p (rd_end r) (rd_bytes r) None"
proof -
  obtain out rest where out: "read_prefix (rd_end r) [] (rd_bytes r) = (out, rest)" by (meson surj_pair)
  note parts = read_prefix_parts [where acc = "[]" and ending = "rd_end r" and bs = "rd_bytes r", unfolded out, simplified]
  show ?thesis
  proof (cases out)
    case (Inl e)
    then show ?thesis
      using parts by (auto simp: archive_next_def read_message_def read_length_delimiter_def out stops_def)
  next
    case (Inr bytes')
    show ?thesis
    proof (cases bytes')
      case None
      then have "archive_next p r = (None, r\<lparr>rd_bytes := rest\<rparr>)"
        using out Inr by (simp only: archive_next_def read_message_def read_length_delimiter_def) simp
      then show ?thesis using parts Inr None by (simp add: stops_def)
    next
      case (Some pre)
      with parts Inr have bytes: "rd_bytes r = pre @ rest" "is_delimiter pre" by (auto simp: is_delimiter_def)
      show ?thesis
      proof (cases "decode_delim p pre")
        case None
        then have "archive_next p r = (Some (Inl OtherError), r\<lparr>rd_bytes := rest\<rparr>)"
          using out Inr Some by (simp only: archive_next_def read_message_def read_length_delimiter_def) simp
        then show ?thesis using stops_at_delimiter [OF bytes(2), where p = p and e = OtherError and body = rest and ending = "rd_end r"] bytes(1) None by simp
      next
        case (Some len)
        have delim: "read_length_delimiter p r = (Inr (Some len), r\<lparr>rd_bytes := rest\<rparr>)"
          using Inr \<open>bytes' = Some pre\<close> Some by (simp add: read_length_delimiter_def out)
        show ?thesis
        proof (cases "length rest < len")
          case True
          then have "archive_next p r = (Some (Inl (end_error (rd_end r))), r\<lparr>rd_bytes := []\<rparr>)"
            by (simp add: archive_next_def read_message_def delim end_error_def)
          then show ?thesis
            using stops_at_delimiter [OF bytes(2), where p = p and e = "end_error (rd_end r)" and body = rest and ending = "rd_end r"]
              bytes(1) Some True by simp
        next
          case False
          then have len: "length (take len rest) = len" by simp
          show ?thesis
          proof (cases "decode_event p (take len rest)")
            case None
            then have "archive_next p r = (Some (Inl OtherError), r\<lparr>rd_bytes := drop len rest\<rparr>)"
              using False by (simp add: archive_next_def read_message_def delim)
            then show ?thesis
              using stops_at_delimiter [OF bytes(2), where p = p and e = OtherError and body = rest and ending = "rd_end r"]
                bytes(1) Some False None by simp
          next
            case ev: (Some ev)
            then have "archive_next p r = (Some (Inr ev), r\<lparr>rd_bytes := drop len rest\<rparr>)"
              using False by (simp add: archive_next_def read_message_def delim)
            then show ?thesis
              using bytes Some len ev
              by (simp only: prod.case option.case sum.case)
                (intro exI [of _ pre] exI [of _ "take len rest"], simp)
          qed
        qed
      qed
    qed
  qed
qed

lemma replay_parts:
  "\<exists>frames rest. rd_bytes r = concat (map (\<lambda>(pre, body). pre @ body) frames) @ rest \<and>
     framed p frames (fst (replay_events p r)) \<and> stops p (rd_end r) rest (snd (replay_events p r))"
proof (induction p r rule: replay_events.induct)
  case (1 p r)
  show ?case
  proof (cases "\<exists>ev r'. archive_next p r = (Some (Inr ev), r')")
    case True
    then obtain ev r' where step: "archive_next p r = (Some (Inr ev), r')" by blast
    from "1.IH" [OF step [symmetric] refl refl] obtain frames rest where
      ih: "rd_bytes r' = concat (map (\<lambda>(pre, body). pre @ body) frames) @ rest"
        "framed p frames (fst (replay_events p r'))" "stops p (rd_end r') rest (snd (replay_events p r'))" by blast
    from next_parts [of p r] obtain pre body where
      "rd_bytes r = pre @ body @ rd_bytes r'" "is_delimiter pre" "decode_delim p pre = Some (length body)"
      "decode_event p body = Some ev" "rd_end r' = rd_end r" by (auto simp: step)
    moreover obtain evs e where "replay_events p r' = (evs, e)" by (meson surj_pair)
    ultimately show ?thesis
      using ih by (intro exI [of _ "(pre, body) # frames"] exI [of _ rest])
        (simp add: replay_events.simps [of p r] step)
  next
    case False
    then obtain res r' where step: "archive_next p r = (res, r')" "res = None \<or> (\<exists>e. res = Some (Inl e))"
      by (metis option.exhaust sumE surj_pair)
    then have "replay_events p r = ([], case res of None \<Rightarrow> None | Some e \<Rightarrow> Some (projl e))"
      by (auto simp: replay_events.simps [of p r])
    then show ?thesis
      using next_parts [of p r] step by (intro exI [of _ "[]"] exI [of _ "rd_bytes r"]) auto
  qed
qed

section \<open>Opening\<close>

lemma new_reads_header:
  assumes "delimits p" and "header_codes p h"
  shows "ArchiveReader_new p (source (header_frame p h @ rest) ending) = Inr (h, source rest ending)"
  using assms by (simp add: ArchiveReader_new_def read_frame header_codes_def)

lemma new_cut_header:
  assumes "delimits p" and "header_codes p h" and "k < length (header_frame p h)"
  shows "ArchiveReader_new p (source (take k (header_frame p h)) None) =
         Inl (if k = 0 then OtherError else UnexpectedEof)"
proof (cases "k = 0")
  case True
  then show ?thesis by (simp add: ArchiveReader_new_def read_end)
next
  case False
  with assms obtain r where
    "read_message p (decode_header p) (source (take k (header_frame p h)) None) = (Inl UnexpectedEof, r)"
    using read_cut_frame by (metis header_codes_def neq0_conv)
  with False show ?thesis by (simp add: ArchiveReader_new_def)
qed

end
