(* ===== verification/PbEvents.thy ===== *)
theory PbEvents
  imports ExtractorHandlers
begin

text \<open>
  The protobuf messages of an event as a subscriber decodes them: \<^verbatim>\<open>bitcoin_primitives.proto\<close>,
  \<^verbatim>\<open>message.proto\<close>, \<^verbatim>\<open>ebpf_extractor.proto\<close> and \<^verbatim>\<open>event.proto\<close>, one record per message and one
  datatype per \<^verbatim>\<open>oneof\<close>. A \<^verbatim>\<open>oneof\<close> may be unset, since a decoder accepts that. The events of the
  other extractors have bodies the tools of this development never look into: they are the type
  variable \<open>'x\<close>.
\<close>

section \<open>Primitives\<close>

record Transaction_pb =
  transaction_txid :: "byte list"
  transaction_wtxid :: "byte list"
  transaction_raw :: "(byte list) option"

record BlockHeader_pb =
  blockheader_version :: s32
  blockheader_prev_blockhash :: "byte list"
  blockheader_merkle_root :: "byte list"
  blockheader_time :: u32
  blockheader_bits :: u32
  blockheader_nonce :: u32
  blockheader_hash :: "byte list"

record UnknownAddress_pb =
  unknownaddress_id :: u32
  unknownaddress_address :: "byte list"

datatype Address_address =
    Addr_ipv4 "byte list"
  | Addr_ipv6 "byte list"
  | Addr_torv2 "byte list"
  | Addr_torv3 "byte list"
  | Addr_i2p "byte list"
  | Addr_cjdns "byte list"
  | Addr_unknown UnknownAddress_pb

record Address_pb =
  address_timestamp :: u32
  address_address :: "Address_address option"
  address_services :: u64
  address_port :: u32

record UnknownItem_pb =
  unknownitem_inv_type :: u32
  unknownitem_hash :: "byte list"

datatype InventoryItem_item =
    Item_transaction "byte list"
  | Item_block "byte list"
  | Item_wtx "byte list"
  | Item_witness_transaction "byte list"
  | Item_witness_block "byte list"
  | Item_compact_block "byte list"
  | Item_unknown UnknownItem_pb
  | Item_error bool

record InventoryItem_pb =
  inventoryitem_item :: "InventoryItem_item option"

record PrefilledTransaction_pb =
  prefilledtransaction_diff_index :: u32
  prefilledtransaction_tx :: Transaction_pb

section \<open>P2P messages\<close>

record Ping_pb =
  ping_value :: u64

record Pong_pb =
  pong_value :: u64

record Inv_pb =
  inv_items :: "InventoryItem_pb list"

record GetData_pb =
  getdata_items :: "InventoryItem_pb list"

record Tx_pb =
  tx_tx :: Transaction_pb

record Headers_pb =
  headers_headers :: "BlockHeader_pb list"

record Addr_pb =
  addr_addresses :: "Address_pb list"

record AddrV2_pb =
  addrv2_addresses :: "Address_pb list"

record FeeFilter_pb =
  feefilter_fee :: s64

record GetHeaders_pb =
  getheaders_version :: u32
  getheaders_locator_hashes :: "(byte list) list"
  getheaders_stop_hash :: "byte list"

record GetBlocks_pb =
  getblocks_version :: u32
  getblocks_locator_hashes :: "(byte list) list"
  getblocks_stop_hash :: "byte list"

record Version_pb =
  version_version :: u32
  version_services :: u64
  version_timestamp :: s64
  version_receiver :: Address_pb
  version_sender :: Address_pb
  version_nonce :: u64
  version_user_agent :: "byte list"
  version_start_height :: s32
  version_relay :: bool

record NotFound_pb =
  notfound_items :: "InventoryItem_pb list"

record Reject_pb =
  reject_rejected_command :: "byte list"
  reject_reason :: s32
  reject_reason_details :: "byte list"
  reject_hash :: "byte list"

record CompactBlock_pb =
  compactblock_header :: BlockHeader_pb
  compactblock_nonce :: u64
  compactblock_short_ids :: "(byte list) list"
  compactblock_transactions :: "PrefilledTransaction_pb list"

record SendCompact_pb =
  sendcompact_send_compact :: bool
  sendcompact_version :: u64

record Block_pb =
  block_header :: BlockHeader_pb
  block_transactions :: "Transaction_pb list"

record GetBlockTxn_pb =
  getblocktxn_block_hash :: "byte list"
  getblocktxn_tx_indexes :: "u64 list"

record BlockTxn_pb =
  blocktxn_block_hash :: "byte list"
  blocktxn_transactions :: "Transaction_pb list"

record Alert_pb =
  alert_alert :: "byte list"

record FilterAdd_pb =
  filteradd_filter :: "byte list"

record FilterLoad_pb =
  filterload_filter :: "byte list"
  filterload_hash_funcs :: u32
  filterload_tweak :: u32
  filterload_flags :: s32

record GetCFCheckpt_pb =
  getcfcheckpt_filter_type :: u32
  getcfcheckpt_stop_hash :: "byte list"

record CFHeaders_pb =
  cfheaders_filter_type :: u32
  cfheaders_stop_hash :: "byte list"
  cfheaders_previous_filter_header :: "byte list"
  cfheaders_filter_hashes :: "(byte list) list"

record CFilter_pb =
  cfilter_filter_type :: u32
  cfilter_block_hash :: "byte list"
  cfilter_filter :: "byte list"

record CFCheckpt_pb =
  cfcheckpt_filter_type :: u32
  cfcheckpt_stop_hash :: "byte list"
  cfcheckpt_filter_headers :: "(byte list) list"

record GetCFHeaders_pb =
  getcfheaders_filter_type :: u32
  getcfheaders_start_height :: u32
  getcfheaders_stop_hash :: "byte list"

record GetCFilter_pb =
  getcfilter_filter_type :: u32
  getcfilter_start_height :: u32
  getcfilter_stop_hash :: "byte list"

record MerkleBlock_pb =
  merkleblock_header :: BlockHeader_pb
  merkleblock_num_transactions :: u32
  merkleblock_bits :: "bool list"
  merkleblock_hashes :: "(byte list) list"

record Unknown_pb =
  unknown_command :: "byte list"
  unknown_payload :: "byte list"

datatype P2pMsg =
    Msg_ping Ping_pb
  | Msg_pong Pong_pb
  | Msg_inv Inv_pb
  | Msg_getdata GetData_pb
  | Msg_tx Tx_pb
  | Msg_headers Headers_pb
  | Msg_addr Addr_pb
  | Msg_addrv2 AddrV2_pb
  | Msg_feefilter FeeFilter_pb
  | Msg_getheaders GetHeaders_pb
  | Msg_getblocks GetBlocks_pb
  | Msg_version Version_pb
  | Msg_notfound NotFound_pb
  | Msg_reject Reject_pb
  | Msg_compactblock CompactBlock_pb
  | Msg_sendcompact SendCompact_pb
  | Msg_block Block_pb
  | Msg_getblocktxn GetBlockTxn_pb
  | Msg_blocktxn BlockTxn_pb
  | Msg_alert Alert_pb
  | Msg_filteradd FilterAdd_pb
  | Msg_filterload FilterLoad_pb
  | Msg_getcfcheckpt GetCFCheckpt_pb
  | Msg_cfheaders CFHeaders_pb
  | Msg_cfilter CFilter_pb
  | Msg_cfcheckpt CFCheckpt_pb
  | Msg_getcfheaders GetCFHeaders_pb
  | Msg_getcfilter GetCFilter_pb
  | Msg_merkleblock MerkleBlock_pb
  | Msg_unknown Unknown_pb
  | Msg_verack bool
  | Msg_sendheaders bool
  | Msg_getaddr bool
  | Msg_mempool bool
  | Msg_wtxidrelay bool
  | Msg_sendaddrv2 bool
  | Msg_filterclear bool
  | Msg_emptyaddrv2 bool
  | Msg_oldping bool

record MessageEvent_pb =
  mev_meta :: Metadata_pb
  mev_msg :: "P2pMsg option"

section \<open>Events\<close>

datatype ebpf_event =
    EbpfMessage MessageEvent_pb
  | EbpfConnection "ConnectionEvent option"
  | EbpfMempool "MempoolEvent option"
  | EbpfValidation "BlockConnected_pb option"

datatype 'x PeerObserverEvent =
    EbpfExtractorEv "ebpf_event option"
  | RpcExtractorEv 'x
  | P2pExtractorEv 'x
  | LogExtractorEv 'x
  | IpcExtractorEv 'x

record 'x Event_pb =
  pev_timestamp :: u64
  pev_event :: "'x PeerObserverEvent option"

text \<open>What a subscriber decodes of an event the eBPF extractor published.\<close>

fun received_msg :: "P2pMsg Msg \<Rightarrow> P2pMsg" where
  "received_msg (Decoded m) = m"
| "received_msg (Emptyaddrv2 b) = Msg_emptyaddrv2 b"
| "received_msg (Oldping b) = Msg_oldping b"

fun received_ebpf :: "P2pMsg EbpfEvent \<Rightarrow> ebpf_event" where
  "received_ebpf (MessageEv m) = EbpfMessage \<lparr>mev_meta = me_meta m, mev_msg = Some (received_msg (me_msg m))\<rparr>"
| "received_ebpf (ConnectionEv c) = EbpfConnection (Some c)"
| "received_ebpf (MempoolEv m) = EbpfMempool (Some m)"
| "received_ebpf (ValidationEv v) = EbpfValidation (Some v)"

definition received :: "P2pMsg EbpfEvent Event \<Rightarrow> 'x Event_pb" where
  "received ev =
     \<lparr>pev_timestamp = timestamp ev,
      pev_event = Some (EbpfExtractorEv (Some (received_ebpf (peer_observer_event ev))))\<rparr>"

end
