(* ===== verification/ArchiveWrite.thy ===== *)
theory ArchiveWrite
  imports ArchiveFormat PbEvents
begin

text \<open>
  Writing one archive file: \<^verbatim>\<open>TrackingWriter\<close>, \<^verbatim>\<open>ArchiveWriter\<close> and \<^verbatim>\<open>ArchiveFile\<close> of
  \<^verbatim>\<open>tools/archive/src/archiver/mod.rs\<close>, and \<^verbatim>\<open>ArchiveHeader\<close>. The zstd encoder is a parameter: the
  bytes it hands to its inner writer when it is written to, flushed and finished. Byte counters
  are natural numbers, since no file has \<open>2 ^ 64\<close> bytes.
\<close>

section \<open>The header\<close>

record ArchiveHeader =
  hd_created :: u64
  hd_low_data :: "bool option"

definition is_low_data :: "ArchiveHeader \<Rightarrow> bool" where
  "is_low_data h = (case hd_low_data h of None \<Rightarrow> False | Some b \<Rightarrow> b)"

text \<open>\<open>now\<close> is in nanoseconds since the epoch, \<open>None\<close> before it, where the code panics.\<close>

definition ArchiveHeader_new :: "clock \<Rightarrow> bool \<Rightarrow> ArchiveHeader option" where
  "ArchiveHeader_new now low =
     (case now of
        None \<Rightarrow> None
      | Some nanos \<Rightarrow> Some \<lparr>hd_created = of_nat (nanos div 1000000000), hd_low_data = Some low\<rparr>)"

section \<open>Writers\<close>

record tracking =
  tw_inner :: bufw
  tw_bytes_written :: nat

definition tracking_write :: "byte list \<Rightarrow> tracking \<Rightarrow> (io_error + nat) \<times> tracking" where
  "tracking_write data w =
     (case bufw_write data (tw_inner w) of
        (Inl e, i) \<Rightarrow> (Inl e, w\<lparr>tw_inner := i\<rparr>)
      | (Inr written, i) \<Rightarrow>
          (Inr written, w\<lparr>tw_inner := i, tw_bytes_written := tw_bytes_written w + written\<rparr>))"

definition tracking_flush :: "tracking \<Rightarrow> (io_error + unit) \<times> tracking" where
  "tracking_flush w = (case flush_buf (tw_inner w) of (r, i) \<Rightarrow> (r, w\<lparr>tw_inner := i\<rparr>))"

record 'z zstd =
  z_new :: "nat \<Rightarrow> io_error + 'z"
  z_write :: "'z \<Rightarrow> byte list \<Rightarrow> byte list \<times> 'z"
  z_flush :: "'z \<Rightarrow> byte list \<times> 'z"
  z_finish :: "'z \<Rightarrow> byte list"
  z_decode :: "byte list \<Rightarrow> reader"

datatype 'z ArchiveWriter = Plain bufw | Zstd 'z tracking

definition ArchiveWriter_new ::
    "'z zstd \<Rightarrow> bufw \<Rightarrow> nat \<Rightarrow> io_error + 'z ArchiveWriter" where
  "ArchiveWriter_new z file level =
     (if 0 < level then
        bind_res (z_new z level) (\<lambda>encoder.
          Inr (Zstd encoder \<lparr>tw_inner = file, tw_bytes_written = 0\<rparr>))
      else Inr (Plain file))"

fun compressed_bytes :: "'z ArchiveWriter \<Rightarrow> nat option" where
  "compressed_bytes (Plain w) = None"
| "compressed_bytes (Zstd s t) = Some (tw_bytes_written t)"

fun writer_write_all ::
    "'z zstd \<Rightarrow> byte list \<Rightarrow> 'z ArchiveWriter \<Rightarrow> (io_error + unit) \<times> 'z ArchiveWriter" where
  "writer_write_all z data (Plain w) =
     (case write_all bufw_write data w of (r, w') \<Rightarrow> (r, Plain w'))"
| "writer_write_all z data (Zstd s t) =
     (case z_write z s data of (out, s') \<Rightarrow>
      case write_all tracking_write out t of (r, t') \<Rightarrow> (r, Zstd s' t'))"

fun writer_flush :: "'z zstd \<Rightarrow> 'z ArchiveWriter \<Rightarrow> (io_error + unit) \<times> 'z ArchiveWriter" where
  "writer_flush z (Plain w) = (case flush_buf w of (r, w') \<Rightarrow> (r, Plain w'))"
| "writer_flush z (Zstd s t) =
     (case z_flush z s of (out, s') \<Rightarrow>
      case write_all tracking_write out t of
        (Inl e, t') \<Rightarrow> (Inl e, Zstd s' t')
      | (Inr _, t') \<Rightarrow> (case tracking_flush t' of (r, t'') \<Rightarrow> (r, Zstd s' t'')))"

text \<open>A writer that is dropped, and \<^verbatim>\<open>finish\<close>, which consumes it; what is left is the file on disk.\<close>

fun writer_drop :: "'z ArchiveWriter \<Rightarrow> byte list" where
  "writer_drop (Plain w) = bufw_drop w"
| "writer_drop (Zstd s t) = bufw_drop (tw_inner t)"

fun writer_finish :: "'z zstd \<Rightarrow> 'z ArchiveWriter \<Rightarrow> (io_error + unit) \<times> byte list" where
  "writer_finish z (Plain w) = (case flush_buf w of (r, w') \<Rightarrow> (r, bufw_drop w'))"
| "writer_finish z (Zstd s t) =
     (case write_all tracking_write (z_finish z s) t of
        (Inl e, t') \<Rightarrow> (Inl e, bufw_drop (tw_inner t'))
      | (Inr _, t') \<Rightarrow> (case tracking_flush t' of (r, t'') \<Rightarrow> (r, bufw_drop (tw_inner t''))))"

section \<open>Files\<close>

record 'z ArchiveFile =
  af_path :: string
  af_writer :: "'z ArchiveWriter"
  af_bytes_written :: nat

text \<open>
  What creating a file meets: the readings of the clock, one per attempt to open a name, with an
  error of the open call other than that the name is taken; the clock of the header; the capacity
  of the buffer and the fates of the file's write calls. The format of the time stamp is the
  \<^verbatim>\<open>time\<close> library's, \<open>None\<close> where it panics.
\<close>

record creation =
  cr_attempts :: "(clock \<times> io_error option) list"
  cr_now :: clock
  cr_cap :: nat
  cr_fates :: "fate list"

record 'z library =
  lib_zstd :: "'z zstd"
  lib_format_utc :: "nat \<Rightarrow> string option"

datatype 'a io_result = Ok 'a | Err io_error | Panics | Spinning

definition path_join :: "string \<Rightarrow> string \<Rightarrow> string" where
  "path_join dir name =
     (if take 1 name = ''/'' then name
      else if dir = [] \<or> last dir = CHR ''/'' then dir @ name
      else dir @ ''/'' @ name)"

definition format_utc_timestamp :: "'z library \<Rightarrow> nat \<Rightarrow> string option" where
  "format_utc_timestamp lib epoch_ms = lib_format_utc lib (epoch_ms mod 2 ^ 64)"

definition archive_path :: "string \<Rightarrow> string \<Rightarrow> string \<Rightarrow> string \<Rightarrow> string" where
  "archive_path output_dir base_name stamp ext =
     path_join output_dir (base_name @ ''.'' @ stamp @ ''.'' @ ext)"

text \<open>
  The loop that opens a fresh file; \<open>existing\<close> are the names taken. \<open>Spinning\<close> means that it is
  still retrying when the attempts of the model end.
\<close>

fun open_fresh ::
    "'z library \<Rightarrow> string list \<Rightarrow> string \<Rightarrow> string \<Rightarrow> string \<Rightarrow> (clock \<times> io_error option) list \<Rightarrow>
     string io_result" where
  "open_fresh lib existing output_dir base_name ext [] = Spinning"
| "open_fresh lib existing output_dir base_name ext ((now, err) # attempts) =
     (case now of
        None \<Rightarrow> Panics
      | Some nanos \<Rightarrow>
          (case format_utc_timestamp lib (nanos div 1000000) of
             None \<Rightarrow> Panics
           | Some formatted_timestamp \<Rightarrow>
               (let path = archive_path output_dir base_name formatted_timestamp ext in
                if path \<in> set existing \<or> err = Some AlreadyExists then
                  open_fresh lib existing output_dir base_name ext attempts
                else case err of None \<Rightarrow> Ok path | Some e \<Rightarrow> Err e)))"

definition archive_ext :: "nat \<Rightarrow> string" where
  "archive_ext compression_level = (if 0 < compression_level then ''bin.zst'' else ''bin'')"

fun of_res :: "io_error + 'a \<Rightarrow> 'a io_result" where
  "of_res (Inl e) = Err e"
| "of_res (Inr x) = Ok x"

definition bind_io :: "'a io_result \<Rightarrow> ('a \<Rightarrow> 'b io_result) \<Rightarrow> 'b io_result" where
  "bind_io r f = (case r of Ok x \<Rightarrow> f x | Err e \<Rightarrow> Err e | Panics \<Rightarrow> Panics | Spinning \<Rightarrow> Spinning)"

lemma bind_io_simps [simp]:
  "bind_io (Ok x) f = f x" "bind_io (Err e) f = Err e"
  "bind_io Panics f = Panics" "bind_io Spinning f = Spinning"
  by (simp_all add: bind_io_def)

lemma bind_io_Ok: "bind_io r f = Ok y \<longleftrightarrow> (\<exists>x. r = Ok x \<and> f x = Ok y)"
  by (cases r) auto

lemma of_res_Ok [simp]: "of_res r = Ok x \<longleftrightarrow> r = Inr x"
  by (cases r) auto

definition write_header ::
    "'z library \<Rightarrow> (ArchiveHeader, 'e) prost \<Rightarrow> string \<Rightarrow> ArchiveHeader \<Rightarrow> 'z ArchiveWriter \<Rightarrow>
     'z ArchiveFile io_result" where
  "write_header lib p path header writer =
     (let header_bytes = header_frame p header in
      case writer_write_all (lib_zstd lib) header_bytes writer of
        (Inl e, w) \<Rightarrow> Err e
      | (Inr _, w) \<Rightarrow>
          (case writer_flush (lib_zstd lib) w of
             (Inl e, w') \<Rightarrow> Err e
           | (Inr _, w') \<Rightarrow>
               Ok \<lparr>af_path = path, af_writer = w', af_bytes_written = length header_bytes\<rparr>))"

definition ArchiveFile_new ::
    "'z library \<Rightarrow> (ArchiveHeader, 'e) prost \<Rightarrow> string list \<Rightarrow> creation \<Rightarrow>
     string \<Rightarrow> string \<Rightarrow> nat \<Rightarrow> bool \<Rightarrow> 'z ArchiveFile io_result" where
  "ArchiveFile_new lib p existing c output_dir base_name compression_level low =
     bind_io (open_fresh lib existing output_dir base_name (archive_ext compression_level)
                (cr_attempts c)) (\<lambda>path.
     bind_io (of_res (ArchiveWriter_new (lib_zstd lib) (bufw_new (cr_cap c) (cr_fates c))
                compression_level)) (\<lambda>writer.
     case ArchiveHeader_new (cr_now c) low of
       None \<Rightarrow> Panics
     | Some header \<Rightarrow> write_header lib p path header writer))"

text \<open>
  What is on disk of a file that could not be created: nothing when it could not be opened, else the
  opened file with whatever of its header was written before its writer was dropped.
\<close>

definition header_left ::
    "'z library \<Rightarrow> (ArchiveHeader, 'e) prost \<Rightarrow> ArchiveHeader \<Rightarrow> 'z ArchiveWriter \<Rightarrow> byte list" where
  "header_left lib p header writer =
     (case writer_write_all (lib_zstd lib) (header_frame p header) writer of
        (Inl e, w) \<Rightarrow> writer_drop w
      | (Inr _, w) \<Rightarrow> writer_drop (snd (writer_flush (lib_zstd lib) w)))"

definition ArchiveFile_left ::
    "'z library \<Rightarrow> (ArchiveHeader, 'e) prost \<Rightarrow> string list \<Rightarrow> creation \<Rightarrow>
     string \<Rightarrow> string \<Rightarrow> nat \<Rightarrow> bool \<Rightarrow> (string \<times> byte list) list" where
  "ArchiveFile_left lib p existing c output_dir base_name compression_level low =
     (case open_fresh lib existing output_dir base_name (archive_ext compression_level) (cr_attempts c) of
        Ok path \<Rightarrow>
          [(path,
            case ArchiveWriter_new (lib_zstd lib) (bufw_new (cr_cap c) (cr_fates c)) compression_level of
              Inl e \<Rightarrow> []
            | Inr writer \<Rightarrow>
                (case ArchiveHeader_new (cr_now c) low of
                   None \<Rightarrow> []
                 | Some header \<Rightarrow> header_left lib p header writer))]
      | _ \<Rightarrow> [])"

definition write_event ::
    "'z library \<Rightarrow> ('h, 'e) prost \<Rightarrow> 'e \<Rightarrow> 'z ArchiveFile \<Rightarrow> (io_error + unit) \<times> 'z ArchiveFile" where
  "write_event lib p event file =
     (let buf = event_frame p event in
      case writer_write_all (lib_zstd lib) buf (af_writer file) of
        (Inl e, w) \<Rightarrow> (Inl e, file\<lparr>af_writer := w\<rparr>)
      | (Inr _, w) \<Rightarrow>
          (Inr (), file\<lparr>af_writer := w, af_bytes_written := af_bytes_written file + length buf\<rparr>))"

definition needs_rotation :: "nat \<Rightarrow> 'z ArchiveFile \<Rightarrow> bool" where
  "needs_rotation max_file_size file \<longleftrightarrow>
     (case compressed_bytes (af_writer file) of
        Some written \<Rightarrow> max_file_size \<le> written
      | None \<Rightarrow> max_file_size \<le> af_bytes_written file)"

definition finalize :: "'z library \<Rightarrow> 'z ArchiveFile \<Rightarrow> (io_error + unit) \<times> byte list" where
  "finalize lib file = writer_finish (lib_zstd lib) (af_writer file)"

end
