(* ===== verification/ArchiveFileFacts.thy ===== *)
theory ArchiveFileFacts
  imports ArchiveWrite
begin

text \<open>
  What an archive file holds while it is written, and what reading it back gives: the writers as
  byte sinks, the contract of the zstd encoder, and the invariant of an open \<^verbatim>\<open>ArchiveFile\<close>.
\<close>

section \<open>The tracking writer\<close>

definition tracking_contents :: "tracking \<Rightarrow> byte list" where
  "tracking_contents t = bufw_contents (tw_inner t)"

definition tracking_disk :: "tracking \<Rightarrow> byte list" where
  "tracking_disk t = bw_disk (tw_inner t)"

definition tracking_calm :: "tracking \<Rightarrow> bool" where
  "tracking_calm t = bufw_calm (tw_inner t)"

lemmas tracking_defs = tracking_contents_def tracking_disk_def tracking_calm_def

interpretation tracking: byte_sink tracking_write tracking_flush tracking_contents tracking_disk
  tracking_calm
proof (unfold_locales, goal_cases)
  case (1 data w n w')
  then show ?case
    using bufw.write_ok [of data "tw_inner w"]
    by (auto simp: tracking_write_def tracking_defs split: prod.splits sum.splits)
next
  case (2 data w e w')
  then show ?case
    using bufw.write_err [of data "tw_inner w"]
    by (auto simp: tracking_write_def tracking_defs split: prod.splits sum.splits)
next
  case (3 data w r w')
  then show ?case
    using bufw.write_persistent [of data "tw_inner w"]
    by (auto simp: tracking_write_def tracking_defs split: prod.splits sum.splits)
next
  case (4 w data)
  then show ?case
    using bufw.write_calm [of "tw_inner w" data]
    by (auto simp: tracking_write_def tracking_defs)
next
  case (5 w r w')
  then show ?case
    using bufw.flush_contents [of "tw_inner w"]
    by (auto simp: tracking_flush_def tracking_defs split: prod.splits)
next
  case (6 w r w')
  then show ?case
    using bufw.flush_persistent [of "tw_inner w"]
    by (auto simp: tracking_flush_def tracking_defs split: prod.splits)
next
  case (7 w u w')
  then show ?case
    using bufw.flush_ok [of "tw_inner w"]
    by (auto simp: tracking_flush_def tracking_defs split: prod.splits)
next
  case (8 w)
  then show ?case
    using bufw.flush_calm [of "tw_inner w"]
    by (auto simp: tracking_flush_def tracking_defs)
next
  case (9 w)
  then show ?case by (simp add: tracking_defs bufw.persistent_prefix)
qed

text \<open>The counter counts what the writer accepted.\<close>

definition counted :: "tracking \<Rightarrow> bool" where
  "counted t \<longleftrightarrow> tw_bytes_written t = length (tracking_contents t)"

lemma tracking_write_counted: "counted t \<Longrightarrow> tracking_write data t = (r, t') \<Longrightarrow> counted t'"
  using bufw_write_calls [of data "tw_inner t"]
  by (auto simp: tracking_write_def counted_def tracking_contents_def split: prod.splits sum.splits)

lemma tracking_flush_counted: "counted t \<Longrightarrow> tracking_flush t = (r, t') \<Longrightarrow> counted t'"
  using bufw.flush_contents [of "tw_inner t"]
  by (auto simp: tracking_flush_def counted_def tracking_contents_def split: prod.splits)

lemma write_all_invariant:
  assumes step: "\<And>data w r w'. P w \<Longrightarrow> wr data w = (r, w') \<Longrightarrow> P w'"
  shows "P w \<Longrightarrow> write_all wr data w = (r, w') \<Longrightarrow> P w'"
proof (induction "length data" arbitrary: data w rule: less_induct)
  case less
  show ?case
  proof (cases "data = []")
    case True
    with less.prems show ?thesis by (simp add: write_all.simps)
  next
    case False
    obtain q w1 where call: "wr data w = (q, w1)" by fastforce
    have w1: "P w1" by (rule step [OF less.prems(1) call])
    show ?thesis
    proof (cases "\<exists>n. q = Inr n \<and> 0 < n")
      case True
      then obtain n where n: "q = Inr n" "0 < n" by blast
      from False n have "length (drop n data) < length data" by simp
      moreover have "write_all wr (drop n data) w1 = (r, w')"
        using less.prems(2) False call n by (simp add: write_all.simps [of wr data w])
      ultimately show ?thesis using less.hyps w1 by blast
    next
      case stop: False
      with less.prems(2) False call w1 show ?thesis
        by (cases q) (simp_all add: write_all.simps [of wr data w])
    qed
  qed
qed

lemma tracking_write_all_counted:
  "counted t \<Longrightarrow> write_all tracking_write data t = (r, t') \<Longrightarrow> counted t'"
  by (rule write_all_invariant [of counted tracking_write]) (auto intro: tracking_write_counted)

lemma tracking_drop_flushed: "tracking_flush t = (Inr u, t') \<Longrightarrow> bufw_drop (tw_inner t') = tracking_disk t'"
  by (auto simp: tracking_flush_def tracking_disk_def dest: bufw_drop_flushed split: prod.splits)

section \<open>The zstd encoder\<close>

datatype zop = ZWrite "byte list" | ZFlush

fun zstd_run :: "'z zstd \<Rightarrow> 'z \<Rightarrow> zop list \<Rightarrow> byte list \<times> 'z" where
  "zstd_run z s [] = ([], s)"
| "zstd_run z s (op # ops) =
     (case (case op of ZWrite data \<Rightarrow> z_write z s data | ZFlush \<Rightarrow> z_flush z s) of (out, s') \<Rightarrow>
      case zstd_run z s' ops of (outs, s'') \<Rightarrow> (out @ outs, s''))"

fun zinput :: "zop list \<Rightarrow> byte list" where
  "zinput [] = []"
| "zinput (ZWrite data # ops) = data @ zinput ops"
| "zinput (ZFlush # ops) = zinput ops"

lemma zinput_append [simp]: "zinput (ops @ ops') = zinput ops @ zinput ops'"
  by (induction ops rule: zinput.induct) simp_all

lemma zstd_run_append:
  "zstd_run z s (ops @ ops') =
     (case zstd_run z s ops of (outs, s') \<Rightarrow>
      case zstd_run z s' ops' of (outs', s'') \<Rightarrow> (outs @ outs', s''))"
  by (induction ops arbitrary: s) (auto split: prod.split zop.split)

text \<open>
  The encoder's contract: what it produced, completed by \<open>finish\<close>, decompresses to what it was
  given, and the decompressed stream ends cleanly.
\<close>

definition zstd_ok :: "'z zstd \<Rightarrow> bool" where
  "zstd_ok z \<longleftrightarrow>
     (\<forall>level s ops. z_new z level = Inr s \<longrightarrow>
        z_decode z (fst (zstd_run z s ops) @ z_finish z (snd (zstd_run z s ops))) =
        source (zinput ops) None)"

section \<open>What a writer holds\<close>

fun holds :: "'z zstd \<Rightarrow> nat \<Rightarrow> byte list \<Rightarrow> 'z ArchiveWriter \<Rightarrow> bool" where
  "holds z level bytes (Plain w) \<longleftrightarrow> level = 0 \<and> bufw_contents w = bytes"
| "holds z level bytes (Zstd s t) \<longleftrightarrow>
     0 < level \<and> counted t \<and>
     (\<exists>s0 ops. z_new z level = Inr s0 \<and> zinput ops = bytes \<and>
        zstd_run z s0 ops = (tracking_contents t, s))"

fun writer_calm :: "'z ArchiveWriter \<Rightarrow> bool" where
  "writer_calm (Plain w) \<longleftrightarrow> bufw_calm w"
| "writer_calm (Zstd s t) \<longleftrightarrow> tracking_calm t"

definition decompress :: "'z zstd \<Rightarrow> nat \<Rightarrow> byte list \<Rightarrow> reader" where
  "decompress z level disk = (if 0 < level then z_decode z disk else source disk None)"

lemma holds_new:
  "ArchiveWriter_new z (bufw_new cap fates) level = Inr w \<Longrightarrow> holds z level [] w"
  by (auto simp: ArchiveWriter_new_def bind_res_def bufw_new_def bufw_contents_def counted_def
      tracking_contents_def split: if_splits sum.splits intro!: exI [of _ "[]"])

lemma holds_step:
  assumes "holds z level bytes (Zstd s t)"
    and "(case op of ZWrite data \<Rightarrow> z_write z s data | ZFlush \<Rightarrow> z_flush z s) = (out, s')"
    and "write_all tracking_write out t = (Inr u, t')"
  shows "holds z level (bytes @ zinput [op]) (Zstd s' t')"
proof -
  from assms(1) obtain s0 ops where ops: "z_new z level = Inr s0" "zinput ops = bytes"
    "zstd_run z s0 ops = (tracking_contents t, s)" by auto
  have "zstd_run z s0 (ops @ [op]) = (tracking_contents t', s')"
    using ops(3) assms(2) tracking.write_all_ok [OF assms(3)] by (simp add: zstd_run_append)
  moreover have "counted t'"
    using tracking_write_all_counted [OF _ assms(3)] assms(1) by simp
  ultimately show ?thesis
    using assms(1) ops by (auto intro!: exI [of _ "ops @ [op]"])
qed

lemma holds_write:
  assumes "holds z level bytes w" and "writer_write_all z data w = (Inr u, w')"
  shows "holds z level (bytes @ data) w'"
proof (cases w)
  case (Plain b)
  with assms show ?thesis by (auto split: prod.splits dest: bufw.write_all_ok)
next
  case (Zstd s t)
  obtain out s' where step: "z_write z s data = (out, s')" by fastforce
  with assms Zstd obtain t' where "write_all tracking_write out t = (Inr u, t')" "w' = Zstd s' t'"
    by (auto split: prod.splits)
  with holds_step [of z level bytes s t "ZWrite data" out s' u t'] assms Zstd step
  show ?thesis by simp
qed

lemma holds_tracking_flush:
  assumes "holds z level bytes (Zstd s t)" and "tracking_flush t = (r, t')"
  shows "holds z level bytes (Zstd s t')"
  using assms tracking.flush_contents [OF assms(2)] tracking_flush_counted [OF _ assms(2)] by auto

lemma holds_flush:
  assumes "holds z level bytes w" and "writer_flush z w = (Inr u, w')"
  shows "holds z level bytes w'"
proof (cases w)
  case (Plain b)
  with assms show ?thesis by (auto split: prod.splits dest: bufw.flush_contents)
next
  case (Zstd s t)
  obtain out s' where step: "z_flush z s = (out, s')" by fastforce
  with assms Zstd obtain v t' t'' where w: "write_all tracking_write out t = (Inr v, t')"
    "tracking_flush t' = (Inr u, t'')" "w' = Zstd s' t''"
    by (auto split: prod.splits sum.splits)
  with holds_step [of z level bytes s t ZFlush out s' v t'] assms Zstd step
  have "holds z level bytes (Zstd s' t')" by simp
  from holds_tracking_flush [OF this w(2)] w(3) show ?thesis by simp
qed

text \<open>A file that was finished without an error is read back as what was written.\<close>

lemma finish_reads_back:
  assumes "0 < level \<Longrightarrow> zstd_ok z" and "holds z level bytes w" and "writer_finish z w = (Inr u, disk)"
  shows "decompress z level disk = source bytes None"
proof (cases w)
  case (Plain b)
  with assms show ?thesis
    using bufw.flush_ok [of b] bufw.flush_contents [of b] bufw_drop_flushed [of b]
    by (auto simp: decompress_def split: prod.splits)
next
  case (Zstd s t)
  with assms(2) obtain s0 ops where ops: "0 < level" "z_new z level = Inr s0" "zinput ops = bytes"
    "zstd_run z s0 ops = (tracking_contents t, s)" by auto
  from Zstd assms(3) obtain v t' t'' where t: "write_all tracking_write (z_finish z s) t = (Inr v, t')"
    "tracking_flush t' = (Inr u, t'')" "disk = tracking_disk t''"
    using tracking_drop_flushed by (auto simp: tracking_disk_def split: prod.splits sum.splits)
  have "disk = tracking_contents t @ z_finish z s"
    using t tracking.flush_ok [OF t(2)] tracking.flush_contents [OF t(2)]
      tracking.write_all_ok [OF t(1)] by simp
  moreover have "z_decode z (fst (zstd_run z s0 ops) @ z_finish z (snd (zstd_run z s0 ops))) =
      source (zinput ops) None"
    using assms(1) [OF ops(1)] ops(2) unfolding zstd_ok_def by blast
  ultimately show ?thesis using ops by (simp add: decompress_def)
qed

section \<open>Calm disks\<close>

lemma calm_new: "ArchiveWriter_new z file level = Inr w \<Longrightarrow> bufw_calm file \<Longrightarrow> writer_calm w"
  by (auto simp: ArchiveWriter_new_def bind_res_def tracking_calm_def split: if_splits sum.splits)

lemma calm_write:
  "writer_calm w \<Longrightarrow> \<exists>w'. writer_write_all z data w = (Inr (), w') \<and> writer_calm w'"
proof (cases w)
  case (Plain b)
  assume "writer_calm w"
  with Plain show ?thesis using bufw.write_all_calm [of b data] by auto
next
  case (Zstd s t)
  assume "writer_calm w"
  with Zstd have "tracking_calm t" by simp
  moreover obtain out s' where "z_write z s data = (out, s')" by fastforce
  ultimately show ?thesis using Zstd tracking.write_all_calm [of t out] by auto
qed

lemma calm_flush: "writer_calm w \<Longrightarrow> \<exists>w'. writer_flush z w = (Inr (), w') \<and> writer_calm w'"
proof (cases w)
  case (Plain b)
  assume "writer_calm w"
  with Plain show ?thesis by (auto dest: bufw.flush_calm)
next
  case (Zstd s t)
  assume "writer_calm w"
  with Zstd have "tracking_calm t" by simp
  moreover obtain out s' where "z_flush z s = (out, s')" by fastforce
  ultimately show ?thesis
    using Zstd tracking.write_all_calm [of t out] tracking.flush_calm by fastforce
qed

lemma calm_finish: "writer_calm w \<Longrightarrow> \<exists>disk. writer_finish z w = (Inr (), disk)"
proof (cases w)
  case (Plain b)
  assume "writer_calm w"
  with Plain show ?thesis by (auto dest: bufw.flush_calm)
next
  case (Zstd s t)
  assume "writer_calm w"
  with Zstd have "tracking_calm t" by simp
  then show ?thesis
    using Zstd tracking.write_all_calm [of t "z_finish z s"] tracking.flush_calm by fastforce
qed

section \<open>Open files\<close>

text \<open>
  An open file of an archive with header \<open>h\<close> holds the events \<open>es\<close>; its byte counter agrees. For
  an uncompressed file the header is already on disk.
\<close>

fun header_durable :: "byte list \<Rightarrow> 'z ArchiveWriter \<Rightarrow> bool" where
  "header_durable bytes (Plain w) \<longleftrightarrow> prefix bytes (bw_disk w)"
| "header_durable bytes (Zstd s t) \<longleftrightarrow> True"

definition file_holds ::
    "'z library \<Rightarrow> ('h, 'e) prost \<Rightarrow> nat \<Rightarrow> 'h \<Rightarrow> 'e list \<Rightarrow> 'z ArchiveFile \<Rightarrow> bool" where
  "file_holds lib p level h es file \<longleftrightarrow>
     holds (lib_zstd lib) level (archive_bytes p h es) (af_writer file) \<and>
     af_bytes_written file = length (archive_bytes p h es) \<and>
     header_durable (header_frame p h) (af_writer file)"

lemma flush_durable:
  "holds z level bytes w \<Longrightarrow> writer_flush z w = (Inr u, w') \<Longrightarrow> header_durable bytes w'"
  using bufw.flush_ok bufw.flush_contents by (cases w) (fastforce split: prod.splits sum.splits)+

lemma write_durable:
  assumes "writer_write_all z data w = (r, w')" and "header_durable bytes w"
  shows "header_durable bytes w'"
proof (cases w)
  case (Plain b)
  with assms show ?thesis
    using bufw.write_all_persistent [of data b] by (auto split: prod.splits intro: prefix_order.trans)
next
  case (Zstd s t)
  with assms show ?thesis by (auto split: prod.splits)
qed

lemma write_header_Ok:
  "write_header lib p path header w = Ok file \<longleftrightarrow>
   (\<exists>w1 w2. writer_write_all (lib_zstd lib) (header_frame p header) w = (Inr (), w1) \<and>
      writer_flush (lib_zstd lib) w1 = (Inr (), w2) \<and>
      file = \<lparr>af_path = path, af_writer = w2, af_bytes_written = length (header_frame p header)\<rparr>)"
proof -
  obtain r w1 where 1: "writer_write_all (lib_zstd lib) (header_frame p header) w = (r, w1)" by fastforce
  obtain q w2 where 2: "writer_flush (lib_zstd lib) w1 = (q, w2)" by fastforce
  show ?thesis by (cases r; cases q) (auto simp: write_header_def 1 2)
qed

lemma ArchiveFile_new_Ok:
  "ArchiveFile_new lib p existing c dir base level low = Ok file \<longleftrightarrow>
   (\<exists>path w h. open_fresh lib existing dir base (archive_ext level) (cr_attempts c) = Ok path \<and>
      ArchiveWriter_new (lib_zstd lib) (bufw_new (cr_cap c) (cr_fates c)) level = Inr w \<and>
      ArchiveHeader_new (cr_now c) low = Some h \<and> write_header lib p path h w = Ok file)"
  by (auto simp: ArchiveFile_new_def bind_io_Ok split: option.splits)

lemma ArchiveFile_new_holds:
  assumes "ArchiveFile_new lib p existing c dir base level low = Ok file"
  shows "\<exists>h. ArchiveHeader_new (cr_now c) low = Some h \<and> file_holds lib p level h [] file"
proof -
  let ?z = "lib_zstd lib"
  from assms obtain w h w1 w2 where w: "ArchiveWriter_new ?z (bufw_new (cr_cap c) (cr_fates c)) level = Inr w"
    and h: "ArchiveHeader_new (cr_now c) low = Some h"
    "writer_write_all ?z (header_frame p h) w = (Inr (), w1)" "writer_flush ?z w1 = (Inr (), w2)"
    "af_writer file = w2" "af_bytes_written file = length (header_frame p h)"
    by (auto simp: ArchiveFile_new_Ok write_header_Ok)
  have bytes: "archive_bytes p h [] = header_frame p h" by (simp add: archive_bytes_def)
  have w1: "holds ?z level (header_frame p h) w1"
    using holds_write [OF holds_new [OF w] h(2)] by simp
  from holds_flush [OF w1 h(3)] flush_durable [OF w1 h(3)] h bytes show ?thesis
    by (simp add: file_holds_def)
qed

lemma write_event_holds:
  assumes "file_holds lib p level h es file" and "write_event lib p ev file = (Inr u, file')"
  shows "file_holds lib p level h (es @ [ev]) file'"
  using assms holds_write [of "lib_zstd lib" level _ "af_writer file" "event_frame p ev" u]
    write_durable [of "lib_zstd lib" "event_frame p ev" "af_writer file"]
  by (auto simp: file_holds_def write_event_def archive_bytes_snoc Let_def split: prod.splits sum.splits)

lemma finalize_reads_back:
  assumes "0 < level \<Longrightarrow> zstd_ok (lib_zstd lib)" and "file_holds lib p level h es file"
    and "finalize lib file = (Inr u, disk)"
  shows "decompress (lib_zstd lib) level disk = source (archive_bytes p h es) None"
  using finish_reads_back [of level "lib_zstd lib" "archive_bytes p h es" "af_writer file" u disk] assms
  by (simp add: finalize_def file_holds_def)

lemma write_event_calm:
  assumes "writer_calm (af_writer file)"
  shows "\<exists>file'. write_event lib p ev file = (Inr (), file') \<and> writer_calm (af_writer file')"
  using calm_write [OF assms, of "lib_zstd lib" "event_frame p ev"]
  by (auto simp: write_event_def Let_def)

lemma finalize_calm: "writer_calm (af_writer file) \<Longrightarrow> \<exists>disk. finalize lib file = (Inr (), disk)"
  by (simp add: finalize_def calm_finish)

lemma ArchiveFile_new_calm:
  assumes "ArchiveFile_new lib p existing c dir base level low = Ok file"
    and "list_all takes_some (cr_fates c)"
  shows "writer_calm (af_writer file)"
proof -
  let ?z = "lib_zstd lib"
  from assms(1) obtain w h w1 where w: "ArchiveWriter_new ?z (bufw_new (cr_cap c) (cr_fates c)) level = Inr w"
    "writer_write_all ?z (header_frame p h) w = (Inr (), w1)"
    "writer_flush ?z w1 = (Inr (), af_writer file)"
    by (auto simp: ArchiveFile_new_Ok write_header_Ok)
  have "writer_calm w"
    using calm_new [OF w(1)] assms(2) by (simp add: bufw_calm_def bufw_new_def)
  with calm_write [of w ?z "header_frame p h"] w(2) have "writer_calm w1" by auto
  with calm_flush [of w1 ?z] w(3) show ?thesis by auto
qed

section \<open>Fresh names\<close>

lemma open_fresh_fresh:
  "open_fresh lib existing dir base ext attempts = Ok path \<Longrightarrow> path \<notin> set existing"
proof (induction attempts)
  case (Cons a attempts)
  then show ?case by (cases a) (auto simp: Let_def split: option.splits if_splits)
qed simp

lemma ArchiveFile_new_fresh:
  "ArchiveFile_new lib p existing c dir base level low = Ok file \<Longrightarrow> af_path file \<notin> set existing"
  by (auto simp: ArchiveFile_new_Ok write_header_Ok dest!: open_fresh_fresh)

end
