(* ===== verification/ArchiveFilter.thy ===== *)
theory ArchiveFilter
  imports PbEvents
begin

text \<open>
  The command line of the archiver, the filter derived from it and the low-data mode:
  \<^verbatim>\<open>Args\<close>, \<^verbatim>\<open>MessageFilter\<close>, \<^verbatim>\<open>ArchiveFilter\<close> and \<^verbatim>\<open>strip_low_data\<close> of
  \<^verbatim>\<open>tools/archive/src/archiver/mod.rs\<close>.
\<close>

section \<open>The command line\<close>

record ArchiveArgs =
  ar_output_dir :: string
  ar_base_name :: string
  ar_max_file_size :: nat
  ar_compression_level :: nat
  ar_low_data :: bool
  ar_messages :: bool
  ar_connections :: bool
  ar_mempool :: bool
  ar_validation :: bool
  ar_rpc :: bool
  ar_p2p_extractor :: bool
  ar_log_extractor :: bool
  ar_ipc_extractor :: bool
  ar_addr_relay :: bool
  ar_connections_with_handshakes :: bool

definition archive_all :: "ArchiveArgs \<Rightarrow> bool" where
  "archive_all args \<longleftrightarrow>
     \<not> (ar_messages args \<or> ar_connections args \<or> ar_mempool args \<or> ar_validation args \<or>
        ar_rpc args \<or> ar_p2p_extractor args \<or> ar_log_extractor args \<or> ar_ipc_extractor args \<or>
        ar_addr_relay args \<or> ar_connections_with_handshakes args)"

section \<open>Filters\<close>

record MessageFilter =
  mf_getaddr :: bool
  mf_addr :: bool
  mf_addrv2 :: bool
  mf_version :: bool

fun MessageFilter_matches :: "MessageFilter \<Rightarrow> P2pMsg \<Rightarrow> bool" where
  "MessageFilter_matches f (Msg_getaddr _) = mf_getaddr f"
| "MessageFilter_matches f (Msg_addr _) = mf_addr f"
| "MessageFilter_matches f (Msg_addrv2 _) = mf_addrv2 f"
| "MessageFilter_matches f (Msg_emptyaddrv2 _) = mf_addrv2 f"
| "MessageFilter_matches f (Msg_version _) = mf_version f"
| "MessageFilter_matches f _ = False"

record ArchiveFilter =
  flt_all :: bool
  flt_messages :: bool
  flt_connections :: bool
  flt_mempool :: bool
  flt_validation :: bool
  flt_rpc :: bool
  flt_p2p_extractor :: bool
  flt_log_extractor :: bool
  flt_ipc_extractor :: bool
  flt_message_types :: MessageFilter

definition ArchiveFilter_from :: "ArchiveArgs \<Rightarrow> ArchiveFilter" where
  "ArchiveFilter_from args =
     \<lparr>flt_all = archive_all args,
      flt_messages = ar_messages args,
      flt_connections = (ar_connections args \<or> ar_connections_with_handshakes args),
      flt_mempool = ar_mempool args,
      flt_validation = ar_validation args,
      flt_rpc = ar_rpc args,
      flt_p2p_extractor = ar_p2p_extractor args,
      flt_log_extractor = ar_log_extractor args,
      flt_ipc_extractor = ar_ipc_extractor args,
      flt_message_types =
        \<lparr>mf_getaddr = ar_addr_relay args, mf_addr = ar_addr_relay args,
         mf_addrv2 = ar_addr_relay args, mf_version = ar_connections_with_handshakes args\<rparr>\<rparr>"

definition ArchiveFilter_matches :: "ArchiveFilter \<Rightarrow> 'x Event_pb \<Rightarrow> bool" where
  "ArchiveFilter_matches f event \<longleftrightarrow>
     flt_all f \<or>
     (case pev_event event of
        Some (EbpfExtractorEv e) \<Rightarrow>
          (case e of
             Some (EbpfMessage message_event) \<Rightarrow>
               flt_messages f \<or>
               (case mev_msg message_event of
                  Some msg \<Rightarrow> MessageFilter_matches (flt_message_types f) msg
                | None \<Rightarrow> False)
           | Some (EbpfConnection _) \<Rightarrow> flt_connections f
           | Some (EbpfMempool _) \<Rightarrow> flt_mempool f
           | Some (EbpfValidation _) \<Rightarrow> flt_validation f
           | None \<Rightarrow> False)
      | Some (RpcExtractorEv _) \<Rightarrow> flt_rpc f
      | Some (P2pExtractorEv _) \<Rightarrow> flt_p2p_extractor f
      | Some (LogExtractorEv _) \<Rightarrow> flt_log_extractor f
      | Some (IpcExtractorEv _) \<Rightarrow> flt_ipc_extractor f
      | None \<Rightarrow> False)"

section \<open>Low-data mode\<close>

definition drop_raw :: "Transaction_pb \<Rightarrow> Transaction_pb" where
  "drop_raw tx = tx\<lparr>transaction_raw := None\<rparr>"

fun strip_msg :: "P2pMsg \<Rightarrow> P2pMsg" where
  "strip_msg (Msg_tx tx) = Msg_tx (tx\<lparr>tx_tx := drop_raw (tx_tx tx)\<rparr>)"
| "strip_msg (Msg_block block) = Msg_block (block\<lparr>block_transactions := []\<rparr>)"
| "strip_msg (Msg_blocktxn blocktxn) =
     Msg_blocktxn (blocktxn\<lparr>blocktxn_transactions := map drop_raw (blocktxn_transactions blocktxn)\<rparr>)"
| "strip_msg (Msg_compactblock compact_block) =
     Msg_compactblock (compact_block\<lparr>compactblock_transactions :=
       map (\<lambda>prefilled. prefilled\<lparr>prefilledtransaction_tx := drop_raw (prefilledtransaction_tx prefilled)\<rparr>)
         (compactblock_transactions compact_block)\<rparr>)"
| "strip_msg msg = msg"

definition strip_low_data :: "'x Event_pb \<Rightarrow> 'x Event_pb" where
  "strip_low_data event =
     (case pev_event event of
        Some (EbpfExtractorEv (Some (EbpfMessage message_event))) \<Rightarrow>
          (case mev_msg message_event of
             Some msg \<Rightarrow>
               event\<lparr>pev_event := Some (EbpfExtractorEv (Some (EbpfMessage
                 (message_event\<lparr>mev_msg := Some (strip_msg msg)\<rparr>))))\<rparr>
           | None \<Rightarrow> event)
      | _ \<Rightarrow> event)"

section \<open>Facts\<close>

lemma drop_raw_idem [simp]: "drop_raw (drop_raw tx) = drop_raw tx"
  by (simp add: drop_raw_def)

lemma strip_msg_idem [simp]: "strip_msg (strip_msg msg) = strip_msg msg"
  by (cases msg rule: strip_msg.cases) simp_all

lemma strip_msg_matches [simp]: "MessageFilter_matches f (strip_msg msg) = MessageFilter_matches f msg"
  by (cases msg) simp_all

lemma strip_low_data_idem: "strip_low_data (strip_low_data event) = strip_low_data event"
  by (auto simp: strip_low_data_def split: option.splits PeerObserverEvent.splits ebpf_event.splits)

lemma strip_low_data_matches:
  "ArchiveFilter_matches f (strip_low_data event) = ArchiveFilter_matches f event"
  by (auto simp: strip_low_data_def ArchiveFilter_matches_def
      split: option.splits PeerObserverEvent.splits ebpf_event.splits)

lemma strip_timestamp: "pev_timestamp (strip_low_data event) = pev_timestamp event"
  by (auto simp: strip_low_data_def split: option.splits PeerObserverEvent.splits ebpf_event.splits)

text \<open>The union of two command lines: every flag that is set in one of them.\<close>

definition args_union :: "ArchiveArgs \<Rightarrow> ArchiveArgs \<Rightarrow> ArchiveArgs" where
  "args_union a b =
     a\<lparr>ar_messages := ar_messages a \<or> ar_messages b,
       ar_connections := ar_connections a \<or> ar_connections b,
       ar_mempool := ar_mempool a \<or> ar_mempool b,
       ar_validation := ar_validation a \<or> ar_validation b,
       ar_rpc := ar_rpc a \<or> ar_rpc b,
       ar_p2p_extractor := ar_p2p_extractor a \<or> ar_p2p_extractor b,
       ar_log_extractor := ar_log_extractor a \<or> ar_log_extractor b,
       ar_ipc_extractor := ar_ipc_extractor a \<or> ar_ipc_extractor b,
       ar_addr_relay := ar_addr_relay a \<or> ar_addr_relay b,
       ar_connections_with_handshakes :=
         ar_connections_with_handshakes a \<or> ar_connections_with_handshakes b\<rparr>"

lemma matches_message_types:
  "MessageFilter_matches (flt_message_types (ArchiveFilter_from args)) msg \<longleftrightarrow>
   (ar_addr_relay args \<and>
      (case msg of Msg_getaddr _ \<Rightarrow> True | Msg_addr _ \<Rightarrow> True | Msg_addrv2 _ \<Rightarrow> True
         | Msg_emptyaddrv2 _ \<Rightarrow> True | _ \<Rightarrow> False)) \<or>
   (ar_connections_with_handshakes args \<and> (case msg of Msg_version _ \<Rightarrow> True | _ \<Rightarrow> False))"
  by (cases msg) (simp_all add: ArchiveFilter_from_def)

lemma archive_all_union: "archive_all (args_union a b) \<longleftrightarrow> archive_all a \<and> archive_all b"
  by (auto simp: archive_all_def args_union_def)

lemma union_matches:
  assumes "\<not> archive_all a" and "\<not> archive_all b"
  shows "ArchiveFilter_matches (ArchiveFilter_from (args_union a b)) event \<longleftrightarrow>
         ArchiveFilter_matches (ArchiveFilter_from a) event \<or>
         ArchiveFilter_matches (ArchiveFilter_from b) event"
proof -
  have all: "flt_all (ArchiveFilter_from c) \<longleftrightarrow> archive_all c" for c
    by (simp add: ArchiveFilter_from_def)
  have msgs: "MessageFilter_matches (flt_message_types (ArchiveFilter_from (args_union a b))) m \<longleftrightarrow>
      MessageFilter_matches (flt_message_types (ArchiveFilter_from a)) m \<or>
      MessageFilter_matches (flt_message_types (ArchiveFilter_from b)) m" for m
    unfolding matches_message_types by (auto simp: args_union_def)
  have flags:
    "flt_messages (ArchiveFilter_from (args_union a b)) = (flt_messages (ArchiveFilter_from a) \<or> flt_messages (ArchiveFilter_from b))"
    "flt_connections (ArchiveFilter_from (args_union a b)) = (flt_connections (ArchiveFilter_from a) \<or> flt_connections (ArchiveFilter_from b))"
    "flt_mempool (ArchiveFilter_from (args_union a b)) = (flt_mempool (ArchiveFilter_from a) \<or> flt_mempool (ArchiveFilter_from b))"
    "flt_validation (ArchiveFilter_from (args_union a b)) = (flt_validation (ArchiveFilter_from a) \<or> flt_validation (ArchiveFilter_from b))"
    "flt_rpc (ArchiveFilter_from (args_union a b)) = (flt_rpc (ArchiveFilter_from a) \<or> flt_rpc (ArchiveFilter_from b))"
    "flt_p2p_extractor (ArchiveFilter_from (args_union a b)) = (flt_p2p_extractor (ArchiveFilter_from a) \<or> flt_p2p_extractor (ArchiveFilter_from b))"
    "flt_log_extractor (ArchiveFilter_from (args_union a b)) = (flt_log_extractor (ArchiveFilter_from a) \<or> flt_log_extractor (ArchiveFilter_from b))"
    "flt_ipc_extractor (ArchiveFilter_from (args_union a b)) = (flt_ipc_extractor (ArchiveFilter_from a) \<or> flt_ipc_extractor (ArchiveFilter_from b))"
    by (auto simp: ArchiveFilter_from_def args_union_def)
  show ?thesis
    using assms
    by (auto simp: ArchiveFilter_matches_def all archive_all_union msgs flags
        split: option.splits PeerObserverEvent.splits ebpf_event.splits)
qed

end
