(* ===== verification/Archiver.thy ===== *)
theory Archiver
  imports ArchiveFileFacts ArchiveFilter
begin

text \<open>
  The archiver: \<^verbatim>\<open>run\<close> and \<^verbatim>\<open>rotate\<close> of \<^verbatim>\<open>tools/archive/src/archiver/mod.rs\<close>. One iteration of
  the \<^verbatim>\<open>select!\<close> loop takes a tick: the branch that became ready, with what its calls return. A
  file that is no longer open is its path and its bytes on disk; a run that fails leaves those files
  and the one it failed on. The result of \<^verbatim>\<open>decode\<close> is \<^verbatim>\<open>prost\<close>'s.
\<close>

section \<open>State\<close>

record 'z archiver =
  av_file :: "'z ArchiveFile"
  av_closed :: "(string \<times> byte list) list"
  av_existing :: "string list"
  av_total_files :: nat
  av_draining :: bool
  av_drain_deadline :: nat

text \<open>Times of the monotonic clock are in nanoseconds.\<close>

definition DRAIN_TIMEOUT :: nat where "DRAIN_TIMEOUT = 10 * 1000000000"

datatype arch_input =
    SubMessage "byte list"
  | SubEnded
  | ShutdownChanged bool
  | ShutdownDropped
  | DrainDeadline

record arch_tick =
  at_input :: arch_input
  at_now :: nat
  at_drain_ok :: bool
  at_creation :: creation

datatype arch_error =
    NatsFailed
  | CreatingDirectory io_error
  | CreatingInitialFile io_error
  | ReadinessProbe
  | Rotating io_error
  | Finalizing io_error
  | ClockPanic
  | StillRetrying

datatype 'z arch_outcome =
    Running "'z archiver"
  | Ended nat "(string \<times> byte list) list"
  | Failed arch_error "(string \<times> byte list) list"

fun with_context :: "(io_error \<Rightarrow> arch_error) \<Rightarrow> 'a io_result \<Rightarrow> arch_error + 'a" where
  "with_context f (Ok x) = Inr x"
| "with_context f (Err e) = Inl (f e)"
| "with_context f Panics = Inl ClockPanic"
| "with_context f Spinning = Inl StillRetrying"

section \<open>Operations\<close>

definition new_file ::
    "'z library \<Rightarrow> (ArchiveHeader, 'e) prost \<Rightarrow> ArchiveArgs \<Rightarrow> string list \<Rightarrow> creation \<Rightarrow>
     'z ArchiveFile io_result" where
  "new_file lib p args existing c =
     ArchiveFile_new lib p existing c (ar_output_dir args) (ar_base_name args)
       (ar_compression_level args) (ar_low_data args)"

text \<open>\<^verbatim>\<open>rotate\<close> gives the next file and what the last one left on disk.\<close>

definition rotate_file ::
    "'z library \<Rightarrow> (ArchiveHeader, 'e) prost \<Rightarrow> ArchiveArgs \<Rightarrow> string list \<Rightarrow> creation \<Rightarrow>
     'z ArchiveFile \<Rightarrow> ('z ArchiveFile \<times> byte list) io_result" where
  "rotate_file lib p args existing c current_file =
     (case finalize lib current_file of
        (Inl e, disk) \<Rightarrow> Err e
      | (Inr _, disk) \<Rightarrow> bind_io (new_file lib p args existing c) (\<lambda>new. Ok (new, disk)))"

text \<open>What a rotation that fails leaves: the last file, and a new one that could not be completed.\<close>

definition rotate_left ::
    "'z library \<Rightarrow> (ArchiveHeader, 'e) prost \<Rightarrow> ArchiveArgs \<Rightarrow> string list \<Rightarrow> creation \<Rightarrow>
     'z ArchiveFile \<Rightarrow> (string \<times> byte list) list" where
  "rotate_left lib p args existing c current_file =
     (case finalize lib current_file of
        (Inl e, disk) \<Rightarrow> [(af_path current_file, disk)]
      | (Inr _, disk) \<Rightarrow>
          (af_path current_file, disk) #
          ArchiveFile_left lib p existing c (ar_output_dir args) (ar_base_name args)
            (ar_compression_level args) (ar_low_data args))"

text \<open>Leaving the loop: the last file is finalized.\<close>

definition shut_down :: "'z library \<Rightarrow> 'z archiver \<Rightarrow> 'z arch_outcome" where
  "shut_down lib st =
     (case finalize lib (av_file st) of
        (Inl e, disk) \<Rightarrow> Failed (Finalizing e) (av_closed st @ [(af_path (av_file st), disk)])
      | (Inr _, disk) \<Rightarrow>
          Ended (av_total_files st + 1) (av_closed st @ [(af_path (av_file st), disk)]))"

text \<open>What becomes of a payload: nothing, or the event that is written.\<close>

definition archived_event ::
    "(ArchiveHeader, 'x Event_pb) prost \<Rightarrow> ArchiveArgs \<Rightarrow> byte list \<Rightarrow> 'x Event_pb option" where
  "archived_event p args pl =
     (case decode_event p pl of
        None \<Rightarrow> None
      | Some event \<Rightarrow>
          if ArchiveFilter_matches (ArchiveFilter_from args) event then
            Some (if ar_low_data args then strip_low_data event else event)
          else None)"

definition handle_message ::
    "'z library \<Rightarrow> (ArchiveHeader, 'x Event_pb) prost \<Rightarrow> ArchiveArgs \<Rightarrow> creation \<Rightarrow> byte list \<Rightarrow>
     'z archiver \<Rightarrow> 'z arch_outcome" where
  "handle_message lib p args c pl st =
     (case archived_event p args pl of
        None \<Rightarrow> Running st
      | Some event \<Rightarrow>
          (case write_event lib p event (av_file st) of
             (Inl e, file) \<Rightarrow> shut_down lib (st\<lparr>av_file := file\<rparr>)
           | (Inr _, file) \<Rightarrow>
               if needs_rotation (ar_max_file_size args) file then
                 (case with_context Rotating (rotate_file lib p args (av_existing st) c file) of
                    Inl e \<Rightarrow> Failed e (av_closed st @ rotate_left lib p args (av_existing st) c file)
                  | Inr (new, disk) \<Rightarrow>
                      Running (st\<lparr>av_file := new,
                                  av_closed := av_closed st @ [(af_path file, disk)],
                                  av_existing := av_existing st @ [af_path new],
                                  av_total_files := av_total_files st + 1\<rparr>))
               else Running (st\<lparr>av_file := file\<rparr>)))"

definition start_draining :: "'z library \<Rightarrow> arch_tick \<Rightarrow> 'z archiver \<Rightarrow> 'z arch_outcome" where
  "start_draining lib t st =
     (if at_drain_ok t then
        Running (st\<lparr>av_draining := True, av_drain_deadline := at_now t + DRAIN_TIMEOUT\<rparr>)
      else shut_down lib (st\<lparr>av_draining := True\<rparr>))"

text \<open>
  The guards of the branches: the shutdown notification is polled only while not draining, the
  deadline only while draining, and it completes when its time has come. A tick of a branch that
  is not enabled cannot happen; the model ignores it.
\<close>

definition enabled :: "arch_tick \<Rightarrow> 'z archiver \<Rightarrow> bool" where
  "enabled t st \<longleftrightarrow>
     (case at_input t of
        SubMessage _ \<Rightarrow> True
      | SubEnded \<Rightarrow> True
      | ShutdownChanged _ \<Rightarrow> \<not> av_draining st
      | ShutdownDropped \<Rightarrow> \<not> av_draining st
      | DrainDeadline \<Rightarrow> av_draining st \<and> av_drain_deadline st \<le> at_now t)"

definition arch_iteration ::
    "'z library \<Rightarrow> (ArchiveHeader, 'x Event_pb) prost \<Rightarrow> ArchiveArgs \<Rightarrow> arch_tick \<Rightarrow>
     'z archiver \<Rightarrow> 'z arch_outcome" where
  "arch_iteration lib p args t st =
     (if \<not> enabled t st then Running st
      else case at_input t of
          SubMessage pl \<Rightarrow> handle_message lib p args (at_creation t) pl st
        | SubEnded \<Rightarrow> shut_down lib st
        | ShutdownChanged v \<Rightarrow> if v then start_draining lib t st else Running st
        | ShutdownDropped \<Rightarrow> start_draining lib t st
        | DrainDeadline \<Rightarrow> shut_down lib st)"

fun arch_loop ::
    "'z library \<Rightarrow> (ArchiveHeader, 'x Event_pb) prost \<Rightarrow> ArchiveArgs \<Rightarrow> arch_tick list \<Rightarrow>
     'z archiver \<Rightarrow> 'z arch_outcome" where
  "arch_loop lib p args [] st = Running st"
| "arch_loop lib p args (t # ts) st =
     (case arch_iteration lib p args t st of
        Running st' \<Rightarrow> arch_loop lib p args ts st'
      | out \<Rightarrow> out)"

text \<open>
  What happens before the loop: the connection and the subscription, the output directory, the
  first file and, if the caller asked for it, the readiness probe.
\<close>

record arch_setup =
  su_nats_ok :: bool
  su_create_dir :: "io_error option"
  su_existing :: "string list"
  su_creation :: creation
  su_now :: nat
  su_probe_ok :: "bool option"

definition arch_start ::
    "'z library \<Rightarrow> (ArchiveHeader, 'e) prost \<Rightarrow> ArchiveArgs \<Rightarrow> arch_setup \<Rightarrow> arch_error + 'z archiver" where
  "arch_start lib p args su =
     (if \<not> su_nats_ok su then Inl NatsFailed
      else case su_create_dir su of
          Some e \<Rightarrow> Inl (CreatingDirectory e)
        | None \<Rightarrow>
            bind_res (with_context CreatingInitialFile
                (new_file lib p args (su_existing su) (su_creation su))) (\<lambda>current_file.
            if su_probe_ok su = Some False then Inl ReadinessProbe
            else Inr \<lparr>av_file = current_file, av_closed = [],
                      av_existing = su_existing su @ [af_path current_file],
                      av_total_files = 0, av_draining = False, av_drain_deadline = su_now su\<rparr>))"

section \<open>What a run archives\<close>

definition tick_events ::
    "(ArchiveHeader, 'x Event_pb) prost \<Rightarrow> ArchiveArgs \<Rightarrow> arch_tick \<Rightarrow> 'x Event_pb list" where
  "tick_events p args t =
     (case at_input t of
        SubMessage pl \<Rightarrow> (case archived_event p args pl of None \<Rightarrow> [] | Some ev \<Rightarrow> [ev])
      | _ \<Rightarrow> [])"

definition archived ::
    "(ArchiveHeader, 'x Event_pb) prost \<Rightarrow> ArchiveArgs \<Rightarrow> arch_tick list \<Rightarrow> 'x Event_pb list" where
  "archived p args ts = concat (map (tick_events p args) ts)"

lemma archived_simps [simp]:
  "archived p args [] = []"
  "archived p args (t # ts) = tick_events p args t @ archived p args ts"
  "archived p args (ts @ ts') = archived p args ts @ archived p args ts'"
  by (simp_all add: archived_def)

lemma archived_snoc: "archived p args (ts @ [t]) = archived p args ts @ tick_events p args t"
  by simp

section \<open>The invariant\<close>

text \<open>
  A closed file reads back as a header with the low-data flag of the run and its share of the
  events, and nothing else. A rotated one has at least the size that makes the archiver rotate, and an
  uncompressed one would not have it without its last event, unless that is its only one.
\<close>

definition closed_ok ::
    "'z library \<Rightarrow> (ArchiveHeader, 'e) prost \<Rightarrow> ArchiveArgs \<Rightarrow> string \<times> byte list \<Rightarrow> 'e list \<Rightarrow> bool" where
  "closed_ok lib p args file es \<longleftrightarrow>
     (\<exists>h. hd_low_data h = Some (ar_low_data args) \<and>
        ((0 < ar_compression_level args \<longrightarrow> zstd_ok (lib_zstd lib)) \<longrightarrow>
           decompress (lib_zstd lib) (ar_compression_level args) (snd file) =
           source (archive_bytes p h es) None))"

definition rotated_ok ::
    "'z library \<Rightarrow> (ArchiveHeader, 'e) prost \<Rightarrow> ArchiveArgs \<Rightarrow> string \<times> byte list \<Rightarrow> 'e list \<Rightarrow> bool" where
  "rotated_ok lib p args file es \<longleftrightarrow>
     closed_ok lib p args file es \<and> es \<noteq> [] \<and> ar_max_file_size args \<le> length (snd file) \<and>
     (ar_compression_level args = 0 \<longrightarrow> length es = 1 \<or>
        length (snd file) < ar_max_file_size args + length (event_frame p (last es)))"

end
