(* ===== verification/ArchiverFacts.thy ===== *)
theory ArchiverFacts
  imports Archiver
begin

text \<open>
  The invariant of the archiver's loop and that every iteration keeps it: what the closed files
  and the open one hold together is exactly what the run was given to archive.
\<close>

section \<open>Sizes\<close>

lemma holds_Plain: "holds z level bytes w \<Longrightarrow> level = 0 \<Longrightarrow> \<exists>b. w = Plain b \<and> bufw_contents b = bytes"
  by (cases w) auto

lemma holds_Zstd: "holds z level bytes w \<Longrightarrow> 0 < level \<Longrightarrow> \<exists>s t. w = Zstd s t \<and> counted t"
  by (cases w) auto

lemma finish_Plain:
  assumes "writer_finish z (Plain b) = (Inr u, disk)"
  shows "disk = bufw_contents b"
proof -
  from assms obtain w where w: "flush_buf b = (Inr u, w)" "disk = bufw_drop w" by (auto split: prod.splits)
  then show ?thesis
    using bufw.flush_ok [OF w(1)] bufw.flush_contents [OF w(1)] bufw_drop_flushed [OF w(1)] by simp
qed

lemma finish_Zstd:
  assumes "writer_finish z (Zstd s t) = (Inr u, disk)"
  shows "disk = tracking_contents t @ z_finish z s"
proof -
  from assms obtain v t' t'' where t: "write_all tracking_write (z_finish z s) t = (Inr v, t')"
    "tracking_flush t' = (Inr u, t'')" "disk = tracking_disk t''"
    using tracking_drop_flushed by (auto simp: tracking_disk_def split: prod.splits sum.splits)
  then show ?thesis
    using tracking.flush_ok [OF t(2)] tracking.flush_contents [OF t(2)]
      tracking.write_all_ok [OF t(1)] by simp
qed

lemma finalize_uncompressed:
  "file_holds lib p 0 h es file \<Longrightarrow> finalize lib file = (Inr u, disk) \<Longrightarrow> disk = archive_bytes p h es"
  by (auto simp: file_holds_def finalize_def simp del: writer_finish.simps
      dest!: holds_Plain finish_Plain)

lemma uncompressed_size:
  "file_holds lib p 0 h es file \<Longrightarrow>
   needs_rotation limit file \<longleftrightarrow> limit \<le> length (archive_bytes p h es)"
  by (auto simp: file_holds_def needs_rotation_def dest!: holds_Plain)

lemma rotated_size:
  assumes "file_holds lib p level h es file" and "needs_rotation limit file"
    and "finalize lib file = (Inr u, disk)"
  shows "limit \<le> length disk"
proof (cases "level = 0")
  case True
  with assms show ?thesis
    using finalize_uncompressed [of lib p h es "file" u disk] uncompressed_size [of lib p h es "file" limit]
    by simp
next
  case False
  then have "0 < level" by simp
  moreover have "holds (lib_zstd lib) level (archive_bytes p h es) (af_writer file)"
    using assms(1) by (simp add: file_holds_def)
  ultimately obtain s t where w: "af_writer file = Zstd s t" "counted t"
    using holds_Zstd by blast
  with assms(2) have "limit \<le> length (tracking_contents t)"
    by (simp add: needs_rotation_def counted_def)
  moreover have "disk = tracking_contents t @ z_finish (lib_zstd lib) s"
    using assms(3) w by (intro finish_Zstd) (simp add: finalize_def)
  ultimately show ?thesis by simp
qed

section \<open>The invariant\<close>

definition names_ok :: "string list \<Rightarrow> 'z archiver \<Rightarrow> bool" where
  "names_ok dir st \<longleftrightarrow>
     (let names = map fst (av_closed st) @ [af_path (av_file st)] in
      av_existing st = dir @ names \<and> distinct names \<and> set names \<inter> set dir = {})"

definition holds_run ::
    "'z library \<Rightarrow> (ArchiveHeader, 'x Event_pb) prost \<Rightarrow> ArchiveArgs \<Rightarrow> 'x Event_pb list list \<Rightarrow>
     'x Event_pb list \<Rightarrow> 'z archiver \<Rightarrow> bool" where
  "holds_run lib p args ess es st \<longleftrightarrow>
     (\<exists>h. hd_low_data h = Some (ar_low_data args) \<and>
        file_holds lib p (ar_compression_level args) h es (av_file st)) \<and>
     (es = [] \<or> \<not> needs_rotation (ar_max_file_size args) (av_file st)) \<and>
     list_all2 (closed_ok lib p args) (av_closed st) ess \<and>
     list_all2 (rotated_ok lib p args) (av_closed st) ess"

definition arch_inv ::
    "'z library \<Rightarrow> (ArchiveHeader, 'x Event_pb) prost \<Rightarrow> ArchiveArgs \<Rightarrow> string list \<Rightarrow>
     'x Event_pb list \<Rightarrow> 'z archiver \<Rightarrow> bool" where
  "arch_inv lib p args dir done st \<longleftrightarrow>
     (\<exists>ess es. holds_run lib p args ess es st \<and> concat ess @ es = done) \<and>
     av_total_files st = length (av_closed st) \<and> names_ok dir st"

lemma ArchiveHeader_new_low: "ArchiveHeader_new now low = Some h \<Longrightarrow> hd_low_data h = Some low"
  by (auto simp: ArchiveHeader_new_def split: option.splits)

lemma new_file_holds:
  "new_file lib p args existing c = Ok file \<Longrightarrow>
   \<exists>h. hd_low_data h = Some (ar_low_data args) \<and>
       file_holds lib p (ar_compression_level args) h [] file"
  unfolding new_file_def
  by (drule ArchiveFile_new_holds) (auto intro: ArchiveHeader_new_low)

lemma new_file_fresh: "new_file lib p args existing c = Ok file \<Longrightarrow> af_path file \<notin> set existing"
  unfolding new_file_def by (rule ArchiveFile_new_fresh)

lemma with_context_Inr [simp]: "with_context f r = Inr x \<longleftrightarrow> r = Ok x"
  by (cases r) simp_all

lemma arch_start_inv:
  assumes "arch_start lib p args su = Inr st"
  shows "arch_inv lib p args (su_existing su) [] st \<and> \<not> av_draining st"
proof -
  from assms obtain af where start: "new_file lib p args (su_existing su) (su_creation su) = Ok af"
    "st = \<lparr>av_file = af, av_closed = [], av_existing = su_existing su @ [af_path af],
           av_total_files = 0, av_draining = False, av_drain_deadline = su_now su\<rparr>"
    by (auto simp: arch_start_def bind_res_def split: if_splits option.splits sum.splits)
  from new_file_holds [OF start(1)] have "holds_run lib p args [] [] st"
    by (simp add: holds_run_def start(2))
  then have "\<exists>ess es. holds_run lib p args ess es st \<and> concat ess @ es = []"
    by (intro exI [of _ "[]"]) simp
  with new_file_fresh [OF start(1)] show ?thesis
    by (simp add: arch_inv_def names_ok_def start(2))
qed

text \<open>Writing an event, with or without a rotation after it.\<close>

lemma holds_run_write:
  assumes "holds_run lib p args ess es st" and "write_event lib p ev (av_file st) = (Inr u, file)"
  shows "\<exists>h. hd_low_data h = Some (ar_low_data args) \<and>
    file_holds lib p (ar_compression_level args) h (es @ [ev]) file \<and>
    (ar_compression_level args = 0 \<longrightarrow> es \<noteq> [] \<longrightarrow>
       length (archive_bytes p h es) < ar_max_file_size args)"
proof -
  from assms(1) obtain h where h: "hd_low_data h = Some (ar_low_data args)"
    "file_holds lib p (ar_compression_level args) h es (av_file st)"
    by (auto simp: holds_run_def)
  have "ar_compression_level args = 0 \<Longrightarrow> es \<noteq> [] \<Longrightarrow>
      length (archive_bytes p h es) < ar_max_file_size args"
    using assms(1) h(2) uncompressed_size [of lib p h es "av_file st" "ar_max_file_size args"]
    by (simp add: holds_run_def)
  with h write_event_holds [OF h(2) assms(2)] show ?thesis by (intro exI [of _ h]) simp
qed

lemma shut_down_not_Running [simp]: "shut_down lib st \<noteq> Running st'"
  by (auto simp: shut_down_def split: prod.splits sum.splits)

text \<open>The three ways a message can leave the loop running.\<close>

lemma handle_message_Running:
  assumes "handle_message lib p args c pl st = Running st'"
  obtains (dropped) "archived_event p args pl = None" "st' = st"
  | (wrote) ev f where "archived_event p args pl = Some ev"
      "write_event lib p ev (av_file st) = (Inr (), f)" "af_path f = af_path (av_file st)"
      "\<not> needs_rotation (ar_max_file_size args) f" "st' = st\<lparr>av_file := f\<rparr>"
  | (rotated) ev f new disk where "archived_event p args pl = Some ev"
      "write_event lib p ev (av_file st) = (Inr (), f)" "af_path f = af_path (av_file st)"
      "needs_rotation (ar_max_file_size args) f" "finalize lib f = (Inr (), disk)"
      "new_file lib p args (av_existing st) c = Ok new"
      "st' = st\<lparr>av_file := new, av_closed := av_closed st @ [(af_path f, disk)],
               av_existing := av_existing st @ [af_path new],
               av_total_files := av_total_files st + 1\<rparr>"
proof (cases "archived_event p args pl")
  case None
  with assms dropped show ?thesis by (simp add: handle_message_def)
next
  case (Some ev)
  obtain r f where call: "write_event lib p ev (av_file st) = (r, f)" by fastforce
  have path: "af_path f = af_path (av_file st)"
    using call by (auto simp: write_event_def Let_def split: prod.splits sum.splits)
  from assms Some call have "r = Inr ()"
    by (cases r) (auto simp: handle_message_def)
  with call have call: "write_event lib p ev (av_file st) = (Inr (), f)" by simp
  show ?thesis
  proof (cases "needs_rotation (ar_max_file_size args) f")
    case False
    with assms Some call path wrote show ?thesis by (simp add: handle_message_def)
  next
    case True
    with assms Some call obtain new disk where
      rot: "rotate_file lib p args (av_existing st) c f = Ok (new, disk)"
      "st' = st\<lparr>av_file := new, av_closed := av_closed st @ [(af_path f, disk)],
               av_existing := av_existing st @ [af_path new],
               av_total_files := av_total_files st + 1\<rparr>"
      by (auto simp: handle_message_def split: sum.splits)
    from rot(1) have "finalize lib f = (Inr (), disk)" "new_file lib p args (av_existing st) c = Ok new"
      by (auto simp: rotate_file_def bind_io_Ok split: prod.splits sum.splits)
    with True Some call path rot(2) rotated show ?thesis by blast
  qed
qed

lemma handle_message_holds:
  assumes inv: "holds_run lib p args ess es st" and ev: "archived_event p args pl = Some ev"
    and step: "handle_message lib p args c pl st = Running st'"
  shows "\<exists>ess' es'. holds_run lib p args ess' es' st' \<and> concat ess' @ es' = concat ess @ es @ [ev]"
  using step
proof (cases rule: handle_message_Running)
  case dropped
  with ev show ?thesis by simp
next
  case (wrote ev' f)
  with ev holds_run_write [OF inv] have "holds_run lib p args ess (es @ [ev]) st'"
    using inv by (fastforce simp: holds_run_def)
  then show ?thesis by (intro exI [of _ ess] exI [of _ "es @ [ev]"]) simp
next
  case (rotated ev' f new disk)
  from rotated ev have wrote: "write_event lib p ev (av_file st) = (Inr (), f)" by simp
  from holds_run_write [OF inv wrote] obtain h where h: "hd_low_data h = Some (ar_low_data args)"
    "file_holds lib p (ar_compression_level args) h (es @ [ev]) f"
    "ar_compression_level args = 0 \<longrightarrow> es \<noteq> [] \<longrightarrow> length (archive_bytes p h es) < ar_max_file_size args"
    by (elim exE conjE) (rule that)
  note fin = rotated(5)
  have closed: "closed_ok lib p args (af_path f, disk) (es @ [ev])"
    using h(1) finalize_reads_back [OF _ h(2) fin] unfolding closed_ok_def
    by (intro exI [of _ h]) simp
  have "length disk = length (archive_bytes p h es) + length (event_frame p ev)"
    if "ar_compression_level args = 0"
    using finalize_uncompressed [of lib p h "es @ [ev]" f "()" disk] h(2) fin that
    by (simp add: archive_bytes_snoc)
  then have "rotated_ok lib p args (af_path f, disk) (es @ [ev])"
    using rotated_size [OF h(2) rotated(4) fin] h(3) closed by (auto simp: rotated_ok_def)
  with closed inv new_file_holds [OF rotated(6)] rotated(7)
  have "holds_run lib p args (ess @ [es @ [ev]]) [] st'"
    by (simp add: holds_run_def list_all2_appendI)
  then show ?thesis by (intro exI [of _ "ess @ [es @ [ev]]"] exI [of _ "[]"]) simp
qed

lemma handle_message_names:
  assumes "names_ok dir st" and "av_total_files st = length (av_closed st)"
    and "handle_message lib p args c pl st = Running st'"
  shows "names_ok dir st' \<and> av_total_files st' = length (av_closed st')"
  using assms(3)
proof (cases rule: handle_message_Running)
  case (rotated ev f new disk)
  with new_file_fresh [OF rotated(6)] assms(1,2) show ?thesis by (auto simp: names_ok_def Let_def)
qed (use assms(1,2) in \<open>simp_all add: names_ok_def Let_def\<close>)

lemma start_draining_Running:
  "start_draining lib t st = Running st' \<Longrightarrow>
   st' = st\<lparr>av_draining := True, av_drain_deadline := at_now t + DRAIN_TIMEOUT\<rparr>"
  by (auto simp: start_draining_def shut_down_def split: if_splits prod.splits sum.splits)

lemma inv_draining:
  "arch_inv lib p args dir done (st\<lparr>av_draining := d, av_drain_deadline := dl\<rparr>) \<longleftrightarrow>
   arch_inv lib p args dir done st"
  by (simp add: arch_inv_def holds_run_def names_ok_def)

text \<open>The iterations that go on: a message is handled, the rest only changes the draining.\<close>

lemma iteration_Running:
  assumes "arch_iteration lib p args t st = Running st'"
  shows "(\<exists>pl. at_input t = SubMessage pl \<and>
            handle_message lib p args (at_creation t) pl st = Running st') \<or>
         tick_events p args t = [] \<and>
         (st' = st \<or> \<not> av_draining st \<and>
            st' = st\<lparr>av_draining := True, av_drain_deadline := at_now t + DRAIN_TIMEOUT\<rparr>)"
  using assms
  by (auto simp: arch_iteration_def enabled_def tick_events_def dest: start_draining_Running
      split: if_splits arch_input.splits)

lemma iteration_arch_inv:
  assumes inv: "arch_inv lib p args dir done st"
    and step: "arch_iteration lib p args t st = Running st'"
  shows "arch_inv lib p args dir (done @ tick_events p args t) st'"
  using iteration_Running [OF step]
proof (elim disjE exE conjE)
  fix pl
  assume pl: "at_input t = SubMessage pl" "handle_message lib p args (at_creation t) pl st = Running st'"
  from inv obtain ess es where run: "holds_run lib p args ess es st" "concat ess @ es = done"
    and names: "names_ok dir st" "av_total_files st = length (av_closed st)"
    by (auto simp: arch_inv_def)
  note names' = handle_message_names [OF names pl(2)]
  show ?thesis
  proof (cases "archived_event p args pl")
    case None
    with pl inv show ?thesis by (simp add: handle_message_def tick_events_def)
  next
    case (Some ev)
    from handle_message_holds [OF run(1) Some pl(2)] obtain ess' es'
      where run': "holds_run lib p args ess' es' st'" "concat ess' @ es' = concat ess @ es @ [ev]"
      by blast
    moreover from run(2) have "concat ess @ es @ [ev] = done @ tick_events p args t"
      by (simp add: tick_events_def pl(1) Some flip: append_assoc)
    ultimately show ?thesis using names' by (auto simp: arch_inv_def)
  qed
next
  assume "tick_events p args t = []" "st' = st"
  with inv show ?thesis by simp
next
  assume "tick_events p args t = []"
    "st' = st\<lparr>av_draining := True, av_drain_deadline := at_now t + DRAIN_TIMEOUT\<rparr>"
  with inv show ?thesis by (simp add: inv_draining)
qed

lemma loop_arch_inv:
  "arch_loop lib p args ts st = Running st' \<Longrightarrow> arch_inv lib p args dir done st \<Longrightarrow>
   arch_inv lib p args dir (done @ archived p args ts) st'"
proof (induction ts arbitrary: st "done")
  case (Cons t ts)
  from Cons.prems(1) obtain st1 where st1: "arch_iteration lib p args t st = Running st1"
    "arch_loop lib p args ts st1 = Running st'"
    by (auto split: arch_outcome.splits)
  from Cons.IH [OF st1(2) iteration_arch_inv [OF Cons.prems(2) st1(1)]] show ?case by simp
qed simp

end
