(* ===== verification/ArchiveProperties.thy ===== *)
theory ArchiveProperties
  imports ArchiverFacts
begin

text \<open>
  Properties of the archive tool: its file format and reader, its files on disk, its filters, and
  the archiver's loop.
\<close>

section \<open>A concrete library\<close>

text \<open>
  For the witnesses: the documented varint, headers and events by their fixed-size fields (events
  without a body), an encoder that stores, and decimal time stamps.
\<close>

definition demo_prost :: "(ArchiveHeader, unit Event_pb) prost" where
  "demo_prost =
     \<lparr>encode_delim = varint, decode_delim = varint_decode,
      encode_header = (\<lambda>h. le_bytes 8 (hd_created h) @
        [case hd_low_data h of None \<Rightarrow> 0 | Some False \<Rightarrow> 1 | Some True \<Rightarrow> 2]),
      decode_header = (\<lambda>bs. Some \<lparr>hd_created = le_word (take 8 bs),
        hd_low_data = (if drop 8 bs = [0] then None else Some (drop 8 bs = [2]))\<rparr>),
      encode_event = (\<lambda>ev. le_bytes 8 (pev_timestamp ev)),
      decode_event = (\<lambda>bs. Some \<lparr>pev_timestamp = le_word bs, pev_event = None\<rparr>)\<rparr>"

definition demo_event :: "u64 \<Rightarrow> unit Event_pb" where
  "demo_event t = \<lparr>pev_timestamp = t, pev_event = None\<rparr>"

definition demo_library :: "unit library" where
  "demo_library =
     \<lparr>lib_zstd = \<lparr>z_new = (\<lambda>level. Inr ()), z_write = (\<lambda>s data. (data, ())), z_flush = (\<lambda>s. ([], ())),
                 z_finish = (\<lambda>s. []), z_decode = (\<lambda>disk. source disk None)\<rparr>,
      lib_format_utc = (\<lambda>ms. Some (replicate ms CHR ''0''))\<rparr>"

lemma demo_delimits [simp]: "delimits demo_prost"
  using varint.length_delimiter_axioms by (simp add: delimits_def demo_prost_def)

lemma demo_header_codes [simp]: "header_codes demo_prost h"
  by (cases h)
     (auto simp: header_codes_def codes_def demo_prost_def le_word_le_bytes_64 split: option.split bool.split)

lemma demo_event_codes [simp]: "event_codes demo_prost (demo_event t)"
  by (simp add: event_codes_def codes_def demo_prost_def demo_event_def le_word_le_bytes_64)

lemma demo_zstd_run: "zstd_run (lib_zstd demo_library) s ops = (zinput ops, s)"
  by (induction ops arbitrary: s rule: zinput.induct) (simp_all add: demo_library_def)

lemma demo_zstd_ok [simp]: "zstd_ok (lib_zstd demo_library)"
  unfolding zstd_ok_def demo_zstd_run by (simp add: demo_library_def)

section \<open>The file format\<close>

text \<open>C13: A complete archive file reads back as its header and exactly its events, in order, and
the replayer reaches the end of the file without an error. The protobuf library is any that decodes
the delimiters and messages it encoded.\<close>

theorem archive_roundtrip:
  assumes "delimits p" and "header_codes p h" and "list_all (event_codes p) es"
  shows "\<exists>r. ArchiveReader_new p (source (archive_bytes p h es) None) = Inr (h, r) \<and>
             replay_events p r = (es, None)"
  using replay_frames [OF assms(1,3), of "[]" None]
  by (simp add: archive_bytes_def new_reads_header [OF assms(1,2)] replay_end)

theorem archive_roundtrip_witness:
  "\<exists>r. ArchiveReader_new demo_prost
          (source (archive_bytes demo_prost \<lparr>hd_created = 7, hd_low_data = Some True\<rparr>
             [demo_event 1, demo_event 300]) None) =
        Inr (\<lparr>hd_created = 7, hd_low_data = Some True\<rparr>, r) \<and>
      replay_events demo_prost r = ([demo_event 1, demo_event 300], None)"
  by (rule archive_roundtrip) simp_all

text \<open>C14: An archive file that is cut off at any byte never yields a wrong event. A cut inside the
header is an error when the file is opened. Otherwise every event that is complete before the cut
is read; then the reader reports \<^verbatim>\<open>UnexpectedEof\<close>, unless the cut is exactly between two events,
which is the same as a shorter archive.\<close>

theorem archive_truncated:
  assumes "delimits p" and "header_codes p h" and "list_all (event_codes p) es"
  shows "if k < length (header_frame p h)
         then ArchiveReader_new p (source (take k (archive_bytes p h es)) None) =
              Inl (if k = 0 then OtherError else UnexpectedEof)
         else \<exists>r n. n \<le> length es \<and>
           ArchiveReader_new p (source (take k (archive_bytes p h es)) None) = Inr (h, r) \<and>
           length (archive_bytes p h (take n es)) \<le> k \<and>
           (n < length es \<longrightarrow> k < length (archive_bytes p h (take (Suc n) es))) \<and>
           replay_events p r =
             (take n es,
              if n = length es \<or> k = length (archive_bytes p h (take n es)) then None
              else Some UnexpectedEof)"
proof (cases "k < length (header_frame p h)")
  case True
  then show ?thesis by (simp add: archive_bytes_def new_cut_header [OF assms(1,2)])
next
  case False
  then obtain j where k: "k = length (header_frame p h) + j" by (metis le_add_diff_inverse not_less)
  from replay_take [OF assms(1,3), of j] obtain n where n: "n \<le> length es"
    "length (event_frames p (take n es)) \<le> j"
    "n < length es \<longrightarrow> j < length (event_frames p (take (Suc n) es))"
    "replay_events p (source (take j (event_frames p es)) None) =
       (take n es, if n = length es \<or> j = length (event_frames p (take n es)) then None
                   else Some UnexpectedEof)"
    by blast
  with False k show ?thesis
    by (auto simp: archive_bytes_def new_reads_header [OF assms(1,2)] intro!: exI [of _ n])
qed

theorem archive_truncated_witness:
  "let p = demo_prost; h = \<lparr>hd_created = 7, hd_low_data = None\<rparr>; es = [demo_event 1, demo_event 300] in
   if 25 < length (header_frame p h)
   then ArchiveReader_new p (source (take 25 (archive_bytes p h es)) None) =
        Inl (if (25::nat) = 0 then OtherError else UnexpectedEof)
   else \<exists>r n. n \<le> length es \<and>
     ArchiveReader_new p (source (take 25 (archive_bytes p h es)) None) = Inr (h, r) \<and>
     length (archive_bytes p h (take n es)) \<le> 25 \<and>
     (n < length es \<longrightarrow> 25 < length (archive_bytes p h (take (Suc n) es))) \<and>
     replay_events p r =
       (take n es,
        if n = length es \<or> 25 = length (archive_bytes p h (take n es)) then None
        else Some UnexpectedEof)"
  unfolding Let_def by (rule archive_truncated) simp_all

text \<open>C33: Replaying ends on every input, however corrupt, and says what is there. Whatever the bytes,
the protobuf library and the way the source ends, the events a replay gets are those of frames that
follow one another from the first byte on, each a delimiter of at most ten bytes and then exactly as
many bytes as it says; and the replay ends regularly only when all bytes are used up, and with an error
only for a delimiter that is cut off or does not decode, for a frame with fewer bytes than its delimiter
says, for a body that does not decode, or for an error of the source.\<close>

theorem replay_gets_what_is_there:
  "\<exists>frames rest. rd_bytes r = concat (map (\<lambda>(pre, body). pre @ body) frames) @ rest \<and>
     framed p frames (fst (replay_events p r)) \<and> stops p (rd_end r) rest (snd (replay_events p r))"
  by (rule replay_parts)

text \<open>A source that ends with an error right after a complete event reports the error, with
one exception: if its kind is \<^verbatim>\<open>UnexpectedEof\<close>, which is also what the zstd decoder gives for an
incomplete frame, the reader takes it for the regular end of the archive, and the replay succeeds.\<close>

theorem source_error_at_boundary:
  assumes "delimits p" and "list_all (event_codes p) es"
  shows "replay_events p (source (event_frames p es) (Some e)) =
         (es, if e = UnexpectedEof then None else Some e)"
  using replay_frames [OF assms, of "[]" "Some e"] by (simp add: replay_end)

theorem source_error_at_boundary_witness:
  "replay_events demo_prost (source (event_frames demo_prost [demo_event 5])
     (Some UnexpectedEof)) = ([demo_event 5], None)"
  by (subst source_error_at_boundary) simp_all

text \<open>The replayer exits with an error exactly if opening or replaying one of its files fails;
a failing file does not keep it from the files after it.\<close>

theorem replayer_reports_failures:
  "replayer_run os p False paths = (\<exists>path \<in> set paths. \<not> is_ok (replay_file os p path))"
proof -
  have "replayer_run os p b paths = (b \<or> (\<exists>path \<in> set paths. \<not> is_ok (replay_file os p path)))" for b
    by (induction paths arbitrary: b) (auto split: sum.splits)
  then show ?thesis by simp
qed

end
