(* ===== verification/ArchiverProperties.thy ===== *)
theory ArchiverProperties
  imports ArchiveProperties
begin

text \<open>
  Properties of the archiver's runs: what the files of a run read back as, what is on disk when it
  stops at any moment, when files are rotated, their names, when the loop ends, and what the
  filters and the low-data mode keep.
\<close>

section \<open>A concrete run\<close>

definition demo_args :: ArchiveArgs where
  "demo_args =
     \<lparr>ar_output_dir = ''out'', ar_base_name = ''main'', ar_max_file_size = 20,
      ar_compression_level = 0, ar_low_data = False, ar_messages = False, ar_connections = False,
      ar_mempool = False, ar_validation = False, ar_rpc = False, ar_p2p_extractor = False,
      ar_log_extractor = False, ar_ipc_extractor = False, ar_addr_relay = False,
      ar_connections_with_handshakes = False\<rparr>"

definition demo_creation :: "nat \<Rightarrow> creation" where
  "demo_creation ms =
     \<lparr>cr_attempts = [(Some (ms * 1000000), None)], cr_now = Some (ms * 1000000),
      cr_cap = 64, cr_fates = []\<rparr>"

definition demo_setup :: arch_setup where
  "demo_setup =
     \<lparr>su_nats_ok = True, su_create_dir = None, su_existing = [], su_creation = demo_creation 1,
      su_now = 0, su_probe_ok = None\<rparr>"

definition demo_tick :: "arch_input \<Rightarrow> nat \<Rightarrow> arch_tick" where
  "demo_tick i ms =
     \<lparr>at_input = i, at_now = ms * 1000000, at_drain_ok = True, at_creation = demo_creation ms\<rparr>"

definition demo_start :: "unit archiver" where
  "demo_start =
     (case arch_start demo_library demo_prost demo_args demo_setup of Inr st \<Rightarrow> st | Inl _ \<Rightarrow> undefined)"

definition demo_ticks :: "arch_tick list" where
  "demo_ticks = map (\<lambda>i. demo_tick (SubMessage (le_bytes 8 (of_nat i :: u64))) (i + 1)) [1, 2, 3]"

definition demo_end :: "unit archiver" where
  "demo_end =
     (case arch_loop demo_library demo_prost demo_args demo_ticks demo_start of
        Running st \<Rightarrow> st | _ \<Rightarrow> undefined)"

text \<open>What evaluates a run on these inputs.\<close>

lemmas run_defs = arch_start_def new_file_def ArchiveFile_new_def format_utc_timestamp_def
  ArchiveWriter_new_def bufw_new_def ArchiveHeader_new_def write_header_def write_all.simps
  bufw_write_def file_write_def flush_buf.simps Let_def archive_path_def path_join_def
  archive_ext_def length_delimited_def varint.simps arch_iteration_def enabled_def
  handle_message_def archived_event_def ArchiveFilter_matches_def ArchiveFilter_from_def
  archive_all_def write_event_def needs_rotation_def rotate_file_def finalize_def shut_down_def
  start_draining_def DRAIN_TIMEOUT_def tick_events_def bufw_drop_def

lemmas demo_defs = demo_prost_def demo_args_def demo_setup_def demo_creation_def demo_tick_def
  demo_library_def demo_ticks_def demo_event_def

lemma demo_starts: "arch_start demo_library demo_prost demo_args demo_setup = Inr demo_start"
  by (simp add: run_defs demo_defs demo_start_def)

lemma demo_start_eq:
  "demo_start =
     \<lparr>av_file = \<lparr>af_path = ''out/main.0.bin'',
                 af_writer = Plain \<lparr>bw_disk = 9 # le_bytes 8 (0 :: u64) @ [1], bw_buf = [], bw_cap = 64,
                                   bw_fates = []\<rparr>,
                 af_bytes_written = 10\<rparr>,
      av_closed = [], av_existing = [''out/main.0.bin''], av_total_files = 0, av_draining = False,
      av_drain_deadline = 0\<rparr>"
  by (simp add: run_defs demo_defs demo_start_def del: le_bytes.simps)

lemma demo_stamps: "replicate 2 c = [c, c]" "replicate 3 c = [c, c, c]" "replicate 4 c = [c, c, c, c]"
  by (simp_all add: numeral_eq_Suc)

lemma demo_runs: "arch_loop demo_library demo_prost demo_args demo_ticks demo_start = Running demo_end"
  by (simp add: run_defs demo_defs demo_end_def demo_start_eq demo_stamps le_word_le_bytes_64
      del: le_bytes.simps)

lemma demo_end_eq:
  "demo_end =
     \<lparr>av_file = \<lparr>af_path = ''out/main.000.bin'',
                 af_writer = Plain \<lparr>bw_disk = 9 # le_bytes 8 (0 :: u64) @ [1],
                                   bw_buf = 8 # le_bytes 8 (3 :: u64), bw_cap = 64, bw_fates = []\<rparr>,
                 af_bytes_written = 19\<rparr>,
      av_closed = [(''out/main.0.bin'', 9 # le_bytes 8 (0 :: u64) @
        [1, 8] @ le_bytes 8 (1 :: u64) @ [8] @ le_bytes 8 (2 :: u64))],
      av_existing = [''out/main.0.bin'', ''out/main.000.bin''], av_total_files = 1,
      av_draining = False, av_drain_deadline = 0\<rparr>"
  by (simp add: run_defs demo_defs demo_end_def demo_start_eq demo_stamps le_word_le_bytes_64
      del: le_bytes.simps)

lemma demo_archived:
  "archived demo_prost demo_args demo_ticks = [demo_event 1, demo_event 2, demo_event 3]"
  by (simp add: run_defs demo_defs le_word_le_bytes_64 del: le_bytes.simps)

lemma demo_shuts_down: "\<exists>n files. shut_down demo_library demo_end = Ended n files"
  by (simp add: run_defs demo_end_eq del: le_bytes.simps)

section \<open>Paths\<close>

definition path_ok :: "ArchiveArgs \<Rightarrow> string \<Rightarrow> bool" where
  "path_ok args path \<longleftrightarrow>
     (extension path = Some ''zst'' \<longleftrightarrow> 0 < ar_compression_level args)"

lemma archive_path_ext: "\<exists>x. archive_path dir base stamp ext = x @ ''.'' @ ext"
  by (auto simp: archive_path_def path_join_def)

lemma open_fresh_path:
  "open_fresh lib existing dir base ext attempts = Ok path \<Longrightarrow> \<exists>stamp. path = archive_path dir base stamp ext"
proof (induction attempts)
  case (Cons a attempts)
  then show ?case by (cases a) (auto simp: Let_def split: option.splits if_splits)
qed simp

lemma new_file_path: "new_file lib p args existing c = Ok f \<Longrightarrow> path_ok args (af_path f)"
proof -
  assume "new_file lib p args existing c = Ok f"
  then obtain stamp where "af_path f = archive_path (ar_output_dir args) (ar_base_name args) stamp
      (archive_ext (ar_compression_level args))"
    by (auto simp: new_file_def ArchiveFile_new_Ok write_header_Ok dest!: open_fresh_path)
  then obtain x where "af_path f = x @ ''.'' @ archive_ext (ar_compression_level args)"
    using archive_path_ext by metis
  then show ?thesis by (auto simp: path_ok_def archive_ext_def)
qed

definition paths_ok :: "ArchiveArgs \<Rightarrow> 'z archiver \<Rightarrow> bool" where
  "paths_ok args st \<longleftrightarrow> list_all (path_ok args) (map fst (av_closed st) @ [af_path (av_file st)])"

lemma handle_message_paths_ok:
  assumes "handle_message lib p args c pl st = Running st'" and "paths_ok args st"
  shows "paths_ok args st'"
  using assms(1)
proof (cases rule: handle_message_Running)
  case (rotated ev f new disk)
  with new_file_path [OF rotated(6)] assms(2) show ?thesis by (simp add: paths_ok_def)
qed (use assms(2) in \<open>simp_all add: paths_ok_def\<close>)

lemma paths_ok_draining [simp]:
  "paths_ok args (st\<lparr>av_draining := d, av_drain_deadline := dl\<rparr>) = paths_ok args st"
  by (simp add: paths_ok_def)

lemma iteration_paths_ok:
  "paths_ok args st \<Longrightarrow> arch_iteration lib p args t st = Running st' \<Longrightarrow> paths_ok args st'"
  using iteration_Running [of lib p args t st st']
  by (auto intro: handle_message_paths_ok)

lemma loop_paths_ok:
  "arch_loop lib p args ts st = Running st' \<Longrightarrow> paths_ok args st \<Longrightarrow> paths_ok args st'"
  by (induction ts arbitrary: st) (auto dest: iteration_paths_ok split: arch_outcome.splits)

lemma start_paths_ok: "arch_start lib p args su = Inr st \<Longrightarrow> paths_ok args st"
  by (auto simp: arch_start_def bind_res_def paths_ok_def dest!: new_file_path
      split: if_splits option.splits sum.splits)

section \<open>What a run leaves behind\<close>

text \<open>Opening a file of the run: its bytes, or no such file; the decoder is created.\<close>

definition files_os :: "'z library \<Rightarrow> (string \<times> byte list) list \<Rightarrow> archive_os" where
  "files_os lib files =
     \<lparr>os_open = (\<lambda>path. case map_of files path of None \<Rightarrow> Inl (OsError 2) | Some disk \<Rightarrow> Inr disk),
      os_zstd = (\<lambda>disk. Inr (z_decode (lib_zstd lib) disk))\<rparr>"

definition reads_as ::
    "'z library \<Rightarrow> (ArchiveHeader, 'e) prost \<Rightarrow> bool \<Rightarrow> (string \<times> byte list) list \<Rightarrow>
     string \<times> byte list \<Rightarrow> 'e list \<Rightarrow> bool" where
  "reads_as lib p low files file es \<longleftrightarrow>
     (\<exists>h r. ArchiveReader_open (files_os lib files) p (fst file) = Inr (h, r) \<and>
        is_low_data h = low \<and> replay_events p r = (es, None))"

lemma closed_reads_as:
  assumes "zstd_ok (lib_zstd lib)" and "delimits p" and "\<And>h. header_codes p h"
    and "list_all (event_codes p) es" and "closed_ok lib p args (path, disk) es"
    and "path_ok args path" and "map_of files path = Some disk"
  shows "reads_as lib p (ar_low_data args) files (path, disk) es"
proof -
  from assms(1,5) obtain h where h: "hd_low_data h = Some (ar_low_data args)"
    "decompress (lib_zstd lib) (ar_compression_level args) disk = source (archive_bytes p h es) None"
    by (auto simp: closed_ok_def)
  have "(if extension path = Some ''zst'' then os_zstd (files_os lib files) disk
         else Inr \<lparr>rd_bytes = disk, rd_end = None\<rparr>) = Inr (source (archive_bytes p h es) None)"
    using assms(6) h(2) by (auto simp: path_ok_def files_os_def decompress_def split: if_splits)
  moreover have "ArchiveReader_open (files_os lib files) p path =
      bind_res (if extension path = Some ''zst'' then os_zstd (files_os lib files) disk
                else Inr \<lparr>rd_bytes = disk, rd_end = None\<rparr>) (ArchiveReader_new p)"
    using assms(7) by (simp add: ArchiveReader_open_def files_os_def)
  ultimately have "ArchiveReader_open (files_os lib files) p path =
      ArchiveReader_new p (source (archive_bytes p h es) None)" by simp
  with h(1) archive_bytes_def [of p h es] new_reads_header [OF assms(2,3)]
    replay_frames [OF assms(2,4), of "[]" None] show ?thesis
    by (auto simp: reads_as_def is_low_data_def replay_end)
qed

lemma shut_down_closed:
  assumes "holds_run lib p args ess es st" and "shut_down lib st = Ended n files"
  shows "n = av_total_files st + 1 \<and> map fst files = map fst (av_closed st) @ [af_path (av_file st)] \<and>
         list_all2 (closed_ok lib p args) files (ess @ [es])"
proof -
  from assms(2) obtain disk where fin: "finalize lib (av_file st) = (Inr (), disk)"
    and out: "n = av_total_files st + 1" "files = av_closed st @ [(af_path (av_file st), disk)]"
    by (auto simp: shut_down_def split: prod.splits sum.splits)
  from assms(1) obtain h where h: "hd_low_data h = Some (ar_low_data args)"
    "file_holds lib p (ar_compression_level args) h es (av_file st)"
    by (auto simp: holds_run_def)
  have "closed_ok lib p args (af_path (av_file st), disk) es"
    using h(1) finalize_reads_back [OF _ h(2) fin] unfolding closed_ok_def
    by (intro exI [of _ h]) simp
  with assms(1) out show ?thesis by (simp add: holds_run_def list_all2_appendI)
qed

text \<open>C2: A run that is shut down leaves files from which the events can be read back completely:
opened with the reader, by the extension of its path, every file has a header with the run's
low-data flag, and the files' events, one file after the other, are exactly the events of the
messages the run received that decode and match the filter, stripped in low-data mode. The run
reports as many files as there are. This holds with and without compression, for any rotation, and
for every zstd encoder and protobuf library that keep their contracts.\<close>

theorem archiver_reads_back:
  assumes "zstd_ok (lib_zstd lib)" and "delimits p" and "\<And>h. header_codes p h"
    and "list_all (event_codes p) (archived p args ts)"
    and "arch_start lib p args su = Inr st" and "arch_loop lib p args ts st = Running st'"
    and "shut_down lib st' = Ended n files"
  shows "n = length files \<and>
         (\<exists>ess. concat ess = archived p args ts \<and>
                list_all2 (reads_as lib p (ar_low_data args) files) files ess)"
proof -
  from arch_start_inv [OF assms(5)] have "arch_inv lib p args (su_existing su) [] st" by simp
  from loop_arch_inv [OF assms(6) this] obtain ess es where run: "holds_run lib p args ess es st'"
    "concat ess @ es = archived p args ts" "av_total_files st' = length (av_closed st')"
    "names_ok (su_existing su) st'"
    by (auto simp: arch_inv_def)
  note files = shut_down_closed [OF run(1) assms(7)]
  have "paths_ok args st'" by (rule loop_paths_ok [OF assms(6) start_paths_ok [OF assms(5)]])
  then have paths: "list_all (path_ok args) (map fst files)"
    using files by (simp add: paths_ok_def)
  have distinct: "distinct (map fst files)"
    using run(4) files by (simp add: names_ok_def Let_def)
  have n: "n = length files"
    using files run(3) by (metis add.commute length_append_singleton length_map plus_1_eq_Suc)
  have codes: "list_all (event_codes p) es'" if "es' \<in> set (ess @ [es])" for es'
    using assms(4) that by (auto simp: list_all_iff simp flip: run(2))
  have "list_all2 (reads_as lib p (ar_low_data args) files) files (ess @ [es])"
    unfolding list_all2_conv_all_nth
  proof (intro conjI allI impI)
    show "length files = length (ess @ [es])" using files list_all2_lengthD by blast
    fix i
    assume i: "i < length files"
    then have f: "files ! i = (fst (files ! i), snd (files ! i))" "files ! i \<in> set files" by simp_all
    have "closed_ok lib p args (files ! i) ((ess @ [es]) ! i)" "(ess @ [es]) ! i \<in> set (ess @ [es])"
      using files i list_all2_nthD list_all2_lengthD by (fastforce, metis nth_mem)
    moreover have "path_ok args (fst (files ! i))" using paths i by (simp add: list_all_length)
    moreover have "map_of files (fst (files ! i)) = Some (snd (files ! i))"
      using distinct f by (metis map_of_eq_Some_iff)
    ultimately show "reads_as lib p (ar_low_data args) files (files ! i) ((ess @ [es]) ! i)"
      using closed_reads_as [OF assms(1,2,3) codes] f(1) by metis
  qed
  then show ?thesis using n run(2) by (intro conjI exI [of _ "ess @ [es]"]) simp_all
qed

theorem archiver_reads_back_witness:
  "\<exists>n files ess. shut_down demo_library demo_end = Ended n files \<and> n = length files \<and>
     concat ess = [demo_event 1, demo_event 2, demo_event 3] \<and>
     list_all2 (reads_as demo_library demo_prost False files) files ess"
proof -
  from demo_shuts_down obtain n files where "shut_down demo_library demo_end = Ended n files" by blast
  moreover have "ar_low_data demo_args = False" by (simp add: demo_args_def)
  ultimately show ?thesis
    using archiver_reads_back [of demo_library demo_prost demo_args demo_ticks demo_setup demo_start
        demo_end n files]
    by (simp add: demo_starts demo_runs demo_archived)
qed

section \<open>Rotation and names\<close>

text \<open>
  The open file holds its events: what it has written, with what is still in its buffers, is the archive
  of them (with compression, the encoder was given that archive).
\<close>

definition open_holds ::
    "'z library \<Rightarrow> (ArchiveHeader, 'e) prost \<Rightarrow> ArchiveArgs \<Rightarrow> 'z ArchiveFile \<Rightarrow> 'e list \<Rightarrow> bool" where
  "open_holds lib p args f es \<longleftrightarrow>
     (\<exists>h. hd_low_data h = Some (ar_low_data args) \<and>
        holds (lib_zstd lib) (ar_compression_level args) (archive_bytes p h es) (af_writer f))"

text \<open>C29: The archiver rotates exactly when it must, and loses nothing when it does. At every point of
every run the events archived so far are those of the closed files, in order, followed by those of the
open file. Each closed file decompresses to the archive of its events and nothing else, has at least
one event and at least \<^verbatim>\<open>max_file_size\<close> bytes, and an uncompressed file is below that size plus its last
event (or holds a single event), so files never grow past the limit by more than one event. The open
file holds exactly its events, and does not need rotation unless it holds no event yet.\<close>

theorem rotation_bounds:
  assumes "arch_start lib p args su = Inr st" and "arch_loop lib p args ts st = Running st'"
  shows "\<exists>ess es. concat ess @ es = archived p args ts \<and>
           list_all2 (rotated_ok lib p args) (av_closed st') ess \<and>
           open_holds lib p args (av_file st') es \<and>
           (es = [] \<or> \<not> needs_rotation (ar_max_file_size args) (av_file st')) \<and>
           av_total_files st' = length (av_closed st')"
proof -
  from arch_start_inv [OF assms(1)] have "arch_inv lib p args (su_existing su) [] st" by simp
  from loop_arch_inv [OF assms(2) this] show ?thesis
    by (auto simp: arch_inv_def holds_run_def open_holds_def file_holds_def)
qed

theorem rotation_bounds_witness:
  "\<exists>ess es. concat ess @ es = archived demo_prost demo_args demo_ticks \<and>
     list_all2 (rotated_ok demo_library demo_prost demo_args) (av_closed demo_end) ess \<and>
     open_holds demo_library demo_prost demo_args (av_file demo_end) es \<and>
     (es = [] \<or> \<not> needs_rotation (ar_max_file_size demo_args) (av_file demo_end)) \<and>
     av_total_files demo_end = length (av_closed demo_end)"
  by (rule rotation_bounds [OF demo_starts demo_runs])

text \<open>C30: No run overwrites a file: the paths of all the files of a run are different from each
other and from the paths that existed in the output directory before.\<close>

theorem files_never_overwritten:
  assumes "arch_start lib p args su = Inr st" and "arch_loop lib p args ts st = Running st'"
  shows "distinct (su_existing su) = distinct (av_existing st') \<and>
         av_existing st' = su_existing su @ map fst (av_closed st') @ [af_path (av_file st')] \<and>
         distinct (map fst (av_closed st') @ [af_path (av_file st')])"
proof -
  from arch_start_inv [OF assms(1)] have "arch_inv lib p args (su_existing su) [] st" by simp
  from loop_arch_inv [OF assms(2) this] show ?thesis
    by (auto simp: arch_inv_def names_ok_def Let_def)
qed

theorem files_never_overwritten_witness:
  "distinct (su_existing demo_setup) = distinct (av_existing demo_end) \<and>
   av_existing demo_end =
     su_existing demo_setup @ map fst (av_closed demo_end) @ [af_path (av_file demo_end)] \<and>
   distinct (map fst (av_closed demo_end) @ [af_path (av_file demo_end)])"
  by (rule files_never_overwritten [OF demo_starts demo_runs])

section \<open>Stopping at any moment\<close>













text \<open>The ways the loop is left: an orderly end, a write that failed, a rotation that failed.\<close>

lemma shut_down_draining [simp]: "shut_down lib (st\<lparr>av_draining := d\<rparr>) = shut_down lib st"
  by (auto simp: shut_down_def split: prod.split sum.split)















lemma archive_path_inj: "archive_path dir base s ext = archive_path dir base s' ext \<Longrightarrow> s = s'"
  by (cases base) (auto simp: archive_path_def path_join_def split: if_splits)

lemma open_fresh_collides:
  assumes "list_all (\<lambda>(now, err). now \<noteq> None \<and> err = None) attempts"
    and "map (\<lambda>(now, err). format_utc_timestamp lib (the now div 1000000)) attempts = map Some stamps"
    and "\<nexists>path. open_fresh lib existing dir base ext attempts = Ok path"
  shows "(\<lambda>s. archive_path dir base s ext) ` set stamps \<subseteq> set existing"
  using assms
proof (induction attempts arbitrary: stamps)
  case (Cons a attempts)
  obtain now err where a: "a = (now, err)" by fastforce
  with Cons.prems obtain s stamps' where s: "stamps = s # stamps'"
    "format_utc_timestamp lib (the now div 1000000) = Some s" "now \<noteq> None" "err = None"
    by (cases stamps) auto
  with Cons.prems a have step: "archive_path dir base s ext \<in> set existing"
    "open_fresh lib existing dir base ext (a # attempts) = open_fresh lib existing dir base ext attempts"
    by (auto simp: Let_def split: if_splits)
  have "(\<lambda>s. archive_path dir base s ext) ` set stamps' \<subseteq> set existing"
    using Cons.prems s step by (intro Cons.IH) (auto simp: a)
  with s step show ?case by simp
qed simp

text \<open>Opening a new file ends: if each attempt reads the clock after the epoch, the attempts'
time stamps differ (the loop sleeps for a millisecond between two of them) and no other error
occurs, then among one attempt more than there are files in the directory one succeeds, with a path
that no file has.\<close>

theorem fresh_name_found:
  assumes "list_all (\<lambda>(now, err). now \<noteq> None \<and> err = None) attempts"
    and "map (\<lambda>(now, err). format_utc_timestamp lib (the now div 1000000)) attempts = map Some stamps"
    and "distinct stamps" and "card (set existing) < length attempts"
  shows "\<exists>path. open_fresh lib existing dir base ext attempts = Ok path \<and> path \<notin> set existing"
proof (rule ccontr)
  assume none: "\<not> ?thesis"
  then have "\<nexists>path. open_fresh lib existing dir base ext attempts = Ok path"
    using open_fresh_fresh by blast
  then have "card ((\<lambda>s. archive_path dir base s ext) ` set stamps) \<le> card (set existing)"
    by (intro card_mono open_fresh_collides [OF assms(1,2)]) simp_all
  moreover have "card ((\<lambda>s. archive_path dir base s ext) ` set stamps) = length stamps"
    using assms(3) archive_path_inj by (subst card_image) (auto simp: inj_on_def distinct_card)
  moreover have "length stamps = length attempts"
    using assms(2) by (metis length_map)
  ultimately show False using assms(4) by simp
qed

theorem fresh_name_found_witness:
  "\<exists>path. open_fresh demo_library [''out/main.0.bin''] ''out'' ''main'' ''bin''
            [(Some 1000000, None), (Some 2000000, None)] = Ok path \<and> path \<notin> {''out/main.0.bin''}"
  using fresh_name_found [of "[(Some 1000000, None), (Some 2000000, None)]" demo_library
      "[''0'', ''00'']" "[''out/main.0.bin'']" "''out''" "''main''" "''bin''"]
  by (simp add: format_utc_timestamp_def demo_library_def demo_stamps)


section \<open>When the loop ends\<close>

text \<open>When an iteration goes on: a message that is not archived never stops the loop, an archived
one only if it cannot be written or the rotation it causes fails. A shutdown notification goes on
with draining if the subscription can be drained; while draining, further notifications are not
read. Only the end of the subscription and, while draining, the deadline end the loop otherwise.\<close>

theorem iteration_goes_on_iff:
  "(\<exists>st'. arch_iteration lib p args t st = Running st') =
   (case at_input t of
      SubMessage pl \<Rightarrow>
        (case archived_event p args pl of
           None \<Rightarrow> True
         | Some ev \<Rightarrow>
             (case write_event lib p ev (av_file st) of
                (Inl e, f) \<Rightarrow> False
              | (Inr _, f) \<Rightarrow>
                  if needs_rotation (ar_max_file_size args) f
                  then is_ok (with_context Rotating (rotate_file lib p args (av_existing st) (at_creation t) f))
                  else True))
    | SubEnded \<Rightarrow> False
    | ShutdownChanged v \<Rightarrow> \<not> (v \<and> \<not> av_draining st \<and> \<not> at_drain_ok t)
    | ShutdownDropped \<Rightarrow> \<not> (\<not> av_draining st \<and> \<not> at_drain_ok t)
    | DrainDeadline \<Rightarrow> \<not> (av_draining st \<and> av_drain_deadline st \<le> at_now t))"
  by (auto simp: arch_iteration_def enabled_def handle_message_def start_draining_def
      split: arch_input.split option.split prod.split sum.split)

lemma iteration_keeps_draining:
  assumes "arch_iteration lib p args t st = Running st'" and "av_draining st"
  shows "av_draining st' \<and> av_drain_deadline st' = av_drain_deadline st"
  using iteration_Running [OF assms(1)] assms(2)
proof (elim disjE exE conjE)
  fix pl
  assume "handle_message lib p args (at_creation t) pl st = Running st'"
  then show ?thesis by (cases rule: handle_message_Running) (use assms(2) in simp_all)
qed simp_all

lemma loop_keeps_draining:
  "arch_loop lib p args ts st = Running st' \<Longrightarrow> av_draining st \<Longrightarrow>
   av_draining st' \<and> av_drain_deadline st' = av_drain_deadline st"
  by (induction ts arbitrary: st) (fastforce dest: iteration_keeps_draining split: arch_outcome.splits)+

lemma loop_append:
  "arch_loop lib p args (ts @ ts') st =
   (case arch_loop lib p args ts st of Running st' \<Rightarrow> arch_loop lib p args ts' st' | out \<Rightarrow> out)"
  by (induction ts arbitrary: st) (auto split: arch_outcome.split)

text \<open>C34: A shutdown request is honoured within the drain timeout: once the archiver was told to stop,
by a notification or because the sender went away, no sequence of messages and notifications keeps it
running beyond a tick of the deadline ten seconds later.\<close>

theorem shutdown_ends_the_run:
  assumes "at_input t \<in> {ShutdownChanged True, ShutdownDropped}" and "\<not> av_draining st"
    and "at_input t' = DrainDeadline" and "at_now t + DRAIN_TIMEOUT \<le> at_now t'"
  shows "\<nexists>st'. arch_loop lib p args (t # ts @ [t']) st = Running st'"
proof
  assume "\<exists>st'. arch_loop lib p args (t # ts @ [t']) st = Running st'"
  then obtain st' where "arch_loop lib p args (t # ts @ [t']) st = Running st'" ..
  then obtain st1 where st1: "arch_iteration lib p args t st = Running st1"
    "arch_loop lib p args (ts @ [t']) st1 = Running st'" by (auto split: arch_outcome.splits)
  then have d1: "av_draining st1" "av_drain_deadline st1 = at_now t + DRAIN_TIMEOUT"
    using assms(1,2) by (auto simp: arch_iteration_def enabled_def dest!: start_draining_Running)
  from st1(2) obtain st2 where st2: "arch_loop lib p args ts st1 = Running st2"
    "arch_iteration lib p args t' st2 = Running st'"
    by (auto simp: loop_append split: arch_outcome.splits)
  from loop_keeps_draining [OF st2(1) d1(1)] d1(2) assms(3,4) st2(2) show False
    by (simp add: arch_iteration_def enabled_def)
qed

theorem shutdown_ends_the_run_witness:
  "\<nexists>st'. arch_loop demo_library demo_prost demo_args
     (demo_tick ShutdownDropped 5 # demo_ticks @ [demo_tick DrainDeadline 10005]) demo_start = Running st'"
  by (rule shutdown_ends_the_run) (simp_all add: demo_tick_def demo_start_eq DRAIN_TIMEOUT_def)

section \<open>Filters and low-data mode\<close>

text \<open>The filter flags are additive: with at least one flag on each side, the events archived with
all the flags of two command lines are exactly those archived with one or the other. Without any
flag everything is archived, an event that does not decode to a known kind included.\<close>

theorem filters_are_additive:
  "(if archive_all a then ArchiveFilter_matches (ArchiveFilter_from a) event
    else if archive_all b then ArchiveFilter_matches (ArchiveFilter_from b) event
    else ArchiveFilter_matches (ArchiveFilter_from (args_union a b)) event =
         (ArchiveFilter_matches (ArchiveFilter_from a) event \<or>
          ArchiveFilter_matches (ArchiveFilter_from b) event))"
  by (simp add: union_matches) (simp add: ArchiveFilter_matches_def ArchiveFilter_from_def)

lemma drop_raw_eq:
  "drop_raw tx = \<lparr>transaction_txid = transaction_txid tx, transaction_wtxid = transaction_wtxid tx,
                  transaction_raw = None\<rparr>"
  by (cases tx) (simp add: drop_raw_def)

lemma strip_prefilled_eq:
  "t\<lparr>prefilledtransaction_tx := x\<rparr> =
   \<lparr>prefilledtransaction_diff_index = prefilledtransaction_diff_index t, prefilledtransaction_tx = x\<rparr>"
  by (cases t) simp

lemma strip_msg_eq:
  "strip_msg msg =
                 (case msg of
                    Msg_tx tx \<Rightarrow> Msg_tx \<lparr>tx_tx =
                      \<lparr>transaction_txid = transaction_txid (tx_tx tx),
                       transaction_wtxid = transaction_wtxid (tx_tx tx), transaction_raw = None\<rparr>\<rparr>
                  | Msg_block b \<Rightarrow> Msg_block \<lparr>block_header = block_header b, block_transactions = []\<rparr>
                  | Msg_blocktxn b \<Rightarrow> Msg_blocktxn
                      \<lparr>blocktxn_block_hash = blocktxn_block_hash b,
                       blocktxn_transactions = map drop_raw (blocktxn_transactions b)\<rparr>
                  | Msg_compactblock c \<Rightarrow> Msg_compactblock
                      \<lparr>compactblock_header = compactblock_header c,
                       compactblock_nonce = compactblock_nonce c,
                       compactblock_short_ids = compactblock_short_ids c,
                       compactblock_transactions =
                         map (\<lambda>t. \<lparr>prefilledtransaction_diff_index = prefilledtransaction_diff_index t,
                                  prefilledtransaction_tx = drop_raw (prefilledtransaction_tx t)\<rparr>)
                           (compactblock_transactions c)\<rparr>
                  | _ \<Rightarrow> msg)"
proof (cases msg)
  case (Msg_tx tx)
  then show ?thesis by (cases tx) (simp add: drop_raw_eq)
next
  case (Msg_block b)
  then show ?thesis by (cases b) simp
next
  case (Msg_blocktxn b)
  then show ?thesis by (cases b) simp
next
  case (Msg_compactblock c)
  then show ?thesis by (cases c) (simp add: strip_prefilled_eq)
qed simp_all

text \<open>Low-data mode removes exactly the bulk. Stripping an event keeps its time, its kind and
whether a filter matches it, stripping twice is stripping once, and an event is left as it is unless
it is a \<^verbatim>\<open>tx\<close>, \<^verbatim>\<open>block\<close>, \<^verbatim>\<open>blocktxn\<close> or \<^verbatim>\<open>cmpctblock\<close> message; of these a transaction keeps its
txid and wtxid and loses its raw bytes, and a block keeps its header and loses its transactions.\<close>

theorem low_data_strips_only_the_bulk:
  "pev_timestamp (strip_low_data event) = pev_timestamp event \<and>
   ArchiveFilter_matches f (strip_low_data event) = ArchiveFilter_matches f event \<and>
   strip_low_data (strip_low_data event) = strip_low_data event \<and>
   (case pev_event event of
      Some (EbpfExtractorEv (Some (EbpfMessage m))) \<Rightarrow>
        (case mev_msg m of
           None \<Rightarrow> strip_low_data event = event
         | Some msg \<Rightarrow>
             strip_low_data event =
               event\<lparr>pev_event := Some (EbpfExtractorEv (Some (EbpfMessage (m\<lparr>mev_msg := Some
                 (case msg of
                    Msg_tx tx \<Rightarrow> Msg_tx \<lparr>tx_tx =
                      \<lparr>transaction_txid = transaction_txid (tx_tx tx),
                       transaction_wtxid = transaction_wtxid (tx_tx tx), transaction_raw = None\<rparr>\<rparr>
                  | Msg_block b \<Rightarrow> Msg_block \<lparr>block_header = block_header b, block_transactions = []\<rparr>
                  | Msg_blocktxn b \<Rightarrow> Msg_blocktxn
                      \<lparr>blocktxn_block_hash = blocktxn_block_hash b,
                       blocktxn_transactions = map drop_raw (blocktxn_transactions b)\<rparr>
                  | Msg_compactblock c \<Rightarrow> Msg_compactblock
                      \<lparr>compactblock_header = compactblock_header c,
                       compactblock_nonce = compactblock_nonce c,
                       compactblock_short_ids = compactblock_short_ids c,
                       compactblock_transactions =
                         map (\<lambda>t. \<lparr>prefilledtransaction_diff_index = prefilledtransaction_diff_index t,
                                  prefilledtransaction_tx = drop_raw (prefilledtransaction_tx t)\<rparr>)
                           (compactblock_transactions c)\<rparr>
                  | _ \<Rightarrow> msg)\<rparr>))))\<rparr>)
    | _ \<Rightarrow> strip_low_data event = event)"
  unfolding strip_msg_eq [symmetric]
proof (intro conjI)
  show "case pev_event event of
      Some (EbpfExtractorEv (Some (EbpfMessage m))) \<Rightarrow>
        (case mev_msg m of
           None \<Rightarrow> strip_low_data event = event
         | Some msg \<Rightarrow>
             strip_low_data event =
               event\<lparr>pev_event := Some (EbpfExtractorEv (Some (EbpfMessage
                 (m\<lparr>mev_msg := Some (strip_msg msg)\<rparr>))))\<rparr>)
    | _ \<Rightarrow> strip_low_data event = event"
    by (simp add: strip_low_data_def split: option.split PeerObserverEvent.split ebpf_event.split)
qed (rule strip_timestamp strip_low_data_matches strip_low_data_idem)+

end
