(* ===== verification/Alerts.thy ===== *)
theory Alerts
  imports PbEvents
begin

text \<open>
  The alerts tool: \<^verbatim>\<open>tools/alerts/src/lib.rs\<close> and the alerts of \<^verbatim>\<open>alerter.rs\<close>. Instants of the
  monotonic clock are nanoseconds; \<^verbatim>\<open>duration_since\<close> gives zero for a later instant. The peers are
  a map; the order in which a \<^verbatim>\<open>HashMap\<close> is iterated is an input. The alerts handed to the alerter
  are the output.
\<close>

section \<open>Alerts\<close>

datatype SpammerKind = Ping | Addr

datatype Alert =
    Spammer SpammerKind u64 "byte list" nat nat nat
  | PeerDisconnected u64 "byte list" nat

section \<open>State\<close>

record AlertArgs =
  al_ping_threshold :: nat
  al_ping_window_secs :: nat
  al_addr_threshold :: nat
  al_addr_window_secs :: nat
  al_peer_stale_secs :: nat

record AlertTypeState =
  ts_timestamps :: "nat list"
  ts_alerted_at :: "nat option"

definition AlertTypeState_default :: AlertTypeState where
  "AlertTypeState_default = \<lparr>ts_timestamps = [], ts_alerted_at = None\<rparr>"

record PeerState =
  ps_ping :: AlertTypeState
  ps_addr :: AlertTypeState
  ps_last_seen :: nat
  ps_peer_addr :: "byte list"

definition PeerState_new :: "byte list \<Rightarrow> nat \<Rightarrow> PeerState" where
  "PeerState_new address now =
     \<lparr>ps_ping = AlertTypeState_default, ps_addr = AlertTypeState_default,
      ps_last_seen = now, ps_peer_addr = address\<rparr>"

type_synonym peers = "u64 \<rightharpoonup> PeerState"

definition from_secs :: "nat \<Rightarrow> nat" where "from_secs n = n * 1000000000"
definition as_secs :: "nat \<Rightarrow> nat" where "as_secs d = d div 1000000000"

section \<open>Checking one hit\<close>

definition window_secs_of :: "SpammerKind \<Rightarrow> AlertArgs \<Rightarrow> nat" where
  "window_secs_of kind args =
     (case kind of Ping \<Rightarrow> al_ping_window_secs args | Addr \<Rightarrow> al_addr_window_secs args)"

definition threshold_of :: "SpammerKind \<Rightarrow> AlertArgs \<Rightarrow> nat" where
  "threshold_of kind args =
     (case kind of Ping \<Rightarrow> al_ping_threshold args | Addr \<Rightarrow> al_addr_threshold args)"

definition type_state :: "SpammerKind \<Rightarrow> PeerState \<Rightarrow> AlertTypeState" where
  "type_state kind peer = (case kind of Ping \<Rightarrow> ps_ping peer | Addr \<Rightarrow> ps_addr peer)"

definition set_type_state :: "SpammerKind \<Rightarrow> AlertTypeState \<Rightarrow> PeerState \<Rightarrow> PeerState" where
  "set_type_state kind s peer =
     (case kind of Ping \<Rightarrow> peer\<lparr>ps_ping := s\<rparr> | Addr \<Rightarrow> peer\<lparr>ps_addr := s\<rparr>)"

definition check :: "SpammerKind \<Rightarrow> u64 \<Rightarrow> nat \<Rightarrow> AlertArgs \<Rightarrow> PeerState \<Rightarrow> Alert option \<times> PeerState" where
  "check kind pid now args peer =
     (let state = type_state kind peer; window_secs = window_secs_of kind args;
          threshold = threshold_of kind args in
      if ts_alerted_at state \<noteq> None then (None, peer)
      else
        let timestamps = dropWhile (\<lambda>t. from_secs window_secs < now - t) (ts_timestamps state @ [now]);
            state' = state\<lparr>ts_timestamps := timestamps\<rparr> in
        if length timestamps \<le> threshold then (None, set_type_state kind state' peer)
        else
          (Some (Spammer kind pid (ps_peer_addr peer) (length timestamps) window_secs threshold),
           set_type_state kind (state'\<lparr>ts_alerted_at := Some now\<rparr>) peer))"

section \<open>Leaving peers\<close>

definition first_alerted :: "PeerState \<Rightarrow> nat option" where
  "first_alerted peer =
     (case (ts_alerted_at (ps_ping peer), ts_alerted_at (ps_addr peer)) of
        (Some a, Some b) \<Rightarrow> Some (min a b)
      | (Some a, None) \<Rightarrow> Some a
      | (None, Some b) \<Rightarrow> Some b
      | (None, None) \<Rightarrow> None)"

definition disconnect_alert :: "u64 \<Rightarrow> PeerState \<Rightarrow> nat \<Rightarrow> Alert option" where
  "disconnect_alert pid peer now =
     (case first_alerted peer of
        None \<Rightarrow> None
      | Some t \<Rightarrow> Some (PeerDisconnected pid (ps_peer_addr peer) (as_secs (now - t))))"

definition alert_list :: "Alert option \<Rightarrow> Alert list" where
  "alert_list a = (case a of None \<Rightarrow> [] | Some x \<Rightarrow> [x])"

text \<open>Removing one peer, with the alert that it left.\<close>

definition remove_peer :: "nat \<Rightarrow> u64 \<Rightarrow> peers \<Rightarrow> Alert list \<times> peers" where
  "remove_peer now pid st =
     (case st pid of
        None \<Rightarrow> ([], st)
      | Some peer \<Rightarrow> (alert_list (disconnect_alert pid peer now), st(pid := None)))"

definition is_stale :: "nat \<Rightarrow> nat \<Rightarrow> PeerState \<Rightarrow> bool" where
  "is_stale stale_after now peer \<longleftrightarrow> stale_after < now - ps_last_seen peer"

fun remove_peers :: "nat \<Rightarrow> u64 list \<Rightarrow> peers \<Rightarrow> Alert list \<times> peers" where
  "remove_peers now [] st = ([], st)"
| "remove_peers now (pid # ids) st =
     (let (alerts, st') = remove_peer now pid st; (alerts', st'') = remove_peers now ids st'
      in (alerts @ alerts', st''))"

definition cleanup_stale_peers :: "nat \<Rightarrow> nat \<Rightarrow> u64 list \<Rightarrow> peers \<Rightarrow> Alert list \<times> peers" where
  "cleanup_stale_peers stale_after now order st =
     (let stale = filter (\<lambda>pid. case st pid of None \<Rightarrow> False
                                     | Some p \<Rightarrow> is_stale stale_after now p) order
      in remove_peers now stale st)"

section \<open>Events\<close>

text \<open>Which messages count, and as what.\<close>

fun spammer_kind :: "P2pMsg option \<Rightarrow> SpammerKind option" where
  "spammer_kind (Some (Msg_ping _)) = Some Ping"
| "spammer_kind (Some (Msg_addr _)) = Some Addr"
| "spammer_kind (Some (Msg_addrv2 _)) = Some Addr"
| "spammer_kind _ = None"

definition alerts_handle_message ::
    "MessageEvent_pb \<Rightarrow> AlertArgs \<Rightarrow> nat \<Rightarrow> peers \<Rightarrow> Alert list \<times> peers" where
  "alerts_handle_message msg args now st =
     (if \<not> pmd_inbound (mev_meta msg) then ([], st)
      else
        let pid = pmd_peer_id (mev_meta msg);
            entry = (case st pid of None \<Rightarrow> PeerState_new (pmd_addr (mev_meta msg)) now | Some p \<Rightarrow> p);
            peer = entry\<lparr>ps_last_seen := now\<rparr> in
        case spammer_kind (mev_msg msg) of
          None \<Rightarrow> ([], st(pid \<mapsto> peer))
        | Some kind \<Rightarrow>
            (let (alert, peer') = check kind pid now args peer
             in (alert_list alert, st(pid \<mapsto> peer'))))"

definition alerts_handle_connection :: "ConnectionEvent option \<Rightarrow> nat \<Rightarrow> peers \<Rightarrow> Alert list \<times> peers" where
  "alerts_handle_connection conn now st =
     (case conn of
        Some (Closed c) \<Rightarrow> remove_peer now (pc_peer_id (pcl_conn c)) st
      | _ \<Rightarrow> ([], st))"

definition alerts_handle_event :: "'x Event_pb \<Rightarrow> AlertArgs \<Rightarrow> nat \<Rightarrow> peers \<Rightarrow> Alert list \<times> peers" where
  "alerts_handle_event event args now st =
     (case pev_event event of
        Some (EbpfExtractorEv (Some (EbpfMessage msg))) \<Rightarrow> alerts_handle_message msg args now st
      | Some (EbpfExtractorEv (Some (EbpfConnection conn))) \<Rightarrow> alerts_handle_connection conn now st
      | _ \<Rightarrow> ([], st))"

section \<open>The loop\<close>

text \<open>
  A branch of the \<^verbatim>\<open>select!\<close> loop that became ready: a payload with what it decodes to, the end of
  the subscriptions, the cleanup timer with the iteration order of the map, a change of the shutdown
  flag or the loss of its sender.
\<close>

datatype 'x alerts_input =
    Payload "'x Event_pb option"
  | SubsEnded
  | CleanupTick "u64 list"
  | AlertsShutdownChanged bool
  | AlertsShutdownDropped

text \<open>The result: the alerts emitted, and the state to go on with, or \<open>None\<close> when the loop ends.\<close>

definition alerts_iteration ::
    "AlertArgs \<Rightarrow> 'x alerts_input \<times> nat \<Rightarrow> peers \<Rightarrow> Alert list \<times> peers option" where
  "alerts_iteration args tick st =
     (case tick of (input, now) \<Rightarrow>
      case input of
        Payload (Some event) \<Rightarrow> map_prod id Some (alerts_handle_event event args now st)
      | Payload None \<Rightarrow> ([], Some st)
      | SubsEnded \<Rightarrow> ([], None)
      | CleanupTick order \<Rightarrow>
          map_prod id Some (cleanup_stale_peers (from_secs (al_peer_stale_secs args)) now order st)
      | AlertsShutdownChanged v \<Rightarrow> ([], if v then None else Some st)
      | AlertsShutdownDropped \<Rightarrow> ([], None))"

fun alerts_loop ::
    "AlertArgs \<Rightarrow> ('x alerts_input \<times> nat) list \<Rightarrow> peers \<Rightarrow> Alert list \<times> peers option" where
  "alerts_loop args [] st = ([], Some st)"
| "alerts_loop args (t # ts) st =
     (case alerts_iteration args t st of
        (alerts, None) \<Rightarrow> (alerts, None)
      | (alerts, Some st') \<Rightarrow> (case alerts_loop args ts st' of (alerts', r) \<Rightarrow> (alerts @ alerts', r)))"

text \<open>
  Setting up: connecting and subscribing may fail; the timer's constructor panics when its period is
  zero.
\<close>

datatype alerts_start = AlertsNatsError | AlertsPanic | AlertsStarted peers

definition alerts_run_start :: "bool \<Rightarrow> AlertArgs \<Rightarrow> alerts_start" where
  "alerts_run_start nats_ok args =
     (if \<not> nats_ok then AlertsNatsError
      else if from_secs (al_peer_stale_secs args) = 0 then AlertsPanic
      else AlertsStarted Map.empty)"

end
