(* ===== verification/AlertProperties.thy ===== *)
theory AlertProperties
  imports Alerts Pipeline
begin

text \<open>
  Properties of the alerts tool: its sliding window equals counting the hits of the window, its
  memory is bounded, its alerts follow the life of the peers, and its cleanup removes exactly the
  stale ones.
\<close>

section \<open>Checking\<close>

lemma type_state_set [simp]: "type_state kind (set_type_state kind s p) = s"
  by (cases kind) (simp_all add: type_state_def set_type_state_def)

lemma type_state_set_other [simp]:
  "kind \<noteq> kind' \<Longrightarrow> type_state kind (set_type_state kind' s p) = type_state kind p"
  by (cases kind; cases kind') (simp_all add: type_state_def set_type_state_def)

lemma set_type_state_addr [simp]: "ps_peer_addr (set_type_state kind s p) = ps_peer_addr p"
  by (cases kind) (simp_all add: set_type_state_def)

lemma set_type_state_seen [simp]: "ps_last_seen (set_type_state kind s p) = ps_last_seen p"
  by (cases kind) (simp_all add: set_type_state_def)

lemma type_state_seen [simp]: "type_state kind (p\<lparr>ps_last_seen := t\<rparr>) = type_state kind p"
  by (cases kind) (simp_all add: type_state_def)

lemma type_state_new [simp]: "type_state kind (PeerState_new a t) = AlertTypeState_default"
  by (cases kind) (simp_all add: type_state_def PeerState_new_def)

text \<open>The three outcomes of a check.\<close>

lemma check_cases:
  assumes "check kind pno now args p = (a, p')"
  obtains (alerted) "ts_alerted_at (type_state kind p) \<noteq> None" "a = None" "p' = p"
  | (below) ts where "ts_alerted_at (type_state kind p) = None"
      "ts = dropWhile (\<lambda>t. from_secs (window_secs_of kind args) < now - t)
              (ts_timestamps (type_state kind p) @ [now])"
      "length ts \<le> threshold_of kind args" "a = None"
      "p' = set_type_state kind (type_state kind p\<lparr>ts_timestamps := ts\<rparr>) p"
  | (above) ts where "ts_alerted_at (type_state kind p) = None"
      "ts = dropWhile (\<lambda>t. from_secs (window_secs_of kind args) < now - t)
              (ts_timestamps (type_state kind p) @ [now])"
      "threshold_of kind args < length ts"
      "a = Some (Spammer kind pno (ps_peer_addr p) (length ts) (window_secs_of kind args)
                   (threshold_of kind args))"
      "p' = set_type_state kind (type_state kind p\<lparr>ts_timestamps := ts, ts_alerted_at := Some now\<rparr>) p"
  using assms
  by (cases "ts_alerted_at (type_state kind p) = None")
     (auto simp: check_def Let_def not_le split: if_splits)

section \<open>The sliding window\<close>

text \<open>
  The reference: the hits whose age at \<open>now\<close> is at most the window, and a burst at hit \<open>i\<close>: more
  than \<open>thr\<close> of the hits so far are that recent.
\<close>

definition in_window :: "nat \<Rightarrow> nat \<Rightarrow> nat list \<Rightarrow> nat list" where
  "in_window w now hits = filter (\<lambda>t. now - t \<le> w) hits"

definition burst :: "nat \<Rightarrow> nat \<Rightarrow> nat list \<Rightarrow> nat \<Rightarrow> bool" where
  "burst w thr hits i \<longleftrightarrow> thr < length (in_window w (hits ! i) (take (Suc i) hits))"

text \<open>The hits of one kind of one peer, checked one after the other.\<close>

fun checks :: "SpammerKind \<Rightarrow> u64 \<Rightarrow> AlertArgs \<Rightarrow> nat list \<Rightarrow> PeerState \<Rightarrow> Alert option list" where
  "checks kind pno args [] p = []"
| "checks kind pno args (now # hits) p =
     (case check kind pno now args p of (a, p') \<Rightarrow> a # checks kind pno args hits p')"

lemma length_checks [simp]: "length (checks kind pno args hits p) = length hits"
  by (induction hits arbitrary: p) (auto split: prod.split)

lemma dropWhile_in_window:
  "sorted hits \<Longrightarrow> dropWhile (\<lambda>t. w < now - t) hits = in_window w now hits"
proof (induction hits)
  case (Cons t hits)
  show ?case
  proof (cases "w < now - t")
    case True
    with Cons show ?thesis by (simp add: in_window_def)
  next
    case False
    with Cons.prems have "filter (\<lambda>u. now - u \<le> w) hits = hits" by (intro filter_True) fastforce
    with False show ?thesis by (simp add: in_window_def)
  qed
qed (simp add: in_window_def)

lemma in_window_twice: "now \<le> now' \<Longrightarrow> in_window w now' (in_window w now hits) = in_window w now' hits"
  unfolding in_window_def filter_filter by (rule filter_cong) auto

lemma checks_alerted:
  "ts_alerted_at (type_state kind p) \<noteq> None \<Longrightarrow>
   checks kind pno args hits p = replicate (length hits) None"
  by (induction hits) (auto simp: check_def Let_def)

text \<open>What is remembered after the hits \<open>pre\<close>, none of them a burst.\<close>

definition window_state :: "SpammerKind \<Rightarrow> AlertArgs \<Rightarrow> nat list \<Rightarrow> PeerState \<Rightarrow> bool" where
  "window_state kind args pre p \<longleftrightarrow>
     ts_alerted_at (type_state kind p) = None \<and>
     ts_timestamps (type_state kind p) =
       (if pre = [] then [] else in_window (from_secs (window_secs_of kind args)) (last pre) pre) \<and>
     length (ts_timestamps (type_state kind p)) \<le> threshold_of kind args"

lemma window_state_step:
  assumes "window_state kind args pre p" and "sorted (pre @ [now])"
  shows "dropWhile (\<lambda>t. from_secs (window_secs_of kind args) < now - t)
           (ts_timestamps (type_state kind p) @ [now]) =
         in_window (from_secs (window_secs_of kind args)) now (pre @ [now])"
proof (cases "pre = []")
  case True
  with assms show ?thesis by (simp add: window_state_def in_window_def)
next
  case False
  let ?w = "from_secs (window_secs_of kind args)"
  from False assms have "ts_timestamps (type_state kind p) @ [now] = in_window ?w (last pre) (pre @ [now])"
    by (auto simp: window_state_def in_window_def sorted_append)
  moreover have "sorted (in_window ?w (last pre) (pre @ [now]))"
    unfolding in_window_def by (rule sorted_wrt_filter) (rule assms(2))
  moreover have "last pre \<le> now" using False assms(2) by (auto simp: sorted_append)
  ultimately show ?thesis by (simp add: dropWhile_in_window in_window_twice)
qed

lemma checks_window:
  assumes "window_state kind args pre p" and "sorted (pre @ hits)" and "i < length hits"
  defines "w \<equiv> from_secs (window_secs_of kind args)" and "thr \<equiv> threshold_of kind args"
  shows "checks kind pno args hits p ! i =
         (if burst w thr (pre @ hits) (length pre + i) \<and>
             (\<forall>j < i. \<not> burst w thr (pre @ hits) (length pre + j))
          then Some (Spammer kind pno (ps_peer_addr p) (thr + 1) (window_secs_of kind args) thr)
          else None)"
  using assms(1-3)
proof (induction hits arbitrary: pre p i)
  case (Cons now hits)
  obtain a p' where step: "check kind pno now args p = (a, p')" by fastforce
  have sorted: "sorted (pre @ [now])" using Cons.prems(2) by (simp add: sorted_append)
  note window = window_state_step [OF Cons.prems(1) sorted]
  let ?ts = "in_window w now (pre @ [now])"
  have burst0: "burst w thr (pre @ now # hits) (length pre) \<longleftrightarrow> thr < length ?ts"
    by (simp add: burst_def)
  have here: "ts_alerted_at (type_state kind p) = None"
    using Cons.prems(1) by (simp add: window_state_def)
  from step show ?case
  proof (cases rule: check_cases)
    case alerted
    with here show ?thesis by simp
  next
    case (below ts)
    with window have ts: "ts = ?ts" "length ?ts \<le> thr" by (simp_all add: w_def thr_def)
    have "window_state kind args (pre @ [now]) p'"
      using below here ts by (simp add: window_state_def w_def thr_def)
    moreover have "ps_peer_addr p' = ps_peer_addr p" using below(5) by simp
    ultimately have "i' < length hits \<Longrightarrow> checks kind pno args hits p' ! i' =
        (if burst w thr ((pre @ [now]) @ hits) (length (pre @ [now]) + i') \<and>
            (\<forall>j < i'. \<not> burst w thr ((pre @ [now]) @ hits) (length (pre @ [now]) + j))
         then Some (Spammer kind pno (ps_peer_addr p) (thr + 1) (window_secs_of kind args) thr)
         else None)" for i'
      using Cons.IH [of "pre @ [now]" p' i'] Cons.prems(2) by simp
    with step below(4) burst0 ts(2) Cons.prems(3) show ?thesis
      by (cases i) (auto simp: less_Suc_eq_0_disj)
  next
    case (above ts)
    with window have ts: "ts = ?ts" "thr < length ?ts" by (simp_all add: w_def thr_def)
    have "length ts \<le> length (ts_timestamps (type_state kind p) @ [now])"
      unfolding above(2) by (rule length_dropWhile_le)
    moreover have "length (ts_timestamps (type_state kind p)) \<le> thr"
      using Cons.prems(1) unfolding window_state_def thr_def by blast
    ultimately have "length ts = thr + 1" using above(3) by (simp add: thr_def)
    moreover have "checks kind pno args hits p' = replicate (length hits) None"
      using above(5) by (intro checks_alerted) simp
    ultimately show ?thesis
      using step above(4) burst0 ts(2) Cons.prems(3)
      by (cases i) (auto simp: thr_def)
  qed
qed simp

text \<open>C8: The sliding window of the alerts tool is exact. For the hits of one kind of one peer, in the
order of time, the tool alerts at the first hit at which more than the threshold of the hits so far
are not older than the window, the reference count over the whole history, and at no other hit; the
alert reports one hit more than the threshold, with the peer's address and the configured limits.
So forgetting the hits outside the window, and stopping to count after an alert, changes nothing.\<close>

theorem window_is_exact:
  assumes "sorted hits" and "i < length hits"
  shows "checks kind pno args hits (PeerState_new a t0) ! i =
         (let w = from_secs (window_secs_of kind args); thr = threshold_of kind args in
          if burst w thr hits i \<and> (\<forall>j < i. \<not> burst w thr hits j)
          then Some (Spammer kind pno a (thr + 1) (window_secs_of kind args) thr) else None)"
proof -
  have "window_state kind args [] (PeerState_new a t0)"
    by (simp add: window_state_def AlertTypeState_default_def)
  from checks_window [OF this _ assms(2)] assms(1) show ?thesis
    by (simp add: PeerState_new_def Let_def)
qed

definition demo_alert_args :: AlertArgs where
  "demo_alert_args =
     \<lparr>al_ping_threshold = 2, al_ping_window_secs = 10, al_addr_threshold = 6, al_addr_window_secs = 60,
      al_peer_stale_secs = 300\<rparr>"

lemma all_below_3: "(\<forall>j < 3. P j) \<longleftrightarrow> P 0 \<and> P 1 \<and> P (2 :: nat)"
  by (auto simp: less_Suc_eq numeral_3_eq_3 numeral_2_eq_2)

theorem window_is_exact_witness:
  "checks Ping 7 demo_alert_args [from_secs 1, from_secs 20, from_secs 21, from_secs 22, from_secs 23]
     (PeerState_new [] 0) ! 3 = Some (Spammer Ping 7 [] 3 10 2)"
  by (subst window_is_exact)
     (simp_all add: demo_alert_args_def from_secs_def window_secs_of_def threshold_of_def burst_def
       in_window_def all_below_3 Let_def)

section \<open>The state\<close>

text \<open>
  A counter is well-formed if it has at most as many time stamps as the threshold, or one more, for
  ever, once it has alerted.
\<close>

definition counter_ok :: "nat \<Rightarrow> AlertTypeState \<Rightarrow> bool" where
  "counter_ok thr s \<longleftrightarrow>
     (case ts_alerted_at s of
        None \<Rightarrow> length (ts_timestamps s) \<le> thr
      | Some _ \<Rightarrow> length (ts_timestamps s) = thr + 1)"

definition peer_ok :: "AlertArgs \<Rightarrow> PeerState \<Rightarrow> bool" where
  "peer_ok args p \<longleftrightarrow> (\<forall>kind. counter_ok (threshold_of kind args) (type_state kind p))"

definition peers_ok :: "AlertArgs \<Rightarrow> peers \<Rightarrow> bool" where
  "peers_ok args st \<longleftrightarrow> (\<forall>p \<in> ran st. peer_ok args p)"

lemma check_peer_ok:
  assumes "check kind pno now args p = (a, p')" and "peer_ok args p"
  shows "peer_ok args p'"
proof -
  have counter: "counter_ok (threshold_of k args) (type_state k p)" for k
    using assms(2) by (simp add: peer_ok_def)
  have other: "counter_ok (threshold_of k args) (type_state k (set_type_state kind s p))"
    if "k \<noteq> kind" for k s
    using counter [of k] that by simp
  from assms(1) show ?thesis
  proof (cases rule: check_cases)
    case alerted
    with assms(2) show ?thesis by simp
  next
    case (below ts)
    have "counter_ok (threshold_of k args) (type_state k p')" for k
      using below other [of k] by (cases "k = kind") (simp_all add: counter_ok_def)
    then show ?thesis by (simp add: peer_ok_def)
  next
    case (above ts)
    have "length ts \<le> length (ts_timestamps (type_state kind p) @ [now])"
      unfolding above(2) by (rule length_dropWhile_le)
    then have "length ts = threshold_of kind args + 1"
      using above(1,3) counter [of kind] by (simp add: counter_ok_def)
    then have "counter_ok (threshold_of k args) (type_state k p')" for k
      using above(5) other [of k] by (cases "k = kind") (simp_all add: counter_ok_def)
    then show ?thesis by (simp add: peer_ok_def)
  qed
qed

lemma new_peer_ok: "peer_ok args (PeerState_new a t)"
  by (simp add: peer_ok_def counter_ok_def AlertTypeState_default_def)

lemma seen_peer_ok [simp]: "peer_ok args (p\<lparr>ps_last_seen := t\<rparr>) = peer_ok args p"
  by (simp add: peer_ok_def)

lemma peers_ok_upd: "peers_ok args st \<Longrightarrow> peer_ok args p \<Longrightarrow> peers_ok args (st(pno \<mapsto> p))"
  by (auto simp: peers_ok_def ran_def)

lemma peers_ok_del: "peers_ok args st \<Longrightarrow> peers_ok args (st(pno := None))"
  by (auto simp: peers_ok_def ran_def)

lemma peers_okD: "peers_ok args st \<Longrightarrow> st pno = Some p \<Longrightarrow> peer_ok args p"
  by (auto simp: peers_ok_def ran_def)

lemma remove_peer_ok: "remove_peer now pno st = (as, st') \<Longrightarrow> peers_ok args st \<Longrightarrow> peers_ok args st'"
  by (auto simp: remove_peer_def intro: peers_ok_del split: option.splits)

lemma remove_peers_ok: "remove_peers now ids st = (as, st') \<Longrightarrow> peers_ok args st \<Longrightarrow> peers_ok args st'"
  by (induction ids arbitrary: st as) (auto split: prod.splits dest: remove_peer_ok)

lemma handle_message_ok:
  assumes "alerts_handle_message msg args now st = (as, st')" and "peers_ok args st"
  shows "peers_ok args st'"
proof -
  let ?pno = "pmd_peer_id (mev_meta msg)"
  let ?entry = "case st ?pno of None \<Rightarrow> PeerState_new (pmd_addr (mev_meta msg)) now | Some p \<Rightarrow> p"
  have entry: "peer_ok args ?entry"
    using peers_okD [OF assms(2)] by (simp add: new_peer_ok split: option.split)
  from assms entry show ?thesis
    by (auto simp: alerts_handle_message_def Let_def intro!: peers_ok_upd elim: check_peer_ok
        split: if_splits option.splits prod.splits)
qed

lemma map_prod_Some [simp]: "map_prod id Some r = (as, Some st') \<longleftrightarrow> r = (as, st')"
  by (cases r) auto

lemma map_prod_None [simp]: "map_prod id Some r \<noteq> (as, None)"
  by (cases r) auto

text \<open>What handling an event, and an iteration that goes on, can have done.\<close>

lemma handle_event_cases:
  "(\<exists>msg. alerts_handle_event event args now st = alerts_handle_message msg args now st) \<or>
   (\<exists>pno. alerts_handle_event event args now st = remove_peer now pno st) \<or>
   alerts_handle_event event args now st = ([], st)"
  unfolding alerts_handle_event_def alerts_handle_connection_def
  by (split option.split PeerObserverEvent.split ebpf_event.split ConnectionEvent.split; blast?)+

lemma alerts_iteration_cases:
  assumes "alerts_iteration args (input, now) st = (as, Some st')"
  obtains (message) msg where "alerts_handle_message msg args now st = (as, st')"
  | (closed) pno where "remove_peer now pno st = (as, st')"
  | (cleanup) order where "cleanup_stale_peers (from_secs (al_peer_stale_secs args)) now order st = (as, st')"
  | (nothing) "as = []" "st' = st"
proof (cases input)
  case (Payload decoded)
  show ?thesis
  proof (cases decoded)
    case None
    with assms Payload have "as = []" "st' = st" by (simp_all add: alerts_iteration_def)
    then show ?thesis by (rule nothing)
  next
    case (Some event)
    with assms Payload have "alerts_handle_event event args now st = (as, st')"
      by (simp add: alerts_iteration_def)
    with handle_event_cases [of event args now st] have
      "(\<exists>msg. alerts_handle_message msg args now st = (as, st')) \<or>
       (\<exists>pno. remove_peer now pno st = (as, st')) \<or> as = [] \<and> st' = st" by auto
    then show ?thesis
      by (elim disjE exE conjE) (erule message closed | rule nothing, assumption, assumption)+
  qed
next
  case (CleanupTick order)
  with assms cleanup show ?thesis by (simp add: alerts_iteration_def)
qed (use assms nothing in \<open>simp_all add: alerts_iteration_def split: if_splits\<close>)

lemma alerts_iteration_ok:
  "alerts_iteration args t st = (as, Some st') \<Longrightarrow> peers_ok args st \<Longrightarrow> peers_ok args st'"
  by (cases t, hypsubst, erule alerts_iteration_cases)
     (auto simp: cleanup_stale_peers_def Let_def dest: handle_message_ok remove_peer_ok remove_peers_ok)

lemma alerts_loop_ok:
  "alerts_loop args ts st = (as, Some st') \<Longrightarrow> peers_ok args st \<Longrightarrow> peers_ok args st'"
  by (induction ts arbitrary: st as) (auto split: prod.splits option.splits dest: alerts_iteration_ok)

text \<open>C31: The memory of the alerts tool is bounded. Whatever events arrive in whatever order and with
whatever clock, a peer that has not been flagged for a kind has at most as many time stamps of that
kind as the threshold, and a flagged one keeps exactly one more: the state is well-formed after every
run.\<close>

theorem alerts_memory_bounded:
  assumes "alerts_loop args ts Map.empty = (out, Some st)" and "st pno = Some p"
  shows "counter_ok (threshold_of kind args) (type_state kind p)"
proof -
  have "peers_ok args Map.empty" by (simp add: peers_ok_def)
  from peers_okD [OF alerts_loop_ok [OF assms(1) this] assms(2)] show ?thesis
    by (simp add: peer_ok_def)
qed

definition demo_ping :: "bool \<Rightarrow> unit Event_pb" where
  "demo_ping inbound =
     \<lparr>pev_timestamp = 0, pev_event = Some (EbpfExtractorEv (Some (EbpfMessage
        \<lparr>mev_meta = \<lparr>pmd_peer_id = 7, pmd_addr = [], pmd_conn_type = 1, pmd_command = [],
                    pmd_inbound = inbound, pmd_size = 8\<rparr>,
         mev_msg = Some (Msg_ping \<lparr>ping_value = 1\<rparr>)\<rparr>)))\<rparr>"

definition demo_pings :: "(unit alerts_input \<times> nat) list" where
  "demo_pings = map (\<lambda>t. (Payload (Some (demo_ping True)), from_secs t)) [1, 2, 3, 4]"

lemma demo_pings_run:
  "alerts_loop demo_alert_args demo_pings Map.empty =
   ([Spammer Ping 7 [] 3 10 2],
    Some [7 \<mapsto> \<lparr>ps_ping = \<lparr>ts_timestamps = map from_secs [1, 2, 3], ts_alerted_at = Some (from_secs 3)\<rparr>,
               ps_addr = AlertTypeState_default, ps_last_seen = from_secs 4, ps_peer_addr = []\<rparr>])"
  by (simp add: demo_pings_def demo_ping_def alerts_iteration_def alerts_handle_event_def
      alerts_handle_message_def check_def demo_alert_args_def window_secs_of_def threshold_of_def
      type_state_def set_type_state_def PeerState_new_def AlertTypeState_default_def from_secs_def
      alert_list_def)

theorem alerts_memory_bounded_witness:
  "counter_ok 2 \<lparr>ts_timestamps = map from_secs [1, 2, 3], ts_alerted_at = Some (from_secs 3)\<rparr>"
  using alerts_memory_bounded [OF demo_pings_run, of 7, where kind = Ping]
  by (simp add: threshold_of_def demo_alert_args_def type_state_def)

section \<open>Spammers and disconnects\<close>

text \<open>
  The abstract specification: per peer the set of kinds it is flagged for. A spammer alert is allowed
  for a kind the peer is not flagged for, and flags it; a disconnect alert is allowed for a flagged
  peer, and clears it.
\<close>

type_synonym flags = "u64 \<Rightarrow> SpammerKind set"

fun spec_step :: "Alert \<Rightarrow> flags \<Rightarrow> flags option" where
  "spec_step (Spammer kind pno a n w thr) F =
     (if kind \<in> F pno then None else Some (F(pno := insert kind (F pno))))"
| "spec_step (PeerDisconnected pno a secs) F = (if F pno = {} then None else Some (F(pno := {})))"

fun spec_run :: "Alert list \<Rightarrow> flags \<Rightarrow> flags option" where
  "spec_run [] F = Some F"
| "spec_run (a # as) F = (case spec_step a F of None \<Rightarrow> None | Some F' \<Rightarrow> spec_run as F')"

lemma spec_run_append:
  "spec_run (as @ bs) F = (case spec_run as F of None \<Rightarrow> None | Some F' \<Rightarrow> spec_run bs F')"
  by (induction as arbitrary: F) (auto split: option.split)

text \<open>The flags of a state.\<close>

definition peer_flags :: "PeerState \<Rightarrow> SpammerKind set" where
  "peer_flags p = {kind. ts_alerted_at (type_state kind p) \<noteq> None}"

definition flags_of :: "peers \<Rightarrow> flags" where
  "flags_of st = (\<lambda>pno. case st pno of None \<Rightarrow> {} | Some p \<Rightarrow> peer_flags p)"

lemma peer_flags_new [simp]: "peer_flags (PeerState_new a t) = {}"
  by (simp add: peer_flags_def AlertTypeState_default_def)

lemma peer_flags_seen [simp]: "peer_flags (p\<lparr>ps_last_seen := t\<rparr>) = peer_flags p"
  by (simp add: peer_flags_def)

lemma first_alerted_None: "first_alerted p = None \<longleftrightarrow> peer_flags p = {}"
proof -
  have "peer_flags p = {} \<longleftrightarrow> (\<forall>kind. ts_alerted_at (type_state kind p) = None)"
    by (auto simp: peer_flags_def)
  also have "\<dots> \<longleftrightarrow> ts_alerted_at (ps_ping p) = None \<and> ts_alerted_at (ps_addr p) = None"
    by (auto simp: type_state_def split: SpammerKind.split)
  finally show ?thesis by (auto simp: first_alerted_def split: option.split)
qed

lemma flags_of_upd: "flags_of (st(pno \<mapsto> p)) = (flags_of st)(pno := peer_flags p)"
  by (rule ext) (simp add: flags_of_def)

lemma flags_of_del: "flags_of (st(pno := None)) = (flags_of st)(pno := {})"
  by (rule ext) (simp add: flags_of_def)

lemma check_refines:
  assumes "check kind pno now args p = (a, p')" and "F pno = peer_flags p"
  shows "spec_run (alert_list a) F = Some (F(pno := peer_flags p'))"
  using assms(1)
proof (cases rule: check_cases)
  case alerted
  with assms(2) show ?thesis by (simp add: alert_list_def fun_upd_idem)
next
  case (below ts)
  have "peer_flags p' = peer_flags p"
  proof (rule set_eqI)
    fix k
    show "k \<in> peer_flags p' \<longleftrightarrow> k \<in> peer_flags p"
      using below(1,5) by (cases "k = kind") (simp_all add: peer_flags_def)
  qed
  with below(4) assms(2) show ?thesis by (simp add: alert_list_def fun_upd_idem)
next
  case (above ts)
  have "peer_flags p' = insert kind (peer_flags p)"
  proof (rule set_eqI)
    fix k
    show "k \<in> peer_flags p' \<longleftrightarrow> k \<in> insert kind (peer_flags p)"
      using above(5) by (cases "k = kind") (simp_all add: peer_flags_def)
  qed
  moreover have "kind \<notin> F pno" using above(1) assms(2) by (simp add: peer_flags_def)
  ultimately show ?thesis using above(4) assms(2) by (simp add: alert_list_def)
qed

lemma remove_peer_refines:
  assumes "remove_peer now pno st = (as, st')"
  shows "spec_run as (flags_of st) = Some (flags_of st')"
proof (cases "st pno")
  case None
  with assms show ?thesis by (simp add: remove_peer_def)
next
  case (Some p)
  then have F: "flags_of st pno = peer_flags p" by (simp add: flags_of_def)
  from assms Some have st': "as = alert_list (disconnect_alert pno p now)" "st' = st(pno := None)"
    by (simp_all add: remove_peer_def)
  show ?thesis
  proof (cases "first_alerted p")
    case None
    with F st' show ?thesis
      by (simp add: disconnect_alert_def alert_list_def first_alerted_None flags_of_del fun_upd_idem)
  next
    case (Some t)
    then have "flags_of st pno \<noteq> {}" using F first_alerted_None [of p] by simp
    with Some st' show ?thesis by (simp add: disconnect_alert_def alert_list_def flags_of_del)
  qed
qed

lemma remove_peers_refines:
  "remove_peers now ids st = (as, st') \<Longrightarrow> spec_run as (flags_of st) = Some (flags_of st')"
  by (induction ids arbitrary: st as)
     (auto simp: spec_run_append split: prod.splits dest!: remove_peer_refines)

lemma handle_message_refines:
  assumes "alerts_handle_message msg args now st = (as, st')"
  shows "spec_run as (flags_of st) = Some (flags_of st')"
proof -
  let ?pno = "pmd_peer_id (mev_meta msg)"
  let ?p = "(case st ?pno of None \<Rightarrow> PeerState_new (pmd_addr (mev_meta msg)) now | Some p \<Rightarrow> p)\<lparr>ps_last_seen := now\<rparr>"
  have F: "flags_of st ?pno = peer_flags ?p" by (simp add: flags_of_def split: option.split)
  show ?thesis
  proof (cases "pmd_inbound (mev_meta msg)")
    case False
    with assms show ?thesis by (simp add: alerts_handle_message_def)
  next
    case inbound: True
    show ?thesis
    proof (cases "spammer_kind (mev_msg msg)")
      case None
      with assms inbound F show ?thesis
        by (auto simp: alerts_handle_message_def Let_def flags_of_upd fun_upd_idem)
    next
      case (Some kind)
      obtain a p' where c: "check kind ?pno now args ?p = (a, p')" by fastforce
      with assms inbound Some have "as = alert_list a" "st' = st(?pno \<mapsto> p')"
        by (simp_all add: alerts_handle_message_def Let_def)
      with check_refines [where F = "flags_of st", OF c F] show ?thesis by (simp add: flags_of_upd)
    qed
  qed
qed

lemma alerts_iteration_refines:
  assumes "alerts_iteration args t st = (as, r)"
  shows "\<exists>F. spec_run as (flags_of st) = Some F \<and> (\<forall>st'. r = Some st' \<longrightarrow> F = flags_of st')"
proof (cases r)
  case None
  with assms have "as = []"
    by (auto simp: alerts_iteration_def split: prod.splits alerts_input.splits option.splits if_splits)
  with None show ?thesis by simp
next
  case (Some st')
  with assms have "alerts_iteration args (fst t, snd t) st = (as, Some st')" by simp
  then show ?thesis
    using Some
    by (cases rule: alerts_iteration_cases)
       (auto simp: cleanup_stale_peers_def Let_def
         dest: handle_message_refines remove_peer_refines remove_peers_refines)
qed

lemma alerts_loop_refines:
  "alerts_loop args ts st = (as, r) \<Longrightarrow>
   \<exists>F. spec_run as (flags_of st) = Some F \<and> (\<forall>st'. r = Some st' \<longrightarrow> F = flags_of st')"
proof (induction ts arbitrary: st as r)
  case (Cons t ts)
  obtain as1 r1 where step: "alerts_iteration args t st = (as1, r1)" by fastforce
  from alerts_iteration_refines [OF step] obtain F where F: "spec_run as1 (flags_of st) = Some F"
    "\<And>st'. r1 = Some st' \<Longrightarrow> F = flags_of st'" by blast
  show ?case
  proof (cases r1)
    case None
    with Cons.prems step F show ?thesis by auto
  next
    case (Some st1)
    obtain as2 r2 where rest: "alerts_loop args ts st1 = (as2, r2)" by fastforce
    with Cons.prems step Some have "as = as1 @ as2" "r = r2" by simp_all
    with Cons.IH [OF rest] F Some show ?thesis by (simp add: spec_run_append)
  qed
qed simp

text \<open>C11: The alerts follow the peers. For every sequence of events, timer ticks and shutdown
notifications the emitted alerts are a run of the abstract specification: a spammer alert comes at
most once per peer and kind until the peer leaves, and a disconnect alert comes only for a peer that
was reported as a spammer and did not leave since. While the tool runs, its state records exactly the
peers and kinds the specification has flagged, so each flagged peer that leaves will be reported.\<close>

theorem alerts_refine_spec:
  "\<exists>F. spec_run (fst (alerts_loop args ts Map.empty)) (\<lambda>pno. {}) = Some F \<and>
       (case snd (alerts_loop args ts Map.empty) of None \<Rightarrow> True | Some st \<Rightarrow> F = flags_of st)"
proof -
  have "flags_of Map.empty = (\<lambda>pno. {})" by (rule ext) (simp add: flags_of_def)
  with alerts_loop_refines [of args ts Map.empty] show ?thesis
    by (cases "alerts_loop args ts Map.empty") (auto split: option.split)
qed

section \<open>Cleanup\<close>

lemma remove_peers_distinct:
  "distinct ids \<Longrightarrow> set ids \<subseteq> dom st \<Longrightarrow>
   remove_peers now ids st =
     (concat (map (\<lambda>pno. alert_list (disconnect_alert pno (the (st pno)) now)) ids), st |` (- set ids))"
proof (induction ids arbitrary: st)
  case (Cons pno ids)
  then obtain p where p: "st pno = Some p" by auto
  have "set ids \<subseteq> dom (st(pno := None))" using Cons.prems by auto
  with Cons have IH: "remove_peers now ids (st(pno := None)) =
      (concat (map (\<lambda>i. alert_list (disconnect_alert i (the ((st(pno := None)) i)) now)) ids),
       st(pno := None) |` (- set ids))" by simp
  have alerts: "map (\<lambda>i. alert_list (disconnect_alert i (the ((st(pno := None)) i)) now)) ids =
        map (\<lambda>i. alert_list (disconnect_alert i (the (st i)) now)) ids"
    using Cons.prems(1) by (intro map_cong) auto
  have rest: "st(pno := None) |` (- set ids) = st |` (- set (pno # ids))"
    by (rule ext) (simp add: restrict_map_def)
  from IH have "remove_peers now ids (st(pno := None)) =
      (concat (map (\<lambda>i. alert_list (disconnect_alert i (the (st i)) now)) ids), st |` (- set (pno # ids)))"
    unfolding alerts rest .
  with p show ?case by (simp add: remove_peer_def)
qed (simp add: restrict_map_def)

text \<open>Cleaning up removes exactly the stale peers. Whatever the order in which the map is iterated,
a peer stays, unchanged, if it was seen within the configured time, and goes otherwise; a disconnect
alert is emitted for each removed peer that had been flagged, in that order, and for no other.\<close>

theorem cleanup_removes_the_stale:
  assumes "distinct order" and "set order = dom st"
  shows "cleanup_stale_peers stale_after now order st =
         (concat (map (\<lambda>pno. alert_list (disconnect_alert pno (the (st pno)) now))
            (filter (\<lambda>pno. stale_after < now - ps_last_seen (the (st pno))) order)),
          (\<lambda>pno. case st pno of
                   None \<Rightarrow> None
                 | Some p \<Rightarrow> if stale_after < now - ps_last_seen p then None else Some p))"
proof -
  have stale: "filter (\<lambda>pno. case st pno of None \<Rightarrow> False | Some p \<Rightarrow> is_stale stale_after now p) order =
      filter (\<lambda>pno. stale_after < now - ps_last_seen (the (st pno))) order"
    using assms(2) by (intro filter_cong) (auto simp: is_stale_def split: option.split)
  have "set (filter (\<lambda>pno. stale_after < now - ps_last_seen (the (st pno))) order) \<subseteq> dom st"
    using assms(2) by auto
  from remove_peers_distinct [OF _ this, of now] assms show ?thesis
    by (auto simp: cleanup_stale_peers_def stale restrict_map_def split: option.split intro!: ext)
qed

theorem cleanup_removes_the_stale_witness:
  "cleanup_stale_peers (from_secs 300) (from_secs 400) [7, 8]
     [7 \<mapsto> PeerState_new [] (from_secs 50), 8 \<mapsto> PeerState_new [] (from_secs 200)] =
   ([], [8 \<mapsto> PeerState_new [] (from_secs 200)])"
  by (subst cleanup_removes_the_stale)
     (auto simp: from_secs_def disconnect_alert_def first_alerted_def alert_list_def PeerState_new_def
       AlertTypeState_default_def split: option.split)

section \<open>What the tool subscribes to\<close>

fun subject_of :: "'m EbpfEvent \<Rightarrow> Subject" where
  "subject_of (MessageEv _) = NetMsg"
| "subject_of (ConnectionEv _) = NetConn"
| "subject_of (MempoolEv _) = Mempool"
| "subject_of (ValidationEv _) = Validation"

lemma publish_event_subject:
  "publish_event now s ev = (c, pubs) \<Longrightarrow> \<forall>(s', e) \<in> set pubs. s' = s \<and> peer_observer_event e = ev"
  by (auto simp: publish_event_def Event_new_def split: option.splits sum.splits)

lemma run_callback_subject:
  "run_callback rb cb bs now = Inr (c, pubs) \<Longrightarrow> \<forall>(s, e) \<in> set pubs. s = subject_of (peer_observer_event e)"
  by (cases cb)
     (auto simp: rs_handle_net_conn_closed_def rs_handle_net_conn_outbound_def
       rs_handle_net_conn_inbound_def rs_handle_net_conn_inbound_evicted_def
       rs_handle_net_conn_misbehaving_def rs_handle_net_message_def rs_handle_mempool_added_def
       rs_handle_mempool_removed_def rs_handle_mempool_replaced_def rs_handle_mempool_rejected_def
       rs_handle_validation_block_connected_def
       dest!: publish_event_subject split: sum.splits)

text \<open>The alerts tool sees every event it would act on. It subscribes to two subjects only, but
every event the eBPF extractor publishes to another subject leaves the tool's state as it is and
makes it emit nothing, so the subscriptions lose nothing.\<close>

theorem alerts_subscriptions_suffice:
  assumes "run_callback rb cb bs clk = Inr (c, pubs)" and "(s, ev) \<in> set pubs"
    and "s \<notin> {NetMsg, NetConn}"
  shows "alerts_handle_event (received ev) args now st = ([], st)"
proof -
  from run_callback_subject [OF assms(1)] assms(2) have "s = subject_of (peer_observer_event ev)" by auto
  with assms(3) show ?thesis
    by (cases "peer_observer_event ev") (simp_all add: alerts_handle_event_def received_def)
qed

definition demo_added :: MempoolAdded_c where
  "demo_added = \<lparr>added_txid = replicate 32 0, added_vsize = 110, added_fee = 200\<rparr>"

definition demo_added_event :: "P2pMsg EbpfEvent Event" where
  "demo_added_event =
     \<lparr>timestamp = of_nat (5000000 div 1000000), peer_observer_event = MempoolEv (Added (Added_view demo_added))\<rparr>"

theorem alerts_subscriptions_suffice_witness:
  "alerts_handle_event (received demo_added_event :: unit Event_pb) demo_alert_args 9 Map.empty =
   ([], Map.empty)"
proof (rule alerts_subscriptions_suffice)
  have "MempoolAdded_wf demo_added" by (simp add: MempoolAdded_wf_def demo_added_def TXID_LENGHT_def)
  from added_publishes [OF this, of 5000000]
  show "run_callback undefined cb_mempool_added (MempoolAdded_image demo_added (zeroed MempoolAdded_layout))
      (Some 5000000) = Inr (RINGBUFF_CALLBACK_OK, [(Mempool, demo_added_event)])"
    by (simp add: publishes_def demo_added_event_def)
  show "(Mempool, demo_added_event) \<in> set [(Mempool, demo_added_event)]" by simp
  show "Mempool \<notin> {NetMsg, NetConn}" by simp
qed

section \<open>Startup\<close>

text \<open>A stale time of zero, which the command line accepts, stops the tool at startup.\<close>

lemma alerts_start_panics_iff: "alerts_run_start True args = AlertsPanic \<longleftrightarrow> al_peer_stale_secs args = 0"
  by (simp add: alerts_run_start_def from_secs_def)

end
