(* ===== verification/Primitives.thy ===== *)
theory Primitives
  imports PbEvents
begin

text \<open>
  The conversions of addresses and inventory items of
  \<^verbatim>\<open>shared/src/protobuf/bitcoin_primitives.rs\<close>. The alternatives of rust-bitcoin's types are the
  ones the conversions match on. The display of IP addresses is the standard library's; the base32
  alphabet is a library's, the parameter \<open>b32\<close>.
\<close>

section \<open>Text of the standard library\<close>

definition dec_digit :: "nat \<Rightarrow> byte" where
  "dec_digit d = of_nat (48 + d)"

fun dec :: "nat \<Rightarrow> byte list" where
  "dec n = (if n < 10 then [dec_digit n] else dec (n div 10) @ [dec_digit (n mod 10)])"

definition hex_digit :: "nat \<Rightarrow> byte" where
  "hex_digit d = of_nat (if d < 10 then 48 + d else 87 + d)"

fun lower_hex :: "nat \<Rightarrow> byte list" where
  "lower_hex n = (if n < 16 then [hex_digit n] else lower_hex (n div 16) @ [hex_digit (n mod 16)])"

declare dec.simps [simp del] lower_hex.simps [simp del]

fun join_with :: "byte list \<Rightarrow> byte list list \<Rightarrow> byte list" where
  "join_with s [] = []"
| "join_with s [x] = x"
| "join_with s (x # y # xs) = x @ s @ join_with s (y # xs)"

definition to_lowercase :: "byte list \<Rightarrow> byte list" where
  "to_lowercase s = map (\<lambda>c. if 65 \<le> c \<and> c \<le> 90 then c + 32 else c) s"

text \<open>\<^verbatim>\<open>Ipv4Addr\<close> is its four octets, \<^verbatim>\<open>Ipv6Addr\<close> its eight segments.\<close>

definition ipv4_string :: "byte list \<Rightarrow> byte list" where
  "ipv4_string octets = join_with (ascii ''.'') (map (\<lambda>o'. dec (unat o')) octets)"

text \<open>
  The display of an IPv6 address compresses its longest run of zero segments, the first of several,
  if it has at least two; an IPv4-mapped address is shown with the dotted IPv4 address.
\<close>

fun longest_zeros :: "nat \<Rightarrow> nat \<times> nat \<Rightarrow> nat \<times> nat \<Rightarrow> 16 word list \<Rightarrow> nat \<times> nat" where
  "longest_zeros i current longest [] = longest"
| "longest_zeros i (start, n) longest (s # segments) =
     (if s = 0 then
        let current = (if n = 0 then i else start, n + 1);
            longest' = (if snd longest < snd current then current else longest)
        in longest_zeros (i + 1) current longest' segments
      else longest_zeros (i + 1) (0, 0) longest segments)"

definition segments_string :: "16 word list \<Rightarrow> byte list" where
  "segments_string segments = join_with (ascii '':'') (map (\<lambda>s. lower_hex (unat s)) segments)"

definition ipv6_string :: "16 word list \<Rightarrow> byte list" where
  "ipv6_string segments =
     (if take 6 segments = [0, 0, 0, 0, 0, 0xffff] then
        ascii ''::ffff:'' @
        ipv4_string (concat (map (\<lambda>s. [ucast (drop_bit 8 s), ucast s]) (drop 6 segments)))
      else case longest_zeros 0 (0, 0) (0, 0) segments of (start, n) \<Rightarrow>
        if 1 < n then
          segments_string (take start segments) @ ascii ''::'' @ segments_string (drop (start + n) segments)
        else segments_string segments)"

section \<open>Addresses\<close>

datatype AddrV2 =
    V2Ipv4 "byte list"
  | V2Ipv6 "16 word list"
  | V2TorV2 "byte list"
  | V2TorV3 "byte list"
  | V2I2p "byte list"
  | V2Cjdns "16 word list"
  | V2Unknown u8 "byte list"

record AddrV2Message =
  v2_time :: u32
  v2_services :: u64
  v2_port :: "16 word"
  v2_addr :: AddrV2

definition onion_string :: "(byte list \<Rightarrow> byte list) \<Rightarrow> byte list \<Rightarrow> byte list" where
  "onion_string b32 a = to_lowercase (b32 a) @ ascii ''.onion''"

fun address_from_v2 :: "(byte list \<Rightarrow> byte list) \<Rightarrow> AddrV2 \<Rightarrow> Address_address" where
  "address_from_v2 b32 (V2Ipv4 a) = Addr_ipv4 (ipv4_string a)"
| "address_from_v2 b32 (V2Ipv6 a) = Addr_ipv6 (ipv6_string a)"
| "address_from_v2 b32 (V2TorV2 a) = Addr_torv2 (onion_string b32 a)"
| "address_from_v2 b32 (V2TorV3 a) = Addr_torv3 (onion_string b32 a)"
| "address_from_v2 b32 (V2I2p a) = Addr_i2p (to_lowercase (b32 a) @ ascii ''.b32.i2p'')"
| "address_from_v2 b32 (V2Cjdns a) = Addr_cjdns (ipv6_string a)"
| "address_from_v2 b32 (V2Unknown i a) =
     Addr_unknown \<lparr>unknownaddress_id = ucast i, unknownaddress_address = a\<rparr>"

definition Address_from_v2_message :: "(byte list \<Rightarrow> byte list) \<Rightarrow> AddrV2Message \<Rightarrow> Address_pb" where
  "Address_from_v2_message b32 m =
     \<lparr>address_timestamp = v2_time m, address_address = Some (address_from_v2 b32 (v2_addr m)),
      address_services = v2_services m, address_port = ucast (v2_port m)\<rparr>"

text \<open>
  The address of a version 1 message: eight 16-bit words, the services and the port. rust-bitcoin's
  \<^verbatim>\<open>socket_addr\<close> tells whether it is an IP address, the parameter \<open>socket_addr\<close>; otherwise it is the
  ten bytes of a Tor v2 address after their prefix.
\<close>

datatype SocketIp = SocketV4 "byte list" | SocketV6 "16 word list"

record V1Address =
  v1_services :: u64
  v1_address :: "16 word list"
  v1_port :: "16 word"

definition address_from_v1 ::
    "(byte list \<Rightarrow> byte list) \<Rightarrow> (V1Address \<Rightarrow> SocketIp option) \<Rightarrow> V1Address \<Rightarrow> Address_address" where
  "address_from_v1 b32 socket_addr addr =
     (case socket_addr addr of
        Some (SocketV4 a) \<Rightarrow> Addr_ipv4 (ipv4_string a)
      | Some (SocketV6 a) \<Rightarrow> Addr_ipv6 (ipv6_string a)
      | None \<Rightarrow> Addr_torv2 (onion_string b32
          (concat (map (\<lambda>x. [ucast (drop_bit 8 x), ucast x]) (drop 3 (v1_address addr))))))"

definition Address_from_v1_entry ::
    "(byte list \<Rightarrow> byte list) \<Rightarrow> (V1Address \<Rightarrow> SocketIp option) \<Rightarrow> u32 \<times> V1Address \<Rightarrow> Address_pb" where
  "Address_from_v1_entry b32 socket_addr entry =
     \<lparr>address_timestamp = fst entry,
      address_address = Some (address_from_v1 b32 socket_addr (snd entry)),
      address_services = v1_services (snd entry), address_port = ucast (v1_port (snd entry))\<rparr>"

fun address_network :: "Address_address \<Rightarrow> string" where
  "address_network (Addr_ipv4 a) = ''IPv4''"
| "address_network (Addr_ipv6 a) = ''IPv6''"
| "address_network (Addr_torv2 a) = ''TorV2''"
| "address_network (Addr_torv3 a) = ''TorV3''"
| "address_network (Addr_i2p a) = ''I2P''"
| "address_network (Addr_cjdns a) = ''CJDNS''"
| "address_network (Addr_unknown u) = ''Unknown''"

text \<open>\<^verbatim>\<open>Display\<close> of addresses: the worker of the connectivity check uses it as a cache key.\<close>

definition unknown_address_display :: "UnknownAddress_pb \<Rightarrow> byte list" where
  "unknown_address_display u =
     ascii ''id='' @ dec (unat (unknownaddress_id u)) @ ascii '', bytes='' @
     concat (map (\<lambda>b. [hex_digit (unat b div 16), hex_digit (unat b mod 16)]) (unknownaddress_address u))"

fun address_display :: "Address_address \<Rightarrow> byte list" where
  "address_display (Addr_ipv4 a) = ascii ''IPv4('' @ a @ ascii '')''"
| "address_display (Addr_ipv6 a) = ascii ''IPv6('' @ a @ ascii '')''"
| "address_display (Addr_torv2 a) = ascii ''TorV2('' @ a @ ascii '')''"
| "address_display (Addr_torv3 a) = ascii ''TorV3('' @ a @ ascii '')''"
| "address_display (Addr_i2p a) = ascii ''I2p('' @ a @ ascii '')''"
| "address_display (Addr_cjdns a) = ascii ''Cjdns('' @ a @ ascii '')''"
| "address_display (Addr_unknown u) = ascii ''Unknown('' @ unknown_address_display u @ ascii '')''"

section \<open>Inventory items\<close>

datatype Inventory =
    InvError
  | InvTransaction "byte list"
  | InvBlock "byte list"
  | InvWTx "byte list"
  | InvWitnessTransaction "byte list"
  | InvWitnessBlock "byte list"
  | InvCompactBlock "byte list"
  | InvUnknown u32 "byte list"

fun inventory_item :: "Inventory \<Rightarrow> InventoryItem_item" where
  "inventory_item InvError = Item_error True"
| "inventory_item (InvTransaction txid) = Item_transaction txid"
| "inventory_item (InvBlock hash) = Item_block hash"
| "inventory_item (InvWTx wtxid) = Item_wtx wtxid"
| "inventory_item (InvWitnessTransaction txid) = Item_witness_transaction txid"
| "inventory_item (InvWitnessBlock hash) = Item_witness_block hash"
| "inventory_item (InvCompactBlock hash) = Item_compact_block hash"
| "inventory_item (InvUnknown inv_type hash) =
     Item_unknown \<lparr>unknownitem_inv_type = inv_type, unknownitem_hash = hash\<rparr>"

definition InventoryItem_from :: "Inventory \<Rightarrow> InventoryItem_pb" where
  "InventoryItem_from i = \<lparr>inventoryitem_item = Some (inventory_item i)\<rparr>"

fun inv_type_string :: "InventoryItem_pb \<Rightarrow> string" where
  "inv_type_string i =
     (case inventoryitem_item i of
        None \<Rightarrow> ''None''
      | Some (Item_transaction h) \<Rightarrow> ''Tx''
      | Some (Item_block h) \<Rightarrow> ''Block''
      | Some (Item_wtx h) \<Rightarrow> ''WTx''
      | Some (Item_witness_transaction h) \<Rightarrow> ''WitnessTx''
      | Some (Item_witness_block h) \<Rightarrow> ''WitnessBlock''
      | Some (Item_compact_block h) \<Rightarrow> ''CompactBlock''
      | Some (Item_unknown u) \<Rightarrow> ''Unknown''
      | Some (Item_error b) \<Rightarrow> ''Error'')"

lemma InventoryItem_from_inj: "InventoryItem_from a = InventoryItem_from b \<longleftrightarrow> a = b"
  by (cases a; cases b) (simp_all add: InventoryItem_from_def)

end
