(* ===== verification/P2pExtractor.thy ===== *)
theory P2pExtractor
  imports Primitives RustIo
begin

text \<open>
  The P2P extractor (\<^verbatim>\<open>extractors/p2p/src/lib.rs\<close>): the task of one connection as a state machine
  whose steps are the arrival of bytes, the polls of the future that reads a message, and the ticks
  of the ping timer; and the loop that accepts connections. Sending and publishing are the actions
  a step returns; a send or a publication that fails is only logged and decides nothing.
\<close>

unbundle bit_operations_syntax

section \<open>Arguments and libraries\<close>

datatype Network = Mainnet | Testnet3 | Testnet4 | Signet | Regtest

record P2pArgs =
  pa_network :: Network
  pa_ping_interval :: u64
  pa_disable_ping :: bool
  pa_disable_addrv2 :: bool
  pa_disable_invs :: bool
  pa_disable_feefilter :: bool

text \<open>What decides the warning that nothing is measured.\<close>

definition disable_all :: "P2pArgs \<Rightarrow> bool" where
  "disable_all args \<longleftrightarrow> pa_disable_ping args \<and> pa_disable_addrv2 args \<and> pa_disable_invs args"

text \<open>The messages of rust-bitcoin that the extractor tells apart.\<close>

record NetAddress =
  na_services :: u64
  na_ip :: "byte list"
  na_port :: "16 word"

record VersionMessage =
  vm_version :: u32
  vm_services :: u64
  vm_timestamp :: s64
  vm_receiver :: NetAddress
  vm_sender :: NetAddress
  vm_nonce :: u64
  vm_user_agent :: "byte list"
  vm_start_height :: s32
  vm_relay :: bool

datatype NetworkMessage =
    NmVersion VersionMessage
  | NmVerack
  | NmSendAddrV2
  | NmWtxidRelay
  | NmPing u64
  | NmPong u64
  | NmAddrV2 "AddrV2Message list"
  | NmInv "Inventory list"
  | NmFeeFilter s64
  | NmAlert "byte list"
  | NmOther "byte list"

text \<open>
  rust-bitcoin: the magic of a network, the bytes of a raw message, decoding the bytes of one; and
  the base32 library.
\<close>

record p2p_lib =
  pl_magic :: "Network \<Rightarrow> byte list"
  pl_encode :: "Network \<Rightarrow> NetworkMessage \<Rightarrow> byte list"
  pl_decode :: "byte list \<Rightarrow> NetworkMessage option"
  pl_b32 :: "byte list \<Rightarrow> byte list"

section \<open>Reading a message\<close>

text \<open>
  The future of \<^verbatim>\<open>read_and_decode_message\<close> between two polls: it has read a part of the header, or
  the header and a part of the payload. The bytes it has read are its local arrays; they go away with
  it. \<open>ending\<close> is how reading past the last byte ends: not yet, or with an error (\<^verbatim>\<open>UnexpectedEof\<close>
  when the peer has closed the connection).
\<close>

datatype read_future = ReadingHeader "byte list" | ReadingPayload "byte list" "byte list"

datatype read_error =
    HeaderRead io_error
  | MagicMismatch "byte list"
  | PayloadRead io_error
  | DecodingFailed

datatype read_poll = Pending read_future | Ready "read_error + NetworkMessage"

definition payload_length :: "byte list \<Rightarrow> nat" where
  "payload_length header = unat (le_word (get 16 4 header) :: u32)"

definition poll_payload ::
    "p2p_lib \<Rightarrow> io_error option \<Rightarrow> byte list \<Rightarrow> byte list \<Rightarrow> byte list \<Rightarrow> read_poll \<times> byte list" where
  "poll_payload lib ending header acc input =
     (let want = payload_length header - length acc; acc' = acc @ take want input;
          rest = drop want input in
      if length acc' < payload_length header then
        (case ending of
           None \<Rightarrow> Pending (ReadingPayload header acc')
         | Some e \<Rightarrow> Ready (Inl (PayloadRead e)), rest)
      else
        (Ready (case pl_decode lib (header @ acc') of
                  Some msg \<Rightarrow> Inr msg
                | None \<Rightarrow> Inl DecodingFailed), rest))"

fun poll_read ::
    "p2p_lib \<Rightarrow> Network \<Rightarrow> io_error option \<Rightarrow> read_future \<Rightarrow> byte list \<Rightarrow> read_poll \<times> byte list" where
  "poll_read lib net ending (ReadingHeader acc) input =
     (let header = acc @ take (24 - length acc) input; rest = drop (24 - length acc) input in
      if length header < 24 then
        (case ending of
           None \<Rightarrow> Pending (ReadingHeader header)
         | Some e \<Rightarrow> Ready (Inl (HeaderRead e)), rest)
      else if take 4 header \<noteq> pl_magic lib net then
        (Ready (Inl (MagicMismatch (take 4 header))), rest)
      else poll_payload lib ending header [] rest)"
| "poll_read lib net ending (ReadingPayload header acc) input =
     poll_payload lib ending header acc input"

section \<open>Events and messages\<close>

datatype p2p_event =
    PingDuration u64
  | AddressAnnouncement "Address_pb list"
  | InventoryAnnouncement "InventoryItem_pb list"
  | FeefilterAnnouncement s64

datatype p2p_action = SendMessage NetworkMessage | Publish Subject "p2p_event Event"

text \<open>
  What handling a message reads from the system: the clock, the clock again when an event is
  created, and a random number.
\<close>

record p2p_env =
  pe_now :: clock
  pe_event_now :: clock
  pe_random :: u64

definition publish_p2p :: "p2p_env \<Rightarrow> p2p_event \<Rightarrow> p2p_action list" where
  "publish_p2p env ev =
     (case Event_new (pe_event_now env) ev of
        Inr proto \<Rightarrow> [Publish P2PExtractor proto]
      | Inl e \<Rightarrow> [])"

definition publish_addr_announcement_event :: "p2p_env \<Rightarrow> Address_pb list \<Rightarrow> p2p_action list" where
  "publish_addr_announcement_event env addresses = publish_p2p env (AddressAnnouncement addresses)"

definition publish_inventory_announcement_event ::
    "p2p_env \<Rightarrow> InventoryItem_pb list \<Rightarrow> p2p_action list" where
  "publish_inventory_announcement_event env items = publish_p2p env (InventoryAnnouncement items)"

definition publish_feefilter_announcement_event :: "p2p_env \<Rightarrow> s64 \<Rightarrow> p2p_action list" where
  "publish_feefilter_announcement_event env feefilter = publish_p2p env (FeefilterAnnouncement feefilter)"

definition publish_ping_measurement_event :: "p2p_env \<Rightarrow> u64 \<Rightarrow> p2p_action list" where
  "publish_ping_measurement_event env d = publish_p2p env (PingDuration d)"

definition USER_AGENT :: "byte list" where "USER_AGENT = ascii ''/p2p-extractor:0.1/''"

definition no_address :: NetAddress where
  "no_address = \<lparr>na_services = 0, na_ip = [0, 0, 0, 0], na_port = 0\<rparr>"

text \<open>The service bits NETWORK and WITNESS are 1 and 8; a clock before the epoch is a panic.\<close>

definition build_version_message :: "p2p_env \<Rightarrow> VersionMessage option" where
  "build_version_message env =
     map_option (\<lambda>nanos.
       \<lparr>vm_version = 70016, vm_services = 1 OR 8, vm_timestamp = of_nat (nanos div 1000000000),
        vm_receiver = no_address, vm_sender = no_address, vm_nonce = pe_random env,
        vm_user_agent = USER_AGENT, vm_start_height = 0, vm_relay = True\<rparr>) (pe_now env)"

text \<open>
  One message. The result is the actions and whether the handshake is done, or \<open>None\<close> if the task
  panics: on a clock before the epoch, or on the subtraction of a pong from the future when the
  build checks overflow (\<open>checked\<close>, a debug build); a release build wraps.
\<close>

definition p2p_handle_message ::
    "p2p_lib \<Rightarrow> bool \<Rightarrow> P2pArgs \<Rightarrow> p2p_env \<Rightarrow> NetworkMessage \<Rightarrow> bool \<Rightarrow> (p2p_action list \<times> bool) option" where
  "p2p_handle_message lib checked args env msg verack_done =
     (case msg of
        NmVersion v \<Rightarrow>
          map_option (\<lambda>vm. ([SendMessage (NmVersion vm), SendMessage NmSendAddrV2,
                             SendMessage NmWtxidRelay], verack_done)) (build_version_message env)
      | NmVerack \<Rightarrow> Some ([SendMessage NmVerack], True)
      | NmPing nonce \<Rightarrow> Some ([SendMessage (NmPong nonce)], verack_done)
      | NmPong nonce \<Rightarrow>
          (case pe_now env of
             None \<Rightarrow> None
           | Some nanos \<Rightarrow>
               (let now = of_nat nanos :: u64 in
                if checked \<and> now < nonce then None
                else Some (publish_ping_measurement_event env (now - nonce), verack_done)))
      | NmAddrV2 addrs \<Rightarrow>
          Some (publish_addr_announcement_event env
                  (map (Address_from_v2_message (pl_b32 lib)) addrs), verack_done)
      | NmInv inventory \<Rightarrow>
          Some (if pa_disable_invs args then []
                else publish_inventory_announcement_event env (map InventoryItem_from inventory),
                verack_done)
      | NmFeeFilter feefilter \<Rightarrow>
          Some (if pa_disable_feefilter args then []
                else publish_feefilter_announcement_event env feefilter, verack_done)
      | NmAlert a \<Rightarrow> Some ([], verack_done)
      | _ \<Rightarrow> Some ([], verack_done))"

text \<open>A tick of the timer.\<close>

definition p2p_ping :: "P2pArgs \<Rightarrow> p2p_env \<Rightarrow> bool \<Rightarrow> p2p_action list option" where
  "p2p_ping args env verack_done =
     (if \<not> pa_disable_ping args \<and> verack_done then
        map_option (\<lambda>nanos. [SendMessage (NmPing (of_nat nanos))]) (pe_now env)
      else Some [])"

section \<open>A connection\<close>

datatype conn_status = ConnOpen | ConnClosed read_error | ConnPanicked

text \<open>
  \<open>pc_input\<close> are the bytes that have arrived and that the future has not taken: they are in the
  socket or in the buffered reader, which both outlive the future.
\<close>

record p2p_conn =
  pc_input :: "byte list"
  pc_ending :: "io_error option"
  pc_future :: read_future
  pc_verack_done :: bool
  pc_status :: conn_status

text \<open>The timer's constructor panics if its period is zero.\<close>

definition p2p_conn_new :: "P2pArgs \<Rightarrow> p2p_conn" where
  "p2p_conn_new args =
     \<lparr>pc_input = [], pc_ending = None, pc_future = ReadingHeader [], pc_verack_done = False,
      pc_status = (if pa_ping_interval args = 0 then ConnPanicked else ConnOpen)\<rparr>"

datatype p2p_step =
    Arrive "byte list"
  | PeerEnds io_error
  | PollRead p2p_env
  | TimerTick p2p_env

text \<open>
  When a branch of \<^verbatim>\<open>select!\<close> completes, the futures of the others are dropped and the loop makes new
  ones: after a tick the read starts over, with an empty header.
\<close>

definition p2p_tick :: "P2pArgs \<Rightarrow> p2p_env \<Rightarrow> p2p_conn \<Rightarrow> p2p_action list \<times> p2p_conn" where
  "p2p_tick args env st =
     (case p2p_ping args env (pc_verack_done st) of
        None \<Rightarrow> ([], st\<lparr>pc_status := ConnPanicked\<rparr>)
      | Some acts \<Rightarrow> (acts, st\<lparr>pc_future := ReadingHeader []\<rparr>))"

definition p2p_read ::
    "p2p_lib \<Rightarrow> bool \<Rightarrow> P2pArgs \<Rightarrow> p2p_env \<Rightarrow> p2p_conn \<Rightarrow> p2p_action list \<times> p2p_conn" where
  "p2p_read lib checked args env st =
     (case poll_read lib (pa_network args) (pc_ending st) (pc_future st) (pc_input st) of
        (Pending f, rest) \<Rightarrow> ([], st\<lparr>pc_future := f, pc_input := rest\<rparr>)
      | (Ready (Inl e), rest) \<Rightarrow> ([], st\<lparr>pc_input := rest, pc_status := ConnClosed e\<rparr>)
      | (Ready (Inr msg), rest) \<Rightarrow>
          (case p2p_handle_message lib checked args env msg (pc_verack_done st) of
             None \<Rightarrow> ([], st\<lparr>pc_input := rest, pc_status := ConnPanicked\<rparr>)
           | Some (acts, v) \<Rightarrow>
               (acts, st\<lparr>pc_input := rest, pc_future := ReadingHeader [], pc_verack_done := v\<rparr>)))"

definition p2p_conn_step ::
    "p2p_lib \<Rightarrow> bool \<Rightarrow> P2pArgs \<Rightarrow> p2p_step \<Rightarrow> p2p_conn \<Rightarrow> p2p_action list \<times> p2p_conn" where
  "p2p_conn_step lib checked args s st =
     (if pc_status st \<noteq> ConnOpen then ([], st)
      else case s of
          Arrive bs \<Rightarrow> ([], st\<lparr>pc_input := pc_input st @ bs\<rparr>)
        | PeerEnds e \<Rightarrow> ([], st\<lparr>pc_ending := Some e\<rparr>)
        | PollRead env \<Rightarrow> p2p_read lib checked args env st
        | TimerTick env \<Rightarrow> p2p_tick args env st)"

fun p2p_conn_run ::
    "p2p_lib \<Rightarrow> bool \<Rightarrow> P2pArgs \<Rightarrow> p2p_step list \<Rightarrow> p2p_conn \<Rightarrow> p2p_action list \<times> p2p_conn" where
  "p2p_conn_run lib checked args [] st = ([], st)"
| "p2p_conn_run lib checked args (s # ss) st =
     (let (acts, st') = p2p_conn_step lib checked args s st;
          (acts', st'') = p2p_conn_run lib checked args ss st'
      in (acts @ acts', st''))"

section \<open>The listener\<close>

text \<open>
  Accepting spawns the task of the connection, which ends at once if the peer's address cannot be
  read; a failed accept is logged. The result is the new tasks and whether the loop goes on.
\<close>

datatype accept_input =
    Accepted bool
  | AcceptFailed
  | P2pShutdownChanged bool
  | P2pShutdownDropped

definition accept_iteration :: "P2pArgs \<Rightarrow> accept_input \<Rightarrow> p2p_conn list \<times> bool" where
  "accept_iteration args i =
     (case i of
        Accepted peer_addr_ok \<Rightarrow> (if peer_addr_ok then [p2p_conn_new args] else [], True)
      | AcceptFailed \<Rightarrow> ([], True)
      | P2pShutdownChanged v \<Rightarrow> ([], \<not> v)
      | P2pShutdownDropped \<Rightarrow> ([], False))"

fun accept_loop :: "P2pArgs \<Rightarrow> accept_input list \<Rightarrow> p2p_conn list \<times> bool" where
  "accept_loop args [] = ([], True)"
| "accept_loop args (i # is) =
     (case accept_iteration args i of
        (cs, False) \<Rightarrow> (cs, False)
      | (cs, True) \<Rightarrow> (case accept_loop args is of (cs', b) \<Rightarrow> (cs @ cs', b)))"

end
