(* ===== verification/P2pFraming.thy ===== *)
theory P2pFraming
  imports P2pExtractor "HOL-Library.Sublist"
begin

text \<open>
  How a connection of the P2P extractor reads messages: the frames of messages, the specification of a
  connection as a sequence of whole messages and ticks, and the proof that a run whose ticks come
  between messages amounts to such a sequence.
\<close>

section \<open>The frames of messages\<close>

text \<open>
  What rust-bitcoin promises of the bytes of a message: a header of 24 bytes with the magic of the
  network and the length of the payload, and decoding gives the message back.
\<close>

definition frames :: "p2p_lib \<Rightarrow> Network \<Rightarrow> NetworkMessage \<Rightarrow> bool" where
  "frames lib net msg \<longleftrightarrow>
     (let bytes = pl_encode lib net msg in
      24 \<le> length bytes \<and> take 4 bytes = pl_magic lib net \<and>
      length bytes = 24 + payload_length bytes \<and> pl_decode lib bytes = Some msg)"

definition stream :: "p2p_lib \<Rightarrow> Network \<Rightarrow> NetworkMessage list \<Rightarrow> byte list" where
  "stream lib net msgs = concat (map (pl_encode lib net) msgs)"

lemma stream_simps [simp]:
  "stream lib net [] = []" "stream lib net (m # ms) = pl_encode lib net m @ stream lib net ms"
  "stream lib net (ms @ ms') = stream lib net ms @ stream lib net ms'"
  by (simp_all add: stream_def)

lemma payload_length_header:
  "24 \<le> length bytes \<Longrightarrow> payload_length (take 24 bytes) = payload_length bytes"
  by (simp add: payload_length_def get_def take_drop min_def)

fun future_bytes :: "read_future \<Rightarrow> byte list" where
  "future_bytes (ReadingHeader acc) = acc"
| "future_bytes (ReadingPayload header acc) = header @ acc"

fun future_ok :: "p2p_lib \<Rightarrow> Network \<Rightarrow> read_future \<Rightarrow> bool" where
  "future_ok lib net (ReadingHeader acc) = (length acc < 24)"
| "future_ok lib net (ReadingPayload header acc) =
     (length header = 24 \<and> take 4 header = pl_magic lib net \<and> length acc < payload_length header)"

lemma future_bytes_Nil: "future_ok lib net f \<Longrightarrow> future_bytes f = [] \<longleftrightarrow> f = ReadingHeader []"
  by (cases f) auto

text \<open>Reading the payload, with the header and a part of the payload read.\<close>

lemma poll_payload_complete:
  assumes "frames lib net msg" and "header = take 24 (pl_encode lib net msg)"
    and "length acc \<le> payload_length header" and "header @ acc @ input = pl_encode lib net msg @ rest"
  shows "poll_payload lib ending header acc input = (Ready (Inr msg), rest)"
proof -
  define bytes where "bytes = pl_encode lib net msg"
  have b: "24 \<le> length bytes" "length bytes = 24 + payload_length bytes" "pl_decode lib bytes = Some msg"
    using assms(1) by (simp_all add: frames_def bytes_def Let_def)
  have h: "header = take 24 bytes" "payload_length header = payload_length bytes"
    using assms(2) b(1) by (simp_all add: bytes_def payload_length_header)
  have "take 24 bytes @ acc @ input = take 24 bytes @ drop 24 bytes @ rest"
    using assms(4) h(1) by (simp add: bytes_def)
  then have ai: "acc @ input = drop 24 bytes @ rest" by simp
  have len: "length (drop 24 bytes) = payload_length header" using b h by simp
  have "take (payload_length header) (acc @ input) = drop 24 bytes"
    and "drop (payload_length header) (acc @ input) = rest"
    unfolding ai using len by simp_all
  then have acc': "acc @ take (payload_length header - length acc) input = drop 24 bytes"
    and rest: "drop (payload_length header - length acc) input = rest"
    using assms(3) by simp_all
  show ?thesis
    unfolding poll_payload_def Let_def acc' rest using len h b(3) by simp
qed

lemma poll_payload_partial:
  assumes "length header = 24" and "take 4 header = pl_magic lib net"
    and "length acc + length input < payload_length header"
  shows "poll_payload lib ending header acc input =
    (case ending of None \<Rightarrow> Pending (ReadingPayload header (acc @ input))
                  | Some e \<Rightarrow> Ready (Inl (PayloadRead e)), [])"
proof -
  have "take (payload_length header - length acc) input = input"
    and "drop (payload_length header - length acc) input = []"
    using assms(3) by simp_all
  note parts = this
  show ?thesis unfolding poll_payload_def Let_def parts using assms(3) by simp
qed

text \<open>A poll when the whole message has arrived, and when only a part of it has.\<close>

lemma poll_complete:
  assumes "frames lib net msg" and "future_ok lib net f"
    and "future_bytes f @ input = pl_encode lib net msg @ rest"
  shows "poll_read lib net ending f input = (Ready (Inr msg), rest)"
proof -
  define bytes where "bytes = pl_encode lib net msg"
  have b: "24 \<le> length bytes" "take 4 bytes = pl_magic lib net" "length bytes = 24 + payload_length bytes"
    using assms(1) by (simp_all add: frames_def bytes_def Let_def)
  show ?thesis
  proof (cases f)
    case (ReadingHeader acc)
    have eq: "acc @ input = bytes @ rest" and acc: "length acc < 24"
      using assms ReadingHeader by (simp_all add: bytes_def)
    have "take 24 (acc @ input) = take 24 bytes" and "drop 24 (acc @ input) = drop 24 bytes @ rest"
      unfolding eq using b(1) by simp_all
    then have h: "acc @ take (24 - length acc) input = take 24 bytes"
      and r: "drop (24 - length acc) input = drop 24 bytes @ rest"
      using acc by simp_all
    have "poll_payload lib ending (take 24 bytes) [] (drop 24 bytes @ rest) = (Ready (Inr msg), rest)"
      by (rule poll_payload_complete [OF assms(1)]) (simp_all add: bytes_def)
    then show ?thesis
      unfolding ReadingHeader poll_read.simps Let_def h r using b(1,2) by (simp add: min_def)
  next
    case (ReadingPayload header acc)
    have "take 24 (header @ acc @ input) = take 24 (bytes @ rest)"
      using assms(3) ReadingPayload by (simp add: bytes_def)
    then have header: "header = take 24 bytes" using assms(2) ReadingPayload b(1) by simp
    show ?thesis
      using poll_payload_complete [OF assms(1), of header acc input rest ending] assms(2,3) ReadingPayload
        header by (simp add: bytes_def)
  qed
qed

lemma poll_partial:
  assumes "frames lib net msg" and "future_ok lib net f"
    and "pl_encode lib net msg = (future_bytes f @ input) @ missing" and "missing \<noteq> []"
  shows "case ending of
           None \<Rightarrow> \<exists>f'. poll_read lib net ending f input = (Pending f', []) \<and>
                       future_bytes f' = future_bytes f @ input \<and> future_ok lib net f'
         | Some x \<Rightarrow> \<exists>e. poll_read lib net ending f input = (Ready (Inl e), [])"
proof -
  define bytes where "bytes = pl_encode lib net msg"
  have b: "24 \<le> length bytes" "take 4 bytes = pl_magic lib net" "length bytes = 24 + payload_length bytes"
    using assms(1) by (simp_all add: frames_def bytes_def Let_def)
  have eq: "bytes = (future_bytes f @ input) @ missing" using assms(3) by (simp add: bytes_def)
  have short: "length (future_bytes f @ input) < length bytes" using eq assms(4) by simp
  show ?thesis
  proof (cases f)
    case (ReadingHeader acc)
    show ?thesis
    proof (cases "length acc + length input < 24")
      case True
      then show ?thesis using ReadingHeader by (auto simp: Let_def split: option.split)
    next
      case False
      have take: "take 24 bytes = acc @ take (24 - length acc) input"
        using eq ReadingHeader False assms(2) by simp
      have four: "take 4 (acc @ take (24 - length acc) input) = pl_magic lib net"
        unfolding take [symmetric] using b(2) by simp
      have plen: "payload_length (acc @ take (24 - length acc) input) = payload_length bytes"
        using payload_length_header [OF b(1)] take by simp
      have less: "length ([] :: byte list) + length (drop (24 - length acc) input) <
          payload_length (acc @ take (24 - length acc) input)"
        unfolding plen using short b(3) ReadingHeader False assms(2) by simp
      have len: "length (acc @ take (24 - length acc) input) = 24" using False assms(2) ReadingHeader by simp
      note partial = poll_payload_partial [OF len four less, of ending]
      show ?thesis
        unfolding ReadingHeader poll_read.simps Let_def using len four less partial
        by (auto split: option.split)
    qed
  next
    case (ReadingPayload header acc)
    have ok: "length header = 24" "take 4 header = pl_magic lib net" using assms(2) ReadingPayload by simp_all
    have "take 24 bytes = header" using eq ReadingPayload ok by simp
    then have plen: "payload_length header = payload_length bytes" using payload_length_header [OF b(1)] by simp
    have less: "length acc + length input < payload_length header"
      using short b(3) ReadingPayload ok plen by simp
    show ?thesis
      using poll_payload_partial [OF ok less, of ending] ReadingPayload ok less by (auto split: option.split)
  qed
qed

section \<open>The specification of a connection\<close>

text \<open>
  A connection without bytes: messages and ticks come in some order, each message is handled whole.
  The result is the actions and whether the handshake is done, or \<open>None\<close> after a panic.
\<close>

datatype p2p_input = Received NetworkMessage p2p_env | Ticked p2p_env

fun p2p_spec ::
    "p2p_lib \<Rightarrow> bool \<Rightarrow> P2pArgs \<Rightarrow> p2p_input list \<Rightarrow> bool \<Rightarrow> p2p_action list \<times> bool option" where
  "p2p_spec lib checked args [] v = ([], Some v)"
| "p2p_spec lib checked args (Received msg env # is) v =
     (case p2p_handle_message lib checked args env msg v of
        None \<Rightarrow> ([], None)
      | Some (acts, v') \<Rightarrow> (case p2p_spec lib checked args is v' of (acts', r) \<Rightarrow> (acts @ acts', r)))"
| "p2p_spec lib checked args (Ticked env # is) v =
     (case p2p_ping args env v of
        None \<Rightarrow> ([], None)
      | Some acts \<Rightarrow> (case p2p_spec lib checked args is v of (acts', r) \<Rightarrow> (acts @ acts', r)))"

fun received_of :: "p2p_input list \<Rightarrow> NetworkMessage list" where
  "received_of [] = []"
| "received_of (Received msg env # is) = msg # received_of is"
| "received_of (Ticked env # is) = received_of is"

text \<open>The bytes that arrive in a schedule, and the schedules whose ticks come between messages.\<close>

fun arrived :: "p2p_step list \<Rightarrow> byte list" where
  "arrived [] = []"
| "arrived (Arrive bs # ss) = bs @ arrived ss"
| "arrived (_ # ss) = arrived ss"

fun is_tick :: "p2p_step \<Rightarrow> bool" where
  "is_tick (TimerTick env) = True"
| "is_tick _ = False"

fun calm :: "p2p_lib \<Rightarrow> bool \<Rightarrow> P2pArgs \<Rightarrow> p2p_step list \<Rightarrow> p2p_conn \<Rightarrow> bool" where
  "calm lib checked args [] st = True"
| "calm lib checked args (s # ss) st =
     ((is_tick s \<longrightarrow> pc_future st = ReadingHeader []) \<and>
      calm lib checked args ss (snd (p2p_conn_step lib checked args s st)))"

definition unread :: "p2p_conn \<Rightarrow> byte list" where
  "unread st = future_bytes (pc_future st) @ pc_input st"

definition conn_ok :: "p2p_lib \<Rightarrow> P2pArgs \<Rightarrow> p2p_conn \<Rightarrow> bool" where
  "conn_ok lib args st \<longleftrightarrow> pc_status st = ConnOpen \<and> future_ok lib (pa_network args) (pc_future st)"

lemma run_stopped: "pc_status st \<noteq> ConnOpen \<Longrightarrow> p2p_conn_run lib checked args ss st = ([], st)"
  by (induction ss) (simp_all add: p2p_conn_step_def)

text \<open>What one poll does when the unread bytes are a piece of a stream of messages.\<close>

definition poll_delivers ::
    "p2p_lib \<Rightarrow> bool \<Rightarrow> P2pArgs \<Rightarrow> p2p_env \<Rightarrow> p2p_conn \<Rightarrow> NetworkMessage \<Rightarrow> bool" where
  "poll_delivers lib checked args env st msg \<longleftrightarrow>
     (case p2p_handle_message lib checked args env msg (pc_verack_done st) of
        None \<Rightarrow> \<exists>st'. p2p_read lib checked args env st = ([], st') \<and> pc_status st' = ConnPanicked
      | Some (acts, v) \<Rightarrow>
          \<exists>st'. p2p_read lib checked args env st = (acts, st') \<and> conn_ok lib args st' \<and>
                pc_verack_done st' = v \<and> pc_ending st' = pc_ending st \<and>
                unread st = pl_encode lib (pa_network args) msg @ unread st')"

lemma read_delivers:
  assumes "frames lib (pa_network args) msg" and "conn_ok lib args st"
    and "unread st = pl_encode lib (pa_network args) msg @ rest"
  shows "poll_delivers lib checked args env st msg"
proof -
  have "poll_read lib (pa_network args) (pc_ending st) (pc_future st) (pc_input st) = (Ready (Inr msg), rest)"
    by (rule poll_complete [OF assms(1)]) (use assms(2,3) in \<open>simp_all add: conn_ok_def unread_def\<close>)
  then show ?thesis
    using assms(2,3) by (auto simp: poll_delivers_def p2p_read_def conn_ok_def unread_def split: option.split)
qed

text \<open>A poll that cannot complete a message: it waits, or the stream has ended.\<close>

definition waits ::
    "p2p_lib \<Rightarrow> bool \<Rightarrow> P2pArgs \<Rightarrow> p2p_env \<Rightarrow> p2p_conn \<Rightarrow> bool" where
  "waits lib checked args env st \<longleftrightarrow>
     (\<exists>st'. p2p_read lib checked args env st = ([], st') \<and>
        (case pc_ending st of
           None \<Rightarrow> conn_ok lib args st' \<and> pc_verack_done st' = pc_verack_done st \<and>
                   pc_ending st' = None \<and> unread st' = unread st
         | Some x \<Rightarrow> \<exists>e. pc_status st' = ConnClosed e))"

lemma read_waits_within:
  assumes "frames lib (pa_network args) msg" and "conn_ok lib args st"
    and "pl_encode lib (pa_network args) msg = unread st @ missing" and "missing \<noteq> []"
  shows "waits lib checked args env st"
  using poll_partial [OF assms(1), of "pc_future st" "pc_input st" missing "pc_ending st"] assms(2-)
  by (auto simp: waits_def p2p_read_def conn_ok_def unread_def split: option.splits)

lemma read_waits_empty:
  assumes "conn_ok lib args st" and "unread st = []"
  shows "waits lib checked args env st"
proof -
  have "pc_future st = ReadingHeader []" "pc_input st = []"
    using assms future_bytes_Nil [of lib "pa_network args" "pc_future st"]
    by (simp_all add: unread_def conn_ok_def)
  then show ?thesis
    using assms by (auto simp: waits_def p2p_read_def conn_ok_def unread_def Let_def split: option.split)
qed

lemma read_cases:
  assumes "list_all (frames lib (pa_network args)) msgs" and "conn_ok lib args st"
    and "prefix (unread st @ later) (stream lib (pa_network args) msgs)"
  obtains (delivered) msg msgs' where "msgs = msg # msgs'" "poll_delivers lib checked args env st msg"
      "\<And>rest. unread st = pl_encode lib (pa_network args) msg @ rest \<Longrightarrow>
         prefix (rest @ later) (stream lib (pa_network args) msgs')"
    | (waiting) "waits lib checked args env st"
proof (cases msgs)
  case Nil
  then have "unread st = []" using assms(3) by simp
  then show ?thesis using read_waits_empty [OF assms(2)] that(2) by blast
next
  case (Cons msg msgs')
  let ?bytes = "pl_encode lib (pa_network args) msg"
  have fr: "frames lib (pa_network args) msg" using assms(1) Cons by simp
  have pre: "prefix (unread st) (?bytes @ stream lib (pa_network args) msgs')"
    using assms(3) Cons by (metis append_prefixD stream_simps(2))
  show ?thesis
  proof (cases "length ?bytes \<le> length (unread st)")
    case True
    then obtain rest where rest: "unread st = ?bytes @ rest"
      using pre by (metis prefix_def prefix_length_prefix prefixI)
    have "prefix (rest' @ later) (stream lib (pa_network args) msgs')"
      if "unread st = ?bytes @ rest'" for rest'
      using assms(3) that Cons by simp
    with that(1) [OF Cons read_delivers [OF fr assms(2) rest]] show ?thesis by blast
  next
    case False
    then have "prefix (unread st) ?bytes"
      using pre by (metis nat_le_linear prefixI prefix_length_prefix)
    then obtain missing where "?bytes = unread st @ missing" by (auto simp: prefix_def)
    with False have "waits lib checked args env st"
      by (intro read_waits_within [OF fr assms(2)]) auto
    then show ?thesis by (rule that(2))
  qed
qed

section \<open>Runs\<close>

text \<open>What a run of a connection amounts to, given the messages of the stream.\<close>

definition explained ::
    "p2p_lib \<Rightarrow> bool \<Rightarrow> P2pArgs \<Rightarrow> NetworkMessage list \<Rightarrow> p2p_step list \<Rightarrow> p2p_conn \<Rightarrow>
     p2p_action list \<Rightarrow> p2p_conn \<Rightarrow> p2p_input list \<Rightarrow> bool" where
  "explained lib checked args msgs ss st acts st' inputs \<longleftrightarrow>
     fst (p2p_spec lib checked args inputs (pc_verack_done st)) = acts \<and>
     prefix (received_of inputs) msgs \<and>
     (case pc_status st' of
        ConnOpen \<Rightarrow>
          snd (p2p_spec lib checked args inputs (pc_verack_done st)) = Some (pc_verack_done st') \<and>
          unread st @ arrived ss =
            stream lib (pa_network args) (received_of inputs) @ unread st'
      | ConnPanicked \<Rightarrow> snd (p2p_spec lib checked args inputs (pc_verack_done st)) = None
      | ConnClosed e \<Rightarrow> pc_ending st \<noteq> None \<or> (\<exists>x. PeerEnds x \<in> set ss))"

lemma explained_later:
  assumes "explained lib checked args msgs ss st1 acts st' inputs"
    and "pc_verack_done st1 = pc_verack_done st" and "unread st @ arrived (s # ss) = unread st1 @ arrived ss"
    and "pc_ending st1 \<noteq> None \<Longrightarrow> pc_ending st \<noteq> None \<or> (\<exists>x. s = PeerEnds x)"
  shows "explained lib checked args msgs (s # ss) st acts st' inputs"
  using assms by (auto simp: explained_def split: conn_status.splits)

lemma explained_received:
  assumes "explained lib checked args msgs ss st1 acts st' inputs"
    and "p2p_handle_message lib checked args env msg (pc_verack_done st) = Some (acts0, pc_verack_done st1)"
    and "unread st = pl_encode lib (pa_network args) msg @ unread st1" and "pc_ending st1 = pc_ending st"
  shows "explained lib checked args (msg # msgs) (PollRead env # ss) st (acts0 @ acts) st'
           (Received msg env # inputs)"
  using assms
  by (cases "p2p_spec lib checked args inputs (pc_verack_done st1)")
     (auto simp: explained_def split: conn_status.splits)

lemma explained_ticked:
  assumes "explained lib checked args msgs ss st1 acts st' inputs"
    and "p2p_ping args env (pc_verack_done st) = Some acts0" and "pc_verack_done st1 = pc_verack_done st"
    and "unread st1 = unread st" and "pc_ending st1 = pc_ending st"
  shows "explained lib checked args msgs (TimerTick env # ss) st (acts0 @ acts) st' (Ticked env # inputs)"
  using assms
  by (cases "p2p_spec lib checked args inputs (pc_verack_done st)")
     (auto simp: explained_def split: conn_status.splits)

lemma read_explained:
  assumes "list_all (frames lib (pa_network args)) msgs" and "conn_ok lib args st"
    and "prefix (unread st @ arrived ss) (stream lib (pa_network args) msgs)"
    and "p2p_conn_run lib checked args (PollRead env # ss) st = (acts, st')"
    and IH: "\<And>st1 msgs1 acts1. list_all (frames lib (pa_network args)) msgs1 \<Longrightarrow> conn_ok lib args st1 \<Longrightarrow>
        st1 = snd (p2p_read lib checked args env st) \<Longrightarrow>
        prefix (unread st1 @ arrived ss) (stream lib (pa_network args) msgs1) \<Longrightarrow>
        p2p_conn_run lib checked args ss st1 = (acts1, st') \<Longrightarrow>
        \<exists>inputs. explained lib checked args msgs1 ss st1 acts1 st' inputs"
  shows "\<exists>inputs. explained lib checked args msgs (PollRead env # ss) st acts st' inputs"
proof -
  have step: "p2p_conn_step lib checked args (PollRead env) st = p2p_read lib checked args env st"
    using assms(2) by (simp add: p2p_conn_step_def conn_ok_def)
  from assms(1-3) show ?thesis
  proof (cases rule: read_cases [where env = env and checked = checked])
    case (delivered msg msgs')
    show ?thesis
    proof (cases "p2p_handle_message lib checked args env msg (pc_verack_done st)")
      case None
      with delivered(2) obtain st1 where "p2p_read lib checked args env st = ([], st1)"
        "pc_status st1 = ConnPanicked" by (auto simp: poll_delivers_def)
      with step assms(4) have "acts = []" "pc_status st' = ConnPanicked"
        by (auto simp: run_stopped)
      with None delivered(1) have
        "explained lib checked args msgs (PollRead env # ss) st acts st' [Received msg env]"
        by (simp add: explained_def)
      then show ?thesis ..
    next
      case (Some r)
      then obtain acts0 v where h: "p2p_handle_message lib checked args env msg (pc_verack_done st) = Some (acts0, v)"
        by (cases r) simp
      with delivered(2) obtain st1 where st1: "p2p_read lib checked args env st = (acts0, st1)"
        "conn_ok lib args st1" "pc_verack_done st1 = v" "pc_ending st1 = pc_ending st"
        "unread st = pl_encode lib (pa_network args) msg @ unread st1"
        by (auto simp: poll_delivers_def)
      with step assms(4) obtain acts1 where run: "p2p_conn_run lib checked args ss st1 = (acts1, st')"
        "acts = acts0 @ acts1" by (auto split: prod.splits)
      have "list_all (frames lib (pa_network args)) msgs'" using assms(1) delivered(1) by simp
      from IH [OF this st1(2) _ delivered(3) [OF st1(5)] run(1)] st1(1) obtain inputs
        where "explained lib checked args msgs' ss st1 acts1 st' inputs" by auto
      from explained_received [OF this h [folded st1(3)] st1(5) st1(4)] show ?thesis
        unfolding run(2) delivered(1) by blast
    qed
  next
    case waiting
    then obtain st1 where st1: "p2p_read lib checked args env st = ([], st1)"
      and w: "case pc_ending st of
         None \<Rightarrow> conn_ok lib args st1 \<and> pc_verack_done st1 = pc_verack_done st \<and>
                 pc_ending st1 = None \<and> unread st1 = unread st
       | Some x \<Rightarrow> \<exists>e. pc_status st1 = ConnClosed e"
      by (auto simp: waits_def)
    from step st1 assms(4) have run: "p2p_conn_run lib checked args ss st1 = (acts, st')"
      by (auto split: prod.splits)
    show ?thesis
    proof (cases "pc_ending st")
      case None
      with w have ok: "conn_ok lib args st1" "pc_verack_done st1 = pc_verack_done st" "pc_ending st1 = None"
        "unread st1 = unread st" by simp_all
      from IH [OF assms(1) ok(1) _ _ run] st1 assms(3) ok(4) obtain inputs where
        "explained lib checked args msgs ss st1 acts st' inputs" by auto
      from explained_later [OF this ok(2), of "PollRead env"] ok(3,4) show ?thesis by auto
    next
      case (Some x)
      with w obtain e where "pc_status st1 = ConnClosed e" by auto
      with run have "acts = []" "pc_status st' = ConnClosed e" by (auto simp: run_stopped)
      with Some have "explained lib checked args msgs (PollRead env # ss) st acts st' []"
        by (simp add: explained_def)
      then show ?thesis ..
    qed
  qed
qed

lemma run_explained:
  assumes "list_all (frames lib (pa_network args)) msgs" and "conn_ok lib args st"
    and "calm lib checked args ss st"
    and "prefix (unread st @ arrived ss) (stream lib (pa_network args) msgs)"
    and "p2p_conn_run lib checked args ss st = (acts, st')"
  shows "\<exists>inputs. explained lib checked args msgs ss st acts st' inputs"
  using assms
proof (induction ss arbitrary: st msgs acts)
  case Nil
  then have "explained lib checked args msgs [] st acts st' []"
    by (auto simp: explained_def conn_ok_def split: conn_status.split)
  then show ?case ..
next
  case (Cons s ss)
  have open': "pc_status st = ConnOpen" using Cons.prems(2) by (simp add: conn_ok_def)
  have calm: "calm lib checked args ss (snd (p2p_conn_step lib checked args s st))"
    using Cons.prems(3) by simp
  show ?case
  proof (cases s)
    case (Arrive bs)
    let ?st1 = "st\<lparr>pc_input := pc_input st @ bs\<rparr>"
    have "conn_ok lib args ?st1" "unread ?st1 = unread st @ bs"
      using Cons.prems(2) by (simp_all add: conn_ok_def unread_def)
    with Cons.prems Arrive open' calm Cons.IH [OF Cons.prems(1), of ?st1 acts] obtain inputs where
      "explained lib checked args msgs ss ?st1 acts st' inputs"
      by (auto simp: p2p_conn_step_def split: prod.splits)
    from explained_later [OF this, of st s] Arrive show ?thesis by (auto simp: unread_def)
  next
    case (PeerEnds e)
    let ?st1 = "st\<lparr>pc_ending := Some e\<rparr>"
    have "conn_ok lib args ?st1" "unread ?st1 = unread st"
      using Cons.prems(2) by (simp_all add: conn_ok_def unread_def)
    with Cons.prems PeerEnds open' calm Cons.IH [OF Cons.prems(1), of ?st1 acts] obtain inputs where
      "explained lib checked args msgs ss ?st1 acts st' inputs"
      by (auto simp: p2p_conn_step_def split: prod.splits)
    from explained_later [OF this, of st s] PeerEnds show ?thesis by (auto simp: unread_def)
  next
    case (PollRead env)
    have "calm lib checked args ss (snd (p2p_read lib checked args env st))"
      using calm PollRead open' by (simp add: p2p_conn_step_def)
    with read_explained [OF Cons.prems(1,2), of ss checked env acts st'] Cons.IH Cons.prems(4,5) PollRead
    show ?thesis by auto
  next
    case (TimerTick env)
    have fresh: "pc_future st = ReadingHeader []" using Cons.prems(3) TimerTick by simp
    show ?thesis
    proof (cases "p2p_ping args env (pc_verack_done st)")
      case None
      with Cons.prems(5) TimerTick open' have "acts = []" "pc_status st' = ConnPanicked"
        by (auto simp: p2p_conn_step_def p2p_tick_def run_stopped)
      with None TimerTick have "explained lib checked args msgs (s # ss) st acts st' [Ticked env]"
        by (simp add: explained_def)
      then show ?thesis ..
    next
      case (Some acts0)
      have same: "st\<lparr>pc_future := ReadingHeader []\<rparr> = st" using fresh by simp
      have step: "p2p_conn_step lib checked args s st = (acts0, st)"
        using TimerTick open' Some same by (simp add: p2p_conn_step_def p2p_tick_def)
      with Cons.prems(5) obtain acts1 where run: "p2p_conn_run lib checked args ss st = (acts1, st')"
        "acts = acts0 @ acts1" by (auto split: prod.splits)
      from Cons.IH [OF Cons.prems(1,2) _ _ run(1)] calm step Cons.prems(4) TimerTick obtain inputs where
        "explained lib checked args msgs ss st acts1 st' inputs" by auto
      from explained_ticked [OF this Some] show ?thesis unfolding run(2) TimerTick by auto
    qed
  qed
qed

end
