(* ===== verification/P2pProperties.thy ===== *)
theory P2pProperties
  imports P2pFraming
begin

text \<open>
  Properties of the P2P extractor. A connection whose timer ticks only between messages handles
  exactly the messages the node sent, in order, however the bytes were cut into pieces; a tick in the
  middle of a message loses the part that was read. Further: the handshake comes before the pings,
  what the flags switch off, and the ping measurement.
\<close>

section \<open>Messages\<close>

text \<open>C3: A connection handles exactly the messages the node sent. Let the node send any messages
after each other, let their bytes arrive cut in any way, polled at any times, and let the ping timer
tick whenever no message is partly read. Then the connection sends and publishes what its
specification does for a sequence of whole messages and ticks: the messages of the sequence are the
first of those sent, in order, none left out; while the connection is open they are exactly the ones
whose bytes were used up, and it is closed only if the stream ended.\<close>

theorem connection_refines_messages:
  assumes "list_all (frames lib (pa_network args)) msgs" and "0 < pa_ping_interval args"
    and "calm lib checked args ss (p2p_conn_new args)"
    and "prefix (arrived ss) (stream lib (pa_network args) msgs)"
    and "p2p_conn_run lib checked args ss (p2p_conn_new args) = (acts, st')"
  shows "\<exists>inputs.
    fst (p2p_spec lib checked args inputs False) = acts \<and> prefix (received_of inputs) msgs \<and>
    (case pc_status st' of
       ConnOpen \<Rightarrow>
         snd (p2p_spec lib checked args inputs False) = Some (pc_verack_done st') \<and>
         arrived ss = stream lib (pa_network args) (received_of inputs) @ unread st'
     | ConnPanicked \<Rightarrow> snd (p2p_spec lib checked args inputs False) = None
     | ConnClosed e \<Rightarrow> \<exists>x. PeerEnds x \<in> set ss)"
proof -
  have "conn_ok lib args (p2p_conn_new args)" "unread (p2p_conn_new args) = []"
    using assms(2) by (simp_all add: conn_ok_def p2p_conn_new_def unread_def word_gt_0)
  with run_explained [OF assms(1) _ assms(3) _ assms(5)] assms(4) show ?thesis
    by (auto simp: explained_def p2p_conn_new_def unread_def split: conn_status.splits)
qed

section \<open>A small network\<close>

text \<open>A library with two kinds of messages: a verack, and anything else as a message without payload.\<close>

definition demo_magic :: "byte list" where "demo_magic = [0xF9, 0xBE, 0xB4, 0xD9]"

definition demo_frame :: "string \<Rightarrow> byte list \<Rightarrow> byte list" where
  "demo_frame command pl =
     demo_magic @ ascii command @ replicate (12 - length command) 0 @
     le_bytes 4 (of_nat (length pl) :: u32) @ [0, 0, 0, 0] @ pl"

definition demo_encode :: "NetworkMessage \<Rightarrow> byte list" where
  "demo_encode msg =
     (case msg of
        NmPing nonce \<Rightarrow> demo_frame ''ping'' (le_bytes 8 nonce)
      | NmVerack \<Rightarrow> demo_frame ''verack'' []
      | _ \<Rightarrow> demo_frame ''other'' [])"

definition demo_decode :: "byte list \<Rightarrow> NetworkMessage option" where
  "demo_decode bytes =
     (if get 4 4 bytes = ascii ''ping'' then Some (NmPing (le_word (drop 24 bytes)))
      else if get 4 6 bytes = ascii ''verack'' then Some NmVerack
      else None)"

definition demo_p2p :: p2p_lib where
  "demo_p2p = \<lparr>pl_magic = (\<lambda>net. demo_magic), pl_encode = (\<lambda>net. demo_encode),
               pl_decode = demo_decode, pl_b32 = id\<rparr>"

definition demo_p2p_args :: P2pArgs where
  "demo_p2p_args = \<lparr>pa_network = Mainnet, pa_ping_interval = 10, pa_disable_ping = False,
     pa_disable_addrv2 = True, pa_disable_invs = False, pa_disable_feefilter = False\<rparr>"

definition demo_env :: p2p_env where
  "demo_env = \<lparr>pe_now = Some 1000, pe_event_now = Some 1000, pe_random = 7\<rparr>"

lemmas demo_p2p_simps = demo_p2p_def demo_p2p_args_def demo_env_def demo_encode_def demo_frame_def
  demo_decode_def demo_magic_def ascii_def get_def payload_length_def le_word_def

text \<open>A verack in two pieces, a tick before and after it, and a ping.\<close>

definition demo_schedule :: "p2p_step list" where
  "demo_schedule =
     [TimerTick demo_env, Arrive (take 10 (demo_encode NmVerack)), PollRead demo_env,
      Arrive (drop 10 (demo_encode NmVerack)), PollRead demo_env, TimerTick demo_env,
      Arrive (demo_encode (NmPing 5)), PollRead demo_env]"

definition demo_result :: "p2p_action list \<times> p2p_conn" where
  "demo_result =
     ([SendMessage NmVerack, SendMessage (NmPing 1000), SendMessage (NmPong 5)],
      \<lparr>pc_input = [], pc_ending = None, pc_future = ReadingHeader [], pc_verack_done = True,
       pc_status = ConnOpen\<rparr>)"

lemma demo_run: "p2p_conn_run demo_p2p True demo_p2p_args demo_schedule (p2p_conn_new demo_p2p_args) = demo_result"
  by code_simp

lemma demo_calm: "calm demo_p2p True demo_p2p_args demo_schedule (p2p_conn_new demo_p2p_args)"
  by code_simp

lemma demo_frames: "list_all (frames demo_p2p Mainnet) [NmVerack, NmPing 5]"
  by code_simp

lemma demo_arrived: "prefix (arrived demo_schedule) (stream demo_p2p Mainnet [NmVerack, NmPing 5])"
  by code_simp

theorem connection_refines_messages_witness:
  "\<exists>inputs. fst (p2p_spec demo_p2p True demo_p2p_args inputs False) = fst demo_result \<and>
            prefix (received_of inputs) [NmVerack, NmPing 5] \<and>
            (case pc_status (snd demo_result) of
               ConnOpen \<Rightarrow>
                 snd (p2p_spec demo_p2p True demo_p2p_args inputs False) =
                   Some (pc_verack_done (snd demo_result)) \<and>
                 arrived demo_schedule =
                   stream demo_p2p Mainnet (received_of inputs) @ unread (snd demo_result)
             | ConnPanicked \<Rightarrow> snd (p2p_spec demo_p2p True demo_p2p_args inputs False) = None
             | ConnClosed e \<Rightarrow> \<exists>x. PeerEnds x \<in> set demo_schedule)"
proof -
  have net: "pa_network demo_p2p_args = Mainnet" "0 < pa_ping_interval demo_p2p_args"
    by (simp_all add: demo_p2p_args_def)
  have f: "list_all (frames demo_p2p (pa_network demo_p2p_args)) [NmVerack, NmPing 5]"
    and a: "prefix (arrived demo_schedule) (stream demo_p2p (pa_network demo_p2p_args) [NmVerack, NmPing 5])"
    unfolding net(1) by (rule demo_frames demo_arrived)+
  have r: "p2p_conn_run demo_p2p True demo_p2p_args demo_schedule (p2p_conn_new demo_p2p_args) =
      (fst demo_result, snd demo_result)"
    by (simp only: demo_run prod.collapse)
  show ?thesis by (rule connection_refines_messages [OF f net(2) demo_calm a r, unfolded net(1)])
qed

section \<open>Nothing is left unhandled\<close>

lemma run_append:
  "p2p_conn_run lib checked args (ss @ ss') st =
   (case p2p_conn_run lib checked args ss st of
      (acts, st1) \<Rightarrow> case p2p_conn_run lib checked args ss' st1 of (acts', st2) \<Rightarrow> (acts @ acts', st2))"
  by (induction ss arbitrary: st) (simp_all split: prod.split)

lemma poll_keeps_future_ok:
  "poll_read lib net ending f input = (Pending f', rest) \<Longrightarrow> future_ok lib net f \<Longrightarrow> future_ok lib net f'"
  by (cases f) (auto simp: poll_payload_def Let_def split: if_splits option.splits)

lemma step_keeps_future_ok:
  assumes "p2p_conn_step lib checked args s st = (acts, st')"
    and "future_ok lib (pa_network args) (pc_future st)"
  shows "future_ok lib (pa_network args) (pc_future st')"
  using assms
  by (auto simp: p2p_conn_step_def p2p_read_def p2p_tick_def
      dest: poll_keeps_future_ok
      split: if_splits p2p_step.splits prod.splits read_poll.splits sum.splits option.splits)

lemma step_keeps_ending:
  assumes "p2p_conn_step lib checked args s st = (acts, st')" and "\<And>x. s \<noteq> PeerEnds x"
  shows "pc_ending st' = pc_ending st"
  using assms
  by (auto simp: p2p_conn_step_def p2p_read_def p2p_tick_def
      split: if_splits p2p_step.splits prod.splits read_poll.splits sum.splits option.splits)

lemma run_keeps:
  assumes "p2p_conn_run lib checked args ss st = (acts, st')"
    and "future_ok lib (pa_network args) (pc_future st)" and "\<And>x. PeerEnds x \<notin> set ss"
  shows "future_ok lib (pa_network args) (pc_future st') \<and> pc_ending st' = pc_ending st"
  using assms
proof (induction ss arbitrary: st acts)
  case (Cons s ss)
  obtain acts1 st1 where step: "p2p_conn_step lib checked args s st = (acts1, st1)" by (meson surj_pair)
  with Cons.prems(1) obtain acts2 where "p2p_conn_run lib checked args ss st1 = (acts2, st')"
    by (auto split: prod.splits)
  moreover have "s \<noteq> PeerEnds x" for x using Cons.prems(3) [of x] by auto
  ultimately show ?case
    using Cons.IH step_keeps_future_ok [OF step Cons.prems(2)] step_keeps_ending [OF step] Cons.prems(3)
    by auto
qed simp

text \<open>As many polls as messages are waiting handle them all, unless the task panics.\<close>

lemma polls_drain:
  assumes "list_all (frames lib (pa_network args)) msgs" and "conn_ok lib args st" and "pc_ending st = None"
    and "unread st = stream lib (pa_network args) msgs" and "length msgs \<le> length envs"
    and "p2p_conn_run lib checked args (map PollRead envs) st = (acts, st')"
    and "pc_status st' \<noteq> ConnPanicked"
  shows "conn_ok lib args st' \<and> unread st' = []"
  using assms
proof (induction envs arbitrary: st msgs acts)
  case (Cons env envs)
  have step: "p2p_conn_step lib checked args (PollRead env) st = p2p_read lib checked args env st"
    using Cons.prems(2) by (simp add: p2p_conn_step_def conn_ok_def)
  show ?case
  proof (cases msgs)
    case Nil
    with Cons.prems(2,4) have "waits lib checked args env st" by (intro read_waits_empty) simp_all
    with Cons.prems(3) obtain st1 where st1: "p2p_read lib checked args env st = ([], st1)"
      "conn_ok lib args st1" "pc_ending st1 = None" "unread st1 = unread st"
      by (auto simp: waits_def)
    with step Cons.prems(6) have "p2p_conn_run lib checked args (map PollRead envs) st1 = (acts, st')"
      by (auto split: prod.splits)
    from Cons.IH [OF _ st1(2,3) _ _ this Cons.prems(7), of "[]"] st1(4) Cons.prems(4) Nil show ?thesis
      by simp
  next
    case (Cons msg msgs')
    have d: "poll_delivers lib checked args env st msg"
      using Cons Cons.prems(1,2,4) by (intro read_delivers) simp_all
    show ?thesis
    proof (cases "p2p_handle_message lib checked args env msg (pc_verack_done st)")
      case None
      with d obtain st1 where "p2p_read lib checked args env st = ([], st1)" "pc_status st1 = ConnPanicked"
        by (auto simp: poll_delivers_def)
      with step Cons.prems(6,7) show ?thesis by (auto simp: run_stopped)
    next
      case (Some r)
      with d Cons.prems(3) obtain acts0 st1 where st1: "p2p_read lib checked args env st = (acts0, st1)"
        "conn_ok lib args st1" "pc_ending st1 = None"
        "unread st = pl_encode lib (pa_network args) msg @ unread st1"
        by (cases r) (auto simp: poll_delivers_def)
      with step Cons.prems(6) obtain acts1 where
        "p2p_conn_run lib checked args (map PollRead envs) st1 = (acts1, st')"
        by (auto split: prod.splits)
      from Cons.IH [OF _ st1(2,3) _ _ this Cons.prems(7), of msgs'] st1(4) Cons.prems(1,4,5) Cons
      show ?thesis by simp
    qed
  qed
qed simp

lemma calm_polls: "calm lib checked args (map PollRead envs) st"
  by (induction envs arbitrary: st) auto

lemma calm_append:
  "calm lib checked args (ss @ ss') st \<longleftrightarrow>
   calm lib checked args ss st \<and> calm lib checked args ss' (snd (p2p_conn_run lib checked args ss st))"
  by (induction ss arbitrary: st) (auto split: prod.split)

lemma arrived_append [simp]: "arrived (ss @ ss') = arrived ss @ arrived ss'"
  by (induction ss rule: arrived.induct) auto

lemma arrived_polls [simp]: "arrived (map PollRead envs) = []"
  by (induction envs) auto

lemma stream_prefix_eq:
  assumes "list_all (frames lib net) msgs" and "prefix ms msgs" and "stream lib net ms = stream lib net msgs"
  shows "ms = msgs"
proof -
  from assms(2) obtain rest where msgs: "msgs = ms @ rest" by (auto simp: prefix_def)
  with assms(3) have "stream lib net rest = []" by simp
  moreover have "stream lib net rest \<noteq> []" if "rest = m # ms'" for m ms'
    using assms(1) that msgs by (auto simp: frames_def Let_def)
  ultimately show ?thesis using msgs by (cases rest) auto
qed

text \<open>C15: No message is left lying. Once all the bytes of the messages have arrived, in whatever
pieces and with whatever polls and ticks between messages before, as many further polls as there are
messages handle all of them: the actions are those of the specification for exactly the messages
sent, and no byte is left over, unless the task panics on a clock before the epoch or on a pong from
the future.\<close>

theorem complete_messages_handled:
  assumes "list_all (frames lib (pa_network args)) msgs" and "0 < pa_ping_interval args"
    and "calm lib checked args ss (p2p_conn_new args)" and "\<And>x. PeerEnds x \<notin> set ss"
    and "arrived ss = stream lib (pa_network args) msgs" and "length msgs \<le> length envs"
    and "p2p_conn_run lib checked args (ss @ map PollRead envs) (p2p_conn_new args) = (acts, st')"
    and "pc_status st' \<noteq> ConnPanicked"
  shows "unread st' = [] \<and>
         (\<exists>inputs. p2p_spec lib checked args inputs False = (acts, Some (pc_verack_done st')) \<and>
                   received_of inputs = msgs)"
proof -
  let ?net = "pa_network args" and ?new = "p2p_conn_new args" and ?polls = "map PollRead envs"
  have new: "conn_ok lib args ?new" "unread ?new = []" "pc_verack_done ?new = False" "pc_ending ?new = None"
    using assms(2) by (simp_all add: conn_ok_def p2p_conn_new_def unread_def word_gt_0)
  obtain acts1 st1 where run1: "p2p_conn_run lib checked args ss ?new = (acts1, st1)" by (meson surj_pair)
  with assms(7) obtain acts2 where run2: "p2p_conn_run lib checked args ?polls st1 = (acts2, st')"
    by (auto simp: run_append split: prod.splits)
  have "prefix (unread ?new @ arrived ss) (stream lib ?net msgs)" using assms(5) new(2) by simp
  from run_explained [OF assms(1) new(1) assms(3) this run1] obtain inputs1 where
    ex: "explained lib checked args msgs ss ?new acts1 st1 inputs1" ..
  have "pc_status st1 \<noteq> ConnPanicked" using run2 assms(8) by (auto simp: run_stopped)
  with ex new(4) assms(4) have open1: "pc_status st1 = ConnOpen"
    by (auto simp: explained_def split: conn_status.splits)
  with run_keeps [OF run1 _ assms(4)] new(1,4) have ok1: "conn_ok lib args st1" "pc_ending st1 = None"
    by (auto simp: conn_ok_def)
  from ex open1 new(2) assms(5) obtain rest where rest: "msgs = received_of inputs1 @ rest"
    "unread st1 = stream lib ?net rest"
    by (auto simp: explained_def prefix_def)
  have "conn_ok lib args st' \<and> unread st' = []"
    using assms(1,6,8) rest(1)
    by (intro polls_drain [OF _ ok1 rest(2) _ run2]) auto
  then have drained: "pc_status st' = ConnOpen" "unread st' = []" by (simp_all add: conn_ok_def)
  have "calm lib checked args (ss @ ?polls) ?new" using assms(3) by (simp add: calm_append calm_polls)
  moreover have "prefix (unread ?new @ arrived (ss @ ?polls)) (stream lib ?net msgs)"
    using assms(5) new(2) by simp
  ultimately obtain inputs where "explained lib checked args msgs (ss @ ?polls) ?new acts st' inputs"
    using run_explained [OF assms(1) new(1) _ _ assms(7)] by blast
  with drained new(2,3) assms(5) have spec:
    "p2p_spec lib checked args inputs False = (acts, Some (pc_verack_done st'))"
    "prefix (received_of inputs) msgs" "stream lib ?net msgs = stream lib ?net (received_of inputs)"
    by (auto simp: explained_def intro: prod_eqI)
  with stream_prefix_eq [OF assms(1) spec(2)] drained show ?thesis by auto
qed

lemma demo_run_polls:
  "p2p_conn_run demo_p2p True demo_p2p_args (demo_schedule @ map PollRead [demo_env, demo_env])
     (p2p_conn_new demo_p2p_args) = demo_result"
  by code_simp

lemma demo_arrived_all: "arrived demo_schedule = stream demo_p2p Mainnet [NmVerack, NmPing 5]"
  by code_simp

theorem complete_messages_handled_witness:
  "unread (snd demo_result) = [] \<and>
   (\<exists>inputs. p2p_spec demo_p2p True demo_p2p_args inputs False =
               (fst demo_result, Some (pc_verack_done (snd demo_result))) \<and>
             received_of inputs = [NmVerack, NmPing 5])"
proof (rule complete_messages_handled)
  have net: "pa_network demo_p2p_args = Mainnet" by (simp add: demo_p2p_args_def)
  show "list_all (frames demo_p2p (pa_network demo_p2p_args)) [NmVerack, NmPing 5]"
    and "arrived demo_schedule = stream demo_p2p (pa_network demo_p2p_args) [NmVerack, NmPing 5]"
    unfolding net by (rule demo_frames demo_arrived_all)+
  show "0 < pa_ping_interval demo_p2p_args" by (simp add: demo_p2p_args_def)
  show "calm demo_p2p True demo_p2p_args demo_schedule (p2p_conn_new demo_p2p_args)" by (rule demo_calm)
  show "PeerEnds x \<notin> set demo_schedule" for x by (simp add: demo_schedule_def)
  show "length [NmVerack, NmPing 5] \<le> length [demo_env, demo_env]" by simp
  show "p2p_conn_run demo_p2p True demo_p2p_args (demo_schedule @ map PollRead [demo_env, demo_env])
     (p2p_conn_new demo_p2p_args) = (fst demo_result, snd demo_result)"
    by (simp only: demo_run_polls prod.collapse)
  show "pc_status (snd demo_result) \<noteq> ConnPanicked" by (simp add: demo_result_def)
qed

section \<open>A tick in the middle of a message\<close>

text \<open>C10: A tick of the ping timer in the middle of a message breaks the connection. Let a part of a
message have been read when the timer ticks, which it does whether or not pings are enabled. The
tick drops the future that reads the message, and with it the bytes it had taken from the socket:
when the rest of the stream arrives, its first bytes are taken for a header, and unless they
happen to be the magic the connection is closed. Without the tick the same bytes are the message.\<close>

theorem tick_within_a_message_closes:
  assumes "frames lib (pa_network args) msg" and "conn_ok lib args st" and "pc_input st = []"
    and "0 < k" and "unread st = take k (pl_encode lib (pa_network args) msg)"
    and "later = drop k (pl_encode lib (pa_network args) msg) @ next"
    and "24 \<le> length later" and "take 4 later \<noteq> pl_magic lib (pa_network args)"
    and "p2p_ping args env (pc_verack_done st) = Some pings"
    and "p2p_handle_message lib checked args env' msg (pc_verack_done st) = Some (acts, v)"
  shows "p2p_conn_run lib checked args [TimerTick env, Arrive later, PollRead env'] st =
           (pings, st\<lparr>pc_input := drop 24 later, pc_future := ReadingHeader [],
                      pc_status := ConnClosed (MagicMismatch (take 4 later))\<rparr>) \<and>
         fst (p2p_conn_run lib checked args [Arrive later, PollRead env'] st) = acts"
proof
  have status: "pc_status st = ConnOpen" using assms(2) by (simp add: conn_ok_def)
  have four: "take 4 (take 24 later) = take 4 later" by simp
  show "p2p_conn_run lib checked args [TimerTick env, Arrive later, PollRead env'] st =
      (pings, st\<lparr>pc_input := drop 24 later, pc_future := ReadingHeader [],
                 pc_status := ConnClosed (MagicMismatch (take 4 later))\<rparr>)"
    using status assms(3,7,8,9) four
    by (simp add: p2p_conn_step_def p2p_tick_def p2p_read_def Let_def)
  let ?st = "st\<lparr>pc_input := later\<rparr>"
  have arrive: "p2p_conn_step lib checked args (Arrive later) st = ([], ?st)"
    using status assms(3) by (simp add: p2p_conn_step_def)
  have "unread ?st = pl_encode lib (pa_network args) msg @ next"
    using assms(3,5,6) by (simp add: unread_def)
  moreover have "conn_ok lib args ?st" using assms(2) by (simp add: conn_ok_def)
  ultimately have "poll_delivers lib checked args env' ?st msg" by (intro read_delivers [OF assms(1)])
  then show "fst (p2p_conn_run lib checked args [Arrive later, PollRead env'] st) = acts"
    using assms(10) status arrive by (auto simp: poll_delivers_def p2p_conn_step_def)
qed

text \<open>Ten of the 32 bytes of a ping have been read.\<close>

definition demo_partial :: p2p_conn where
  "demo_partial = \<lparr>pc_input = [], pc_ending = None,
     pc_future = ReadingHeader (take 10 (demo_encode (NmPing 5))), pc_verack_done = True,
     pc_status = ConnOpen\<rparr>"

definition demo_later :: "byte list" where
  "demo_later = drop 10 (demo_encode (NmPing 5)) @ demo_encode NmVerack"

lemma demo_partial_facts:
  "frames demo_p2p Mainnet (NmPing 5)"
  "length (take 10 (demo_encode (NmPing 5))) < 24"
  "24 \<le> length demo_later" "take 4 demo_later \<noteq> demo_magic"
  "p2p_ping demo_p2p_args demo_env True = Some [SendMessage (NmPing 1000)]"
  "p2p_handle_message demo_p2p True demo_p2p_args demo_env (NmPing 5) True = Some ([SendMessage (NmPong 5)], True)"
  by code_simp+

theorem tick_within_a_message_closes_witness:
  "p2p_conn_run demo_p2p True demo_p2p_args
     [TimerTick demo_env, Arrive demo_later, PollRead demo_env] demo_partial =
     ([SendMessage (NmPing 1000)],
      demo_partial\<lparr>pc_input := drop 24 demo_later, pc_future := ReadingHeader [],
                   pc_status := ConnClosed (MagicMismatch (take 4 demo_later))\<rparr>) \<and>
   fst (p2p_conn_run demo_p2p True demo_p2p_args [Arrive demo_later, PollRead demo_env] demo_partial) =
     [SendMessage (NmPong 5)]"
proof (rule tick_within_a_message_closes)
  have net: "pa_network demo_p2p_args = Mainnet" "pl_magic demo_p2p = (\<lambda>net. demo_magic)"
    "pl_encode demo_p2p = (\<lambda>net. demo_encode)"
    by (simp_all add: demo_p2p_args_def demo_p2p_def)
  show "frames demo_p2p (pa_network demo_p2p_args) (NmPing 5)"
    and "24 \<le> length demo_later" and "take 4 demo_later \<noteq> pl_magic demo_p2p (pa_network demo_p2p_args)"
    unfolding net by (rule demo_partial_facts)+
  show "conn_ok demo_p2p demo_p2p_args demo_partial"
    using demo_partial_facts(2) by (simp add: conn_ok_def demo_partial_def)
  show "pc_input demo_partial = []" by (simp add: demo_partial_def)
  show "(0 :: nat) < 10" by simp
  show "unread demo_partial = take 10 (pl_encode demo_p2p (pa_network demo_p2p_args) (NmPing 5))"
    unfolding net by (simp add: unread_def demo_partial_def)
  show "demo_later = drop 10 (pl_encode demo_p2p (pa_network demo_p2p_args) (NmPing 5)) @ demo_encode NmVerack"
    unfolding net by (simp add: demo_later_def)
  show "p2p_ping demo_p2p_args demo_env (pc_verack_done demo_partial) = Some [SendMessage (NmPing 1000)]"
    using demo_partial_facts(5) by (simp add: demo_partial_def)
  show "p2p_handle_message demo_p2p True demo_p2p_args demo_env (NmPing 5) (pc_verack_done demo_partial) =
      Some ([SendMessage (NmPong 5)], True)"
    using demo_partial_facts(6) by (simp add: demo_partial_def)
qed

section \<open>Handshake and flags\<close>

text \<open>What the actions of one step can be.\<close>

lemma publish_p2p_Send [simp]: "SendMessage m \<notin> set (publish_p2p env ev)"
  by (simp add: publish_p2p_def split: sum.split)

lemmas publish_defs = publish_addr_announcement_event_def publish_inventory_announcement_event_def
  publish_feefilter_announcement_event_def publish_ping_measurement_event_def

lemma handle_message_no_ping:
  "p2p_handle_message lib checked args env msg v = Some (acts, v') \<Longrightarrow>
   SendMessage (NmPing t) \<notin> set acts \<and> (v' \<longrightarrow> v \<or> SendMessage NmVerack \<in> set acts)"
  by (cases msg) (auto simp: p2p_handle_message_def publish_defs Let_def split: if_splits option.splits)

lemma step_ping:
  assumes "p2p_conn_step lib checked args s st = (acts, st')"
  shows "(SendMessage (NmPing t) \<in> set acts \<longrightarrow> \<not> pa_disable_ping args \<and> pc_verack_done st \<and> length acts = 1) \<and>
         (pc_verack_done st' \<longrightarrow> pc_verack_done st \<or> SendMessage NmVerack \<in> set acts)"
proof (cases "pc_status st = ConnOpen")
  case True
  show ?thesis
  proof (cases s)
    case (PollRead env)
    with assms True have "p2p_read lib checked args env st = (acts, st')" by (simp add: p2p_conn_step_def)
    then show ?thesis
      by (auto simp: p2p_read_def dest!: handle_message_no_ping
          split: prod.splits read_poll.splits sum.splits option.splits)
  qed (use assms True in \<open>auto simp: p2p_conn_step_def p2p_tick_def p2p_ping_def
        split: if_splits option.splits\<close>)
qed (use assms in \<open>auto simp: p2p_conn_step_def\<close>)

lemma run_ping:
  assumes "p2p_conn_run lib checked args ss st = (acts, st')" and "i < length acts"
    and "acts ! i = SendMessage (NmPing t)"
  shows "\<not> pa_disable_ping args \<and> (pc_verack_done st \<or> SendMessage NmVerack \<in> set (take i acts))"
  using assms
proof (induction ss arbitrary: st acts i)
  case (Cons s ss)
  obtain acts1 st1 where step: "p2p_conn_step lib checked args s st = (acts1, st1)" by (meson surj_pair)
  with Cons.prems(1) obtain acts2 where run: "p2p_conn_run lib checked args ss st1 = (acts2, st')"
    and acts: "acts = acts1 @ acts2" by (auto split: prod.splits)
  note ping = step_ping [OF step, of t]
  show ?case
  proof (cases "i < length acts1")
    case True
    with Cons.prems(3) acts have "SendMessage (NmPing t) \<in> set acts1"
      using nth_mem [OF True] by (simp add: nth_append)
    with ping show ?thesis by simp
  next
    case False
    with Cons.prems(2,3) acts have "i - length acts1 < length acts2"
      "acts2 ! (i - length acts1) = SendMessage (NmPing t)" by (auto simp: nth_append)
    from Cons.IH [OF run this] ping False acts show ?thesis by auto
  qed
qed simp

text \<open>C35: Pings follow the handshake. Whatever the node sends, however it is cut, and whenever the
timer ticks, the extractor sends a ping only if pings are not disabled, and only after it has
answered the node's verack with its own.\<close>

theorem pings_follow_the_handshake:
  assumes "p2p_conn_run lib checked args ss (p2p_conn_new args) = (acts, st)" and "i < length acts"
    and "acts ! i = SendMessage (NmPing t)"
  shows "\<not> pa_disable_ping args \<and> SendMessage NmVerack \<in> set (take i acts)"
  using run_ping [OF assms] by (simp add: p2p_conn_new_def)

theorem pings_follow_the_handshake_witness:
  "\<not> pa_disable_ping demo_p2p_args \<and> SendMessage NmVerack \<in> set (take 1 (fst demo_result))"
proof (rule pings_follow_the_handshake)
  show "p2p_conn_run demo_p2p True demo_p2p_args demo_schedule (p2p_conn_new demo_p2p_args) =
      (fst demo_result, snd demo_result)"
    by (simp only: demo_run prod.collapse)
qed (simp_all add: demo_result_def)

lemma handle_message_addrv2_flag:
  "p2p_handle_message lib checked (args\<lparr>pa_disable_addrv2 := b\<rparr>) env msg v =
   p2p_handle_message lib checked args env msg v"
  by (cases msg) (simp_all add: p2p_handle_message_def)

lemma step_addrv2_flag:
  "p2p_conn_step lib checked (args\<lparr>pa_disable_addrv2 := b\<rparr>) s st = p2p_conn_step lib checked args s st"
  by (cases s) (simp_all add: p2p_conn_step_def p2p_read_def p2p_tick_def p2p_ping_def
      handle_message_addrv2_flag split: prod.split read_poll.split sum.split)

fun switched_off :: "P2pArgs \<Rightarrow> p2p_event \<Rightarrow> bool" where
  "switched_off args (InventoryAnnouncement items) = pa_disable_invs args"
| "switched_off args (FeefilterAnnouncement f) = pa_disable_feefilter args"
| "switched_off args _ = False"

lemma handle_message_publishes:
  "p2p_handle_message lib checked args env msg v = Some (acts, v') \<Longrightarrow> Publish s ev \<in> set acts \<Longrightarrow>
   s = P2PExtractor \<and> \<not> switched_off args (peer_observer_event ev)"
  by (cases msg)
     (auto simp: p2p_handle_message_def publish_defs publish_p2p_def Event_new_def Let_def
       split: if_splits option.splits)

lemma step_publishes:
  "p2p_conn_step lib checked args x st = (acts, st') \<Longrightarrow> Publish s ev \<in> set acts \<Longrightarrow>
   s = P2PExtractor \<and> \<not> switched_off args (peer_observer_event ev)"
  by (auto simp: p2p_conn_step_def p2p_read_def p2p_tick_def p2p_ping_def
      dest: handle_message_publishes
      split: if_splits p2p_step.splits prod.splits read_poll.splits sum.splits option.splits)

text \<open>What the flags switch off. Every event of a connection goes to the subject of the P2P
extractor; with inventories disabled none of them announces an inventory, with fee filters disabled
none a fee filter. The flag that disables address announcements switches off nothing: a run with it
is the run without it.\<close>

theorem flags_switch_off:
  "list_all (\<lambda>act. case act of
       SendMessage m \<Rightarrow> True
     | Publish s ev \<Rightarrow> s = P2PExtractor \<and> \<not> switched_off args (peer_observer_event ev))
     (fst (p2p_conn_run lib checked args ss st)) \<and>
   p2p_conn_run lib checked (args\<lparr>pa_disable_addrv2 := b\<rparr>) ss st = p2p_conn_run lib checked args ss st"
proof (induction ss arbitrary: st)
  case (Cons x ss)
  obtain acts st' where step: "p2p_conn_step lib checked args x st = (acts, st')" by (meson surj_pair)
  have "list_all (\<lambda>act. case act of SendMessage m \<Rightarrow> True
     | Publish s ev \<Rightarrow> s = P2PExtractor \<and> \<not> switched_off args (peer_observer_event ev)) acts"
    using step_publishes [OF step] by (auto simp: list_all_iff split: p2p_action.split)
  moreover obtain acts' st'' where "p2p_conn_run lib checked args ss st' = (acts', st'')" by (meson surj_pair)
  ultimately show ?case
    using Cons.IH [of st'] step by (simp add: step_addrv2_flag)
qed simp

section \<open>The ping measurement\<close>

text \<open>The ping measurement. For a pong that carries the time of its ping, the extractor publishes
exactly the time since, for every clock of the next 500 years. A pong with a time in the future, from
a node that makes one up or after the clock was set back, ends the task in a build with overflow
checks; in one without, a duration of the distance below 2 to the 64 is published.\<close>

theorem ping_measurement:
  assumes "pe_now env = Some nanos" and "nanos < 2 ^ 64"
  shows "p2p_handle_message lib checked args env (NmPong nonce) v =
         (if unat nonce \<le> nanos then
            Some (publish_p2p env (PingDuration (of_nat (nanos - unat nonce))), v)
          else if checked then None
          else Some (publish_p2p env (PingDuration (of_nat (2 ^ 64 - (unat nonce - nanos)))), v))"
proof -
  let ?now = "of_nat nanos :: u64"
  have now: "unat ?now = nanos" using assms(2) by (simp add: unat_of_nat)
  have less: "?now < nonce \<longleftrightarrow> nanos < unat nonce" by (simp add: word_less_nat_alt now)
  have past: "?now - nonce = of_nat (nanos - unat nonce)" if "unat nonce \<le> nanos"
    using that by simp
  have future: "?now - nonce = of_nat (2 ^ 64 - (unat nonce - nanos))" if "nanos < unat nonce"
  proof -
    have "unat nonce < 2 ^ LENGTH(64)" by (rule unsigned_less)
    then have le: "unat nonce - nanos \<le> 2 ^ 64" by simp
    have "(of_nat (2 ^ 64) :: u64) = 0" by simp
    then have "(of_nat (2 ^ 64 - (unat nonce - nanos)) :: u64) = - of_nat (unat nonce - nanos)"
      using le by (simp add: of_nat_diff)
    also have "\<dots> = ?now - nonce" using that by (simp add: of_nat_diff)
    finally show ?thesis by simp
  qed
  show ?thesis
    using less past future by (auto simp: p2p_handle_message_def assms(1) publish_defs Let_def not_le)
qed

theorem ping_measurement_witness:
  "p2p_handle_message demo_p2p True demo_p2p_args demo_env (NmPong 400) True =
   Some ([Publish P2PExtractor \<lparr>timestamp = 0, peer_observer_event = PingDuration 600\<rparr>], True)"
  by (subst ping_measurement [where nanos = 1000])
     (simp_all add: demo_env_def publish_p2p_def Event_new_def)

end
