(* ===== verification/IpText.thy ===== *)
theory IpText
  imports Primitives
begin

text \<open>
  Parsing IP addresses, as the standard library does, and the address helpers of
  \<^verbatim>\<open>shared/src/util.rs\<close> that use it. The tables that the build generates are not part of it.
\<close>

section \<open>The parser of the standard library\<close>

text \<open>
  The parsers take the text and give a value with the rest of the text. A number is read to its last
  digit; it may have at most \<open>most\<close> digits.
\<close>

type_synonym 'a text_parser = "byte list \<Rightarrow> ('a \<times> byte list) option"

definition digit_value :: "nat \<Rightarrow> byte \<Rightarrow> nat option" where
  "digit_value radix c =
     (let d = (if 48 \<le> unat c \<and> unat c \<le> 57 then Some (unat c - 48)
               else if 97 \<le> unat c \<and> unat c \<le> 122 then Some (unat c - 87)
               else if 65 \<le> unat c \<and> unat c \<le> 90 then Some (unat c - 55)
               else None)
      in case d of Some v \<Rightarrow> if v < radix then Some v else None | None \<Rightarrow> None)"

definition digits_value :: "nat \<Rightarrow> byte list \<Rightarrow> nat" where
  "digits_value radix ds = foldl (\<lambda>v c. v * radix + the (digit_value radix c)) 0 ds"

definition read_number :: "nat \<Rightarrow> nat \<Rightarrow> bool \<Rightarrow> nat \<Rightarrow> nat text_parser" where
  "read_number radix most allow_zero_prefix bound s =
     (let is_digit = (\<lambda>c. digit_value radix c \<noteq> None); ds = takeWhile is_digit s; rest = dropWhile is_digit s in
      if most < length ds \<or> ds = [] then None
      else if \<not> allow_zero_prefix \<and> hd ds = 48 \<and> 1 < length ds then None
      else if bound < digits_value radix ds then None
      else Some (digits_value radix ds, rest))"

definition read_separator :: "byte \<Rightarrow> nat \<Rightarrow> 'a text_parser \<Rightarrow> 'a text_parser" where
  "read_separator sep index inner s =
     (if 0 < index then (case s of c # s' \<Rightarrow> if c = sep then inner s' else None | [] \<Rightarrow> None)
      else inner s)"

fun read_octets :: "nat \<Rightarrow> nat \<Rightarrow> byte list text_parser" where
  "read_octets i 0 s = Some ([], s)"
| "read_octets i (Suc n) s =
     (case read_separator 46 i (read_number 10 3 False 255) s of
        None \<Rightarrow> None
      | Some (v, s') \<Rightarrow>
          (case read_octets (i + 1) n s' of
             None \<Rightarrow> None
           | Some (vs, s'') \<Rightarrow> Some (of_nat v # vs, s'')))"

definition read_ipv4 :: "byte list text_parser" where "read_ipv4 s = read_octets 0 4 s"

definition octets_groups :: "byte list \<Rightarrow> 16 word list" where
  "octets_groups o' =
     (case o' of [a, b, c, d] \<Rightarrow> [ucast a * 256 + ucast b, ucast c * 256 + ucast d] | _ \<Rightarrow> [])"

text \<open>
  The groups of an IPv6 address, at most \<open>limit\<close>: four hexadecimal digits each, or an IPv4 address
  where two groups are left, which ends the groups. The flag says that one was read.
\<close>

fun read_groups :: "nat \<Rightarrow> nat \<Rightarrow> nat \<Rightarrow> byte list \<Rightarrow> 16 word list \<times> bool \<times> byte list" where
  "read_groups limit i 0 s = ([], False, s)"
| "read_groups limit i (Suc n) s =
     (case (if i + 1 < limit then read_separator 58 i read_ipv4 s else None) of
        Some (v4, s') \<Rightarrow> (octets_groups v4, True, s')
      | None \<Rightarrow>
          (case read_separator 58 i (read_number 16 4 True 65535) s of
             Some (g, s') \<Rightarrow>
               (case read_groups limit (i + 1) n s' of (gs, v4, s'') \<Rightarrow> (of_nat g # gs, v4, s''))
           | None \<Rightarrow> ([], False, s)))"

definition read_ipv6 :: "16 word list text_parser" where
  "read_ipv6 s =
     (case read_groups 8 0 8 s of
        (head, head_v4, s1) \<Rightarrow>
          if length head = 8 then Some (head, s1)
          else if head_v4 then None
          else
            (case s1 of
               c1 # c2 # s2 \<Rightarrow>
                 if c1 = 58 \<and> c2 = 58 then
                   (let limit = 7 - length head in
                    case read_groups limit 0 limit s2 of
                      (tail, tail_v4, s3) \<Rightarrow>
                        Some (head @ replicate (8 - length head - length tail) 0 @ tail, s3))
                 else None
             | _ \<Rightarrow> None))"

definition parse_ipv4 :: "byte list \<Rightarrow> byte list option" where
  "parse_ipv4 s =
     (if 15 < length s then None
      else case read_ipv4 s of Some (octets, []) \<Rightarrow> Some octets | _ \<Rightarrow> None)"

definition parse_ipv6 :: "byte list \<Rightarrow> 16 word list option" where
  "parse_ipv6 s = (case read_ipv6 s of Some (segments, []) \<Rightarrow> Some segments | _ \<Rightarrow> None)"

datatype IpAddr = IpV4 "byte list" | IpV6 "16 word list"

definition parse_ip :: "byte list \<Rightarrow> IpAddr option" where
  "parse_ip s =
     (case read_ipv4 s of
        Some (octets, rest) \<Rightarrow> if rest = [] then Some (IpV4 octets) else None
      | None \<Rightarrow> map_option IpV6 (parse_ipv6 s))"

section \<open>The helpers\<close>

definition no_brackets :: "byte list \<Rightarrow> byte list" where
  "no_brackets s = filter (\<lambda>c. c \<noteq> 91 \<and> c \<noteq> 93) s"

text \<open>\<^verbatim>\<open>rsplit_once\<close> at the last colon.\<close>

definition ip_from_ipport :: "byte list \<Rightarrow> byte list" where
  "ip_from_ipport addr =
     (if 58 \<in> set addr then no_brackets (rev (tl (dropWhile (\<lambda>c. c \<noteq> 58) (rev addr)))) else addr)"

definition subnet :: "byte list \<Rightarrow> byte list" where
  "subnet ip =
     (case parse_ip (no_brackets ip) of
        Some (IpV4 octets) \<Rightarrow> ipv4_string (take 3 octets @ [0])
      | Some (IpV6 s) \<Rightarrow> ipv6_string (take 4 s @ [0, 0, 0, 0])
      | None \<Rightarrow> ip)"

definition starts_with :: "string \<Rightarrow> byte list \<Rightarrow> bool" where
  "starts_with p s \<longleftrightarrow> take (length p) s = ascii p"

definition is_on_pre2026_linkinglion_banlist :: "byte list \<Rightarrow> bool" where
  "is_on_pre2026_linkinglion_banlist ip \<longleftrightarrow>
     starts_with ''162.218.65'' ip \<or> starts_with ''209.222.252'' ip \<or>
     starts_with ''91.198.115'' ip \<or> starts_with ''2604:d500:4:'' ip"

definition is_on_linkinglion_banlist :: "byte list \<Rightarrow> bool" where
  "is_on_linkinglion_banlist ip \<longleftrightarrow>
     starts_with ''143.20.137.'' ip \<or> starts_with ''31.58.215.'' ip \<or>
     starts_with ''87.229.79.'' ip \<or> starts_with ''2602:f5c0:'' ip"

section \<open>IPv4 addresses are read back\<close>

lemma unat_dec_digit: "d < 10 \<Longrightarrow> unat (dec_digit d) = 48 + d"
  unfolding dec_digit_def by (subst unat_of_nat) simp

lemma digit_value_dec [simp]: "d < 10 \<Longrightarrow> digit_value 10 (dec_digit d) = Some d"
  by (simp add: digit_value_def unat_dec_digit)

lemma dec_digits: "c \<in> set (dec n) \<Longrightarrow> digit_value 10 c \<noteq> None"
proof (induction n rule: dec.induct)
  case (1 n)
  show ?case
  proof (cases "n < 10")
    case True
    with 1 show ?thesis by (simp add: dec.simps [of n])
  next
    case False
    with 1 have "c \<in> set (dec (n div 10)) \<or> c = dec_digit (n mod 10)" by (auto simp: dec.simps [of n])
    then show ?thesis using 1(1) [OF False] by auto
  qed
qed

lemma digits_value_snoc:
  "digits_value radix (ds @ [c]) = digits_value radix ds * radix + the (digit_value radix c)"
  by (simp add: digits_value_def)

lemma digits_value_dec [simp]: "digits_value 10 (dec n) = n"
proof (induction n rule: dec.induct)
  case (1 n)
  show ?case
  proof (cases "n < 10")
    case True
    then show ?thesis by (simp add: dec.simps [of n] digits_value_def)
  next
    case False
    then show ?thesis
      using 1 by (simp add: dec.simps [of n] digits_value_snoc)
  qed
qed

lemma dec_octet:
  assumes "n < 256"
  shows "dec n \<noteq> [] \<and> length (dec n) \<le> 3 \<and> (1 < length (dec n) \<longrightarrow> hd (dec n) \<noteq> 48)"
proof -
  have small: "dec m = [dec_digit m]" if "m < 10" for m using that by (simp add: dec.simps [of m])
  have nz: "dec_digit m \<noteq> 48" if "0 < m" "m < 10" for m
    using unat_dec_digit [OF that(2)] that(1) by auto
  consider "n < 10" | "10 \<le> n" "n < 100" | "100 \<le> n" by linarith
  then show ?thesis
  proof cases
    case 2
    then have "n div 10 < 10" "0 < n div 10" by simp_all
    with 2 nz [of "n div 10"] show ?thesis by (simp add: dec.simps [of n] small)
  next
    case 3
    then have "\<not> n div 10 < 10" "n div 10 div 10 < 10" "0 < n div 10 div 10" using assms by simp_all
    with 3 nz [of "n div 10 div 10"] show ?thesis
      by (simp add: dec.simps [of n] dec.simps [of "n div 10"] small)
  qed (simp add: small)
qed

lemma read_number_dec:
  assumes "n < 256" and "rest = [] \<or> digit_value 10 (hd rest) = None"
  shows "read_number 10 3 False 255 (dec n @ rest) = Some (n, rest)"
proof -
  have rest: "takeWhile (\<lambda>c. digit_value 10 c \<noteq> None) rest = []"
    "dropWhile (\<lambda>c. digit_value 10 c \<noteq> None) rest = rest"
    using assms(2) by (cases rest; simp)+
  have "takeWhile (\<lambda>c. digit_value 10 c \<noteq> None) (dec n @ rest) = dec n"
    and "dropWhile (\<lambda>c. digit_value 10 c \<noteq> None) (dec n @ rest) = rest"
    using dec_digits [of _ n] rest by (simp_all add: takeWhile_append2 dropWhile_append2)
  then show ?thesis
    using dec_octet [OF assms(1)] assms(1) unfolding read_number_def Let_def by auto
qed

lemma no_digit: "digit_value 10 46 = None" "digit_value 10 58 = None"
  by (simp_all add: digit_value_def)

lemma ipv4_string_eq:
  "ipv4_string [a, b, c, d] =
   dec (unat a) @ 46 # dec (unat b) @ 46 # dec (unat c) @ 46 # dec (unat d)"
  by (simp add: ipv4_string_def ascii_def)

lemma octet_bound: "unat (b :: byte) < 256"
  using unsigned_less [of b] by simp

lemma read_ipv4_string:
  assumes "rest = [] \<or> digit_value 10 (hd rest) = None"
  shows "read_ipv4 (ipv4_string [a, b, c, d] @ rest) = Some ([a, b, c, d], rest)"
proof -
  have last: "read_number 10 3 False 255 (dec (unat d) @ rest) = Some (unat d, rest)"
    by (rule read_number_dec [OF octet_bound assms])
  have dot: "read_number 10 3 False 255 (dec (unat x) @ 46 # xs) = Some (unat x, 46 # xs)" for x :: byte and xs
    by (rule read_number_dec [OF octet_bound]) (simp add: no_digit)
  have four: "4 = Suc (Suc (Suc (Suc 0)))" by simp
  show ?thesis
    unfolding read_ipv4_def ipv4_string_eq four by (simp add: read_separator_def dot last)
qed

lemma parse_ipv4_string: "parse_ip (ipv4_string [a, b, c, d]) = Some (IpV4 [a, b, c, d])"
  using read_ipv4_string [of "[]" a b c d] by (simp add: parse_ip_def)

lemma dec_plain: "c \<in> set (dec n) \<Longrightarrow> c \<noteq> 91 \<and> c \<noteq> 93 \<and> c \<noteq> 58 \<and> c \<noteq> 46"
  using dec_digits [of c n] by (auto simp: digit_value_def)

lemma ipv4_string_plain: "c \<in> set (ipv4_string [a, b, c', d]) \<Longrightarrow> c \<noteq> 91 \<and> c \<noteq> 93 \<and> c \<noteq> 58"
  by (auto simp: ipv4_string_eq dest: dec_plain)

lemma no_brackets_id: "(\<And>c. c \<in> set s \<Longrightarrow> c \<noteq> 91 \<and> c \<noteq> 93) \<Longrightarrow> no_brackets s = s"
  by (simp add: no_brackets_def)

lemma no_brackets_ipv4 [simp]: "no_brackets (ipv4_string [a, b, c, d]) = ipv4_string [a, b, c, d]"
  by (rule no_brackets_id) (auto dest: ipv4_string_plain)

lemma ip_from_ipport_last_colon:
  assumes "58 \<notin> set port"
  shows "ip_from_ipport (ip @ 58 # port) = no_brackets ip"
proof -
  have "dropWhile (\<lambda>c. c \<noteq> 58) (rev port @ 58 # rev ip) = 58 # rev ip"
    using assms by (subst dropWhile_append2) auto
  then show ?thesis by (simp add: ip_from_ipport_def)
qed

lemma subnet_ipv4 [simp]: "subnet (ipv4_string [a, b, c, d]) = ipv4_string [a, b, c, 0]"
  by (simp add: subnet_def parse_ipv4_string)

text \<open>The address helpers on IPv4 peers. From the address and port of a peer, as the events carry
them, the helpers find the address and its /24 network, with the last octet zero; two IPv4 peers are
in the same subnet exactly when their first three octets agree, and the subnet of a subnet is itself.\<close>

theorem ipv4_peer_subnet:
  "ip_from_ipport (ipv4_string [a, b, c, d] @ 58 # dec port) = ipv4_string [a, b, c, d] \<and>
   subnet (ip_from_ipport (ipv4_string [a, b, c, d] @ 58 # dec port)) = ipv4_string [a, b, c, 0] \<and>
   subnet (ipv4_string [a, b, c, 0]) = ipv4_string [a, b, c, 0] \<and>
   (subnet (ipv4_string [a, b, c, d]) = subnet (ipv4_string [a', b', c', d']) \<longleftrightarrow>
    [a, b, c] = [a', b', c'])"
proof -
  have "58 \<notin> set (dec port)" using dec_plain [of 58 port] by auto
  then have ip: "ip_from_ipport (ipv4_string [a, b, c, d] @ 58 # dec port) = ipv4_string [a, b, c, d]"
    by (simp add: ip_from_ipport_last_colon)
  have inj: "[a, b, c, 0] = [a', b', c', 0]" if "ipv4_string [a, b, c, 0] = ipv4_string [a', b', c', 0]"
    using arg_cong [OF that, of parse_ip] by (simp only: parse_ipv4_string option.inject IpAddr.inject)
  have "subnet (ipv4_string [a, b, c, d]) = subnet (ipv4_string [a', b', c', d']) \<longleftrightarrow>
      [a, b, c] = [a', b', c']"
    unfolding subnet_ipv4 by (rule iffI) (use inj in \<open>simp_all only: list.inject\<close>)
  with ip show ?thesis by simp
qed

end
