(* ===== verification/ConnectivityCheck.thy ===== *)
theory ConnectivityCheck
  imports P2pExtractor IpText
begin

text \<open>
  The connectivity check (\<^verbatim>\<open>tools/connectivity-check/src/main.rs\<close>): the task that turns received
  events into addresses to check, the worker threads that share a cache of recent successes, and the
  sink that counts the results and writes the table. The threads are modelled by the steps between
  which others can run: taking an input, finishing a connection attempt, sending an output.
\<close>

section \<open>Data\<close>

datatype AddrMessageVersion = VersionAddr | VersionAddrv2
datatype NetworkType = TypeIPv4 | TypeIPv6

fun addr_version_string :: "AddrMessageVersion \<Rightarrow> string" where
  "addr_version_string VersionAddr = ''addr''"
| "addr_version_string VersionAddrv2 = ''addrv2''"

fun network_type_string :: "NetworkType \<Rightarrow> string" where
  "network_type_string TypeIPv4 = ''IPv4''"
| "network_type_string TypeIPv6 = ''IPv6''"

record Input =
  in_address :: Address_pb
  in_source_id :: u64
  in_timestamp :: u64
  in_source_ip :: "byte list"
  in_version :: AddrMessageVersion

record Output =
  out_input :: Input
  out_result :: bool
  out_cached :: bool
  out_network :: NetworkType
  out_version :: "VersionMessage option"

section \<open>Receiving events\<close>

text \<open>The inputs that a message gives: the addresses of a message, unless there are exactly 1000.\<close>

definition inputs_of ::
    "Address_pb list \<Rightarrow> AddrMessageVersion \<Rightarrow> Metadata_pb \<Rightarrow> u64 \<Rightarrow> Input list" where
  "inputs_of addresses version m time =
     (if length addresses = 1000 then []
      else map (\<lambda>a. \<lparr>in_address = a, in_source_id = pmd_peer_id m, in_timestamp = time,
                     in_source_ip = pmd_addr m, in_version = version\<rparr>) addresses)"

definition handle_inbound_message :: "MessageEvent_pb \<Rightarrow> u64 \<Rightarrow> Input list" where
  "handle_inbound_message msg time =
     (case mev_msg msg of
        Some (Msg_addr a) \<Rightarrow> inputs_of (addr_addresses a) VersionAddr (mev_meta msg) time
      | Some (Msg_addrv2 a) \<Rightarrow> inputs_of (addrv2_addresses a) VersionAddrv2 (mev_meta msg) time
      | _ \<Rightarrow> [])"

text \<open>\<open>None\<close> is a panic: the body of an event of the eBPF extractor is unwrapped.\<close>

definition cc_handle_event :: "'x PeerObserverEvent \<Rightarrow> u64 \<Rightarrow> Input list option" where
  "cc_handle_event ev time =
     (case ev of
        EbpfExtractorEv None \<Rightarrow> None
      | EbpfExtractorEv (Some (EbpfMessage msg)) \<Rightarrow>
          Some (if pmd_inbound (mev_meta msg) then handle_inbound_message msg time else [])
      | _ \<Rightarrow> Some [])"

text \<open>
  The task that receives: each payload with what it decodes to. A panic ends the task and nothing
  else, so the flag tells whether events are still received.
\<close>

definition cc_receive :: "'x Event_pb option \<Rightarrow> Input list option" where
  "cc_receive body =
     (case body of
        None \<Rightarrow> None
      | Some event \<Rightarrow>
          (case pev_event event of
             None \<Rightarrow> Some []
           | Some ev \<Rightarrow> cc_handle_event ev (pev_timestamp event)))"

fun cc_receive_all :: "'x Event_pb option list \<Rightarrow> Input list \<times> bool" where
  "cc_receive_all [] = ([], True)"
| "cc_receive_all (body # bodies) =
     (case cc_receive body of
        None \<Rightarrow> ([], False)
      | Some inputs \<Rightarrow> (case cc_receive_all bodies of (inputs', alive) \<Rightarrow> (inputs @ inputs', alive)))"

section \<open>Checking addresses\<close>

definition WORKERS :: nat where "WORKERS = 50"

text \<open>Times of the monotonic clock are in nanoseconds.\<close>

definition RECENT_CONNECTION_DURATION :: nat where
  "RECENT_CONNECTION_DURATION = 60 * 60 * 1000000000"

definition cache_key :: "Input \<Rightarrow> Address_address \<Rightarrow> byte list" where
  "cache_key input a =
     address_display a @ ascii ''--'' @ dec (unat (address_port (in_address input)))"

text \<open>The network type of an address that can be tried: IPv4 or IPv6, and its text parses.\<close>

definition checkable :: "Address_address \<Rightarrow> NetworkType option" where
  "checkable a =
     (case a of
        Addr_ipv4 s \<Rightarrow> (case parse_ipv4 s of Some x \<Rightarrow> Some TypeIPv4 | None \<Rightarrow> None)
      | Addr_ipv6 s \<Rightarrow> (case parse_ipv6 s of Some x \<Rightarrow> Some TypeIPv6 | None \<Rightarrow> None)
      | _ \<Rightarrow> None)"

definition recent :: "nat \<Rightarrow> nat option \<Rightarrow> bool" where
  "recent now entry = (case entry of Some t \<Rightarrow> now - t < RECENT_CONNECTION_DURATION | None \<Rightarrow> False)"

text \<open>
  A worker between its steps: waiting for an input, trying to connect, about to send an output; or
  panicked, on an input without an address.
\<close>

datatype worker =
    Idle
  | Connecting Input NetworkType "byte list"
  | Sending Output
  | WorkerPanicked

record check_state =
  cs_queue :: "Input list"
  cs_workers :: "worker list"
  cs_cache :: "byte list \<rightharpoonup> nat"
  cs_outputs :: "Output list"

definition check_new :: check_state where
  "check_new = \<lparr>cs_queue = [], cs_workers = replicate WORKERS Idle, cs_cache = Map.empty, cs_outputs = []\<rparr>"

text \<open>What becomes of an input when a worker takes it.\<close>

definition take_input :: "(byte list \<rightharpoonup> nat) \<Rightarrow> nat \<Rightarrow> Input \<Rightarrow> worker" where
  "take_input cache now input =
     (case address_address (in_address input) of
        None \<Rightarrow> WorkerPanicked
      | Some a \<Rightarrow>
          (case checkable a of
             None \<Rightarrow> Idle
           | Some network \<Rightarrow>
               if recent now (cache (cache_key input a)) then
                 Sending \<lparr>out_input = input, out_result = True, out_cached = True,
                          out_network = network, out_version = None\<rparr>
               else Connecting input network (cache_key input a)))"

text \<open>
  The end of a connection attempt: the version message of the peer, if it answered with one. A
  success is stored in the cache.
\<close>

definition finish_connect ::
    "Input \<Rightarrow> NetworkType \<Rightarrow> VersionMessage option \<Rightarrow> worker" where
  "finish_connect input network version =
     Sending \<lparr>out_input = input, out_result = (version \<noteq> None), out_cached = False,
              out_network = network, out_version = version\<rparr>"

datatype worker_step =
    Enqueue Input
  | Take nat nat
  | Connected nat nat "VersionMessage option"
  | Send nat

definition check_step :: "worker_step \<Rightarrow> check_state \<Rightarrow> check_state" where
  "check_step s st =
     (case s of
        Enqueue input \<Rightarrow> st\<lparr>cs_queue := cs_queue st @ [input]\<rparr>
      | Take w now \<Rightarrow>
          (case cs_queue st of
             input # queue \<Rightarrow>
               if w < length (cs_workers st) \<and> cs_workers st ! w = Idle then
                 st\<lparr>cs_queue := queue,
                    cs_workers := (cs_workers st)[w := take_input (cs_cache st) now input]\<rparr>
               else st
           | [] \<Rightarrow> st)
      | Connected w now version \<Rightarrow>
          (if w < length (cs_workers st) then
             (case cs_workers st ! w of
                Connecting input network key \<Rightarrow>
                  st\<lparr>cs_workers := (cs_workers st)[w := finish_connect input network version],
                     cs_cache := (if version \<noteq> None then (cs_cache st)(key \<mapsto> now) else cs_cache st)\<rparr>
              | _ \<Rightarrow> st)
           else st)
      | Send w \<Rightarrow>
          (if w < length (cs_workers st) then
             (case cs_workers st ! w of
                Sending out \<Rightarrow>
                  st\<lparr>cs_workers := (cs_workers st)[w := Idle], cs_outputs := cs_outputs st @ [out]\<rparr>
              | _ \<Rightarrow> st)
           else st))"

definition check_run :: "worker_step list \<Rightarrow> check_state \<Rightarrow> check_state" where
  "check_run ss st = fold check_step ss st"

section \<open>The sink\<close>

text \<open>
  The offset of an address's time stamp as the sink computes it, on 64-bit integers; the direction
  is a label of the histogram, its absolute value the observation.
\<close>

definition timestamp_offset :: "Output \<Rightarrow> s64" where
  "timestamp_offset out =
     in_timestamp (out_input out) - ucast (address_timestamp (in_address (out_input out)))"

definition offset_direction :: "Output \<Rightarrow> string" where
  "offset_direction out = (if 0 \<le>s timestamp_offset out then ''past'' else ''future'')"

definition offset_observed :: "Output \<Rightarrow> int" where
  "offset_observed out = \<bar>sint (timestamp_offset out)\<bar>"

record Row =
  row_result_timestamp :: u64
  row_addr_address :: "byte list"
  row_addr_port :: u32
  row_addr_services :: u64
  row_addr_timestamp :: u64
  row_addr_network_type :: string
  row_addr_version :: string
  row_source_address :: "byte list"
  row_source_id :: u64
  row_source_tor_exit_node :: bool
  row_result_success :: bool
  row_result_cached :: bool
  row_version :: bool
  row_version_useragent :: "byte list"
  row_version_relay :: bool
  row_version_version :: u32
  row_version_services :: u64
  row_version_start_height :: s32
  row_version_nonce :: u64
  row_version_timestamp :: s64
  row_version_sender_address :: "byte list"
  row_version_sender_port :: "16 word"

text \<open>
  One line of the table; \<open>tor_exit\<close> is the table of Tor exit nodes the build generates, \<open>sender_ip\<close>
  rust-bitcoin's reading of the sender's address. \<open>None\<close> is the panic on an output without address.
\<close>

definition sink_row ::
    "(byte list \<Rightarrow> bool) \<Rightarrow> (NetAddress \<Rightarrow> byte list option) \<Rightarrow> u64 \<Rightarrow> Output \<Rightarrow> Row option" where
  "sink_row tor_exit sender_ip now out =
     (let input = out_input out; source_ip = ip_from_ipport (in_source_ip input); v = out_version out in
      map_option (\<lambda>a.
       \<lparr>row_result_timestamp = now,
        row_addr_address = address_display a,
        row_addr_port = address_port (in_address input),
        row_addr_services = address_services (in_address input),
        row_addr_timestamp = in_timestamp input,
        row_addr_network_type = network_type_string (out_network out),
        row_addr_version = addr_version_string (in_version input),
        row_source_address = source_ip,
        row_source_id = in_source_id input,
        row_source_tor_exit_node = tor_exit source_ip,
        row_result_success = out_result out,
        row_result_cached = out_cached out,
        row_version = (v \<noteq> None),
        row_version_useragent = (case v of None \<Rightarrow> [] | Some m \<Rightarrow> vm_user_agent m),
        row_version_relay = (case v of None \<Rightarrow> False | Some m \<Rightarrow> vm_relay m),
        row_version_version = (case v of None \<Rightarrow> 0 | Some m \<Rightarrow> vm_version m),
        row_version_services = (case v of None \<Rightarrow> 0 | Some m \<Rightarrow> vm_services m),
        row_version_start_height = (case v of None \<Rightarrow> - 1 | Some m \<Rightarrow> vm_start_height m),
        row_version_nonce = (case v of None \<Rightarrow> 0 | Some m \<Rightarrow> vm_nonce m),
        row_version_timestamp = (case v of None \<Rightarrow> 0 | Some m \<Rightarrow> vm_timestamp m),
        row_version_sender_address =
          (case v of None \<Rightarrow> [] | Some m \<Rightarrow> (case sender_ip (vm_sender m) of None \<Rightarrow> [] | Some ip \<Rightarrow> ip)),
        row_version_sender_port = (case v of None \<Rightarrow> 0 | Some m \<Rightarrow> na_port (vm_sender m))\<rparr>)
       (address_address (in_address input)))"

text \<open>The counters an output increments, with their labels.\<close>

datatype counter =
    ADDR_TRIED
  | ADDR_SUCCESSFUL_CONNECTION
  | ADDR_UNSUCCESSFUL_CONNECTION
  | ADDR_CACHED
  | ADDR_TRIED_FROM_TOR_EXIT
  | ADDR_SUCCESSFUL_CONNECTION_TOR_EXIT

definition sink_counts :: "(byte list \<Rightarrow> bool) \<Rightarrow> Output \<Rightarrow> (counter \<times> byte list list) list" where
  "sink_counts tor_exit out =
     (let network = ascii (network_type_string (out_network out));
          version = ascii (addr_version_string (in_version (out_input out)));
          source_ip = ip_from_ipport (in_source_ip (out_input out)) in
      [(ADDR_TRIED, [network, version])] @
      [(if out_result out then ADDR_SUCCESSFUL_CONNECTION else ADDR_UNSUCCESSFUL_CONNECTION,
        [network, version, source_ip])] @
      (if out_cached out then [(ADDR_CACHED, [network, version])] else []) @
      (if tor_exit source_ip then
         [(ADDR_TRIED_FROM_TOR_EXIT, [network, version])] @
         (if out_result out then [(ADDR_SUCCESSFUL_CONNECTION_TOR_EXIT, [network, version])] else [])
       else []))"

end
