(* ===== verification/ConnectivityProperties.thy ===== *)
theory ConnectivityProperties
  imports ConnectivityCheck "HOL-Library.Multiset"
begin

text \<open>
  Properties of the connectivity check: for every interleaving of its workers each address that can
  be tried gives one output, and every output is backed by an attempt, those from the cache by a recent success of the same address
  and port; what the
  receiving task makes of a sequence of payloads; and the offset of the time stamps.
\<close>

section \<open>Receiving\<close>

text \<open>What is received. The addresses of the payloads are queued in order up to the first payload
that does not decode or is an event of the eBPF extractor without a body; such a payload ends the
receiving task, so that no later event is looked at while the tool goes on without input.\<close>

theorem receiving_stops_at_a_bad_event:
  "cc_receive_all payloads =
     (concat (map (\<lambda>b. the (cc_receive b)) (takeWhile (\<lambda>b. cc_receive b \<noteq> None) payloads)),
      list_all (\<lambda>b. cc_receive b \<noteq> None) payloads) \<and>
   (cc_receive body = None \<longleftrightarrow>
      (case body of None \<Rightarrow> True | Some event \<Rightarrow> pev_event event = Some (EbpfExtractorEv None)))"
proof
  show "cc_receive_all payloads =
     (concat (map (\<lambda>b. the (cc_receive b)) (takeWhile (\<lambda>b. cc_receive b \<noteq> None) payloads)),
      list_all (\<lambda>b. cc_receive b \<noteq> None) payloads)"
    by (induction payloads) (auto split: option.split)
  show "cc_receive body = None \<longleftrightarrow>
      (case body of None \<Rightarrow> True | Some event \<Rightarrow> pev_event event = Some (EbpfExtractorEv None))"
    by (auto simp: cc_receive_def cc_handle_event_def
        split: option.split PeerObserverEvent.split ebpf_event.split)
qed

lemma received_input_timestamp:
  "cc_receive (Some event) = Some inputs \<Longrightarrow> input \<in> set inputs \<Longrightarrow> in_timestamp input = pev_timestamp event"
  by (auto simp: cc_receive_def cc_handle_event_def handle_inbound_message_def inputs_of_def
      split: option.splits PeerObserverEvent.splits ebpf_event.splits P2pMsg.splits if_splits)

section \<open>Time stamps\<close>

text \<open>C27: The offset of the time stamps mixes units. Events are stamped in milliseconds, addresses in
seconds, and the sink subtracts one from the other. So from 50 days after the epoch on, every address
counts as one from the past, however far in the future its time stamp is, and what is observed as
seconds is the number of milliseconds since the epoch less the time stamp.\<close>

theorem offset_always_past:
  assumes "cc_receive (Some event) = Some inputs" and "out_input out \<in> set inputs"
    and "pev_timestamp event = of_nat ms" and "2 ^ 32 \<le> ms" and "ms < 2 ^ 63"
  shows "offset_direction out = ''past'' \<and>
         offset_observed out = int ms - int (unat (address_timestamp (in_address (out_input out))))"
proof -
  let ?ts = "address_timestamp (in_address (out_input out))"
  let ?ms = "of_nat ms :: u64" and ?w = "ucast ?ts :: u64"
  have "unat ?ts < 2 ^ 32" using unsigned_less [of ?ts] by simp
  then have small: "unat ?ts \<le> ms" using assms(4) by simp
  have "uint ?ts < 2 ^ LENGTH(32)" by (rule unsigned_less)
  then have uw: "uint ?w = int (unat ?ts)" by (simp add: unsigned_ucast_eq take_bit_int_eq_self_iff)
  have um: "uint ?ms = int ms" using assms(5) by (simp add: uint_nat unat_of_nat)
  have "int (unat ?ts) \<le> int ms" using small by (simp only: of_nat_le_iff)
  then have small': "uint ?ts \<le> int ms" by simp
  have "uint (?ms - ?w) = int ms - int (unat ?ts)"
    using small' uw um assms(5) by (subst uint_sub_lem [THEN iffD1]) simp_all
  moreover have "int ms - int (unat ?ts) < 2 ^ 63"
  proof -
    have "int ms < int (2 ^ 63)" using assms(5) by (simp only: of_nat_less_iff)
    then have "int ms < 2 ^ 63" by simp
    moreover have "0 \<le> int (unat ?ts)" by simp
    ultimately show ?thesis by linarith
  qed
  ultimately have sint: "sint (?ms - ?w) = int ms - int (unat ?ts)"
    using small' by (simp add: sint_uint signed_take_bit_int_eq_self_iff)
  have offset: "timestamp_offset out = ?ms - ?w"
    using received_input_timestamp [OF assms(1,2)] assms(3) by (simp add: timestamp_offset_def)
  have "0 \<le>s ?ms - ?w" using sint small' by (simp add: word_sle_eq)
  with sint small' show ?thesis
    by (simp add: offset_direction_def offset_observed_def offset)
qed

text \<open>An address that is ten minutes ahead of the clock.\<close>

definition demo_cc_meta :: Metadata_pb where
  "demo_cc_meta = \<lparr>pmd_peer_id = 4, pmd_addr = ascii ''10.0.0.1:8333'', pmd_conn_type = 1,
     pmd_command = ascii ''addr'', pmd_inbound = True, pmd_size = 31\<rparr>"

definition demo_cc_address :: Address_pb where
  "demo_cc_address = \<lparr>address_timestamp = 1700000600, address_address = Some (Addr_ipv4 (ascii ''10.0.0.2'')),
     address_services = 9, address_port = 8333\<rparr>"

definition demo_cc_event :: "unit Event_pb" where
  "demo_cc_event = \<lparr>pev_timestamp = of_nat 1700000000000,
     pev_event = Some (EbpfExtractorEv (Some (EbpfMessage
       \<lparr>mev_meta = demo_cc_meta, mev_msg = Some (Msg_addr \<lparr>addr_addresses = [demo_cc_address]\<rparr>)\<rparr>)))\<rparr>"

definition demo_cc_input :: Input where
  "demo_cc_input = \<lparr>in_address = demo_cc_address, in_source_id = 4, in_timestamp = of_nat 1700000000000,
     in_source_ip = ascii ''10.0.0.1:8333'', in_version = VersionAddr\<rparr>"

definition demo_cc_output :: Output where
  "demo_cc_output = \<lparr>out_input = demo_cc_input, out_result = False, out_cached = False,
     out_network = TypeIPv4, out_version = None\<rparr>"

theorem offset_always_past_witness:
  "offset_direction demo_cc_output = ''past'' \<and> offset_observed demo_cc_output = 1698299999400"
proof -
  have "cc_receive (Some demo_cc_event) = Some [demo_cc_input]"
    by (simp add: cc_receive_def demo_cc_event_def cc_handle_event_def handle_inbound_message_def
        inputs_of_def demo_cc_meta_def demo_cc_input_def)
  moreover have "out_input demo_cc_output \<in> set [demo_cc_input]" by (simp add: demo_cc_output_def)
  moreover have "pev_timestamp demo_cc_event = of_nat 1700000000000" by (simp add: demo_cc_event_def)
  ultimately have "offset_direction demo_cc_output = ''past'' \<and>
      offset_observed demo_cc_output =
        int 1700000000000 - int (unat (address_timestamp (in_address (out_input demo_cc_output))))"
    by (rule offset_always_past) simp_all
  then show ?thesis by (simp add: demo_cc_output_def demo_cc_input_def demo_cc_address_def)
qed

section \<open>The workers\<close>

fun worker_inputs :: "worker \<Rightarrow> Input list" where
  "worker_inputs (Connecting input network key) = [input]"
| "worker_inputs (Sending out) = [out_input out]"
| "worker_inputs _ = []"

definition in_flight :: "check_state \<Rightarrow> Input list" where
  "in_flight st = concat (map worker_inputs (cs_workers st))"

fun enqueued :: "worker_step list \<Rightarrow> Input list" where
  "enqueued [] = []"
| "enqueued (Enqueue input # ss) = input # enqueued ss"
| "enqueued (_ # ss) = enqueued ss"

definition tryable :: "Input \<Rightarrow> bool" where
  "tryable input = (case address_address (in_address input) of None \<Rightarrow> False | Some a \<Rightarrow> checkable a \<noteq> None)"

text \<open>Every tryable input is waiting, with a worker, or in the output.\<close>

definition located :: "check_state \<Rightarrow> Input multiset" where
  "located st = mset (filter tryable (cs_queue st)) + mset (in_flight st) + mset (map out_input (cs_outputs st))"

lemma mset_update_concat:
  "w < length ws \<Longrightarrow>
   mset (concat (map f (ws[w := x]))) + mset (f (ws ! w)) = mset (concat (map f ws)) + mset (f x)"
proof (induction ws arbitrary: w)
  case (Cons y ws)
  then show ?case by (cases w) (auto simp: ac_simps)
qed simp

lemma take_input_located:
  "mset (worker_inputs (take_input cache now input)) = mset (filter tryable [input])"
  by (auto simp: take_input_def tryable_def split: option.split)

lemma update_in_flight:
  assumes "w < length (cs_workers st)" and "mset (worker_inputs x) = mset (worker_inputs (cs_workers st ! w)) + d"
  shows "mset (concat (map worker_inputs ((cs_workers st)[w := x]))) = mset (in_flight st) + d"
  using mset_update_concat [OF assms(1), of worker_inputs x] assms(2) by (simp add: in_flight_def)

lemma update_in_flight_less:
  assumes "w < length (cs_workers st)" and "mset (worker_inputs (cs_workers st ! w)) = mset (worker_inputs x) + d"
  shows "mset (concat (map worker_inputs ((cs_workers st)[w := x]))) + d = mset (in_flight st)"
  using mset_update_concat [OF assms(1), of worker_inputs x] assms(2) by (simp add: in_flight_def)

lemma step_located:
  "located (check_step s st) = located st + mset (filter tryable (enqueued [s])) \<and>
   length (cs_workers (check_step s st)) = length (cs_workers st)"
proof (cases s)
  case (Enqueue input)
  then show ?thesis by (simp add: check_step_def located_def in_flight_def)
next
  case (Take w now)
  show ?thesis
  proof (cases "\<exists>input queue. cs_queue st = input # queue \<and> w < length (cs_workers st) \<and> cs_workers st ! w = Idle")
    case True
    then obtain input queue where q: "cs_queue st = input # queue" "w < length (cs_workers st)"
      "cs_workers st ! w = Idle" by auto
    have "mset (concat (map worker_inputs ((cs_workers st)[w := take_input (cs_cache st) now input]))) =
        mset (in_flight st) + mset (filter tryable [input])"
      using take_input_located [of "cs_cache st" now input] q by (intro update_in_flight) simp_all
    with Take q show ?thesis by (simp add: check_step_def located_def in_flight_def)
  qed (use Take in \<open>auto simp: check_step_def split: list.split\<close>)
next
  case (Connected w now version)
  show ?thesis
  proof (cases "\<exists>input network key. w < length (cs_workers st) \<and> cs_workers st ! w = Connecting input network key")
    case True
    then obtain input network key where q: "w < length (cs_workers st)"
      "cs_workers st ! w = Connecting input network key" by auto
    have "mset (concat (map worker_inputs ((cs_workers st)[w := finish_connect input network version]))) =
        mset (in_flight st) + {#}"
      using q by (intro update_in_flight) (simp_all add: finish_connect_def)
    with Connected q show ?thesis by (simp add: check_step_def located_def in_flight_def)
  qed (use Connected in \<open>auto simp: check_step_def split: worker.split\<close>)
next
  case (Send w)
  show ?thesis
  proof (cases "\<exists>out. w < length (cs_workers st) \<and> cs_workers st ! w = Sending out")
    case True
    then obtain out where q: "w < length (cs_workers st)" "cs_workers st ! w = Sending out" by auto
    have "mset (concat (map worker_inputs ((cs_workers st)[w := Idle]))) + {#out_input out#} =
        mset (in_flight st)"
      using q by (intro update_in_flight_less) simp_all
    with Send q show ?thesis by (simp add: check_step_def located_def in_flight_def ac_simps)
  qed (use Send in \<open>auto simp: check_step_def split: worker.split\<close>)
qed

lemma enqueued_append [simp]: "enqueued (ss @ ss') = enqueued ss @ enqueued ss'"
  by (induction ss rule: enqueued.induct) auto

text \<open>C26: No address is lost and none is checked twice for one announcement. For every interleaving of
the 50 workers and of the queue, the addresses that were announced and can be tried are exactly those
that still wait, those with a worker, and those in the output, with multiplicity; and nothing else
reaches the output.\<close>

theorem each_address_gives_one_output:
  "mset (filter tryable (enqueued ss)) =
     mset (filter tryable (cs_queue (check_run ss check_new))) +
     mset (in_flight (check_run ss check_new)) +
     mset (map out_input (cs_outputs (check_run ss check_new))) \<and>
   length (cs_workers (check_run ss check_new)) = WORKERS"
proof -
  have "located (check_run ss check_new) = mset (filter tryable (enqueued ss)) \<and>
      length (cs_workers (check_run ss check_new)) = WORKERS"
  proof (induction ss rule: rev_induct)
    case Nil
    have "concat (replicate n ([] :: Input list)) = []" for n by (induction n) simp_all
    then show ?case by (simp add: check_run_def check_new_def located_def in_flight_def)
  next
    case (snoc s ss)
    then show ?case using step_located [of s "check_run ss check_new"] by (simp add: check_run_def)
  qed
  then show ?thesis by (simp add: located_def)
qed

section \<open>The cache\<close>

text \<open>The cache's key tells addresses that can be tried, and their ports, apart.\<close>

lemma dec_inj: "dec m = dec n \<Longrightarrow> m = n"
  by (metis digits_value_dec)

lemma dec_no_dash: "45 \<notin> set (dec n)"
  using dec_digits [of 45 n] by (auto simp: digit_value_def)

lemma split_at_last_dash:
  assumes "xs @ [45, 45] @ ds = ys @ [45, 45] @ es" and "45 \<notin> set ds" and "45 \<notin> set es"
  shows "xs = ys \<and> ds = (es :: byte list)"
proof -
  have last: "takeWhile (\<lambda>c. c \<noteq> 45) (rev (zs @ [45, 45] @ fs)) = rev fs" if "45 \<notin> set fs" for zs fs :: "byte list"
  proof -
    have "takeWhile (\<lambda>c. c \<noteq> 45) (rev fs @ 45 # 45 # rev zs) = rev fs @ takeWhile (\<lambda>c. c \<noteq> 45) (45 # 45 # rev zs)"
      using that by (intro takeWhile_append2) auto
    then show ?thesis by simp
  qed
  have "rev ds = rev es" using last [OF assms(2), of xs] last [OF assms(3), of ys] assms(1) by metis
  then show ?thesis using assms(1) by simp
qed

lemma cache_key_inj:
  assumes "cache_key i a = cache_key j b" and "checkable a \<noteq> None" and "checkable b \<noteq> None"
  shows "a = b \<and> address_port (in_address i) = address_port (in_address j)"
proof -
  let ?p = "dec (unat (address_port (in_address i)))" and ?q = "dec (unat (address_port (in_address j)))"
  have "address_display a @ [45, 45] @ ?p = address_display b @ [45, 45] @ ?q"
    using assms(1) by (simp add: cache_key_def ascii_def)
  from split_at_last_dash [OF this dec_no_dash dec_no_dash]
  have same: "address_display a = address_display b" "?p = ?q" by simp_all
  have "a = b" using same(1) assms(2,3) by (cases a; cases b) (auto simp: checkable_def ascii_def)
  moreover have "unat (address_port (in_address i)) = unat (address_port (in_address j))" using same(2) by (rule dec_inj)
  ultimately show ?thesis by (simp add: word_unat_eq_iff)
qed

text \<open>
  The handshakes of a run: address, port and time of every connection attempt of a worker that the
  peer answered with a version message; and when an address and port last had one.
\<close>

definition succeeds :: "worker_step \<Rightarrow> check_state \<Rightarrow> ((Address_address \<times> u32) \<times> nat) list" where
  "succeeds s st =
     (case s of
        Connected w now (Some version) \<Rightarrow>
          if w < length (cs_workers st) then
            (case cs_workers st ! w of
               Connecting input network key \<Rightarrow>
                 (case address_address (in_address input) of
                    Some a \<Rightarrow> [((a, address_port (in_address input)), now)]
                  | None \<Rightarrow> [])
             | _ \<Rightarrow> [])
          else []
      | _ \<Rightarrow> [])"

fun successes :: "worker_step list \<Rightarrow> check_state \<Rightarrow> ((Address_address \<times> u32) \<times> nat) list" where
  "successes [] st = []"
| "successes (s # ss) st = succeeds s st @ successes ss (check_step s st)"

definition last_success :: "worker_step list \<Rightarrow> Address_address \<Rightarrow> u32 \<Rightarrow> nat option" where
  "last_success ss a port = map_of (rev (successes ss check_new)) (a, port)"

lemma check_run_snoc: "check_run (ss @ [s]) st = check_step s (check_run ss st)"
  by (simp add: check_run_def)

lemma successes_snoc: "successes (ss @ [s]) st = successes ss st @ succeeds s (check_run ss st)"
  by (induction ss arbitrary: st) (simp_all add: check_run_def)

text \<open>
  How an output comes about. A worker takes the input (\<open>taken\<close>) at a time when the address and port has or
  has not been answered within the hour; in the first case the output is a success from the cache, in
  the second it is what the worker's own connection attempt gives.
\<close>

definition taken :: "worker_step list \<Rightarrow> nat \<Rightarrow> Input \<Rightarrow> Address_address \<Rightarrow> bool \<Rightarrow> worker_step list \<Rightarrow> bool" where
  "taken ss w input a cached ss2 \<longleftrightarrow>
     (\<exists>ss1 now queue. ss = ss1 @ Take w now # ss2 \<and> cs_queue (check_run ss1 check_new) = input # queue \<and>
        cached = (case last_success ss1 a (address_port (in_address input)) of
            Some t \<Rightarrow> now - t < 60 * 60 * 1000000000
          | None \<Rightarrow> False))"

definition backed :: "worker_step list \<Rightarrow> Output \<Rightarrow> bool" where
  "backed ss out \<longleftrightarrow>
     (\<exists>a w ss2. address_address (in_address (out_input out)) = Some a \<and> checkable a = Some (out_network out) \<and>
        taken ss w (out_input out) a (out_cached out) ss2 \<and>
        (if out_cached out then out_result out \<and> out_version out = None
         else out_result out = (out_version out \<noteq> None) \<and>
           (\<exists>before now after. ss = before @ Connected w now (out_version out) # after \<and>
              w < length (cs_workers (check_run before check_new)) \<and>
              cs_workers (check_run before check_new) ! w =
                Connecting (out_input out) (out_network out) (cache_key (out_input out) a))))"

definition attempting :: "worker_step list \<Rightarrow> nat \<Rightarrow> worker \<Rightarrow> bool" where
  "attempting ss w wk \<longleftrightarrow>
     (case wk of
        Connecting input network key \<Rightarrow>
          (\<exists>a ss2. address_address (in_address input) = Some a \<and> checkable a = Some network \<and>
             key = cache_key input a \<and> taken ss w input a False ss2)
      | Sending out \<Rightarrow> backed ss out
      | _ \<Rightarrow> True)"

definition run_inv :: "worker_step list \<Rightarrow> bool" where
  "run_inv ss \<longleftrightarrow>
     (let st = check_run ss check_new in
      (\<forall>w < length (cs_workers st). attempting ss w (cs_workers st ! w)) \<and>
      (\<forall>out \<in> set (cs_outputs st). backed ss out) \<and>
      (\<forall>input a. checkable a \<noteq> None \<longrightarrow>
         cs_cache st (cache_key input a) = last_success ss a (address_port (in_address input))))"

lemma run_invD:
  assumes "run_inv ss"
  shows "w < length (cs_workers (check_run ss check_new)) \<Longrightarrow> attempting ss w (cs_workers (check_run ss check_new) ! w)"
    and "out \<in> set (cs_outputs (check_run ss check_new)) \<Longrightarrow> backed ss out"
    and "checkable a \<noteq> None \<Longrightarrow>
      cs_cache (check_run ss check_new) (cache_key input a) = last_success ss a (address_port (in_address input))"
  using assms by (auto simp: run_inv_def Let_def)

lemma taken_snoc: "taken ss w input a cached ss2 \<Longrightarrow> taken (ss @ [s]) w input a cached (ss2 @ [s])"
  unfolding taken_def by (metis append_Cons append_assoc)

lemma attempt_snoc:
  "(\<exists>before now after. ss = before @ Connected w now version # after \<and> P before) \<Longrightarrow>
    (\<exists>before now after. ss @ [s] = before @ Connected w now version # after \<and> P before)"
  by (metis append_Cons append_assoc)

lemma backed_snoc: assumes "backed ss out" shows "backed (ss @ [s]) out"
proof -
  from assms obtain a w ss2 where a: "address_address (in_address (out_input out)) = Some a"
    "checkable a = Some (out_network out)" "taken ss w (out_input out) a (out_cached out) ss2"
    "if out_cached out then out_result out \<and> out_version out = None
     else out_result out = (out_version out \<noteq> None) \<and>
       (\<exists>before now after. ss = before @ Connected w now (out_version out) # after \<and>
          w < length (cs_workers (check_run before check_new)) \<and>
          cs_workers (check_run before check_new) ! w =
            Connecting (out_input out) (out_network out) (cache_key (out_input out) a))"
    unfolding backed_def by blast
  have "taken (ss @ [s]) w (out_input out) a (out_cached out) (ss2 @ [s])" by (rule taken_snoc [OF a(3)])
  moreover have "if out_cached out then out_result out \<and> out_version out = None
     else out_result out = (out_version out \<noteq> None) \<and>
       (\<exists>before now after. ss @ [s] = before @ Connected w now (out_version out) # after \<and>
          w < length (cs_workers (check_run before check_new)) \<and>
          cs_workers (check_run before check_new) ! w =
            Connecting (out_input out) (out_network out) (cache_key (out_input out) a))"
  proof (cases "out_cached out")
    case False
    then show ?thesis using a(4) by (simp only: if_False) (intro conjI attempt_snoc; blast)
  qed (use a(4) in simp)
  ultimately show ?thesis using a(1,2) unfolding backed_def by blast
qed

lemma attempting_snoc: "attempting ss w wk \<Longrightarrow> attempting (ss @ [s]) w wk"
  using taken_snoc backed_snoc by (fastforce simp: attempting_def split: worker.splits)

text \<open>A step that gives one worker something else to do.\<close>

lemma run_inv_snoc:
  assumes inv: "run_inv ss" and st: "st = check_run ss check_new" and st': "check_step s st = st'"
    and workers: "cs_workers st' = cs_workers st \<or> w < length (cs_workers st) \<and> cs_workers st' = (cs_workers st)[w := x]"
    and x: "attempting (ss @ [s]) w x"
    and outputs: "\<And>out. out \<in> set (cs_outputs st') \<Longrightarrow> out \<in> set (cs_outputs st) \<or> backed ss out"
    and cache: "\<And>input a. checkable a \<noteq> None \<Longrightarrow> cs_cache st' (cache_key input a) =
      (case map_of (rev (succeeds s st)) (a, address_port (in_address input)) of
         Some t \<Rightarrow> Some t
       | None \<Rightarrow> cs_cache st (cache_key input a))"
  shows "run_inv (ss @ [s])"
proof -
  have run: "check_run (ss @ [s]) check_new = st'" by (simp add: check_run_snoc st' flip: st)
  have "attempting (ss @ [s]) v (cs_workers st' ! v)" if "v < length (cs_workers st')" for v
    using workers x that run_invD(1) [OF inv, folded st, of v] attempting_snoc [of ss v _ s]
    by (cases "v = w") auto
  moreover have "backed (ss @ [s]) out" if "out \<in> set (cs_outputs st')" for out
    using outputs [OF that] run_invD(2) [OF inv, folded st] backed_snoc by blast
  moreover have "cs_cache st' (cache_key input a) = last_success (ss @ [s]) a (address_port (in_address input))"
    if "checkable a \<noteq> None" for input a
    using cache [OF that, of input] run_invD(3) [OF inv that, folded st, of input]
    by (simp add: last_success_def successes_snoc map_of_append map_add_def flip: st split: option.split)
  ultimately show ?thesis by (simp add: run_inv_def run Let_def)
qed

lemma take_attempting:
  assumes inv: "run_inv ss" and "st = check_run ss check_new" and "cs_queue st = input # queue"
  shows "attempting (ss @ [Take w now]) w (take_input (cs_cache st) now input)"
proof (cases "\<exists>a network. address_address (in_address input) = Some a \<and> checkable a = Some network")
  case True
  then obtain a network where a: "address_address (in_address input) = Some a" "checkable a = Some network" by blast
  let ?cached = "recent now (cs_cache st (cache_key input a))"
  have "cs_cache st (cache_key input a) = last_success ss a (address_port (in_address input))"
    using run_invD(3) [OF inv, of a input] a(2) by (simp add: assms(2))
  then have "?cached = (case last_success ss a (address_port (in_address input)) of
      Some t \<Rightarrow> now - t < 60 * 60 * 1000000000 | None \<Rightarrow> False)"
    by (simp only: recent_def RECENT_CONNECTION_DURATION_def)
  then have "taken (ss @ [Take w now]) w input a ?cached []"
    using assms(2,3) unfolding taken_def by blast
  then show ?thesis
    using a by (cases ?cached) (auto simp: attempting_def take_input_def backed_def)
next
  case False
  then show ?thesis by (auto simp: take_input_def attempting_def split: option.split)
qed

lemma connected_attempting:
  assumes inv: "run_inv ss" and st: "st = check_run ss check_new"
    and w: "w < length (cs_workers st)" "cs_workers st ! w = Connecting input network key"
  shows "attempting (ss @ [Connected w now version]) w (finish_connect input network version)"
proof -
  from run_invD(1) [OF inv, of w] w st obtain a ss2 where a: "address_address (in_address input) = Some a"
    "checkable a = Some network" "key = cache_key input a" "taken ss w input a False ss2"
    by (auto simp: attempting_def)
  have "taken (ss @ [Connected w now version]) w input a False (ss2 @ [Connected w now version])"
    by (rule taken_snoc [OF a(4)])
  moreover have "w < length (cs_workers (check_run ss check_new))"
    "cs_workers (check_run ss check_new) ! w = Connecting input network (cache_key input a)"
    using w st a(3) by simp_all
  ultimately show ?thesis using a(1,2) by (fastforce simp: attempting_def finish_connect_def backed_def)
qed

lemma run_inv_step: assumes inv: "run_inv ss" shows "run_inv (ss @ [s])"
proof -
  define st where "st = check_run ss check_new"
  have idle: "attempting ss' w Idle" for ss' w by (simp add: attempting_def)
  have same: "run_inv (ss @ [s])" if "check_step s st = st" "succeeds s st = []"
    using that by (intro run_inv_snoc [OF inv st_def that(1), where x = Idle]) (simp_all add: idle)
  show ?thesis
  proof (cases s)
    case (Enqueue input)
    then show ?thesis
      by (intro run_inv_snoc [OF inv st_def refl, where x = Idle]) (simp_all add: idle check_step_def succeeds_def)
  next
    case (Take w now)
    show ?thesis
    proof (cases "\<exists>input queue. cs_queue st = input # queue \<and> w < length (cs_workers st) \<and> cs_workers st ! w = Idle")
      case True
      then obtain input queue where q: "cs_queue st = input # queue" "w < length (cs_workers st)"
        "cs_workers st ! w = Idle" by auto
      show ?thesis
        by (rule run_inv_snoc [OF inv st_def refl, where x = "take_input (cs_cache st) now input" and w = w])
          (use take_attempting [OF inv st_def q(1), of w now] q in \<open>simp_all add: Take check_step_def succeeds_def\<close>)
    next
      case False
      then have "check_step s st = st" by (auto simp: Take check_step_def split: list.split)
      then show ?thesis by (rule same) (simp add: Take succeeds_def)
    qed
  next
    case (Connected w now version)
    show ?thesis
    proof (cases "\<exists>input network key. w < length (cs_workers st) \<and> cs_workers st ! w = Connecting input network key")
      case True
      then obtain input network key where q: "w < length (cs_workers st)"
        "cs_workers st ! w = Connecting input network key" by auto
      from run_invD(1) [OF inv, folded st_def, OF q(1)] q(2) obtain a where a:
        "address_address (in_address input) = Some a" "checkable a = Some network" "key = cache_key input a"
        by (auto simp: attempting_def)
      have key: "(cache_key input' b = key) = ((b, address_port (in_address input')) = (a, address_port (in_address input)))"
        if "checkable b \<noteq> None" for input' b
        using cache_key_inj [of input' b input a] that a(2,3) by (auto simp: cache_key_def)
      show ?thesis
        by (rule run_inv_snoc [OF inv st_def refl, where x = "finish_connect input network version" and w = w])
          (use connected_attempting [OF inv st_def q, of now version] q a key in
            \<open>auto simp: Connected check_step_def succeeds_def split: option.splits\<close>)
    next
      case False
      then have "check_step s st = st" by (auto simp: Connected check_step_def split: worker.split)
      moreover have "succeeds s st = []" using False by (auto simp: Connected succeeds_def split: worker.split option.split)
      ultimately show ?thesis by (rule same)
    qed
  next
    case (Send w)
    show ?thesis
    proof (cases "\<exists>out. w < length (cs_workers st) \<and> cs_workers st ! w = Sending out")
      case True
      then obtain out where q: "w < length (cs_workers st)" "cs_workers st ! w = Sending out" by auto
      have "backed ss out" using run_invD(1) [OF inv, folded st_def, OF q(1)] q(2) by (simp add: attempting_def)
      then show ?thesis
        by (intro run_inv_snoc [OF inv st_def refl, where x = Idle and w = w])
          (use q in \<open>auto simp: Send idle check_step_def succeeds_def\<close>)
    next
      case False
      then have "check_step s st = st" by (auto simp: Send check_step_def split: worker.split)
      then show ?thesis by (rule same) (simp add: Send succeeds_def)
    qed
  qed
qed

lemma run_inv_all: "run_inv ss"
proof (induction ss rule: rev_induct)
  case Nil
  then show ?case
    by (simp add: run_inv_def check_run_def check_new_def attempting_def last_success_def)
qed (rule run_inv_step)

text \<open>C25: What an output means, for every interleaving of the workers. It is of an address that can be
tried, with its network, which a worker took from the queue. If another attempt on the same address and
port had been answered with a version message, the last time less than an hour before the worker took
it, the output is a success from the cache without a version; otherwise it says what this worker's own
attempt gave: a success, with the version message, exactly if the peer answered with one.\<close>

theorem outputs_are_backed:
  assumes "out \<in> set (cs_outputs (check_run ss check_new))"
  shows "backed ss out"
  using run_invD(2) [OF run_inv_all assms] .

text \<open>Two workers get the same address; the second is done before the first has sent its output.\<close>

definition demo_cc_version :: VersionMessage where
  "demo_cc_version = \<lparr>vm_version = 70016, vm_services = 9, vm_timestamp = 0, vm_receiver = no_address,
     vm_sender = no_address, vm_nonce = 1, vm_user_agent = [], vm_start_height = 0, vm_relay = True\<rparr>"

definition demo_cc_steps :: "worker_step list" where
  "demo_cc_steps = [Enqueue demo_cc_input, Enqueue demo_cc_input, Take 0 5,
     Connected 0 10 (Some demo_cc_version), Take 1 20, Send 1]"

definition demo_cc_cached :: Output where
  "demo_cc_cached = \<lparr>out_input = demo_cc_input, out_result = True, out_cached = True,
     out_network = TypeIPv4, out_version = None\<rparr>"

lemma demo_cc_checkable: "checkable (Addr_ipv4 (ascii ''10.0.0.2'')) = Some TypeIPv4"
  by code_simp

lemma demo_cc_outputs: "cs_outputs (check_run demo_cc_steps check_new) = [demo_cc_cached]"
  using demo_cc_checkable
  by (simp add: check_run_def demo_cc_steps_def check_new_def WORKERS_def check_step_def take_input_def
      demo_cc_input_def demo_cc_address_def demo_cc_cached_def finish_connect_def recent_def
      RECENT_CONNECTION_DURATION_def)

theorem outputs_are_backed_witness: "backed demo_cc_steps demo_cc_cached"
  by (rule outputs_are_backed) (simp add: demo_cc_outputs)

end
