(* ===== verification/LogRegex.thy ===== *)
theory LogRegex
  imports Listener "HOL-Library.Sublist"
begin

text \<open>
  Text (a list of Unicode scalar values) and regular expressions with the semantics the
  \<^verbatim>\<open>regex\<close> crate documents: leftmost-first, as a backtracking matcher would find it. The crate itself is
  a parameter of the model (\<open>regex_lib\<close>); \<open>regex_crate\<close> states its documentation by the reference
  matcher \<open>captures\<close> of this theory. The lemmas give the outcomes of the constructs the log matchers
  use in closed form.
\<close>

section \<open>Text\<close>

definition chars :: "string \<Rightarrow> ustring" where
  "chars s = map of_char s"

lemma length_chars [simp]: "length (chars s) = length s"
  by (simp add: chars_def)

text \<open>The bytes of a scalar value in UTF-8; \<^verbatim>\<open>str::len\<close> counts them.\<close>

definition utf8_width :: "nat \<Rightarrow> nat" where
  "utf8_width c = (if c < 0x80 then 1 else if c < 0x800 then 2 else if c < 0x10000 then 3 else 4)"

definition str_len :: "ustring \<Rightarrow> nat" where
  "str_len s = sum_list (map utf8_width s)"

fun contains :: "ustring \<Rightarrow> ustring \<Rightarrow> bool" where
  "contains t [] \<longleftrightarrow> t = []"
| "contains t (c # s) \<longleftrightarrow> prefix t (c # s) \<or> contains t s"

lemma contains_skip: "t \<noteq> [] \<Longrightarrow> hd t \<notin> set s \<Longrightarrow> contains t (s @ s') \<longleftrightarrow> contains t s'"
  by (induction s) (auto simp: prefix_def Cons_eq_append_conv)

lemma contains_absent: "t \<noteq> [] \<Longrightarrow> hd t \<notin> set s \<Longrightarrow> \<not> contains t s"
  using contains_skip [of t s "[]"] by simp

lemma contains_drop: "prefix t (drop n s) \<Longrightarrow> contains t s"
proof (induction s arbitrary: n)
  case (Cons c s)
  then show ?case by (cases n) auto
qed simp

section \<open>Regular expressions\<close>

text \<open>
  \<open>Many True\<close> prefers to repeat, \<open>Many False\<close> prefers to stop; \<open>Or\<close> prefers its left side. \<open>Digit\<close>
  and \<open>Space\<close> are the Unicode classes.
\<close>

datatype char_class = Is nat | Digit | Space | NotNewline | Except nat | Between "(nat \<times> nat) list"

datatype rx =
    Eps
  | One char_class
  | Seq rx rx
  | Or rx rx
  | Many bool rx
  | Group nat rx
  | TextStart
  | TextEnd

fun in_class :: "(nat \<Rightarrow> bool) \<Rightarrow> char_class \<Rightarrow> nat \<Rightarrow> bool" where
  "in_class nd (Is d) c \<longleftrightarrow> c = d"
| "in_class nd Digit c \<longleftrightarrow> nd c"
| "in_class nd Space c \<longleftrightarrow> is_whitespace c"
| "in_class nd NotNewline c \<longleftrightarrow> c \<noteq> 10"
| "in_class nd (Except d) c \<longleftrightarrow> c \<noteq> d"
| "in_class nd (Between rs) c \<longleftrightarrow> list_ex (\<lambda>(a, b). a \<le> c \<and> c \<le> b) rs"

text \<open>The abbreviations of the syntax.\<close>

definition lit :: "ustring \<Rightarrow> rx" where
  "lit t = foldr (\<lambda>c r. Seq (One (Is c)) r) t Eps"

definition optional :: "rx \<Rightarrow> rx" where
  "optional r = Or r Eps"

definition some_of :: "rx \<Rightarrow> rx" where
  "some_of r = Seq r (Many True r)"

primrec exactly :: "nat \<Rightarrow> rx \<Rightarrow> rx" where
  "exactly 0 r = Eps"
| "exactly (Suc n) r = Seq r (exactly n r)"

primrec up_to :: "nat \<Rightarrow> rx \<Rightarrow> rx" where
  "up_to 0 r = Eps"
| "up_to (Suc n) r = optional (Seq r (up_to n r))"

section \<open>The reference matcher\<close>

text \<open>
  A state is the number of characters before the position, the text after it and the groups captured
  so far. \<open>outcomes\<close> lists the states in which an expression can end, in order of preference. An
  iteration of a repetition must consume something.
\<close>

type_synonym match_state = "nat \<times> ustring \<times> (nat \<rightharpoonup> ustring)"

abbreviation rest_of :: "match_state \<Rightarrow> ustring" where
  "rest_of s \<equiv> fst (snd s)"

primrec many :: "nat \<Rightarrow> bool \<Rightarrow> (match_state \<Rightarrow> match_state list) \<Rightarrow> match_state \<Rightarrow> match_state list" where
  "many 0 greedy f s = [s]"
| "many (Suc n) greedy f s =
     (let again = concat (map (many n greedy f) (filter (\<lambda>s'. length (rest_of s') < length (rest_of s)) (f s)))
      in if greedy then again @ [s] else s # again)"

definition advance :: "nat \<Rightarrow> match_state \<Rightarrow> match_state" where
  "advance n s = (case s of (i, t, m) \<Rightarrow> (i + n, drop n t, m))"

primrec outcomes :: "(nat \<Rightarrow> bool) \<Rightarrow> rx \<Rightarrow> match_state \<Rightarrow> match_state list" where
  "outcomes nd Eps s = [s]"
| "outcomes nd (One k) s =
     (case rest_of s of c # t \<Rightarrow> if in_class nd k c then [advance 1 s] else [] | [] \<Rightarrow> [])"
| "outcomes nd (Seq a b) s = concat (map (outcomes nd b) (outcomes nd a s))"
| "outcomes nd (Or a b) s = outcomes nd a s @ outcomes nd b s"
| "outcomes nd (Many greedy r) s = many (length (rest_of s)) greedy (outcomes nd r) s"
| "outcomes nd (Group k r) s =
     map (\<lambda>s'. case s' of (i, t, m) \<Rightarrow> (i, t, m(k \<mapsto> take (length (rest_of s) - length t) (rest_of s))))
       (outcomes nd r s)"
| "outcomes nd TextStart s = (if fst s = 0 then [s] else [])"
| "outcomes nd TextEnd s = (if rest_of s = [] then [s] else [])"

text \<open>The first position that has an outcome, and its preferred one.\<close>

fun search :: "(nat \<Rightarrow> bool) \<Rightarrow> rx \<Rightarrow> nat \<Rightarrow> ustring \<Rightarrow> match_state option" where
  "search nd re i t =
     (case outcomes nd re (i, t, Map.empty) of
        s # _ \<Rightarrow> Some s
      | [] \<Rightarrow> (case t of [] \<Rightarrow> None | c # t' \<Rightarrow> search nd re (Suc i) t'))"

declare search.simps [simp del]

definition captures :: "(nat \<Rightarrow> bool) \<Rightarrow> rx \<Rightarrow> ustring \<Rightarrow> (nat \<rightharpoonup> ustring) option" where
  "captures nd re t = map_option (\<lambda>s. snd (snd s)) (search nd re 0 t)"

text \<open>Successive matches that do not overlap, for an expression that never matches the empty text.\<close>

primrec captures_all :: "nat \<Rightarrow> (nat \<Rightarrow> bool) \<Rightarrow> rx \<Rightarrow> nat \<Rightarrow> ustring \<Rightarrow> (nat \<rightharpoonup> ustring) list" where
  "captures_all 0 nd re i t = []"
| "captures_all (Suc n) nd re i t =
     (case search nd re i t of
        None \<Rightarrow> []
      | Some (i', t', m) \<Rightarrow> m # captures_all n nd re i' t')"

definition consuming :: "(nat \<Rightarrow> bool) \<Rightarrow> rx \<Rightarrow> bool" where
  "consuming nd re \<longleftrightarrow> (\<forall>s s'. s' \<in> set (outcomes nd re s) \<longrightarrow> length (rest_of s') < length (rest_of s))"

section \<open>The crate\<close>

record regex_lib =
  rx_digit :: "nat \<Rightarrow> bool"
  rx_captures :: "rx \<Rightarrow> ustring \<Rightarrow> (nat \<rightharpoonup> ustring) option"
  rx_captures_iter :: "rx \<Rightarrow> ustring \<Rightarrow> (nat \<rightharpoonup> ustring) list"

text \<open>What the crate documents.\<close>

definition regex_crate :: "'x regex_lib_scheme \<Rightarrow> bool" where
  "regex_crate lib \<longleftrightarrow>
     (\<forall>c < 128. rx_digit lib c \<longleftrightarrow> 48 \<le> c \<and> c \<le> 57) \<and>
     (\<forall>re t. rx_captures lib re t = captures (rx_digit lib) re t) \<and>
     (\<forall>re t. consuming (rx_digit lib) re \<longrightarrow>
        rx_captures_iter lib re t = captures_all (Suc (length t)) (rx_digit lib) re 0 t)"

section \<open>Preferred outcomes\<close>

text \<open>
  \<open>best nd r s s'\<close>: the expression matches at \<open>s\<close> and prefers to end in \<open>s'\<close>. The rules follow a match
  along a text that is given as its parts.
\<close>

definition best :: "(nat \<Rightarrow> bool) \<Rightarrow> rx \<Rightarrow> match_state \<Rightarrow> match_state \<Rightarrow> bool" where
  "best nd r s s' \<longleftrightarrow> (\<exists>ss. outcomes nd r s = s' # ss)"

lemma advance_simps [simp]:
  "advance 0 s = s"
  "advance n (advance k s) = advance (k + n) s"
  "rest_of (advance n s) = drop n (rest_of s)"
  "fst (advance n s) = fst s + n"
  "advance n (i, t, m) = (i + n, drop n t, m)"
  by (auto simp: advance_def add.commute split: prod.split)

lemma outcomes_lit:
  "outcomes nd (lit t) s = (if prefix t (rest_of s) then [advance (length t) s] else [])"
proof (induction t arbitrary: s)
  case Nil
  then show ?case by (simp add: lit_def)
next
  case (Cons c t)
  have step: "outcomes nd (lit (c # t)) s =
      concat (map (outcomes nd (lit t)) (outcomes nd (One (Is c)) s))"
    by (simp add: lit_def)
  show ?case
    unfolding step by (cases "rest_of s") (auto simp: Cons.IH)
qed

lemma outcomes_lit_Seq:
  "outcomes nd (Seq (lit t) r) s = (if prefix t (rest_of s) then outcomes nd r (advance (length t) s) else [])"
  by (simp add: outcomes_lit)

lemma best_Eps [intro]: "best nd Eps s s"
  by (simp add: best_def)

lemma best_Seq [intro]: "best nd a s s' \<Longrightarrow> best nd b s' s'' \<Longrightarrow> best nd (Seq a b) s s''"
  by (auto simp: best_def)

lemma best_Or_left [intro]: "best nd a s s' \<Longrightarrow> best nd (Or a b) s s'"
  by (auto simp: best_def)

lemma best_Or_right: "outcomes nd a s = [] \<Longrightarrow> best nd b s s' \<Longrightarrow> best nd (Or a b) s s'"
  by (auto simp: best_def)

lemma best_lit [intro]: "best nd (lit t) (i, t @ u, m) (i + length t, u, m)"
  by (simp add: best_def outcomes_lit)

lemma best_TextStart [intro]: "best nd TextStart (0, t, m) (0, t, m)"
  by (simp add: best_def)

lemma best_TextEnd [intro]: "best nd TextEnd (i, [], m) (i, [], m)"
  by (simp add: best_def)

lemma best_Group [intro]:
  "best nd r (i, w @ u, m) (j, u, m') \<Longrightarrow> best nd (Group k r) (i, w @ u, m) (j, u, m'(k \<mapsto> w))"
  by (auto simp: best_def)

lemma best_One: "in_class nd k c \<Longrightarrow> best nd (One k) (i, c # u, m) (Suc i, u, m)"
  by (simp add: best_def)

lemma best_exactly:
  "length ds = n \<Longrightarrow> list_all (in_class nd k) ds \<Longrightarrow>
   best nd (exactly n (One k)) (i, ds @ u, m) (i + n, u, m)"
proof (induction n arbitrary: ds i)
  case (Suc n)
  from Suc.prems obtain d ds' where ds: "ds = d # ds'" by (cases ds) auto
  have "best nd (exactly n (One k)) (i + 1, ds' @ u, m) (i + 1 + n, u, m)"
    using Suc.IH [of ds' "i + 1"] Suc.prems ds by simp
  moreover have "best nd (One k) (i, ds @ u, m) (i + 1, ds' @ u, m)"
    using Suc.prems(2) ds by (simp add: best_One)
  ultimately show ?case by auto
qed auto

definition stops :: "(nat \<Rightarrow> bool) \<Rightarrow> char_class \<Rightarrow> ustring \<Rightarrow> bool" where
  "stops nd k u \<longleftrightarrow> (case u of [] \<Rightarrow> True | c # _ \<Rightarrow> \<not> in_class nd k c)"

lemma stops_simps [simp]: "stops nd k []" "stops nd k (c # u) \<longleftrightarrow> \<not> in_class nd k c"
  by (simp_all add: stops_def)

lemma best_up_to:
  "length ds \<le> n \<Longrightarrow> list_all (in_class nd k) ds \<Longrightarrow> stops nd k u \<Longrightarrow>
   best nd (up_to n (One k)) (i, ds @ u, m) (i + length ds, u, m)"
proof (induction n arbitrary: ds i)
  case (Suc n)
  show ?case
  proof (cases ds)
    case Nil
    with Suc.prems show ?thesis
      by (cases u) (auto simp: optional_def best_def)
  next
    case (Cons d ds')
    have "best nd (up_to n (One k)) (i + 1, ds' @ u, m) (i + 1 + length ds', u, m)"
      using Suc.IH [of ds' "i + 1"] Suc.prems Cons by simp
    moreover have "best nd (One k) (i, ds @ u, m) (i + 1, ds' @ u, m)"
      using Suc.prems(2) Cons by (simp add: best_One)
    ultimately show ?thesis using Cons by (auto simp: optional_def)
  qed
qed auto

section \<open>Repetition\<close>

lemma many_enough:
  "length (rest_of s) \<le> n \<Longrightarrow> length (rest_of s) \<le> k \<Longrightarrow> many n g f s = many k g f s"
proof (induction n arbitrary: s k)
  case 0
  then show ?case by (cases k) (auto simp: filter_False)
next
  case (Suc n)
  show ?case
  proof (cases k)
    case 0
    with Suc.prems show ?thesis by (auto simp: filter_False)
  next
    case (Suc k')
    have eq: "map (many n g f) (filter (\<lambda>s'. length (rest_of s') < length (rest_of s)) (f s)) =
      map (many k' g f) (filter (\<lambda>s'. length (rest_of s') < length (rest_of s)) (f s))"
    proof (rule map_cong [OF refl])
      fix s' assume "s' \<in> set (filter (\<lambda>s'. length (rest_of s') < length (rest_of s)) (f s))"
      then have "length (rest_of s') < length (rest_of s)" by simp
      with Suc.prems \<open>k = Suc k'\<close> show "many n g f s' = many k' g f s'"
        by (intro Suc.IH) simp_all
    qed
    show ?thesis by (simp only: \<open>k = Suc k'\<close> many.simps eq)
  qed
qed

lemma best_Many_stop: "outcomes nd r s = [] \<Longrightarrow> best nd (Many g r) s s"
  by (cases "length (rest_of s)") (auto simp: best_def)

lemma best_Many_step:
  assumes "best nd r s s'" and "length (rest_of s') < length (rest_of s)" and "best nd (Many True r) s' s''"
  shows "best nd (Many True r) s s''"
proof -
  obtain n where n: "length (rest_of s) = Suc n" using assms(2) by (cases "length (rest_of s)") auto
  have "many n True (outcomes nd r) s' = outcomes nd (Many True r) s'"
    using assms(2) n by (simp add: many_enough [of s' n "length (rest_of s')"])
  then show ?thesis using assms n by (auto simp: best_def)
qed

lemma advance_map_shift:
  "map (\<lambda>j. advance j s) [Suc 0..<Suc (Suc x)] = map (\<lambda>j. advance j (advance 1 s)) [0..<Suc x]"
  by (simp add: map_Suc_upt [symmetric] del: upt_Suc)

lemma many_class:
  fixes nd k
  defines "f \<equiv> outcomes nd (One k)"
  defines "run s \<equiv> length (takeWhile (in_class nd k) (rest_of s))"
  shows "many n True f s = rev (map (\<lambda>j. advance j s) [0..<Suc (min n (run s))])" (is ?greedy)
    and "many n False f s = map (\<lambda>j. advance j s) [0..<Suc (min n (run s))]" (is ?lazy)
proof -
  have split: "[0..<Suc (Suc x)] = 0 # [Suc 0..<Suc (Suc x)]" for x
    by (simp add: upt_conv_Cons del: upt_Suc)
  have Nil: "f s = []" and run_Nil: "run s = 0" if "rest_of s = [] \<or> \<not> in_class nd k (hd (rest_of s))" for s
    using that by (auto simp: f_def run_def split: list.splits) (cases "rest_of s"; simp)
  have Cons: "f s = [advance 1 s]" "run s = Suc (run (advance 1 s))"
    if "rest_of s = c # t" and "in_class nd k c" for s c t
    using that by (simp_all add: f_def run_def)
  have "?greedy \<and> ?lazy"
  proof (induction n arbitrary: s)
    case (Suc n)
    show ?case
    proof (cases "rest_of s = [] \<or> \<not> in_class nd k (hd (rest_of s))")
      case True
      then show ?thesis by (simp add: Nil run_Nil)
    next
      case False
      then obtain c t where ct: "rest_of s = c # t" "in_class nd k c" by (cases "rest_of s") auto
      then show ?thesis
        by (simp add: Cons [OF ct] Suc.IH split advance_map_shift del: upt_Suc)
    qed
  qed simp
  then show ?greedy ?lazy by simp_all
qed

lemma outcomes_some_of_class:
  "outcomes nd (some_of (One k)) s =
     rev (map (\<lambda>j. advance j s) [1..<Suc (length (takeWhile (in_class nd k) (rest_of s)))])"
proof (cases "rest_of s")
  case (Cons c t)
  show ?thesis
  proof (cases "in_class nd k c")
    case True
    have le: "length (takeWhile (in_class nd k) t) \<le> length t" by (rule length_takeWhile_le)
    have "outcomes nd (some_of (One k)) s = many (length t) True (outcomes nd (One k)) (advance 1 s)"
      using Cons True by (simp add: some_of_def)
    also have "\<dots> = rev (map (\<lambda>j. advance j (advance 1 s)) [0..<Suc (length (takeWhile (in_class nd k) t))])"
      using Cons le by (subst many_class) (simp add: min_def del: upt_Suc)
    finally show ?thesis
      using Cons True by (simp only: advance_map_shift [symmetric]) (simp del: upt_Suc)
  qed (simp add: some_of_def Cons)
qed (simp add: some_of_def)

lemma takeWhile_stops: "list_all (in_class nd k) ds \<Longrightarrow> stops nd k u \<Longrightarrow> takeWhile (in_class nd k) (ds @ u) = ds"
  by (induction ds) (auto simp: stops_def split: list.splits)

lemma best_some_of:
  assumes "ds \<noteq> []" and "list_all (in_class nd k) ds" and "stops nd k u"
  shows "best nd (some_of (One k)) (i, ds @ u, m) (i + length ds, u, m)"
  using assms by (cases ds rule: rev_cases)
    (simp_all add: best_def outcomes_some_of_class takeWhile_stops del: append_assoc)

end
