(* ===== verification/LogMatchers.thy ===== *)
theory LogMatchers
  imports LogRegex "HOL-Library.Monad_Syntax" "HOL-Library.Signed_Division"
begin

text \<open>
  The log matchers of \<^verbatim>\<open>shared/src/log_matchers.rs\<close>: the regular expressions, the events of
  \<^verbatim>\<open>log_extractor.proto\<close>, the parsing of the metadata of a line and the order in which the matchers
  are tried. Parsing an RFC 3339 timestamp is the \<^verbatim>\<open>time\<close> crate's, a parameter.
\<close>

section \<open>Events\<close>

datatype LogLevel = LevelInfo | LevelWarning | LevelError | LevelDebug | LevelTrace

datatype LogDebugCategory =
    CatUnknown | CatAddrman | CatBench | CatBlockstorage | CatCmpctblock | CatCoindb | CatEstimatefee | CatHttp | CatI2p | CatIpc
  | CatLeveldb | CatLibevent | CatMempool | CatMempoolrej | CatNet | CatProxy | CatPrune | CatQt | CatRand | CatReindex | CatRpc | CatScan
  | CatSelectcoins | CatTor | CatTxpackages | CatTxreconciliation | CatValidation | CatWalletdb | CatZmq

record BlockConnectedLog =
  bcl_block_hash :: ustring
  bcl_block_height :: u32

record BlockCheckedLog =
  bkl_block_hash :: ustring
  bkl_state :: ustring
  bkl_debug_message :: ustring

record SawNewHeaderLog =
  snh_block_hash :: ustring
  snh_block_height :: u32
  snh_peer_id :: u32
  snh_is_cmpctblock :: bool

record CompactBlockReconstructedLog =
  cbr_block_hash :: ustring
  cbr_prefilled_txn_count :: u32
  cbr_mempool_txn_count :: u32
  cbr_extra_pool_txn_count :: u32
  cbr_requested_txn_count :: u32
  cbr_requested_txn_bytes :: u32

datatype LogEvent =
    UnknownLogMessage ustring
  | LogBlockConnected BlockConnectedLog
  | LogBlockChecked BlockCheckedLog
  | LogSawNewHeader SawNewHeaderLog
  | LogCompactBlockReconstructed CompactBlockReconstructedLog

record Log =
  log_timestamp :: u64
  log_category :: LogDebugCategory
  log_threadname :: ustring
  log_level :: LogLevel
  log_line_bytes :: u64
  log_event :: "LogEvent option"

text \<open>The names of the enumeration, and \<^verbatim>\<open>from_str_name\<close>, which the build generates from them.\<close>

definition category_names :: "(string \<times> LogDebugCategory) list" where
  "category_names =
     [(''UNKNOWN'', CatUnknown), (''ADDRMAN'', CatAddrman), (''BENCH'', CatBench), (''BLOCKSTORAGE'', CatBlockstorage),
      (''CMPCTBLOCK'', CatCmpctblock), (''COINDB'', CatCoindb), (''ESTIMATEFEE'', CatEstimatefee), (''HTTP'', CatHttp),
      (''I2P'', CatI2p), (''IPC'', CatIpc), (''LEVELDB'', CatLeveldb), (''LIBEVENT'', CatLibevent),
      (''MEMPOOL'', CatMempool), (''MEMPOOLREJ'', CatMempoolrej), (''NET'', CatNet), (''PROXY'', CatProxy),
      (''PRUNE'', CatPrune), (''QT'', CatQt), (''RAND'', CatRand), (''REINDEX'', CatReindex), (''RPC'', CatRpc),
      (''SCAN'', CatScan), (''SELECTCOINS'', CatSelectcoins), (''TOR'', CatTor), (''TXPACKAGES'', CatTxpackages),
      (''TXRECONCILIATION'', CatTxreconciliation), (''VALIDATION'', CatValidation), (''WALLETDB'', CatWalletdb),
      (''ZMQ'', CatZmq)]"

definition category_from_str_name :: "ustring \<Rightarrow> LogDebugCategory option" where
  "category_from_str_name s = map_of (map (\<lambda>(n, c). (chars n, c)) category_names) s"

text \<open>\<^verbatim>\<open>as_str_name\<close>.\<close>

fun category_name :: "LogDebugCategory \<Rightarrow> string" where
  "category_name CatUnknown = ''UNKNOWN''"
| "category_name CatAddrman = ''ADDRMAN''"
| "category_name CatBench = ''BENCH''"
| "category_name CatBlockstorage = ''BLOCKSTORAGE''"
| "category_name CatCmpctblock = ''CMPCTBLOCK''"
| "category_name CatCoindb = ''COINDB''"
| "category_name CatEstimatefee = ''ESTIMATEFEE''"
| "category_name CatHttp = ''HTTP''"
| "category_name CatI2p = ''I2P''"
| "category_name CatIpc = ''IPC''"
| "category_name CatLeveldb = ''LEVELDB''"
| "category_name CatLibevent = ''LIBEVENT''"
| "category_name CatMempool = ''MEMPOOL''"
| "category_name CatMempoolrej = ''MEMPOOLREJ''"
| "category_name CatNet = ''NET''"
| "category_name CatProxy = ''PROXY''"
| "category_name CatPrune = ''PRUNE''"
| "category_name CatQt = ''QT''"
| "category_name CatRand = ''RAND''"
| "category_name CatReindex = ''REINDEX''"
| "category_name CatRpc = ''RPC''"
| "category_name CatScan = ''SCAN''"
| "category_name CatSelectcoins = ''SELECTCOINS''"
| "category_name CatTor = ''TOR''"
| "category_name CatTxpackages = ''TXPACKAGES''"
| "category_name CatTxreconciliation = ''TXRECONCILIATION''"
| "category_name CatValidation = ''VALIDATION''"
| "category_name CatWalletdb = ''WALLETDB''"
| "category_name CatZmq = ''ZMQ''"

section \<open>Patterns\<close>

definition digits :: "nat \<Rightarrow> rx" where
  "digits n = exactly n (One Digit)"

definition RFC3339_DATE_PATTERN :: rx where
  "RFC3339_DATE_PATTERN =
     Seq (digits 4) (Seq (lit (chars ''-'')) (Seq (digits 2) (Seq (lit (chars ''-'')) (Seq (digits 2)
     (Seq (lit (chars ''T'')) (Seq (digits 2) (Seq (lit (chars '':'')) (Seq (digits 2)
     (Seq (lit (chars '':'')) (Seq (digits 2)
     (Seq (optional (Seq (lit (chars ''.'')) (Seq (One Digit) (up_to 5 (One Digit)))))
     (lit (chars ''Z'')))))))))))))"

text \<open>The square brackets are the characters 91 and 93. The number is that of the group.\<close>

definition METADATA_PATTERN :: "nat \<Rightarrow> rx" where
  "METADATA_PATTERN k = Seq (lit [91]) (Seq (Group k (some_of (One (Except 93)))) (lit [93]))"

definition BLOCK_HASH_PATTERN :: rx where
  "BLOCK_HASH_PATTERN = exactly 64 (One (Between [(48, 57), (97, 102)]))"

text \<open>\<open>k\<close> and \<open>k + 1\<close> are its groups.\<close>

definition VALIDATION_STATE_PATTERN :: "nat \<Rightarrow> rx" where
  "VALIDATION_STATE_PATTERN k =
     Seq (Group k (Many False (One NotNewline)))
     (Seq (Or (Seq (lit (chars '','')) (One Space)) TextEnd)
     (optional (Group (k + 1) (some_of (One NotNewline)))))"

text \<open>The named groups \<open>timestamp\<close>, \<open>metadata\<close> and \<open>message\<close> are the groups 1, 2 and 4.\<close>

definition LOG_LINE_REGEX :: rx where
  "LOG_LINE_REGEX =
     Seq TextStart (Seq (Group 1 RFC3339_DATE_PATTERN) (Seq (some_of (One Space))
     (Seq (Group 2 (Many True (Seq (METADATA_PATTERN 3) (some_of (One Space)))))
     (Seq (Group 4 (some_of (One NotNewline))) TextEnd))))"

definition METADATA_REGEX :: rx where
  "METADATA_REGEX = METADATA_PATTERN 1"

definition BLOCK_CONNECTED_REGEX :: rx where
  "BLOCK_CONNECTED_REGEX =
     Seq (lit (chars ''BlockConnected: block hash='')) (Seq (Group 1 BLOCK_HASH_PATTERN)
     (Seq (lit (chars '' block height='')) (Group 2 (some_of (One Digit)))))"

definition BLOCK_CHECKED_REGEX :: rx where
  "BLOCK_CHECKED_REGEX =
     Seq (lit (chars ''BlockChecked: block hash='')) (Seq (Group 1 BLOCK_HASH_PATTERN)
     (Seq (lit (chars '' state='')) (VALIDATION_STATE_PATTERN 2)))"

definition SAW_NEW_HEADER_REGEX :: rx where
  "SAW_NEW_HEADER_REGEX =
     Seq (lit (chars ''Saw new '')) (Seq (optional (lit (chars ''cmpctblock ''))) (Seq (lit (chars ''header hash=''))
     (Seq (Group 1 BLOCK_HASH_PATTERN) (Seq (lit (chars '' height='')) (Seq (Group 2 (some_of (One Digit)))
     (Seq (lit (chars '' peer='')) (Group 3 (some_of (One Digit)))))))))"

definition COMPACT_BLOCK_RECONSTRUCTED_REGEX :: rx where
  "COMPACT_BLOCK_RECONSTRUCTED_REGEX =
     Seq (lit (chars ''Successfully reconstructed block '')) (Seq (Group 1 BLOCK_HASH_PATTERN)
     (Seq (lit (chars '' with '')) (Seq (Group 2 (some_of (One Digit)))
     (Seq (lit (chars '' txn prefilled, '')) (Seq (Group 3 (some_of (One Digit)))
     (Seq (lit (chars '' txn from mempool (incl at least '')) (Seq (Group 4 (some_of (One Digit)))
     (Seq (lit (chars '' from extra pool) and '')) (Seq (Group 5 (some_of (One Digit)))
     (Seq (lit (chars '' txn ('')) (Seq (Group 6 (some_of (One Digit)))
     (lit (chars '' bytes) requested'')))))))))))))"

section \<open>Matchers\<close>

text \<open>The crates: of \<^verbatim>\<open>time\<close>, the nanoseconds since the epoch that a text stands for.\<close>

record log_lib = regex_lib +
  rfc3339_nanos :: "ustring \<Rightarrow> int option"

text \<open>\<^verbatim>\<open>str::parse::<u32>\<close>.\<close>

definition parse_u32 :: "ustring \<Rightarrow> u32 option" where
  "parse_u32 s =
     (let ds = (case s of c # t \<Rightarrow> if c = 43 then t else s | [] \<Rightarrow> s)
      in if ds = [] then None
         else case parse_digits 0 ds of
                None \<Rightarrow> None
              | Some n \<Rightarrow> if n < 2 ^ 32 then Some (of_nat n) else None)"

definition unknown_parse_event :: "ustring \<Rightarrow> LogEvent option" where
  "unknown_parse_event line = Some (UnknownLogMessage line)"

definition block_connected_parse_event :: "'x regex_lib_scheme \<Rightarrow> ustring \<Rightarrow> LogEvent option" where
  "block_connected_parse_event lib line =
     do {
       caps \<leftarrow> rx_captures lib BLOCK_CONNECTED_REGEX line;
       block_hash \<leftarrow> caps 1;
       height \<leftarrow> caps 2;
       block_height \<leftarrow> parse_u32 height;
       Some (LogBlockConnected \<lparr>bcl_block_hash = block_hash, bcl_block_height = block_height\<rparr>)
     }"

definition block_checked_parse_event :: "'x regex_lib_scheme \<Rightarrow> ustring \<Rightarrow> LogEvent option" where
  "block_checked_parse_event lib line =
     do {
       caps \<leftarrow> rx_captures lib BLOCK_CHECKED_REGEX line;
       block_hash \<leftarrow> caps 1;
       state \<leftarrow> caps 2;
       Some (LogBlockChecked
         \<lparr>bkl_block_hash = block_hash, bkl_state = state,
          bkl_debug_message = (case caps 3 of Some m \<Rightarrow> m | None \<Rightarrow> [])\<rparr>)
     }"

definition saw_new_header_parse_event :: "'x regex_lib_scheme \<Rightarrow> ustring \<Rightarrow> LogEvent option" where
  "saw_new_header_parse_event lib line =
     do {
       caps \<leftarrow> rx_captures lib SAW_NEW_HEADER_REGEX line;
       block_hash \<leftarrow> caps 1;
       height \<leftarrow> caps 2;
       block_height \<leftarrow> parse_u32 height;
       peer \<leftarrow> caps 3;
       peer' \<leftarrow> parse_u32 peer;
       Some (LogSawNewHeader
         \<lparr>snh_block_hash = block_hash, snh_block_height = block_height, snh_peer_id = peer',
          snh_is_cmpctblock = contains (chars ''cmpctblock'') line\<rparr>)
     }"

definition captured_u32 :: "(nat \<rightharpoonup> ustring) \<Rightarrow> nat \<Rightarrow> u32 option" where
  "captured_u32 caps k = Option.bind (caps k) parse_u32"

definition compact_block_parse_event :: "'x regex_lib_scheme \<Rightarrow> ustring \<Rightarrow> LogEvent option" where
  "compact_block_parse_event lib line =
     do {
       caps \<leftarrow> rx_captures lib COMPACT_BLOCK_RECONSTRUCTED_REGEX line;
       block_hash \<leftarrow> caps 1;
       prefilled \<leftarrow> captured_u32 caps 2;
       mempool \<leftarrow> captured_u32 caps 3;
       extra_pool \<leftarrow> captured_u32 caps 4;
       requested \<leftarrow> captured_u32 caps 5;
       requested_bytes \<leftarrow> captured_u32 caps 6;
       Some (LogCompactBlockReconstructed
         \<lparr>cbr_block_hash = block_hash, cbr_prefilled_txn_count = prefilled,
          cbr_mempool_txn_count = mempool, cbr_extra_pool_txn_count = extra_pool,
          cbr_requested_txn_count = requested, cbr_requested_txn_bytes = requested_bytes\<rparr>)
     }"

definition is_mutated_block :: "BlockCheckedLog \<Rightarrow> bool" where
  "is_mutated_block l \<longleftrightarrow>
     bkl_state l \<in> set (map chars [''bad-txnmrklroot'', ''bad-txns-duplicate'', ''bad-witness-nonce-size'',
                                  ''bad-witness-merkle-match'', ''unexpected-witness''])"

section \<open>The common data of a line\<close>

record CommonLogData =
  cld_timestamp_micro :: u64
  cld_category :: LogDebugCategory
  cld_threadname :: ustring
  cld_level :: LogLevel
  cld_message :: ustring

text \<open>
  Lower and upper case are used to compare with ASCII texts only. No other character has an ASCII
  lower case that is in \<^verbatim>\<open>error\<close> or \<^verbatim>\<open>warning\<close>; the upper cases that are ASCII are those listed,
  and every other upper case of a character that is not ASCII has one that is not.
\<close>

definition lowercase :: "ustring \<Rightarrow> ustring" where
  "lowercase s = map (\<lambda>c. if 65 \<le> c \<and> c \<le> 90 then c + 32 else c) s"

definition upper_of :: "nat \<Rightarrow> ustring" where
  "upper_of c =
     (if 97 \<le> c \<and> c \<le> 122 then [c - 32]
      else if c = 0x131 then chars ''I''
      else if c = 0x17F then chars ''S''
      else if c = 0xDF then chars ''SS''
      else if c = 0xFB00 then chars ''FF''
      else if c = 0xFB01 then chars ''FI''
      else if c = 0xFB02 then chars ''FL''
      else if c = 0xFB03 then chars ''FFI''
      else if c = 0xFB04 then chars ''FFL''
      else if c = 0xFB05 \<or> c = 0xFB06 then chars ''ST''
      else [c])"

definition uppercase :: "ustring \<Rightarrow> ustring" where
  "uppercase s = concat (map upper_of s)"

definition standalone_level :: "ustring \<Rightarrow> LogLevel option" where
  "standalone_level item =
     (if lowercase item = chars ''error'' then Some LevelError
      else if lowercase item = chars ''warning'' then Some LevelWarning
      else None)"

definition is_standalone_log_level :: "ustring \<Rightarrow> bool" where
  "is_standalone_log_level s \<longleftrightarrow> lowercase s = chars ''error'' \<or> lowercase s = chars ''warning''"

definition ends_with :: "ustring \<Rightarrow> ustring \<Rightarrow> bool" where
  "ends_with suf s \<longleftrightarrow> drop (length s - length suf) s = suf"

definition strip_suffix :: "ustring \<Rightarrow> ustring \<Rightarrow> ustring option" where
  "strip_suffix suf s = (if ends_with suf s then Some (take (length s - length suf) s) else None)"

definition parse_category :: "ustring \<Rightarrow> LogDebugCategory option" where
  "parse_category item =
     (let base = (case strip_suffix (chars '':trace'') item of Some b \<Rightarrow> b | None \<Rightarrow> item)
      in category_from_str_name (uppercase base))"

definition is_trace :: "ustring \<Rightarrow> bool" where
  "is_trace item \<longleftrightarrow> ends_with (chars '':trace'') item"

primrec find_map :: "('a \<Rightarrow> 'b option) \<Rightarrow> 'a list \<Rightarrow> 'b option" where
  "find_map f [] = None"
| "find_map f (x # xs) = (case f x of Some y \<Rightarrow> Some y | None \<Rightarrow> find_map f xs)"

text \<open>
  What the items of the metadata say: the thread name, the category and the level. The last item that
  is not a level is the category, if it has a category's name.
\<close>

definition read_metadata :: "ustring list \<Rightarrow> ustring \<times> LogDebugCategory \<times> LogLevel" where
  "read_metadata metadata_items =
     (let level = (case find_map standalone_level metadata_items of Some l \<Rightarrow> l | None \<Rightarrow> LevelInfo);
          items = filter (\<lambda>i. \<not> is_standalone_log_level i) metadata_items;
          (items, category, is_trace_log) =
            (if items = [] then (items, CatUnknown, False)
             else case parse_category (last items) of
                    Some c \<Rightarrow> (butlast items, c, is_trace (last items))
                  | None \<Rightarrow> (items, CatUnknown, False));
          level = (if level = LevelInfo then
                     (if is_trace_log then LevelTrace else if category = CatUnknown then LevelInfo else LevelDebug)
                   else level)
      in (case items of t # _ \<Rightarrow> t | [] \<Rightarrow> [], category, level))"

text \<open>
  The division truncates and the cast wraps. The result is \<open>None\<close> when indexing the captures by a
  group that did not take part panics.
\<close>

definition captured_items :: "(nat \<rightharpoonup> ustring) list \<Rightarrow> ustring list option" where
  "captured_items caps = those (map (\<lambda>cap. cap 1) caps)"

definition parse_common_log_data :: "log_lib \<Rightarrow> ustring \<Rightarrow> CommonLogData option" where
  "parse_common_log_data lib line =
     (case rx_captures lib LOG_LINE_REGEX line of
        None \<Rightarrow>
          Some \<lparr>cld_timestamp_micro = 0, cld_category = CatUnknown, cld_threadname = [], cld_level = LevelInfo,
                cld_message = []\<rparr>
      | Some caps \<Rightarrow>
          do {
            timestamp_str \<leftarrow> caps 1;
            let nanos = (case rfc3339_nanos lib timestamp_str of Some n \<Rightarrow> n | None \<Rightarrow> 0);
            let metadata = (case caps 2 of Some m \<Rightarrow> m | None \<Rightarrow> []);
            items \<leftarrow> captured_items (rx_captures_iter lib METADATA_REGEX metadata);
            let (thread, category, level) = read_metadata items;
            message \<leftarrow> caps 4;
            Some \<lparr>cld_timestamp_micro = word_of_int (nanos sdiv 1000), cld_category = category,
                  cld_threadname = thread, cld_level = level, cld_message = message\<rparr>
          })"

text \<open>The matchers in the order of the code; the first event is taken.\<close>

definition matchers :: "'x regex_lib_scheme \<Rightarrow> (ustring \<Rightarrow> LogEvent option) list" where
  "matchers lib =
     [block_connected_parse_event lib, block_checked_parse_event lib, saw_new_header_parse_event lib,
      compact_block_parse_event lib]"

definition match_message :: "'x regex_lib_scheme \<Rightarrow> ustring \<Rightarrow> LogEvent option" where
  "match_message lib message =
     (case find_map (\<lambda>m. m message) (matchers lib) of
        Some ev \<Rightarrow> Some ev
      | None \<Rightarrow> unknown_parse_event message)"

definition parse_log_event :: "log_lib \<Rightarrow> ustring \<Rightarrow> Log option" where
  "parse_log_event lib line =
     map_option (\<lambda>d.
       \<lparr>log_timestamp = cld_timestamp_micro d, log_category = cld_category d,
        log_threadname = cld_threadname d, log_level = cld_level d,
        log_line_bytes = of_nat (str_len line), log_event = match_message lib (cld_message d)\<rparr>)
       (parse_common_log_data lib line)"

section \<open>Display\<close>

definition number :: "u32 \<Rightarrow> ustring" where
  "number n = decimal (unat n)"

fun log_event_display :: "LogEvent \<Rightarrow> ustring" where
  "log_event_display (UnknownLogMessage m) = chars ''UnknownLogMessage('' @ m @ chars '')''"
| "log_event_display (LogBlockConnected l) =
     chars ''BlockConnected(hash='' @ bcl_block_hash l @ chars '', height='' @ number (bcl_block_height l) @
     chars '')''"
| "log_event_display (LogBlockChecked l) =
     chars ''BlockChecked(hash='' @ bkl_block_hash l @ chars '', state='' @ bkl_state l @
     chars '', debug_message='' @ bkl_debug_message l @ chars '')''"
| "log_event_display (LogSawNewHeader l) =
     chars ''SawNewHeader(hash='' @ snh_block_hash l @ chars '', height='' @ number (snh_block_height l) @
     chars '', peer_id='' @ number (snh_peer_id l) @ chars '', is_compact_block='' @
     chars (if snh_is_cmpctblock l then ''true'' else ''false'') @ chars '')''"
| "log_event_display (LogCompactBlockReconstructed l) =
     chars ''CompactBlockReconstructed(hash='' @ cbr_block_hash l @
     chars '', prefilled='' @ number (cbr_prefilled_txn_count l) @
     chars '', mempool='' @ number (cbr_mempool_txn_count l) @
     chars '', extra_pool='' @ number (cbr_extra_pool_txn_count l) @
     chars '', requested_count='' @ number (cbr_requested_txn_count l) @
     chars '', requested_bytes='' @ number (cbr_requested_txn_bytes l) @ chars '')''"

end
