(* ===== verification/LogFacts.thy ===== *)
theory LogFacts
  imports LogMatchers
begin

text \<open>
  Lemmas on the log matchers: what an expression reads of a text given as its parts, when a pattern
  that begins with a literal is found, and the patterns of the matchers.
\<close>

section \<open>Reading a part of the text\<close>

text \<open>Before the text \<open>w @ u\<close>, the expression prefers to read exactly \<open>w\<close>.\<close>

definition reads ::
    "(nat \<Rightarrow> bool) \<Rightarrow> rx \<Rightarrow> ustring \<Rightarrow> ustring \<Rightarrow> (nat \<rightharpoonup> ustring) \<Rightarrow> (nat \<rightharpoonup> ustring) \<Rightarrow> bool" where
  "reads nd r w u m m' \<longleftrightarrow> (\<forall>i. \<exists>j. best nd r (i, w @ u, m) (j, u, m'))"

named_theorems reads_intros

lemma reads_Seq [reads_intros]:
  "reads nd a w (w' @ u) m m' \<Longrightarrow> reads nd b w' u m' m'' \<Longrightarrow> reads nd (Seq a b) (w @ w') u m m''"
  unfolding reads_def by (metis append_assoc best_Seq)

lemma reads_lit [reads_intros]: "reads nd (lit t) t u m m"
  unfolding reads_def using best_lit by blast

lemma reads_Group [reads_intros]: "reads nd r w u m m' \<Longrightarrow> reads nd (Group k r) w u m (m'(k \<mapsto> w))"
  unfolding reads_def using best_Group by blast

lemma reads_exactly [reads_intros]:
  "list_all (in_class nd k) w \<Longrightarrow> length w = n \<Longrightarrow> reads nd (exactly n (One k)) w u m m"
  unfolding reads_def using best_exactly by blast

lemma reads_up_to:
  "list_all (in_class nd k) w \<Longrightarrow> length w \<le> n \<Longrightarrow> stops nd k u \<Longrightarrow> reads nd (up_to n (One k)) w u m m"
  unfolding reads_def using best_up_to by blast

lemma reads_some_of:
  "list_all (in_class nd k) w \<Longrightarrow> w \<noteq> [] \<Longrightarrow> stops nd k u \<Longrightarrow> reads nd (some_of (One k)) w u m m"
  unfolding reads_def using best_some_of by blast

lemma reads_One: "in_class nd k c \<Longrightarrow> reads nd (One k) [c] u m m"
  unfolding reads_def using best_One by fastforce

lemma reads_TextEnd: "reads nd TextEnd [] [] m m"
  unfolding reads_def using best_TextEnd by fastforce

lemma reads_optional: "reads nd r w u m m' \<Longrightarrow> reads nd (optional r) w u m m'"
  unfolding reads_def optional_def using best_Or_left by blast

lemma reads_optional_not:
  "(\<And>i. outcomes nd r (i, u, m) = []) \<Longrightarrow> reads nd (optional r) [] u m m"
  unfolding reads_def optional_def by (auto intro: best_Or_right)

lemma outcomes_lit_mismatch: "u \<noteq> [] \<Longrightarrow> t \<noteq> [] \<Longrightarrow> hd u \<noteq> hd t \<Longrightarrow> outcomes nd (Seq (lit t) r) (i, u, m) = []"
  by (auto simp: outcomes_lit prefix_def)

lemma outcomes_lit_absent: "\<not> prefix t u \<Longrightarrow> outcomes nd (lit t) (i, u, m) = []"
  by (simp add: outcomes_lit)

section \<open>Finding a pattern that begins with a literal\<close>

lemma search_best: "best nd re (i, t, Map.empty) s \<Longrightarrow> search nd re i t = Some s"
  by (subst search.simps) (auto simp: best_def)

lemma search_skip:
  "(\<And>i c t'. c \<in> set pre \<Longrightarrow> outcomes nd re (i, c # t', Map.empty) = []) \<Longrightarrow>
   search nd re i (pre @ t) = search nd re (i + length pre) t"
proof (induction pre arbitrary: i)
  case (Cons c pre)
  then show ?case by (subst search.simps) simp
qed simp

lemma search_literal_skip:
  assumes "l \<noteq> []" and "hd l \<notin> set pre"
  shows "search nd (Seq (lit l) r) i (pre @ t) = search nd (Seq (lit l) r) (i + length pre) t"
  using assms by (intro search_skip) (auto intro!: outcomes_lit_mismatch simp del: outcomes.simps)

lemma captures_reads:
  assumes "reads nd (Seq (lit l) r) w u Map.empty m" and "l \<noteq> []" and "hd l \<notin> set pre"
  shows "captures nd (Seq (lit l) r) (pre @ w @ u) = Some m"
proof -
  obtain j where "best nd (Seq (lit l) r) (length pre, w @ u, Map.empty) (j, u, m)"
    using assms(1) unfolding reads_def by blast
  then show ?thesis
    using search_best search_literal_skip [OF assms(2,3), of nd r 0 "w @ u"] by (simp add: captures_def)
qed

lemma search_absent: "\<not> contains l t \<Longrightarrow> search nd (Seq (lit l) r) i t = None"
proof (induction t arbitrary: i)
  case Nil
  then show ?case by (subst search.simps) (auto simp: outcomes_lit)
next
  case (Cons c t)
  then show ?case by (subst search.simps) (auto simp: outcomes_lit)
qed

lemma captures_absent: "\<not> contains l t \<Longrightarrow> captures nd (Seq (lit l) r) t = None"
  by (simp add: captures_def search_absent)

lemma contains_chars_of: "contains l t \<Longrightarrow> c \<in> set l \<Longrightarrow> c \<in> set t"
  using set_mono_prefix by (induction t) fastforce+

section \<open>Every outcome\<close>

lemma many_induct:
  assumes "s' \<in> set (many n g f s)" and "R s s"
    and "\<And>s s' s''. R s s' \<Longrightarrow> s'' \<in> set (f s') \<Longrightarrow> R s s''"
    and "\<And>s s' s''. R s s' \<Longrightarrow> R s' s'' \<Longrightarrow> R s s''" and "\<And>s. R s s"
  shows "R s s'"
  using assms(1)
proof (induction n arbitrary: s)
  case 0
  then show ?case using assms(5) by simp
next
  case (Suc n)
  from Suc.prems consider "s' = s" | t where "t \<in> set (f s)" "s' \<in> set (many n g f t)"
    by (simp only: many.simps Let_def) (auto split: if_splits)
  then show ?case
    using assms(3) [of s s] assms(4,5) Suc.IH by cases blast+
qed

text \<open>A step of the matcher only consumes, and keeps the groups it has captured.\<close>

definition grows :: "match_state \<Rightarrow> match_state \<Rightarrow> bool" where
  "grows s s' \<longleftrightarrow> length (rest_of s') \<le> length (rest_of s) \<and> dom (snd (snd s)) \<subseteq> dom (snd (snd s'))"

lemma grows_refl [simp]: "grows s s" and grows_trans: "grows s s' \<Longrightarrow> grows s' s'' \<Longrightarrow> grows s s''"
  by (auto simp: grows_def)

lemma grows_advance [simp]: "grows s (advance n s)"
  by (auto simp: grows_def advance_def split: prod.split)

lemma outcomes_grow: "s' \<in> set (outcomes nd r s) \<Longrightarrow> grows s s'"
proof (induction r arbitrary: s s')
  case (Seq a b)
  then obtain t where "t \<in> set (outcomes nd a s)" "s' \<in> set (outcomes nd b t)"
    by (simp del: split_paired_Ex) blast
  then show ?case using Seq.IH by (blast intro: grows_trans)
next
  case (Many g r)
  then have "s' \<in> set (many (length (rest_of s)) g (outcomes nd r) s)" by simp
  then show ?case
    by (rule many_induct) (blast intro: grows_refl grows_trans Many.IH)+
next
  case (Group k r)
  then obtain t where t: "t \<in> set (outcomes nd r s)" "rest_of s' = rest_of t" "snd (snd s') =
      (snd (snd t))(k \<mapsto> take (length (rest_of s) - length (rest_of t)) (rest_of s))"
    by (auto split: prod.splits)
  then show ?case using Group.IH [OF t(1)] by (auto simp: grows_def)
next
  case (Or a b)
  from Or.prems consider "s' \<in> set (outcomes nd a s)" | "s' \<in> set (outcomes nd b s)" by auto
  then show ?case using Or.IH by cases blast+
next
  case (One k)
  then show ?case by (cases "rest_of s") (simp_all del: One_nat_def split: if_splits)
qed (auto split: if_splits)

text \<open>The groups that every match captures.\<close>

primrec captures_group :: "nat \<Rightarrow> rx \<Rightarrow> bool" where
  "captures_group k Eps \<longleftrightarrow> False"
| "captures_group k (One c) \<longleftrightarrow> False"
| "captures_group k (Seq a b) \<longleftrightarrow> captures_group k a \<or> captures_group k b"
| "captures_group k (Or a b) \<longleftrightarrow> captures_group k a \<and> captures_group k b"
| "captures_group k (Many g r) \<longleftrightarrow> False"
| "captures_group k (Group j r) \<longleftrightarrow> k = j \<or> captures_group k r"
| "captures_group k TextStart \<longleftrightarrow> False"
| "captures_group k TextEnd \<longleftrightarrow> False"

lemma group_captured:
  "captures_group k r \<Longrightarrow> s' \<in> set (outcomes nd r s) \<Longrightarrow> k \<in> dom (snd (snd s'))"
proof (induction r arbitrary: s s')
  case (Seq a b)
  from Seq.prems(2) obtain t where t: "t \<in> set (outcomes nd a s)" "s' \<in> set (outcomes nd b t)"
    by (simp del: split_paired_Ex) blast
  show ?case
    using Seq.prems(1) Seq.IH(1) [OF _ t(1)] Seq.IH(2) [OF _ t(2)] outcomes_grow [OF t(2)]
    unfolding grows_def captures_group.simps by blast
next
  case (Or a b)
  from Or.prems consider "s' \<in> set (outcomes nd a s)" | "s' \<in> set (outcomes nd b s)" by auto
  then show ?case using Or.prems(1) Or.IH by cases (simp_all only: captures_group.simps)
next
  case (Group j r)
  then obtain t where t: "t \<in> set (outcomes nd r s)" "snd (snd s') =
      (snd (snd t))(j \<mapsto> take (length (rest_of s) - length (rest_of t)) (rest_of s))"
    by (auto split: prod.splits)
  then show ?case using Group.IH [OF _ t(1)] Group.prems(1) by auto
qed simp_all

lemma lit_consumes:
  assumes "t \<noteq> []" and "s' \<in> set (outcomes nd (Seq (lit t) r) s)"
  shows "length (rest_of s') < length (rest_of s)"
proof -
  have p: "prefix t (rest_of s)" and "s' \<in> set (outcomes nd r (advance (length t) s))"
    using assms(2) by (auto simp: outcomes_lit split: if_splits)
  then have "length (rest_of s') \<le> length (rest_of s) - length t"
    using outcomes_grow [of s' nd r "advance (length t) s"] by (simp add: grows_def)
  moreover have "length t \<le> length (rest_of s)" "0 < length t"
    using p assms(1) by (auto dest: prefix_length_le)
  ultimately show ?thesis by linarith
qed

lemma search_outcome: "search nd re i t = Some s \<Longrightarrow> \<exists>j t'. s \<in> set (outcomes nd re (j, t', Map.empty))"
proof (induction t arbitrary: i)
  case Nil
  then have "s \<in> set (outcomes nd re (i, [], Map.empty))"
    by (subst (asm) search.simps) (simp split: list.splits)
  then show ?case by blast
next
  case (Cons c t)
  show ?case
  proof (cases "outcomes nd re (i, c # t, Map.empty)")
    case Nil
    with Cons show ?thesis by (subst (asm) search.simps) simp
  next
    case (Cons s' ss)
    with Cons.prems have "s \<in> set (outcomes nd re (i, c # t, Map.empty))"
      by (subst (asm) search.simps) simp
    then show ?thesis by blast
  qed
qed

section \<open>The crate on ASCII\<close>

definition ascii_digits :: "(nat \<Rightarrow> bool) \<Rightarrow> bool" where
  "ascii_digits nd \<longleftrightarrow> (\<forall>c < 128. nd c \<longleftrightarrow> 48 \<le> c \<and> c \<le> 57)"

lemma regex_crateD:
  assumes "regex_crate lib"
  shows "ascii_digits (rx_digit lib)"
    and "rx_captures lib re t = captures (rx_digit lib) re t"
    and "consuming (rx_digit lib) re \<Longrightarrow>
         rx_captures_iter lib re t = captures_all (Suc (length t)) (rx_digit lib) re 0 t"
  using assms by (simp_all add: regex_crate_def ascii_digits_def)

lemma all_digits: "ascii_digits nd \<Longrightarrow> list_all (\<lambda>c. 48 \<le> c \<and> c \<le> 57) s \<Longrightarrow> list_all (in_class nd Digit) s"
  by (auto simp: list_all_iff ascii_digits_def)

lemma not_digit: "ascii_digits nd \<Longrightarrow> c < 48 \<or> 57 < c \<and> c < 128 \<Longrightarrow> \<not> nd c"
  by (auto simp: ascii_digits_def)

lemma number_digits: "list_all (\<lambda>c. 48 \<le> c \<and> c \<le> 57) (decimal n)"
  using decimal_digits by (auto simp: list_all_iff)

text \<open>The text of a number, read to its end.\<close>

lemma reads_number [reads_intros]:
  "ascii_digits nd \<Longrightarrow> stops nd Digit u \<Longrightarrow> reads nd (some_of (One Digit)) (decimal n) u m m"
  by (intro reads_some_of all_digits number_digits) (simp_all add: decimal_not_Nil)

lemma parse_u32_decimal: "parse_u32 (decimal n) = (if n < 2 ^ 32 then Some (of_nat n) else None)"
proof -
  obtain c t where ct: "decimal n = c # t" using decimal_not_Nil by (cases "decimal n") auto
  then have "c \<noteq> 43" using decimal_digits [of c n] by auto
  then show ?thesis
    using ct parse_digits_decimal [of n] by (simp add: parse_u32_def del: parse_digits.simps)
qed

lemma parse_u32_number [simp]: "parse_u32 (number w) = Some w"
proof -
  have "unat w < 2 ^ LENGTH(32)" by (rule unsigned_less)
  then show ?thesis by (simp add: number_def parse_u32_decimal)
qed

section \<open>Block hashes\<close>

definition block_hash_text :: "ustring \<Rightarrow> bool" where
  "block_hash_text h \<longleftrightarrow> length h = 64 \<and> list_all (\<lambda>c. 48 \<le> c \<and> c \<le> 57 \<or> 97 \<le> c \<and> c \<le> 102) h"

lemma reads_hash [reads_intros]: "block_hash_text h \<Longrightarrow> reads nd BLOCK_HASH_PATTERN h u m m"
  unfolding BLOCK_HASH_PATTERN_def by (rule reads_exactly) (auto simp: block_hash_text_def list_all_iff)

lemma block_hash_chars: "block_hash_text h \<Longrightarrow> c \<in> set h \<Longrightarrow> 48 \<le> c \<and> c \<le> 57 \<or> 97 \<le> c \<and> c \<le> 102"
  by (auto simp: block_hash_text_def list_all_iff)

section \<open>Timestamps as Bitcoin Core prints them\<close>

primrec pad :: "nat \<Rightarrow> nat \<Rightarrow> ustring" where
  "pad 0 v = []"
| "pad (Suc n) v = pad n (v div 10) @ [48 + v mod 10]"

lemma length_pad [simp]: "length (pad n v) = n"
  by (induction n arbitrary: v) auto

lemma pad_digits: "list_all (\<lambda>c. 48 \<le> c \<and> c \<le> 57) (pad n v)"
  by (induction n arbitrary: v) auto

record stamp =
  st_year :: nat
  st_month :: nat
  st_day :: nat
  st_hour :: nat
  st_minute :: nat
  st_second :: nat
  st_micros :: "nat option"

definition stamp_text :: "stamp \<Rightarrow> ustring" where
  "stamp_text t =
     pad 4 (st_year t) @ chars ''-'' @ pad 2 (st_month t) @ chars ''-'' @ pad 2 (st_day t) @ chars ''T'' @
     pad 2 (st_hour t) @ chars '':'' @ pad 2 (st_minute t) @ chars '':'' @ pad 2 (st_second t) @
     (case st_micros t of None \<Rightarrow> [] | Some u \<Rightarrow> chars ''.'' @ pad 6 u) @ chars ''Z''"

lemma reads_pad [reads_intros]: "ascii_digits nd \<Longrightarrow> reads nd (digits n) (pad n v) u m m"
  unfolding digits_def by (intro reads_exactly all_digits pad_digits) simp_all

lemma reads_fraction [reads_intros]:
  assumes "ascii_digits nd"
  shows "reads nd (optional (Seq (lit (chars ''.'')) (Seq (One Digit) (up_to 5 (One Digit)))))
     (case fr of None \<Rightarrow> [] | Some v \<Rightarrow> chars ''.'' @ pad 6 v) (chars ''Z'' @ u) m m"
proof (cases fr)
  case None
  then show ?thesis
    by (auto intro!: reads_optional_not simp: outcomes_lit chars_def)
next
  case (Some v)
  obtain c ds where p: "pad 6 v = [c] @ ds" "length ds = 5"
    using length_pad [of 6 v] by (cases "pad 6 v") auto
  have d: "list_all (in_class nd Digit) ([c] @ ds)"
    using all_digits [OF assms pad_digits [of 6 v]] p(1) by simp
  have "stops nd Digit (chars ''Z'' @ u)"
    using not_digit [OF assms, of 90] by (simp add: chars_def)
  then have "reads nd (up_to 5 (One Digit)) ds (chars ''Z'' @ u) m m"
    using p d by (intro reads_up_to) auto
  then have "reads nd (Seq (One Digit) (up_to 5 (One Digit))) ([c] @ ds) (chars ''Z'' @ u) m m"
    using d by (intro reads_Seq [OF reads_One]) simp_all
  then show ?thesis
    unfolding Some option.case p(1) by (rule reads_optional [OF reads_Seq [OF reads_lit]])
qed

lemma reads_stamp [reads_intros]:
  "ascii_digits nd \<Longrightarrow> reads nd RFC3339_DATE_PATTERN (stamp_text t) u m m"
  unfolding RFC3339_DATE_PATTERN_def stamp_text_def by (rule reads_intros | assumption)+

section \<open>Metadata\<close>

definition item_ok :: "ustring \<Rightarrow> bool" where
  "item_ok i \<longleftrightarrow> i \<noteq> [] \<and> 93 \<notin> set i"

definition bracketed :: "ustring \<Rightarrow> ustring" where
  "bracketed i = [91] @ i @ [93]"

definition metadata_text :: "ustring list \<Rightarrow> ustring" where
  "metadata_text items = concat (map (\<lambda>i. bracketed i @ chars '' '') items)"

lemma metadata_text_simps [simp]:
  "metadata_text [] = []"
  "metadata_text (i # items) = bracketed i @ chars '' '' @ metadata_text items"
  by (simp_all add: metadata_text_def)

lemma reads_metadata_item [reads_intros]:
  "item_ok i \<Longrightarrow> reads nd (METADATA_PATTERN k) (bracketed i) u m (m(k \<mapsto> i))"
  unfolding METADATA_PATTERN_def bracketed_def
  by (rule reads_intros reads_some_of | force simp: item_ok_def list_all_iff)+

lemma reads_spaces: "stops nd Space u \<Longrightarrow> reads nd (some_of (One Space)) (chars '' '') u m m"
  by (rule reads_some_of) (simp_all add: chars_def is_whitespace_def)

text \<open>The message of a line, when it does not start with a bracket or white space.\<close>

definition message_ok :: "ustring \<Rightarrow> bool" where
  "message_ok s \<longleftrightarrow> s \<noteq> [] \<and> hd s \<noteq> 91 \<and> \<not> is_whitespace (hd s) \<and> 10 \<notin> set s"

lemma bracket_no_space: "\<not> is_whitespace 91"
  by (simp add: is_whitespace_def)

lemma stops_metadata:
  "message_ok msg \<Longrightarrow> stops nd Space (metadata_text items @ msg)"
  by (cases items) (auto simp: message_ok_def stops_def bracketed_def bracket_no_space split: list.splits)

lemma consuming_METADATA: "consuming nd METADATA_REGEX"
  unfolding consuming_def METADATA_REGEX_def METADATA_PATTERN_def using lit_consumes by blast

text \<open>The iterator finds the items.\<close>

lemma captures_all_items:
  assumes "list_all item_ok items" and "length items < n" and "91 \<notin> set pre"
  shows "map (\<lambda>cap. cap 1) (captures_all n nd METADATA_REGEX i (pre @ metadata_text items)) = map Some items"
  using assms
proof (induction items arbitrary: n pre i)
  case Nil
  have "search nd METADATA_REGEX i pre = None"
    using Nil(3) unfolding METADATA_REGEX_def METADATA_PATTERN_def
    by (intro search_absent contains_absent) auto
  with Nil(2) show ?case by (cases n) auto
next
  case (Cons x items)
  then obtain k where n: "n = Suc k" "length items < k" by (cases n) auto
  let ?u = "chars '' '' @ metadata_text items"
  have "reads nd METADATA_REGEX (bracketed x) ?u Map.empty [1 \<mapsto> x]"
    using reads_metadata_item [of x nd 1 ?u Map.empty] Cons.prems(1) by (simp add: METADATA_REGEX_def)
  then obtain j where "best nd METADATA_REGEX (i + length pre, bracketed x @ ?u, Map.empty) (j, ?u, [1 \<mapsto> x])"
    unfolding reads_def by blast
  then have "search nd METADATA_REGEX i (pre @ metadata_text (x # items)) = Some (j, ?u, [1 \<mapsto> x])"
    using Cons.prems(3) search_best search_literal_skip [of "[91]" pre nd]
    by (simp add: METADATA_REGEX_def METADATA_PATTERN_def)
  then show ?case
    using Cons.IH [of k "chars '' ''" j] Cons.prems n by (simp add: chars_def)
qed

lemma captured_items_eq: "map (\<lambda>cap. cap 1) caps = map Some items \<Longrightarrow> captured_items caps = Some items"
proof (induction items arbitrary: caps)
  case (Cons x items)
  then show ?case by (cases caps) (auto simp: captured_items_def)
qed (simp add: captured_items_def)

lemma length_metadata_text: "length items \<le> length (metadata_text items)"
  by (induction items) auto

lemma iter_metadata:
  assumes "regex_crate lib" and "list_all item_ok items"
  shows "captured_items (rx_captures_iter lib METADATA_REGEX (metadata_text items)) = Some items"
  using captures_all_items [of items "Suc (length (metadata_text items))" "[]" "rx_digit lib" 0]
    regex_crateD(3) [OF assms(1) consuming_METADATA] assms(2) length_metadata_text [of items]
  by (intro captured_items_eq) simp

section \<open>A line\<close>

definition log_line :: "stamp \<Rightarrow> ustring list \<Rightarrow> ustring \<Rightarrow> ustring" where
  "log_line t items msg = stamp_text t @ chars '' '' @ metadata_text items @ msg"

abbreviation metadata_rx :: rx where
  "metadata_rx \<equiv> Seq (METADATA_PATTERN 3) (some_of (One Space))"

lemma outcomes_metadata_stop:
  "u = [] \<or> hd u \<noteq> 91 \<Longrightarrow> outcomes nd metadata_rx (i, u, m) = []"
  by (auto simp: METADATA_PATTERN_def outcomes_lit prefix_def)

lemma reads_metadata:
  assumes "list_all item_ok items" and "message_ok msg"
  shows "\<exists>m'. reads nd (Many True metadata_rx) (metadata_text items) msg m m' \<and> (\<forall>k. k \<noteq> 3 \<longrightarrow> m' k = m k)"
  using assms(1)
proof (induction items arbitrary: m)
  case Nil
  have "reads nd (Many True metadata_rx) [] msg m m"
    using assms(2) unfolding reads_def message_ok_def
    by (auto intro!: best_Many_stop outcomes_metadata_stop simp del: outcomes.simps)
  then show ?case by auto
next
  case (Cons x items)
  let ?w = "bracketed x @ chars '' ''" and ?m = "m(3 \<mapsto> x)"
  obtain m' where m': "reads nd (Many True metadata_rx) (metadata_text items) msg ?m m'"
      "\<forall>k. k \<noteq> 3 \<longrightarrow> m' k = ?m k"
    using Cons by fastforce
  have item: "reads nd metadata_rx ?w (metadata_text items @ msg) m ?m"
    using Cons.prems stops_metadata [OF assms(2)]
    by (intro reads_Seq [OF reads_metadata_item reads_spaces]) auto
  have "reads nd (Many True metadata_rx) (metadata_text (x # items)) msg m m'"
    unfolding reads_def
  proof
    fix i
    obtain j where j: "best nd metadata_rx (i, ?w @ metadata_text items @ msg, m) (j, metadata_text items @ msg, ?m)"
      using item unfolding reads_def by blast
    obtain l where l: "best nd (Many True metadata_rx) (j, metadata_text items @ msg, ?m) (l, msg, m')"
      using m'(1) unfolding reads_def by blast
    show "\<exists>l. best nd (Many True metadata_rx) (i, metadata_text (x # items) @ msg, m) (l, msg, m')"
      using best_Many_step [OF j _ l] by (auto simp: bracketed_def)
  qed
  with m'(2) show ?case by auto
qed

text \<open>What the expression of a line captures.\<close>

lemma log_line_captures:
  assumes "regex_crate lib" and "list_all item_ok items" and "message_ok msg"
  shows "\<exists>caps. rx_captures lib LOG_LINE_REGEX (log_line t items msg) = Some caps \<and>
    caps 1 = Some (stamp_text t) \<and> caps 2 = Some (metadata_text items) \<and> caps 4 = Some msg"
proof -
  let ?nd = "rx_digit lib" and ?m1 = "[1 \<mapsto> stamp_text t]"
  have nd: "ascii_digits ?nd" by (rule regex_crateD(1) [OF assms(1)])
  obtain m' where m': "reads ?nd (Many True metadata_rx) (metadata_text items) msg ?m1 m'" "m' 1 = ?m1 1"
    using reads_metadata [OF assms(2,3), of ?nd ?m1] by force
  have "reads ?nd (Group 4 (some_of (One NotNewline))) msg ([] @ []) (m'(2 \<mapsto> metadata_text items))
      (m'(2 \<mapsto> metadata_text items, 4 \<mapsto> msg))"
    using assms(3) by (intro reads_Group reads_some_of) (auto simp: message_ok_def list_all_iff)
  from reads_Seq [OF this, of TextEnd] have msg:
      "reads ?nd (Seq (Group 4 (some_of (One NotNewline))) TextEnd) msg [] (m'(2 \<mapsto> metadata_text items))
      (m'(2 \<mapsto> metadata_text items, 4 \<mapsto> msg))"
    by (simp add: reads_TextEnd)
  let ?tail = "Seq (Group 1 RFC3339_DATE_PATTERN) (Seq (some_of (One Space))
     (Seq (Group 2 (Many True metadata_rx)) (Seq (Group 4 (some_of (One NotNewline))) TextEnd)))"
  have "reads ?nd (Group 2 (Many True metadata_rx)) (metadata_text items) (msg @ []) ?m1
      (m'(2 \<mapsto> metadata_text items))"
    using m'(1) by (simp add: reads_Group)
  note this [THEN reads_Seq, OF msg]
  moreover have "stops ?nd Space ((metadata_text items @ msg) @ [])"
    using stops_metadata [OF assms(3), of ?nd items] by simp
  ultimately have "reads ?nd ?tail (stamp_text t @ chars '' '' @ metadata_text items @ msg) [] Map.empty
      (m'(2 \<mapsto> metadata_text items, 4 \<mapsto> msg))"
    by (intro reads_Seq [OF reads_Group [OF reads_stamp [OF nd]]] reads_Seq [OF reads_spaces])
  then obtain j where "best ?nd ?tail (0, log_line t items msg, Map.empty)
      (j, [], m'(2 \<mapsto> metadata_text items, 4 \<mapsto> msg))"
    unfolding reads_def log_line_def by fastforce
  then have "best ?nd LOG_LINE_REGEX (0, log_line t items msg, Map.empty)
      (j, [], m'(2 \<mapsto> metadata_text items, 4 \<mapsto> msg))"
    unfolding LOG_LINE_REGEX_def by (simp add: best_def)
  then show ?thesis
    using m'(2) search_best by (simp add: regex_crateD(2) [OF assms(1)] captures_def)
qed

text \<open>A line that does not begin with a digit is not matched.\<close>

lemma log_line_no_digit:
  assumes "regex_crate lib" and "line = [] \<or> \<not> rx_digit lib (hd line)"
  shows "rx_captures lib LOG_LINE_REGEX line = None"
proof -
  let ?nd = "rx_digit lib"
  have digits: "outcomes ?nd RFC3339_DATE_PATTERN (i, line, m) = []" for i m
    using assms(2) unfolding RFC3339_DATE_PATTERN_def digits_def
    by (cases line) (simp_all add: numeral_nat)
  have none: "outcomes ?nd LOG_LINE_REGEX (i, t, Map.empty) = []" if "i \<noteq> 0 \<or> t = line" for i t
    using digits that by (auto simp: LOG_LINE_REGEX_def)
  have "search ?nd LOG_LINE_REGEX i t = None" if "i \<noteq> 0 \<or> t = line" for i t
    using that
  proof (induction t arbitrary: i)
    case Nil
    then show ?case using none [OF Nil] by (subst search.simps) simp
  next
    case (Cons c t)
    then show ?case using none [OF Cons.prems] by (subst search.simps) simp
  qed
  then show ?thesis by (simp add: regex_crateD(2) [OF assms(1)] captures_def)
qed

text \<open>Every match has the groups that the code reads.\<close>

lemma log_line_groups:
  assumes "captures nd LOG_LINE_REGEX line = Some caps"
  shows "1 \<in> dom caps" and "4 \<in> dom caps"
proof -
  obtain s where "search nd LOG_LINE_REGEX 0 line = Some s" and caps: "caps = snd (snd s)"
    using assms by (auto simp: captures_def)
  then obtain j t where s: "s \<in> set (outcomes nd LOG_LINE_REGEX (j, t, Map.empty))"
    using search_outcome by blast
  have "captures_group 1 LOG_LINE_REGEX" "captures_group 4 LOG_LINE_REGEX"
    by (simp_all add: LOG_LINE_REGEX_def)
  then show "1 \<in> dom caps" "4 \<in> dom caps"
    using group_captured [OF _ s] unfolding caps by blast+
qed

lemma metadata_groups:
  "cap \<in> set (captures_all n nd METADATA_REGEX i t) \<Longrightarrow> 1 \<in> dom cap"
proof (induction n arbitrary: i t)
  case (Suc n)
  show ?case
  proof (cases "search nd METADATA_REGEX i t")
    case (Some s)
    then obtain j u where s: "s \<in> set (outcomes nd METADATA_REGEX (j, u, Map.empty))"
      using search_outcome by blast
    have "captures_group 1 METADATA_REGEX" by (simp add: METADATA_REGEX_def METADATA_PATTERN_def)
    then have "1 \<in> dom (snd (snd s))" using group_captured s by blast
    with Suc Some show ?thesis by (cases s) auto
  qed (use Suc.prems in simp)
qed simp

end
