(* ===== verification/LogExtractor.thy ===== *)
theory LogExtractor
  imports LogMatchers ExtractorLoop RustIo
begin

text \<open>
  The log extractor (\<^verbatim>\<open>extractors/log/src/lib.rs\<close>): opening the pipe, and the loop that publishes an
  event for each line. What the branches of \<^verbatim>\<open>select!\<close> yield is the input; publishing and sleeping are
  the actions. A publication that fails is only logged.
\<close>

datatype log_read = LineRead clock ustring | NoLine | ReadWouldBlock | ReadFailed io_error

text \<open>\<^verbatim>\<open>shutdown_rx.changed()\<close> yields the value of the channel, or \<open>None\<close> when the sender is gone.\<close>

datatype log_input = NextLine log_read | ShutdownYields "bool option"

datatype log_action = PublishLog Subject "Log Event" | SleepMillis nat

datatype log_status = LogGoesOn | LogStopped | LogFailed io_error | LogPanicked

definition process_log :: "log_lib \<Rightarrow> clock \<Rightarrow> ustring \<Rightarrow> log_action list option" where
  "process_log lib now line =
     map_option (\<lambda>l. case Event_new now l of
         Inr proto \<Rightarrow> [PublishLog Subject.LogExtractor proto]
       | Inl e \<Rightarrow> []) (parse_log_event lib line)"

definition log_iteration :: "log_lib \<Rightarrow> log_input \<Rightarrow> log_action list \<times> log_status" where
  "log_iteration lib inp =
     (case inp of
        NextLine (LineRead now line) \<Rightarrow>
          (case process_log lib now line of
             Some acts \<Rightarrow> (acts, LogGoesOn)
           | None \<Rightarrow> ([], LogPanicked))
      | NextLine NoLine \<Rightarrow> ([SleepMillis 25], LogGoesOn)
      | NextLine ReadWouldBlock \<Rightarrow> ([SleepMillis 25], LogGoesOn)
      | NextLine (ReadFailed e) \<Rightarrow> ([], LogFailed e)
      | ShutdownYields (Some shutting_down) \<Rightarrow> ([], if shutting_down then LogStopped else LogGoesOn)
      | ShutdownYields None \<Rightarrow> ([], LogStopped))"

fun log_loop :: "log_lib \<Rightarrow> log_input list \<Rightarrow> log_action list \<times> log_status" where
  "log_loop lib [] = ([], LogGoesOn)"
| "log_loop lib (inp # inps) =
     (case log_iteration lib inp of
        (acts, LogGoesOn) \<Rightarrow> (case log_loop lib inps of (acts', st) \<Rightarrow> (acts @ acts', st))
      | (acts, st) \<Rightarrow> (acts, st))"

section \<open>Opening the pipe\<close>

definition MAX_RETRIES :: nat where "MAX_RETRIES = 30"

text \<open>
  The value of the shutdown channel and the existence of the file at each retry are inputs. The result
  is the number of waits of one second, and whether the loop ended without a shutdown.
\<close>

primrec open_wait :: "nat \<Rightarrow> nat \<Rightarrow> (nat \<Rightarrow> bool) \<Rightarrow> (nat \<Rightarrow> bool) \<Rightarrow> nat \<times> bool" where
  "open_wait 0 retries shutting_down exists' = (0, True)"
| "open_wait (Suc n) retries shutting_down exists' =
     (if shutting_down retries then (0, False)
      else if \<not> exists' retries then
        (case open_wait n (Suc retries) shutting_down exists' of (waits, ok) \<Rightarrow> (Suc waits, ok))
      else (0, True))"

datatype pipe_error = PipeShutdown | PipeOpen io_error

definition open_pipe ::
    "(nat \<Rightarrow> bool) \<Rightarrow> (nat \<Rightarrow> bool) \<Rightarrow> (io_error + 'f) \<Rightarrow> nat \<times> (pipe_error + 'f)" where
  "open_pipe shutting_down exists' opened =
     (case open_wait (Suc MAX_RETRIES) 0 shutting_down exists' of
        (waits, False) \<Rightarrow> (waits, Inl PipeShutdown)
      | (waits, True) \<Rightarrow> (waits, case opened of Inl e \<Rightarrow> Inl (PipeOpen e) | Inr f \<Rightarrow> Inr f))"

section \<open>The whole run\<close>

datatype log_run = NatsFailed | PipeFailed pipe_error | LoopEnds "log_action list" log_status

definition log_extractor_run ::
    "log_lib \<Rightarrow> bool \<Rightarrow> (pipe_error + 'f) \<Rightarrow> log_input list \<Rightarrow> log_run" where
  "log_extractor_run lib connected pipe inps =
     (if \<not> connected then NatsFailed
      else case pipe of
          Inl e \<Rightarrow> PipeFailed e
        | Inr f \<Rightarrow> (case log_loop lib inps of (acts, st) \<Rightarrow> LoopEnds acts st))"

end
