(* ===== verification/LogProperties.thy ===== *)
theory LogProperties
  imports LogFacts LogExtractor
begin

text \<open>
  The properties of the log extractor: lines as Bitcoin Core writes them are read back, no line makes the
  parser panic, what happens to the lines it does not understand, and the loop that publishes.
\<close>

section \<open>Messages as Bitcoin Core writes them\<close>

definition validation_text :: "BlockCheckedLog \<Rightarrow> ustring" where
  "validation_text l =
     bkl_state l @ (if bkl_debug_message l = [] then [] else chars '', '' @ bkl_debug_message l)"

fun core_message :: "LogEvent \<Rightarrow> ustring" where
  "core_message (UnknownLogMessage m) = m"
| "core_message (LogBlockConnected l) =
     chars ''BlockConnected: block hash='' @ bcl_block_hash l @ chars '' block height='' @
     number (bcl_block_height l)"
| "core_message (LogBlockChecked l) =
     chars ''BlockChecked: block hash='' @ bkl_block_hash l @ chars '' state='' @ validation_text l"
| "core_message (LogSawNewHeader l) =
     chars ''Saw new '' @ (if snh_is_cmpctblock l then chars ''cmpctblock '' else []) @
     chars ''header hash='' @ snh_block_hash l @ chars '' height='' @ number (snh_block_height l) @
     chars '' peer='' @ number (snh_peer_id l)"
| "core_message (LogCompactBlockReconstructed l) =
     chars ''Successfully reconstructed block '' @ cbr_block_hash l @
     chars '' with '' @ number (cbr_prefilled_txn_count l) @
     chars '' txn prefilled, '' @ number (cbr_mempool_txn_count l) @
     chars '' txn from mempool (incl at least '' @ number (cbr_extra_pool_txn_count l) @
     chars '' from extra pool) and '' @ number (cbr_requested_txn_count l) @
     chars '' txn ('' @ number (cbr_requested_txn_bytes l) @ chars '' bytes) requested''"

definition first_words :: "string list" where
  "first_words =
     [''BlockConnected: block hash='', ''BlockChecked: block hash='', ''Saw new '',
      ''Successfully reconstructed block '']"

text \<open>
  A message that no matcher is for has none of the words they start with. The reject reason of a checked
  block has no comma, and what it says does not look like a connected block.
\<close>

fun core_event :: "LogEvent \<Rightarrow> bool" where
  "core_event (UnknownLogMessage m) \<longleftrightarrow>
     message_ok m \<and> list_all (\<lambda>w. \<not> contains (chars w) m) first_words"
| "core_event (LogBlockConnected l) \<longleftrightarrow> block_hash_text (bcl_block_hash l)"
| "core_event (LogBlockChecked l) \<longleftrightarrow>
     block_hash_text (bkl_block_hash l) \<and> 44 \<notin> set (bkl_state l) \<and>
     10 \<notin> set (bkl_state l @ bkl_debug_message l) \<and>
     \<not> contains (chars ''BlockConnected: block hash='') (validation_text l)"
| "core_event (LogSawNewHeader l) \<longleftrightarrow> block_hash_text (snh_block_hash l)"
| "core_event (LogCompactBlockReconstructed l) \<longleftrightarrow> block_hash_text (cbr_block_hash l)"

lemma number_chars: "c \<in> set (number w) \<Longrightarrow> 48 \<le> c \<and> c \<le> 57"
  unfolding number_def by (rule decimal_digits)

lemma reads_number_u32 [reads_intros]:
  "ascii_digits nd \<Longrightarrow> stops nd Digit u \<Longrightarrow> reads nd (some_of (One Digit)) (number w) u m m"
  unfolding number_def by (rule reads_number)

lemma stops_digit_chars: "ascii_digits nd \<Longrightarrow> stops nd Digit (chars '' '' @ u)"
  by (simp add: chars_def not_digit)

text \<open>A capital letter in none of the texts between the words.\<close>

lemma capital_absent:
  assumes "c = 66 \<or> c = 83"
  shows "block_hash_text h \<Longrightarrow> c \<notin> set h" and "c \<notin> set (number w)"
  using assms block_hash_chars [of h c] number_chars [of c w] by auto

lemma reads_block_connected:
  assumes nd: "ascii_digits nd" and h: "block_hash_text h"
  shows "reads nd BLOCK_CONNECTED_REGEX
    (chars ''BlockConnected: block hash='' @ h @ chars '' block height='' @ decimal n) [] Map.empty
    (Map.empty(1 \<mapsto> h, 2 \<mapsto> decimal n))"
  unfolding BLOCK_CONNECTED_REGEX_def
  by (rule reads_intros nd h | simp add: chars_def not_digit [OF nd])+

lemma reads_saw_new_header:
  assumes nd: "ascii_digits nd" and h: "block_hash_text h"
  shows "reads nd SAW_NEW_HEADER_REGEX
    (chars ''Saw new '' @ (if c then chars ''cmpctblock '' else []) @ chars ''header hash='' @ h @
     chars '' height='' @ number n @ chars '' peer='' @ number k) [] Map.empty
    (Map.empty(1 \<mapsto> h, 2 \<mapsto> number n, 3 \<mapsto> number k))"
proof -
  have optional: "reads nd (optional (lit (chars ''cmpctblock ''))) (if c then chars ''cmpctblock '' else [])
      ((chars ''header hash='' @ u) @ v) m m" for u v m
    by (auto intro!: reads_optional reads_lit reads_optional_not simp: outcomes_lit chars_def)
  show ?thesis
    unfolding SAW_NEW_HEADER_REGEX_def
    by (rule reads_intros nd h | rule optional | simp add: chars_def not_digit [OF nd])+
qed

lemma reads_compact_block:
  assumes nd: "ascii_digits nd" and h: "block_hash_text h"
  shows "reads nd COMPACT_BLOCK_RECONSTRUCTED_REGEX
    (chars ''Successfully reconstructed block '' @ h @ chars '' with '' @ number a @
     chars '' txn prefilled, '' @ number b @ chars '' txn from mempool (incl at least '' @ number c @
     chars '' from extra pool) and '' @ number d @ chars '' txn ('' @ number e @ chars '' bytes) requested'')
    [] Map.empty
    (Map.empty(1 \<mapsto> h, 2 \<mapsto> number a, 3 \<mapsto> number b, 4 \<mapsto> number c, 5 \<mapsto> number d, 6 \<mapsto> number e))"
  unfolding COMPACT_BLOCK_RECONSTRUCTED_REGEX_def
  by (rule reads_intros nd h | simp add: chars_def not_digit [OF nd])+

text \<open>The state of a checked block: the lazy group stops before the first comma and space, or at the end.\<close>

lemma reads_lazy:
  assumes "list_all (in_class nd k) w" and "\<And>i m x v. w = x @ v \<Longrightarrow> v \<noteq> [] \<Longrightarrow> outcomes nd r (i, v @ u, m) = []"
    and "reads nd r w' u' (m(g \<mapsto> w)) m'" and "u = w' @ u'"
  shows "reads nd (Seq (Group g (Many False (One k))) r) (w @ w') u' m m'"
  unfolding reads_def
proof
  fix i
  define W where "W = w @ u"
  let ?s = "(i, W, m)" and ?f = "\<lambda>j. (i + j, drop j W, m(g \<mapsto> take j W))"
  let ?n = "length (takeWhile (in_class nd k) W)"
  have n: "length w \<le> ?n" "?n \<le> length W"
    using assms(1) length_takeWhile_le [of "in_class nd k" W] by (simp_all add: W_def list_all_iff)
  have "outcomes nd (Group g (Many False (One k))) ?s = map ?f [0..<Suc ?n]"
    using n(2) by (simp add: many_class min_absorb2 del: upt_Suc)
  also have "[0..<Suc ?n] = [0..<length w] @ length w # [Suc (length w)..<Suc ?n]"
    using n(1) by (metis upt_add_eq_append upt_conv_Cons le_add_diff_inverse le_imp_less_Suc zero_le add_0
        le_SucI)
  finally have g: "outcomes nd (Group g (Many False (One k))) ?s =
      map ?f [0..<length w] @ ?f (length w) # map ?f [Suc (length w)..<Suc ?n]"
    by (simp only: map_append list.map)
  have "outcomes nd r (?f j) = []" if "j < length w" for j
    using assms(2) [of "take j w" "drop j w"] that by (simp add: W_def)
  then have early: "concat (map (outcomes nd r) (map ?f [0..<length w])) = []" by simp
  obtain l where "best nd r (?f (length w)) (l, u', m')"
    using assms(3,4) unfolding reads_def W_def by fastforce
  then have "best nd (Seq (Group g (Many False (One k))) r) ?s (l, u', m')"
    using early by (simp only: best_def outcomes.simps(3) g map_append concat_append list.map concat.simps
        append_Nil) auto
  then show "\<exists>l. best nd (Seq (Group g (Many False (One k))) r) (i, (w @ w') @ u', m) (l, u', m')"
    using assms(4) by (auto simp: W_def)
qed

lemma reads_block_checked:
  assumes nd: "ascii_digits nd" and h: "block_hash_text (bkl_block_hash l)"
    and state: "44 \<notin> set (bkl_state l)" "10 \<notin> set (bkl_state l @ bkl_debug_message l)"
  shows "\<exists>caps. reads nd BLOCK_CHECKED_REGEX
      (chars ''BlockChecked: block hash='' @ bkl_block_hash l @ chars '' state='' @ validation_text l) [] Map.empty
      caps \<and> caps 1 = Some (bkl_block_hash l) \<and> caps 2 = Some (bkl_state l) \<and>
    caps 3 = (if bkl_debug_message l = [] then None else Some (bkl_debug_message l))"
proof -
  let ?m = "[1 \<mapsto> bkl_block_hash l, 2 \<mapsto> bkl_state l]" and ?dbg = "bkl_debug_message l"
  let ?sep = "Or (Seq (lit (chars '','')) (One Space)) TextEnd"
  let ?r = "Seq ?sep (optional (Group 3 (some_of (One NotNewline))))"
  let ?m' = "if ?dbg = [] then ?m else ?m(3 \<mapsto> ?dbg)"
  let ?w' = "if ?dbg = [] then [] else chars '', '' @ ?dbg"
  have early: "outcomes nd ?r (i, v @ u, m) = []" if "bkl_state l = x @ v" "v \<noteq> []" for i m x v u
    using that state(1) by (cases v) (auto simp: outcomes_lit chars_def)
  have rest: "reads nd ?r ?w' [] ?m ?m'"
  proof (cases "?dbg = []")
    case True
    then show ?thesis by (auto simp: reads_def best_def outcomes_lit chars_def optional_def outcomes_some_of_class)
  next
    case False
    have "reads nd (Seq (lit (chars '','')) (One Space)) (chars '','' @ [32]) (?dbg @ []) ?m ?m"
      by (intro reads_Seq [OF reads_lit] reads_One) (simp add: is_whitespace_def)
    then have "reads nd ?sep (chars '','' @ [32]) (?dbg @ []) ?m ?m"
      unfolding reads_def using best_Or_left by blast
    moreover have "reads nd (optional (Group 3 (some_of (One NotNewline)))) ?dbg [] ?m (?m(3 \<mapsto> ?dbg))"
      using False state(2) by (intro reads_optional reads_Group reads_some_of) (auto simp: list_all_iff)
    ultimately have "reads nd ?r ((chars '','' @ [32]) @ ?dbg) [] ?m (?m(3 \<mapsto> ?dbg))"
      by (rule reads_Seq)
    then show ?thesis using False by (simp add: chars_def)
  qed
  have "reads nd (VALIDATION_STATE_PATTERN 2) (validation_text l) [] [1 \<mapsto> bkl_block_hash l] ?m'"
    unfolding VALIDATION_STATE_PATTERN_def validation_text_def
    by (rule reads_lazy [where u = ?w' and u' = "[]"]) (use early rest state(2) in \<open>auto simp: list_all_iff\<close>)
  then have "reads nd BLOCK_CHECKED_REGEX
      (chars ''BlockChecked: block hash='' @ bkl_block_hash l @ chars '' state='' @ validation_text l) [] Map.empty ?m'"
    unfolding BLOCK_CHECKED_REGEX_def
    by (intro reads_Seq [OF reads_lit] reads_Seq [OF reads_Group [OF reads_hash [OF h]]]) simp
  then show ?thesis by (intro exI [of _ ?m']) auto
qed

section \<open>The matchers on these messages\<close>

text \<open>A pattern that begins with a literal, on a text that begins with it or that does not have it.\<close>

lemma captures_at_start:
  assumes "regex_crate lib" and "re = Seq (lit l) r" and "l \<noteq> []"
    and "reads (rx_digit lib) re w [] Map.empty caps"
  shows "rx_captures lib re w = Some caps"
  using captures_reads [of "rx_digit lib" l r w "[]" caps "[]"] assms
  by (simp add: regex_crateD(2))

lemma captures_none:
  assumes "regex_crate lib" and "re = Seq (lit l) r" and "\<not> contains l t"
  shows "rx_captures lib re t = None"
  using assms captures_absent by (simp add: regex_crateD(2))

lemma pattern_literals:
  "\<exists>r. BLOCK_CONNECTED_REGEX = Seq (lit (chars ''BlockConnected: block hash='')) r"
  "\<exists>r. BLOCK_CHECKED_REGEX = Seq (lit (chars ''BlockChecked: block hash='')) r"
  "\<exists>r. SAW_NEW_HEADER_REGEX = Seq (lit (chars ''Saw new '')) r"
  "\<exists>r. COMPACT_BLOCK_RECONSTRUCTED_REGEX = Seq (lit (chars ''Successfully reconstructed block '')) r"
  by (simp_all add: BLOCK_CONNECTED_REGEX_def BLOCK_CHECKED_REGEX_def SAW_NEW_HEADER_REGEX_def
      COMPACT_BLOCK_RECONSTRUCTED_REGEX_def)

lemma matcher_none:
  assumes "regex_crate lib"
  shows "\<not> contains (chars ''BlockConnected: block hash='') t \<Longrightarrow> block_connected_parse_event lib t = None"
    and "\<not> contains (chars ''BlockChecked: block hash='') t \<Longrightarrow> block_checked_parse_event lib t = None"
    and "\<not> contains (chars ''Saw new '') t \<Longrightarrow> saw_new_header_parse_event lib t = None"
    and "\<not> contains (chars ''Successfully reconstructed block '') t \<Longrightarrow> compact_block_parse_event lib t = None"
  using pattern_literals captures_none [OF assms]
  by (fastforce simp: block_connected_parse_event_def block_checked_parse_event_def
      saw_new_header_parse_event_def compact_block_parse_event_def)+

lemma match_unknown:
  assumes "regex_crate lib" and "list_all (\<lambda>w. \<not> contains (chars w) m) first_words"
  shows "match_message lib m = Some (UnknownLogMessage m)"
  using assms matcher_none [OF assms(1), of m]
  by (simp add: match_message_def matchers_def first_words_def unknown_parse_event_def)

text \<open>The characters of a text that is given as its parts.\<close>

lemma hash_chars_simps:
  "block_hash_text h \<Longrightarrow> c < 48 \<or> 57 < c \<and> c < 97 \<or> 102 < c \<Longrightarrow> c \<notin> set h"
  "c < 48 \<or> 57 < c \<Longrightarrow> c \<notin> set (number w)"
  using block_hash_chars [of h c] number_chars [of c w] by auto

lemma words_absent:
  "66 \<notin> set t \<Longrightarrow> \<not> contains (chars ''BlockConnected: block hash='') t"
  "66 \<notin> set t \<Longrightarrow> \<not> contains (chars ''BlockChecked: block hash='') t"
  "83 \<notin> set t \<Longrightarrow> \<not> contains (chars ''Saw new '') t"
  "83 \<notin> set t \<Longrightarrow> \<not> contains (chars ''Successfully reconstructed block '') t"
  by (rule contains_absent; simp add: chars_def)+

lemma match_block_connected:
  assumes "regex_crate lib" and "block_hash_text h" and "n < 2 ^ 32"
  shows "match_message lib (chars ''BlockConnected: block hash='' @ h @ chars '' block height='' @ decimal n) =
    Some (LogBlockConnected \<lparr>bcl_block_hash = h, bcl_block_height = of_nat n\<rparr>)"
proof -
  obtain r where r: "BLOCK_CONNECTED_REGEX = Seq (lit (chars ''BlockConnected: block hash='')) r"
    using pattern_literals by blast
  show ?thesis
    using captures_at_start [OF assms(1) r _ reads_block_connected [OF regex_crateD(1) [OF assms(1)] assms(2)]]
      assms(3)
    by (simp add: match_message_def matchers_def block_connected_parse_event_def parse_u32_decimal chars_def)
qed

lemma match_block_checked:
  assumes "regex_crate lib" and "core_event (LogBlockChecked l)"
  shows "match_message lib (core_message (LogBlockChecked l)) = Some (LogBlockChecked l)"
proof -
  obtain r where r: "BLOCK_CHECKED_REGEX = Seq (lit (chars ''BlockChecked: block hash='')) r"
    using pattern_literals by blast
  let ?pre = "chars ''lockChecked: block hash='' @ bkl_block_hash l @ chars '' state=''"
  obtain caps where "reads (rx_digit lib) BLOCK_CHECKED_REGEX (core_message (LogBlockChecked l)) [] Map.empty caps"
    and caps: "caps 1 = Some (bkl_block_hash l)" "caps 2 = Some (bkl_state l)"
      "caps 3 = (if bkl_debug_message l = [] then None else Some (bkl_debug_message l))"
    using reads_block_checked [OF regex_crateD(1) [OF assms(1)], of l] assms(2) by auto
  from captures_at_start [OF assms(1) r _ this(1)]
  have event: "block_checked_parse_event lib (core_message (LogBlockChecked l)) = Some (LogBlockChecked l)"
    using caps by (simp add: block_checked_parse_event_def chars_def)
  have "contains (chars ''BlockConnected: block hash='') (core_message (LogBlockChecked l)) \<longleftrightarrow>
      contains (chars ''BlockConnected: block hash='') (?pre @ validation_text l)"
    by (simp add: chars_def)
  also have "\<dots> \<longleftrightarrow> contains (chars ''BlockConnected: block hash='') (validation_text l)"
    using assms(2) hash_chars_simps(1) [of "bkl_block_hash l" 66] by (intro contains_skip) (auto simp: chars_def)
  finally have "block_connected_parse_event lib (core_message (LogBlockChecked l)) = None"
    using assms matcher_none(1) by simp
  with event show ?thesis by (simp add: match_message_def matchers_def)
qed

lemma match_saw_new_header:
  assumes "regex_crate lib" and "core_event (LogSawNewHeader l)"
  shows "match_message lib (core_message (LogSawNewHeader l)) = Some (LogSawNewHeader l)"
proof -
  let ?T = "core_message (LogSawNewHeader l)"
  obtain r where r: "SAW_NEW_HEADER_REGEX = Seq (lit (chars ''Saw new '')) r"
    using pattern_literals by blast
  have h: "block_hash_text (snh_block_hash l)" using assms(2) by simp
  have "contains (chars ''cmpctblock'') ?T \<longleftrightarrow> snh_is_cmpctblock l"
  proof (cases "snh_is_cmpctblock l")
    case True
    have "prefix (chars ''cmpctblock'') (drop 8 ?T)" using True by (simp add: chars_def)
    with True show ?thesis using contains_drop by blast
  next
    case False
    have "107 \<notin> set ?T" using False h by (auto simp: chars_def hash_chars_simps)
    then have "\<not> contains (chars ''cmpctblock'') ?T"
      using contains_chars_of [of "chars ''cmpctblock''" ?T 107] by (auto simp: chars_def)
    with False show ?thesis by simp
  qed
  moreover have "rx_captures lib SAW_NEW_HEADER_REGEX ?T = Some (Map.empty
      (1 \<mapsto> snh_block_hash l, 2 \<mapsto> number (snh_block_height l), 3 \<mapsto> number (snh_peer_id l)))"
    using captures_at_start [OF assms(1) r _ reads_saw_new_header [OF regex_crateD(1) [OF assms(1)] h]]
    by (simp add: chars_def)
  moreover have "66 \<notin> set ?T" using h by (auto simp: chars_def hash_chars_simps)
  note this [THEN words_absent(1)] this [THEN words_absent(2)]
  ultimately show ?thesis
    using matcher_none(1,2) [OF assms(1), of ?T]
    by (simp add: match_message_def matchers_def saw_new_header_parse_event_def del: core_message.simps)
qed

lemma match_compact_block:
  assumes "regex_crate lib" and "core_event (LogCompactBlockReconstructed l)"
  shows "match_message lib (core_message (LogCompactBlockReconstructed l)) =
    Some (LogCompactBlockReconstructed l)"
proof -
  let ?T = "core_message (LogCompactBlockReconstructed l)"
  obtain r where r: "COMPACT_BLOCK_RECONSTRUCTED_REGEX =
      Seq (lit (chars ''Successfully reconstructed block '')) r"
    using pattern_literals by blast
  have h: "block_hash_text (cbr_block_hash l)" using assms(2) by simp
  have "rx_captures lib COMPACT_BLOCK_RECONSTRUCTED_REGEX ?T = Some (Map.empty
      (1 \<mapsto> cbr_block_hash l, 2 \<mapsto> number (cbr_prefilled_txn_count l), 3 \<mapsto> number (cbr_mempool_txn_count l),
       4 \<mapsto> number (cbr_extra_pool_txn_count l), 5 \<mapsto> number (cbr_requested_txn_count l),
       6 \<mapsto> number (cbr_requested_txn_bytes l)))"
    using captures_at_start [OF assms(1) r _ reads_compact_block [OF regex_crateD(1) [OF assms(1)] h]]
    by (simp add: chars_def)
  moreover have "66 \<notin> set ?T" using h by (auto simp: chars_def hash_chars_simps)
  note this [THEN words_absent(1)] this [THEN words_absent(2)]
  moreover have "\<not> contains (chars ''Saw new '') ?T"
  proof -
    have "83 \<notin> set (tl ?T)" using h by (auto simp: chars_def hash_chars_simps)
    then have "\<not> contains (chars ''Saw new '') (tl ?T)" by (rule words_absent(3))
    moreover have "?T = 83 # tl ?T" "\<not> prefix (chars ''Saw new '') ?T" by (simp_all add: chars_def)
    ultimately show ?thesis by (metis contains.simps(2))
  qed
  ultimately show ?thesis
    using matcher_none(1,2,3) [OF assms(1), of ?T]
    by (simp add: match_message_def matchers_def compact_block_parse_event_def captured_u32_def
        del: core_message.simps)
qed

lemma match_core_message:
  assumes "regex_crate lib" and "core_event ev"
  shows "match_message lib (core_message ev) = Some ev"
proof (cases ev)
  case (LogBlockConnected l)
  have "unat (bcl_block_height l) < 2 ^ LENGTH(32)" by (rule unsigned_less)
  with assms LogBlockConnected show ?thesis by (simp add: match_block_connected number_def)
next
  case (UnknownLogMessage m)
  with assms show ?thesis using match_unknown [OF assms(1), of m] by simp
next
  case (LogBlockChecked l)
  with assms show ?thesis using match_block_checked [OF assms(1), of l] by simp
next
  case (LogSawNewHeader l)
  with assms show ?thesis using match_saw_new_header [OF assms(1), of l] by simp
next
  case (LogCompactBlockReconstructed l)
  with assms show ?thesis using match_compact_block [OF assms(1), of l] by simp
qed

lemma message_ok_core: "core_event ev \<Longrightarrow> message_ok (core_message ev)"
  by (cases ev)
    (auto simp: message_ok_def chars_def hash_chars_simps validation_text_def is_whitespace_def split: if_splits)

section \<open>The metadata as Bitcoin Core writes it\<close>

text \<open>What \<^verbatim>\<open>LogInfo\<close>, \<^verbatim>\<open>LogError\<close>, \<^verbatim>\<open>LogWarning\<close>, \<^verbatim>\<open>LogDebug\<close> and \<^verbatim>\<open>LogTrace\<close> put in brackets.\<close>

datatype bracket = PlainBracket | ErrorBracket | WarningBracket | DebugBracket LogDebugCategory
  | TraceBracket LogDebugCategory

definition category_text :: "LogDebugCategory \<Rightarrow> ustring" where
  "category_text c = lowercase (chars (category_name c))"

fun bracket_items :: "bracket \<Rightarrow> ustring list" where
  "bracket_items PlainBracket = []"
| "bracket_items ErrorBracket = [chars ''error'']"
| "bracket_items WarningBracket = [chars ''warning'']"
| "bracket_items (DebugBracket c) = [category_text c]"
| "bracket_items (TraceBracket c) = [category_text c @ chars '':trace'']"

fun bracket_level :: "bracket \<Rightarrow> LogLevel" where
  "bracket_level PlainBracket = LevelInfo"
| "bracket_level ErrorBracket = LevelError"
| "bracket_level WarningBracket = LevelWarning"
| "bracket_level (DebugBracket c) = LevelDebug"
| "bracket_level (TraceBracket c) = LevelTrace"

fun bracket_category :: "bracket \<Rightarrow> LogDebugCategory" where
  "bracket_category (DebugBracket c) = c"
| "bracket_category (TraceBracket c) = c"
| "bracket_category b = CatUnknown"

text \<open>
  What comes before: the thread's name, and the source location. No such item is empty, has a closing
  bracket in it or is one of the two levels.
\<close>

definition lead_ok :: "ustring list \<Rightarrow> bool" where
  "lead_ok lead \<longleftrightarrow> list_all (\<lambda>i. item_ok i \<and> \<not> is_standalone_log_level i) lead"

definition first_item :: "ustring list \<Rightarrow> ustring" where
  "first_item items = (case items of [] \<Rightarrow> [] | i # _ \<Rightarrow> i)"

text \<open>
  What is read of the brackets: the thread, the category and the level they were written for, with one
  exception. When the macro writes no category and the last item before it has the name of one, as the
  threads \<^verbatim>\<open>net\<close> and \<^verbatim>\<open>http\<close> do, that item is taken for the category, is not the thread any more, and
  makes a line of level info one of level debug.
\<close>

definition core_reads :: "bracket \<Rightarrow> ustring list \<Rightarrow> ustring \<times> LogDebugCategory \<times> LogLevel" where
  "core_reads b lead =
     (case b of
        DebugBracket c \<Rightarrow> (first_item lead, c, if c = CatUnknown then LevelInfo else LevelDebug)
      | TraceBracket c \<Rightarrow> (first_item lead, c, LevelTrace)
      | _ \<Rightarrow>
          (case (if lead = [] then None else parse_category (last lead)) of
             None \<Rightarrow> (first_item lead, CatUnknown, bracket_level b)
           | Some c \<Rightarrow>
               (first_item (butlast lead), c,
                if b \<noteq> PlainBracket then bracket_level b
                else if is_trace (last lead) then LevelTrace
                else if c = CatUnknown then LevelInfo else LevelDebug)))"

lemma category_of_name: "category_from_str_name (chars n) = map_of category_names n"
proof -
  have "map_of (map (\<lambda>(n, c). (chars n, c)) ns) (chars n) = map_of ns n" for ns :: "(string \<times> LogDebugCategory) list"
    by (induction ns) (auto simp: chars_def inj_map_eq_map inj_of_char)
  then show ?thesis by (simp add: category_from_str_name_def)
qed

definition all_categories :: "LogDebugCategory list" where
  "all_categories = map snd category_names"

lemma in_all_categories: "c \<in> set all_categories"
  by (cases c) (simp_all add: all_categories_def category_names_def)

definition name_ok :: "string \<Rightarrow> bool" where
  "name_ok n \<longleftrightarrow> n \<noteq> [] \<and> list_all (\<lambda>x. 65 \<le> x \<and> x \<le> 90 \<or> 48 \<le> x \<and> x \<le> 57) (chars n) \<and>
     \<not> is_standalone_log_level (lowercase (chars n))"

lemma all_names_ok:
  "list_all (\<lambda>c. map_of category_names (category_name c) = Some c \<and> name_ok (category_name c)) all_categories"
  by code_simp

lemma name_of_category: "map_of category_names (category_name c) = Some c"
  and name_chars: "category_name c \<noteq> []"
    "list_all (\<lambda>x. 65 \<le> x \<and> x \<le> 90 \<or> 48 \<le> x \<and> x \<le> 57) (chars (category_name c))"
    "\<not> is_standalone_log_level (category_text c)"
  using all_names_ok in_all_categories [of c] by (auto simp: list_all_iff name_ok_def category_text_def)

lemma upper_of_lower: "65 \<le> c \<Longrightarrow> c \<le> 90 \<Longrightarrow> upper_of (c + 32) = [c]"
  by (simp add: upper_of_def)

lemma upper_of_digit: "48 \<le> c \<Longrightarrow> c \<le> 57 \<Longrightarrow> upper_of c = [c]"
  by (simp add: upper_of_def)

lemma uppercase_text: "uppercase (category_text c) = chars (category_name c)"
proof -
  have "uppercase (lowercase s) = s" if "list_all (\<lambda>x. 65 \<le> x \<and> x \<le> 90 \<or> 48 \<le> x \<and> x \<le> 57) s" for s
    using that by (induction s) (auto simp: uppercase_def lowercase_def upper_of_lower upper_of_digit)
  then show ?thesis using name_chars(2) by (simp add: category_text_def)
qed

lemma text_chars: "x \<in> set (category_text c) \<Longrightarrow> 97 \<le> x \<and> x \<le> 122 \<or> 48 \<le> x \<and> x \<le> 57"
  using name_chars(2) [of c] by (auto simp: category_text_def lowercase_def list_all_iff)

lemma ends_with_append: "ends_with t (s @ t)"
  by (simp add: ends_with_def)

lemma category_items:
  "parse_category (category_text c) = Some c" "parse_category (category_text c @ chars '':trace'') = Some c"
  "\<not> is_trace (category_text c)" "is_trace (category_text c @ chars '':trace'')"
  "\<not> is_standalone_log_level (category_text c @ chars '':trace'')"
  "item_ok (category_text c)" "item_ok (category_text c @ chars '':trace'')"
proof -
  show no_trace: "\<not> is_trace (category_text c)"
  proof
    assume "is_trace (category_text c)"
    then have "set (chars '':trace'') \<subseteq> set (category_text c)"
      unfolding is_trace_def ends_with_def by (metis set_drop_subset)
    then show False using text_chars [of 58 c] by (auto simp: chars_def)
  qed
  then show "parse_category (category_text c) = Some c"
    by (simp add: parse_category_def strip_suffix_def is_trace_def uppercase_text category_of_name name_of_category)
  show "parse_category (category_text c @ chars '':trace'') = Some c"
    by (simp add: parse_category_def strip_suffix_def ends_with_append uppercase_text category_of_name
        name_of_category)
  show "is_trace (category_text c @ chars '':trace'')"
    by (simp add: is_trace_def ends_with_append)
  have "58 \<in> set (lowercase (category_text c @ chars '':trace''))"
    by (simp add: lowercase_def chars_def)
  then show "\<not> is_standalone_log_level (category_text c @ chars '':trace'')"
    by (auto simp: is_standalone_log_level_def chars_def)
  show "item_ok (category_text c)" "item_ok (category_text c @ chars '':trace'')"
    using name_chars(1) [of c] text_chars [of 93 c]
    by (auto simp: item_ok_def chars_def category_text_def lowercase_def)
qed

lemma standalone_iff: "is_standalone_log_level i \<longleftrightarrow> standalone_level i \<noteq> None"
  by (simp add: is_standalone_log_level_def standalone_level_def)

lemma find_map_skip: "list_all (\<lambda>x. f x = None) xs \<Longrightarrow> find_map f (xs @ ys) = find_map f ys"
  by (induction xs) auto

lemma levels: "standalone_level (chars ''error'') = Some LevelError"
  "standalone_level (chars ''warning'') = Some LevelWarning"
  "item_ok (chars ''error'')" "item_ok (chars ''warning'')"
  by code_simp+

lemma read_metadata_bracket:
  assumes "lead_ok lead"
  shows "read_metadata (lead @ bracket_items b) = core_reads b lead"
proof -
  have none: "list_all (\<lambda>i. standalone_level i = None) lead"
    using assms by (auto simp: lead_ok_def list_all_iff standalone_iff)
  then have keep: "filter (\<lambda>i. standalone_level i = None) lead = lead"
    by (simp add: list_all_iff)
  note simps = read_metadata_def core_reads_def first_item_def standalone_iff keep levels category_items
    name_chars(3) [unfolded standalone_iff, simplified] category_items(5) [unfolded standalone_iff, simplified] Let_def
    find_map_skip [OF none] find_map_skip [OF none, of "[]", simplified]
  show ?thesis
  proof (cases "if lead = [] then None else parse_category (last lead)")
    case None
    then show ?thesis by (cases b; cases "lead = []") (simp_all add: simps)
  next
    case (Some c)
    then have "lead \<noteq> []" "parse_category (last lead) = Some c" by (auto split: if_splits)
    then show ?thesis by (cases b) (simp_all add: simps)
  qed
qed

lemma items_ok: "lead_ok lead \<Longrightarrow> list_all item_ok (lead @ bracket_items b)"
  by (cases b) (auto simp: lead_ok_def list_all_iff levels category_items)

section \<open>Properties\<close>

lemma parse_log_line:
  assumes "regex_crate lib" and "list_all item_ok items" and "message_ok msg"
  shows "parse_log_event lib (log_line t items msg) = Some
    (case read_metadata items of (thread, category, level) \<Rightarrow>
      \<lparr>log_timestamp = word_of_int
         ((case rfc3339_nanos lib (stamp_text t) of Some n \<Rightarrow> n | None \<Rightarrow> 0) sdiv 1000),
       log_category = category, log_threadname = thread, log_level = level,
       log_line_bytes = of_nat (str_len (log_line t items msg)), log_event = match_message lib msg\<rparr>)"
  using log_line_captures [OF assms, of t] iter_metadata [OF assms(1,2)]
  by (auto simp: parse_log_event_def parse_common_log_data_def split: prod.splits)

text \<open>C9: Lines are read back. Take a line as Bitcoin Core writes it: a timestamp, the items of the thread
name and the source location, the bracket of the log macro, and a message, which is one of the four events
or one that no matcher is for, since none of the words the events start with is in it. (The items are not
empty, have no closing bracket and are not the word error or warning. A message of no event is one line
that starts with neither white space nor a bracket. Of a checked block the reject reason has no comma,
neither it nor the debug text has a line break, and they do not look like a connected block.) It gives back the event, the timestamp in microseconds and the length in bytes; and
the thread, the category and the level it was written for, except that without a category a last item that
has the name of one, such as the thread \<^verbatim>\<open>net\<close>, is taken for it.\<close>

theorem core_lines_read_back:
  assumes "regex_crate lib" and "lead_ok lead" and "core_event ev"
    and "rfc3339_nanos lib (stamp_text t) = Some nanos" and "0 \<le> nanos"
  shows "parse_log_event lib (log_line t (lead @ bracket_items b) (core_message ev)) = Some
    (case core_reads b lead of (thread, category, level) \<Rightarrow>
      \<lparr>log_timestamp = of_nat (nat nanos div 1000), log_category = category, log_threadname = thread,
       log_level = level,
       log_line_bytes = of_nat (str_len (log_line t (lead @ bracket_items b) (core_message ev))),
       log_event = Some ev\<rparr>)"
proof -
  have "nanos sdiv 1000 = int (nat nanos div 1000)"
    using assms(5) by (cases "nanos = 0") (simp_all add: signed_divide_int_def zdiv_int)
  then have stamp: "(word_of_int (nanos sdiv 1000) :: u64) = of_nat (nat nanos div 1000)" by simp
  show ?thesis
    using parse_log_line [OF assms(1) items_ok [OF assms(2)] message_ok_core [OF assms(3)], of t]
      assms(4) match_core_message [OF assms(1,3)]
    by (simp add: read_metadata_bracket [OF assms(2)] stamp)
qed

definition demo_digit :: "nat \<Rightarrow> bool" where
  "demo_digit c \<longleftrightarrow> 48 \<le> c \<and> c \<le> 57"

definition demo_log_lib :: log_lib where
  "demo_log_lib =
     \<lparr>rx_digit = demo_digit, rx_captures = captures demo_digit,
      rx_captures_iter = (\<lambda>re t. captures_all (Suc (length t)) demo_digit re 0 t),
      rfc3339_nanos = (\<lambda>s. Some 1758937921977182000)\<rparr>"

lemma demo_regex_crate: "regex_crate demo_log_lib"
  unfolding regex_crate_def demo_log_lib_def regex_lib.simps by (simp add: demo_digit_def)

definition demo_stamp :: stamp where
  "demo_stamp =
     \<lparr>st_year = 2025, st_month = 9, st_day = 27, st_hour = 1, st_minute = 52, st_second = 1,
      st_micros = Some 977182\<rparr>"

definition demo_hash :: ustring where
  "demo_hash = replicate 32 48 @ chars ''9081e6e4abd39fd1e13d1b34344abcde''"

lemma demo_hash_text: "block_hash_text demo_hash"
  by (simp add: block_hash_text_def demo_hash_def chars_def list_all_iff)

theorem core_lines_read_back_witness:
  "parse_log_event demo_log_lib
     (log_line demo_stamp ([chars ''msghand''] @ bracket_items (DebugBracket CatValidation))
       (core_message (LogBlockChecked \<lparr>bkl_block_hash = demo_hash, bkl_state = chars ''bad-txns-duplicate'',
          bkl_debug_message = chars ''duplicate transaction''\<rparr>))) = Some
    \<lparr>log_timestamp = of_nat (nat 1758937921977182000 div 1000), log_category = CatValidation,
     log_threadname = chars ''msghand'', log_level = LevelDebug,
     log_line_bytes = of_nat (str_len (log_line demo_stamp
       ([chars ''msghand''] @ bracket_items (DebugBracket CatValidation))
       (core_message (LogBlockChecked \<lparr>bkl_block_hash = demo_hash, bkl_state = chars ''bad-txns-duplicate'',
          bkl_debug_message = chars ''duplicate transaction''\<rparr>)))),
     log_event = Some (LogBlockChecked \<lparr>bkl_block_hash = demo_hash, bkl_state = chars ''bad-txns-duplicate'',
          bkl_debug_message = chars ''duplicate transaction''\<rparr>)\<rparr>"
proof -
  let ?ev = "LogBlockChecked \<lparr>bkl_block_hash = demo_hash, bkl_state = chars ''bad-txns-duplicate'',
          bkl_debug_message = chars ''duplicate transaction''\<rparr>"
  have "lead_ok [chars ''msghand'']"
    by (simp add: lead_ok_def item_ok_def chars_def is_standalone_log_level_def lowercase_def)
  moreover have "core_event ?ev"
    by (simp add: demo_hash_text validation_text_def chars_def)
  moreover have "rfc3339_nanos demo_log_lib (stamp_text demo_stamp) = Some 1758937921977182000"
    by (simp add: demo_log_lib_def)
  ultimately show ?thesis
    using core_lines_read_back [OF demo_regex_crate, of "[chars ''msghand'']" ?ev demo_stamp 1758937921977182000
        "DebugBracket CatValidation"]
    by (simp add: core_reads_def first_item_def del: core_message.simps bracket_items.simps)
qed

lemma parsed_something:
  assumes "regex_crate lib"
  shows "\<exists>l ev. parse_log_event lib line = Some l \<and> log_event l = Some ev \<and>
    log_line_bytes l = of_nat (str_len line)"
proof -
  have "\<exists>ev. match_message lib m = Some ev" for m
    by (auto simp: match_message_def unknown_parse_event_def split: option.splits)
  moreover have "\<exists>d. parse_common_log_data lib line = Some d"
  proof (cases "rx_captures lib LOG_LINE_REGEX line")
    case (Some caps)
    then have "1 \<in> dom caps" "4 \<in> dom caps"
      using log_line_groups regex_crateD(2) [OF assms] by metis+
    moreover have "\<exists>items. captured_items (rx_captures_iter lib METADATA_REGEX t) = Some items" for t
    proof -
      let ?caps = "rx_captures_iter lib METADATA_REGEX t"
      have "list_all (\<lambda>cap. 1 \<in> dom cap) ?caps"
        unfolding regex_crateD(3) [OF assms consuming_METADATA] list_all_iff using metadata_groups by blast
      then have "\<exists>items. captured_items cs = Some items" if "cs = ?caps" for cs
        unfolding that [symmetric] by (induction cs) (auto simp: captured_items_def)
      then show ?thesis by simp
    qed
    moreover from this obtain items where
      "captured_items (rx_captures_iter lib METADATA_REGEX (case caps 2 of Some m \<Rightarrow> m | None \<Rightarrow> [])) = Some items"
      by blast
    ultimately show ?thesis
      using Some by (auto simp: parse_common_log_data_def split: prod.split)
  qed (simp add: parse_common_log_data_def)
  ultimately show ?thesis by (fastforce simp: parse_log_event_def)
qed

text \<open>No line makes the parser panic. Whatever the line, indexing the captures finds the groups it
asks for, and the result carries an event and the line's length.\<close>

theorem parsing_never_panics:
  assumes "regex_crate lib"
  shows "\<exists>l ev. parse_log_event lib line = Some l \<and> log_event l = Some ev \<and>
    log_line_bytes l = of_nat (str_len line)"
  using parsed_something [OF assms] .

theorem parsing_never_panics_witness:
  "\<exists>l ev. parse_log_event demo_log_lib (chars ''[net] no timestamp'') = Some l \<and> log_event l = Some ev \<and>
    log_line_bytes l = of_nat (str_len (chars ''[net] no timestamp''))"
  by (rule parsing_never_panics [OF demo_regex_crate])

text \<open>A line without a timestamp loses its text. Of a line that does not begin with a digit, such
as one of a node that logs without timestamps, only the length is kept: the event is an unknown
message with an empty text, level and category.\<close>

theorem line_without_timestamp_lost:
  assumes "regex_crate lib" and "line = [] \<or> \<not> rx_digit lib (hd line)"
  shows "parse_log_event lib line = Some
    \<lparr>log_timestamp = 0, log_category = CatUnknown, log_threadname = [], log_level = LevelInfo,
     log_line_bytes = of_nat (str_len line), log_event = Some (UnknownLogMessage [])\<rparr>"
proof -
  have "match_message lib [] = Some (UnknownLogMessage [])"
    using match_unknown [OF assms(1), of "[]"] by (simp add: first_words_def chars_def)
  then show ?thesis
    using log_line_no_digit [OF assms] by (simp add: parse_log_event_def parse_common_log_data_def)
qed

theorem line_without_timestamp_lost_witness:
  "parse_log_event demo_log_lib (chars ''UpdateTip: new best'') = Some
    \<lparr>log_timestamp = 0, log_category = CatUnknown, log_threadname = [], log_level = LevelInfo,
     log_line_bytes = of_nat (str_len (chars ''UpdateTip: new best'')), log_event = Some (UnknownLogMessage [])\<rparr>"
  by (rule line_without_timestamp_lost [OF demo_regex_crate]) (simp add: demo_log_lib_def chars_def demo_digit_def)

text \<open>Numbers beyond 32 bits. A block height is read exactly as long as it fits 32 bits; the message
of a larger one is published as an unknown message, with its text.\<close>

theorem block_height_fits_or_unknown:
  assumes "regex_crate lib" and "block_hash_text h"
  shows "match_message lib (chars ''BlockConnected: block hash='' @ h @ chars '' block height='' @ decimal n) = Some
    (if n < 2 ^ 32 then LogBlockConnected \<lparr>bcl_block_hash = h, bcl_block_height = of_nat n\<rparr>
     else UnknownLogMessage (chars ''BlockConnected: block hash='' @ h @ chars '' block height='' @ decimal n))"
proof (cases "n < 2 ^ 32")
  case True
  then show ?thesis using match_block_connected [OF assms] by simp
next
  case False
  let ?T = "chars ''BlockConnected: block hash='' @ h @ chars '' block height='' @ decimal n"
  obtain r where r: "BLOCK_CONNECTED_REGEX = Seq (lit (chars ''BlockConnected: block hash='')) r"
    using pattern_literals by blast
  have "block_connected_parse_event lib ?T = None"
    using captures_at_start [OF assms(1) r _ reads_block_connected [OF regex_crateD(1) [OF assms(1)] assms(2)]]
      False by (simp add: block_connected_parse_event_def parse_u32_decimal chars_def)
  moreover have "66 \<notin> set (tl ?T)" "83 \<notin> set ?T"
    using assms(2) decimal_digits [of 66 n] decimal_digits [of 83 n] by (auto simp: chars_def hash_chars_simps)
  moreover have "\<not> contains (chars ''BlockChecked: block hash='') ?T"
    using words_absent(2) [OF \<open>66 \<notin> set (tl ?T)\<close>] by (simp add: chars_def)
  ultimately show ?thesis
    using matcher_none [OF assms(1), of ?T] words_absent(3,4) [of ?T] False
    by (simp add: match_message_def matchers_def unknown_parse_event_def)
qed

theorem block_height_fits_or_unknown_witness:
  "match_message demo_log_lib (chars ''BlockConnected: block hash='' @ demo_hash @ chars '' block height='' @
     decimal 4294967296) = Some
    (UnknownLogMessage (chars ''BlockConnected: block hash='' @ demo_hash @ chars '' block height='' @
     decimal 4294967296))"
  using block_height_fits_or_unknown [OF demo_regex_crate demo_hash_text, of 4294967296] by simp

section \<open>The loop\<close>

text \<open>What ends the loop, and what an input publishes.\<close>

fun ends_loop :: "log_input \<Rightarrow> bool" where
  "ends_loop (NextLine (ReadFailed e)) = True"
| "ends_loop (ShutdownYields None) = True"
| "ends_loop (ShutdownYields (Some b)) = b"
| "ends_loop inp = False"

definition line_event :: "log_lib \<Rightarrow> log_input \<Rightarrow> (Subject \<times> Log Event) list" where
  "line_event lib inp =
     (case inp of
        NextLine (LineRead (Some nanos) line) \<Rightarrow>
          [(Subject.LogExtractor, \<lparr>timestamp = of_nat (nanos div 1000000),
             peer_observer_event = the (parse_log_event lib line)\<rparr>)]
      | _ \<Rightarrow> [])"

definition published_logs :: "log_action list \<Rightarrow> (Subject \<times> Log Event) list" where
  "published_logs acts = concat (map (\<lambda>a. case a of PublishLog s ev \<Rightarrow> [(s, ev)] | SleepMillis n \<Rightarrow> []) acts)"

lemma iteration_result:
  assumes "regex_crate lib"
  shows "published_logs (fst (log_iteration lib inp)) = line_event lib inp"
    and "snd (log_iteration lib inp) = LogGoesOn \<longleftrightarrow> \<not> ends_loop inp"
    and "snd (log_iteration lib inp) \<noteq> LogPanicked"
proof -
  have "published_logs (fst (log_iteration lib inp)) = line_event lib inp \<and>
    (snd (log_iteration lib inp) = LogGoesOn \<longleftrightarrow> \<not> ends_loop inp) \<and>
    snd (log_iteration lib inp) \<noteq> LogPanicked"
  proof (cases "\<exists>now line. inp = NextLine (LineRead now line)")
    case True
    then obtain now line where inp: "inp = NextLine (LineRead now line)" by blast
    obtain l where "parse_log_event lib line = Some l"
      using parsed_something [OF assms] by blast
    then show ?thesis
      by (cases now)
        (simp_all add: inp log_iteration_def process_log_def line_event_def published_logs_def Event_new_def)
  next
    case False
    then show ?thesis
      by (cases inp rule: ends_loop.cases)
        (simp_all add: log_iteration_def line_event_def published_logs_def)
  qed
  then show "published_logs (fst (log_iteration lib inp)) = line_event lib inp"
    "snd (log_iteration lib inp) = LogGoesOn \<longleftrightarrow> \<not> ends_loop inp"
    "snd (log_iteration lib inp) \<noteq> LogPanicked"
    by simp_all
qed

lemma log_loop_published:
  assumes "regex_crate lib"
  shows "published_logs (fst (log_loop lib inps)) =
      concat (map (line_event lib) (takeWhile (\<lambda>inp. \<not> ends_loop inp) inps)) \<and>
    (snd (log_loop lib inps) = LogGoesOn \<longleftrightarrow> list_all (\<lambda>inp. \<not> ends_loop inp) inps) \<and>
    snd (log_loop lib inps) \<noteq> LogPanicked"
proof (induction inps)
  case (Cons inp inps)
  obtain acts st where step: "log_iteration lib inp = (acts, st)" by (meson surj_pair)
  obtain acts' st' where run: "log_loop lib inps = (acts', st')" by (meson surj_pair)
  have *: "published_logs acts = line_event lib inp" "st = LogGoesOn \<longleftrightarrow> \<not> ends_loop inp" "st \<noteq> LogPanicked"
    using iteration_result [OF assms, of inp] step by simp_all
  show ?case
  proof (cases "ends_loop inp")
    case True
    then have "line_event lib inp = []" by (cases inp rule: ends_loop.cases) (simp_all add: line_event_def)
    with True * step show ?thesis by (cases st) auto
  next
    case False
    with * Cons.IH step run show ?thesis by (simp add: published_logs_def)
  qed
qed (simp add: published_logs_def)

text \<open>C16: Every line is published. Until a read fails or a shutdown is signalled, the extractor publishes
exactly one event for each line it reads, in their order, with the clock's time; without either it
goes on. It does not panic.\<close>

theorem every_line_is_published:
  assumes "regex_crate lib"
  shows "published_logs (fst (log_loop lib inps)) =
      concat (map (line_event lib) (takeWhile (\<lambda>inp. \<not> ends_loop inp) inps)) \<and>
    (snd (log_loop lib inps) = LogGoesOn \<longleftrightarrow> list_all (\<lambda>inp. \<not> ends_loop inp) inps) \<and>
    snd (log_loop lib inps) \<noteq> LogPanicked"
  by (rule log_loop_published [OF assms])

theorem every_line_is_published_witness:
  "published_logs (fst (log_loop demo_log_lib
      [NextLine NoLine, NextLine (LineRead (Some 5000000) (chars ''hello'')), ShutdownYields (Some True),
       NextLine (LineRead (Some 6000000) (chars ''late''))])) =
    line_event demo_log_lib (NextLine (LineRead (Some 5000000) (chars ''hello''))) \<and>
   snd (log_loop demo_log_lib
      [NextLine NoLine, NextLine (LineRead (Some 5000000) (chars ''hello'')), ShutdownYields (Some True),
       NextLine (LineRead (Some 6000000) (chars ''late''))]) \<notin> {LogGoesOn, LogPanicked}"
  using every_line_is_published [OF demo_regex_crate, of
      "[NextLine NoLine, NextLine (LineRead (Some 5000000) (chars ''hello'')), ShutdownYields (Some True),
       NextLine (LineRead (Some 6000000) (chars ''late''))]"]
  by (simp add: line_event_def del: log_loop.simps)

section \<open>Opening the pipe\<close>

lemma open_wait_bound: "fst (open_wait n r sd ex) \<le> n"
proof (induction n arbitrary: r)
  case (Suc n)
  obtain w ok where "open_wait n (Suc r) sd ex = (w, ok)" by (meson surj_pair)
  then show ?case using Suc.IH [of "Suc r"] by simp
qed simp

end
