(* ===== verification/RpcEvents.thy ===== *)
theory RpcEvents
  imports PbEvents
begin

text \<open>
  The events of the RPC extractor (\<^verbatim>\<open>rpc_extractor.proto\<close>). An \<^verbatim>\<open>f64\<close> is its bits.
\<close>

type_synonym f64 = "64 word"

section \<open>The responses\<close>

text \<open>The maps of the protobuf messages are lists of entries with distinct keys.\<close>

record PeerInfo_pb =
  pinf_id :: u32
  pinf_address :: "byte list"
  pinf_address_bind :: "byte list"
  pinf_address_local :: "byte list"
  pinf_network :: "byte list"
  pinf_mapped_as :: u32
  pinf_services :: "byte list"
  pinf_relay_transactions :: bool
  pinf_last_send :: s64
  pinf_last_received :: s64
  pinf_last_transaction :: s64
  pinf_last_block :: s64
  pinf_bytes_sent :: u64
  pinf_bytes_received :: u64
  pinf_connection_time :: s64
  pinf_time_offset :: s64
  pinf_ping_time :: f64
  pinf_minimum_ping :: f64
  pinf_ping_wait :: f64
  pinf_version :: u32
  pinf_subversion :: "byte list"
  pinf_inbound :: bool
  pinf_bip152_hb_to :: bool
  pinf_bip152_hb_from :: bool
  pinf_starting_height :: s64
  pinf_synced_headers :: s64
  pinf_synced_blocks :: s64
  pinf_inflight :: "u64 list"
  pinf_addr_relay_enabled :: bool
  pinf_addr_processed :: u64
  pinf_addr_rate_limited :: u64
  pinf_permissions :: "(byte list) list"
  pinf_minfeefilter :: f64
  pinf_bytes_sent_per_message :: "(byte list \<times> u64) list"
  pinf_bytes_received_per_message :: "(byte list \<times> u64) list"
  pinf_connection_type :: "byte list"
  pinf_transport_protocol_type :: "byte list"
  pinf_inv_to_send :: u64

record MempoolInfo_pb =
  mpi_loaded :: bool
  mpi_size :: s64
  mpi_bytes :: s64
  mpi_usage :: s64
  mpi_total_fee :: f64
  mpi_max_mempool :: s64
  mpi_mempoolminfee :: f64
  mpi_minrelaytxfee :: f64
  mpi_incrementalrelayfee :: f64
  mpi_unbroadcastcount :: s64
  mpi_fullrbf :: "bool option"

record UploadTarget_pb =
  upt_timeframe :: u64
  upt_target :: u64
  upt_target_reached :: bool
  upt_serve_historical_blocks :: bool
  upt_bytes_left_in_cycle :: u64
  upt_time_left_in_cycle :: u64

record NetTotals_pb =
  nt_total_bytes_received :: u64
  nt_total_bytes_sent :: u64
  nt_time_millis :: u64
  nt_upload_target :: UploadTarget_pb

record MemoryInfo_pb =
  mi_used :: u64
  mi_free :: u64
  mi_total :: u64
  mi_locked :: u64
  mi_chunks_used :: u64
  mi_chunks_free :: u64

record AddrManInfoNetwork_pb =
  amin_new :: u64
  amin_tried :: u64
  amin_total :: u64

record AddrManInfo_pb =
  ami_networks :: "(byte list \<times> AddrManInfoNetwork_pb) list"

record ChainTxStats_pb =
  cts_time :: u32
  cts_tx_count :: u32
  cts_window_final_block_hash :: "byte list"
  cts_window_final_block_height :: u32
  cts_window_block_count :: u32
  cts_window_tx_count :: "u32 option"
  cts_window_interval :: "u32 option"
  cts_tx_rate :: "f64 option"

record NetworkInfoNetwork_pb =
  nin_name :: "byte list"
  nin_limited :: bool
  nin_reachable :: bool
  nin_proxy :: "byte list"
  nin_proxy_randomize_credentials :: bool

record NetworkInfoLocalAddress_pb =
  nil_address :: "byte list"
  nil_port :: u32
  nil_score :: u32

record NetworkInfo_pb =
  ni_version :: s32
  ni_subversion :: "byte list"
  ni_protocol_version :: s32
  ni_local_services :: "byte list"
  ni_local_services_names :: "(byte list) list"
  ni_local_relay :: bool
  ni_time_offset :: s32
  ni_connections :: u32
  ni_connections_in :: u32
  ni_connections_out :: u32
  ni_network_active :: bool
  ni_networks :: "NetworkInfoNetwork_pb list"
  ni_relay_fee :: f64
  ni_incremental_fee :: f64
  ni_local_addresses :: "NetworkInfoLocalAddress_pb list"
  ni_warnings :: "(byte list) list"

record BlockchainInfo_pb =
  bci_chain :: "byte list"
  bci_blocks :: u32
  bci_headers :: u32
  bci_bestblockhash :: "byte list"
  bci_difficulty :: f64
  bci_time :: u32
  bci_mediantime :: u32
  bci_verificationprogress :: f64
  bci_initialblockdownload :: bool
  bci_chainwork :: "byte list"
  bci_size_on_disk :: u64
  bci_pruned :: bool
  bci_prune_height :: u32
  bci_prune_target_size :: u64
  bci_warnings :: "(byte list) list"

record EstimateSmartFee_pb =
  esf_fee_rate :: "f64 option"
  esf_blocks :: u32
  esf_requested_blocks :: u32
  esf_mode :: s32
  esf_errors :: "(byte list) list"

record OrphanTx_pb =
  ot_txid :: "byte list"
  ot_wtxid :: "byte list"
  ot_bytes :: u64
  ot_vsize :: u64
  ot_weight :: u64
  ot_from :: "u64 list"
  ot_transaction :: Transaction_pb

record AddrmanEntry_pb =
  ae_address :: "byte list"
  ae_port :: u32
  ae_network :: "byte list"
  ae_services :: u64
  ae_time :: s64
  ae_source :: "byte list"
  ae_source_network :: "byte list"
  ae_mapped_as :: "u32 option"
  ae_source_mapped_as :: "u32 option"

type_synonym addrman_bucket = "(u32 \<times> AddrmanEntry_pb) list"
type_synonym addrman_table = "(u32 \<times> addrman_bucket) list"

record Addrman_pb =
  am_new :: addrman_table
  am_tried :: addrman_table

datatype RpcEvent =
    RpcPeerInfos "PeerInfo_pb list"
  | RpcMempoolInfo MempoolInfo_pb
  | RpcUptime u32
  | RpcNetTotals NetTotals_pb
  | RpcMemoryInfo MemoryInfo_pb
  | RpcAddrmanInfo AddrManInfo_pb
  | RpcChainTxStats ChainTxStats_pb
  | RpcNetworkInfo NetworkInfo_pb
  | RpcBlockchainInfo BlockchainInfo_pb
  | RpcOrphanTxs "OrphanTx_pb list"
  | RpcAddrman Addrman_pb
  | RpcEstimateSmartFee EstimateSmartFee_pb

end
