(* ===== verification/ObservedEvents.thy ===== *)
theory ObservedEvents
  imports P2pExtractor LogMatchers RpcEvents
begin

text \<open>
  The event of any extractor as a subscriber decodes it (\<^verbatim>\<open>event.proto\<close>), and the event of the IPC
  extractor (\<^verbatim>\<open>ipc_extractor.proto\<close>).
\<close>

record BlockTip_pb =
  bt_height :: s32
  bt_hash :: "byte list"

datatype ObservedEvent =
    ObservedEbpf "ebpf_event option"
  | ObservedRpc "RpcEvent option"
  | ObservedP2p "p2p_event option"
  | ObservedLog Log
  | ObservedIpc "BlockTip_pb option"

record Observed =
  ob_timestamp :: u64
  ob_event :: "ObservedEvent option"

end
