(* ===== verification/MetricsOps.thy ===== *)
theory MetricsOps
  imports IpText RpcEvents
begin

text \<open>
  What the metrics tool does to its Prometheus registry, the comparisons of \<^verbatim>\<open>f64\<close>, and the generated
  tables of IP addresses, which are a parameter.
\<close>

section \<open>The registry\<close>

text \<open>
  An operation names the metric and gives the values of its labels. Counters are \<^verbatim>\<open>u64\<close>, integer
  gauges \<^verbatim>\<open>i64\<close>; an observation of a histogram is an integer as \<^verbatim>\<open>f64\<close>, and \<open>SetRatio\<close> is a gauge
  set to the quotient of two integers as \<^verbatim>\<open>f64\<close>, \<open>SetPercentile\<close> one set to the percentile of
  a sorted list, \<open>SetMean\<close> and \<open>SetMedian\<close> to the mean and the median of a list, which
  \<^verbatim>\<open>stat_util.rs\<close> computes. \<open>ResetVec\<close> forgets the values of a metric.

  A sample is a number of seconds that is taken as milliseconds, or an integer.
\<close>

type_synonym label = "byte list"

datatype sample = Seconds f64 | Natural u64

datatype metric_op =
    IncBy string "label list" u64
  | SetTo string "label list" s64
  | Observe string "label list" int
  | SetF64 string "label list" f64
  | SetRatio string nat nat
  | SetMean string "sample list"
  | SetMedian string "sample list"
  | SetPercentile string "label list" "int list" string
  | ResetVec string

abbreviation Inc :: "string \<Rightarrow> label list \<Rightarrow> metric_op" where
  "Inc m labels \<equiv> IncBy m labels 1"

text \<open>The operations of a handler, or \<open>None\<close> if it panics, which ends the tool. \<open>checked\<close> is a build with overflow checks.\<close>

type_synonym handled = "metric_op list option"

definition op_if :: "bool \<Rightarrow> metric_op list \<Rightarrow> metric_op list" where
  "op_if b ops = (if b then ops else [])"

definition sub_u64 :: "bool \<Rightarrow> u64 \<Rightarrow> u64 \<Rightarrow> u64 option" where
  "sub_u64 checked a b = (if checked \<and> a < b then None else Some (a - b))"

text \<open>A sum of unsigned values; whether it overflows does not depend on their order.\<close>

definition sum_u64 :: "bool \<Rightarrow> u64 list \<Rightarrow> u64 option" where
  "sum_u64 checked xs = (if checked \<and> 2 ^ 64 \<le> sum_list (map unat xs) then None else Some (sum_list xs))"

text \<open>The number of elements per key. The increments made of it do not depend on its order.\<close>

definition count_by :: "('a \<Rightarrow> 'k) \<Rightarrow> 'a list \<Rightarrow> ('k \<times> nat) list" where
  "count_by f xs = map (\<lambda>k. (k, length (filter (\<lambda>x. f x = k) xs))) (remdups (map f xs))"

record ip_tables =
  is_tor_exit_node :: "byte list \<Rightarrow> bool"
  is_on_gmax_banlist :: "byte list \<Rightarrow> bool"
  is_on_monero_banlist :: "byte list \<Rightarrow> bool"
  belongs_to_bitprojects :: "byte list \<Rightarrow> bool"

section \<open>Comparing floating point numbers\<close>

text \<open>The order of IEEE 754: sign and magnitude, both zeros are equal, and no order with a NaN.\<close>

definition f64_magnitude :: "f64 \<Rightarrow> nat" where
  "f64_magnitude x = unat (take_bit 63 x)"

definition f64_nan :: "f64 \<Rightarrow> bool" where
  "f64_nan x \<longleftrightarrow> 0x7FF0000000000000 < f64_magnitude x"

definition f64_key :: "f64 \<Rightarrow> int" where
  "f64_key x = (if bit x 63 then - int (f64_magnitude x) else int (f64_magnitude x))"

definition f64_less :: "f64 \<Rightarrow> f64 \<Rightarrow> bool" where
  "f64_less x y \<longleftrightarrow> \<not> f64_nan x \<and> \<not> f64_nan y \<and> f64_key x < f64_key y"

end
