(* ===== verification/RpcGauges.thy ===== *)
theory RpcGauges
  imports MetricsOps
begin

text \<open>
  The gauges of the RPC responses of which the metrics tool keeps no state (\<^verbatim>\<open>handle_rpc_event\<close> in
  \<^verbatim>\<open>tools/metrics/src/lib.rs\<close>).
\<close>

section \<open>Memory, address manager, network, chain, mempool\<close>

definition flag :: "bool \<Rightarrow> s64" where
  "flag b = (if b then 1 else 0)"

definition memory_gauges :: "MemoryInfo_pb \<Rightarrow> metric_op list" where
  "memory_gauges info =
     [SetTo ''rpc_memoryinfo_locked_used'' [] (mi_used info),
      SetTo ''rpc_memoryinfo_locked_free'' [] (mi_free info),
      SetTo ''rpc_memoryinfo_locked_total'' [] (mi_total info),
      SetTo ''rpc_memoryinfo_locked_locked'' [] (mi_locked info),
      SetTo ''rpc_memoryinfo_locked_chunks_used'' [] (mi_chunks_used info),
      SetTo ''rpc_memoryinfo_locked_chunks_free'' [] (mi_chunks_free info)]"

definition addrman_info_gauges :: "AddrManInfo_pb \<Rightarrow> metric_op list" where
  "addrman_info_gauges info =
     concat (map (\<lambda>(network, data).
       [SetTo ''rpc_addrmaninfo'' [network, ascii ''new''] (amin_new data),
        SetTo ''rpc_addrmaninfo'' [network, ascii ''tried''] (amin_tried data),
        SetTo ''rpc_addrmaninfo'' [network, ascii ''total''] (amin_total data)]) (ami_networks info))"

definition network_info_gauges :: "NetworkInfo_pb \<Rightarrow> metric_op list" where
  "network_info_gauges info =
     [SetTo ''rpc_networkinfo_version'' [] (scast (ni_version info)),
      SetTo ''rpc_networkinfo_protocol_version'' [] (scast (ni_protocol_version info)),
      SetTo ''rpc_networkinfo_time_offset'' [] (scast (ni_time_offset info)),
      SetTo ''rpc_networkinfo_connections'' [] (ucast (ni_connections info)),
      SetTo ''rpc_networkinfo_connections_in'' [] (ucast (ni_connections_in info)),
      SetTo ''rpc_networkinfo_connections_out'' [] (ucast (ni_connections_out info)),
      SetTo ''rpc_networkinfo_network_active'' [] (flag (ni_network_active info)),
      SetF64 ''rpc_networkinfo_relay_fee'' [] (ni_relay_fee info),
      SetF64 ''rpc_networkinfo_incremental_fee'' [] (ni_incremental_fee info),
      SetTo ''rpc_networkinfo_warnings'' [] (of_nat (length (ni_warnings info))),
      SetTo ''rpc_networkinfo_local_addresses_count'' [] (of_nat (length (ni_local_addresses info)))] @
     concat (map (\<lambda>network.
       [SetTo ''rpc_networkinfo_networks'' [nin_name network, ascii ''limited''] (flag (nin_limited network)),
        SetTo ''rpc_networkinfo_networks'' [nin_name network, ascii ''reachable''] (flag (nin_reachable network))])
       (ni_networks info))"

definition blockchain_info_gauges :: "BlockchainInfo_pb \<Rightarrow> metric_op list" where
  "blockchain_info_gauges info =
     [SetTo ''rpc_blockchaininfo_blocks'' [] (ucast (bci_blocks info)),
      SetTo ''rpc_blockchaininfo_headers'' [] (ucast (bci_headers info)),
      SetF64 ''rpc_blockchaininfo_difficulty'' [] (bci_difficulty info),
      SetF64 ''rpc_blockchaininfo_verification_progress'' [] (bci_verificationprogress info),
      SetTo ''rpc_blockchaininfo_initial_block_download'' [] (flag (bci_initialblockdownload info)),
      SetTo ''rpc_blockchaininfo_size_on_disk'' [] (bci_size_on_disk info),
      SetTo ''rpc_blockchaininfo_pruned'' [] (flag (bci_pruned info)),
      SetTo ''rpc_blockchaininfo_prune_height'' [] (ucast (bci_prune_height info)),
      SetTo ''rpc_blockchaininfo_prune_target_size'' [] (bci_prune_target_size info),
      SetTo ''rpc_blockchaininfo_warnings'' [] (of_nat (length (bci_warnings info)))]"

definition mempool_info_gauges :: "MempoolInfo_pb \<Rightarrow> metric_op list" where
  "mempool_info_gauges info =
     [SetTo ''rpc_mempoolinfo_mempool_loaded'' [] (flag (mpi_loaded info)),
      SetTo ''rpc_mempoolinfo_transaction_count'' [] (mpi_size info),
      SetF64 ''rpc_mempoolinfo_transaction_fees'' [] (mpi_total_fee info),
      SetTo ''rpc_mempoolinfo_transaction_vbyte'' [] (mpi_bytes info),
      SetTo ''rpc_mempoolinfo_memory_usage'' [] (mpi_usage info),
      SetTo ''rpc_mempoolinfo_memory_max'' [] (mpi_max_mempool info),
      SetF64 ''rpc_mempoolinfo_min_mempool_feerate'' [] (mpi_mempoolminfee info),
      SetF64 ''rpc_mempoolinfo_min_relay_tx_feerate'' [] (mpi_minrelaytxfee info),
      SetF64 ''rpc_mempoolinfo_incremental_relay_feerate'' [] (mpi_incrementalrelayfee info)]"

definition op_some :: "('a \<Rightarrow> metric_op) \<Rightarrow> 'a option \<Rightarrow> metric_op list" where
  "op_some f x = (case x of Some v \<Rightarrow> [f v] | None \<Rightarrow> [])"

definition chain_tx_gauges :: "ChainTxStats_pb \<Rightarrow> metric_op list" where
  "chain_tx_gauges stats =
     [SetTo ''rpc_chaintxstats_tx_count'' [] (ucast (cts_tx_count stats)),
      SetTo ''rpc_chaintxstats_window_final_block_height'' [] (ucast (cts_window_final_block_height stats)),
      SetTo ''rpc_chaintxstats_window_block_count'' [] (ucast (cts_window_block_count stats))] @
     op_some (\<lambda>n. SetTo ''rpc_chaintxstats_window_tx_count'' [] (ucast n)) (cts_window_tx_count stats) @
     op_some (\<lambda>n. SetTo ''rpc_chaintxstats_window_interval'' [] (ucast n)) (cts_window_interval stats) @
     op_some (\<lambda>r. SetF64 ''rpc_chaintxstats_tx_rate'' [] r) (cts_tx_rate stats)"

text \<open>A number that is no mode is a panic.\<close>

definition fee_estimate_mode :: "s32 \<Rightarrow> string option" where
  "fee_estimate_mode m =
     (if m = 0 then Some ''UNSET'' else if m = 1 then Some ''ECONOMICAL''
      else if m = 2 then Some ''CONSERVATIVE'' else None)"

definition estimate_gauges :: "EstimateSmartFee_pb \<Rightarrow> handled" where
  "estimate_gauges estimate =
     (case esf_fee_rate estimate of
        None \<Rightarrow> Some []
      | Some fee_rate \<Rightarrow>
          map_option (\<lambda>mode.
            [SetF64 ''rpc_estimatesmartfee_feerate''
               [dec (unat (esf_requested_blocks estimate)), ascii mode] fee_rate])
            (fee_estimate_mode (esf_mode estimate)))"

section \<open>Peers\<close>

definition ZERO :: f64 where "ZERO = 0"
definition FIVE :: f64 where "FIVE = 0x4014000000000000"

text \<open>0.00001, one satoshi per vbyte in bitcoin per kilobyte.\<close>

definition ONE_SAT_PER_VBYTE :: f64 where "ONE_SAT_PER_VBYTE = 0x3EE4F8B588E368F1"

text \<open>\<^verbatim>\<open>str::split\<close> at a character.\<close>

fun split_at :: "byte \<Rightarrow> byte list \<Rightarrow> byte list list" where
  "split_at c [] = [[]]"
| "split_at c (x # xs) =
     (case split_at c xs of
        part # parts \<Rightarrow> if x = c then [] # part # parts else (x # part) # parts
      | [] \<Rightarrow> [])"

definition peer_ip :: "PeerInfo_pb \<Rightarrow> byte list" where
  "peer_ip peer = ip_from_ipport (pinf_address peer)"

text \<open>The /16 of an inbound IPv4 peer, if its address has four parts.\<close>

definition inbound_slash16 :: "PeerInfo_pb \<Rightarrow> byte list option" where
  "inbound_slash16 peer =
     (if to_lowercase (pinf_network peer) = ascii ''ipv4'' \<and> pinf_inbound peer then
        (case split_at 46 (peer_ip peer) of
           [a, b, c, d] \<Rightarrow> Some (a @ ascii ''-'' @ b)
         | _ \<Rightarrow> None)
      else None)"

definition relays_below_1satvb :: "PeerInfo_pb \<Rightarrow> bool" where
  "relays_below_1satvb peer \<longleftrightarrow>
     pinf_relay_transactions peer \<and> f64_less (pinf_minfeefilter peer) ONE_SAT_PER_VBYTE \<and>
     (ascii ''tx'' \<in> set (map fst (pinf_bytes_received_per_message peer)) \<or>
      ascii ''tx'' \<in> set (map fst (pinf_bytes_sent_per_message peer)))"

text \<open>A ping of zero is no ping.\<close>

definition ping_samples :: "(PeerInfo_pb \<Rightarrow> f64) \<Rightarrow> PeerInfo_pb list \<Rightarrow> sample list" where
  "ping_samples ping infos = map Seconds (filter (f64_less ZERO) (map ping infos))"

definition set_count :: "string \<Rightarrow> label list \<Rightarrow> (PeerInfo_pb \<Rightarrow> bool) \<Rightarrow> PeerInfo_pb list \<Rightarrow> metric_op" where
  "set_count m labels p infos = SetTo m labels (of_nat (length (filter p infos)))"

text \<open>A gauge per key. The keys of the last response are forgotten.\<close>

definition gauges_by :: "string \<Rightarrow> ('k \<Rightarrow> label) \<Rightarrow> (PeerInfo_pb \<Rightarrow> 'k) \<Rightarrow> PeerInfo_pb list \<Rightarrow> metric_op list" where
  "gauges_by m label key infos =
     ResetVec m # map (\<lambda>(k, n). SetTo m [label k] (of_nat n)) (count_by key infos)"

definition list_gauges :: "ip_tables \<Rightarrow> PeerInfo_pb list \<Rightarrow> metric_op list" where
  "list_gauges tables infos =
     [set_count ''rpc_peer_info_list_peers_gmax_ban'' [] (\<lambda>p. is_on_gmax_banlist tables (peer_ip p)) infos,
      set_count ''rpc_peer_info_list_peers_monero_ban'' [] (\<lambda>p. is_on_monero_banlist tables (peer_ip p)) infos,
      set_count ''rpc_peer_info_list_peers_tor_exit'' [] (\<lambda>p. is_tor_exit_node tables (peer_ip p)) infos,
      set_count ''rpc_peer_info_list_peers_linkinglion'' [] (\<lambda>p. is_on_linkinglion_banlist (peer_ip p)) infos,
      set_count ''rpc_peer_info_list_peers_linkinglion_pre2026'' []
        (\<lambda>p. is_on_pre2026_linkinglion_banlist (peer_ip p)) infos,
      set_count ''rpc_peer_info_list_peers_bitprojects'' [ascii ''inbound'']
        (\<lambda>p. belongs_to_bitprojects tables (peer_ip p) \<and> pinf_inbound p) infos,
      set_count ''rpc_peer_info_list_peers_bitprojects'' [ascii ''outbound'']
        (\<lambda>p. belongs_to_bitprojects tables (peer_ip p) \<and> \<not> pinf_inbound p) infos]"

definition ping_gauges :: "PeerInfo_pb list \<Rightarrow> metric_op list" where
  "ping_gauges infos =
     [SetMean ''rpc_peer_info_ping_mean'' (ping_samples pinf_ping_time infos),
      SetMedian ''rpc_peer_info_ping_median'' (ping_samples pinf_ping_time infos),
      SetMean ''rpc_peer_info_minping_mean'' (ping_samples pinf_minimum_ping infos),
      SetMedian ''rpc_peer_info_minping_median'' (ping_samples pinf_minimum_ping infos),
      set_count ''rpc_peer_info_ping_wait_larger_5_seconds_block_peers'' [] (\<lambda>p. f64_less FIVE (pinf_ping_wait p)) infos]"

definition peer_count_gauges :: "PeerInfo_pb list \<Rightarrow> metric_op list" where
  "peer_count_gauges infos =
     [set_count ''rpc_peer_info_timeoffset_plus10s'' [] (\<lambda>p. 10 < sint (pinf_time_offset p)) infos,
      set_count ''rpc_peer_info_timeoffset_minus10s'' [] (\<lambda>p. sint (pinf_time_offset p) < - 10) infos,
      set_count ''rpc_peer_info_bip152_highbandwidth_to'' [] pinf_bip152_hb_to infos,
      set_count ''rpc_peer_info_bip152_highbandwidth_from'' [] pinf_bip152_hb_from infos,
      SetTo ''rpc_peer_info_num_peers'' [] (of_nat (length infos)),
      set_count ''rpc_peer_info_inflight_block_peers'' [] (\<lambda>p. pinf_inflight p \<noteq> []) infos,
      SetTo ''rpc_peer_info_inflight_distinct_blocks_heights'' []
        (of_nat (length (remdups (concat (map pinf_inflight infos)))))] @
     gauges_by ''rpc_peer_info_transport_protocol_type_peers'' id pinf_transport_protocol_type infos @
     gauges_by ''rpc_peer_info_network_peers'' id pinf_network infos @
     gauges_by ''rpc_peer_info_connection_type_peers'' id pinf_connection_type infos @
     gauges_by ''rpc_peer_info_protocol_version_peers'' (\<lambda>v. dec (unat v)) pinf_version infos @
     gauges_by ''rpc_peer_info_asn_peers'' (\<lambda>a. dec (unat a)) pinf_mapped_as
       (filter (\<lambda>p. pinf_mapped_as p \<noteq> 0) infos) @
     [set_count ''rpc_peer_info_sub1satvb_relay'' [] relays_below_1satvb infos]"

text \<open>The number of /16 subnets of the inbound IPv4 peers by the number of the peers.\<close>

definition diversity_gauges :: "PeerInfo_pb list \<Rightarrow> metric_op list" where
  "diversity_gauges infos =
     (let slash16s = List.map_filter inbound_slash16 infos in
      op_if (slash16s \<noteq> [])
        [SetRatio ''rpc_peer_info_connection_divserity_inbound_ipv4''
           (length (remdups slash16s)) (length slash16s)])"

definition invtosend_gauges :: "bool \<Rightarrow> PeerInfo_pb list \<Rightarrow> handled" where
  "invtosend_gauges checked infos =
     (let values = map pinf_inv_to_send (filter pinf_relay_transactions infos) in
      if values = [] then Some []
      else map_option (\<lambda>total.
        [SetTo ''rpc_peer_info_invtosend_sum'' [] total,
         SetTo ''rpc_peer_info_invtosend_max'' [] (foldl max 0 values),
         SetTo ''rpc_peer_info_invtosend_min'' [] (foldl min (hd values) values),
         SetMean ''rpc_peer_info_invtosend_mean'' (map Natural values),
         SetMedian ''rpc_peer_info_invtosend_median'' (map Natural values)])
        (sum_u64 checked values))"

definition peer_gauges :: "ip_tables \<Rightarrow> bool \<Rightarrow> PeerInfo_pb list \<Rightarrow> handled" where
  "peer_gauges tables checked infos =
     Option.bind (sum_u64 checked (map pinf_addr_rate_limited infos)) (\<lambda>addr_rate_limited_total.
       Option.bind (sum_u64 checked (map pinf_addr_processed infos)) (\<lambda>addr_processed_total.
         map_option (\<lambda>invtosend.
           list_gauges tables infos @
           [set_count ''rpc_peer_info_addr_ratelimited_peers'' [] (\<lambda>p. 0 < pinf_addr_rate_limited p) infos,
            SetTo ''rpc_peer_info_addr_ratelimited_total'' [] addr_rate_limited_total,
            SetTo ''rpc_peer_info_addr_processed_total'' [] addr_processed_total,
            set_count ''rpc_peer_info_addr_relay_enabled_peers'' [] pinf_addr_relay_enabled infos] @
           ping_gauges infos @ peer_count_gauges infos @ diversity_gauges infos @ invtosend)
           (invtosend_gauges checked infos)))"

end
