(* ===== verification/MetricsTool.thy ===== *)
theory MetricsTool
  imports ObservedEvents RpcGauges "HOL-Library.AList"
begin

text \<open>
  The metrics tool (\<^verbatim>\<open>tools/metrics/src/lib.rs\<close>): the handlers of the events of each extractor, the
  state kept between events, and the loop. What a handler does to the Prometheus registry is a list
  of operations (\<^verbatim>\<open>MetricsOps\<close>). The responses of which no state is kept are in \<^verbatim>\<open>RpcGauges\<close>.
\<close>

unbundle bit_operations_syntax

section \<open>Connections, mempool, validation\<close>

definition metrics_handle_connection ::
    "ip_tables \<Rightarrow> bool \<Rightarrow> ConnectionEvent \<Rightarrow> u64 \<Rightarrow> handled" where
  "metrics_handle_connection tables checked cevent timestamp_ms =
     (case cevent of
        ConnInbound i \<Rightarrow>
          (let ip = ip_from_ipport (pc_addr (pi_conn i)) in
           Some ([Inc ''conn_inbound'' []] @
             op_if (is_tor_exit_node tables ip) [Inc ''conn_inbound_tor_exit'' []] @
             op_if (is_on_gmax_banlist tables ip) [Inc ''conn_inbound_banlist_gmax'' []] @
             op_if (is_on_monero_banlist tables ip) [Inc ''conn_inbound_banlist_monero'' []] @
             op_if (is_on_linkinglion_banlist ip) [Inc ''conn_inbound_list_linkinglion'' []] @
             [Inc ''conn_inbound_network'' [dec (unat (pc_network (pi_conn i)))],
              SetTo ''conn_inbound_current'' [] (pi_existing_connections i)]))
      | ConnOutbound out \<Rightarrow>
          Some [Inc ''conn_outbound'' [], Inc ''conn_outbound_network'' [dec (unat (pc_network (po_conn out)))],
                SetTo ''conn_outbound_current'' [] (po_existing_connections out)]
      | Closed c \<Rightarrow>
          map_option (\<lambda>age.
            [Inc ''conn_closed'' [], IncBy ''conn_closed_age'' [] age,
             Inc ''conn_closed_network'' [dec (unat (pc_network (pcl_conn c)))]])
            (sub_u64 checked (timestamp_ms div 1000) (pcl_time_established c))
      | InboundEvicted e \<Rightarrow> Some [Inc ''conn_evicted_inbound'' []]
      | Misbehaving m \<Rightarrow>
          Some [Inc ''conn_misbehaving'' [dec (unat (pm_id m)), pm_message m],
                Inc ''conn_misbehaving_reason'' [pm_message m]])"

text \<open>A negative size becomes a large increment.\<close>

definition metrics_handle_mempool :: "MempoolEvent \<Rightarrow> metric_op list" where
  "metrics_handle_mempool e =
     (case e of
        Added a \<Rightarrow> [Inc ''mempool_added'' [], IncBy ''mempool_added_vbytes'' [] (scast (pa_vsize a))]
      | Removed r \<Rightarrow> [Inc ''mempool_removed'' [pr_reason r]]
      | Replaced r \<Rightarrow> [Inc ''mempool_replaced'' [], IncBy ''mempool_replaced_vbytes'' [] (scast (pp_replaced_vsize r))]
      | Rejected r \<Rightarrow> [Inc ''mempool_rejected'' [pj_reason r]])"

definition metrics_handle_validation :: "BlockConnected_pb \<Rightarrow> metric_op list" where
  "metrics_handle_validation v =
     (let duration_microseconds = pb_connection_time v div 1000 in
      [SetTo ''validation_block_connected_latest_height'' [] (scast (pb_height v)),
       SetTo ''validation_block_connected_latest_connection_time'' [] duration_microseconds,
       IncBy ''validation_block_connected_connection_time'' [] duration_microseconds,
       SetTo ''validation_block_connected_latest_sigops'' [] (pb_sigops v),
       SetTo ''validation_block_connected_latest_inputs'' [] (scast (pb_inputs v)),
       SetTo ''validation_block_connected_latest_transactions'' [] (pb_transactions v)])"

section \<open>Events of the P2P extractor\<close>

text \<open>\<^verbatim>\<open>as_ref().unwrap()\<close> of the address panics if it is unset.\<close>

definition networks_of :: "Address_pb list \<Rightarrow> string list option" where
  "networks_of addresses = those (map (\<lambda>a. map_option address_network (address_address a)) addresses)"

definition metrics_handle_p2p_extractor :: "p2p_event \<Rightarrow> handled" where
  "metrics_handle_p2p_extractor e =
     (case e of
        PingDuration d \<Rightarrow> Some [SetTo ''p2pextractor_ping_duration_nanoseconds'' [] d]
      | AddressAnnouncement addresses \<Rightarrow>
          map_option (\<lambda>networks.
            [Inc ''p2pextractor_addrv2relay_messages'' []] @
            op_if (length addresses \<le> 10) [Inc ''p2pextractor_addrv2relay_messages_10_or_less_entries'' []] @
            [SetTo ''p2pextractor_addrv2relay_size'' [] (of_nat (length addresses))] @
            map (\<lambda>(network, v). IncBy ''p2pextractor_addrv2relay_addresses'' [ascii network] (of_nat v))
              (count_by id networks)) (networks_of addresses)
      | InventoryAnnouncement inventory \<Rightarrow>
          Some ([Inc ''p2pextractor_invs_messages'' [],
                 SetTo ''p2pextractor_invs_size'' [] (of_nat (length inventory))] @
            map (\<lambda>(inv_type, v). IncBy ''p2pextractor_invs_items'' [ascii inv_type] (of_nat v))
              (count_by inv_type_string inventory))
      | FeefilterAnnouncement fee \<Rightarrow>
          Some [Inc ''p2pextractor_feefilter_messages'' [], SetTo ''p2pextractor_feefilter_last'' [] fee])"

section \<open>P2P messages\<close>

fun address_inner :: "Address_address \<Rightarrow> byte list" where
  "address_inner (Addr_ipv4 x) = x"
| "address_inner (Addr_ipv6 x) = x"
| "address_inner (Addr_torv2 x) = x"
| "address_inner (Addr_torv3 x) = x"
| "address_inner (Addr_i2p x) = x"
| "address_inner (Addr_cjdns x) = x"
| "address_inner (Addr_unknown x) = unknown_address_display x"

definition check_self_and_subnet_announcement ::
    "Address_address \<Rightarrow> byte list \<Rightarrow> byte list \<Rightarrow> label \<Rightarrow> metric_op list" where
  "check_self_and_subnet_announcement address ip subnet' direction =
     (let network = address_network address in
      if address_inner address = ip then
        [Inc ''p2p_address_selfannouncements'' [ascii network, direction]]
      else if network = ''IPv4'' \<or> network = ''IPv6'' then
        (let addr_subnet = subnet (address_inner address) in
         op_if (addr_subnet = subnet')
           [Inc ''p2p_address_subnetannouncements'' [ascii network, direction]])
      else [])"

definition BUCKETS_ADDR_SERVICE_BITS :: "nat list" where
  "BUCKETS_ADDR_SERVICE_BITS = [0..<64]"

definition service_bits :: "string \<Rightarrow> label \<Rightarrow> u64 \<Rightarrow> metric_op list" where
  "service_bits m direction services =
     concat (map (\<lambda>i. op_if (0 < (push_bit i 1 AND services)) [Observe m [direction] (int i)])
       BUCKETS_ADDR_SERVICE_BITS)"

text \<open>One address of an \<^verbatim>\<open>addr\<close> or \<^verbatim>\<open>addrv2\<close> message; the two branches differ in the metrics they use.\<close>

definition announced_address ::
    "string \<Rightarrow> u64 \<Rightarrow> byte list \<Rightarrow> byte list \<Rightarrow> label \<Rightarrow> Address_pb \<Rightarrow> handled" where
  "announced_address family timestamp_ms ip subnet' direction a =
     (let offset = uint (timestamp_ms div 1000) - uint (address_timestamp a) in
      map_option (\<lambda>address.
        [if 0 \<le> offset
         then Observe (family @ ''_timestamp_offset_seconds'') [direction, ascii ''past''] offset
         else Observe (family @ ''_timestamp_offset_seconds'') [direction, ascii ''future''] (- offset)] @
        service_bits (family @ ''_services_bits'') direction (address_services a) @
        [Inc (family @ ''_services'') [direction, dec (unat (address_services a))]] @
        check_self_and_subnet_announcement address ip subnet' direction) (address_address a))"

definition announced_addresses ::
    "string \<Rightarrow> u64 \<Rightarrow> byte list \<Rightarrow> byte list \<Rightarrow> label \<Rightarrow> Address_pb list \<Rightarrow> handled" where
  "announced_addresses family timestamp_ms ip subnet' direction addresses =
     map_option (\<lambda>opss. [Observe (family @ ''_addresses'') [direction] (int (length addresses))] @ concat opss)
       (those (map (announced_address family timestamp_ms ip subnet' direction) addresses))"

definition metrics_handle_inv :: "label \<Rightarrow> bool \<Rightarrow> InventoryItem_pb list \<Rightarrow> metric_op list" where
  "metrics_handle_inv direction outbound items =
     (let count_by_invtype = count_by inv_type_string items;
          count_of = (\<lambda>t. case map_of count_by_invtype t of Some n \<Rightarrow> n | None \<Rightarrow> 0)
      in map (\<lambda>(inv_type, count). IncBy ''p2p_inv_entries'' [direction, ascii inv_type] (of_nat count))
           count_by_invtype @
         [Observe ''p2p_inv_entries_histogram'' [direction] (int (length items)),
          if length count_by_invtype = 1 then Inc ''p2p_invs_homogeneous'' [direction]
          else Inc ''p2p_invs_heterogeneous'' [direction]] @
         op_if (outbound \<and> (35 < count_of ''Tx'' \<or> 35 < count_of ''WTx''))
           [Inc ''p2p_invs_outbound_large'' []])"

definition ping_range :: "u64 \<Rightarrow> string" where
  "ping_range v =
     (if v = 0 then ''0''
      else if v \<le> 0xFF then ''u8''
      else if v \<le> 0xFFFF then ''u16''
      else if v \<le> 0xFFFFFFFF then ''u32''
      else ''u64'')"

definition PRIVATE_TRANSACTION_BROADCAST_USERAGENT :: "byte list" where
  "PRIVATE_TRANSACTION_BROADCAST_USERAGENT = ascii ''/pynode:0.0.1/''"

definition reject_reason_string :: "s32 \<Rightarrow> string" where
  "reject_reason_string r =
     (if 0 \<le> sint r \<and> sint r < 8 then
        [''Malformed'', ''Invalid'', ''Obsolete'', ''Duplicate'', ''NonStandard'', ''Dust'', ''Fee'',
         ''Checkpoint''] ! nat (sint r)
      else ''unknown'')"

definition signed_dec :: "int \<Rightarrow> byte list" where
  "signed_dec n = (if n < 0 then ascii ''-'' @ dec (nat (- n)) else dec (nat n))"

definition metrics_handle_p2p_message :: "MessageEvent_pb \<Rightarrow> u64 \<Rightarrow> handled" where
  "metrics_handle_p2p_message msg timestamp_ms =
     (let meta = mev_meta msg;
          conn_type = signed_dec (sint (pmd_conn_type meta));
          direction = ascii (if pmd_inbound meta then ''inbound'' else ''outbound'');
          ip = ip_from_ipport (pmd_addr meta);
          subnet' = subnet ip;
          labels = [pmd_command meta, conn_type, direction];
          labels_ll = [pmd_command meta, direction];
          counts = [Inc ''p2p_message_count'' labels, IncBy ''p2p_message_bytes'' labels (pmd_size meta)] @
            op_if (is_on_linkinglion_banlist ip)
              [Inc ''p2p_message_count_linkinglion'' labels_ll,
               IncBy ''p2p_message_bytes_linkinglion'' labels_ll (pmd_size meta)]
      in map_option (\<lambda>ops. counts @ ops)
         (case mev_msg msg of
            None \<Rightarrow> Some []
          | Some (Msg_addr addr) \<Rightarrow>
              announced_addresses ''p2p_addr'' timestamp_ms ip subnet' direction (addr_addresses addr)
          | Some (Msg_addrv2 addrv2) \<Rightarrow>
              announced_addresses ''p2p_addrv2'' timestamp_ms ip subnet' direction (addrv2_addresses addrv2)
          | Some (Msg_emptyaddrv2 b) \<Rightarrow> Some [Inc ''p2p_addrv2_empty'' [direction, ip]]
          | Some (Msg_inv items) \<Rightarrow> Some (metrics_handle_inv direction (\<not> pmd_inbound meta) (inv_items items))
          | Some (Msg_ping ping) \<Rightarrow>
              Some (op_if (pmd_inbound meta)
                [Inc ''p2p_ping_inbound_value'' [ascii (ping_range (ping_value ping))]])
          | Some (Msg_oldping b) \<Rightarrow>
              Some (op_if (pmd_inbound meta) [Inc ''p2p_oldping_subnet'' [subnet']])
          | Some (Msg_version v) \<Rightarrow>
              Some (op_if (pmd_inbound meta)
                (let user_agent = (if is_on_linkinglion_banlist ip then ascii ''LinkingLion''
                                   else version_user_agent v) in
                 [Inc ''p2p_version_useragent'' [user_agent]] @
                 op_if (user_agent = PRIVATE_TRANSACTION_BROADCAST_USERAGENT)
                   [Inc ''conn_private_transaction_broadcast'' []]))
          | Some (Msg_feefilter f) \<Rightarrow>
              Some [Inc ''p2p_feefilter_feerate'' [direction, signed_dec (sint (feefilter_fee f))]]
          | Some (Msg_reject r) \<Rightarrow>
              Some (op_if (pmd_inbound meta)
                [Inc ''p2p_reject_message''
                   [reject_rejected_command r, ascii (reject_reason_string (reject_reason r))]])
          | Some _ \<Rightarrow> Some []))"

section \<open>Log events and compact block reconstructions\<close>

datatype BandwidthMode = BwUnknown | BwHigh | BwLow

fun bandwidth_string :: "BandwidthMode \<Rightarrow> string" where
  "bandwidth_string BwUnknown = ''unknown''"
| "bandwidth_string BwHigh = ''high''"
| "bandwidth_string BwLow = ''low''"

record CompactBlockReconstruction =
  cr_started_at_microsec :: "u64 option"
  cr_ended_at_microsec :: "u64 option"
  cr_requested_txn_count :: u32
  cr_bandwidth_mode :: BandwidthMode
  cr_created_at :: nat

text \<open>
  A \<^verbatim>\<open>HashMap\<close> that is iterated is a list of its entries, with distinct keys; what is made of it does
  not depend on the order. Instants of the monotonic clock are nanoseconds; \<open>now\<close> is the one at which a
  new entry is made, \<open>now'\<close> the one against which the ages are taken.
\<close>

type_synonym reconstructions = "(ustring \<times> CompactBlockReconstruction) list"

definition FIVE_MINUTES :: nat where "FIVE_MINUTES = 5 * 60 * 1000000000"

definition reconstruction_new :: "nat \<Rightarrow> CompactBlockReconstruction" where
  "reconstruction_new now =
     \<lparr>cr_started_at_microsec = None, cr_ended_at_microsec = None, cr_requested_txn_count = 0,
      cr_bandwidth_mode = BwUnknown, cr_created_at = now\<rparr>"

definition saturating_sub :: "u64 \<Rightarrow> u64 \<Rightarrow> u64" where
  "saturating_sub a b = (if a < b then 0 else a - b)"

definition handle_compact_block_reconstruction_state ::
    "nat \<Rightarrow> nat \<Rightarrow> ustring \<Rightarrow> (CompactBlockReconstruction \<Rightarrow> CompactBlockReconstruction) \<Rightarrow>
     reconstructions \<Rightarrow> metric_op list \<times> reconstructions" where
  "handle_compact_block_reconstruction_state now now' block_hash update_reconstruction st =
     (let entry = (case map_of st block_hash of Some r \<Rightarrow> r | None \<Rightarrow> reconstruction_new now);
          reconstruction = update_reconstruction entry;
          st = AList.update block_hash reconstruction st;
          (ops, st) =
            (case (cr_started_at_microsec reconstruction, cr_ended_at_microsec reconstruction) of
               (Some started, Some ended) \<Rightarrow>
                 (let tx_requested = (if 0 < cr_requested_txn_count reconstruction then ''true'' else ''false'');
                      labels = [ascii tx_requested, ascii (bandwidth_string (cr_bandwidth_mode reconstruction))]
                  in ([Inc ''log_compact_block_reconstruction_count'' labels,
                       SetTo ''log_compact_block_reconstruction_time'' labels (saturating_sub ended started)],
                      AList.delete block_hash st))
             | _ \<Rightarrow> ([], st))
      in (ops, filter (\<lambda>(_, r). now' - cr_created_at r < FIVE_MINUTES) st))"

definition ascii_lowercase :: "string \<Rightarrow> label" where
  "ascii_lowercase s = to_lowercase (ascii s)"

fun level_name :: "LogLevel \<Rightarrow> string" where
  "level_name LevelInfo = ''INFO''"
| "level_name LevelWarning = ''WARNING''"
| "level_name LevelError = ''ERROR''"
| "level_name LevelDebug = ''DEBUG''"
| "level_name LevelTrace = ''TRACE''"

text \<open>The label of a mutated block is one of the five reject reasons, which are ASCII.\<close>

definition ustring_label :: "ustring \<Rightarrow> label" where
  "ustring_label s = map of_nat s"

definition metrics_handle_log ::
    "nat \<Rightarrow> nat \<Rightarrow> Log \<Rightarrow> reconstructions \<Rightarrow> metric_op list \<times> reconstructions" where
  "metrics_handle_log now now' l st =
     (let category = ascii_lowercase (category_name (log_category l));
          level = ascii_lowercase (level_name (log_level l));
          ops = [Inc ''log_events'' [category, level],
                 IncBy ''log_bytes'' [category, level] (log_line_bytes l)]
      in case log_event l of
           None \<Rightarrow> (ops, st)
         | Some (UnknownLogMessage m) \<Rightarrow> (ops, st)
         | Some (LogBlockConnected b) \<Rightarrow> (ops @ [Inc ''log_block_connected_events'' []], st)
         | Some (LogBlockChecked block) \<Rightarrow>
             (ops @ [Inc ''log_block_checked_events'' []] @
              op_if (is_mutated_block block) [Inc ''log_mutated_blocks'' [ustring_label (bkl_state block)]], st)
         | Some (LogSawNewHeader block) \<Rightarrow>
             (let (ops', st') = handle_compact_block_reconstruction_state now now' (snh_block_hash block)
                    (\<lambda>r. r\<lparr>cr_started_at_microsec := Some (log_timestamp l),
                           cr_bandwidth_mode := (if snh_is_cmpctblock block then BwHigh else BwLow)\<rparr>) st
              in (ops @ ops', st'))
         | Some (LogCompactBlockReconstructed block) \<Rightarrow>
             (let (ops', st') = handle_compact_block_reconstruction_state now now' (cbr_block_hash block)
                    (\<lambda>r. r\<lparr>cr_ended_at_microsec := Some (log_timestamp l),
                           cr_requested_txn_count := cbr_requested_txn_count block\<rparr>) st
              in (ops @ ops' @
                  [IncBy ''log_compact_block_reconstruction_txs_requested'' [] (ucast (cbr_requested_txn_count block)),
                   IncBy ''log_compact_block_reconstruction_requested_bytes'' [] (ucast (cbr_requested_txn_bytes block)),
                   IncBy ''log_compact_block_reconstruction_txs_extra_pool'' [] (ucast (cbr_extra_pool_txn_count block))],
                  st')))"

section \<open>RPC responses with a state\<close>

type_synonym orphanage = "(byte list \<times> u64) list"

definition orphanage_of :: "OrphanTx_pb list \<Rightarrow> orphanage" where
  "orphanage_of orphans = foldl (\<lambda>st x. AList.update (ot_wtxid x) (ot_bytes x) st) [] orphans"

definition orphans_added :: "orphanage \<Rightarrow> OrphanTx_pb list \<Rightarrow> OrphanTx_pb list" where
  "orphans_added old orphans = filter (\<lambda>x. map_of old (ot_wtxid x) = None) orphans"

definition orphans_removed :: "orphanage \<Rightarrow> orphanage \<Rightarrow> orphanage" where
  "orphans_removed old new = filter (\<lambda>(wtxid, bytes). map_of new wtxid = None) old"

text \<open>Of no orphans, the minimum of the senders is the largest \<^verbatim>\<open>i64\<close> and the mean is zero by zero.\<close>

definition metrics_handle_orphans ::
    "bool \<Rightarrow> OrphanTx_pb list \<Rightarrow> orphanage \<Rightarrow> (metric_op list \<times> orphanage) option" where
  "metrics_handle_orphans checked orphans old =
     (let new = orphanage_of orphans;
          froms = map (\<lambda>x. length (ot_from x)) orphans;
          added = orphans_added old orphans;
          removed = orphans_removed old new
      in do {
        bytes \<leftarrow> sum_u64 checked (map ot_bytes orphans);
        vsize \<leftarrow> sum_u64 checked (map ot_vsize orphans);
        weight \<leftarrow> sum_u64 checked (map ot_weight orphans);
        added_bytes \<leftarrow> sum_u64 checked (map ot_bytes added);
        removed_bytes \<leftarrow> sum_u64 checked (map snd removed);
        Some
          ([SetTo ''rpc_getorphantxs_count'' [] (of_nat (length orphans)),
            SetTo ''rpc_getorphantxs_bytes'' [] bytes,
            SetTo ''rpc_getorphantxs_vsize'' [] vsize,
            SetTo ''rpc_getorphantxs_weight'' [] weight,
            SetTo ''rpc_getorphantxs_from_max'' [] (of_nat (foldl max 0 froms)),
            SetTo ''rpc_getorphantxs_from_min'' [] (of_nat (foldl min (2 ^ 63 - 1) froms)),
            SetRatio ''rpc_getorphantxs_from_mean'' (sum_list froms) (length orphans),
            IncBy ''rpc_getorphantxs_added_bytes'' [] added_bytes,
            IncBy ''rpc_getorphantxs_removed_bytes'' [] removed_bytes,
            IncBy ''rpc_getorphantxs_added_count'' [] (of_nat (length added)),
            IncBy ''rpc_getorphantxs_removed_count'' [] (of_nat (length removed))], new)
      })"

text \<open>What changed between two tables. Each entry of the current one is of one of these kinds.\<close>

record TabelChanges =
  tc_added :: nat
  tc_replaced :: nat
  tc_changed_service :: nat
  tc_changed_timestamp :: nat

definition no_changes :: TabelChanges where
  "no_changes = \<lparr>tc_added = 0, tc_replaced = 0, tc_changed_service = 0, tc_changed_timestamp = 0\<rparr>"

definition entry_changes :: "addrman_bucket \<Rightarrow> TabelChanges \<Rightarrow> u32 \<times> AddrmanEntry_pb \<Rightarrow> TabelChanges" where
  "entry_changes prev_bucket tc pe =
     (case map_of prev_bucket (fst pe) of
        None \<Rightarrow> tc\<lparr>tc_added := tc_added tc + 1\<rparr>
      | Some prev \<Rightarrow>
          (let e = snd pe in
           if \<not> (ae_address e = ae_address prev \<and> ae_port e = ae_port prev) then
             tc\<lparr>tc_replaced := tc_replaced tc + 1\<rparr>
           else
             tc\<lparr>tc_changed_timestamp := tc_changed_timestamp tc + (if ae_time e \<noteq> ae_time prev then 1 else 0),
                tc_changed_service := tc_changed_service tc + (if ae_services e \<noteq> ae_services prev then 1 else 0)\<rparr>))"

definition bucket_changes :: "addrman_table \<Rightarrow> TabelChanges \<Rightarrow> u32 \<times> addrman_bucket \<Rightarrow> TabelChanges" where
  "bucket_changes prev tc cb =
     (case map_of prev (fst cb) of
        None \<Rightarrow> tc\<lparr>tc_added := tc_added tc + length (snd cb)\<rparr>
      | Some prev_bucket \<Rightarrow> foldl (entry_changes prev_bucket) tc (snd cb))"

definition TabelChanges_new :: "addrman_table \<Rightarrow> addrman_table \<Rightarrow> TabelChanges" where
  "TabelChanges_new current prev = foldl (bucket_changes prev) no_changes current"

definition Addrman_default :: Addrman_pb where
  "Addrman_default = \<lparr>am_new = [], am_tried = []\<rparr>"

definition changes_ops :: "string \<Rightarrow> (TabelChanges \<Rightarrow> nat) \<Rightarrow> TabelChanges \<Rightarrow> TabelChanges \<Rightarrow> metric_op list" where
  "changes_ops m field new tried =
     [IncBy m [ascii ''new''] (of_nat (field new)), IncBy m [ascii ''tried''] (of_nat (field tried))]"

text \<open>The changes that an addrman event adds to the counters, and the state after it.\<close>

definition addrman_changes :: "Addrman_pb \<Rightarrow> Addrman_pb \<Rightarrow> metric_op list \<times> Addrman_pb" where
  "addrman_changes addrman old =
     ((if old \<noteq> Addrman_default then
         (let new_changes = TabelChanges_new (am_new addrman) (am_new old);
              tried_changes = TabelChanges_new (am_tried addrman) (am_tried old)
          in changes_ops ''rpc_getrawaddrman_added_entry'' tc_added new_changes tried_changes @
             changes_ops ''rpc_getrawaddrman_replaced_entry'' tc_replaced new_changes tried_changes @
             changes_ops ''rpc_getrawaddrman_changed_services'' tc_changed_service new_changes tried_changes @
             changes_ops ''rpc_getrawaddrman_changed_timestamps'' tc_changed_timestamp new_changes tried_changes)
       else []), addrman)"

section \<open>The gauges of an addrman response\<close>

definition ADDRMAN_HORIZON_SECONDS :: int where "ADDRMAN_HORIZON_SECONDS = 30 * 24 * 60 * 60"
definition ADDRMAN_FUTURE_TOLERANCE_SECONDS :: int where "ADDRMAN_FUTURE_TOLERANCE_SECONDS = 10 * 60"

definition ADDRMAN_ENTRY_AGE_QUANTILES :: "string list" where
  "ADDRMAN_ENTRY_AGE_QUANTILES = [''0.1'', ''0.25'', ''0.5'', ''0.75'', ''0.9'']"

definition BUCKETS_ADDRMAN_ENTRY_AGE :: "nat list" where
  "BUCKETS_ADDRMAN_ENTRY_AGE =
     [3600, 21600, 86400, 259200, 604800, 1209600, 2592000, 5184000, 7776000]"

text \<open>\<^verbatim>\<open>i64\<close> arithmetic: a result out of range panics in a checked build and wraps in another.\<close>

definition i64 :: "bool \<Rightarrow> int \<Rightarrow> int option" where
  "i64 checked n =
     (let w = sint (word_of_int n :: s64) in if checked \<and> w \<noteq> n then None else Some w)"

text \<open>
  An entry with the offset of its time, negative in the past, and the offset negated, which is its age
  unless that is negative.
\<close>

type_synonym aged_entry = "AddrmanEntry_pb \<times> int \<times> int"

definition aged :: "bool \<Rightarrow> int \<Rightarrow> AddrmanEntry_pb \<Rightarrow> aged_entry option" where
  "aged checked now e =
     do {
       offset \<leftarrow> i64 checked (sint (ae_time e) - now);
       age \<leftarrow> i64 checked (- offset);
       Some (e, offset, age)
     }"

definition table_entries :: "bool \<Rightarrow> int \<Rightarrow> addrman_table \<Rightarrow> aged_entry list option" where
  "table_entries checked now table =
     those (map (aged checked now) (concat (map (\<lambda>b. map snd (snd b)) table)))"

definition far_future :: "aged_entry \<Rightarrow> bool" where
  "far_future x \<longleftrightarrow> fst (snd x) > ADDRMAN_FUTURE_TOLERANCE_SECONDS"

definition terrible :: "aged_entry \<Rightarrow> bool" where
  "terrible x \<longleftrightarrow> far_future x \<or> snd (snd x) > ADDRMAN_HORIZON_SECONDS"

definition distinct_count :: "('a \<Rightarrow> 'k) \<Rightarrow> 'a list \<Rightarrow> nat" where
  "distinct_count f xs = length (remdups (map f xs))"

definition set_nat :: "string \<Rightarrow> label list \<Rightarrow> nat \<Rightarrow> metric_op" where
  "set_nat m labels n = SetTo m labels (of_nat n)"

text \<open>The gauges of a network: every network of the table has a value for each of them.\<close>

definition network_gauges :: "label \<Rightarrow> aged_entry list \<Rightarrow> label \<Rightarrow> metric_op list" where
  "network_gauges table entries network =
     (let here = filter (\<lambda>x. ae_network (fst x) = network) entries;
          count = (\<lambda>p. length (filter p here))
      in [set_nat ''rpc_getrawaddrman_entries'' [table, network] (length here),
          set_nat ''rpc_getrawaddrman_distinct_entries'' [table, network]
            (distinct_count (\<lambda>x. (ae_address (fst x), ae_port (fst x))) here),
          set_nat ''rpc_getrawaddrman_distinct_addresses'' [table, network]
            (distinct_count (\<lambda>x. ae_address (fst x)) here),
          set_nat ''rpc_getrawaddrman_terrible_entries'' [table, network] (count terrible),
          set_nat ''rpc_getrawaddrman_future_entries'' [table, network, ascii ''0''] (count (\<lambda>x. 0 < fst (snd x))),
          set_nat ''rpc_getrawaddrman_future_entries'' [table, network, ascii ''600''] (count far_future)])"

definition ages_of :: "aged_entry list \<Rightarrow> int list" where
  "ages_of entries = sort (map (\<lambda>x. max 0 (snd (snd x))) entries)"

definition entries_with_age_up_to :: "int list \<Rightarrow> nat \<Rightarrow> nat" where
  "entries_with_age_up_to ages age = length (takeWhile (\<lambda>a. a \<le> int age) ages)"

definition distinct_gauges :: "label \<Rightarrow> aged_entry list \<Rightarrow> metric_op list" where
  "distinct_gauges table entries =
     (let as_of = (\<lambda>mapped. case mapped of Some a \<Rightarrow> a | None \<Rightarrow> (0 :: u32)) in
      [set_nat ''rpc_getrawaddrman_distinct_asns'' [table] (distinct_count (\<lambda>x. as_of (ae_mapped_as (fst x))) entries),
       set_nat ''rpc_getrawaddrman_distinct_sources'' [table] (distinct_count (\<lambda>x. ae_source (fst x)) entries),
       set_nat ''rpc_getrawaddrman_distinct_source_asn'' [table]
         (distinct_count (\<lambda>x. as_of (ae_source_mapped_as (fst x))) entries)])"

definition port_gauges :: "label \<Rightarrow> aged_entry list \<Rightarrow> metric_op list" where
  "port_gauges table entries =
     map (\<lambda>(port, n). set_nat ''rpc_getrawaddrman_ports'' [table, dec (unat port)] n)
       (count_by (\<lambda>x. ucast (ae_port (fst x)) :: 16 word) entries)"

definition service_bit_gauges :: "label \<Rightarrow> aged_entry list \<Rightarrow> metric_op list" where
  "service_bit_gauges table entries =
     concat (map (\<lambda>bit.
       (let n = length (filter (\<lambda>x. 0 < (ae_services (fst x) AND push_bit bit 1)) entries) in
        op_if (0 < n) [set_nat ''rpc_getrawaddrman_service_bits'' [table, dec (bit + 1)] n])) [0..<64])"

definition service_gauges :: "label \<Rightarrow> aged_entry list \<Rightarrow> metric_op list" where
  "service_gauges table entries =
     map (\<lambda>(services, n). set_nat ''rpc_getrawaddrman_services'' [table, dec (unat services)] n)
       (count_by (\<lambda>x. ae_services (fst x)) entries)"

definition age_gauges :: "label \<Rightarrow> aged_entry list \<Rightarrow> metric_op list" where
  "age_gauges table entries =
     (let ages = ages_of entries in
      map (\<lambda>q. SetPercentile ''rpc_getrawaddrman_entry_age_seconds'' [table, ascii q] ages q)
        ADDRMAN_ENTRY_AGE_QUANTILES @
      map (\<lambda>age. set_nat ''rpc_getrawaddrman_entry_age_seconds_bucket'' [table, dec age]
        (entries_with_age_up_to ages age)) BUCKETS_ADDRMAN_ENTRY_AGE @
      [set_nat ''rpc_getrawaddrman_entry_age_seconds_bucket'' [table, ascii ''+Inf''] (length ages)] @
      concat (map (network_gauges table entries) (remdups (map (\<lambda>x. ae_network (fst x)) entries))))"

definition addrman_resets :: "metric_op list" where
  "addrman_resets =
     map ResetVec [''rpc_getrawaddrman_ports'', ''rpc_getrawaddrman_services'', ''rpc_getrawaddrman_service_bits'',
       ''rpc_getrawaddrman_entries'', ''rpc_getrawaddrman_terrible_entries'', ''rpc_getrawaddrman_future_entries'',
       ''rpc_getrawaddrman_distinct_entries'', ''rpc_getrawaddrman_distinct_addresses'']"

definition metrics_handle_addrman ::
    "bool \<Rightarrow> Addrman_pb \<Rightarrow> u64 \<Rightarrow> Addrman_pb \<Rightarrow> (metric_op list \<times> Addrman_pb) option" where
  "metrics_handle_addrman checked addrman timestamp_ms old =
     (let now = sint (timestamp_ms div 1000); new_table = ascii ''new''; tried_table = ascii ''tried'' in
      do {
        new \<leftarrow> table_entries checked now (am_new addrman);
        tried \<leftarrow> table_entries checked now (am_tried addrman);
        let (changes, st) = addrman_changes addrman old;
        Some (addrman_resets @ distinct_gauges new_table new @ distinct_gauges tried_table tried @
              port_gauges new_table new @ port_gauges tried_table tried @
              service_bit_gauges new_table new @ service_bit_gauges tried_table tried @
              service_gauges new_table new @ service_gauges tried_table tried @
              age_gauges new_table new @ age_gauges tried_table tried @ changes, st)
      })"

section \<open>Events and the loop\<close>

record MetricsState =
  ms_orphanage :: orphanage
  ms_addrman :: Addrman_pb
  ms_reconstruction :: reconstructions

definition MetricsState_default :: MetricsState where
  "MetricsState_default = \<lparr>ms_orphanage = [], ms_addrman = Addrman_default, ms_reconstruction = []\<rparr>"

record metrics_env =
  me_tables :: ip_tables
  me_checked :: bool

text \<open>The gauges of a response that leaves the state as it is.\<close>

definition rpc_gauges :: "metrics_env \<Rightarrow> RpcEvent \<Rightarrow> handled" where
  "rpc_gauges env e =
     (case e of
        RpcUptime uptime_seconds \<Rightarrow> Some [SetTo ''rpc_uptime'' [] (ucast uptime_seconds)]
      | RpcNetTotals net_totals \<Rightarrow>
          Some [SetTo ''rpc_nettotals_total_bytes_received'' [] (nt_total_bytes_received net_totals),
                SetTo ''rpc_nettotals_total_bytes_sent'' [] (nt_total_bytes_sent net_totals)]
      | RpcMemoryInfo info \<Rightarrow> Some (memory_gauges info)
      | RpcAddrmanInfo info \<Rightarrow> Some (addrman_info_gauges info)
      | RpcNetworkInfo info \<Rightarrow> Some (network_info_gauges info)
      | RpcBlockchainInfo info \<Rightarrow> Some (blockchain_info_gauges info)
      | RpcMempoolInfo info \<Rightarrow> Some (mempool_info_gauges info)
      | RpcPeerInfos infos \<Rightarrow> peer_gauges (me_tables env) (me_checked env) infos
      | RpcChainTxStats stats \<Rightarrow> Some (chain_tx_gauges stats)
      | RpcEstimateSmartFee estimate \<Rightarrow> estimate_gauges estimate
      | _ \<Rightarrow> Some [])"

definition metrics_handle_rpc ::
    "metrics_env \<Rightarrow> RpcEvent \<Rightarrow> u64 \<Rightarrow> MetricsState \<Rightarrow> (metric_op list \<times> MetricsState) option" where
  "metrics_handle_rpc env e timestamp_ms st =
     (case e of
        RpcOrphanTxs orphans \<Rightarrow>
          map_option (\<lambda>(ops, new). (ops, st\<lparr>ms_orphanage := new\<rparr>))
            (metrics_handle_orphans (me_checked env) orphans (ms_orphanage st))
      | RpcAddrman addrman \<Rightarrow>
          map_option (\<lambda>(ops, new). (ops, st\<lparr>ms_addrman := new\<rparr>))
            (metrics_handle_addrman (me_checked env) addrman timestamp_ms (ms_addrman st))
      | _ \<Rightarrow> map_option (\<lambda>ops. (ops, st)) (rpc_gauges env e))"

definition metrics_handle_ipc :: "BlockTip_pb \<Rightarrow> metric_op list" where
  "metrics_handle_ipc tip = [SetTo ''ipc_block_tip_height'' [] (scast (bt_height tip))]"

text \<open>The events of eBPF: an event without its body is a panic.\<close>

definition metrics_handle_ebpf :: "metrics_env \<Rightarrow> ebpf_event option \<Rightarrow> u64 \<Rightarrow> handled" where
  "metrics_handle_ebpf env ev timestamp_ms =
     (case ev of
        None \<Rightarrow> None
      | Some (EbpfMessage msg) \<Rightarrow> metrics_handle_p2p_message msg timestamp_ms
      | Some (EbpfConnection conn) \<Rightarrow>
          Option.bind conn (\<lambda>c. metrics_handle_connection (me_tables env) (me_checked env) c timestamp_ms)
      | Some (EbpfMempool mempool) \<Rightarrow> map_option metrics_handle_mempool mempool
      | Some (EbpfValidation validation) \<Rightarrow> map_option metrics_handle_validation validation)"

definition metrics_handle_observed ::
    "metrics_env \<Rightarrow> nat \<Rightarrow> nat \<Rightarrow> Observed \<Rightarrow> MetricsState \<Rightarrow> (metric_op list \<times> MetricsState) option" where
  "metrics_handle_observed env now now' ev st =
     (case ob_event ev of
        None \<Rightarrow> Some ([], st)
      | Some (ObservedEbpf ebpf) \<Rightarrow>
          map_option (\<lambda>ops. (ops, st)) (metrics_handle_ebpf env ebpf (ob_timestamp ev))
      | Some (ObservedRpc r) \<Rightarrow>
          (case r of Some e \<Rightarrow> metrics_handle_rpc env e (ob_timestamp ev) st | None \<Rightarrow> Some ([], st))
      | Some (ObservedP2p p) \<Rightarrow>
          (case p of
             Some e \<Rightarrow> map_option (\<lambda>ops. (ops, st)) (metrics_handle_p2p_extractor e)
           | None \<Rightarrow> Some ([], st))
      | Some (ObservedLog l) \<Rightarrow>
          (let (ops, recs) = metrics_handle_log now now' l (ms_reconstruction st)
           in Some (ops, st\<lparr>ms_reconstruction := recs\<rparr>))
      | Some (ObservedIpc ipc) \<Rightarrow>
          (case ipc of Some tip \<Rightarrow> Some (metrics_handle_ipc tip, st) | None \<Rightarrow> Some ([], st)))"

datatype metrics_status = MetricsGoOn | MetricsStopped | MetricsDecodeError | MetricsPanicked

text \<open>What a branch of \<^verbatim>\<open>select!\<close> yields: a message or the end of the subscription, or the shutdown channel.\<close>

datatype metrics_input =
    NextMessage nat nat "byte list option"
  | MetricsShutdown "bool option"

definition metrics_handle_event ::
    "metrics_env \<Rightarrow> (byte list \<Rightarrow> Observed option) \<Rightarrow> nat \<Rightarrow> nat \<Rightarrow> byte list \<Rightarrow> MetricsState \<Rightarrow>
     metric_op list \<times> MetricsState \<times> metrics_status" where
  "metrics_handle_event env decode now now' bytes st =
     (case decode bytes of
        None \<Rightarrow> ([], st, MetricsDecodeError)
      | Some ev \<Rightarrow>
          (case metrics_handle_observed env now now' ev st of
             None \<Rightarrow> ([], st, MetricsPanicked)
           | Some (ops, st') \<Rightarrow> (ops, st', MetricsGoOn)))"

definition metrics_iteration ::
    "metrics_env \<Rightarrow> (byte list \<Rightarrow> Observed option) \<Rightarrow> metrics_input \<Rightarrow> MetricsState \<Rightarrow>
     metric_op list \<times> MetricsState \<times> metrics_status" where
  "metrics_iteration env decode inp st =
     (case inp of
        NextMessage now now' (Some bytes) \<Rightarrow> metrics_handle_event env decode now now' bytes st
      | NextMessage now now' None \<Rightarrow> ([], st, MetricsStopped)
      | MetricsShutdown (Some b) \<Rightarrow> ([], st, if b then MetricsStopped else MetricsGoOn)
      | MetricsShutdown None \<Rightarrow> ([], st, MetricsStopped))"

fun metrics_loop ::
    "metrics_env \<Rightarrow> (byte list \<Rightarrow> Observed option) \<Rightarrow> metrics_input list \<Rightarrow> MetricsState \<Rightarrow>
     metric_op list \<times> MetricsState \<times> metrics_status" where
  "metrics_loop env decode [] st = ([], st, MetricsGoOn)"
| "metrics_loop env decode (inp # inps) st =
     (case metrics_iteration env decode inp st of
        (ops, st', MetricsGoOn) \<Rightarrow>
          (case metrics_loop env decode inps st' of (ops', st'', status) \<Rightarrow> (ops @ ops', st'', status))
      | (ops, st', status) \<Rightarrow> (ops, st', status))"

end
