(* ===== verification/MetricsProperties.thy ===== *)
theory MetricsProperties
  imports MetricsTool LogProperties
begin

text \<open>
  The properties of the metrics tool: the counters that follow a changing set, the state of the compact
  block reconstructions, the counts of messages and tables, and the metrics of the log extractor's
  events.
\<close>

section \<open>Counters\<close>

fun op_name :: "metric_op \<Rightarrow> string" where
  "op_name (IncBy m l n) = m"
| "op_name (SetTo m l v) = m"
| "op_name (Observe m l v) = m"
| "op_name (SetF64 m l x) = m"
| "op_name (SetRatio m a b) = m"
| "op_name (SetMean m xs) = m"
| "op_name (SetMedian m xs) = m"
| "op_name (SetPercentile m l xs q) = m"
| "op_name (ResetVec m) = m"

text \<open>What the operations add to a counter, over all its labels.\<close>

fun increment :: "string \<Rightarrow> metric_op \<Rightarrow> u64" where
  "increment m (IncBy m' l n) = (if m = m' then n else 0)"
| "increment m op = 0"

definition counter :: "string \<Rightarrow> metric_op list \<Rightarrow> u64" where
  "counter m ops = sum_list (map (increment m) ops)"

lemma counter_simps [simp]:
  "counter m [] = 0" "counter m (op # ops) = increment m op + counter m ops"
  "counter m (ops @ ops') = counter m ops + counter m ops'"
  by (simp_all add: counter_def)

lemma counter_op_if [simp]: "counter m (op_if b ops) = (if b then counter m ops else 0)"
  by (simp add: op_if_def)

lemma counter_concat: "counter m (concat opss) = sum_list (map (counter m) opss)"
  by (induction opss) auto

lemma increment_other: "op_name op \<noteq> m \<Longrightarrow> increment m op = 0"
  by (cases op) auto

lemma counter_other: "list_all (\<lambda>op. op_name op \<noteq> m) ops \<Longrightarrow> counter m ops = 0"
  by (induction ops) (auto simp: increment_other)

section \<open>Counting by a key\<close>

lemma sum_count_by: "sum_list (map snd (count_by f xs)) = length xs"
proof -
  have "sum_list (map (\<lambda>k. length (filter (\<lambda>x. f x = k) ys)) ks) = length ys"
    if "set (map f ys) \<subseteq> set ks" "distinct ks" for ys ks
    using that(1)
  proof (induction ys)
    case Nil
    then show ?case by simp
  next
    case (Cons y ys)
    have "sum_list (map (\<lambda>k. length (filter (\<lambda>x. f x = k) (y # ys))) ks) =
        sum_list (map (\<lambda>k. (if f y = k then 1 else 0) + length (filter (\<lambda>x. f x = k) ys)) ks)"
      by (rule arg_cong [where f = sum_list], rule map_cong) auto
    also have "\<dots> = sum_list (map (\<lambda>k. if f y = k then 1 else 0) ks) + length ys"
      using Cons by (simp add: sum_list_addf)
    also have "sum_list (map (\<lambda>k. if f y = k then 1 else 0) ks) = (1 :: nat)"
      using Cons.prems that(2) by (simp add: sum_list_distinct_conv_sum_set)
    finally show ?case by simp
  qed
  from this [of xs "remdups (map f xs)"] show ?thesis by (simp add: count_by_def comp_def)
qed

lemma counter_IncBy_map:
  "counter m (map (\<lambda>(k, n). IncBy m (g k) (of_nat n)) xs) = of_nat (sum_list (map snd xs))"
  by (induction xs) auto

section \<open>The orphanage\<close>

lemma map_of_update: "map_of (AList.update k v al) = (map_of al)(k \<mapsto> v)"
  by (rule update_conv')

lemma orphanage_of_map: "map_of (orphanage_of orphans) = map_of (rev (map (\<lambda>x. (ot_wtxid x, ot_bytes x)) orphans))"
  by (induction orphans rule: rev_induct) (simp_all add: orphanage_of_def map_of_update)

lemma orphanage_of_distinct:
  "distinct (map ot_wtxid orphans) \<Longrightarrow> map fst (orphanage_of orphans) = map ot_wtxid orphans"
proof (induction orphans rule: rev_induct)
  case (snoc x orphans)
  then have "map fst (orphanage_of orphans) = map ot_wtxid orphans" by simp
  with snoc.prems show ?case
    by (auto simp: orphanage_of_def update_keys)
qed (simp add: orphanage_of_def)

text \<open>The keys of two sets differ by what is added and what is removed.\<close>

lemma set_difference_count:
  assumes "distinct xs" and "distinct ys"
  shows "length xs + length (filter (\<lambda>y. y \<notin> set xs) ys) = length ys + length (filter (\<lambda>x. x \<notin> set ys) xs)"
proof -
  have card: "length (filter P zs) = card {z \<in> set zs. P z}" if "distinct zs" for P :: "'a \<Rightarrow> bool" and zs
    using that by (simp add: distinct_length_filter Int_def conj_commute)
  have "card (set xs) = card (set xs \<inter> set ys) + card {x \<in> set xs. x \<notin> set ys}"
    by (subst card_Un_disjoint [symmetric]) (auto intro: arg_cong [where f = card])
  moreover have "card (set ys) = card (set xs \<inter> set ys) + card {y \<in> set ys. y \<notin> set xs}"
    by (subst card_Un_disjoint [symmetric]) (auto intro: arg_cong [where f = card])
  ultimately show ?thesis
    using assms by (simp add: card distinct_card [symmetric])
qed

text \<open>
  What two responses with orphans differ by: the transactions that were not in the one before, and those
  no longer in the one after; and both over a sequence of responses that starts after \<open>old\<close>.
\<close>

definition fresh :: "OrphanTx_pb list \<Rightarrow> OrphanTx_pb list \<Rightarrow> nat" where
  "fresh old new = length (filter (\<lambda>x. ot_wtxid x \<notin> set (map ot_wtxid old)) new)"

fun appeared :: "OrphanTx_pb list \<Rightarrow> OrphanTx_pb list list \<Rightarrow> nat" where
  "appeared old [] = 0"
| "appeared old (new # later) = fresh old new + appeared new later"

fun vanished :: "OrphanTx_pb list \<Rightarrow> OrphanTx_pb list list \<Rightarrow> nat" where
  "vanished old [] = 0"
| "vanished old (new # later) = fresh new old + vanished new later"

lemma fresh_balance:
  assumes "distinct (map ot_wtxid old)" and "distinct (map ot_wtxid new)"
  shows "length old + fresh old new = length new + fresh new old"
  using set_difference_count [OF assms] by (simp add: fresh_def filter_map comp_def)

lemma appeared_balance:
  "list_all (\<lambda>orphans. distinct (map ot_wtxid orphans)) (old # responses) \<Longrightarrow>
    length old + appeared old responses = length (last (old # responses)) + vanished old responses"
proof (induction responses arbitrary: old)
  case (Cons new later)
  then have "length new + appeared new later = length (last (new # later)) + vanished new later" by simp
  then show ?case using fresh_balance [of old new] Cons.prems by simp
qed simp

lemma orphans_counted:
  assumes "map fst old = map ot_wtxid before" and "distinct (map ot_wtxid orphans)"
  shows "length (orphans_added old orphans) = fresh before orphans"
    and "length (orphans_removed old (orphanage_of orphans)) = fresh orphans before"
proof -
  have old: "map_of old w = None \<longleftrightarrow> w \<notin> set (map ot_wtxid before)" for w
    by (metis assms(1) map_of_eq_None_iff set_map)
  then show "length (orphans_added old orphans) = fresh before orphans"
    by (simp add: orphans_added_def fresh_def)
  have new: "map_of (orphanage_of orphans) w = None \<longleftrightarrow> w \<notin> set (map ot_wtxid orphans)" for w
    by (metis orphanage_of_distinct [OF assms(2)] map_of_eq_None_iff set_map)
  have "length (orphans_removed old (orphanage_of orphans)) =
      length (filter (\<lambda>w. w \<notin> set (map ot_wtxid orphans)) (map fst old))"
    by (simp add: orphans_removed_def new filter_map comp_def case_prod_unfold)
  then show "length (orphans_removed old (orphanage_of orphans)) = fresh orphans before"
    by (simp add: assms(1) fresh_def filter_map comp_def)
qed

text \<open>Operations on none of the named metrics.\<close>

definition avoids :: "string list \<Rightarrow> metric_op list \<Rightarrow> bool" where
  "avoids ms ops \<longleftrightarrow> list_all (\<lambda>op. op_name op \<notin> set ms) ops"

lemma avoids_simps [simp]:
  "avoids ms []" "avoids ms (op # ops) \<longleftrightarrow> op_name op \<notin> set ms \<and> avoids ms ops"
  "avoids ms (ops @ ops') \<longleftrightarrow> avoids ms ops \<and> avoids ms ops'"
  "avoids ms (op_if b ops) \<longleftrightarrow> (b \<longrightarrow> avoids ms ops)"
  "avoids ms (map f xs) \<longleftrightarrow> list_all (\<lambda>x. op_name (f x) \<notin> set ms) xs"
  by (auto simp: avoids_def op_if_def list_all_iff)

lemma avoids_concat [simp]: "avoids ms (concat opss) \<longleftrightarrow> list_all (avoids ms) opss"
  by (induction opss) auto

lemma avoids_counter: "avoids ms ops \<Longrightarrow> m \<in> set ms \<Longrightarrow> counter m ops = 0"
  by (rule counter_other) (auto simp: avoids_def list_all_iff)

lemma those_all: "those (map f xs) = Some ys \<Longrightarrow> (\<And>x y. f x = Some y \<Longrightarrow> P y) \<Longrightarrow> list_all P ys"
  by (induction xs arbitrary: ys) (auto split: option.splits)

definition orphan_counters :: "string list" where
  "orphan_counters = [''rpc_getorphantxs_added_count'', ''rpc_getorphantxs_removed_count'']"

text \<open>The names of the metrics of the other handlers are others.\<close>

lemma not_orphan_counter: "take 5 m \<noteq> ''rpc_g'' \<Longrightarrow> m \<notin> set orphan_counters"
  by (auto simp: orphan_counters_def)

lemma avoids_service_bits: "take 3 family = ''p2p'' \<Longrightarrow> avoids orphan_counters (service_bits family d services)"
  by (auto simp: service_bits_def list_all_iff orphan_counters_def)

lemma avoids_check_self: "avoids orphan_counters (check_self_and_subnet_announcement a ip sub d)"
  by (simp add: check_self_and_subnet_announcement_def Let_def not_orphan_counter)

lemma avoids_addresses:
  assumes family: "family = ''p2p_addr'' \<or> family = ''p2p_addrv2''"
    and "announced_addresses family ts ip sub d addresses = Some ops"
  shows "avoids orphan_counters ops"
proof -
  obtain opss where those: "those (map (announced_address family ts ip sub d) addresses) = Some opss"
    and ops: "ops = [Observe (family @ ''_addresses'') [d] (int (length addresses))] @ concat opss"
    using assms(2) by (auto simp: announced_addresses_def)
  have "avoids orphan_counters y" if y: "announced_address family ts ip sub d a = Some y" for a y
  proof -
    have "family @ ''_timestamp_offset_seconds'' \<notin> set orphan_counters"
      "family @ ''_services'' \<notin> set orphan_counters"
      using family by (auto simp: not_orphan_counter)
    moreover have "avoids orphan_counters (service_bits (family @ ''_services_bits'') d (address_services a))"
      using family by (intro avoids_service_bits) auto
    ultimately show ?thesis
      using y avoids_check_self by (auto simp: announced_address_def Let_def)
  qed
  then have "list_all (avoids orphan_counters) opss" using those_all [OF those] by blast
  then show ?thesis using family by (auto simp: ops not_orphan_counter)
qed

lemma avoids_inv: "avoids orphan_counters (metrics_handle_inv d out items)"
  by (simp add: metrics_handle_inv_def Let_def list_all_iff not_orphan_counter case_prod_unfold)

lemma avoids_p2p:
  assumes "metrics_handle_p2p_message msg ts = Some ops"
  shows "avoids orphan_counters ops"
proof (cases "mev_msg msg")
  case None
  then show ?thesis
    using assms by (auto simp: metrics_handle_p2p_message_def Let_def not_orphan_counter)
next
  case (Some m)
  then show ?thesis
    using assms
    by (cases m) (auto simp: metrics_handle_p2p_message_def Let_def not_orphan_counter avoids_inv
        dest: avoids_addresses [OF disjI1 [OF refl]] avoids_addresses [OF disjI2 [OF refl]])
qed

lemma avoids_ebpf:
  assumes "metrics_handle_ebpf env ev ts = Some ops"
  shows "avoids orphan_counters ops"
proof -
  have connection: "avoids orphan_counters ops" if "metrics_handle_connection t b c ts = Some ops" for t b c ops
    using that by (cases c) (auto simp: metrics_handle_connection_def Let_def not_orphan_counter)
  have mempool: "avoids orphan_counters (metrics_handle_mempool e)" for e
    by (cases e) (auto simp: metrics_handle_mempool_def not_orphan_counter)
  have validation: "avoids orphan_counters (metrics_handle_validation v)" for v
    by (simp add: metrics_handle_validation_def Let_def not_orphan_counter)
  show ?thesis
    using assms
    by (auto simp: metrics_handle_ebpf_def bind_eq_Some_conv mempool validation avoids_p2p connection
        split: option.splits ebpf_event.splits)
qed

lemma avoids_p2p_extractor: "metrics_handle_p2p_extractor e = Some ops \<Longrightarrow> avoids orphan_counters ops"
  by (cases e) (auto simp: metrics_handle_p2p_extractor_def not_orphan_counter list_all_iff)

lemma avoids_reconstruction:
  "avoids orphan_counters (fst (handle_compact_block_reconstruction_state now now' h f st))"
  by (auto simp: handle_compact_block_reconstruction_state_def Let_def not_orphan_counter
      split: option.splits prod.splits)

lemma avoids_log: "avoids orphan_counters (fst (metrics_handle_log now now' l st))"
proof (cases "log_event l")
  case (Some e)
  then show ?thesis
    using avoids_reconstruction
    by (cases e) (auto simp: metrics_handle_log_def Let_def not_orphan_counter case_prod_unfold)
qed (simp add: metrics_handle_log_def Let_def not_orphan_counter)

section \<open>Runs of the loop\<close>

text \<open>What holds of every iteration holds of a run: an invariant, and a relation that composes.\<close>

lemma metrics_loop_induct:
  assumes step: "\<And>inp st ops st' s. ok inp \<Longrightarrow> I st \<Longrightarrow> metrics_iteration env decode inp st = (ops, st', s) \<Longrightarrow>
      I st' \<and> R st ops st'"
    and nil: "\<And>st. R st [] st"
    and append: "\<And>st ops st' ops' st''. R st ops st' \<Longrightarrow> R st' ops' st'' \<Longrightarrow> R st (ops @ ops') st''"
  shows "list_all ok inps \<Longrightarrow> I st \<Longrightarrow> metrics_loop env decode inps st = (ops, st', s) \<Longrightarrow> I st' \<and> R st ops st'"
proof (induction inps arbitrary: st ops st' s)
  case Nil
  then show ?case by (simp add: nil)
next
  case (Cons inp inps)
  obtain ops1 st1 s1 where it: "metrics_iteration env decode inp st = (ops1, st1, s1)" by (meson prod_cases3)
  have one: "I st1 \<and> R st ops1 st1" using step it Cons.prems(1,2) by auto
  show ?case
  proof (cases "s1 = MetricsGoOn")
    case True
    obtain ops2 st2 s2 where rest: "metrics_loop env decode inps st1 = (ops2, st2, s2)" by (meson prod_cases3)
    then have "I st2 \<and> R st1 ops2 st2" using Cons.IH [of st1] Cons.prems(1) one by auto
    moreover have "ops = ops1 @ ops2 \<and> st' = st2" using Cons.prems(3) it rest True by simp
    ultimately show ?thesis using one append by blast
  next
    case False
    then have "ops = ops1 \<and> st' = st1" using Cons.prems(3) it by (cases s1) auto
    then show ?thesis using one by simp
  qed
qed

text \<open>An iteration does nothing, or handles an event.\<close>

lemma metrics_iteration_cases:
  assumes "metrics_iteration env decode inp st = (ops, st', s)"
  obtains "ops = []" "st' = st"
  | now now' bytes ev where "inp = NextMessage now now' (Some bytes)" "decode bytes = Some ev"
      "metrics_handle_observed env now now' ev st = Some (ops, st')" "s = MetricsGoOn"
  using assms
  by (auto simp: metrics_iteration_def metrics_handle_event_def
      split: metrics_input.splits option.splits)

section \<open>The state\<close>

definition pending :: "CompactBlockReconstruction \<Rightarrow> bool" where
  "pending r \<longleftrightarrow> cr_started_at_microsec r = None \<or> cr_ended_at_microsec r = None"

definition reconstructions_ok :: "reconstructions \<Rightarrow> bool" where
  "reconstructions_ok recs \<longleftrightarrow> distinct (map fst recs) \<and> list_all (\<lambda>(h, r). pending r) recs"

definition metrics_state_ok :: "MetricsState \<Rightarrow> bool" where
  "metrics_state_ok st \<longleftrightarrow> distinct (map fst (ms_orphanage st)) \<and> reconstructions_ok (ms_reconstruction st)"

lemma distinct_filter_keys: "distinct (map fst al) \<Longrightarrow> distinct (map fst (filter P al))"
  by (induction al) auto

lemma set_update_subset: "set (AList.update k v al) \<subseteq> insert (k, v) (set al)"
  by (induction al) auto

lemma set_update_distinct:
  "distinct (map fst al) \<Longrightarrow> set (AList.delete k (AList.update k v al)) \<subseteq> set al"
  by (induction al) (auto simp: AList.delete_eq)

definition young :: "nat \<Rightarrow> ustring \<times> CompactBlockReconstruction \<Rightarrow> bool" where
  "young now' hr \<longleftrightarrow> now' - cr_created_at (snd hr) < FIVE_MINUTES"

text \<open>The entry of the block is replaced, deleted when it is complete, and old entries go.\<close>

lemma reconstruction_state:
  "snd (handle_compact_block_reconstruction_state now now' h f recs) =
     (let r = f (case map_of recs h of Some r \<Rightarrow> r | None \<Rightarrow> reconstruction_new now);
          recs' = AList.update h r recs
      in filter (young now') (if pending r then recs' else AList.delete h recs'))"
proof -
  have "(\<lambda>(_, r). now' - cr_created_at r < FIVE_MINUTES) = young now'" by (auto simp: young_def)
  then show ?thesis
    by (auto simp: handle_compact_block_reconstruction_state_def Let_def pending_def split: option.split)
qed

lemma reconstruction_ok:
  assumes "reconstructions_ok recs"
  shows "reconstructions_ok (snd (handle_compact_block_reconstruction_state now now' h f recs))"
proof -
  have update: "reconstructions_ok (AList.update h r recs)" if "pending r" for r
    using assms that set_update_subset [of h r recs]
    by (auto simp: reconstructions_ok_def list_all_iff distinct_update)
  have delete: "reconstructions_ok (AList.delete h (AList.update h r recs))" for r
    using assms set_update_distinct [of recs h r]
    by (auto simp: reconstructions_ok_def list_all_iff distinct_update distinct_delete)
  have filter: "reconstructions_ok (filter P al)" if "reconstructions_ok al" for P al
    using that by (auto simp: reconstructions_ok_def list_all_iff distinct_filter_keys)
  show ?thesis unfolding reconstruction_state Let_def by (simp add: filter update delete)
qed

lemma orphanage_of_keys: "distinct (map fst (orphanage_of orphans))"
  by (induction orphans rule: rev_induct) (simp_all add: orphanage_of_def distinct_update)

lemma handle_orphans_new: "metrics_handle_orphans c orphans old = Some (ops, new) \<Longrightarrow> new = orphanage_of orphans"
  by (auto simp: metrics_handle_orphans_def Let_def bind_eq_Some_conv)

text \<open>The log handler only works on the reconstructions.\<close>

lemma metrics_log_state:
  "snd (metrics_handle_log now now' l recs) = recs \<or>
   (\<exists>h f. snd (metrics_handle_log now now' l recs) =
      snd (handle_compact_block_reconstruction_state now now' h f recs))"
  by (auto simp: metrics_handle_log_def Let_def case_prod_unfold split: option.splits LogEvent.splits)

lemma observed_state:
  assumes "metrics_handle_observed env now now' ev st = Some (ops, st')"
  shows "ms_orphanage st' = ms_orphanage st \<or> (\<exists>orphans. ms_orphanage st' = orphanage_of orphans)"
    and "ms_reconstruction st' = ms_reconstruction st \<or>
      (\<exists>h f. ms_reconstruction st' =
        snd (handle_compact_block_reconstruction_state now now' h f (ms_reconstruction st)))"
proof -
  show "ms_orphanage st' = ms_orphanage st \<or> (\<exists>orphans. ms_orphanage st' = orphanage_of orphans)"
    using assms
    by (auto simp: metrics_handle_observed_def metrics_handle_rpc_def case_prod_unfold Let_def
        dest!: handle_orphans_new split: option.splits ObservedEvent.splits RpcEvent.splits)
  have "ms_reconstruction st' = ms_reconstruction st \<or>
      (\<exists>l. ms_reconstruction st' = snd (metrics_handle_log now now' l (ms_reconstruction st)))"
    using assms
    by (auto simp: metrics_handle_observed_def metrics_handle_rpc_def case_prod_unfold Let_def
        split: option.splits ObservedEvent.splits RpcEvent.splits)
  then show "ms_reconstruction st' = ms_reconstruction st \<or>
      (\<exists>h f. ms_reconstruction st' =
        snd (handle_compact_block_reconstruction_state now now' h f (ms_reconstruction st)))"
    by (metis metrics_log_state)
qed

lemma observed_state_ok:
  assumes "metrics_handle_observed env now now' ev st = Some (ops, st')" and "metrics_state_ok st"
  shows "metrics_state_ok st'"
proof -
  have "distinct (map fst (ms_orphanage st'))"
    using observed_state(1) [OF assms(1)] assms(2) orphanage_of_keys by (auto simp: metrics_state_ok_def)
  moreover have "reconstructions_ok (ms_reconstruction st')"
    using observed_state(2) [OF assms(1)] assms(2) reconstruction_ok by (auto simp: metrics_state_ok_def)
  ultimately show ?thesis by (simp add: metrics_state_ok_def)
qed

lemma metrics_default_ok: "metrics_state_ok MetricsState_default"
  by (simp add: metrics_state_ok_def reconstructions_ok_def MetricsState_default_def)

text \<open>C20: The state of the metrics tool. Whatever events it is given, in whatever order and at whatever
times, and however its loop ends: no two entries of the orphanage are of one transaction and no two
pending reconstructions of one block, and no reconstruction that is kept has both its start and its end,
so none is measured twice from one entry.\<close>

theorem metrics_state_invariant:
  "metrics_state_ok (fst (snd (metrics_loop env decode inps MetricsState_default)))"
proof -
  obtain ops st s where run: "metrics_loop env decode inps MetricsState_default = (ops, st, s)"
    by (meson prod_cases3)
  have "metrics_state_ok st \<and> True"
  proof (rule metrics_loop_induct [where ok = "\<lambda>_. True" and I = metrics_state_ok and R = "\<lambda>_ _ _. True",
        OF _ _ _ _ metrics_default_ok run])
    fix inp st ops st' s
    assume ok: "metrics_state_ok st" and it: "metrics_iteration env decode inp st = (ops, st', s)"
    from it show "metrics_state_ok st' \<and> True"
      by (cases rule: metrics_iteration_cases) (use ok observed_state_ok in auto)
  qed (simp_all add: list_all_iff)
  then show ?thesis by (simp add: run)
qed

section \<open>The counters of the orphanage\<close>

lemma avoids_addrman:
  assumes "metrics_handle_addrman checked addrman ts old = Some (ops, st)"
  shows "avoids orphan_counters ops"
proof -
  have ports: "avoids orphan_counters (port_gauges t es)" for t es
    by (simp add: port_gauges_def set_nat_def list_all_iff case_prod_unfold orphan_counters_def)
  have services: "avoids orphan_counters (service_gauges t es)" for t es
    by (simp add: service_gauges_def set_nat_def list_all_iff case_prod_unfold orphan_counters_def)
  have bits: "avoids orphan_counters (service_bit_gauges t es)" for t es
    by (simp add: service_bit_gauges_def set_nat_def list_all_iff Let_def orphan_counters_def)
  have network: "avoids orphan_counters (network_gauges t es n)" for t es n
    by (simp add: network_gauges_def set_nat_def Let_def orphan_counters_def)
  have ages: "avoids orphan_counters (age_gauges t es)" for t es
    by (simp add: age_gauges_def set_nat_def Let_def list_all_iff network) (simp add: orphan_counters_def)
  have dist: "avoids orphan_counters (distinct_gauges t es)" for t es
    by (simp add: distinct_gauges_def set_nat_def Let_def orphan_counters_def)
  have resets: "avoids orphan_counters addrman_resets"
    by (simp add: addrman_resets_def orphan_counters_def)
  have changes: "avoids orphan_counters (fst (addrman_changes a b))" for a b
    by (simp add: addrman_changes_def changes_ops_def Let_def orphan_counters_def)
  show ?thesis
    using assms changes [of addrman old] ports services bits ages dist resets
    by (auto simp: metrics_handle_addrman_def Let_def bind_eq_Some_conv case_prod_unfold)
qed

text \<open>The orphans a message lists, if it is a response with orphans; and those of all such responses.\<close>

definition orphan_response :: "(byte list \<Rightarrow> Observed option) \<Rightarrow> metrics_input \<Rightarrow> OrphanTx_pb list option" where
  "orphan_response decode inp =
     (case inp of
        NextMessage now now' (Some bytes) \<Rightarrow>
          (case decode bytes of
             Some ev \<Rightarrow>
               (case ob_event ev of
                  Some (ObservedRpc (Some (RpcOrphanTxs orphans))) \<Rightarrow> Some orphans
                | _ \<Rightarrow> None)
           | None \<Rightarrow> None)
      | _ \<Rightarrow> None)"

fun orphan_responses :: "(byte list \<Rightarrow> Observed option) \<Rightarrow> metrics_input list \<Rightarrow> OrphanTx_pb list list" where
  "orphan_responses decode [] = []"
| "orphan_responses decode (inp # inps) =
     (case orphan_response decode inp of
        Some orphans \<Rightarrow> orphans # orphan_responses decode inps
      | None \<Rightarrow> orphan_responses decode inps)"

lemma avoids_peer_gauges:
  assumes "peer_gauges tables checked infos = Some ops"
  shows "avoids orphan_counters ops"
proof -
  have by_key: "avoids orphan_counters (gauges_by m l k ps)" if "take 5 m \<noteq> ''rpc_g''" for m and l :: "'k \<Rightarrow> label" and k ps
    using that by (simp add: gauges_by_def list_all_iff case_prod_unfold not_orphan_counter)
  have lists: "avoids orphan_counters (list_gauges tables infos)" "avoids orphan_counters (ping_gauges infos)"
    "avoids orphan_counters (peer_count_gauges infos)" "avoids orphan_counters (diversity_gauges infos)"
    by (simp_all add: list_gauges_def ping_gauges_def peer_count_gauges_def diversity_gauges_def set_count_def
        Let_def not_orphan_counter by_key)
  have "avoids orphan_counters inv" if "invtosend_gauges checked infos = Some inv" for inv
    using that by (auto simp: invtosend_gauges_def Let_def not_orphan_counter split: if_splits)
  then show ?thesis
    using assms lists by (auto simp: peer_gauges_def bind_eq_Some_conv set_count_def not_orphan_counter)
qed

lemma avoids_rpc_gauges: "rpc_gauges env e = Some ops \<Longrightarrow> avoids orphan_counters ops"
  by (cases e)
    (auto simp: rpc_gauges_def avoids_peer_gauges memory_gauges_def addrman_info_gauges_def list_all_iff
      network_info_gauges_def blockchain_info_gauges_def mempool_info_gauges_def chain_tx_gauges_def op_some_def
      estimate_gauges_def not_orphan_counter split: option.splits)

lemma observed_other:
  assumes "metrics_handle_observed env now now' ev st = Some (ops, st')"
    and "\<nexists>orphans. ob_event ev = Some (ObservedRpc (Some (RpcOrphanTxs orphans)))"
  shows "avoids orphan_counters ops \<and> ms_orphanage st' = ms_orphanage st"
proof -
  have rpc: "avoids orphan_counters ops \<and> ms_orphanage st' = ms_orphanage st"
    if "metrics_handle_rpc env e ts st = Some (ops, st')" "\<forall>orphans. e \<noteq> RpcOrphanTxs orphans" for e ts
    using that avoids_addrman avoids_rpc_gauges [of env e]
    by (cases e) (auto simp: metrics_handle_rpc_def)
  show ?thesis
    using assms avoids_log avoids_ebpf avoids_p2p_extractor rpc
    by (auto simp: metrics_handle_observed_def case_prod_unfold Let_def metrics_handle_ipc_def not_orphan_counter
        split: option.splits ObservedEvent.splits)
qed

lemma response_counted:
  assumes "metrics_handle_orphans c orphans old = Some (ops, new)"
    and "map fst old = map ot_wtxid before" and "distinct (map ot_wtxid orphans)"
  shows "counter ''rpc_getorphantxs_added_count'' ops = of_nat (fresh before orphans) \<and>
    counter ''rpc_getorphantxs_removed_count'' ops = of_nat (fresh orphans before) \<and>
    map fst new = map ot_wtxid orphans"
proof -
  have new: "new = orphanage_of orphans" by (rule handle_orphans_new [OF assms(1)])
  have "counter ''rpc_getorphantxs_added_count'' ops = of_nat (length (orphans_added old orphans))"
    "counter ''rpc_getorphantxs_removed_count'' ops = of_nat (length (orphans_removed old new))"
    using assms(1) by (auto simp: metrics_handle_orphans_def Let_def bind_eq_Some_conv)
  then show ?thesis
    using orphans_counted [OF assms(2,3)] orphanage_of_distinct [OF assms(3)] by (simp add: new)
qed

lemma iteration_orphans:
  assumes it: "metrics_iteration env decode inp st = (ops, st', MetricsGoOn)"
  shows "case orphan_response decode inp of
      None \<Rightarrow> avoids orphan_counters ops \<and> ms_orphanage st' = ms_orphanage st
    | Some orphans \<Rightarrow>
        \<exists>c new. metrics_handle_orphans c orphans (ms_orphanage st) = Some (ops, new) \<and> ms_orphanage st' = new"
proof (cases "\<exists>now now' bytes. inp = NextMessage now now' (Some bytes)")
  case True
  then obtain now now' bytes where inp: "inp = NextMessage now now' (Some bytes)" by blast
  with it obtain ev where ev: "decode bytes = Some ev" "metrics_handle_observed env now now' ev st = Some (ops, st')"
    by (auto simp: metrics_iteration_def metrics_handle_event_def split: option.splits)
  show ?thesis
  proof (cases "\<exists>orphans. ob_event ev = Some (ObservedRpc (Some (RpcOrphanTxs orphans)))")
    case True
    then obtain orphans where o: "ob_event ev = Some (ObservedRpc (Some (RpcOrphanTxs orphans)))" ..
    then show ?thesis
      using ev by (auto simp: orphan_response_def inp metrics_handle_observed_def metrics_handle_rpc_def)
  next
    case False
    then have "orphan_response decode inp = None"
      by (auto simp: orphan_response_def inp ev(1) split: option.split ObservedEvent.split RpcEvent.split)
    then show ?thesis using observed_other [OF ev(2) False] by simp
  qed
next
  case False
  then have "orphan_response decode inp = None" by (auto simp: orphan_response_def split: metrics_input.split option.split)
  moreover have "ops = []" "st' = st"
    using it False by (auto simp: metrics_iteration_def split: metrics_input.splits option.splits)
  ultimately show ?thesis by simp
qed

lemma loop_orphans:
  "metrics_loop env decode inps st = (ops, st', MetricsGoOn) \<Longrightarrow>
    list_all (\<lambda>orphans. distinct (map ot_wtxid orphans)) (orphan_responses decode inps) \<Longrightarrow>
    map fst (ms_orphanage st) = map ot_wtxid old \<Longrightarrow>
    counter ''rpc_getorphantxs_added_count'' ops = of_nat (appeared old (orphan_responses decode inps)) \<and>
    counter ''rpc_getorphantxs_removed_count'' ops = of_nat (vanished old (orphan_responses decode inps)) \<and>
    map fst (ms_orphanage st') = map ot_wtxid (last (old # orphan_responses decode inps))"
proof (induction inps arbitrary: st ops old)
  case (Cons inp inps)
  obtain ops1 st1 s1 where it: "metrics_iteration env decode inp st = (ops1, st1, s1)" by (meson prod_cases3)
  have s1: "s1 = MetricsGoOn" using Cons.prems(1) it by (cases s1) auto
  obtain ops2 st2 s2 where rest: "metrics_loop env decode inps st1 = (ops2, st2, s2)" by (meson prod_cases3)
  have run: "ops = ops1 @ ops2" "metrics_loop env decode inps st1 = (ops2, st', MetricsGoOn)"
    using Cons.prems(1) it s1 rest by simp_all
  note one = iteration_orphans [OF it [unfolded s1]]
  show ?case
  proof (cases "orphan_response decode inp")
    case None
    with one have "avoids orphan_counters ops1" "ms_orphanage st1 = ms_orphanage st" by simp_all
    then show ?thesis
      using Cons.IH [OF run(2), of old] Cons.prems(2,3) None avoids_counter [of orphan_counters ops1]
      by (simp add: run(1) orphan_counters_def)
  next
    case (Some orphans)
    with one obtain c where h: "metrics_handle_orphans c orphans (ms_orphanage st) = Some (ops1, ms_orphanage st1)"
      by auto
    have d: "distinct (map ot_wtxid orphans)" using Cons.prems(2) Some by simp
    show ?thesis
      using response_counted [OF h Cons.prems(3) d] Cons.IH [OF run(2), of orphans] Cons.prems(2) Some
      by (simp add: run(1))
  qed
qed simp

text \<open>C17: The counters of the orphanage say what the node's orphanage did. However long the tool goes on
and whatever else it handles, as long as the node lists no transaction twice, what it has counted as added
is, over all responses, the orphans that were not in the response before, and what it has counted as
removed those of a response that are not in the next. So the difference of the two counters is the number
of orphans in the last response (zero before the first), and the orphans the tool remembers are those.\<close>

theorem orphan_counters_balance:
  assumes "list_all (\<lambda>orphans. distinct (map ot_wtxid orphans)) (orphan_responses decode inps)"
    and "metrics_loop env decode inps MetricsState_default = (ops, st, MetricsGoOn)"
  shows "counter ''rpc_getorphantxs_added_count'' ops = of_nat (appeared [] (orphan_responses decode inps)) \<and>
    counter ''rpc_getorphantxs_removed_count'' ops = of_nat (vanished [] (orphan_responses decode inps)) \<and>
    counter ''rpc_getorphantxs_added_count'' ops =
      of_nat (length (last ([] # orphan_responses decode inps))) + counter ''rpc_getorphantxs_removed_count'' ops \<and>
    map fst (ms_orphanage st) = map ot_wtxid (last ([] # orphan_responses decode inps))"
proof -
  let ?rs = "orphan_responses decode inps"
  have run: "counter ''rpc_getorphantxs_added_count'' ops = of_nat (appeared [] ?rs)"
    "counter ''rpc_getorphantxs_removed_count'' ops = of_nat (vanished [] ?rs)"
    "map fst (ms_orphanage st) = map ot_wtxid (last ([] # ?rs))"
    using loop_orphans [OF assms(2,1), of "[]"] by (simp_all add: MetricsState_default_def)
  have "appeared [] ?rs = length (last ([] # ?rs)) + vanished [] ?rs"
    using appeared_balance [of "[]" ?rs] assms(1) by simp
  then show ?thesis using run by (simp only: of_nat_add)
qed

section \<open>A demonstration\<close>

definition demo_metrics_env :: "metrics_env" where
  "demo_metrics_env =
     \<lparr>me_tables = \<lparr>is_tor_exit_node = \<lambda>_. False, is_on_gmax_banlist = \<lambda>_. False, is_on_monero_banlist = \<lambda>_. False,
        belongs_to_bitprojects = \<lambda>_. False\<rparr>, me_checked = True\<rparr>"

definition demo_orphan :: "byte \<Rightarrow> OrphanTx_pb" where
  "demo_orphan w =
     \<lparr>ot_txid = [w], ot_wtxid = [w], ot_bytes = 200, ot_vsize = 150, ot_weight = 600, ot_from = [7],
      ot_transaction = \<lparr>transaction_txid = [w], transaction_wtxid = [w], transaction_raw = None\<rparr>\<rparr>"

definition demo_block :: ustring where "demo_block = chars ''00ab''"

definition demo_metrics_log :: "u64 \<Rightarrow> LogEvent \<Rightarrow> Log" where
  "demo_metrics_log t e =
     \<lparr>log_timestamp = t, log_category = CatUnknown, log_threadname = [], log_level = LevelInfo,
      log_line_bytes = 10, log_event = Some e\<rparr>"

definition demo_header :: SawNewHeaderLog where
  "demo_header =
     \<lparr>snh_block_hash = demo_block, snh_block_height = 9, snh_peer_id = 4, snh_is_cmpctblock = True\<rparr>"

definition demo_reconstructed :: CompactBlockReconstructedLog where
  "demo_reconstructed =
     \<lparr>cbr_block_hash = demo_block, cbr_prefilled_txn_count = 1, cbr_mempool_txn_count = 20,
      cbr_extra_pool_txn_count = 0, cbr_requested_txn_count = 2, cbr_requested_txn_bytes = 900\<rparr>"

text \<open>Messages of one byte: two responses with orphans, a new header, its reconstructed block, an uptime.\<close>

definition demo_observed :: "byte list \<Rightarrow> Observed option" where
  "demo_observed bytes =
     map_option (\<lambda>e. \<lparr>ob_timestamp = 5000, ob_event = Some e\<rparr>)
       (if bytes = [1] then Some (ObservedRpc (Some (RpcOrphanTxs [demo_orphan 1, demo_orphan 2])))
        else if bytes = [2] then Some (ObservedRpc (Some (RpcOrphanTxs [demo_orphan 2, demo_orphan 3])))
        else if bytes = [3] then Some (ObservedLog (demo_metrics_log 1000 (LogSawNewHeader demo_header)))
        else if bytes = [4] then Some (ObservedLog (demo_metrics_log 1700
          (LogCompactBlockReconstructed demo_reconstructed)))
        else if bytes = [5] then Some (ObservedRpc (Some (RpcUptime 60)))
        else None)"

definition demo_responses :: "metrics_input list" where
  "demo_responses = [NextMessage 0 0 (Some [1]), NextMessage 5 5 (Some [2])]"

lemma demo_response_counted:
  "\<exists>ops st. metrics_loop demo_metrics_env demo_observed demo_responses MetricsState_default = (ops, st, MetricsGoOn)"
  by (simp add: demo_responses_def metrics_iteration_def metrics_handle_event_def demo_observed_def
      metrics_handle_observed_def metrics_handle_rpc_def metrics_handle_orphans_def demo_orphan_def
      demo_metrics_env_def sum_u64_def orphans_added_def orphans_removed_def orphanage_of_def Let_def
      MetricsState_default_def)

theorem orphan_counters_balance_witness:
  "counter ''rpc_getorphantxs_added_count''
     (fst (metrics_loop demo_metrics_env demo_observed demo_responses MetricsState_default)) = 3 \<and>
   counter ''rpc_getorphantxs_removed_count''
     (fst (metrics_loop demo_metrics_env demo_observed demo_responses MetricsState_default)) = 1"
proof -
  obtain ops st where run: "metrics_loop demo_metrics_env demo_observed demo_responses MetricsState_default =
      (ops, st, MetricsGoOn)" using demo_response_counted by blast
  have responses: "orphan_responses demo_observed demo_responses =
      [[demo_orphan 1, demo_orphan 2], [demo_orphan 2, demo_orphan 3]]"
    by (simp add: demo_responses_def orphan_response_def demo_observed_def)
  have "list_all (\<lambda>orphans. distinct (map ot_wtxid orphans)) (orphan_responses demo_observed demo_responses)"
    unfolding responses by (simp add: demo_orphan_def)
  from orphan_counters_balance [OF this run] show ?thesis
    by (simp add: responses run fresh_def demo_orphan_def)
qed

section \<open>Reconstructions\<close>

definition about_block :: "ustring \<Rightarrow> LogEvent option \<Rightarrow> bool" where
  "about_block h e \<longleftrightarrow>
     (case e of
        Some (LogSawNewHeader b) \<Rightarrow> snh_block_hash b = h
      | Some (LogCompactBlockReconstructed b) \<Rightarrow> cbr_block_hash b = h
      | _ \<Rightarrow> False)"

text \<open>An input that leaves a reconstruction made at \<open>t\<close> as it is: a log event of something else within five minutes, or no log event.\<close>

definition leaves_pending ::
    "(byte list \<Rightarrow> Observed option) \<Rightarrow> ustring \<Rightarrow> nat \<Rightarrow> metrics_input \<Rightarrow> bool" where
  "leaves_pending decode h t inp \<longleftrightarrow>
     (case inp of
        NextMessage now now' (Some bytes) \<Rightarrow>
          (case decode bytes of
             Some ev \<Rightarrow>
               (case ob_event ev of
                  Some (ObservedLog l) \<Rightarrow> \<not> about_block h (log_event l) \<and> now' - t < FIVE_MINUTES
                | _ \<Rightarrow> True)
           | None \<Rightarrow> True)
      | _ \<Rightarrow> True)"

lemma map_of_filter_keep: "map_of al k = Some v \<Longrightarrow> P (k, v) \<Longrightarrow> map_of (filter P al) k = Some v"
  by (induction al) (auto split: if_splits)

lemma map_of_filter_None: "map_of al k = None \<Longrightarrow> map_of (filter P al) k = None"
  by (induction al) (auto split: if_splits)

lemma reconstruction_other:
  assumes "map_of recs h = Some r" and "h' \<noteq> h" and "now' - cr_created_at r < FIVE_MINUTES"
  shows "map_of (snd (handle_compact_block_reconstruction_state now now' h' f recs)) h = Some r"
  unfolding reconstruction_state Let_def
  by (rule map_of_filter_keep) (use assms in \<open>simp_all add: map_of_update delete_conv' young_def\<close>)

lemma log_keeps:
  assumes "map_of recs h = Some r" and "\<not> about_block h (log_event l)" and "now' - cr_created_at r < FIVE_MINUTES"
  shows "map_of (snd (metrics_handle_log now now' l recs)) h = Some r"
  using assms reconstruction_other [OF assms(1)]
  by (auto simp: metrics_handle_log_def Let_def case_prod_unfold about_block_def
      split: option.splits LogEvent.splits)

lemma iteration_keeps:
  assumes it: "metrics_iteration env decode inp st = (ops, st', s)"
    and "map_of (ms_reconstruction st) h = Some r" and "leaves_pending decode h (cr_created_at r) inp"
  shows "map_of (ms_reconstruction st') h = Some r"
  using it
proof (cases rule: metrics_iteration_cases)
  case (2 now now' bytes ev)
  then show ?thesis
    using assms(2,3) log_keeps [OF assms(2)]
    by (auto simp: leaves_pending_def metrics_handle_observed_def metrics_handle_rpc_def case_prod_unfold Let_def
        split: option.splits ObservedEvent.splits RpcEvent.splits)
qed (simp add: assms(2))

text \<open>A log event in a message.\<close>

definition log_message :: "(byte list \<Rightarrow> Observed option) \<Rightarrow> byte list \<Rightarrow> Log \<Rightarrow> bool" where
  "log_message decode bytes l \<longleftrightarrow> (\<exists>ts. decode bytes = Some \<lparr>ob_timestamp = ts, ob_event = Some (ObservedLog l)\<rparr>)"

lemma log_iteration:
  assumes "log_message decode bytes l"
  shows "metrics_iteration env decode (NextMessage now now' (Some bytes)) st =
    (fst (metrics_handle_log now now' l (ms_reconstruction st)),
     st\<lparr>ms_reconstruction := snd (metrics_handle_log now now' l (ms_reconstruction st))\<rparr>, MetricsGoOn)"
  using assms
  by (auto simp: log_message_def metrics_iteration_def metrics_handle_event_def metrics_handle_observed_def
      case_prod_unfold Let_def)

lemma new_entry:
  assumes "map_of recs h = None" and "pending (f (reconstruction_new now))"
    and "now' - cr_created_at (f (reconstruction_new now)) < FIVE_MINUTES"
  shows "map_of (snd (handle_compact_block_reconstruction_state now now' h f recs)) h =
    Some (f (reconstruction_new now))"
  unfolding reconstruction_state Let_def
  by (rule map_of_filter_keep) (use assms in \<open>simp_all add: map_of_update young_def\<close>)

lemma header_starts:
  assumes "log_event l = Some (LogSawNewHeader b)" and "map_of recs (snh_block_hash b) = None"
    and "now' - now < FIVE_MINUTES"
  shows "map_of (snd (metrics_handle_log now now' l recs)) (snh_block_hash b) = Some
    \<lparr>cr_started_at_microsec = Some (log_timestamp l), cr_ended_at_microsec = None, cr_requested_txn_count = 0,
     cr_bandwidth_mode = (if snh_is_cmpctblock b then BwHigh else BwLow), cr_created_at = now\<rparr>"
proof -
  have "snd (metrics_handle_log now now' l recs) =
    snd (handle_compact_block_reconstruction_state now now' (snh_block_hash b)
      (\<lambda>r. r\<lparr>cr_started_at_microsec := Some (log_timestamp l),
             cr_bandwidth_mode := (if snh_is_cmpctblock b then BwHigh else BwLow)\<rparr>) recs)"
    using assms(1) by (simp add: metrics_handle_log_def Let_def case_prod_unfold)
  then show ?thesis
    using assms(2,3) by (simp only:) (subst new_entry; simp add: reconstruction_new_def pending_def)
qed

definition reconstruction_labels :: "u32 \<Rightarrow> BandwidthMode \<Rightarrow> label list" where
  "reconstruction_labels requested mode =
     [ascii (if 0 < requested then ''true'' else ''false''), ascii (bandwidth_string mode)]"

text \<open>The operations on the two metrics of reconstructions, in their order.\<close>

definition reconstruction_ops :: "metric_op list \<Rightarrow> metric_op list" where
  "reconstruction_ops ops =
     filter (\<lambda>op. op_name op \<in> {''log_compact_block_reconstruction_count'', ''log_compact_block_reconstruction_time''}) ops"

lemma reconstruction_ops_append [simp]:
  "reconstruction_ops (ops @ ops') = reconstruction_ops ops @ reconstruction_ops ops'"
  by (simp add: reconstruction_ops_def)

lemma log_reconstruction_ops:
  "log_event l = Some (LogSawNewHeader b) \<Longrightarrow>
    reconstruction_ops (fst (metrics_handle_log now now' l recs)) =
    reconstruction_ops (fst (handle_compact_block_reconstruction_state now now' (snh_block_hash b)
      (\<lambda>r. r\<lparr>cr_started_at_microsec := Some (log_timestamp l),
             cr_bandwidth_mode := (if snh_is_cmpctblock b then BwHigh else BwLow)\<rparr>) recs))"
  "log_event l = Some (LogCompactBlockReconstructed b') \<Longrightarrow>
    reconstruction_ops (fst (metrics_handle_log now now' l recs)) =
    reconstruction_ops (fst (handle_compact_block_reconstruction_state now now' (cbr_block_hash b')
      (\<lambda>r. r\<lparr>cr_ended_at_microsec := Some (log_timestamp l), cr_requested_txn_count := cbr_requested_txn_count b'\<rparr>) recs))"
  by (simp_all add: metrics_handle_log_def Let_def case_prod_unfold reconstruction_ops_def)

lemma header_counts_nothing:
  assumes "log_event l = Some (LogSawNewHeader b)" and "map_of recs (snh_block_hash b) = None"
  shows "reconstruction_ops (fst (metrics_handle_log now now' l recs)) = []"
  unfolding log_reconstruction_ops(1) [OF assms(1)]
  by (simp add: handle_compact_block_reconstruction_state_def reconstruction_new_def assms(2) Let_def
      reconstruction_ops_def)

lemma reconstructed_ends:
  assumes "log_event l = Some (LogCompactBlockReconstructed b)"
    and "map_of recs (cbr_block_hash b) = Some r" and "cr_started_at_microsec r = Some t"
  shows "reconstruction_ops (fst (metrics_handle_log now now' l recs)) =
     [Inc ''log_compact_block_reconstruction_count''
        (reconstruction_labels (cbr_requested_txn_count b) (cr_bandwidth_mode r)),
      SetTo ''log_compact_block_reconstruction_time''
        (reconstruction_labels (cbr_requested_txn_count b) (cr_bandwidth_mode r))
        (saturating_sub (log_timestamp l) t)]"
    and "map_of (snd (metrics_handle_log now now' l recs)) (cbr_block_hash b) = None"
proof -
  let ?f = "\<lambda>r. r\<lparr>cr_ended_at_microsec := Some (log_timestamp l), cr_requested_txn_count := cbr_requested_txn_count b\<rparr>"
  let ?rec = "handle_compact_block_reconstruction_state now now' (cbr_block_hash b) ?f recs"
  show "reconstruction_ops (fst (metrics_handle_log now now' l recs)) =
     [Inc ''log_compact_block_reconstruction_count''
        (reconstruction_labels (cbr_requested_txn_count b) (cr_bandwidth_mode r)),
      SetTo ''log_compact_block_reconstruction_time''
        (reconstruction_labels (cbr_requested_txn_count b) (cr_bandwidth_mode r))
        (saturating_sub (log_timestamp l) t)]"
    unfolding log_reconstruction_ops(2) [OF assms(1)]
    using assms(2,3)
    by (simp add: handle_compact_block_reconstruction_state_def reconstruction_labels_def Let_def reconstruction_ops_def)
  have rec: "snd (metrics_handle_log now now' l recs) = snd ?rec"
    using assms(1) by (simp add: metrics_handle_log_def Let_def case_prod_unfold)
  have "\<not> pending (?f r)" using assms(3) by (simp add: pending_def)
  then show "map_of (snd (metrics_handle_log now now' l recs)) (cbr_block_hash b) = None"
    unfolding rec reconstruction_state Let_def
    by (intro map_of_filter_None) (simp add: assms(2) delete_conv')
qed

text \<open>A pending reconstruction waits for the reconstructed block.\<close>

lemma loop_keeps_pending:
  "list_all (leaves_pending decode h (cr_created_at r)) inps \<Longrightarrow> map_of (ms_reconstruction st) h = Some r \<Longrightarrow>
    metrics_loop env decode inps st = (ops, st', MetricsGoOn) \<Longrightarrow> map_of (ms_reconstruction st') h = Some r"
proof (induction inps arbitrary: st ops)
  case (Cons inp inps)
  obtain ops1 st1 s1 where it: "metrics_iteration env decode inp st = (ops1, st1, s1)" by (meson prod_cases3)
  have s1: "s1 = MetricsGoOn" using Cons.prems(3) it by (cases s1) auto
  obtain ops2 st2 s2 where rest: "metrics_loop env decode inps st1 = (ops2, st2, s2)" by (meson prod_cases3)
  have "metrics_loop env decode inps st1 = (ops2, st', MetricsGoOn)" using Cons.prems(3) it s1 rest by simp
  moreover have "map_of (ms_reconstruction st1) h = Some r" using iteration_keeps [OF it Cons.prems(2)] Cons.prems(1) by simp
  ultimately show ?case using Cons.IH Cons.prems(1) by simp
qed simp

text \<open>C18: Compact block reconstructions are measured. Take the log event of a new header of a block of
which nothing is pending. It counts no reconstruction; and the log event of its reconstructed block, when
it comes, counts exactly one and sets the time exactly once, to the difference of the two log times (none
if the clock went back), both labelled by how the header came and whether transactions had to be requested,
and the entry is forgotten. This holds whatever other events come between, if the log events among them
are of other blocks and come within five minutes of the header, and if the tool goes on.\<close>

theorem reconstruction_measured:
  assumes "log_message decode first l1" and "log_event l1 = Some (LogSawNewHeader b1)"
    and "log_message decode final l2" and "log_event l2 = Some (LogCompactBlockReconstructed b2)"
    and "cbr_block_hash b2 = snh_block_hash b1" and "map_of (ms_reconstruction st) (snh_block_hash b1) = None"
    and "now1' - now1 < FIVE_MINUTES" and "list_all (leaves_pending decode (snh_block_hash b1) now1) inps"
    and "metrics_iteration env decode (NextMessage now1 now1' (Some first)) st = (ops1, st1, s1)"
    and "metrics_loop env decode inps st1 = (ops, st2, MetricsGoOn)"
    and "metrics_iteration env decode (NextMessage now2 now2' (Some final)) st2 = (ops2, st3, s3)"
  shows "reconstruction_ops ops1 = [] \<and>
    reconstruction_ops ops2 =
      [Inc ''log_compact_block_reconstruction_count'' (reconstruction_labels (cbr_requested_txn_count b2)
         (if snh_is_cmpctblock b1 then BwHigh else BwLow)),
       SetTo ''log_compact_block_reconstruction_time'' (reconstruction_labels (cbr_requested_txn_count b2)
         (if snh_is_cmpctblock b1 then BwHigh else BwLow))
         (saturating_sub (log_timestamp l2) (log_timestamp l1))] \<and>
    map_of (ms_reconstruction st3) (snh_block_hash b1) = None"
proof -
  have first: "ops1 = fst (metrics_handle_log now1 now1' l1 (ms_reconstruction st))"
    "ms_reconstruction st1 = snd (metrics_handle_log now1 now1' l1 (ms_reconstruction st))"
    using assms(9) unfolding log_iteration [OF assms(1)] by auto
  have final: "ops2 = fst (metrics_handle_log now2 now2' l2 (ms_reconstruction st2))"
    "ms_reconstruction st3 = snd (metrics_handle_log now2 now2' l2 (ms_reconstruction st2))"
    using assms(11) unfolding log_iteration [OF assms(3)] by auto
  let ?r = "\<lparr>cr_started_at_microsec = Some (log_timestamp l1), cr_ended_at_microsec = None,
    cr_requested_txn_count = 0, cr_bandwidth_mode = (if snh_is_cmpctblock b1 then BwHigh else BwLow),
    cr_created_at = now1\<rparr>"
  have "map_of (ms_reconstruction st1) (snh_block_hash b1) = Some ?r"
    unfolding first using header_starts [OF assms(2,6,7)] .
  from loop_keeps_pending [OF _ this assms(10)] assms(8)
  have waits: "map_of (ms_reconstruction st2) (cbr_block_hash b2) = Some ?r"
    by (simp only: CompactBlockReconstruction.select_convs assms(5))
  have started: "cr_started_at_microsec ?r = Some (log_timestamp l1)" by simp
  have mode: "cr_bandwidth_mode ?r = (if snh_is_cmpctblock b1 then BwHigh else BwLow)"
    by (simp only: CompactBlockReconstruction.select_convs)
  show ?thesis
    using header_counts_nothing [OF assms(2,6), of now1 now1'] reconstructed_ends [OF assms(4) waits started, of now2 now2']
    unfolding first final assms(5) mode by blast
qed

lemma demo_messages:
  "log_message demo_observed [3] (demo_metrics_log 1000 (LogSawNewHeader demo_header))"
  "log_message demo_observed [4] (demo_metrics_log 1700 (LogCompactBlockReconstructed demo_reconstructed))"
  by (simp_all add: log_message_def demo_observed_def)

definition demo_between :: "metrics_input list" where
  "demo_between = [MetricsShutdown (Some False), NextMessage 5 5 (Some [5])]"

definition demo_after_header :: MetricsState where
  "demo_after_header = fst (snd (metrics_iteration demo_metrics_env demo_observed
     (NextMessage 0 1 (Some [3])) MetricsState_default))"

lemma demo_between_goes_on:
  "metrics_loop demo_metrics_env demo_observed demo_between st = ([SetTo ''rpc_uptime'' [] 60], st, MetricsGoOn)"
  by (simp add: demo_between_def metrics_iteration_def metrics_handle_event_def demo_observed_def
      metrics_handle_observed_def metrics_handle_rpc_def rpc_gauges_def)

theorem reconstruction_measured_witness:
  "reconstruction_ops (fst (metrics_iteration demo_metrics_env demo_observed (NextMessage 90 91 (Some [4]))
      demo_after_header)) =
   [Inc ''log_compact_block_reconstruction_count'' (reconstruction_labels 2 BwHigh),
    SetTo ''log_compact_block_reconstruction_time'' (reconstruction_labels 2 BwHigh) 700]"
proof -
  obtain ops1 s1 where one: "metrics_iteration demo_metrics_env demo_observed (NextMessage 0 1 (Some [3]))
      MetricsState_default = (ops1, demo_after_header, s1)"
    unfolding demo_after_header_def by (metis prod.collapse)
  obtain ops2 st3 s3 where two: "metrics_iteration demo_metrics_env demo_observed (NextMessage 90 91 (Some [4]))
      demo_after_header = (ops2, st3, s3)" by (meson prod_cases3)
  have measured: "reconstruction_ops ops1 = [] \<and>
    reconstruction_ops ops2 =
      [Inc ''log_compact_block_reconstruction_count'' (reconstruction_labels (cbr_requested_txn_count demo_reconstructed)
         (if snh_is_cmpctblock demo_header then BwHigh else BwLow)),
       SetTo ''log_compact_block_reconstruction_time'' (reconstruction_labels (cbr_requested_txn_count demo_reconstructed)
         (if snh_is_cmpctblock demo_header then BwHigh else BwLow))
         (saturating_sub (log_timestamp (demo_metrics_log 1700 (LogCompactBlockReconstructed demo_reconstructed)))
           (log_timestamp (demo_metrics_log 1000 (LogSawNewHeader demo_header))))] \<and>
    map_of (ms_reconstruction st3) (snh_block_hash demo_header) = None"
  proof (rule reconstruction_measured [OF demo_messages(1) _ demo_messages(2) _ _ _ _ _ one demo_between_goes_on two])
    show "list_all (leaves_pending demo_observed (snh_block_hash demo_header) 0) demo_between"
      by (simp add: demo_between_def leaves_pending_def demo_observed_def)
  qed (simp_all add: demo_metrics_log_def demo_header_def demo_reconstructed_def MetricsState_default_def
      FIVE_MINUTES_def)
  then show ?thesis
    unfolding two by (simp add: demo_metrics_log_def demo_header_def demo_reconstructed_def saturating_sub_def)
qed

section \<open>From the log extractor to the counters\<close>

lemma counter_reconstruction:
  assumes "take 5 m \<noteq> ''log_c''"
  shows "counter m (fst (handle_compact_block_reconstruction_state now now' h f st)) = 0"
proof -
  have "''log_compact_block_reconstruction_count'' \<noteq> m" "''log_compact_block_reconstruction_time'' \<noteq> m"
    using assms by auto
  then show ?thesis
    by (simp add: handle_compact_block_reconstruction_state_def Let_def split: option.split)
qed

lemma log_event_counted:
  "counter ''log_events'' (fst (metrics_handle_log now now' l st)) = 1"
  "counter ''log_bytes'' (fst (metrics_handle_log now now' l st)) = log_line_bytes l"
proof -
  have "counter ''log_events'' (fst (metrics_handle_log now now' l st)) = 1 \<and>
    counter ''log_bytes'' (fst (metrics_handle_log now now' l st)) = log_line_bytes l"
  proof (cases "log_event l")
    case (Some e)
    then show ?thesis
      by (cases e) (simp_all add: metrics_handle_log_def Let_def case_prod_unfold counter_reconstruction)
  qed (simp add: metrics_handle_log_def Let_def)
  then show "counter ''log_events'' (fst (metrics_handle_log now now' l st)) = 1"
    "counter ''log_bytes'' (fst (metrics_handle_log now now' l st)) = log_line_bytes l" by simp_all
qed

text \<open>The messages that a list of inputs carries, if the run goes on after each.\<close>

definition carried :: "metrics_input \<Rightarrow> byte list list" where
  "carried inp = (case inp of NextMessage now now' (Some bytes) \<Rightarrow> [bytes] | _ \<Rightarrow> [])"

definition stays :: "metrics_input \<Rightarrow> bool" where
  "stays inp \<longleftrightarrow>
     (case inp of NextMessage now now' bytes \<Rightarrow> bytes \<noteq> None | MetricsShutdown b \<Rightarrow> b = Some False)"

lemma carried_simps [simp]:
  "carried (NextMessage now now' (Some bytes)) = [bytes]" "carried (MetricsShutdown b) = []"
  "stays (NextMessage now now' m) \<longleftrightarrow> m \<noteq> None" "stays (MetricsShutdown b) \<longleftrightarrow> b = Some False"
  by (simp_all add: carried_def stays_def)

text \<open>The lines that an extractor reads before it ends, when the clock can be read.\<close>

definition lines_read :: "log_input list \<Rightarrow> ustring list" where
  "lines_read inps =
     concat (map (\<lambda>inp. case inp of NextLine (LineRead (Some nanos) line) \<Rightarrow> [line] | _ \<Rightarrow> [])
       (takeWhile (\<lambda>inp. \<not> ends_loop inp) inps))"

text \<open>A subscriber decodes the event that was encoded.\<close>

definition read_back :: "(byte list \<Rightarrow> Observed option) \<Rightarrow> (Log Event \<Rightarrow> byte list) \<Rightarrow> Log Event \<Rightarrow> bool" where
  "read_back decode enc e \<longleftrightarrow>
     decode (enc e) = Some \<lparr>ob_timestamp = timestamp e, ob_event = Some (ObservedLog (peer_observer_event e))\<rparr>"

lemma log_messages_counted:
  "list_all stays minps \<Longrightarrow> list_all (read_back decode enc) evs \<Longrightarrow> concat (map carried minps) = map enc evs \<Longrightarrow>
    metrics_loop env decode minps st = (ops, st', s) \<Longrightarrow>
    s = MetricsGoOn \<and> counter ''log_events'' ops = of_nat (length evs) \<and>
    counter ''log_bytes'' ops = sum_list (map (\<lambda>e. log_line_bytes (peer_observer_event e)) evs)"
proof (induction minps arbitrary: evs st ops)
  case Nil
  then show ?case by simp
next
  case (Cons inp minps)
  show ?case
  proof (cases inp)
    case (NextMessage now now' m)
    with Cons.prems(1) obtain bytes where "m = Some bytes" "carried inp = [bytes]"
      using NextMessage by auto
    with Cons.prems(3) obtain e evs' where m: "m = Some (enc e)" and evs: "evs = e # evs'"
      and rest: "concat (map carried minps) = map enc evs'" by (cases evs) auto
    have "log_message decode (enc e) (peer_observer_event e)"
      using Cons.prems(2) evs by (auto simp: log_message_def read_back_def)
    note it = log_iteration [OF this, of env now now' st]
    obtain ops2 st2 s2 where loop: "metrics_loop env decode minps
        (st\<lparr>ms_reconstruction := snd (metrics_handle_log now now' (peer_observer_event e) (ms_reconstruction st))\<rparr>) =
        (ops2, st2, s2)" by (meson prod_cases3)
    with Cons.prems(4) it have run: "ops = fst (metrics_handle_log now now' (peer_observer_event e) (ms_reconstruction st)) @ ops2"
      "s = s2" "st' = st2" by (simp_all add: NextMessage m)
    then show ?thesis
      using Cons.IH [OF _ _ rest] loop Cons.prems(1,2) by (simp add: evs log_event_counted)
  next
    case (MetricsShutdown b)
    with Cons.prems have "b = Some False" "concat (map carried minps) = map enc evs"
      using MetricsShutdown by auto
    with Cons.prems MetricsShutdown show ?thesis
      using Cons.IH by (auto simp: metrics_iteration_def split: prod.splits)
  qed
qed

lemma line_event_bytes:
  assumes "regex_crate lib"
  shows "map (\<lambda>e. log_line_bytes (peer_observer_event (snd e))) (concat (map (line_event lib) inps)) =
    map (\<lambda>l. of_nat (str_len l))
      (concat (map (\<lambda>inp. case inp of NextLine (LineRead (Some nanos) line) \<Rightarrow> [line] | _ \<Rightarrow> []) inps))"
proof (induction inps)
  case (Cons inp inps)
  have "log_line_bytes (the (parse_log_event lib line)) = of_nat (str_len line)" for line
    using parsed_something [OF assms, of line] by (auto simp: parse_log_event_def)
  with Cons show ?case
    by (auto simp: line_event_def split: log_input.splits log_read.splits option.splits)
qed simp

text \<open>C19: Every line is counted once. Let the log extractor read any lines, and let its events, in an
encoding that reads back, reach the metrics tool in that order, at any times, with changes of the shutdown channel that are no shutdown in between.
Then the tool goes on, its counter of log events, over all categories and levels, has grown by the number of
lines that were read, and its counter of log bytes by the sum of their lengths.\<close>

theorem every_line_is_counted:
  assumes "regex_crate lib"
    and "list_all (\<lambda>e. read_back decode enc (snd e)) (published_logs (fst (log_loop lib inps)))"
    and "list_all stays minps"
    and "concat (map carried minps) = map (\<lambda>e. enc (snd e)) (published_logs (fst (log_loop lib inps)))"
    and "metrics_loop env decode minps st = (ops, st', s)"
  shows "s = MetricsGoOn \<and> counter ''log_events'' ops = of_nat (length (lines_read inps)) \<and>
    counter ''log_bytes'' ops = of_nat (sum_list (map str_len (lines_read inps)))"
proof -
  let ?evs = "map snd (published_logs (fst (log_loop lib inps)))"
  have bytes: "map (\<lambda>e. log_line_bytes (peer_observer_event e)) ?evs = map (\<lambda>l. of_nat (str_len l)) (lines_read inps)"
    using line_event_bytes [OF assms(1)] log_loop_published [OF assms(1), of inps]
    by (simp add: lines_read_def comp_def)
  have "length ?evs = length (lines_read inps)" using arg_cong [OF bytes, of length] by simp
  moreover have "s = MetricsGoOn \<and> counter ''log_events'' ops = of_nat (length ?evs) \<and>
    counter ''log_bytes'' ops = sum_list (map (\<lambda>e. log_line_bytes (peer_observer_event e)) ?evs)"
    using assms(2-5) by (intro log_messages_counted [where enc = enc]) (auto simp: comp_def list_all_iff)
  moreover have "sum_list (map (\<lambda>l. of_nat (str_len l)) ls) = (of_nat (sum_list (map str_len ls)) :: u64)" for ls
    by (induction ls) simp_all
  ultimately show ?thesis unfolding bytes by simp
qed

definition demo_lines :: "log_input list" where
  "demo_lines = [NextLine (LineRead (Some 5000000) (chars ''hello'')), NextLine NoLine]"

definition demo_hello :: "byte list \<Rightarrow> Observed option" where
  "demo_hello bytes =
     Some \<lparr>ob_timestamp = 5, ob_event = Some (ObservedLog (the (parse_log_event demo_log_lib (chars ''hello''))))\<rparr>"

theorem every_line_is_counted_witness:
  "counter ''log_bytes'' (fst (metrics_loop demo_metrics_env demo_hello
     [MetricsShutdown (Some False), NextMessage 7 8 (Some [0])] MetricsState_default)) = 5"
proof -
  have published: "published_logs (fst (log_loop demo_log_lib demo_lines)) =
      [(Subject.LogExtractor, \<lparr>timestamp = 5,
        peer_observer_event = the (parse_log_event demo_log_lib (chars ''hello''))\<rparr>)]"
    using log_loop_published [OF demo_regex_crate, of demo_lines]
    by (simp add: demo_lines_def line_event_def del: log_loop.simps)
  obtain ops st' s where run: "metrics_loop demo_metrics_env demo_hello
      [MetricsShutdown (Some False), NextMessage 7 8 (Some [0])] MetricsState_default = (ops, st', s)"
    by (meson prod_cases3)
  have "counter ''log_bytes'' ops = of_nat (sum_list (map str_len (lines_read demo_lines)))"
    using every_line_is_counted [OF demo_regex_crate _ _ _ run, of "\<lambda>e. [0]" demo_lines]
    by (simp add: published read_back_def demo_hello_def del: log_loop.simps)
  then show ?thesis
    unfolding run by (simp add: lines_read_def demo_lines_def str_len_def utf8_width_def chars_def)
qed

section \<open>Inventories\<close>

lemma map_of_count_by:
  "map_of (count_by f xs) k = (if k \<in> f ` set xs then Some (length (filter (\<lambda>x. f x = k) xs)) else None)"
  by (simp add: count_by_def map_of_map_restrict restrict_map_def)

lemma count_of_key:
  "(case map_of (count_by f xs) k of Some n \<Rightarrow> n | None \<Rightarrow> (0 :: nat)) = length (filter (\<lambda>x. f x = k) xs)"
  by (auto simp: map_of_count_by filter_empty_conv)

definition one_type :: "InventoryItem_pb list \<Rightarrow> bool" where
  "one_type items \<longleftrightarrow>
     (case items of
        [] \<Rightarrow> False
      | i # rest \<Rightarrow> list_all (\<lambda>j. inv_type_string j = inv_type_string i) rest)"

lemma one_key_iff:
  "length (count_by f xs) = 1 \<longleftrightarrow> (case xs of [] \<Rightarrow> False | x # rest \<Rightarrow> list_all (\<lambda>y. f y = f x) rest)"
proof (cases xs)
  case (Cons x rest)
  have "length (remdups (map f xs)) = card (f ` set xs)" by (simp add: length_remdups_card_conv)
  moreover have "card (f ` set xs) = 1 \<longleftrightarrow> (\<forall>y \<in> set rest. f y = f x)"
    by (auto simp: Cons card_1_singleton_iff)
  ultimately show ?thesis by (simp add: count_by_def Cons list_all_iff)
qed (simp add: count_by_def)

text \<open>Inventories are counted. The entries an inv message adds, over all types, are its items; it is
counted once, as homogeneous exactly if it has an item and all are of one type; and an outbound one is
counted as large exactly if it has more than 35 transactions announced by txid or more than 35 by wtxid.\<close>

theorem inventory_counted:
  "counter ''p2p_inv_entries'' (metrics_handle_inv d outbound items) = of_nat (length items) \<and>
   counter ''p2p_invs_homogeneous'' (metrics_handle_inv d outbound items) = (if one_type items then 1 else 0) \<and>
   counter ''p2p_invs_heterogeneous'' (metrics_handle_inv d outbound items) = (if one_type items then 0 else 1) \<and>
   counter ''p2p_invs_outbound_large'' (metrics_handle_inv d outbound items) =
     (if outbound \<and> (35 < length (filter (\<lambda>i. inv_type_string i = ''Tx'') items) \<or>
         35 < length (filter (\<lambda>i. inv_type_string i = ''WTx'') items)) then 1 else 0)"
proof -
  let ?entries = "map (\<lambda>(t, n). IncBy ''p2p_inv_entries'' [d, ascii t] (of_nat n)) (count_by inv_type_string items)"
  have entries: "counter ''p2p_inv_entries'' ?entries = of_nat (length items)"
    by (simp add: counter_IncBy_map sum_count_by)
  have others: "counter m ?entries = 0" if "m \<noteq> ''p2p_inv_entries''" for m
    using that by (intro counter_other) (auto simp: list_all_iff)
  have "length (count_by inv_type_string items) = 1 \<longleftrightarrow> one_type items"
    unfolding one_type_def by (rule one_key_iff)
  then show ?thesis
    unfolding metrics_handle_inv_def Let_def count_of_key by (simp add: entries others)
qed

section \<open>Changes of the address tables\<close>

text \<open>A table as the entries of its positions, and the entry that a position had.\<close>

definition positions :: "addrman_table \<Rightarrow> ((u32 \<times> u32) \<times> AddrmanEntry_pb) list" where
  "positions table = concat (map (\<lambda>(b, bucket). map (\<lambda>(p, e). ((b, p), e)) bucket) table)"

definition entry_at :: "addrman_table \<Rightarrow> u32 \<times> u32 \<Rightarrow> AddrmanEntry_pb option" where
  "entry_at table k = Option.bind (map_of table (fst k)) (\<lambda>bucket. map_of bucket (snd k))"

definition same_host :: "AddrmanEntry_pb \<Rightarrow> AddrmanEntry_pb \<Rightarrow> bool" where
  "same_host e e' \<longleftrightarrow> ae_address e = ae_address e' \<and> ae_port e = ae_port e'"

text \<open>The number of positions of which the old and the new entry are so related.\<close>

definition changed_positions ::
    "(AddrmanEntry_pb option \<Rightarrow> AddrmanEntry_pb \<Rightarrow> bool) \<Rightarrow> addrman_table \<Rightarrow> addrman_table \<Rightarrow> nat" where
  "changed_positions rel current prev =
     length (filter (\<lambda>(k, e). rel (entry_at prev k) e) (positions current))"

definition changes_spec :: "addrman_table \<Rightarrow> addrman_table \<Rightarrow> TabelChanges" where
  "changes_spec current prev =
     \<lparr>tc_added = changed_positions (\<lambda>old e. old = None) current prev,
      tc_replaced = changed_positions (\<lambda>old e. case old of Some p \<Rightarrow> \<not> same_host e p | None \<Rightarrow> False) current prev,
      tc_changed_service = changed_positions
        (\<lambda>old e. case old of Some p \<Rightarrow> same_host e p \<and> ae_services e \<noteq> ae_services p | None \<Rightarrow> False) current prev,
      tc_changed_timestamp = changed_positions
        (\<lambda>old e. case old of Some p \<Rightarrow> same_host e p \<and> ae_time e \<noteq> ae_time p | None \<Rightarrow> False) current prev\<rparr>"

definition tc_plus :: "TabelChanges \<Rightarrow> TabelChanges \<Rightarrow> TabelChanges" where
  "tc_plus a b =
     \<lparr>tc_added = tc_added a + tc_added b, tc_replaced = tc_replaced a + tc_replaced b,
      tc_changed_service = tc_changed_service a + tc_changed_service b,
      tc_changed_timestamp = tc_changed_timestamp a + tc_changed_timestamp b\<rparr>"

lemma tc_plus_assoc: "tc_plus (tc_plus a b) c = tc_plus a (tc_plus b c)"
  by (simp add: tc_plus_def)

text \<open>The counts of a list of positions add up over its parts.\<close>

definition changes_over :: "addrman_table \<Rightarrow> ((u32 \<times> u32) \<times> AddrmanEntry_pb) list \<Rightarrow> TabelChanges" where
  "changes_over prev xs =
     (let count = (\<lambda>rel. length (filter (\<lambda>(k, e). rel (entry_at prev k) e) xs)) in
      \<lparr>tc_added = count (\<lambda>old e. old = None),
       tc_replaced = count (\<lambda>old e. case old of Some p \<Rightarrow> \<not> same_host e p | None \<Rightarrow> False),
       tc_changed_service = count
         (\<lambda>old e. case old of Some p \<Rightarrow> same_host e p \<and> ae_services e \<noteq> ae_services p | None \<Rightarrow> False),
       tc_changed_timestamp = count
         (\<lambda>old e. case old of Some p \<Rightarrow> same_host e p \<and> ae_time e \<noteq> ae_time p | None \<Rightarrow> False)\<rparr>)"

lemma changes_spec_over: "changes_spec current prev = changes_over prev (positions current)"
  by (simp add: changes_spec_def changes_over_def changed_positions_def Let_def)

lemma changes_over_append: "changes_over prev (xs @ ys) = tc_plus (changes_over prev xs) (changes_over prev ys)"
  by (simp add: changes_over_def tc_plus_def Let_def)

lemma changes_over_Nil: "tc_plus tc (changes_over prev []) = tc"
  by (simp add: changes_over_def tc_plus_def Let_def)

lemma entry_changes_over:
  assumes "map_of prev b = Some bucket"
  shows "entry_changes bucket tc (p, e) = tc_plus tc (changes_over prev [((b, p), e)])"
  using assms
  by (cases "map_of bucket p")
    (auto simp: entry_changes_def changes_over_def tc_plus_def entry_at_def same_host_def Let_def)

lemma entries_changes_over:
  assumes "map_of prev b = Some bucket"
  shows "foldl (entry_changes bucket) tc es = tc_plus tc (changes_over prev (map (\<lambda>(p, e). ((b, p), e)) es))"
proof (induction es arbitrary: tc)
  case (Cons pe es)
  let ?xs = "map (\<lambda>(p, e). ((b, p), e)) es"
  obtain p e where pe: "pe = (p, e)" by (meson surj_pair)
  have "foldl (entry_changes bucket) tc (pe # es) =
      tc_plus tc (tc_plus (changes_over prev [((b, p), e)]) (changes_over prev ?xs))"
    by (simp add: pe Cons.IH entry_changes_over [OF assms] tc_plus_assoc)
  also have "tc_plus (changes_over prev [((b, p), e)]) (changes_over prev ?xs) = changes_over prev ([((b, p), e)] @ ?xs)"
    by (rule changes_over_append [symmetric])
  finally show ?case by (simp add: pe)
qed (simp add: changes_over_Nil)

lemma new_bucket_over:
  assumes "map_of prev b = None"
  shows "tc\<lparr>tc_added := tc_added tc + length es\<rparr> = tc_plus tc (changes_over prev (map (\<lambda>(p, e). ((b, p), e)) es))"
  using assms by (simp add: changes_over_def tc_plus_def entry_at_def Let_def comp_def case_prod_unfold)

lemma bucket_changes_over:
  "bucket_changes prev tc (b, es) = tc_plus tc (changes_over prev (map (\<lambda>(p, e). ((b, p), e)) es))"
  by (auto simp: bucket_changes_def new_bucket_over entries_changes_over split: option.split)

lemma buckets_changes_over: "foldl (bucket_changes prev) tc table = tc_plus tc (changes_over prev (positions table))"
proof (induction table arbitrary: tc)
  case (Cons bucket table)
  obtain b es where "bucket = (b, es)" by (meson surj_pair)
  with Cons.IH show ?case
    by (simp add: bucket_changes_over positions_def changes_over_append tc_plus_assoc)
qed (simp add: positions_def changes_over_Nil)

text \<open>The changes of an address table. Going through the buckets and their entries counts exactly
the positions that had no entry before, those whose entry is now of another address or port, and, of the
others, those whose services and those whose time changed; a position counts as new also if its whole
bucket was empty.\<close>

theorem table_changes_counted: "TabelChanges_new current prev = changes_spec current prev"
  by (simp add: TabelChanges_new_def buckets_changes_over changes_spec_over)
    (simp add: tc_plus_def no_changes_def)

end
