(* ===== verification/RpcExtractor.thy ===== *)
theory RpcExtractor
  imports RpcEvents LogMatchers ExtractorHandlers "HOL-Library.AList" "HOL-Library.Monad_Syntax"
begin

text \<open>
  The RPC extractor (\<^verbatim>\<open>extractors/rpc/src/lib.rs\<close>): the calls of a tick, what each publishes and
  counts, and the loop; and those conversions of responses (\<^verbatim>\<open>shared/src/protobuf/rpc_extractor.rs\<close>)
  that can panic. What the node answers, the clock and whether a publication succeeds are inputs. A
  response whose conversion only copies its fields is given converted.
\<close>

section \<open>Conversions\<close>

text \<open>\<^verbatim>\<open>str::split_once\<close>.\<close>

fun split_once :: "byte \<Rightarrow> byte list \<Rightarrow> (byte list \<times> byte list) option" where
  "split_once c [] = None"
| "split_once c (x # xs) =
     (if x = c then Some ([], xs) else map_option (\<lambda>(a, b). (x # a, b)) (split_once c xs))"

definition parse_number :: "byte list \<Rightarrow> u32 option" where
  "parse_number s = parse_u32 (map unat s)"

text \<open>\<^verbatim>\<open>or_insert_with\<close> of the bucket, then of the position: the first entry of a position stays.\<close>

definition insert_position :: "u32 \<Rightarrow> u32 \<Rightarrow> AddrmanEntry_pb \<Rightarrow> addrman_table \<Rightarrow> addrman_table" where
  "insert_position bucket position e table =
     (case map_of table bucket of
        None \<Rightarrow> table @ [(bucket, [(position, e)])]
      | Some entries \<Rightarrow>
          (case map_of entries position of
             None \<Rightarrow> AList.update bucket (entries @ [(position, e)]) table
           | Some e' \<Rightarrow> table))"

text \<open>The table of a response maps keys bucket/position to entries, in the order of the keys. Other keys are a panic.\<close>

type_synonym raw_table = "(byte list \<times> AddrmanEntry_pb) list"

fun table_to_addrman_buckets :: "raw_table \<Rightarrow> addrman_table \<Rightarrow> addrman_table option" where
  "table_to_addrman_buckets [] table = Some table"
| "table_to_addrman_buckets ((key, e) # rest) table =
     do {
       (bucket_str, pos_str) \<leftarrow> split_once 47 key;
       bucket \<leftarrow> parse_number bucket_str;
       position \<leftarrow> parse_number pos_str;
       table_to_addrman_buckets rest (insert_position bucket position e table)
     }"

definition Addrman_from :: "raw_table \<Rightarrow> raw_table \<Rightarrow> Addrman_pb option" where
  "Addrman_from new tried =
     do {
       new' \<leftarrow> table_to_addrman_buckets new [];
       tried' \<leftarrow> table_to_addrman_buckets tried [];
       Some \<lparr>am_new = new', am_tried = tried'\<rparr>
     }"

text \<open>The response of getmemoryinfo is a map; without the key it is a panic.\<close>

definition MemoryInfo_from :: "(byte list \<times> MemoryInfo_pb) list \<Rightarrow> MemoryInfo_pb option" where
  "MemoryInfo_from stats = map_of stats (ascii ''locked'')"

datatype FeeEstimateMode = Unset | Economical | Conservative

fun FeeEstimateMode_i32 :: "FeeEstimateMode \<Rightarrow> s32" where
  "FeeEstimateMode_i32 Unset = 0"
| "FeeEstimateMode_i32 Economical = 1"
| "FeeEstimateMode_i32 Conservative = 2"

text \<open>The fee rate of the estimate is given in satoshi per vbyte.\<close>

definition EstimateSmartFee_from_rpc ::
    "f64 option \<Rightarrow> u32 \<Rightarrow> byte list list option \<Rightarrow> u32 \<Rightarrow> FeeEstimateMode \<Rightarrow> EstimateSmartFee_pb" where
  "EstimateSmartFee_from_rpc fee_rate blocks errors target mode =
     \<lparr>esf_fee_rate = fee_rate, esf_blocks = blocks, esf_requested_blocks = target,
      esf_mode = FeeEstimateMode_i32 mode, esf_errors = (case errors of Some es \<Rightarrow> es | None \<Rightarrow> [])\<rparr>"

section \<open>The calls\<close>

datatype rpc_call =
    GetPeerInfo | GetMempoolInfo | Uptime | GetNetTotals | GetMemoryInfo | GetAddrmanInfo | GetNetworkInfo
  | GetOrphanTxs | GetChainTxStats | GetBlockchainInfo | GetRawAddrman
  | EstimateFee u32 FeeEstimateMode

fun method_name :: "rpc_call \<Rightarrow> string" where
  "method_name GetPeerInfo = ''getpeerinfo''"
| "method_name GetMempoolInfo = ''getmempoolinfo''"
| "method_name Uptime = ''uptime''"
| "method_name GetNetTotals = ''getnettotals''"
| "method_name GetMemoryInfo = ''getmemoryinfo''"
| "method_name GetAddrmanInfo = ''getaddrmaninfo''"
| "method_name GetNetworkInfo = ''getnetworkinfo''"
| "method_name GetOrphanTxs = ''getorphantxs''"
| "method_name GetChainTxStats = ''getchaintxstats''"
| "method_name GetBlockchainInfo = ''getblockchaininfo''"
| "method_name GetRawAddrman = ''getrawaddrman''"
| "method_name (EstimateFee target mode) = ''estimatesmartfee''"

text \<open>A call fails, or its response does not convert to corepc's model, or it is a response.\<close>

datatype 'r reply = CallFailed | ModelFailed | Reply 'r

text \<open>
  What the node answers to the calls of a tick, the clock at which the event of a call is made, and
  whether it can be published. The responses with a conversion above are raw.
\<close>

record rpc_world =
  w_memory :: "(byte list \<times> MemoryInfo_pb) list reply"
  w_addrman :: "(raw_table \<times> raw_table) reply"
  w_estimate :: "u32 \<Rightarrow> FeeEstimateMode \<Rightarrow> (f64 option \<times> u32 \<times> byte list list option) reply"
  w_other :: "rpc_call \<Rightarrow> RpcEvent reply"
  w_clock :: "rpc_call \<Rightarrow> clock"
  w_published :: "rpc_call \<Rightarrow> bool"

text \<open>The event of the reply; \<open>None\<close> is a conversion that panics.\<close>

definition converted :: "rpc_world \<Rightarrow> rpc_call \<Rightarrow> RpcEvent option reply" where
  "converted world call =
     (case call of
        GetMemoryInfo \<Rightarrow> map_reply (\<lambda>stats. map_option RpcMemoryInfo (MemoryInfo_from stats)) (w_memory world)
      | GetRawAddrman \<Rightarrow> map_reply (\<lambda>(new, tried). map_option RpcAddrman (Addrman_from new tried)) (w_addrman world)
      | EstimateFee target mode \<Rightarrow>
          map_reply (\<lambda>(fee_rate, blocks, errors).
            Some (RpcEstimateSmartFee (EstimateSmartFee_from_rpc fee_rate blocks errors target mode)))
            (w_estimate world target mode)
      | _ \<Rightarrow> map_reply Some (w_other world call))"

datatype rpc_action =
    RpcPublish Subject "RpcEvent Event"
  | FetchDuration string
  | FetchErrors string
  | ModelErrors string
  | PublishErrors string

datatype call_result = CallOk | CallError | CallPanic

definition fetch_and_publish :: "rpc_world \<Rightarrow> rpc_call \<Rightarrow> rpc_action list \<times> call_result" where
  "fetch_and_publish world call =
     (let m = method_name call in
      case converted world call of
        CallFailed \<Rightarrow> ([FetchErrors m], CallError)
      | ModelFailed \<Rightarrow> ([FetchDuration m, ModelErrors m], CallError)
      | Reply None \<Rightarrow> ([FetchDuration m], CallPanic)
      | Reply (Some e) \<Rightarrow>
          (case Event_new (w_clock world call) e of
             Inl err \<Rightarrow> ([FetchDuration m], CallError)
           | Inr proto \<Rightarrow>
               if w_published world call then ([FetchDuration m, RpcPublish Subject.Rpc proto], CallOk)
               else ([FetchDuration m, PublishErrors m], CallError)))"

text \<open>The calls of one function, up to the first that fails.\<close>

fun run_calls :: "rpc_world \<Rightarrow> rpc_call list \<Rightarrow> rpc_action list \<times> call_result" where
  "run_calls world [] = ([], CallOk)"
| "run_calls world (call # calls) =
     (case fetch_and_publish world call of
        (acts, CallOk) \<Rightarrow> (case run_calls world calls of (acts', r) \<Rightarrow> (acts @ acts', r))
      | (acts, r) \<Rightarrow> (acts, r))"

definition BLOCK_TARGETS :: "u32 list" where "BLOCK_TARGETS = [1, 6, 144]"
definition MODES :: "FeeEstimateMode list" where "MODES = [Economical, Conservative]"

definition estimatesmartfee :: "rpc_call list" where
  "estimatesmartfee = concat (map (\<lambda>target. map (EstimateFee target) MODES) BLOCK_TARGETS)"

section \<open>The loop\<close>

record RpcArgs =
  disable_getpeerinfo :: bool
  disable_getmempoolinfo :: bool
  disable_uptime :: bool
  disable_getnettotals :: bool
  disable_getmemoryinfo :: bool
  disable_getaddrmaninfo :: bool
  disable_getchaintxstats :: bool
  disable_getnetworkinfo :: bool
  disable_getblockchaininfo :: bool
  disable_getorphantxs :: bool
  disable_getrawaddrman :: bool
  disable_estimatesmartfee :: bool

text \<open>The functions of the two intervals with their flags, in their order.\<close>

definition frequent :: "RpcArgs \<Rightarrow> (bool \<times> rpc_call list) list" where
  "frequent args =
     [(disable_getpeerinfo args, [GetPeerInfo]), (disable_getmempoolinfo args, [GetMempoolInfo]),
      (disable_uptime args, [Uptime]), (disable_getnettotals args, [GetNetTotals]),
      (disable_getmemoryinfo args, [GetMemoryInfo]), (disable_getaddrmaninfo args, [GetAddrmanInfo]),
      (disable_getnetworkinfo args, [GetNetworkInfo]), (disable_getorphantxs args, [GetOrphanTxs]),
      (disable_estimatesmartfee args, estimatesmartfee)]"

definition less_frequent :: "RpcArgs \<Rightarrow> (bool \<times> rpc_call list) list" where
  "less_frequent args =
     [(disable_getchaintxstats args, [GetChainTxStats]), (disable_getblockchaininfo args, [GetBlockchainInfo]),
      (disable_getrawaddrman args, [GetRawAddrman])]"

text \<open>The macro \<^verbatim>\<open>fetch!\<close> of each: an error is logged, a panic ends the extractor.\<close>

fun fetch_all :: "rpc_world \<Rightarrow> (bool \<times> rpc_call list) list \<Rightarrow> rpc_action list \<times> bool" where
  "fetch_all world [] = ([], True)"
| "fetch_all world ((disabled, calls) # rest) =
     (case (if disabled then ([], CallOk) else run_calls world calls) of
        (acts, CallPanic) \<Rightarrow> (acts, False)
      | (acts, r) \<Rightarrow> (case fetch_all world rest of (acts', ok) \<Rightarrow> (acts @ acts', ok)))"

datatype rpc_input = FrequentTick rpc_world | LessFrequentTick rpc_world | RpcShutdown "bool option"

datatype rpc_status = RpcGoesOn | RpcStopped | RpcPanicked

definition rpc_iteration :: "RpcArgs \<Rightarrow> rpc_input \<Rightarrow> rpc_action list \<times> rpc_status" where
  "rpc_iteration args inp =
     (case inp of
        FrequentTick world \<Rightarrow>
          (case fetch_all world (frequent args) of (acts, ok) \<Rightarrow> (acts, if ok then RpcGoesOn else RpcPanicked))
      | LessFrequentTick world \<Rightarrow>
          (case fetch_all world (less_frequent args) of (acts, ok) \<Rightarrow> (acts, if ok then RpcGoesOn else RpcPanicked))
      | RpcShutdown (Some b) \<Rightarrow> ([], if b then RpcStopped else RpcGoesOn)
      | RpcShutdown None \<Rightarrow> ([], RpcStopped))"

fun rpc_loop :: "RpcArgs \<Rightarrow> rpc_input list \<Rightarrow> rpc_action list \<times> rpc_status" where
  "rpc_loop args [] = ([], RpcGoesOn)"
| "rpc_loop args (inp # inps) =
     (case rpc_iteration args inp of
        (acts, RpcGoesOn) \<Rightarrow> (case rpc_loop args inps of (acts', st) \<Rightarrow> (acts @ acts', st))
      | (acts, st) \<Rightarrow> (acts, st))"

end
