(* ===== verification/RpcProperties.thy ===== *)
theory RpcProperties
  imports RpcExtractor MetricsProperties "HOL-Library.Multiset"
begin

text \<open>
  The properties of the RPC extractor: the address tables it publishes are those of the response, what a
  run publishes and when it ends, and the way of an address table from the response to the counters of
  the metrics tool.
\<close>

section \<open>Keys of the address tables\<close>

definition position_key :: "u32 \<times> u32 \<Rightarrow> byte list" where
  "position_key k = dec (unat (fst k)) @ [47] @ dec (unat (snd k))"

lemma dec_chars: "c \<in> set (dec n) \<Longrightarrow> 48 \<le> unat c \<and> unat c \<le> 57"
proof (induction n rule: dec.induct)
  case (1 n)
  show ?case
  proof (cases "n < 10")
    case True
    then have "dec n = [dec_digit n]" by (subst dec.simps) simp
    then show ?thesis using True 1(2) by (auto simp: unat_dec_digit)
  next
    case False
    then have "dec n = dec (n div 10) @ [dec_digit (n mod 10)]" by (subst dec.simps) simp
    moreover have "n mod 10 < 10" by simp
    ultimately show ?thesis using 1(1) [OF False] 1(2) unat_dec_digit [of "n mod 10"] by auto
  qed
qed

lemma unat_dec: "map unat (dec n) = decimal n"
proof (induction n rule: dec.induct)
  case (1 n)
  show ?case
  proof (cases "n < 10")
    case True
    then show ?thesis by (subst dec.simps, subst decimal.simps) (simp add: unat_dec_digit)
  next
    case False
    have "n mod 10 < 10" by simp
    then show ?thesis
      using 1 [OF False] False by (subst dec.simps, subst decimal.simps) (simp add: unat_dec_digit)
  qed
qed

lemma parse_number_dec: "parse_number (dec (unat n)) = Some n"
  using unsigned_less [of n] by (simp add: parse_number_def unat_dec parse_u32_decimal)

lemma split_once_append: "c \<notin> set a \<Longrightarrow> split_once c (a @ c # b) = Some (a, b)"
  by (induction a) auto

lemma split_position_key: "split_once 47 (position_key k) = Some (dec (unat (fst k)), dec (unat (snd k)))"
proof -
  have "47 \<notin> set (dec (unat (fst k)))" using dec_chars [of 47 "unat (fst k)"] by auto
  then show ?thesis by (simp add: position_key_def split_once_append)
qed

section \<open>Building an address table\<close>

lemma entry_at_insert:
  "entry_at (insert_position b p e table) k =
     (if k = (b, p) \<and> entry_at table k = None then Some e else entry_at table k)"
  by (cases k)
    (auto simp: insert_position_def entry_at_def map_of_update map_add_def split: option.splits)

lemma positions_Cons: "positions ((b, bucket) # table) = map (\<lambda>(p, e). ((b, p), e)) bucket @ positions table"
  by (simp add: positions_def)

lemma positions_append: "positions (t @ t') = positions t @ positions t'"
  by (simp add: positions_def)

lemma positions_update:
  "map_of table b = Some bucket \<Longrightarrow>
    mset (positions (AList.update b (bucket @ [(p, e)]) table)) = add_mset ((b, p), e) (mset (positions table))"
  by (induction table) (auto simp: positions_Cons split: if_splits)

lemma positions_insert:
  "entry_at table (b, p) = None \<Longrightarrow>
    mset (positions (insert_position b p e table)) = add_mset ((b, p), e) (mset (positions table))"
  by (auto simp: insert_position_def entry_at_def positions_update positions_append positions_Cons
      split: option.splits) (simp add: positions_def)

lemma table_from_keys:
  assumes "distinct (map fst xs)" and "list_all (\<lambda>(k, e). entry_at table k = None) xs"
  shows "\<exists>t. table_to_addrman_buckets (map (\<lambda>(k, e). (position_key k, e)) xs) table = Some t \<and>
    (\<forall>k. entry_at t k = (case map_of xs k of Some e \<Rightarrow> Some e | None \<Rightarrow> entry_at table k)) \<and>
    mset (positions t) = mset (positions table) + mset xs"
  using assms
proof (induction xs arbitrary: table)
  case Nil
  then show ?case by simp
next
  case (Cons x xs)
  obtain b p e where x: "x = ((b, p), e)" by (metis prod.exhaust)
  let ?t = "insert_position b p e table"
  have "entry_at ?t k = None" if "(k, e') \<in> set xs" for k e'
  proof -
    have "k \<noteq> (b, p)" using Cons.prems(1) that by (force simp: x)
    moreover have "entry_at table k = None" using Cons.prems(2) that by (auto simp: list_all_iff)
    ultimately show ?thesis by (simp add: entry_at_insert)
  qed
  then have "list_all (\<lambda>(k, e). entry_at ?t k = None) xs" by (auto simp: list_all_iff)
  then obtain t where t: "table_to_addrman_buckets (map (\<lambda>(k, e). (position_key k, e)) xs) ?t = Some t"
      "\<forall>k. entry_at t k = (case map_of xs k of Some e \<Rightarrow> Some e | None \<Rightarrow> entry_at ?t k)"
      "mset (positions t) = mset (positions ?t) + mset xs"
    using Cons.IH [of ?t] Cons.prems(1) by (auto simp del: split_paired_All)
  have none: "map_of xs (b, p) = None" "entry_at table (b, p) = None"
    using Cons.prems by (auto simp: x map_of_eq_None_iff)
  have "entry_at t k = (case map_of (x # xs) k of Some e \<Rightarrow> Some e | None \<Rightarrow> entry_at table k)" for k
    using t(2) [rule_format, of k] none
    by (cases "k = (b, p)") (auto simp: x entry_at_insert split: option.splits)
  moreover have "mset (positions t) = mset (positions table) + mset (x # xs)"
    using t(3) none(2) by (simp add: x positions_insert)
  moreover have "table_to_addrman_buckets (map (\<lambda>(k, e). (position_key k, e)) (x # xs)) table = Some t"
    using t(1) by (simp add: x split_position_key parse_number_dec)
  ultimately show ?case by blast
qed

text \<open>The table of a response in which an entry has the key of its position.\<close>

definition keyed :: "((u32 \<times> u32) \<times> AddrmanEntry_pb) list \<Rightarrow> raw_table" where
  "keyed xs = map (\<lambda>(k, e). (position_key k, e)) xs"

lemma table_of_keyed:
  assumes "distinct (map fst xs)"
  shows "\<exists>t. table_to_addrman_buckets (keyed xs) [] = Some t \<and> entry_at t = map_of xs \<and>
    mset (positions t) = mset xs"
proof -
  have empty: "entry_at [] k = None" for k by (simp add: entry_at_def)
  then have "list_all (\<lambda>(k, e). entry_at [] k = None) xs" by (auto simp: list_all_iff)
  from table_from_keys [OF assms this] obtain t where
    t: "table_to_addrman_buckets (keyed xs) [] = Some t" "mset (positions t) = mset xs"
    and look: "\<forall>k. entry_at t k = (case map_of xs k of Some e \<Rightarrow> Some e | None \<Rightarrow> entry_at [] k)"
    by (auto simp: keyed_def positions_def)
  have "entry_at t k = map_of xs k" for k
    using look [rule_format, of k] empty [of k] by (cases "map_of xs k") simp_all
  then show ?thesis using t by (auto simp: fun_eq_iff)
qed

text \<open>
  The tables are read back: from a response whose keys are bucket and position in decimal, each position
  once, the conversion makes tables that have exactly the entries of the response.
\<close>

lemma Addrman_of_keyed:
  assumes "distinct (map fst new)" and "distinct (map fst tried)"
  shows "\<exists>a. Addrman_from (keyed new) (keyed tried) = Some a \<and>
    entry_at (am_new a) = map_of new \<and> entry_at (am_tried a) = map_of tried \<and>
    mset (positions (am_new a)) = mset new \<and> mset (positions (am_tried a)) = mset tried"
  using table_of_keyed [OF assms(1)] table_of_keyed [OF assms(2)] by (auto simp: Addrman_from_def)

definition demo_entry :: "byte \<Rightarrow> u64 \<Rightarrow> AddrmanEntry_pb" where
  "demo_entry host services =
     \<lparr>ae_address = [host], ae_port = 8333, ae_network = ascii ''ipv4'', ae_services = services, ae_time = 1000,
      ae_source = [host], ae_source_network = ascii ''ipv4'', ae_mapped_as = None, ae_source_mapped_as = None\<rparr>"

definition demo_new :: "((u32 \<times> u32) \<times> AddrmanEntry_pb) list" where
  "demo_new = [((3, 7), demo_entry 1 9), ((3, 12), demo_entry 2 9), ((250, 7), demo_entry 3 1033)]"

section \<open>From the response to the counters of the metrics tool\<close>

definition appeared :: "((u32 \<times> u32) \<times> AddrmanEntry_pb) list \<Rightarrow> ((u32 \<times> u32) \<times> AddrmanEntry_pb) list \<Rightarrow> nat" where
  "appeared old new = length (filter (\<lambda>(k, e). map_of old k = None) new)"

definition replaced :: "((u32 \<times> u32) \<times> AddrmanEntry_pb) list \<Rightarrow> ((u32 \<times> u32) \<times> AddrmanEntry_pb) list \<Rightarrow> nat" where
  "replaced old new =
     length (filter (\<lambda>(k, e). case map_of old k of Some p \<Rightarrow> \<not> same_host e p | None \<Rightarrow> False) new)"

lemma length_filter_mset: "mset xs = mset ys \<Longrightarrow> length (filter P xs) = length (filter P ys)"
  by (metis mset_filter size_mset)

lemma changes_of_responses:
  assumes "entry_at prev = map_of old" and "mset (positions current) = mset new"
  shows "tc_added (TabelChanges_new current prev) = appeared old new"
    and "tc_replaced (TabelChanges_new current prev) = replaced old new"
  unfolding TabelChanges_new_def buckets_changes_over
  using length_filter_mset [OF assms(2)] assms(1)
  by (simp_all add: tc_plus_def no_changes_def changes_over_def appeared_def replaced_def Let_def)

lemma changes_counters:
  assumes "old \<noteq> Addrman_default"
  shows "counter ''rpc_getrawaddrman_added_entry'' (fst (addrman_changes current old)) =
      of_nat (tc_added (TabelChanges_new (am_new current) (am_new old)) +
        tc_added (TabelChanges_new (am_tried current) (am_tried old)))"
    and "counter ''rpc_getrawaddrman_replaced_entry'' (fst (addrman_changes current old)) =
      of_nat (tc_replaced (TabelChanges_new (am_new current) (am_new old)) +
        tc_replaced (TabelChanges_new (am_tried current) (am_tried old)))"
  using assms by (simp_all add: addrman_changes_def changes_ops_def Let_def)

text \<open>C21: Changes of the address tables reach the counters. Of two successive responses, of which the
first is not empty, the RPC extractor makes address tables for which the metrics tool counts exactly the
keys of the second that were not in the first as added, and those whose entry has another address or port
as replaced.\<close>

theorem response_changes_counted:
  assumes "distinct (map fst new)" and "distinct (map fst tried)"
    and "distinct (map fst new')" and "distinct (map fst tried')"
    and "Addrman_from (keyed new) (keyed tried) = Some old"
    and "Addrman_from (keyed new') (keyed tried') = Some current"
    and "new @ tried \<noteq> []"
  shows "counter ''rpc_getrawaddrman_added_entry'' (fst (addrman_changes current old)) =
      of_nat (appeared new new' + appeared tried tried') \<and>
    counter ''rpc_getrawaddrman_replaced_entry'' (fst (addrman_changes current old)) =
      of_nat (replaced new new' + replaced tried tried')"
proof -
  have old: "entry_at (am_new old) = map_of new" "entry_at (am_tried old) = map_of tried"
    "mset (positions (am_new old)) = mset new" "mset (positions (am_tried old)) = mset tried"
    using Addrman_of_keyed [OF assms(1,2)] assms(5) by auto
  have current: "mset (positions (am_new current)) = mset new'" "mset (positions (am_tried current)) = mset tried'"
    using Addrman_of_keyed [OF assms(3,4)] assms(6) by auto
  have "old \<noteq> Addrman_default"
    using old(3,4) assms(7) by (auto simp: Addrman_default_def positions_def)
  then show ?thesis
    by (simp add: changes_counters changes_of_responses [OF old(1) current(1)]
        changes_of_responses [OF old(2) current(2)])
qed

definition demo_new' :: "((u32 \<times> u32) \<times> AddrmanEntry_pb) list" where
  "demo_new' = [((3, 7), demo_entry 1 1033), ((3, 12), demo_entry 5 9), ((3, 20), demo_entry 6 9)]"

theorem response_changes_counted_witness:
  "\<exists>old current. Addrman_from (keyed demo_new) (keyed []) = Some old \<and>
     Addrman_from (keyed demo_new') (keyed []) = Some current \<and>
     counter ''rpc_getrawaddrman_added_entry'' (fst (addrman_changes current old)) = 1 \<and>
     counter ''rpc_getrawaddrman_replaced_entry'' (fst (addrman_changes current old)) = 1"
proof -
  have d: "distinct (map fst demo_new)" "distinct (map fst demo_new')"
    by (simp_all add: demo_new_def demo_new'_def)
  obtain old current where a: "Addrman_from (keyed demo_new) (keyed []) = Some old"
    "Addrman_from (keyed demo_new') (keyed []) = Some current"
    using Addrman_of_keyed [OF d(1), of "[]"] Addrman_of_keyed [OF d(2), of "[]"] by auto
  have "appeared demo_new demo_new' = 1" "replaced demo_new demo_new' = 1"
    by (simp_all add: appeared_def replaced_def demo_new_def demo_new'_def same_host_def demo_entry_def)
  moreover have "appeared [] [] = 0" "replaced [] [] = 0" by (simp_all add: appeared_def replaced_def)
  moreover have "demo_new @ [] \<noteq> []" by (simp add: demo_new_def)
  ultimately show ?thesis
    using response_changes_counted [OF d(1) _ d(2) _ a] a by auto
qed

section \<open>What a run publishes\<close>

text \<open>The event a call gets through to the subscribers, and a reply whose conversion panics.\<close>

definition call_event :: "rpc_world \<Rightarrow> rpc_call \<Rightarrow> RpcEvent Event option" where
  "call_event world call =
     (case converted world call of
        Reply (Some e) \<Rightarrow>
          (case Event_new (w_clock world call) e of
             Inr proto \<Rightarrow> if w_published world call then Some proto else None
           | Inl err \<Rightarrow> None)
      | _ \<Rightarrow> None)"

definition malformed :: "rpc_world \<Rightarrow> rpc_call \<Rightarrow> bool" where
  "malformed world call \<longleftrightarrow> converted world call = Reply None"

definition rpc_published :: "rpc_action list \<Rightarrow> (Subject \<times> RpcEvent Event) list" where
  "rpc_published acts = concat (map (\<lambda>a. case a of RpcPublish s ev \<Rightarrow> [(s, ev)] | _ \<Rightarrow> []) acts)"

lemma rpc_published_simps [simp]:
  "rpc_published [] = []" "rpc_published (acts @ acts') = rpc_published acts @ rpc_published acts'"
  by (simp_all add: rpc_published_def)

lemma fetch_cases:
  assumes "fetch_and_publish world call = (acts, r)"
  obtains (event) ev where "call_event world call = Some ev" "rpc_published acts = [(Subject.Rpc, ev)]" "r = CallOk"
      "\<not> malformed world call"
  | (error) "call_event world call = None" "rpc_published acts = []" "r = CallError" "\<not> malformed world call"
  | (panic) "call_event world call = None" "rpc_published acts = []" "r = CallPanic" "malformed world call"
proof (cases "converted world call")
  case (Reply e)
  then show ?thesis
    using assms event error panic
    by (cases e; cases "Event_new (w_clock world call) (the e)")
      (auto simp: fetch_and_publish_def call_event_def malformed_def rpc_published_def Let_def split: if_splits)
qed (use assms error in \<open>auto simp: fetch_and_publish_def call_event_def malformed_def rpc_published_def Let_def\<close>)

text \<open>The events of a function: those of its calls up to the first that has none.\<close>

definition events_of :: "rpc_world \<Rightarrow> rpc_call list \<Rightarrow> (Subject \<times> RpcEvent Event) list" where
  "events_of world calls =
     map (\<lambda>c. (Subject.Rpc, the (call_event world c))) (takeWhile (\<lambda>c. call_event world c \<noteq> None) calls)"

lemma run_calls_events:
  "run_calls world calls = (acts, r) \<Longrightarrow> rpc_published acts = events_of world calls \<and>
    (list_all (\<lambda>c. \<not> malformed world c) calls \<longrightarrow> r \<noteq> CallPanic)"
proof (induction calls arbitrary: acts r)
  case Nil
  then show ?case by (auto simp: events_of_def)
next
  case (Cons call calls)
  obtain acts1 r1 where one: "fetch_and_publish world call = (acts1, r1)" by (meson surj_pair)
  obtain acts2 r2 where rest: "run_calls world calls = (acts2, r2)" by (meson surj_pair)
  from one show ?case
  proof (cases rule: fetch_cases)
    case (event ev)
    then show ?thesis using Cons.IH [OF rest] Cons.prems one rest by (auto simp: events_of_def)
  next
    case error
    then show ?thesis using Cons.prems one by (auto simp: events_of_def)
  next
    case panic
    then show ?thesis using Cons.prems one by (auto simp: events_of_def)
  qed
qed

definition enabled_calls :: "(bool \<times> rpc_call list) list \<Rightarrow> rpc_call list list" where
  "enabled_calls groups = map snd (filter (\<lambda>(disabled, calls). \<not> disabled) groups)"

lemma fetch_all_events:
  "fetch_all world groups = (acts, ok) \<Longrightarrow> list_all (list_all (\<lambda>c. \<not> malformed world c)) (enabled_calls groups) \<Longrightarrow>
    rpc_published acts = concat (map (events_of world) (enabled_calls groups)) \<and> ok"
proof (induction groups arbitrary: acts ok)
  case Nil
  then show ?case by (simp add: enabled_calls_def)
next
  case (Cons g groups)
  obtain disabled calls where g: "g = (disabled, calls)" by (meson surj_pair)
  obtain acts1 r1 where one: "run_calls world calls = (acts1, r1)" by (meson surj_pair)
  obtain acts2 ok2 where rest: "fetch_all world groups = (acts2, ok2)" by (meson surj_pair)
  show ?case
  proof (cases disabled)
    case True
    then show ?thesis using Cons rest by (auto simp: g enabled_calls_def)
  next
    case False
    then have "rpc_published acts1 = events_of world calls" "r1 \<noteq> CallPanic"
      using run_calls_events [OF one] Cons.prems(2) by (auto simp: g enabled_calls_def)
    then show ?thesis
      using Cons.IH [OF rest] Cons.prems False one rest by (cases r1) (auto simp: g enabled_calls_def)
  qed
qed

text \<open>The calls of an input and what answers them, and which inputs end the loop.\<close>

definition tick_calls :: "RpcArgs \<Rightarrow> rpc_input \<Rightarrow> rpc_call list list" where
  "tick_calls args inp =
     (case inp of
        FrequentTick world \<Rightarrow> enabled_calls (frequent args)
      | LessFrequentTick world \<Rightarrow> enabled_calls (less_frequent args)
      | RpcShutdown b \<Rightarrow> [])"

definition tick_events :: "RpcArgs \<Rightarrow> rpc_input \<Rightarrow> (Subject \<times> RpcEvent Event) list" where
  "tick_events args inp =
     (case inp of
        FrequentTick world \<Rightarrow> concat (map (events_of world) (tick_calls args inp))
      | LessFrequentTick world \<Rightarrow> concat (map (events_of world) (tick_calls args inp))
      | RpcShutdown b \<Rightarrow> [])"

definition well_formed :: "RpcArgs \<Rightarrow> rpc_input \<Rightarrow> bool" where
  "well_formed args inp \<longleftrightarrow>
     (case inp of
        FrequentTick world \<Rightarrow> list_all (list_all (\<lambda>c. \<not> malformed world c)) (tick_calls args inp)
      | LessFrequentTick world \<Rightarrow> list_all (list_all (\<lambda>c. \<not> malformed world c)) (tick_calls args inp)
      | RpcShutdown b \<Rightarrow> True)"

definition rpc_ends :: "rpc_input \<Rightarrow> bool" where
  "rpc_ends inp \<longleftrightarrow> (case inp of RpcShutdown b \<Rightarrow> b \<noteq> Some False | _ \<Rightarrow> False)"

lemma rpc_iteration_events:
  assumes "rpc_iteration args inp = (acts, st)" and "well_formed args inp"
  shows "rpc_published acts = tick_events args inp"
    and "st = (if rpc_ends inp then RpcStopped else RpcGoesOn)"
proof -
  have "rpc_published acts = tick_events args inp \<and> st = (if rpc_ends inp then RpcStopped else RpcGoesOn)"
  proof (cases inp)
    case (FrequentTick world)
    obtain acts' ok where "fetch_all world (frequent args) = (acts', ok)" by (meson surj_pair)
    then show ?thesis
      using fetch_all_events [of world "frequent args" acts' ok] assms
      by (simp add: FrequentTick rpc_iteration_def well_formed_def tick_events_def tick_calls_def rpc_ends_def)
  next
    case (LessFrequentTick world)
    obtain acts' ok where "fetch_all world (less_frequent args) = (acts', ok)" by (meson surj_pair)
    then show ?thesis
      using fetch_all_events [of world "less_frequent args" acts' ok] assms
      by (simp add: LessFrequentTick rpc_iteration_def well_formed_def tick_events_def tick_calls_def rpc_ends_def)
  next
    case (RpcShutdown b)
    then show ?thesis
      using assms(1) by (cases b) (auto simp: rpc_iteration_def tick_events_def rpc_ends_def)
  qed
  then show "rpc_published acts = tick_events args inp" "st = (if rpc_ends inp then RpcStopped else RpcGoesOn)"
    by simp_all
qed

lemma rpc_loop_events:
  "list_all (well_formed args) inps \<Longrightarrow>
    rpc_published (fst (rpc_loop args inps)) =
      concat (map (tick_events args) (takeWhile (\<lambda>inp. \<not> rpc_ends inp) inps)) \<and>
    snd (rpc_loop args inps) = (if list_all (\<lambda>inp. \<not> rpc_ends inp) inps then RpcGoesOn else RpcStopped)"
proof (induction inps)
  case (Cons inp inps)
  obtain acts st where one: "rpc_iteration args inp = (acts, st)" by (meson surj_pair)
  obtain acts' st' where rest: "rpc_loop args inps = (acts', st')" by (meson surj_pair)
  have "rpc_published acts = tick_events args inp" "st = (if rpc_ends inp then RpcStopped else RpcGoesOn)"
    using rpc_iteration_events [OF one] Cons.prems by simp_all
  moreover have "tick_events args inp = []" if "rpc_ends inp"
    using that by (cases inp) (simp_all add: rpc_ends_def tick_events_def)
  ultimately show ?case using Cons one rest by (auto split: if_splits)
qed simp

text \<open>C23: What a run of the RPC extractor publishes. While no reply is malformed, it publishes for each tick
before its end, function by function in their order, the events of the calls that are not disabled, each
function up to its first call that has none; nothing else stops it than the shutdown channel, which does
when it says so or when its sender is gone.\<close>

theorem rpc_run_publishes:
  assumes "list_all (well_formed args) inps"
  shows "rpc_published (fst (rpc_loop args inps)) =
      concat (map (tick_events args) (takeWhile (\<lambda>inp. \<not> rpc_ends inp) inps)) \<and>
    snd (rpc_loop args inps) = (if list_all (\<lambda>inp. \<not> rpc_ends inp) inps then RpcGoesOn else RpcStopped)"
  by (rule rpc_loop_events [OF assms])

definition demo_args :: RpcArgs where
  "demo_args =
     \<lparr>disable_getpeerinfo = True, disable_getmempoolinfo = True, disable_uptime = False,
      disable_getnettotals = True, disable_getmemoryinfo = False, disable_getaddrmaninfo = True,
      disable_getchaintxstats = True, disable_getnetworkinfo = True, disable_getblockchaininfo = True,
      disable_getorphantxs = True, disable_getrawaddrman = True, disable_estimatesmartfee = True\<rparr>"

definition demo_world :: "(byte list \<times> MemoryInfo_pb) list \<Rightarrow> rpc_world" where
  "demo_world stats =
     \<lparr>w_memory = Reply stats, w_addrman = CallFailed, w_estimate = (\<lambda>target mode. CallFailed),
      w_other = (\<lambda>call. if call = Uptime then Reply (RpcUptime 77) else CallFailed),
      w_clock = (\<lambda>call. Some 5), w_published = (\<lambda>call. True)\<rparr>"

definition demo_stats :: MemoryInfo_pb where
  "demo_stats = \<lparr>mi_used = 1, mi_free = 2, mi_total = 3, mi_locked = 4, mi_chunks_used = 5, mi_chunks_free = 6\<rparr>"

definition demo_inputs :: "rpc_input list" where
  "demo_inputs =
     [FrequentTick (demo_world [(ascii ''locked'', demo_stats)]), RpcShutdown (Some False), RpcShutdown None,
      FrequentTick (demo_world [(ascii ''locked'', demo_stats)])]"

lemma demo_tick:
  "tick_calls demo_args (FrequentTick world) = [[Uptime], [GetMemoryInfo]]"
  by (simp add: tick_calls_def enabled_calls_def frequent_def demo_args_def)

lemma demo_events:
  "\<exists>u m. events_of (demo_world [(ascii ''locked'', demo_stats)]) [Uptime] = [(Subject.Rpc, u)] \<and>
    peer_observer_event u = RpcUptime 77 \<and>
    events_of (demo_world [(ascii ''locked'', demo_stats)]) [GetMemoryInfo] = [(Subject.Rpc, m)] \<and>
    peer_observer_event m = RpcMemoryInfo demo_stats"
  by (simp add: events_of_def call_event_def converted_def demo_world_def MemoryInfo_from_def Event_new_def)

theorem rpc_run_publishes_witness:
  "map (peer_observer_event \<circ> snd) (rpc_published (fst (rpc_loop demo_args demo_inputs))) =
      [RpcUptime 77, RpcMemoryInfo demo_stats] \<and>
    snd (rpc_loop demo_args demo_inputs) = RpcStopped"
proof -
  have "list_all (well_formed demo_args) demo_inputs"
    by (simp add: well_formed_def demo_inputs_def demo_tick malformed_def converted_def demo_world_def MemoryInfo_from_def)
  from rpc_run_publishes [OF this] show ?thesis
    using demo_events by (auto simp: demo_inputs_def rpc_ends_def tick_events_def demo_tick)
qed

section \<open>Malformed replies\<close>

lemma fetch_all_append:
  assumes "list_all (list_all (\<lambda>c. \<not> malformed world c)) (enabled_calls groups)"
  shows "fetch_all world (groups @ groups') =
    (fst (fetch_all world groups) @ fst (fetch_all world groups'), snd (fetch_all world groups'))"
  using assms
proof (induction groups)
  case (Cons g groups)
  obtain disabled calls where g: "g = (disabled, calls)" by (meson surj_pair)
  obtain acts1 r1 where one: "run_calls world calls = (acts1, r1)" by (meson surj_pair)
  show ?case
  proof (cases disabled)
    case False
    then have "r1 \<noteq> CallPanic" using run_calls_events [OF one] Cons.prems by (simp add: g enabled_calls_def)
    then show ?thesis
      using Cons False one by (cases r1) (auto simp: g enabled_calls_def split: prod.splits)
  qed (use Cons in \<open>auto simp: g enabled_calls_def split: prod.splits\<close>)
qed simp

lemma rpc_loop_append:
  assumes "list_all (\<lambda>inp. well_formed args inp \<and> \<not> rpc_ends inp) inps"
  shows "rpc_loop args (inps @ inps') =
    (fst (rpc_loop args inps) @ fst (rpc_loop args inps'), snd (rpc_loop args inps'))"
  using assms
proof (induction inps)
  case (Cons inp inps)
  obtain acts st where one: "rpc_iteration args inp = (acts, st)" by (meson surj_pair)
  have "st = RpcGoesOn" using rpc_iteration_events(2) [OF one] Cons.prems by simp
  then show ?case using Cons one by (auto split: prod.splits)
qed simp

lemma frequent_split: "frequent args = take 4 (frequent args) @ drop 4 (frequent args)"
  by simp

lemma first_four_well_formed:
  "list_all (list_all (\<lambda>c. \<not> malformed world c)) (enabled_calls (take 4 (frequent args)))"
proof -
  have "\<not> malformed world c" if "c \<in> {GetPeerInfo, GetMempoolInfo, Uptime, GetNetTotals}" for c
    using that by (cases "w_other world c") (auto simp: malformed_def converted_def)
  then show ?thesis by (simp add: enabled_calls_def frequent_def)
qed

text \<open>C28: A malformed reply ends the extractor. When the memory information of the node lacks the key
\<^verbatim>\<open>locked\<close>, the conversion panics: the calls before it in that tick have published, those after it are
not made, and the run is over although the shutdown channel has said nothing.\<close>

theorem malformed_reply_ends:
  assumes "list_all (\<lambda>inp. well_formed args inp \<and> \<not> rpc_ends inp) before"
    and "\<not> disable_getmemoryinfo args"
    and "w_memory world = Reply stats" and "map_of stats (ascii ''locked'') = None"
  shows "rpc_published (fst (rpc_loop args (before @ FrequentTick world # after))) =
      concat (map (tick_events args) before) @ concat (map (events_of world) (enabled_calls (take 4 (frequent args)))) \<and>
    snd (rpc_loop args (before @ FrequentTick world # after)) = RpcPanicked"
proof -
  have before: "rpc_published (fst (rpc_loop args before)) = concat (map (tick_events args) before)"
  proof -
    have "list_all (well_formed args) before" "takeWhile (\<lambda>inp. \<not> rpc_ends inp) before = before"
      using assms(1) by (auto simp: list_all_iff takeWhile_eq_all_conv)
    then show ?thesis using rpc_loop_events [of args before] by presburger
  qed
  obtain acts ok where four: "fetch_all world (take 4 (frequent args)) = (acts, ok)" by (meson surj_pair)
  have "drop 4 (frequent args) = (False, [GetMemoryInfo]) # drop 5 (frequent args)"
    using assms(2) by (simp add: frequent_def)
  then have rest: "fetch_all world (drop 4 (frequent args)) = ([FetchDuration ''getmemoryinfo''], False)"
    using assms(3,4) by (simp add: fetch_and_publish_def converted_def MemoryInfo_from_def)
  have "rpc_iteration args (FrequentTick world) = (acts @ [FetchDuration ''getmemoryinfo''], RpcPanicked)"
    using fetch_all_append [OF first_four_well_formed, of world args "drop 4 (frequent args)"] four rest
    by (simp add: rpc_iteration_def)
  moreover have "rpc_published [FetchDuration ''getmemoryinfo''] = []" by (simp add: rpc_published_def)
  ultimately show ?thesis
    using before fetch_all_events [OF four first_four_well_formed] rpc_loop_append [OF assms(1)] by simp
qed

theorem malformed_reply_ends_witness:
  "map (peer_observer_event \<circ> snd)
      (rpc_published (fst (rpc_loop demo_args ([RpcShutdown (Some False)] @ FrequentTick (demo_world []) # [RpcShutdown None])))) =
      [RpcUptime 77] \<and>
    snd (rpc_loop demo_args ([RpcShutdown (Some False)] @ FrequentTick (demo_world []) # [RpcShutdown None])) = RpcPanicked"
proof -
  have four: "enabled_calls (take 4 (frequent demo_args)) = [[Uptime]]"
    by (simp add: enabled_calls_def frequent_def demo_args_def)
  have "list_all (\<lambda>inp. well_formed demo_args inp \<and> \<not> rpc_ends inp) [RpcShutdown (Some False)]"
    by (simp add: well_formed_def rpc_ends_def)
  moreover have "\<not> disable_getmemoryinfo demo_args" by (simp add: demo_args_def)
  moreover have "w_memory (demo_world []) = Reply []" by (simp add: demo_world_def)
  moreover have "events_of (demo_world []) [Uptime] = [(Subject.Rpc, the (call_event (demo_world []) Uptime))]"
    "peer_observer_event (the (call_event (demo_world []) Uptime)) = RpcUptime 77"
    by (simp_all add: events_of_def call_event_def converted_def demo_world_def Event_new_def)
  ultimately show ?thesis
    using malformed_reply_ends [of demo_args "[RpcShutdown (Some False)]" "demo_world []" "[]" "[RpcShutdown None]"]
    by (simp add: four tick_events_def)
qed

end
