(* ===== verification/IpcExtractor.thy ===== *)
theory IpcExtractor
  imports ObservedEvents ExtractorHandlers
begin

text \<open>
  The IPC extractor (\<^verbatim>\<open>extractors/ipc/src/lib.rs\<close>, \<^verbatim>\<open>ipc.rs\<close>): the loop that asks the node for its tip and
  publishes it. The Cap'n Proto session is a library: what it answers is an input.
\<close>

text \<open>What \<^verbatim>\<open>get_tip\<close> meets: an error at any of its calls, no tip, or a tip.\<close>

datatype tip_reply = TipFailed | NoTip | Tip s32 "byte list"

definition get_tip :: "tip_reply \<Rightarrow> unit + BlockTip_pb option" where
  "get_tip reply =
     (case reply of
        TipFailed \<Rightarrow> Inl ()
      | NoTip \<Rightarrow> Inr None
      | Tip height hash \<Rightarrow> Inr (Some \<lparr>bt_height = height, bt_hash = hash\<rparr>))"

datatype ipc_action =
    IpcPublish Subject "BlockTip_pb Event"
  | IpcFetchDuration
  | IpcFetchErrors
  | IpcPublishErrors
  | RunDisconnector
  | AwaitRpcTask

definition fetch_and_publish_tip :: "tip_reply \<Rightarrow> clock \<Rightarrow> bool \<Rightarrow> ipc_action list" where
  "fetch_and_publish_tip reply now published =
     (case get_tip reply of
        Inl err \<Rightarrow> [IpcFetchErrors]
      | Inr None \<Rightarrow> [IpcFetchDuration]
      | Inr (Some tip) \<Rightarrow>
          (case Event_new now tip of
             Inl err \<Rightarrow> [IpcFetchDuration]
           | Inr proto \<Rightarrow>
               if published then [IpcFetchDuration, IpcPublish Subject.Ipc proto]
               else [IpcFetchDuration, IpcPublishErrors]))"

text \<open>
  A branch of \<^verbatim>\<open>select!\<close>: a tick, the end of the task that serves the session, or a change of the shutdown
  channel, which yields its value, or \<open>None\<close> when the sender is gone. Whatever a change yields, the
  loop ends; the flag says whether the task of the session has finished once it is disconnected.
\<close>

datatype ipc_input =
    IpcTick tip_reply clock bool
  | IpcTaskEnds
  | IpcShutdown "bool option" bool

definition ipc_iteration :: "ipc_input \<Rightarrow> ipc_action list \<times> bool" where
  "ipc_iteration inp =
     (case inp of
        IpcTick reply now published \<Rightarrow> (fetch_and_publish_tip reply now published, True)
      | IpcTaskEnds \<Rightarrow> ([], False)
      | IpcShutdown changed finished \<Rightarrow> ([], False))"

text \<open>After the loop the session is disconnected, and its task is awaited unless it has finished.\<close>

definition ipc_shut_down :: "ipc_input \<Rightarrow> ipc_action list" where
  "ipc_shut_down inp =
     RunDisconnector #
       (case inp of IpcShutdown changed finished \<Rightarrow> if finished then [] else [AwaitRpcTask] | _ \<Rightarrow> [])"

fun ipc_loop :: "ipc_input list \<Rightarrow> ipc_action list \<times> bool" where
  "ipc_loop [] = ([], True)"
| "ipc_loop (inp # inps) =
     (case ipc_iteration inp of
        (acts, True) \<Rightarrow> (case ipc_loop inps of (acts', going) \<Rightarrow> (acts @ acts', going))
      | (acts, False) \<Rightarrow> (acts @ ipc_shut_down inp, False))"

end
