(* ===== verification/LoggerTool.thy ===== *)
theory LoggerTool
  imports ObservedEvents
begin

text \<open>
  The logger tool (\<^verbatim>\<open>tools/logger/src/lib.rs\<close>): which events it logs, and its loop. A line is the prefix
  the code gives it and the event; the text of the event is \<^verbatim>\<open>Display\<close>, which is not modelled. The log
  level is one that shows information (the default does): below it the lines are not even built.
\<close>

record LoggerArgs =
  la_messages :: bool
  la_connections :: bool
  la_mempool :: bool
  la_validation :: bool
  la_rpc :: bool
  la_ipc :: bool
  la_p2p_extractor :: bool
  la_log_extractor :: bool

definition show_all :: "LoggerArgs \<Rightarrow> bool" where
  "show_all args \<longleftrightarrow>
     \<not> (la_messages args \<or> la_connections args \<or> la_mempool args \<or> la_validation args \<or> la_rpc args \<or>
       la_ipc args \<or> la_p2p_extractor args \<or> la_log_extractor args)"

type_synonym log_lines = "(string \<times> ObservedEvent) list"

definition lines_if :: "LoggerArgs \<Rightarrow> bool \<Rightarrow> string \<Rightarrow> ObservedEvent \<Rightarrow> log_lines" where
  "lines_if args flag title e = (if show_all args \<or> flag then [(title, e)] else [])"

text \<open>\<open>None\<close> is a panic: a missing event, and a missing body where the code unwraps it.\<close>

definition log_ebpf :: "LoggerArgs \<Rightarrow> ebpf_event \<Rightarrow> log_lines" where
  "log_ebpf args ev =
     (let e = ObservedEbpf (Some ev) in
      case ev of
        EbpfMessage msg \<Rightarrow> lines_if args (la_messages args) ''message'' e
      | EbpfConnection conn \<Rightarrow> lines_if args (la_connections args) ''connection'' e
      | EbpfMempool mempool \<Rightarrow> lines_if args (la_mempool args) ''mempool'' e
      | EbpfValidation validation \<Rightarrow> lines_if args (la_validation args) ''validation'' e)"

definition unwrap_shown :: "LoggerArgs \<Rightarrow> bool \<Rightarrow> string \<Rightarrow> ObservedEvent \<Rightarrow> bool \<Rightarrow> log_lines option" where
  "unwrap_shown args flag title e has_body =
     (if show_all args \<or> flag then (if has_body then Some [(title, e)] else None) else Some [])"

definition log_event_tool :: "LoggerArgs \<Rightarrow> Observed \<Rightarrow> log_lines option" where
  "log_event_tool args event =
     (case ob_event event of
        None \<Rightarrow> None
      | Some e \<Rightarrow>
          (case e of
             ObservedEbpf ebpf \<Rightarrow> map_option (log_ebpf args) ebpf
           | ObservedRpc r \<Rightarrow> unwrap_shown args (la_rpc args) ''rpc'' e (r \<noteq> None)
           | ObservedIpc i \<Rightarrow> unwrap_shown args (la_ipc args) ''ipc'' e (i \<noteq> None)
           | ObservedP2p p \<Rightarrow> unwrap_shown args (la_p2p_extractor args) ''p2p event'' e (p \<noteq> None)
           | ObservedLog l \<Rightarrow> unwrap_shown args (la_log_extractor args) ''log event'' e (log_event l \<noteq> None)))"

datatype logger_status = LoggerGoesOn | LoggerStopped | LoggerDecodeError | LoggerPanicked

datatype logger_input = LoggerMessage "byte list option" | LoggerShutdown "bool option"

definition logger_iteration ::
    "LoggerArgs \<Rightarrow> (byte list \<Rightarrow> Observed option) \<Rightarrow> logger_input \<Rightarrow> log_lines \<times> logger_status" where
  "logger_iteration args decode inp =
     (case inp of
        LoggerMessage None \<Rightarrow> ([], LoggerStopped)
      | LoggerMessage (Some bytes) \<Rightarrow>
          (case decode bytes of
             None \<Rightarrow> ([], LoggerDecodeError)
           | Some event \<Rightarrow>
               (case log_event_tool args event of
                  None \<Rightarrow> ([], LoggerPanicked)
                | Some shown \<Rightarrow> (shown, LoggerGoesOn)))
      | LoggerShutdown (Some b) \<Rightarrow> ([], if b then LoggerStopped else LoggerGoesOn)
      | LoggerShutdown None \<Rightarrow> ([], LoggerStopped))"

fun logger_loop ::
    "LoggerArgs \<Rightarrow> (byte list \<Rightarrow> Observed option) \<Rightarrow> logger_input list \<Rightarrow> log_lines \<times> logger_status" where
  "logger_loop args decode [] = ([], LoggerGoesOn)"
| "logger_loop args decode (inp # inps) =
     (case logger_iteration args decode inp of
        (shown, LoggerGoesOn) \<Rightarrow> (case logger_loop args decode inps of (shown', st) \<Rightarrow> (shown @ shown', st))
      | (shown, st) \<Rightarrow> (shown, st))"

end
