(* ===== verification/WebsocketTool.thy ===== *)
theory WebsocketTool
  imports ObservedEvents "HOL-Library.AList"
begin

text \<open>
  The websocket tool (\<^verbatim>\<open>tools/websocket/src/lib.rs\<close>): clients connect and send what they subscribe to,
  and each event goes as JSON to the clients that subscribe to its kind. A task per client, the task
  that broadcasts and the loop that accepts run concurrently; they share the map of clients behind a
  lock. A step is what one of them does up to the next point where it awaits the lock, a send, a close
  or a message.
\<close>

section \<open>Subscriptions\<close>

record ClientSubscriptionsEbpf =
  se_messages :: bool
  se_mempool :: bool
  se_validation :: bool
  se_connections :: bool

record ClientSubscriptions =
  cs_ebpf :: ClientSubscriptionsEbpf
  cs_p2p :: bool
  cs_log :: bool
  cs_rpc :: bool
  cs_ipc :: bool

definition ClientSubscriptions_default :: ClientSubscriptions where
  "ClientSubscriptions_default =
     \<lparr>cs_ebpf = \<lparr>se_messages = False, se_mempool = False, se_validation = False, se_connections = False\<rparr>,
      cs_p2p = False, cs_log = False, cs_rpc = False, cs_ipc = False\<rparr>"

definition is_subscribed :: "ClientSubscriptions \<Rightarrow> ObservedEvent \<Rightarrow> bool" where
  "is_subscribed subs event =
     (case event of
        ObservedEbpf ebpf \<Rightarrow>
          (case ebpf of
             Some (EbpfMessage m) \<Rightarrow> se_messages (cs_ebpf subs)
           | Some (EbpfConnection c) \<Rightarrow> se_connections (cs_ebpf subs)
           | Some (EbpfMempool m) \<Rightarrow> se_mempool (cs_ebpf subs)
           | Some (EbpfValidation v) \<Rightarrow> se_validation (cs_ebpf subs)
           | None \<Rightarrow> False)
      | ObservedRpc r \<Rightarrow> cs_rpc subs
      | ObservedP2p p \<Rightarrow> cs_p2p subs
      | ObservedLog l \<Rightarrow> cs_log subs
      | ObservedIpc i \<Rightarrow> cs_ipc subs)"

section \<open>Clients\<close>

text \<open>The libraries: decoding a payload, JSON of an event, JSON read as subscriptions.\<close>

record ws_lib =
  ws_decode :: "byte list \<Rightarrow> Observed option"
  ws_json :: "ObservedEvent \<Rightarrow> byte list option"
  ws_parse :: "byte list \<Rightarrow> ClientSubscriptions option"

text \<open>
  The shared map of clients with the tasks of the clients that run. The map is behind a lock, held by
  whoever awaits with it: the broadcast while it sends to one client after the other (\<open>ws_sending\<close>: the
  message and the clients still to get it, the first of them being sent to), and a task that awaits
  the close of its connection (\<open>Closing\<close>). A task that has closed its connection takes the lock a second
  time to remove the client (\<open>Removing\<close>).
\<close>

datatype ws_task = Reading | Closing | Removing

record 'a ws_state =
  ws_clients :: "('a \<times> ClientSubscriptions) list"
  ws_tasks :: "('a \<times> ws_task) list"
  ws_sending :: "(byte list \<times> 'a list) option"

definition ws_init :: "'a ws_state" where
  "ws_init = \<lparr>ws_clients = [], ws_tasks = [], ws_sending = None\<rparr>"

definition lock_free :: "'a ws_state \<Rightarrow> bool" where
  "lock_free st \<longleftrightarrow> ws_sending st = None \<and> list_all (\<lambda>(addr, task). task \<noteq> Closing) (ws_tasks st)"

datatype 'a ws_action =
    WsSend 'a "byte list"
  | WsSendFailed 'a "byte list"
  | WsDisconnect 'a
  | WsPanic 'a

text \<open>What the stream of a client yields.\<close>

datatype ws_incoming = InEnd | InError | InClose | InText "byte list" | InOther

definition end_task :: "'a \<Rightarrow> 'a ws_state \<Rightarrow> 'a ws_state" where
  "end_task addr st = st\<lparr>ws_tasks := AList.delete addr (ws_tasks st)\<rparr>"

definition set_task :: "'a \<Rightarrow> ws_task \<Rightarrow> 'a ws_state \<Rightarrow> 'a ws_state" where
  "set_task addr task st = st\<lparr>ws_tasks := AList.update addr task (ws_tasks st)\<rparr>"

definition remove_client :: "'a \<Rightarrow> 'a ws_state \<Rightarrow> 'a ws_state" where
  "remove_client addr st = st\<lparr>ws_clients := AList.delete addr (ws_clients st)\<rparr>"

text \<open>
  What a task does with the lock in hand; \<open>None\<close> when another holds it and the task has to wait. A
  message that is no subscription disconnects the client: its connection is closed under the lock
  (\<open>close_done\<close>), which can fail and then ends the task, then the client is removed
  (\<open>remove_disconnected\<close>), and the task goes on reading.
\<close>

definition locked :: "'a ws_state \<Rightarrow> 'b \<Rightarrow> 'b option" where
  "locked st result = (if lock_free st then Some result else None)"

definition disconnect_client :: "'a \<Rightarrow> 'a ws_state \<Rightarrow> 'a ws_state" where
  "disconnect_client addr st =
     (case map_of (ws_clients st) addr of
        None \<Rightarrow> set_task addr Removing st
      | Some subs \<Rightarrow> set_task addr Closing st)"

definition close_done :: "'a \<Rightarrow> bool \<Rightarrow> 'a ws_state \<Rightarrow> ('a ws_action list \<times> 'a ws_state) option" where
  "close_done addr closes st =
     (if map_of (ws_tasks st) addr \<noteq> Some Closing then None
      else if closes then Some ([WsDisconnect addr], set_task addr Removing st)
      else Some ([], end_task addr st))"

definition remove_disconnected :: "'a \<Rightarrow> 'a ws_state \<Rightarrow> ('a ws_action list \<times> 'a ws_state) option" where
  "remove_disconnected addr st =
     (if map_of (ws_tasks st) addr \<noteq> Some Removing then None
      else locked st ([], set_task addr Reading (remove_client addr st)))"

definition handle_text ::
    "ws_lib \<Rightarrow> 'a \<Rightarrow> byte list \<Rightarrow> 'a ws_state \<Rightarrow> 'a ws_action list \<times> 'a ws_state" where
  "handle_text lib addr text' st =
     (if 0 < length text' \<and> length text' < 512 then
        (case ws_parse lib text' of
           Some subs \<Rightarrow>
             (case map_of (ws_clients st) addr of
                None \<Rightarrow> ([WsPanic addr], end_task addr st)
              | Some old \<Rightarrow> ([], st\<lparr>ws_clients := AList.update addr subs (ws_clients st)\<rparr>))
         | None \<Rightarrow> ([], disconnect_client addr st))
      else ([], disconnect_client addr st))"

definition handle_incoming ::
    "ws_lib \<Rightarrow> 'a \<Rightarrow> ws_incoming \<Rightarrow> 'a ws_state \<Rightarrow> ('a ws_action list \<times> 'a ws_state) option" where
  "handle_incoming lib addr msg st =
     (if map_of (ws_tasks st) addr \<noteq> Some Reading then None
      else case msg of
        InEnd \<Rightarrow> Some ([], end_task addr st)
      | InError \<Rightarrow> locked st ([], end_task addr (remove_client addr st))
      | InClose \<Rightarrow> locked st ([], end_task addr (remove_client addr st))
      | InText text' \<Rightarrow> locked st (handle_text lib addr text' st)
      | InOther \<Rightarrow> Some ([], st))"

text \<open>A handshake that succeeds registers the client without subscriptions.\<close>

definition handle_client :: "'a \<Rightarrow> bool \<Rightarrow> 'a ws_state \<Rightarrow> ('a ws_action list \<times> 'a ws_state) option" where
  "handle_client addr accepted st =
     (if map_of (ws_tasks st) addr \<noteq> None then None
      else if \<not> accepted then Some ([], st)
      else locked st
        ([], set_task addr Reading
           (st\<lparr>ws_clients := AList.update addr ClientSubscriptions_default (ws_clients st)\<rparr>)))"

section \<open>Broadcasting\<close>

text \<open>
  A broadcast takes the lock and goes through the map, in whatever order the map iterates. The send
  to a subscribed client is awaited under the lock: the next client is not sent to before it has
  succeeded or failed (\<open>send_done\<close>).
\<close>

definition start_sending :: "byte list \<Rightarrow> 'a list \<Rightarrow> 'a ws_state \<Rightarrow> 'a ws_state" where
  "start_sending message addrs st =
     st\<lparr>ws_sending := (if addrs = [] then None else Some (message, addrs))\<rparr>"

definition subscribed_to :: "ObservedEvent \<Rightarrow> 'a ws_state \<Rightarrow> 'a \<Rightarrow> bool" where
  "subscribed_to event st addr =
     (case map_of (ws_clients st) addr of None \<Rightarrow> False | Some subs \<Rightarrow> is_subscribed subs event)"

definition broadcast_to_clients ::
    "ws_lib \<Rightarrow> ObservedEvent \<Rightarrow> 'a list \<Rightarrow> 'a ws_state \<Rightarrow> ('a ws_action list \<times> 'a ws_state) option" where
  "broadcast_to_clients lib event order st =
     (case ws_json lib event of
        None \<Rightarrow> Some ([], st)
      | Some message \<Rightarrow>
          if distinct order \<and> set order = fst ` set (ws_clients st)
          then locked st ([], start_sending message (filter (subscribed_to event st) order) st)
          else None)"

definition send_done :: "'a \<Rightarrow> bool \<Rightarrow> 'a ws_state \<Rightarrow> ('a ws_action list \<times> 'a ws_state) option" where
  "send_done addr sends st =
     (case ws_sending st of
        Some (message, addr' # addrs) \<Rightarrow>
          if addr' = addr
          then Some ([if sends then WsSend addr message else WsSendFailed addr message],
                     start_sending message addrs st)
          else None
      | _ \<Rightarrow> None)"

definition handle_payload ::
    "ws_lib \<Rightarrow> byte list \<Rightarrow> 'a list \<Rightarrow> 'a ws_state \<Rightarrow> ('a ws_action list \<times> 'a ws_state) option" where
  "handle_payload lib payload' order st =
     (if ws_sending st \<noteq> None then None
      else case ws_decode lib payload' of
        None \<Rightarrow> Some ([], st)
      | Some event \<Rightarrow>
          (case ob_event event of
             None \<Rightarrow> Some ([], st)
           | Some e \<Rightarrow> broadcast_to_clients lib e order st))"

section \<open>Runs\<close>

text \<open>
  The tasks interleave in any way the lock allows: a step that has to wait is not possible, and
  \<open>ws_step\<close> is then \<open>None\<close>. The socket address of a client is free again only when its task has ended;
  \<open>WsAccept\<close> says whether the handshake succeeds, \<open>WsClosed\<close> and \<open>WsSent\<close> whether the close or the send
  that was awaited did, \<open>WsBroadcast\<close> in which order the map iterates.
\<close>

datatype 'a ws_step =
    WsAccept 'a bool
  | WsIncoming 'a ws_incoming
  | WsClosed 'a bool
  | WsRemove 'a
  | WsBroadcast "byte list" "'a list"
  | WsSent 'a bool

definition ws_step :: "ws_lib \<Rightarrow> 'a ws_step \<Rightarrow> 'a ws_state \<Rightarrow> ('a ws_action list \<times> 'a ws_state) option" where
  "ws_step lib step st =
     (case step of
        WsAccept addr accepted \<Rightarrow> handle_client addr accepted st
      | WsIncoming addr msg \<Rightarrow> handle_incoming lib addr msg st
      | WsClosed addr closes \<Rightarrow> close_done addr closes st
      | WsRemove addr \<Rightarrow> remove_disconnected addr st
      | WsBroadcast payload' order \<Rightarrow> handle_payload lib payload' order st
      | WsSent addr sends \<Rightarrow> send_done addr sends st)"

fun ws_run :: "ws_lib \<Rightarrow> 'a ws_step list \<Rightarrow> 'a ws_state \<Rightarrow> ('a ws_action list \<times> 'a ws_state) option" where
  "ws_run lib [] st = Some ([], st)"
| "ws_run lib (step # steps) st =
     (case ws_step lib step st of
        None \<Rightarrow> None
      | Some (acts, st') \<Rightarrow>
          (case ws_run lib steps st' of
             None \<Rightarrow> None
           | Some (acts', st'') \<Rightarrow> Some (acts @ acts', st'')))"

text \<open>The loop that accepts clients ends when the shutdown channel says so or its sender is gone.\<close>

datatype accept_input = AcceptOk | AcceptFailed | WsShutdown "bool option"

fun accept_loop :: "accept_input list \<Rightarrow> nat \<times> bool" where
  "accept_loop [] = (0, True)"
| "accept_loop (AcceptOk # inps) = (case accept_loop inps of (n, going) \<Rightarrow> (Suc n, going))"
| "accept_loop (AcceptFailed # inps) = accept_loop inps"
| "accept_loop (WsShutdown (Some b) # inps) = (if b then (0, False) else accept_loop inps)"
| "accept_loop (WsShutdown None # inps) = (0, False)"

end
