(* ===== verification/ToolProperties.thy ===== *)
theory ToolProperties
  imports IpcExtractor LoggerTool WebsocketTool
begin

text \<open>
  The properties of the small loops: the IPC extractor publishes the tips it is given, the logger shows the
  events its flags select, and the websocket tool serves each client of a run as a machine of its own would, sends it
  the events it subscribes to, and stands still while one client does not take what it is sent.
\<close>

section \<open>The IPC extractor\<close>

definition tip_events :: "ipc_input \<Rightarrow> (Subject \<times> BlockTip_pb Event) list" where
  "tip_events inp =
     (case inp of
        IpcTick (Tip height hash) (Some nanos) True \<Rightarrow>
          [(Subject.Ipc, \<lparr>timestamp = of_nat (nanos div 1000000),
             peer_observer_event = \<lparr>bt_height = height, bt_hash = hash\<rparr>\<rparr>)]
      | _ \<Rightarrow> [])"

definition is_tick :: "ipc_input \<Rightarrow> bool" where
  "is_tick inp \<longleftrightarrow> (case inp of IpcTick reply now published \<Rightarrow> True | _ \<Rightarrow> False)"

definition ipc_published :: "ipc_action list \<Rightarrow> (Subject \<times> BlockTip_pb Event) list" where
  "ipc_published acts = concat (map (\<lambda>a. case a of IpcPublish s ev \<Rightarrow> [(s, ev)] | _ \<Rightarrow> []) acts)"

definition disconnects :: "ipc_action list \<Rightarrow> nat" where
  "disconnects acts = length (filter (\<lambda>a. a = RunDisconnector) acts)"

lemma ipc_simps [simp]:
  "ipc_published [] = []" "ipc_published (acts @ acts') = ipc_published acts @ ipc_published acts'"
  "disconnects [] = 0" "disconnects (acts @ acts') = disconnects acts + disconnects acts'"
  by (simp_all add: ipc_published_def disconnects_def)

lemma tick_actions:
  "ipc_published (fetch_and_publish_tip reply now published) = tip_events (IpcTick reply now published)"
  "disconnects (fetch_and_publish_tip reply now published) = 0"
  by (auto simp: fetch_and_publish_tip_def get_tip_def Event_new_def tip_events_def ipc_published_def disconnects_def
      split: tip_reply.splits option.splits)

lemma shut_down_actions:
  "ipc_published (ipc_shut_down inp) = []" "disconnects (ipc_shut_down inp) = 1"
  by (auto simp: ipc_shut_down_def ipc_published_def disconnects_def split: ipc_input.splits)

text \<open>C36: What a run of the IPC extractor publishes. It publishes every tip a tick obtains, with its height
and hash, up to the first input that is not a tick, which ends it whatever the shutdown channel yields;
the session is disconnected exactly once if the run has ended and never before.\<close>

theorem ipc_run_publishes:
  "ipc_published (fst (ipc_loop inps)) = concat (map tip_events (takeWhile is_tick inps)) \<and>
   snd (ipc_loop inps) = list_all is_tick inps \<and>
   disconnects (fst (ipc_loop inps)) = (if list_all is_tick inps then 0 else 1)"
proof (induction inps)
  case (Cons inp inps)
  obtain acts going where "ipc_loop inps = (acts, going)" by (meson surj_pair)
  then show ?case
    using Cons by (cases inp) (auto simp: ipc_iteration_def is_tick_def tick_actions shut_down_actions)
qed simp

section \<open>The logger\<close>

text \<open>The title an event of each kind has, whether its flag is on, and whether it has a body.\<close>

definition logger_title :: "ObservedEvent \<Rightarrow> string" where
  "logger_title e =
     (case e of
        ObservedEbpf (Some (EbpfMessage x)) \<Rightarrow> ''message''
      | ObservedEbpf (Some (EbpfConnection x)) \<Rightarrow> ''connection''
      | ObservedEbpf (Some (EbpfMempool x)) \<Rightarrow> ''mempool''
      | ObservedEbpf (Some (EbpfValidation x)) \<Rightarrow> ''validation''
      | ObservedEbpf None \<Rightarrow> ''''
      | ObservedRpc r \<Rightarrow> ''rpc''
      | ObservedIpc i \<Rightarrow> ''ipc''
      | ObservedP2p p \<Rightarrow> ''p2p event''
      | ObservedLog l \<Rightarrow> ''log event'')"

definition logger_flag :: "LoggerArgs \<Rightarrow> ObservedEvent \<Rightarrow> bool" where
  "logger_flag args e \<longleftrightarrow>
     (case e of
        ObservedEbpf (Some (EbpfMessage x)) \<Rightarrow> la_messages args
      | ObservedEbpf (Some (EbpfConnection x)) \<Rightarrow> la_connections args
      | ObservedEbpf (Some (EbpfMempool x)) \<Rightarrow> la_mempool args
      | ObservedEbpf (Some (EbpfValidation x)) \<Rightarrow> la_validation args
      | ObservedEbpf None \<Rightarrow> False
      | ObservedRpc r \<Rightarrow> la_rpc args
      | ObservedIpc i \<Rightarrow> la_ipc args
      | ObservedP2p p \<Rightarrow> la_p2p_extractor args
      | ObservedLog l \<Rightarrow> la_log_extractor args)"

definition has_body :: "ObservedEvent \<Rightarrow> bool" where
  "has_body e \<longleftrightarrow>
     (case e of
        ObservedEbpf ebpf \<Rightarrow> ebpf \<noteq> None
      | ObservedRpc r \<Rightarrow> r \<noteq> None
      | ObservedIpc i \<Rightarrow> i \<noteq> None
      | ObservedP2p p \<Rightarrow> p \<noteq> None
      | ObservedLog l \<Rightarrow> log_event l \<noteq> None)"

lemma logged_when_selected:
  assumes "ob_event event = Some e" and "has_body e"
  shows "log_event_tool args event =
    Some (if show_all args \<or> logger_flag args e then [(logger_title e, e)] else [])"
proof (cases e)
  case (ObservedEbpf ebpf)
  then obtain ev where "ebpf = Some ev" using assms(2) by (auto simp: has_body_def)
  then show ?thesis
    using assms(1) ObservedEbpf
    by (cases ev) (simp_all add: log_event_tool_def log_ebpf_def lines_if_def Let_def logger_flag_def logger_title_def)
qed (use assms in \<open>simp_all add: log_event_tool_def has_body_def unwrap_shown_def logger_flag_def logger_title_def\<close>)

text \<open>What a message holds, which inputs end the loop, and what is shown of an input.\<close>

definition observed :: "(byte list \<Rightarrow> Observed option) \<Rightarrow> logger_input \<Rightarrow> ObservedEvent option" where
  "observed decode inp =
     (case inp of
        LoggerMessage (Some bytes) \<Rightarrow> (case decode bytes of Some event \<Rightarrow> ob_event event | None \<Rightarrow> None)
      | _ \<Rightarrow> None)"

definition readable :: "(byte list \<Rightarrow> Observed option) \<Rightarrow> logger_input \<Rightarrow> bool" where
  "readable decode inp \<longleftrightarrow>
     (case inp of
        LoggerMessage (Some bytes) \<Rightarrow> (case observed decode inp of Some e \<Rightarrow> has_body e | None \<Rightarrow> False)
      | _ \<Rightarrow> True)"

definition logger_ends :: "logger_input \<Rightarrow> bool" where
  "logger_ends inp \<longleftrightarrow> inp = LoggerMessage None \<or> inp = LoggerShutdown None \<or> inp = LoggerShutdown (Some True)"

definition shown_of ::
    "LoggerArgs \<Rightarrow> (byte list \<Rightarrow> Observed option) \<Rightarrow> logger_input \<Rightarrow> log_lines" where
  "shown_of args decode inp =
     (case observed decode inp of
        Some e \<Rightarrow> if show_all args \<or> logger_flag args e then [(logger_title e, e)] else []
      | None \<Rightarrow> [])"

lemma logger_iteration_shown:
  assumes "readable decode inp"
  shows "logger_iteration args decode inp =
    (shown_of args decode inp, if logger_ends inp then LoggerStopped else LoggerGoesOn)"
proof (cases inp)
  case (LoggerMessage maybe)
  show ?thesis
  proof (cases maybe)
    case (Some bytes)
    then obtain event e where "decode bytes = Some event" "ob_event event = Some e" "has_body e"
      using assms LoggerMessage by (auto simp: readable_def observed_def split: option.splits)
    then show ?thesis
      by (simp add: LoggerMessage Some logger_iteration_def logged_when_selected shown_of_def observed_def logger_ends_def)
  qed (simp add: LoggerMessage logger_iteration_def shown_of_def observed_def logger_ends_def)
next
  case (LoggerShutdown maybe)
  then show ?thesis
    by (cases maybe) (simp_all add: logger_iteration_def shown_of_def observed_def logger_ends_def)
qed

lemma shown_of_end: "logger_ends inp \<Longrightarrow> shown_of args decode inp = []"
  by (auto simp: logger_ends_def shown_of_def observed_def)

lemma logger_shows_selected:
  "list_all (readable decode) inps \<Longrightarrow>
    fst (logger_loop args decode inps) =
      concat (map (shown_of args decode) (takeWhile (\<lambda>inp. \<not> logger_ends inp) inps)) \<and>
    snd (logger_loop args decode inps) = (if list_all (\<lambda>inp. \<not> logger_ends inp) inps then LoggerGoesOn else LoggerStopped)"
proof (induction inps)
  case (Cons inp inps)
  obtain rest st where "logger_loop args decode inps = (rest, st)" by (meson surj_pair)
  then show ?case
    using Cons by (simp add: logger_iteration_shown shown_of_end split: if_splits)
qed simp

section \<open>The websocket tool\<close>

text \<open>
  What a client sees of the tool: its subscriptions while the tool knows it, what its task does while
  it runs, and the message it is being sent or has yet to get from the broadcast that holds the lock.
  \<open>client_step\<close> is the tool for that client alone.
\<close>

type_synonym client_view = "ClientSubscriptions option \<times> ws_task option \<times> byte list option"

definition client_view :: "'a \<Rightarrow> 'a ws_state \<Rightarrow> client_view" where
  "client_view addr st =
     (map_of (ws_clients st) addr, map_of (ws_tasks st) addr,
      case ws_sending st of
        Some (message, addrs) \<Rightarrow> if addr \<in> set addrs then Some message else None
      | None \<Rightarrow> None)"

definition is_valid_text :: "ws_lib \<Rightarrow> byte list \<Rightarrow> ClientSubscriptions option" where
  "is_valid_text lib text' = (if text' \<noteq> [] \<and> length text' < 512 then ws_parse lib text' else None)"

definition json_of :: "ws_lib \<Rightarrow> byte list \<Rightarrow> (ObservedEvent \<times> byte list) option" where
  "json_of lib payload' =
     Option.bind (ws_decode lib payload') (\<lambda>event.
       Option.bind (ob_event event) (\<lambda>e. map_option (Pair e) (ws_json lib e)))"

text \<open>What a message of the client does, its task having read it and taken the lock.\<close>

fun client_message ::
    "ws_lib \<Rightarrow> 'a \<Rightarrow> ws_incoming \<Rightarrow> client_view \<Rightarrow> ('a ws_action list \<times> client_view) option" where
  "client_message lib addr InEnd (subs, task, pending) = Some ([], (subs, None, pending))"
| "client_message lib addr InOther v = Some ([], v)"
| "client_message lib addr InError (subs, task, pending) =
     (if pending = None then Some ([], (None, None, None)) else None)"
| "client_message lib addr InClose (subs, task, pending) =
     (if pending = None then Some ([], (None, None, None)) else None)"
| "client_message lib addr (InText text') (subs, task, pending) =
     (if pending \<noteq> None then None
      else case (is_valid_text lib text', subs) of
        (Some new, Some old) \<Rightarrow> Some ([], (Some new, Some Reading, None))
      | (Some new, None) \<Rightarrow> Some ([WsPanic addr], (None, None, None))
      | (None, Some old) \<Rightarrow> Some ([], (Some old, Some Closing, None))
      | (None, None) \<Rightarrow> Some ([], (None, Some Removing, None)))"

fun client_step :: "ws_lib \<Rightarrow> 'a \<Rightarrow> 'a ws_step \<Rightarrow> client_view \<Rightarrow> ('a ws_action list \<times> client_view) option" where
  "client_step lib addr (WsAccept a accepted) (subs, task, pending) =
     (if a \<noteq> addr then Some ([], (subs, task, pending))
      else if task \<noteq> None then None
      else if \<not> accepted then Some ([], (subs, task, pending))
      else if pending = None then Some ([], (Some ClientSubscriptions_default, Some Reading, None)) else None)"
| "client_step lib addr (WsIncoming a msg) (subs, task, pending) =
     (if a \<noteq> addr then Some ([], (subs, task, pending))
      else if task = Some Reading then client_message lib addr msg (subs, task, pending) else None)"
| "client_step lib addr (WsClosed a closes) (subs, task, pending) =
     (if a \<noteq> addr then Some ([], (subs, task, pending))
      else if task \<noteq> Some Closing then None
      else if closes then Some ([WsDisconnect addr], (subs, Some Removing, pending))
      else Some ([], (subs, None, pending)))"
| "client_step lib addr (WsRemove a) (subs, task, pending) =
     (if a \<noteq> addr then Some ([], (subs, task, pending))
      else if task = Some Removing \<and> pending = None then Some ([], (None, Some Reading, None)) else None)"
| "client_step lib addr (WsBroadcast payload' order) (subs, task, pending) =
     (case (json_of lib payload', subs) of
        (Some (e, message), Some s) \<Rightarrow>
          if is_subscribed s e
          then if pending = None \<and> task \<noteq> Some Closing then Some ([], (subs, task, Some message)) else None
          else Some ([], (subs, task, pending))
      | _ \<Rightarrow> Some ([], (subs, task, pending)))"
| "client_step lib addr (WsSent a sends) (subs, task, pending) =
     (if a \<noteq> addr then Some ([], (subs, task, pending))
      else case pending of
        None \<Rightarrow> None
      | Some message \<Rightarrow>
          Some ([if sends then WsSend addr message else WsSendFailed addr message], (subs, task, None)))"

fun client_run :: "ws_lib \<Rightarrow> 'a \<Rightarrow> 'a ws_step list \<Rightarrow> client_view \<Rightarrow> ('a ws_action list \<times> client_view) option" where
  "client_run lib addr [] v = Some ([], v)"
| "client_run lib addr (step # steps) v =
     (case client_step lib addr step v of
        None \<Rightarrow> None
      | Some (acts, v') \<Rightarrow>
          (case client_run lib addr steps v' of
             None \<Rightarrow> None
           | Some (acts', v'') \<Rightarrow> Some (acts @ acts', v'')))"

fun action_client :: "'a ws_action \<Rightarrow> 'a" where
  "action_client (WsSend a message) = a"
| "action_client (WsSendFailed a message) = a"
| "action_client (WsDisconnect a) = a"
| "action_client (WsPanic a) = a"

definition for_client :: "'a \<Rightarrow> 'a ws_action list \<Rightarrow> 'a ws_action list" where
  "for_client addr acts = filter (\<lambda>a. action_client a = addr) acts"

lemma for_client_simps [simp]:
  "for_client addr [] = []" "for_client addr (acts @ acts') = for_client addr acts @ for_client addr acts'"
  "for_client addr (a # acts) = (if action_client a = addr then a # for_client addr acts else for_client addr acts)"
  by (simp_all add: for_client_def)

text \<open>The clients a broadcast has still to send to are different ones.\<close>

definition ws_ok :: "'a ws_state \<Rightarrow> bool" where
  "ws_ok st \<longleftrightarrow> (case ws_sending st of Some (message, addrs) \<Rightarrow> distinct addrs | None \<Rightarrow> True)"

lemma map_of_update_eq: "map_of (AList.update k v xs) k' = (if k' = k then Some v else map_of xs k')"
  by (simp add: AList.update_conv')

lemma map_of_delete_eq: "map_of (AList.delete k xs) k' = (if k' = k then None else map_of xs k')"
  by (simp add: AList.delete_conv')

lemma lock_freeD: "lock_free st \<Longrightarrow> ws_sending st = None \<and> (\<forall>addr. map_of (ws_tasks st) addr \<noteq> Some Closing)"
  by (auto simp: lock_free_def list_all_iff dest: map_of_SomeD)

lemma locked_Some: "locked st r = Some r' \<longleftrightarrow> lock_free st \<and> r' = r"
  by (auto simp: locked_def)

lemmas ws_updates = set_task_def end_task_def remove_client_def start_sending_def map_of_update_eq map_of_delete_eq

text \<open>The message that a payload makes, for a broadcast that is possible.\<close>

lemma payload_cases:
  assumes "handle_payload lib payload' order st = Some (acts, st')"
  obtains "acts = []" "st' = st" "json_of lib payload' = None" "ws_sending st = None"
  | e message where "json_of lib payload' = Some (e, message)" "acts = []" "lock_free st" "distinct order"
      "set order = fst ` set (ws_clients st)" "st' = start_sending message (filter (subscribed_to e st) order) st"
proof (cases "json_of lib payload'")
  case None
  have "acts = [] \<and> st' = st \<and> ws_sending st = None"
    using assms None by (cases "ws_sending st") (auto simp: handle_payload_def json_of_def broadcast_to_clients_def
        bind_eq_None_conv split: option.splits if_splits)
  then show ?thesis using that(1) None by simp
next
  case (Some p)
  then obtain e message where js: "json_of lib payload' = Some (e, message)" by (cases p) auto
  then obtain event where "ws_decode lib payload' = Some event" "ob_event event = Some e" "ws_json lib e = Some message"
    by (auto simp: json_of_def bind_eq_Some_conv)
  then have "acts = [] \<and> lock_free st \<and> distinct order \<and> set order = fst ` set (ws_clients st) \<and>
      st' = start_sending message (filter (subscribed_to e st) order) st"
    using assms by (simp add: handle_payload_def broadcast_to_clients_def locked_Some split: if_splits)
  then show ?thesis using that(2) [OF js] by simp
qed

lemma start_sending_view:
  "client_view addr (start_sending message addrs st) =
    (map_of (ws_clients st) addr, map_of (ws_tasks st) addr, if addr \<in> set addrs then Some message else None)"
  by (auto simp: client_view_def start_sending_def)

lemma subscribed_in_order:
  assumes "set order = fst ` set (ws_clients st)"
  shows "addr \<in> set (filter (subscribed_to e st) order) \<longleftrightarrow>
    (case map_of (ws_clients st) addr of Some s \<Rightarrow> is_subscribed s e | None \<Rightarrow> False)"
proof (cases "map_of (ws_clients st) addr")
  case (Some s)
  then have "addr \<in> set order" using assms by (force dest: map_of_SomeD)
  then show ?thesis using Some by (simp add: subscribed_to_def)
qed (simp add: subscribed_to_def)

lemma text_view:
  assumes "handle_text lib a text' st = (acts, st')" and "lock_free st" and "map_of (ws_tasks st) a = Some Reading"
  shows "client_step lib addr (WsIncoming a (InText text')) (client_view addr st) =
    Some (for_client addr acts, client_view addr st') \<and> ws_sending st' = ws_sending st"
proof -
  have valid: "handle_text lib a text' st =
      (case (is_valid_text lib text', map_of (ws_clients st) a) of
         (Some subs, Some old) \<Rightarrow> ([], st\<lparr>ws_clients := AList.update a subs (ws_clients st)\<rparr>)
       | (Some subs, None) \<Rightarrow> ([WsPanic a], end_task a st)
       | (None, Some old) \<Rightarrow> ([], set_task a Closing st)
       | (None, None) \<Rightarrow> ([], set_task a Removing st))"
    by (simp add: handle_text_def is_valid_text_def disconnect_client_def split: option.splits)
  have free: "client_view addr st = (map_of (ws_clients st) addr, map_of (ws_tasks st) addr, None)"
    using lock_freeD [OF assms(2)] by (simp add: client_view_def)
  show ?thesis
    using assms(1,3) lock_freeD [OF assms(2)]
    unfolding valid free
    by (cases "is_valid_text lib text'"; cases "map_of (ws_clients st) a"; cases "a = addr")
      (auto simp: client_view_def ws_updates)
qed

lemma incoming_view:
  assumes "handle_incoming lib a msg st = Some (acts, st')"
  shows "client_step lib addr (WsIncoming a msg) (client_view addr st) =
    Some (for_client addr acts, client_view addr st') \<and> ws_sending st' = ws_sending st"
proof -
  have reads: "map_of (ws_tasks st) a = Some Reading" using assms by (simp add: handle_incoming_def split: if_splits)
  show ?thesis
  proof (cases msg)
    case (InText text')
    then show ?thesis
      using text_view [of lib a text' st acts st' addr] assms reads by (simp add: handle_incoming_def locked_Some)
  next
    case InError
    then show ?thesis
      using assms reads lock_freeD [of st]
      by (cases "a = addr") (auto simp: handle_incoming_def locked_Some client_view_def ws_updates)
  next
    case InClose
    then show ?thesis
      using assms reads lock_freeD [of st]
      by (cases "a = addr") (auto simp: handle_incoming_def locked_Some client_view_def ws_updates)
  qed (use assms reads in \<open>cases "a = addr"; auto simp: handle_incoming_def client_view_def ws_updates\<close>)+
qed

lemma ws_step_view:
  assumes "ws_step lib step st = Some (acts, st')" and "ws_ok st"
  shows "client_step lib addr step (client_view addr st) = Some (for_client addr acts, client_view addr st') \<and> ws_ok st'"
proof (cases step)
  case (WsAccept a accepted)
  then show ?thesis
    using assms by (auto simp: ws_step_def handle_client_def locked_Some client_view_def ws_updates ws_ok_def
        dest!: lock_freeD split: if_splits)
next
  case (WsIncoming a msg)
  then have "handle_incoming lib a msg st = Some (acts, st')" using assms(1) by (simp add: ws_step_def)
  from incoming_view [OF this] show ?thesis using assms(2) by (simp add: WsIncoming ws_ok_def)
next
  case (WsClosed a closes)
  then show ?thesis
    using assms by (auto simp: ws_step_def close_done_def client_view_def ws_updates ws_ok_def split: if_splits)
next
  case (WsRemove a)
  then show ?thesis
    using assms by (auto simp: ws_step_def remove_disconnected_def locked_Some client_view_def ws_updates ws_ok_def
        dest!: lock_freeD split: if_splits)
next
  case (WsBroadcast payload' order)
  then have "handle_payload lib payload' order st = Some (acts, st')" using assms(1) by (simp add: ws_step_def)
  then show ?thesis
  proof (cases rule: payload_cases)
    case 1
    then show ?thesis using assms(2) by (simp add: WsBroadcast client_view_def)
  next
    case (2 e message)
    have view: "client_view addr st' = (map_of (ws_clients st) addr, map_of (ws_tasks st) addr,
        if addr \<in> set (filter (subscribed_to e st) order) then Some message else None)"
      unfolding 2 by (rule start_sending_view)
    show ?thesis
      unfolding view subscribed_in_order [OF 2(5)]
      using lock_freeD [OF 2(3)] 2(1,2,4,6)
      by (auto simp: WsBroadcast client_view_def ws_ok_def start_sending_def split: option.splits)
  qed
next
  case (WsSent a sends)
  then obtain message addrs where sending: "ws_sending st = Some (message, a # addrs)"
    and rest: "acts = [if sends then WsSend a message else WsSendFailed a message]" "st' = start_sending message addrs st"
    using assms(1) by (auto simp: ws_step_def send_done_def split: option.splits list.splits if_splits)
  have "a \<notin> set addrs" "distinct addrs" using assms(2) sending by (simp_all add: ws_ok_def)
  then show ?thesis
    using sending rest by (auto simp: WsSent client_view_def start_sending_def ws_ok_def)
qed

lemma ws_run_Cons:
  assumes "ws_run lib (step # steps) st = Some (acts, st')"
  obtains acts1 st1 acts2 where "ws_step lib step st = Some (acts1, st1)" "ws_run lib steps st1 = Some (acts2, st')"
    "acts = acts1 @ acts2"
  using assms by (auto split: option.splits)

lemma ws_run_view:
  "ws_ok st \<Longrightarrow> ws_run lib steps st = Some (acts, st') \<Longrightarrow>
    client_run lib addr steps (client_view addr st) = Some (for_client addr acts, client_view addr st') \<and> ws_ok st'"
proof (induction steps arbitrary: st acts)
  case (Cons step steps)
  obtain acts1 st1 acts2 where one: "ws_step lib step st = Some (acts1, st1)"
    and rest: "ws_run lib steps st1 = Some (acts2, st')" "acts = acts1 @ acts2"
    using ws_run_Cons [OF Cons.prems(2)] by blast
  show ?case
    using ws_step_view [OF one Cons.prems(1), of addr] Cons.IH [OF _ rest(1)] rest(2) by simp
qed simp

lemma ws_run_append:
  "ws_run lib (steps @ steps') st =
    (case ws_run lib steps st of
       None \<Rightarrow> None
     | Some (acts, st') \<Rightarrow>
         (case ws_run lib steps' st' of None \<Rightarrow> None | Some (acts', st'') \<Rightarrow> Some (acts @ acts', st'')))"
  by (induction steps arbitrary: st) (auto split: option.splits prod.splits)

lemma ws_init_view [simp]: "client_view addr ws_init = (None, None, None)" "ws_ok ws_init"
  by (simp_all add: client_view_def ws_init_def ws_ok_def)

text \<open>
  The run without the other clients: only the steps of the client, and broadcasts that find no other
  client in the map. \<open>only_state\<close> is the state without the others.
\<close>

definition concerns :: "'a \<Rightarrow> 'a ws_step \<Rightarrow> bool" where
  "concerns addr step \<longleftrightarrow>
     (case step of
        WsAccept a accepted \<Rightarrow> a = addr
      | WsIncoming a msg \<Rightarrow> a = addr
      | WsClosed a closes \<Rightarrow> a = addr
      | WsRemove a \<Rightarrow> a = addr
      | WsBroadcast payload' order \<Rightarrow> True
      | WsSent a sends \<Rightarrow> a = addr)"

definition only_step :: "'a \<Rightarrow> 'a ws_step \<Rightarrow> 'a ws_step" where
  "only_step addr step =
     (case step of
        WsBroadcast payload' order \<Rightarrow> WsBroadcast payload' (filter (\<lambda>a. a = addr) order)
      | _ \<Rightarrow> step)"

definition steps_of_client :: "'a \<Rightarrow> 'a ws_step list \<Rightarrow> 'a ws_step list" where
  "steps_of_client addr steps = map (only_step addr) (filter (concerns addr) steps)"

definition only_state :: "'a \<Rightarrow> 'a ws_state \<Rightarrow> 'a ws_state" where
  "only_state addr st =
     \<lparr>ws_clients = filter (\<lambda>p. fst p = addr) (ws_clients st),
      ws_tasks = filter (\<lambda>p. fst p = addr) (ws_tasks st),
      ws_sending = (case ws_sending st of
          Some (message, addrs) \<Rightarrow> if addr \<in> set addrs then Some (message, [addr]) else None
        | None \<Rightarrow> None)\<rparr>"

lemma map_of_only: "map_of (filter (\<lambda>p. fst p = addr) xs) a = (if a = addr then map_of xs a else None)"
  by (induction xs) auto

lemma update_only:
  "filter (\<lambda>p. fst p = addr) (AList.update a v xs) =
    (if a = addr then AList.update a v (filter (\<lambda>p. fst p = addr) xs) else filter (\<lambda>p. fst p = addr) xs)"
  by (induction xs) auto

lemma delete_only:
  "filter (\<lambda>p. fst p = addr) (AList.delete a xs) =
    (if a = addr then AList.delete a (filter (\<lambda>p. fst p = addr) xs) else filter (\<lambda>p. fst p = addr) xs)"
  by (induction xs) (auto simp: AList.delete_eq)

lemma only_lock: "lock_free st \<Longrightarrow> lock_free (only_state addr st)"
  by (auto simp: lock_free_def only_state_def list_all_iff)

lemma only_init [simp]: "only_state addr ws_init = ws_init"
  by (simp add: only_state_def ws_init_def)

lemma only_start:
  "only_state addr (start_sending message addrs st) =
    start_sending message (if addr \<in> set addrs then [addr] else []) (only_state addr st)"
  by (simp add: only_state_def start_sending_def)

lemmas only_simps = map_of_only update_only delete_only

lemma only_maps:
  "map_of (ws_clients (only_state addr st)) addr = map_of (ws_clients st) addr"
  "map_of (ws_tasks (only_state addr st)) addr = map_of (ws_tasks st) addr"
  by (simp_all add: only_state_def map_of_only)

lemma only_updates:
  "only_state addr (set_task a task st) = (if a = addr then set_task a task (only_state addr st) else only_state addr st)"
  "only_state addr (end_task a st) = (if a = addr then end_task a (only_state addr st) else only_state addr st)"
  "only_state addr (remove_client a st) = (if a = addr then remove_client a (only_state addr st) else only_state addr st)"
  "only_state addr (st\<lparr>ws_clients := AList.update a subs (ws_clients st)\<rparr>) =
     (if a = addr then (only_state addr st)\<lparr>ws_clients := AList.update a subs (ws_clients (only_state addr st))\<rparr>
      else only_state addr st)"
  by (simp_all add: only_state_def set_task_def end_task_def remove_client_def only_simps)

lemma only_sim_text:
  assumes "handle_text lib a text' st = (acts, st')"
  shows "if a = addr then handle_text lib a text' (only_state addr st) = (for_client addr acts, only_state addr st')
    else for_client addr acts = [] \<and> only_state addr st' = only_state addr st"
proof (cases "a = addr")
  case True
  then show ?thesis
    using assms only_maps [of addr st]
    by (auto simp: handle_text_def disconnect_client_def only_updates split: option.splits if_splits)
next
  case False
  then show ?thesis
    using assms by (auto simp: handle_text_def disconnect_client_def only_updates split: option.splits if_splits)
qed

lemma only_sim_incoming:
  assumes "handle_incoming lib a msg st = Some (acts, st')"
  shows "if a = addr
    then handle_incoming lib a msg (only_state addr st) = Some (for_client addr acts, only_state addr st')
    else for_client addr acts = [] \<and> only_state addr st' = only_state addr st"
proof (cases msg)
  case (InText text')
  then show ?thesis
    using assms only_sim_text [of lib a text' st acts st' addr] only_lock [of st addr] only_maps [of addr st]
    by (auto simp: handle_incoming_def locked_Some split: if_splits)
qed (use assms only_lock [of st addr] only_maps [of addr st] in
    \<open>auto simp: handle_incoming_def locked_Some only_updates split: if_splits\<close>)

lemma only_sim:
  assumes "ws_step lib step st = Some (acts, st')" and "ws_ok st"
  shows "if concerns addr step
    then ws_step lib (only_step addr step) (only_state addr st) = Some (for_client addr acts, only_state addr st')
    else for_client addr acts = [] \<and> only_state addr st' = only_state addr st"
proof (cases step)
  case (WsAccept a accepted)
  then show ?thesis
    using assms(1) only_lock [of st addr] only_maps [of addr st]
    by (auto simp: ws_step_def only_step_def concerns_def handle_client_def locked_Some only_updates split: if_splits)
next
  case (WsIncoming a msg)
  then show ?thesis
    using assms(1) only_sim_incoming [of lib a msg st acts st' addr]
    by (auto simp: ws_step_def only_step_def concerns_def split: if_splits)
next
  case (WsClosed a closes)
  then show ?thesis
    using assms(1) only_lock [of st addr] only_maps [of addr st]
    by (auto simp: ws_step_def only_step_def concerns_def close_done_def locked_Some only_updates split: if_splits)
next
  case (WsRemove a)
  then show ?thesis
    using assms(1) only_lock [of st addr] only_maps [of addr st]
    by (auto simp: ws_step_def only_step_def concerns_def remove_disconnected_def locked_Some only_updates split: if_splits)
next
  case (WsBroadcast payload' order)
  then have "handle_payload lib payload' order st = Some (acts, st')" using assms(1) by (simp add: ws_step_def)
  then show ?thesis
  proof (cases rule: payload_cases)
    case 1
    then show ?thesis
      by (auto simp: WsBroadcast ws_step_def only_step_def concerns_def handle_payload_def json_of_def
          broadcast_to_clients_def only_state_def split: option.splits)
  next
    case (2 e message)
    have subscribed: "subscribed_to e (only_state addr st) a = subscribed_to e st a" if "a = addr" for a
      using that by (simp add: subscribed_to_def only_state_def map_of_only)
    have order: "set (filter (\<lambda>a. a = addr) order) = fst ` set (ws_clients (only_state addr st))"
      using 2(5) by (auto simp: only_state_def)
    have "filter (\<lambda>a. a = addr) order = (if addr \<in> set order then [addr] else [])"
      using 2(4) by (induction order) auto
    then have remaining: "filter (subscribed_to e (only_state addr st)) (filter (\<lambda>a. a = addr) order) =
        (if addr \<in> set (filter (subscribed_to e st) order) then [addr] else [])"
      by (simp add: subscribed)
    have "only_state addr st' = start_sending message
        (if addr \<in> set (filter (subscribed_to e st) order) then [addr] else []) (only_state addr st)"
      unfolding 2 by (rule only_start)
    then show ?thesis
      using 2(1,2,4) only_lock [OF 2(3), of addr] order remaining lock_freeD [OF only_lock [OF 2(3), of addr]]
      by (auto simp: WsBroadcast ws_step_def only_step_def concerns_def handle_payload_def json_of_def
          broadcast_to_clients_def locked_def bind_eq_Some_conv)
  qed
next
  case (WsSent a sends)
  then obtain message addrs where sending: "ws_sending st = Some (message, a # addrs)"
    and rest: "acts = [if sends then WsSend a message else WsSendFailed a message]" "st' = start_sending message addrs st"
    using assms(1) by (auto simp: ws_step_def send_done_def split: option.splits list.splits if_splits)
  have "a \<notin> set addrs" using assms(2) sending by (simp add: ws_ok_def)
  then show ?thesis
    using sending rest
    by (auto simp: WsSent ws_step_def only_step_def concerns_def send_done_def only_state_def start_sending_def)
qed

lemma only_run:
  "ws_ok st \<Longrightarrow> ws_run lib steps st = Some (acts, st') \<Longrightarrow>
    ws_run lib (steps_of_client addr steps) (only_state addr st) = Some (for_client addr acts, only_state addr st')"
proof (induction steps arbitrary: st acts)
  case (Cons step steps)
  obtain acts1 st1 acts2 where one: "ws_step lib step st = Some (acts1, st1)"
    and rest: "ws_run lib steps st1 = Some (acts2, st')" "acts = acts1 @ acts2"
    using ws_run_Cons [OF Cons.prems(2)] by blast
  have "ws_ok st1" using ws_step_view [OF one Cons.prems(1)] by blast
  then show ?case
    using only_sim [OF one Cons.prems(1), of addr] Cons.IH [OF _ rest(1)] rest(2)
    by (auto simp: steps_of_client_def split: if_splits)
qed (simp add: steps_of_client_def)

text \<open>C22: Clients are served as if alone. In any run the lock allows, whatever the tool does for an
address, and what it then knows of it and has yet to send to it, is what the machine for one client
does; and the run of that client's steps alone, with every broadcast finding no other client, is
possible too and does and leaves for it the same. (That a run can go on is another matter: a broadcast
waits for each client it sends to.)\<close>

theorem clients_served_as_if_alone:
  assumes "ws_run lib steps ws_init = Some (acts, st)"
  shows "client_run lib addr steps (None, None, None) = Some (for_client addr acts, client_view addr st) \<and>
    ws_run lib (steps_of_client addr steps) ws_init = Some (for_client addr acts, only_state addr st)"
  using ws_run_view [OF ws_init_view(2) assms, of addr] only_run [OF ws_init_view(2) assms, of addr] by simp

text \<open>A library in which a payload of a byte is an event of that kind, and its JSON that byte.\<close>

definition demo_lib :: ws_lib where
  "demo_lib =
     \<lparr>ws_decode = (\<lambda>payload'. if payload' = [1] then Some \<lparr>ob_timestamp = 0, ob_event = Some (ObservedRpc None)\<rparr>
        else if payload' = [2] then Some \<lparr>ob_timestamp = 0, ob_event = Some (ObservedP2p None)\<rparr> else None),
      ws_json = (\<lambda>e. case e of ObservedRpc r \<Rightarrow> Some [1] | _ \<Rightarrow> Some [2]),
      ws_parse = (\<lambda>text'. if text' = [82] then Some (ClientSubscriptions_default\<lparr>cs_rpc := True\<rparr>) else None)\<rparr>"

definition demo_before :: "nat ws_step list" where
  "demo_before = [WsAccept 7 True, WsAccept 8 True, WsIncoming 8 (InText [82])]"

definition demo_after :: "nat ws_step list" where
  "demo_after =
     [WsBroadcast [1] [8, 7], WsSent 8 True, WsSent 7 True, WsAccept 9 True, WsBroadcast [2] [9, 8, 7],
      WsIncoming 8 (InText []), WsClosed 8 True, WsRemove 8, WsBroadcast [1] [7, 9], WsSent 7 False,
      WsBroadcast [1] [9, 7]]"

lemmas ws_defs = ws_step_def handle_client_def handle_incoming_def handle_text_def disconnect_client_def
  close_done_def remove_disconnected_def handle_payload_def broadcast_to_clients_def send_done_def
  remove_client_def end_task_def set_task_def start_sending_def subscribed_to_def locked_def lock_free_def

lemmas demo_defs = demo_lib_def ws_init_def ClientSubscriptions_default_def is_subscribed_def

lemma demo_before_run:
  "ws_run demo_lib demo_before ws_init = Some ([],
     \<lparr>ws_clients = [(7, ClientSubscriptions_default), (8, ClientSubscriptions_default\<lparr>cs_rpc := True\<rparr>)],
      ws_tasks = [(7, Reading), (8, Reading)], ws_sending = None\<rparr>)"
  by (simp add: demo_before_def ws_defs demo_defs)

lemma demo_after_run:
  "ws_run demo_lib (demo_before @ WsIncoming 7 (InText [82]) # demo_after) ws_init = Some
     ([WsSend 8 [1], WsSend 7 [1], WsDisconnect 8, WsSendFailed 7 [1]],
     \<lparr>ws_clients = [(7, ClientSubscriptions_default\<lparr>cs_rpc := True\<rparr>), (9, ClientSubscriptions_default)],
      ws_tasks = [(7, Reading), (8, Reading), (9, Reading)], ws_sending = Some ([1], [7])\<rparr>)"
  unfolding ws_run_append demo_before_run
  by (simp add: demo_after_def ws_defs demo_defs insert_commute)

theorem clients_served_as_if_alone_witness:
  "client_run demo_lib 8 (demo_before @ WsIncoming 7 (InText [82]) # demo_after) (None, None, None) =
     Some ([WsSend 8 [1], WsDisconnect 8], (None, Some Reading, None))"
  using clients_served_as_if_alone [OF demo_after_run, of 8] by (simp add: client_view_def)

text \<open>The messages a subscriber is due: the JSON of the events of its kinds, in their order.\<close>

definition due :: "ws_lib \<Rightarrow> ClientSubscriptions \<Rightarrow> 'a ws_step \<Rightarrow> byte list list" where
  "due lib subs step =
     (case step of
        WsBroadcast payload' order \<Rightarrow>
          (case json_of lib payload' of
             Some (e, message) \<Rightarrow> if is_subscribed subs e then [message] else []
           | None \<Rightarrow> [])
      | _ \<Rightarrow> [])"

text \<open>How the sends to the client went, and what they then did.\<close>

fun outcomes :: "'a \<Rightarrow> 'a ws_step list \<Rightarrow> bool list" where
  "outcomes addr (WsSent a sends # steps) = (if a = addr then sends # outcomes addr steps else outcomes addr steps)"
| "outcomes addr (step # steps) = outcomes addr steps"
| "outcomes addr [] = []"

fun attempts :: "'a \<Rightarrow> bool list \<Rightarrow> byte list list \<Rightarrow> 'a ws_action list" where
  "attempts addr (sends # oks) (message # messages) =
     (if sends then WsSend addr message else WsSendFailed addr message) # attempts addr oks messages"
| "attempts addr oks messages = []"

fun from_client :: "'a \<Rightarrow> 'a ws_step \<Rightarrow> bool" where
  "from_client addr (WsIncoming a msg) = (a = addr)"
| "from_client addr step = False"

lemma client_step_due:
  assumes "client_step lib addr step (Some subs, Some Reading, pending) = Some (acts, v)" and "\<not> from_client addr step"
  obtains pending' where "v = (Some subs, Some Reading, pending')"
    "acts = attempts addr (outcomes addr [step]) (case_option [] (\<lambda>m. [m]) pending)"
    "case_option [] (\<lambda>m. [m]) pending @ due lib subs step =
       (if outcomes addr [step] = [] then [] else case_option [] (\<lambda>m. [m]) pending) @ case_option [] (\<lambda>m. [m]) pending'"
    "length (outcomes addr [step]) = length acts"
proof (cases step)
  case (WsBroadcast payload' order)
  then show ?thesis
    using assms that by (auto simp: due_def split: option.splits if_splits)
next
  case (WsSent a sends)
  then show ?thesis
    using assms that by (cases "a = addr") (auto simp: due_def split: option.splits)
qed (use assms that in \<open>auto simp: due_def split: if_splits\<close>)

lemma outcomes_Cons: "outcomes addr (step # steps) = outcomes addr [step] @ outcomes addr steps"
  by (cases step) auto

lemma client_run_due:
  "client_run lib addr steps (Some subs, Some Reading, pending) = Some (acts, v) \<Longrightarrow>
    list_all (\<lambda>step. \<not> from_client addr step) steps \<Longrightarrow>
    \<exists>pending' sent. v = (Some subs, Some Reading, pending') \<and>
      case_option [] (\<lambda>m. [m]) pending @ concat (map (due lib subs) steps) = sent @ case_option [] (\<lambda>m. [m]) pending' \<and>
      length sent = length (outcomes addr steps) \<and> acts = attempts addr (outcomes addr steps) sent"
proof (induction steps arbitrary: pending acts)
  case (Cons step steps)
  obtain acts1 v1 acts2 where one: "client_step lib addr step (Some subs, Some Reading, pending) = Some (acts1, v1)"
    and rest: "client_run lib addr steps v1 = Some (acts2, v)" "acts = acts1 @ acts2"
    using Cons.prems(1) by (auto split: option.splits)
  obtain pending1 where p: "v1 = (Some subs, Some Reading, pending1)"
    "acts1 = attempts addr (outcomes addr [step]) (case_option [] (\<lambda>m. [m]) pending)"
    "case_option [] (\<lambda>m. [m]) pending @ due lib subs step =
       (if outcomes addr [step] = [] then [] else case_option [] (\<lambda>m. [m]) pending) @ case_option [] (\<lambda>m. [m]) pending1"
    "length (outcomes addr [step]) = length acts1"
    using client_step_due [OF one] Cons.prems(2) by auto
  obtain pending' sent where ih: "v = (Some subs, Some Reading, pending')"
    "case_option [] (\<lambda>m. [m]) pending1 @ concat (map (due lib subs) steps) = sent @ case_option [] (\<lambda>m. [m]) pending'"
    "length sent = length (outcomes addr steps)" "acts2 = attempts addr (outcomes addr steps) sent"
    using Cons.IH [OF rest(1) [unfolded p(1)]] Cons.prems(2) by auto
  show ?case
  proof (cases "outcomes addr [step]")
    case Nil
    then show ?thesis
      using p ih rest(2) outcomes_Cons [of addr step steps]
      by (intro exI [of _ pending'] exI [of _ sent]) (simp, metis append.assoc)
  next
    case (Cons ok oks)
    then obtain m where m: "pending = Some m" "oks = []" using p(2,4) by (cases pending; cases oks) auto
    have "[m] @ due lib subs step = [m] @ case_option [] (\<lambda>m. [m]) pending1" using p(3) Cons m by simp
    then have d: "due lib subs step = case_option [] (\<lambda>m. [m]) pending1" by simp
    show ?thesis
      using p(2) ih rest(2) outcomes_Cons [of addr step steps] Cons m d
      by (intro exI [of _ pending'] exI [of _ "m # sent"]) simp
  qed
qed (auto split: option.splits)

text \<open>C24: A subscriber gets its events, once the tool gets to it. Take any run the lock allows in which
the text of a client that the tool knows sets its subscriptions and the client then sends nothing more.
The payloads that since then decoded to an event of a kind it subscribes to, as JSON and in their order,
are the messages the tool has sent to it, each once, except that the last can still be pending in a
broadcast that has not finished; nothing else is sent to it. A send that fails is not repeated. Since a
broadcast awaits each send under the lock, how far a run gets depends on every client.\<close>

theorem subscriber_gets_its_events:
  assumes "ws_run lib before ws_init = Some (acts0, st0)" and "map_of (ws_clients st0) addr = Some old"
    and "is_valid_text lib text' = Some subs"
    and "ws_run lib (before @ WsIncoming addr (InText text') # steps) ws_init = Some (acts, st)"
    and "list_all (\<lambda>step. \<not> from_client addr step) steps"
  shows "\<exists>sent. concat (map (due lib subs) steps) =
      sent @ (case snd (snd (client_view addr st)) of Some message \<Rightarrow> [message] | None \<Rightarrow> []) \<and>
    length sent = length (outcomes addr steps) \<and>
    for_client addr acts = for_client addr acts0 @ attempts addr (outcomes addr steps) sent"
proof -
  obtain acts1 where rest: "ws_run lib (WsIncoming addr (InText text') # steps) st0 = Some (acts1, st)"
    and acts: "acts = acts0 @ acts1"
    using assms(1,4) by (auto simp: ws_run_append split: option.splits)
  have ok: "ws_ok st0" using ws_run_view [OF ws_init_view(2) assms(1)] by blast
  obtain task pending where view: "client_view addr st0 = (Some old, task, pending)"
    using assms(2) by (simp add: client_view_def)
  have run: "client_run lib addr (WsIncoming addr (InText text') # steps) (Some old, task, pending) =
      Some (for_client addr acts1, client_view addr st)"
    using ws_run_view [OF ok rest, of addr] by (simp add: view)
  then have "client_run lib addr steps (Some subs, Some Reading, None) = Some (for_client addr acts1, client_view addr st)"
    by (auto simp: assms(3) split: if_splits option.splits)
  from client_run_due [OF this assms(5)] show ?thesis by (auto simp: acts)
qed

theorem subscriber_gets_its_events_witness:
  "\<exists>sent. [[1], [1], [1]] = sent @ [[1]] \<and> length sent = length [True, False] \<and>
    [WsSend 7 [1], WsSendFailed 7 [1]] = attempts (7 :: nat) [True, False] sent"
proof -
  let ?subs = "ClientSubscriptions_default\<lparr>cs_rpc := True\<rparr>"
  have valid: "is_valid_text demo_lib [82] = Some ?subs" by (simp add: is_valid_text_def demo_lib_def)
  have due: "concat (map (due demo_lib ?subs) demo_after) = [[1], [1], [1]]"
    by (simp add: due_def json_of_def demo_after_def demo_defs)
  have others: "list_all (\<lambda>step. \<not> from_client 7 step) demo_after" by (simp add: demo_after_def)
  show ?thesis
    using subscriber_gets_its_events [OF demo_before_run _ valid demo_after_run others] due
    by (simp add: client_view_def demo_after_def)
qed

section \<open>The lock\<close>

text \<open>Who holds the lock: the client a broadcast is sending to, or one whose connection is being closed.\<close>

definition holds_lock :: "'a \<Rightarrow> 'a ws_state \<Rightarrow> bool" where
  "holds_lock addr st \<longleftrightarrow>
     (case ws_sending st of
        Some (message, addrs) \<Rightarrow> addrs \<noteq> [] \<and> hd addrs = addr
      | None \<Rightarrow> map_of (ws_tasks st) addr = Some Closing)"

fun lets_go :: "'a \<Rightarrow> 'a ws_step \<Rightarrow> bool" where
  "lets_go addr (WsSent a sends) = (a = addr)"
| "lets_go addr (WsClosed a closes) = (a = addr)"
| "lets_go addr step = False"

text \<open>At most one holds it.\<close>

definition exclusive :: "'a ws_state \<Rightarrow> bool" where
  "exclusive st \<longleftrightarrow>
     (\<forall>a. map_of (ws_tasks st) a = Some Closing \<longrightarrow>
        ws_sending st = None \<and> (\<forall>b. map_of (ws_tasks st) b = Some Closing \<longrightarrow> b = a))"

lemma incoming_exclusive:
  assumes "handle_incoming lib a msg st = Some (acts, st')" and "exclusive st"
  shows "exclusive st'"
proof (cases msg)
  case (InText text')
  then have "lock_free st" "handle_text lib a text' st = (acts, st')"
    using assms(1) by (auto simp: handle_incoming_def locked_Some split: if_splits)
  then show ?thesis
    using lock_freeD [of st]
    by (auto simp: handle_text_def disconnect_client_def exclusive_def ws_updates split: option.splits if_splits)
qed (use assms in \<open>auto simp: handle_incoming_def locked_Some exclusive_def ws_updates split: if_splits\<close>)

lemma ws_step_exclusive:
  assumes "ws_step lib step st = Some (acts, st')" and "exclusive st"
  shows "exclusive st'"
proof (cases step)
  case (WsIncoming a msg)
  then show ?thesis using assms incoming_exclusive by (simp add: ws_step_def)
next
  case (WsBroadcast payload' order)
  then have "handle_payload lib payload' order st = Some (acts, st')" using assms(1) by (simp add: ws_step_def)
  then show ?thesis
  proof (cases rule: payload_cases)
    case (2 e message)
    then show ?thesis using lock_freeD [OF 2(3)] by (simp add: exclusive_def start_sending_def)
  qed (use assms(2) in simp)
next
  case (WsSent a sends)
  then show ?thesis
    using assms by (auto simp: ws_step_def send_done_def exclusive_def start_sending_def
        split: option.splits list.splits if_splits)
qed (use assms in \<open>auto simp: ws_step_def handle_client_def close_done_def remove_disconnected_def locked_Some
    exclusive_def ws_updates split: if_splits\<close>)

lemma ws_run_exclusive: "ws_run lib steps st = Some (acts, st') \<Longrightarrow> exclusive st \<Longrightarrow> exclusive st'"
proof (induction steps arbitrary: st acts)
  case (Cons step steps)
  then show ?case using ws_run_Cons [OF Cons.prems(1)] ws_step_exclusive by metis
qed simp

lemma holder_not_free: "holds_lock addr st \<Longrightarrow> \<not> lock_free st"
  by (auto simp: holds_lock_def dest!: lock_freeD split: option.splits)

lemma stalled_step:
  assumes "ws_step lib step st = Some (acts, st')" and "holds_lock addr st" and "exclusive st" and "\<not> lets_go addr step"
  shows "acts = [] \<and> ws_clients st' = ws_clients st \<and> ws_sending st' = ws_sending st \<and> holds_lock addr st'"
proof (cases step)
  case (WsIncoming a msg)
  then show ?thesis
    using assms(1,2) holder_not_free [OF assms(2)]
    by (cases msg) (auto simp: ws_step_def handle_incoming_def locked_Some holds_lock_def ws_updates
        split: if_splits option.splits)
next
  case (WsBroadcast payload' order)
  then have "handle_payload lib payload' order st = Some (acts, st')" using assms(1) by (simp add: ws_step_def)
  then show ?thesis
    by (cases rule: payload_cases) (use holder_not_free [OF assms(2)] assms(2) in auto)
next
  case (WsSent a sends)
  then show ?thesis
    using assms(1,2,4) by (auto simp: ws_step_def send_done_def holds_lock_def split: option.splits list.splits if_splits)
next
  case (WsClosed a closes)
  then have "map_of (ws_tasks st) a = Some Closing" "a \<noteq> addr"
    using assms(1,4) by (auto simp: ws_step_def close_done_def split: if_splits)
  then have False using assms(2,3) by (auto simp: exclusive_def holds_lock_def)
  then show ?thesis ..
qed (use assms(1,2) holder_not_free [OF assms(2)] in \<open>auto simp: ws_step_def handle_client_def
    remove_disconnected_def locked_Some split: if_splits\<close>)

lemma stalled_run:
  "ws_run lib steps st = Some (acts, st') \<Longrightarrow> holds_lock addr st \<Longrightarrow> exclusive st \<Longrightarrow>
    list_all (\<lambda>step. \<not> lets_go addr step) steps \<Longrightarrow>
    acts = [] \<and> ws_clients st' = ws_clients st \<and> ws_sending st' = ws_sending st \<and> holds_lock addr st'"
proof (induction steps arbitrary: st acts)
  case (Cons step steps)
  obtain acts1 st1 acts2 where one: "ws_step lib step st = Some (acts1, st1)"
    and rest: "ws_run lib steps st1 = Some (acts2, st')" "acts = acts1 @ acts2"
    using ws_run_Cons [OF Cons.prems(1)] by blast
  show ?case
    using stalled_step [OF one Cons.prems(2,3)] Cons.IH [OF rest(1)] ws_step_exclusive [OF one Cons.prems(3)]
      Cons.prems(4) rest(2) by simp
qed simp

lemma init_exclusive: "exclusive ws_init"
  by (simp add: exclusive_def ws_init_def)

text \<open>C39: One client that stops reading stops the tool for all. While a broadcast waits for the send to a
client to finish, or a task for the close of its connection, nothing is sent to any client, no client is
registered or removed and no subscription changes, whatever arrives: the lock stays taken until that send
or close is over.\<close>

theorem stalled_client_blocks:
  assumes "ws_run lib before ws_init = Some (acts0, st0)" and "holds_lock addr st0"
    and "ws_run lib steps st0 = Some (acts, st)" and "list_all (\<lambda>step. \<not> lets_go addr step) steps"
  shows "acts = [] \<and> ws_clients st = ws_clients st0 \<and> ws_sending st = ws_sending st0 \<and> holds_lock addr st"
  using stalled_run [OF assms(3,2) _ assms(4)] ws_run_exclusive [OF assms(1) init_exclusive] by blast

lemma demo_stalled:
  "ws_run demo_lib (demo_before @ [WsBroadcast [1] [8, 7]]) ws_init = Some ([],
     \<lparr>ws_clients = [(7, ClientSubscriptions_default), (8, ClientSubscriptions_default\<lparr>cs_rpc := True\<rparr>)],
      ws_tasks = [(7, Reading), (8, Reading)], ws_sending = Some ([1], [8])\<rparr>)"
  unfolding ws_run_append demo_before_run
  by (simp add: ws_defs demo_defs insert_commute)

theorem stalled_client_blocks_witness:
  "\<exists>st. ws_run demo_lib [WsIncoming 7 InOther, WsAccept (9 :: nat) False, WsIncoming 7 InEnd]
      \<lparr>ws_clients = [(7, ClientSubscriptions_default), (8, ClientSubscriptions_default\<lparr>cs_rpc := True\<rparr>)],
       ws_tasks = [(7, Reading), (8, Reading)], ws_sending = Some ([1], [8])\<rparr> = Some ([], st) \<and>
    ws_sending st = Some ([1], [8]) \<and> holds_lock 8 st"
proof -
  let ?st = "\<lparr>ws_clients = [(7 :: nat, ClientSubscriptions_default), (8, ClientSubscriptions_default\<lparr>cs_rpc := True\<rparr>)],
       ws_tasks = [(7, Reading), (8, Reading)], ws_sending = Some ([1], [8])\<rparr>"
  let ?steps = "[WsIncoming 7 InOther, WsAccept (9 :: nat) False, WsIncoming 7 InEnd]"
  have "ws_run demo_lib ?steps ?st = Some ([], ?st\<lparr>ws_tasks := [(8, Reading)]\<rparr>)"
    by (simp add: ws_defs)
  moreover have "holds_lock 8 ?st" by (simp add: holds_lock_def)
  ultimately show ?thesis
    using stalled_client_blocks [OF demo_stalled, of 8 ?steps] by simp
qed

section \<open>Panics\<close>

text \<open>Until its client is disconnected, a task that reads finds the client in the map.\<close>

lemma client_step_panics:
  assumes "client_step lib addr step (subs, task, pending) = Some (acts, (subs', task', pending'))"
    and "task \<in> {Some Reading, Some Closing} \<Longrightarrow> subs \<noteq> None" and "task \<noteq> Some Removing"
  shows "WsDisconnect addr \<in> set acts \<or>
    WsPanic addr \<notin> set acts \<and> (task' \<in> {Some Reading, Some Closing} \<longrightarrow> subs' \<noteq> None) \<and> task' \<noteq> Some Removing"
proof (cases step)
  case (WsIncoming a msg)
  show ?thesis
  proof (cases msg)
    case (InText text')
    then show ?thesis
      using assms WsIncoming by (cases "is_valid_text lib text'"; cases subs) (auto dest: sym split: if_splits)
  qed (use assms WsIncoming in \<open>auto split: if_splits\<close>)
qed (use assms in \<open>auto split: option.splits if_splits\<close>)

lemma client_run_panics:
  "client_run lib addr steps (subs, task, pending) = Some (acts, v) \<Longrightarrow> WsPanic addr \<in> set acts \<Longrightarrow>
    (task \<in> {Some Reading, Some Closing} \<Longrightarrow> subs \<noteq> None) \<Longrightarrow> task \<noteq> Some Removing \<Longrightarrow> WsDisconnect addr \<in> set acts"
proof (induction steps arbitrary: subs task pending acts)
  case (Cons step steps)
  obtain acts1 subs' task' pending' acts2 where
    one: "client_step lib addr step (subs, task, pending) = Some (acts1, (subs', task', pending'))"
    and rest: "client_run lib addr steps (subs', task', pending') = Some (acts2, v)" "acts = acts1 @ acts2"
    using Cons.prems(1) by (auto split: option.splits)
  show ?case
    using client_step_panics [OF one Cons.prems(3,4)] Cons.IH [OF rest(1)] Cons.prems(2) rest(2) by auto
qed simp

text \<open>A task panics only on a text of a client it has disconnected. So when the stream of a connection
that was closed yields no further text, no task of the tool panics, whatever its clients send.\<close>

theorem panics_only_after_disconnect:
  assumes "ws_run lib steps ws_init = Some (acts, st)" and "WsPanic addr \<in> set acts"
  shows "WsDisconnect addr \<in> set acts"
proof -
  have "client_run lib addr steps (None, None, None) = Some (for_client addr acts, client_view addr st)"
    using ws_run_view [OF ws_init_view(2) assms(1), of addr] by simp
  moreover have "WsPanic addr \<in> set (for_client addr acts)" using assms(2) by (simp add: for_client_def)
  ultimately have "WsDisconnect addr \<in> set (for_client addr acts)" by (rule client_run_panics) simp_all
  then show ?thesis by (simp add: for_client_def)
qed

definition demo_panic :: "nat ws_step list" where
  "demo_panic =
     [WsAccept 7 True, WsIncoming 7 (InText []), WsClosed 7 True, WsRemove 7, WsIncoming 7 (InText [82])]"

theorem panics_only_after_disconnect_witness:
  "WsDisconnect 7 \<in> set [WsDisconnect 7, WsPanic (7 :: nat)]"
proof -
  have "ws_run demo_lib demo_panic ws_init = Some ([WsDisconnect 7, WsPanic 7],
      \<lparr>ws_clients = [], ws_tasks = [], ws_sending = None\<rparr>)"
    by (simp add: demo_panic_def ws_defs demo_defs)
  from panics_only_after_disconnect [OF this, of 7] show ?thesis by simp
qed

end
