(* ===== verification/SharedUtils.thy ===== *)
theory SharedUtils
  imports Listener RustIo Primitives
begin

text \<open>
  What all extractors and tools share (\<^verbatim>\<open>shared/src/nats_util.rs\<close>, \<^verbatim>\<open>shared/src/metricserver.rs\<close>): the
  options of the connection to NATS, and the server that answers every request with the metrics. The
  file with a password, the encoding of the registry and the fates of the reads and writes are inputs.
\<close>

section \<open>The connection to NATS\<close>

record NatsArgs =
  na_address :: ustring
  na_username :: "ustring option"
  na_password :: "ustring option"
  na_password_file :: "ustring option"

text \<open>Options with a user and password or without; the file cannot be read; a user without password.\<close>

datatype nats_options = NatsOptions "(ustring \<times> ustring) option" | NatsIoError | NatsPanic

definition prepare_connection :: "(ustring \<Rightarrow> file_result) \<Rightarrow> NatsArgs \<Rightarrow> nats_options" where
  "prepare_connection read args =
     (case na_username args of
        None \<Rightarrow> NatsOptions None
      | Some user \<Rightarrow>
          (case na_password args of
             Some password \<Rightarrow> NatsOptions (Some (user, password))
           | None \<Rightarrow>
               (case na_password_file args of
                  None \<Rightarrow> NatsPanic
                | Some pw_file \<Rightarrow>
                    (case read pw_file of
                       Content password \<Rightarrow> NatsOptions (Some (user, trim password))
                     | _ \<Rightarrow> NatsIoError))))"

lemma prepare_connection_panics_iff:
  "prepare_connection read args = NatsPanic \<longleftrightarrow>
     na_username args \<noteq> None \<and> na_password args = None \<and> na_password_file args = None"
  by (auto simp: prepare_connection_def split: option.splits file_result.splits)

text \<open>A password on the command line is used as it is and wins; one from a file loses the white space around it.\<close>

lemma password_from_file:
  assumes "na_username args = Some user" and "na_password args = None" and "na_password_file args = Some f"
    and "read f = Content (pre @ password @ post)" and "list_all is_whitespace pre" and "list_all is_whitespace post"
    and "password \<noteq> [] \<longrightarrow> \<not> is_whitespace (hd password) \<and> \<not> is_whitespace (last password)"
  shows "prepare_connection read args = NatsOptions (Some (user, password))"
proof -
  have pre: "dropWhile is_whitespace (pre @ xs) = dropWhile is_whitespace xs" for xs
    using assms(5) by (auto simp: list_all_iff dropWhile_append)
  have post: "dropWhile is_whitespace (rev post @ xs) = dropWhile is_whitespace xs" for xs
    using assms(6) by (auto simp: list_all_iff dropWhile_append)
  have "trim (pre @ password @ post) = password"
  proof (cases password rule: rev_cases)
    case Nil
    then show ?thesis using pre [of post] assms(6) by (auto simp: trim_def list_all_iff dest: set_dropWhileD)
  next
    case (snoc ys y)
    then obtain z zs where "password = z # zs" by (metis append_is_Nil_conv neq_Nil_conv)
    then have "dropWhile is_whitespace (password @ post) = password @ post" using assms(7) by simp
    moreover have "dropWhile is_whitespace (rev password) = rev password" using assms(7) snoc by simp
    ultimately show ?thesis by (simp add: trim_def pre post)
  qed
  then show ?thesis using assms(1-4) by (simp add: prepare_connection_def)
qed

section \<open>The metrics server\<close>

text \<open>A socket: what it has sent, and the fates of the writes to come. Flushing it does nothing.\<close>

record socket =
  so_sent :: "byte list"
  so_fates :: "fate list"

definition socket_write :: "byte list \<Rightarrow> socket \<Rightarrow> (io_error + nat) \<times> socket" where
  "socket_write data w =
     (case so_fates w of
        [] \<Rightarrow> (Inr (length data), w\<lparr>so_sent := so_sent w @ data\<rparr>)
      | Fails e # fs \<Rightarrow> (Inl e, w\<lparr>so_fates := fs\<rparr>)
      | Takes n # fs \<Rightarrow>
          (Inr (min n (length data)), w\<lparr>so_fates := fs, so_sent := so_sent w @ take n data\<rparr>))"

definition socket_flush :: "socket \<Rightarrow> (io_error + unit) \<times> socket" where
  "socket_flush w = (Inr (), w)"

definition socket_calm :: "socket \<Rightarrow> bool" where
  "socket_calm w \<longleftrightarrow> list_all takes_some (so_fates w)"

interpretation sock: byte_sink socket_write socket_flush so_sent so_sent socket_calm
  by unfold_locales
    (auto simp: socket_write_def socket_flush_def socket_calm_def min_def split: list.splits fate.splits)

datatype RequestHandlingError = RequestIo io_error | RequestUtf8 | RequestEncoding

text \<open>The header and the metrics.\<close>

definition http_response :: "byte list \<Rightarrow> byte list" where
  "http_response contents =
     ascii ''HTTP/1.1 200 OK'' @ [13, 10] @ ascii ''Content-Type: text/plain'' @ [13, 10] @
     ascii ''Content-Length: '' @ dec (length contents) @ [13, 10, 13, 10] @ contents"

text \<open>A request: what reading it fails with, and the encoded metrics, if encoding succeeds.\<close>

definition handle_request ::
    "io_error option \<Rightarrow> byte list option \<Rightarrow> socket \<Rightarrow> (RequestHandlingError + unit) \<times> socket" where
  "handle_request read_error encoded w =
     (case read_error of
        Some e \<Rightarrow> (Inl (RequestIo e), w)
      | None \<Rightarrow>
          (case encoded of
             None \<Rightarrow> (Inl RequestEncoding, w)
           | Some contents \<Rightarrow>
               if \<not> utf8_valid contents then (Inl RequestUtf8, w)
               else (case write_all socket_write (http_response contents) w of
                  (Inl e, w') \<Rightarrow> (Inl (RequestIo e), w')
                | (Inr _, w') \<Rightarrow>
                    (case socket_flush w' of
                       (Inl e, w'') \<Rightarrow> (Inl (RequestIo e), w'')
                     | (Inr _, w'') \<Rightarrow> (Inr (), w'')))))"

text \<open>
  A request that is handled without an error has been sent exactly the response, one that is not a
  beginning of it; a request that can be read from a socket that takes its bytes is handled.
\<close>

lemma handle_request_sends:
  assumes "handle_request read_error (Some contents) \<lparr>so_sent = [], so_fates = fates\<rparr> = (r, w)"
  shows "case r of Inr u \<Rightarrow> so_sent w = http_response contents | Inl e \<Rightarrow> prefix (so_sent w) (http_response contents)"
proof -
  obtain q w' where all: "write_all socket_write (http_response contents) \<lparr>so_sent = [], so_fates = fates\<rparr> = (q, w')"
    by (meson surj_pair)
  then show ?thesis
    using assms sock.write_all_ok [of "http_response contents" "\<lparr>so_sent = [], so_fates = fates\<rparr>"]
      sock.write_all_err [of "http_response contents" "\<lparr>so_sent = [], so_fates = fates\<rparr>"]
    by (cases q) (auto simp: handle_request_def socket_flush_def take_is_prefix split: option.splits if_splits)
qed

lemma handle_request_answers:
  assumes "utf8_valid contents" and "list_all takes_some fates"
  shows "\<exists>w. handle_request None (Some contents) \<lparr>so_sent = [], so_fates = fates\<rparr> = (Inr (), w) \<and>
    so_sent w = http_response contents"
proof -
  have "socket_calm \<lparr>so_sent = [], so_fates = fates\<rparr>" using assms(2) by (simp add: socket_calm_def)
  from sock.write_all_calm [OF this, of "http_response contents"] obtain w where
    "write_all socket_write (http_response contents) \<lparr>so_sent = [], so_fates = fates\<rparr> = (Inr (), w)" by blast
  then have "handle_request None (Some contents) \<lparr>so_sent = [], so_fates = fates\<rparr> = (Inr (), w)"
    using assms(1) by (simp add: handle_request_def socket_flush_def)
  then show ?thesis using handle_request_sends by fastforce
qed

text \<open>
  The server handles one request after the other, and goes on after any error. A request whose reading
  never returns is none of these: it keeps those after it waiting.
\<close>

datatype incoming = AcceptError | Request "io_error option" "byte list option" "fate list"

fun serve :: "incoming list \<Rightarrow> (RequestHandlingError + unit) list" where
  "serve [] = []"
| "serve (AcceptError # ins) = serve ins"
| "serve (Request read_error encoded fates # ins) =
     fst (handle_request read_error encoded \<lparr>so_sent = [], so_fates = fates\<rparr>) # serve ins"

end
