(* ===== verification/VmlinuxX86Enums.thy ===== *)
theory VmlinuxX86Enums
  imports CLayout
begin

text \<open>
  The BPF enumerations of the x86_64 kernel header the BPF program is compiled against
  (\<^verbatim>\<open>vmlinux/x86_64/vmlinux.h\<close>), the named ones and the unnamed ones whose first
  enumerator is a BPF name: every enumerator with its value, in the header's order.
\<close>

definition x86_netns_bpf_attach_type :: "(string \<times> int) list" where
  "x86_netns_bpf_attach_type = [
     (''NETNS_BPF_INVALID'', - 1), (''NETNS_BPF_FLOW_DISSECTOR'', 0), (''NETNS_BPF_SK_LOOKUP'',
     1), (''MAX_NETNS_BPF_ATTACH_TYPE'', 2)]"

definition x86_bpf_netdev_command :: "(string \<times> int) list" where
  "x86_bpf_netdev_command = [
     (''XDP_SETUP_PROG'', 0), (''XDP_SETUP_PROG_HW'', 1), (''BPF_OFFLOAD_MAP_ALLOC'', 2),
     (''BPF_OFFLOAD_MAP_FREE'', 3), (''XDP_SETUP_XSK_POOL'', 4)]"

definition x86_bpf_xdp_mode :: "(string \<times> int) list" where
  "x86_bpf_xdp_mode = [
     (''XDP_MODE_SKB'', 0), (''XDP_MODE_DRV'', 1), (''XDP_MODE_HW'', 2), (''__MAX_XDP_MODE'', 3)]"

definition x86_cgroup_bpf_attach_type :: "(string \<times> int) list" where
  "x86_cgroup_bpf_attach_type = [
     (''CGROUP_BPF_ATTACH_TYPE_INVALID'', - 1), (''CGROUP_INET_INGRESS'', 0),
     (''CGROUP_INET_EGRESS'', 1), (''CGROUP_INET_SOCK_CREATE'', 2), (''CGROUP_SOCK_OPS'', 3),
     (''CGROUP_DEVICE'', 4), (''CGROUP_INET4_BIND'', 5), (''CGROUP_INET6_BIND'', 6),
     (''CGROUP_INET4_CONNECT'', 7), (''CGROUP_INET6_CONNECT'', 8), (''CGROUP_INET4_POST_BIND'',
     9), (''CGROUP_INET6_POST_BIND'', 10), (''CGROUP_UDP4_SENDMSG'', 11),
     (''CGROUP_UDP6_SENDMSG'', 12), (''CGROUP_SYSCTL'', 13), (''CGROUP_UDP4_RECVMSG'', 14),
     (''CGROUP_UDP6_RECVMSG'', 15), (''CGROUP_GETSOCKOPT'', 16), (''CGROUP_SETSOCKOPT'', 17),
     (''CGROUP_INET4_GETPEERNAME'', 18), (''CGROUP_INET6_GETPEERNAME'', 19),
     (''CGROUP_INET4_GETSOCKNAME'', 20), (''CGROUP_INET6_GETSOCKNAME'', 21),
     (''CGROUP_INET_SOCK_RELEASE'', 22), (''CGROUP_LSM_START'', 23), (''CGROUP_LSM_END'', 32),
     (''MAX_CGROUP_BPF_ATTACH_TYPE'', 33)]"

definition x86_bpf_type_flag :: "(string \<times> int) list" where
  "x86_bpf_type_flag = [
     (''PTR_MAYBE_NULL'', 256), (''MEM_RDONLY'', 512), (''MEM_ALLOC'', 1024), (''MEM_USER'',
     2048), (''MEM_PERCPU'', 4096), (''OBJ_RELEASE'', 8192), (''PTR_UNTRUSTED'', 16384),
     (''MEM_UNINIT'', 32768), (''DYNPTR_TYPE_LOCAL'', 65536), (''DYNPTR_TYPE_RINGBUF'', 131072),
     (''MEM_FIXED_SIZE'', 262144), (''__BPF_TYPE_FLAG_MAX'', 262145), (''__BPF_TYPE_LAST_FLAG'',
     262144)]"

definition x86_bpf_arg_type :: "(string \<times> int) list" where
  "x86_bpf_arg_type = [
     (''ARG_DONTCARE'', 0), (''ARG_CONST_MAP_PTR'', 1), (''ARG_PTR_TO_MAP_KEY'', 2),
     (''ARG_PTR_TO_MAP_VALUE'', 3), (''ARG_PTR_TO_MEM'', 4), (''ARG_CONST_SIZE'', 5),
     (''ARG_CONST_SIZE_OR_ZERO'', 6), (''ARG_PTR_TO_CTX'', 7), (''ARG_ANYTHING'', 8),
     (''ARG_PTR_TO_SPIN_LOCK'', 9), (''ARG_PTR_TO_SOCK_COMMON'', 10), (''ARG_PTR_TO_INT'', 11),
     (''ARG_PTR_TO_LONG'', 12), (''ARG_PTR_TO_SOCKET'', 13), (''ARG_PTR_TO_BTF_ID'', 14),
     (''ARG_PTR_TO_ALLOC_MEM'', 15), (''ARG_CONST_ALLOC_SIZE_OR_ZERO'', 16),
     (''ARG_PTR_TO_BTF_ID_SOCK_COMMON'', 17), (''ARG_PTR_TO_PERCPU_BTF_ID'', 18),
     (''ARG_PTR_TO_FUNC'', 19), (''ARG_PTR_TO_STACK'', 20), (''ARG_PTR_TO_CONST_STR'', 21),
     (''ARG_PTR_TO_TIMER'', 22), (''ARG_PTR_TO_KPTR'', 23), (''ARG_PTR_TO_DYNPTR'', 24),
     (''__BPF_ARG_TYPE_MAX'', 25), (''ARG_PTR_TO_MAP_VALUE_OR_NULL'', 259),
     (''ARG_PTR_TO_MEM_OR_NULL'', 260), (''ARG_PTR_TO_CTX_OR_NULL'', 263),
     (''ARG_PTR_TO_SOCKET_OR_NULL'', 269), (''ARG_PTR_TO_ALLOC_MEM_OR_NULL'', 271),
     (''ARG_PTR_TO_STACK_OR_NULL'', 276), (''ARG_PTR_TO_BTF_ID_OR_NULL'', 270),
     (''ARG_PTR_TO_UNINIT_MEM'', 32772), (''ARG_PTR_TO_FIXED_SIZE_MEM'', 262148),
     (''__BPF_ARG_TYPE_LIMIT'', 524287)]"

definition x86_bpf_return_type :: "(string \<times> int) list" where
  "x86_bpf_return_type = [
     (''RET_INTEGER'', 0), (''RET_VOID'', 1), (''RET_PTR_TO_MAP_VALUE'', 2),
     (''RET_PTR_TO_SOCKET'', 3), (''RET_PTR_TO_TCP_SOCK'', 4), (''RET_PTR_TO_SOCK_COMMON'', 5),
     (''RET_PTR_TO_ALLOC_MEM'', 6), (''RET_PTR_TO_MEM_OR_BTF_ID'', 7), (''RET_PTR_TO_BTF_ID'', 8),
     (''__BPF_RET_TYPE_MAX'', 9), (''RET_PTR_TO_MAP_VALUE_OR_NULL'', 258),
     (''RET_PTR_TO_SOCKET_OR_NULL'', 259), (''RET_PTR_TO_TCP_SOCK_OR_NULL'', 260),
     (''RET_PTR_TO_SOCK_COMMON_OR_NULL'', 261), (''RET_PTR_TO_ALLOC_MEM_OR_NULL'', 1286),
     (''RET_PTR_TO_DYNPTR_MEM_OR_NULL'', 262), (''RET_PTR_TO_BTF_ID_OR_NULL'', 264),
     (''__BPF_RET_TYPE_LIMIT'', 524287)]"

definition x86_bpf_reg_type :: "(string \<times> int) list" where
  "x86_bpf_reg_type = [
     (''NOT_INIT'', 0), (''SCALAR_VALUE'', 1), (''PTR_TO_CTX'', 2), (''CONST_PTR_TO_MAP'', 3),
     (''PTR_TO_MAP_VALUE'', 4), (''PTR_TO_MAP_KEY'', 5), (''PTR_TO_STACK'', 6),
     (''PTR_TO_PACKET_META'', 7), (''PTR_TO_PACKET'', 8), (''PTR_TO_PACKET_END'', 9),
     (''PTR_TO_FLOW_KEYS'', 10), (''PTR_TO_SOCKET'', 11), (''PTR_TO_SOCK_COMMON'', 12),
     (''PTR_TO_TCP_SOCK'', 13), (''PTR_TO_TP_BUFFER'', 14), (''PTR_TO_XDP_SOCK'', 15),
     (''PTR_TO_BTF_ID'', 16), (''PTR_TO_MEM'', 17), (''PTR_TO_BUF'', 18), (''PTR_TO_FUNC'', 19),
     (''PTR_TO_DYNPTR'', 20), (''__BPF_REG_TYPE_MAX'', 21), (''PTR_TO_MAP_VALUE_OR_NULL'', 260),
     (''PTR_TO_SOCKET_OR_NULL'', 267), (''PTR_TO_SOCK_COMMON_OR_NULL'', 268),
     (''PTR_TO_TCP_SOCK_OR_NULL'', 269), (''PTR_TO_BTF_ID_OR_NULL'', 272),
     (''__BPF_REG_TYPE_LIMIT'', 524287)]"

definition x86_bpf_cgroup_storage_type :: "(string \<times> int) list" where
  "x86_bpf_cgroup_storage_type = [
     (''BPF_CGROUP_STORAGE_SHARED'', 0), (''BPF_CGROUP_STORAGE_PERCPU'', 1),
     (''__BPF_CGROUP_STORAGE_MAX'', 2)]"

definition x86_bpf_tramp_prog_type :: "(string \<times> int) list" where
  "x86_bpf_tramp_prog_type = [
     (''BPF_TRAMP_FENTRY'', 0), (''BPF_TRAMP_FEXIT'', 1), (''BPF_TRAMP_MODIFY_RETURN'', 2),
     (''BPF_TRAMP_MAX'', 3), (''BPF_TRAMP_REPLACE'', 4)]"

definition x86_bpf_prog_type :: "(string \<times> int) list" where
  "x86_bpf_prog_type = [
     (''BPF_PROG_TYPE_UNSPEC'', 0), (''BPF_PROG_TYPE_SOCKET_FILTER'', 1),
     (''BPF_PROG_TYPE_KPROBE'', 2), (''BPF_PROG_TYPE_SCHED_CLS'', 3),
     (''BPF_PROG_TYPE_SCHED_ACT'', 4), (''BPF_PROG_TYPE_TRACEPOINT'', 5), (''BPF_PROG_TYPE_XDP'',
     6), (''BPF_PROG_TYPE_PERF_EVENT'', 7), (''BPF_PROG_TYPE_CGROUP_SKB'', 8),
     (''BPF_PROG_TYPE_CGROUP_SOCK'', 9), (''BPF_PROG_TYPE_LWT_IN'', 10),
     (''BPF_PROG_TYPE_LWT_OUT'', 11), (''BPF_PROG_TYPE_LWT_XMIT'', 12),
     (''BPF_PROG_TYPE_SOCK_OPS'', 13), (''BPF_PROG_TYPE_SK_SKB'', 14),
     (''BPF_PROG_TYPE_CGROUP_DEVICE'', 15), (''BPF_PROG_TYPE_SK_MSG'', 16),
     (''BPF_PROG_TYPE_RAW_TRACEPOINT'', 17), (''BPF_PROG_TYPE_CGROUP_SOCK_ADDR'', 18),
     (''BPF_PROG_TYPE_LWT_SEG6LOCAL'', 19), (''BPF_PROG_TYPE_LIRC_MODE2'', 20),
     (''BPF_PROG_TYPE_SK_REUSEPORT'', 21), (''BPF_PROG_TYPE_FLOW_DISSECTOR'', 22),
     (''BPF_PROG_TYPE_CGROUP_SYSCTL'', 23), (''BPF_PROG_TYPE_RAW_TRACEPOINT_WRITABLE'', 24),
     (''BPF_PROG_TYPE_CGROUP_SOCKOPT'', 25), (''BPF_PROG_TYPE_TRACING'', 26),
     (''BPF_PROG_TYPE_STRUCT_OPS'', 27), (''BPF_PROG_TYPE_EXT'', 28), (''BPF_PROG_TYPE_LSM'', 29),
     (''BPF_PROG_TYPE_SK_LOOKUP'', 30), (''BPF_PROG_TYPE_SYSCALL'', 31)]"

definition x86_bpf_attach_type :: "(string \<times> int) list" where
  "x86_bpf_attach_type = [
     (''BPF_CGROUP_INET_INGRESS'', 0), (''BPF_CGROUP_INET_EGRESS'', 1),
     (''BPF_CGROUP_INET_SOCK_CREATE'', 2), (''BPF_CGROUP_SOCK_OPS'', 3),
     (''BPF_SK_SKB_STREAM_PARSER'', 4), (''BPF_SK_SKB_STREAM_VERDICT'', 5),
     (''BPF_CGROUP_DEVICE'', 6), (''BPF_SK_MSG_VERDICT'', 7), (''BPF_CGROUP_INET4_BIND'', 8),
     (''BPF_CGROUP_INET6_BIND'', 9), (''BPF_CGROUP_INET4_CONNECT'', 10),
     (''BPF_CGROUP_INET6_CONNECT'', 11), (''BPF_CGROUP_INET4_POST_BIND'', 12),
     (''BPF_CGROUP_INET6_POST_BIND'', 13), (''BPF_CGROUP_UDP4_SENDMSG'', 14),
     (''BPF_CGROUP_UDP6_SENDMSG'', 15), (''BPF_LIRC_MODE2'', 16), (''BPF_FLOW_DISSECTOR'', 17),
     (''BPF_CGROUP_SYSCTL'', 18), (''BPF_CGROUP_UDP4_RECVMSG'', 19), (''BPF_CGROUP_UDP6_RECVMSG'',
     20), (''BPF_CGROUP_GETSOCKOPT'', 21), (''BPF_CGROUP_SETSOCKOPT'', 22), (''BPF_TRACE_RAW_TP'',
     23), (''BPF_TRACE_FENTRY'', 24), (''BPF_TRACE_FEXIT'', 25), (''BPF_MODIFY_RETURN'', 26),
     (''BPF_LSM_MAC'', 27), (''BPF_TRACE_ITER'', 28), (''BPF_CGROUP_INET4_GETPEERNAME'', 29),
     (''BPF_CGROUP_INET6_GETPEERNAME'', 30), (''BPF_CGROUP_INET4_GETSOCKNAME'', 31),
     (''BPF_CGROUP_INET6_GETSOCKNAME'', 32), (''BPF_XDP_DEVMAP'', 33),
     (''BPF_CGROUP_INET_SOCK_RELEASE'', 34), (''BPF_XDP_CPUMAP'', 35), (''BPF_SK_LOOKUP'', 36),
     (''BPF_XDP'', 37), (''BPF_SK_SKB_VERDICT'', 38), (''BPF_SK_REUSEPORT_SELECT'', 39),
     (''BPF_SK_REUSEPORT_SELECT_OR_MIGRATE'', 40), (''BPF_PERF_EVENT'', 41),
     (''BPF_TRACE_KPROBE_MULTI'', 42), (''BPF_LSM_CGROUP'', 43), (''__MAX_BPF_ATTACH_TYPE'', 44)]"

definition x86_bpf_map_type :: "(string \<times> int) list" where
  "x86_bpf_map_type = [
     (''BPF_MAP_TYPE_UNSPEC'', 0), (''BPF_MAP_TYPE_HASH'', 1), (''BPF_MAP_TYPE_ARRAY'', 2),
     (''BPF_MAP_TYPE_PROG_ARRAY'', 3), (''BPF_MAP_TYPE_PERF_EVENT_ARRAY'', 4),
     (''BPF_MAP_TYPE_PERCPU_HASH'', 5), (''BPF_MAP_TYPE_PERCPU_ARRAY'', 6),
     (''BPF_MAP_TYPE_STACK_TRACE'', 7), (''BPF_MAP_TYPE_CGROUP_ARRAY'', 8),
     (''BPF_MAP_TYPE_LRU_HASH'', 9), (''BPF_MAP_TYPE_LRU_PERCPU_HASH'', 10),
     (''BPF_MAP_TYPE_LPM_TRIE'', 11), (''BPF_MAP_TYPE_ARRAY_OF_MAPS'', 12),
     (''BPF_MAP_TYPE_HASH_OF_MAPS'', 13), (''BPF_MAP_TYPE_DEVMAP'', 14),
     (''BPF_MAP_TYPE_SOCKMAP'', 15), (''BPF_MAP_TYPE_CPUMAP'', 16), (''BPF_MAP_TYPE_XSKMAP'', 17),
     (''BPF_MAP_TYPE_SOCKHASH'', 18), (''BPF_MAP_TYPE_CGROUP_STORAGE'', 19),
     (''BPF_MAP_TYPE_REUSEPORT_SOCKARRAY'', 20), (''BPF_MAP_TYPE_PERCPU_CGROUP_STORAGE'', 21),
     (''BPF_MAP_TYPE_QUEUE'', 22), (''BPF_MAP_TYPE_STACK'', 23), (''BPF_MAP_TYPE_SK_STORAGE'',
     24), (''BPF_MAP_TYPE_DEVMAP_HASH'', 25), (''BPF_MAP_TYPE_STRUCT_OPS'', 26),
     (''BPF_MAP_TYPE_RINGBUF'', 27), (''BPF_MAP_TYPE_INODE_STORAGE'', 28),
     (''BPF_MAP_TYPE_TASK_STORAGE'', 29), (''BPF_MAP_TYPE_BLOOM_FILTER'', 30),
     (''BPF_MAP_TYPE_USER_RINGBUF'', 31)]"

definition x86_bpf_cgroup_iter_order :: "(string \<times> int) list" where
  "x86_bpf_cgroup_iter_order = [
     (''BPF_CGROUP_ITER_ORDER_UNSPEC'', 0), (''BPF_CGROUP_ITER_SELF_ONLY'', 1),
     (''BPF_CGROUP_ITER_DESCENDANTS_PRE'', 2), (''BPF_CGROUP_ITER_DESCENDANTS_POST'', 3),
     (''BPF_CGROUP_ITER_ANCESTORS_UP'', 4)]"

definition x86_bpf_link_type :: "(string \<times> int) list" where
  "x86_bpf_link_type = [
     (''BPF_LINK_TYPE_UNSPEC'', 0), (''BPF_LINK_TYPE_RAW_TRACEPOINT'', 1),
     (''BPF_LINK_TYPE_TRACING'', 2), (''BPF_LINK_TYPE_CGROUP'', 3), (''BPF_LINK_TYPE_ITER'', 4),
     (''BPF_LINK_TYPE_NETNS'', 5), (''BPF_LINK_TYPE_XDP'', 6), (''BPF_LINK_TYPE_PERF_EVENT'', 7),
     (''BPF_LINK_TYPE_KPROBE_MULTI'', 8), (''BPF_LINK_TYPE_STRUCT_OPS'', 9),
     (''MAX_BPF_LINK_TYPE'', 10)]"

definition x86_bpf_iter_task_type :: "(string \<times> int) list" where
  "x86_bpf_iter_task_type = [
     (''BPF_TASK_ITER_ALL'', 0), (''BPF_TASK_ITER_TID'', 1), (''BPF_TASK_ITER_TGID'', 2)]"

definition x86_bpf_kptr_type :: "(string \<times> int) list" where
  "x86_bpf_kptr_type = [
     (''BPF_KPTR_UNREF'', 0), (''BPF_KPTR_REF'', 1)]"

definition x86_bpf_jit_poke_reason :: "(string \<times> int) list" where
  "x86_bpf_jit_poke_reason = [
     (''BPF_POKE_REASON_TAIL_CALL'', 0)]"

definition x86_bpf_text_poke_type :: "(string \<times> int) list" where
  "x86_bpf_text_poke_type = [
     (''BPF_MOD_CALL'', 0), (''BPF_MOD_JUMP'', 1)]"

definition x86_bpf_func_id :: "(string \<times> int) list" where
  "x86_bpf_func_id = [
     (''BPF_FUNC_unspec'', 0), (''BPF_FUNC_map_lookup_elem'', 1), (''BPF_FUNC_map_update_elem'',
     2), (''BPF_FUNC_map_delete_elem'', 3), (''BPF_FUNC_probe_read'', 4),
     (''BPF_FUNC_ktime_get_ns'', 5), (''BPF_FUNC_trace_printk'', 6),
     (''BPF_FUNC_get_prandom_u32'', 7), (''BPF_FUNC_get_smp_processor_id'', 8),
     (''BPF_FUNC_skb_store_bytes'', 9), (''BPF_FUNC_l3_csum_replace'', 10),
     (''BPF_FUNC_l4_csum_replace'', 11), (''BPF_FUNC_tail_call'', 12),
     (''BPF_FUNC_clone_redirect'', 13), (''BPF_FUNC_get_current_pid_tgid'', 14),
     (''BPF_FUNC_get_current_uid_gid'', 15), (''BPF_FUNC_get_current_comm'', 16),
     (''BPF_FUNC_get_cgroup_classid'', 17), (''BPF_FUNC_skb_vlan_push'', 18),
     (''BPF_FUNC_skb_vlan_pop'', 19), (''BPF_FUNC_skb_get_tunnel_key'', 20),
     (''BPF_FUNC_skb_set_tunnel_key'', 21), (''BPF_FUNC_perf_event_read'', 22),
     (''BPF_FUNC_redirect'', 23), (''BPF_FUNC_get_route_realm'', 24),
     (''BPF_FUNC_perf_event_output'', 25), (''BPF_FUNC_skb_load_bytes'', 26),
     (''BPF_FUNC_get_stackid'', 27), (''BPF_FUNC_csum_diff'', 28),
     (''BPF_FUNC_skb_get_tunnel_opt'', 29), (''BPF_FUNC_skb_set_tunnel_opt'', 30),
     (''BPF_FUNC_skb_change_proto'', 31), (''BPF_FUNC_skb_change_type'', 32),
     (''BPF_FUNC_skb_under_cgroup'', 33), (''BPF_FUNC_get_hash_recalc'', 34),
     (''BPF_FUNC_get_current_task'', 35), (''BPF_FUNC_probe_write_user'', 36),
     (''BPF_FUNC_current_task_under_cgroup'', 37), (''BPF_FUNC_skb_change_tail'', 38),
     (''BPF_FUNC_skb_pull_data'', 39), (''BPF_FUNC_csum_update'', 40),
     (''BPF_FUNC_set_hash_invalid'', 41), (''BPF_FUNC_get_numa_node_id'', 42),
     (''BPF_FUNC_skb_change_head'', 43), (''BPF_FUNC_xdp_adjust_head'', 44),
     (''BPF_FUNC_probe_read_str'', 45), (''BPF_FUNC_get_socket_cookie'', 46),
     (''BPF_FUNC_get_socket_uid'', 47), (''BPF_FUNC_set_hash'', 48), (''BPF_FUNC_setsockopt'',
     49), (''BPF_FUNC_skb_adjust_room'', 50), (''BPF_FUNC_redirect_map'', 51),
     (''BPF_FUNC_sk_redirect_map'', 52), (''BPF_FUNC_sock_map_update'', 53),
     (''BPF_FUNC_xdp_adjust_meta'', 54), (''BPF_FUNC_perf_event_read_value'', 55),
     (''BPF_FUNC_perf_prog_read_value'', 56), (''BPF_FUNC_getsockopt'', 57),
     (''BPF_FUNC_override_return'', 58), (''BPF_FUNC_sock_ops_cb_flags_set'', 59),
     (''BPF_FUNC_msg_redirect_map'', 60), (''BPF_FUNC_msg_apply_bytes'', 61),
     (''BPF_FUNC_msg_cork_bytes'', 62), (''BPF_FUNC_msg_pull_data'', 63), (''BPF_FUNC_bind'', 64),
     (''BPF_FUNC_xdp_adjust_tail'', 65), (''BPF_FUNC_skb_get_xfrm_state'', 66),
     (''BPF_FUNC_get_stack'', 67), (''BPF_FUNC_skb_load_bytes_relative'', 68),
     (''BPF_FUNC_fib_lookup'', 69), (''BPF_FUNC_sock_hash_update'', 70),
     (''BPF_FUNC_msg_redirect_hash'', 71), (''BPF_FUNC_sk_redirect_hash'', 72),
     (''BPF_FUNC_lwt_push_encap'', 73), (''BPF_FUNC_lwt_seg6_store_bytes'', 74),
     (''BPF_FUNC_lwt_seg6_adjust_srh'', 75), (''BPF_FUNC_lwt_seg6_action'', 76),
     (''BPF_FUNC_rc_repeat'', 77), (''BPF_FUNC_rc_keydown'', 78), (''BPF_FUNC_skb_cgroup_id'',
     79), (''BPF_FUNC_get_current_cgroup_id'', 80), (''BPF_FUNC_get_local_storage'', 81),
     (''BPF_FUNC_sk_select_reuseport'', 82), (''BPF_FUNC_skb_ancestor_cgroup_id'', 83),
     (''BPF_FUNC_sk_lookup_tcp'', 84), (''BPF_FUNC_sk_lookup_udp'', 85), (''BPF_FUNC_sk_release'',
     86), (''BPF_FUNC_map_push_elem'', 87), (''BPF_FUNC_map_pop_elem'', 88),
     (''BPF_FUNC_map_peek_elem'', 89), (''BPF_FUNC_msg_push_data'', 90),
     (''BPF_FUNC_msg_pop_data'', 91), (''BPF_FUNC_rc_pointer_rel'', 92), (''BPF_FUNC_spin_lock'',
     93), (''BPF_FUNC_spin_unlock'', 94), (''BPF_FUNC_sk_fullsock'', 95), (''BPF_FUNC_tcp_sock'',
     96), (''BPF_FUNC_skb_ecn_set_ce'', 97), (''BPF_FUNC_get_listener_sock'', 98),
     (''BPF_FUNC_skc_lookup_tcp'', 99), (''BPF_FUNC_tcp_check_syncookie'', 100),
     (''BPF_FUNC_sysctl_get_name'', 101), (''BPF_FUNC_sysctl_get_current_value'', 102),
     (''BPF_FUNC_sysctl_get_new_value'', 103), (''BPF_FUNC_sysctl_set_new_value'', 104),
     (''BPF_FUNC_strtol'', 105), (''BPF_FUNC_strtoul'', 106), (''BPF_FUNC_sk_storage_get'', 107),
     (''BPF_FUNC_sk_storage_delete'', 108), (''BPF_FUNC_send_signal'', 109),
     (''BPF_FUNC_tcp_gen_syncookie'', 110), (''BPF_FUNC_skb_output'', 111),
     (''BPF_FUNC_probe_read_user'', 112), (''BPF_FUNC_probe_read_kernel'', 113),
     (''BPF_FUNC_probe_read_user_str'', 114), (''BPF_FUNC_probe_read_kernel_str'', 115),
     (''BPF_FUNC_tcp_send_ack'', 116), (''BPF_FUNC_send_signal_thread'', 117),
     (''BPF_FUNC_jiffies64'', 118), (''BPF_FUNC_read_branch_records'', 119),
     (''BPF_FUNC_get_ns_current_pid_tgid'', 120), (''BPF_FUNC_xdp_output'', 121),
     (''BPF_FUNC_get_netns_cookie'', 122), (''BPF_FUNC_get_current_ancestor_cgroup_id'', 123),
     (''BPF_FUNC_sk_assign'', 124), (''BPF_FUNC_ktime_get_boot_ns'', 125),
     (''BPF_FUNC_seq_printf'', 126), (''BPF_FUNC_seq_write'', 127), (''BPF_FUNC_sk_cgroup_id'',
     128), (''BPF_FUNC_sk_ancestor_cgroup_id'', 129), (''BPF_FUNC_ringbuf_output'', 130),
     (''BPF_FUNC_ringbuf_reserve'', 131), (''BPF_FUNC_ringbuf_submit'', 132),
     (''BPF_FUNC_ringbuf_discard'', 133), (''BPF_FUNC_ringbuf_query'', 134),
     (''BPF_FUNC_csum_level'', 135), (''BPF_FUNC_skc_to_tcp6_sock'', 136),
     (''BPF_FUNC_skc_to_tcp_sock'', 137), (''BPF_FUNC_skc_to_tcp_timewait_sock'', 138),
     (''BPF_FUNC_skc_to_tcp_request_sock'', 139), (''BPF_FUNC_skc_to_udp6_sock'', 140),
     (''BPF_FUNC_get_task_stack'', 141), (''BPF_FUNC_load_hdr_opt'', 142),
     (''BPF_FUNC_store_hdr_opt'', 143), (''BPF_FUNC_reserve_hdr_opt'', 144),
     (''BPF_FUNC_inode_storage_get'', 145), (''BPF_FUNC_inode_storage_delete'', 146),
     (''BPF_FUNC_d_path'', 147), (''BPF_FUNC_copy_from_user'', 148), (''BPF_FUNC_snprintf_btf'',
     149), (''BPF_FUNC_seq_printf_btf'', 150), (''BPF_FUNC_skb_cgroup_classid'', 151),
     (''BPF_FUNC_redirect_neigh'', 152), (''BPF_FUNC_per_cpu_ptr'', 153),
     (''BPF_FUNC_this_cpu_ptr'', 154), (''BPF_FUNC_redirect_peer'', 155),
     (''BPF_FUNC_task_storage_get'', 156), (''BPF_FUNC_task_storage_delete'', 157),
     (''BPF_FUNC_get_current_task_btf'', 158), (''BPF_FUNC_bprm_opts_set'', 159),
     (''BPF_FUNC_ktime_get_coarse_ns'', 160), (''BPF_FUNC_ima_inode_hash'', 161),
     (''BPF_FUNC_sock_from_file'', 162), (''BPF_FUNC_check_mtu'', 163),
     (''BPF_FUNC_for_each_map_elem'', 164), (''BPF_FUNC_snprintf'', 165), (''BPF_FUNC_sys_bpf'',
     166), (''BPF_FUNC_btf_find_by_name_kind'', 167), (''BPF_FUNC_sys_close'', 168),
     (''BPF_FUNC_timer_init'', 169), (''BPF_FUNC_timer_set_callback'', 170),
     (''BPF_FUNC_timer_start'', 171), (''BPF_FUNC_timer_cancel'', 172), (''BPF_FUNC_get_func_ip'',
     173), (''BPF_FUNC_get_attach_cookie'', 174), (''BPF_FUNC_task_pt_regs'', 175),
     (''BPF_FUNC_get_branch_snapshot'', 176), (''BPF_FUNC_trace_vprintk'', 177),
     (''BPF_FUNC_skc_to_unix_sock'', 178), (''BPF_FUNC_kallsyms_lookup_name'', 179),
     (''BPF_FUNC_find_vma'', 180), (''BPF_FUNC_loop'', 181), (''BPF_FUNC_strncmp'', 182),
     (''BPF_FUNC_get_func_arg'', 183), (''BPF_FUNC_get_func_ret'', 184),
     (''BPF_FUNC_get_func_arg_cnt'', 185), (''BPF_FUNC_get_retval'', 186),
     (''BPF_FUNC_set_retval'', 187), (''BPF_FUNC_xdp_get_buff_len'', 188),
     (''BPF_FUNC_xdp_load_bytes'', 189), (''BPF_FUNC_xdp_store_bytes'', 190),
     (''BPF_FUNC_copy_from_user_task'', 191), (''BPF_FUNC_skb_set_tstamp'', 192),
     (''BPF_FUNC_ima_file_hash'', 193), (''BPF_FUNC_kptr_xchg'', 194),
     (''BPF_FUNC_map_lookup_percpu_elem'', 195), (''BPF_FUNC_skc_to_mptcp_sock'', 196),
     (''BPF_FUNC_dynptr_from_mem'', 197), (''BPF_FUNC_ringbuf_reserve_dynptr'', 198),
     (''BPF_FUNC_ringbuf_submit_dynptr'', 199), (''BPF_FUNC_ringbuf_discard_dynptr'', 200),
     (''BPF_FUNC_dynptr_read'', 201), (''BPF_FUNC_dynptr_write'', 202), (''BPF_FUNC_dynptr_data'',
     203), (''BPF_FUNC_tcp_raw_gen_syncookie_ipv4'', 204),
     (''BPF_FUNC_tcp_raw_gen_syncookie_ipv6'', 205), (''BPF_FUNC_tcp_raw_check_syncookie_ipv4'',
     206), (''BPF_FUNC_tcp_raw_check_syncookie_ipv6'', 207), (''BPF_FUNC_ktime_get_tai_ns'', 208),
     (''BPF_FUNC_user_ringbuf_drain'', 209), (''__BPF_FUNC_MAX_ID'', 210)]"

definition x86_bpf_iter_feature :: "(string \<times> int) list" where
  "x86_bpf_iter_feature = [
     (''BPF_ITER_RESCHED'', 1)]"

definition x86_bpf_task_fd_type :: "(string \<times> int) list" where
  "x86_bpf_task_fd_type = [
     (''BPF_FD_TYPE_RAW_TRACEPOINT'', 0), (''BPF_FD_TYPE_TRACEPOINT'', 1),
     (''BPF_FD_TYPE_KPROBE'', 2), (''BPF_FD_TYPE_KRETPROBE'', 3), (''BPF_FD_TYPE_UPROBE'', 4),
     (''BPF_FD_TYPE_URETPROBE'', 5)]"

definition x86_bpf_access_type :: "(string \<times> int) list" where
  "x86_bpf_access_type = [
     (''BPF_READ'', 1), (''BPF_WRITE'', 2)]"

definition x86_bpf_dynptr_type :: "(string \<times> int) list" where
  "x86_bpf_dynptr_type = [
     (''BPF_DYNPTR_TYPE_INVALID'', 0), (''BPF_DYNPTR_TYPE_LOCAL'', 1),
     (''BPF_DYNPTR_TYPE_RINGBUF'', 2)]"

definition x86_bpf_reg_liveness :: "(string \<times> int) list" where
  "x86_bpf_reg_liveness = [
     (''REG_LIVE_NONE'', 0), (''REG_LIVE_READ32'', 1), (''REG_LIVE_READ64'', 2),
     (''REG_LIVE_READ'', 3), (''REG_LIVE_WRITTEN'', 4), (''REG_LIVE_DONE'', 8)]"

definition x86_bpf_cmd :: "(string \<times> int) list" where
  "x86_bpf_cmd = [
     (''BPF_MAP_CREATE'', 0), (''BPF_MAP_LOOKUP_ELEM'', 1), (''BPF_MAP_UPDATE_ELEM'', 2),
     (''BPF_MAP_DELETE_ELEM'', 3), (''BPF_MAP_GET_NEXT_KEY'', 4), (''BPF_PROG_LOAD'', 5),
     (''BPF_OBJ_PIN'', 6), (''BPF_OBJ_GET'', 7), (''BPF_PROG_ATTACH'', 8), (''BPF_PROG_DETACH'',
     9), (''BPF_PROG_TEST_RUN'', 10), (''BPF_PROG_RUN'', 10), (''BPF_PROG_GET_NEXT_ID'', 11),
     (''BPF_MAP_GET_NEXT_ID'', 12), (''BPF_PROG_GET_FD_BY_ID'', 13), (''BPF_MAP_GET_FD_BY_ID'',
     14), (''BPF_OBJ_GET_INFO_BY_FD'', 15), (''BPF_PROG_QUERY'', 16),
     (''BPF_RAW_TRACEPOINT_OPEN'', 17), (''BPF_BTF_LOAD'', 18), (''BPF_BTF_GET_FD_BY_ID'', 19),
     (''BPF_TASK_FD_QUERY'', 20), (''BPF_MAP_LOOKUP_AND_DELETE_ELEM'', 21), (''BPF_MAP_FREEZE'',
     22), (''BPF_BTF_GET_NEXT_ID'', 23), (''BPF_MAP_LOOKUP_BATCH'', 24),
     (''BPF_MAP_LOOKUP_AND_DELETE_BATCH'', 25), (''BPF_MAP_UPDATE_BATCH'', 26),
     (''BPF_MAP_DELETE_BATCH'', 27), (''BPF_LINK_CREATE'', 28), (''BPF_LINK_UPDATE'', 29),
     (''BPF_LINK_GET_FD_BY_ID'', 30), (''BPF_LINK_GET_NEXT_ID'', 31), (''BPF_ENABLE_STATS'', 32),
     (''BPF_ITER_CREATE'', 33), (''BPF_LINK_DETACH'', 34), (''BPF_PROG_BIND_MAP'', 35)]"

definition x86_bpf_stats_type :: "(string \<times> int) list" where
  "x86_bpf_stats_type = [
     (''BPF_STATS_RUN_TIME'', 0)]"

definition x86_perf_bpf_event_type :: "(string \<times> int) list" where
  "x86_perf_bpf_event_type = [
     (''PERF_BPF_EVENT_UNKNOWN'', 0), (''PERF_BPF_EVENT_PROG_LOAD'', 1),
     (''PERF_BPF_EVENT_PROG_UNLOAD'', 2), (''PERF_BPF_EVENT_MAX'', 3)]"

definition x86_bpf_audit :: "(string \<times> int) list" where
  "x86_bpf_audit = [
     (''BPF_AUDIT_LOAD'', 0), (''BPF_AUDIT_UNLOAD'', 1), (''BPF_AUDIT_MAX'', 2)]"

definition x86_bpf_core_relo_kind :: "(string \<times> int) list" where
  "x86_bpf_core_relo_kind = [
     (''BPF_CORE_FIELD_BYTE_OFFSET'', 0), (''BPF_CORE_FIELD_BYTE_SIZE'', 1),
     (''BPF_CORE_FIELD_EXISTS'', 2), (''BPF_CORE_FIELD_SIGNED'', 3),
     (''BPF_CORE_FIELD_LSHIFT_U64'', 4), (''BPF_CORE_FIELD_RSHIFT_U64'', 5),
     (''BPF_CORE_TYPE_ID_LOCAL'', 6), (''BPF_CORE_TYPE_ID_TARGET'', 7), (''BPF_CORE_TYPE_EXISTS'',
     8), (''BPF_CORE_TYPE_SIZE'', 9), (''BPF_CORE_ENUMVAL_EXISTS'', 10),
     (''BPF_CORE_ENUMVAL_VALUE'', 11), (''BPF_CORE_TYPE_MATCHES'', 12)]"

definition x86_bpf_stack_slot_type :: "(string \<times> int) list" where
  "x86_bpf_stack_slot_type = [
     (''STACK_INVALID'', 0), (''STACK_SPILL'', 1), (''STACK_MISC'', 2), (''STACK_ZERO'', 3),
     (''STACK_DYNPTR'', 4)]"

definition x86_bpf_access_src :: "(string \<times> int) list" where
  "x86_bpf_access_src = [
     (''ACCESS_DIRECT'', 1), (''ACCESS_HELPER'', 2)]"

definition x86_bpf_type :: "(string \<times> int) list" where
  "x86_bpf_type = [
     (''BPF_TYPE_UNSPEC'', 0), (''BPF_TYPE_PROG'', 1), (''BPF_TYPE_MAP'', 2), (''BPF_TYPE_LINK'',
     3)]"

definition x86_bpf_task_vma_iter_find_op :: "(string \<times> int) list" where
  "x86_bpf_task_vma_iter_find_op = [
     (''task_vma_iter_first_vma'', 0), (''task_vma_iter_next_vma'', 1),
     (''task_vma_iter_find_vma'', 2)]"

definition x86_bpf_lru_list_type :: "(string \<times> int) list" where
  "x86_bpf_lru_list_type = [
     (''BPF_LRU_LIST_T_ACTIVE'', 0), (''BPF_LRU_LIST_T_INACTIVE'', 1), (''BPF_LRU_LIST_T_FREE'',
     2), (''BPF_LRU_LOCAL_LIST_T_FREE'', 3), (''BPF_LRU_LOCAL_LIST_T_PENDING'', 4)]"

definition x86_bpf_struct_walk_result :: "(string \<times> int) list" where
  "x86_bpf_struct_walk_result = [
     (''WALK_SCALAR'', 0), (''WALK_PTR'', 1), (''WALK_STRUCT'', 2)]"

definition x86_bpf_stack_build_id_status :: "(string \<times> int) list" where
  "x86_bpf_stack_build_id_status = [
     (''BPF_STACK_BUILD_ID_EMPTY'', 0), (''BPF_STACK_BUILD_ID_VALID'', 1),
     (''BPF_STACK_BUILD_ID_IP'', 2)]"

definition x86_bpf_struct_ops_state :: "(string \<times> int) list" where
  "x86_bpf_struct_ops_state = [
     (''BPF_STRUCT_OPS_STATE_INIT'', 0), (''BPF_STRUCT_OPS_STATE_INUSE'', 1),
     (''BPF_STRUCT_OPS_STATE_TOBEFREE'', 2)]"

definition x86_bpf_ret_code :: "(string \<times> int) list" where
  "x86_bpf_ret_code = [
     (''BPF_OK'', 0), (''BPF_DROP'', 2), (''BPF_REDIRECT'', 7), (''BPF_LWT_REROUTE'', 128),
     (''BPF_FLOW_DISSECTOR_CONTINUE'', 129)]"

definition x86_bpf_adj_room_mode :: "(string \<times> int) list" where
  "x86_bpf_adj_room_mode = [
     (''BPF_ADJ_ROOM_NET'', 0), (''BPF_ADJ_ROOM_MAC'', 1)]"

definition x86_bpf_hdr_start_off :: "(string \<times> int) list" where
  "x86_bpf_hdr_start_off = [
     (''BPF_HDR_START_MAC'', 0), (''BPF_HDR_START_NET'', 1)]"

definition x86_bpf_lwt_encap_mode :: "(string \<times> int) list" where
  "x86_bpf_lwt_encap_mode = [
     (''BPF_LWT_ENCAP_SEG6'', 0), (''BPF_LWT_ENCAP_SEG6_INLINE'', 1), (''BPF_LWT_ENCAP_IP'', 2)]"

definition x86_bpf_check_mtu_flags :: "(string \<times> int) list" where
  "x86_bpf_check_mtu_flags = [
     (''BPF_MTU_CHK_SEGS'', 1)]"

definition x86_bpf_check_mtu_ret :: "(string \<times> int) list" where
  "x86_bpf_check_mtu_ret = [
     (''BPF_MTU_CHK_RET_SUCCESS'', 0), (''BPF_MTU_CHK_RET_FRAG_NEEDED'', 1),
     (''BPF_MTU_CHK_RET_SEGS_TOOBIG'', 2)]"

text \<open>The unnamed enumerations, each under the name of its first enumerator.\<close>

definition x86_anon_BPF_MAP_VALUE_OFF_MAX :: "(string \<times> int) list" where
  "x86_anon_BPF_MAP_VALUE_OFF_MAX = [
     (''BPF_MAP_VALUE_OFF_MAX'', 8), (''BPF_MAP_OFF_ARR_MAX'', 10)]"

definition x86_anon_BPF_REG_0 :: "(string \<times> int) list" where
  "x86_anon_BPF_REG_0 = [
     (''BPF_REG_0'', 0), (''BPF_REG_1'', 1), (''BPF_REG_2'', 2), (''BPF_REG_3'', 3),
     (''BPF_REG_4'', 4), (''BPF_REG_5'', 5), (''BPF_REG_6'', 6), (''BPF_REG_7'', 7),
     (''BPF_REG_8'', 8), (''BPF_REG_9'', 9), (''BPF_REG_10'', 10), (''__MAX_BPF_REG'', 11)]"

definition x86_anon_BPF_F_INDEX_MASK :: "(string \<times> int) list" where
  "x86_anon_BPF_F_INDEX_MASK = [
     (''BPF_F_INDEX_MASK'', 4294967295), (''BPF_F_CURRENT_CPU'', 4294967295),
     (''BPF_F_CTXLEN_MASK'', 4503595332403200)]"

definition x86_anon_BPF_F_GET_BRANCH_RECORDS_SIZE :: "(string \<times> int) list" where
  "x86_anon_BPF_F_GET_BRANCH_RECORDS_SIZE = [
     (''BPF_F_GET_BRANCH_RECORDS_SIZE'', 1)]"

definition x86_anon_BPF_ANY :: "(string \<times> int) list" where
  "x86_anon_BPF_ANY = [
     (''BPF_ANY'', 0), (''BPF_NOEXIST'', 1), (''BPF_EXIST'', 2), (''BPF_F_LOCK'', 4)]"

definition x86_anon_BPF_F_NO_PREALLOC :: "(string \<times> int) list" where
  "x86_anon_BPF_F_NO_PREALLOC = [
     (''BPF_F_NO_PREALLOC'', 1), (''BPF_F_NO_COMMON_LRU'', 2), (''BPF_F_NUMA_NODE'', 4),
     (''BPF_F_RDONLY'', 8), (''BPF_F_WRONLY'', 16), (''BPF_F_STACK_BUILD_ID'', 32),
     (''BPF_F_ZERO_SEED'', 64), (''BPF_F_RDONLY_PROG'', 128), (''BPF_F_WRONLY_PROG'', 256),
     (''BPF_F_CLONE'', 512), (''BPF_F_MMAPABLE'', 1024), (''BPF_F_PRESERVE_ELEMS'', 2048),
     (''BPF_F_INNER_MAP'', 4096)]"

definition x86_anon_BPF_RB_NO_WAKEUP :: "(string \<times> int) list" where
  "x86_anon_BPF_RB_NO_WAKEUP = [
     (''BPF_RB_NO_WAKEUP'', 1), (''BPF_RB_FORCE_WAKEUP'', 2)]"

definition x86_anon_BPF_RB_AVAIL_DATA :: "(string \<times> int) list" where
  "x86_anon_BPF_RB_AVAIL_DATA = [
     (''BPF_RB_AVAIL_DATA'', 0), (''BPF_RB_RING_SIZE'', 1), (''BPF_RB_CONS_POS'', 2),
     (''BPF_RB_PROD_POS'', 3)]"

definition x86_anon_BPF_RINGBUF_BUSY_BIT :: "(string \<times> int) list" where
  "x86_anon_BPF_RINGBUF_BUSY_BIT = [
     (''BPF_RINGBUF_BUSY_BIT'', 2147483648), (''BPF_RINGBUF_DISCARD_BIT'', 1073741824),
     (''BPF_RINGBUF_HDR_SZ'', 8)]"

definition x86_anon_BPF_LOCAL_STORAGE_GET_F_CREATE :: "(string \<times> int) list" where
  "x86_anon_BPF_LOCAL_STORAGE_GET_F_CREATE = [
     (''BPF_LOCAL_STORAGE_GET_F_CREATE'', 1), (''BPF_SK_STORAGE_GET_F_CREATE'', 1)]"

definition x86_anon___ctx_convertBPF_PROG_TYPE_SOCKET_FILTER :: "(string \<times> int) list" where
  "x86_anon___ctx_convertBPF_PROG_TYPE_SOCKET_FILTER = [
     (''__ctx_convertBPF_PROG_TYPE_SOCKET_FILTER'', 0), (''__ctx_convertBPF_PROG_TYPE_SCHED_CLS'',
     1), (''__ctx_convertBPF_PROG_TYPE_SCHED_ACT'', 2), (''__ctx_convertBPF_PROG_TYPE_XDP'', 3),
     (''__ctx_convertBPF_PROG_TYPE_CGROUP_SKB'', 4), (''__ctx_convertBPF_PROG_TYPE_CGROUP_SOCK'',
     5), (''__ctx_convertBPF_PROG_TYPE_CGROUP_SOCK_ADDR'', 6),
     (''__ctx_convertBPF_PROG_TYPE_LWT_IN'', 7), (''__ctx_convertBPF_PROG_TYPE_LWT_OUT'', 8),
     (''__ctx_convertBPF_PROG_TYPE_LWT_XMIT'', 9), (''__ctx_convertBPF_PROG_TYPE_LWT_SEG6LOCAL'',
     10), (''__ctx_convertBPF_PROG_TYPE_SOCK_OPS'', 11), (''__ctx_convertBPF_PROG_TYPE_SK_SKB'',
     12), (''__ctx_convertBPF_PROG_TYPE_SK_MSG'', 13),
     (''__ctx_convertBPF_PROG_TYPE_FLOW_DISSECTOR'', 14), (''__ctx_convertBPF_PROG_TYPE_KPROBE'',
     15), (''__ctx_convertBPF_PROG_TYPE_TRACEPOINT'', 16),
     (''__ctx_convertBPF_PROG_TYPE_PERF_EVENT'', 17),
     (''__ctx_convertBPF_PROG_TYPE_RAW_TRACEPOINT'', 18),
     (''__ctx_convertBPF_PROG_TYPE_RAW_TRACEPOINT_WRITABLE'', 19),
     (''__ctx_convertBPF_PROG_TYPE_TRACING'', 20), (''__ctx_convertBPF_PROG_TYPE_CGROUP_DEVICE'',
     21), (''__ctx_convertBPF_PROG_TYPE_CGROUP_SYSCTL'', 22),
     (''__ctx_convertBPF_PROG_TYPE_CGROUP_SOCKOPT'', 23),
     (''__ctx_convertBPF_PROG_TYPE_SK_REUSEPORT'', 24), (''__ctx_convertBPF_PROG_TYPE_SK_LOOKUP'',
     25), (''__ctx_convertBPF_PROG_TYPE_STRUCT_OPS'', 26), (''__ctx_convertBPF_PROG_TYPE_EXT'',
     27), (''__ctx_convertBPF_PROG_TYPE_LSM'', 28), (''__ctx_convertBPF_PROG_TYPE_SYSCALL'', 29),
     (''__ctx_convert_unused'', 30)]"

definition x86_anon_BPF_F_BROADCAST :: "(string \<times> int) list" where
  "x86_anon_BPF_F_BROADCAST = [
     (''BPF_F_BROADCAST'', 8), (''BPF_F_EXCLUDE_INGRESS'', 16)]"

definition x86_anon_BPF_F_SKIP_FIELD_MASK :: "(string \<times> int) list" where
  "x86_anon_BPF_F_SKIP_FIELD_MASK = [
     (''BPF_F_SKIP_FIELD_MASK'', 255), (''BPF_F_USER_STACK'', 256), (''BPF_F_FAST_STACK_CMP'',
     512), (''BPF_F_REUSE_STACKID'', 1024), (''BPF_F_USER_BUILD_ID'', 2048)]"

definition x86_anon_BPF_F_SYSCTL_BASE_NAME :: "(string \<times> int) list" where
  "x86_anon_BPF_F_SYSCTL_BASE_NAME = [
     (''BPF_F_SYSCTL_BASE_NAME'', 1)]"

definition x86_anon_BPF_STRUCT_OPS_TYPE_bpf_dummy_ops :: "(string \<times> int) list" where
  "x86_anon_BPF_STRUCT_OPS_TYPE_bpf_dummy_ops = [
     (''BPF_STRUCT_OPS_TYPE_bpf_dummy_ops'', 0), (''BPF_STRUCT_OPS_TYPE_tcp_congestion_ops'', 1),
     (''__NR_BPF_STRUCT_OPS_TYPE'', 2)]"

definition x86_anon_BPF_F_BPRM_SECUREEXEC :: "(string \<times> int) list" where
  "x86_anon_BPF_F_BPRM_SECUREEXEC = [
     (''BPF_F_BPRM_SECUREEXEC'', 1)]"

definition x86_anon_BPF_FLOW_DISSECTOR_F_PARSE_1ST_FRAG :: "(string \<times> int) list" where
  "x86_anon_BPF_FLOW_DISSECTOR_F_PARSE_1ST_FRAG = [
     (''BPF_FLOW_DISSECTOR_F_PARSE_1ST_FRAG'', 1), (''BPF_FLOW_DISSECTOR_F_STOP_AT_FLOW_LABEL'',
     2), (''BPF_FLOW_DISSECTOR_F_STOP_AT_ENCAP'', 4)]"

definition x86_anon_BPF_F_RECOMPUTE_CSUM :: "(string \<times> int) list" where
  "x86_anon_BPF_F_RECOMPUTE_CSUM = [
     (''BPF_F_RECOMPUTE_CSUM'', 1), (''BPF_F_INVALIDATE_HASH'', 2)]"

definition x86_anon_BPF_F_HDR_FIELD_MASK :: "(string \<times> int) list" where
  "x86_anon_BPF_F_HDR_FIELD_MASK = [
     (''BPF_F_HDR_FIELD_MASK'', 15)]"

definition x86_anon_BPF_F_PSEUDO_HDR :: "(string \<times> int) list" where
  "x86_anon_BPF_F_PSEUDO_HDR = [
     (''BPF_F_PSEUDO_HDR'', 16), (''BPF_F_MARK_MANGLED_0'', 32), (''BPF_F_MARK_ENFORCE'', 64)]"

definition x86_anon_BPF_F_INGRESS :: "(string \<times> int) list" where
  "x86_anon_BPF_F_INGRESS = [
     (''BPF_F_INGRESS'', 1)]"

definition x86_anon_BPF_F_TUNINFO_IPV6 :: "(string \<times> int) list" where
  "x86_anon_BPF_F_TUNINFO_IPV6 = [
     (''BPF_F_TUNINFO_IPV6'', 1)]"

definition x86_anon_BPF_F_ZERO_CSUM_TX :: "(string \<times> int) list" where
  "x86_anon_BPF_F_ZERO_CSUM_TX = [
     (''BPF_F_ZERO_CSUM_TX'', 2), (''BPF_F_DONT_FRAGMENT'', 4), (''BPF_F_SEQ_NUMBER'', 8)]"

definition x86_anon_BPF_F_TUNINFO_FLAGS :: "(string \<times> int) list" where
  "x86_anon_BPF_F_TUNINFO_FLAGS = [
     (''BPF_F_TUNINFO_FLAGS'', 16)]"

definition x86_anon_BPF_CSUM_LEVEL_QUERY :: "(string \<times> int) list" where
  "x86_anon_BPF_CSUM_LEVEL_QUERY = [
     (''BPF_CSUM_LEVEL_QUERY'', 0), (''BPF_CSUM_LEVEL_INC'', 1), (''BPF_CSUM_LEVEL_DEC'', 2),
     (''BPF_CSUM_LEVEL_RESET'', 3)]"

definition x86_anon_BPF_F_ADJ_ROOM_FIXED_GSO :: "(string \<times> int) list" where
  "x86_anon_BPF_F_ADJ_ROOM_FIXED_GSO = [
     (''BPF_F_ADJ_ROOM_FIXED_GSO'', 1), (''BPF_F_ADJ_ROOM_ENCAP_L3_IPV4'', 2),
     (''BPF_F_ADJ_ROOM_ENCAP_L3_IPV6'', 4), (''BPF_F_ADJ_ROOM_ENCAP_L4_GRE'', 8),
     (''BPF_F_ADJ_ROOM_ENCAP_L4_UDP'', 16), (''BPF_F_ADJ_ROOM_NO_CSUM_RESET'', 32),
     (''BPF_F_ADJ_ROOM_ENCAP_L2_ETH'', 64)]"

definition x86_anon_BPF_ADJ_ROOM_ENCAP_L2_MASK :: "(string \<times> int) list" where
  "x86_anon_BPF_ADJ_ROOM_ENCAP_L2_MASK = [
     (''BPF_ADJ_ROOM_ENCAP_L2_MASK'', 255), (''BPF_ADJ_ROOM_ENCAP_L2_SHIFT'', 56)]"

definition x86_anon_BPF_SK_LOOKUP_F_REPLACE :: "(string \<times> int) list" where
  "x86_anon_BPF_SK_LOOKUP_F_REPLACE = [
     (''BPF_SK_LOOKUP_F_REPLACE'', 1), (''BPF_SK_LOOKUP_F_NO_REUSEPORT'', 2)]"

definition x86_anon_BPF_SKB_TSTAMP_UNSPEC :: "(string \<times> int) list" where
  "x86_anon_BPF_SKB_TSTAMP_UNSPEC = [
     (''BPF_SKB_TSTAMP_UNSPEC'', 0), (''BPF_SKB_TSTAMP_DELIVERY_MONO'', 1)]"

definition x86_anon_BPF_SOCK_OPS_RTO_CB_FLAG :: "(string \<times> int) list" where
  "x86_anon_BPF_SOCK_OPS_RTO_CB_FLAG = [
     (''BPF_SOCK_OPS_RTO_CB_FLAG'', 1), (''BPF_SOCK_OPS_RETRANS_CB_FLAG'', 2),
     (''BPF_SOCK_OPS_STATE_CB_FLAG'', 4), (''BPF_SOCK_OPS_RTT_CB_FLAG'', 8),
     (''BPF_SOCK_OPS_PARSE_ALL_HDR_OPT_CB_FLAG'', 16),
     (''BPF_SOCK_OPS_PARSE_UNKNOWN_HDR_OPT_CB_FLAG'', 32),
     (''BPF_SOCK_OPS_WRITE_HDR_OPT_CB_FLAG'', 64), (''BPF_SOCK_OPS_ALL_CB_FLAGS'', 127)]"

definition x86_anon_BPF_SOCK_OPS_VOID :: "(string \<times> int) list" where
  "x86_anon_BPF_SOCK_OPS_VOID = [
     (''BPF_SOCK_OPS_VOID'', 0), (''BPF_SOCK_OPS_TIMEOUT_INIT'', 1), (''BPF_SOCK_OPS_RWND_INIT'',
     2), (''BPF_SOCK_OPS_TCP_CONNECT_CB'', 3), (''BPF_SOCK_OPS_ACTIVE_ESTABLISHED_CB'', 4),
     (''BPF_SOCK_OPS_PASSIVE_ESTABLISHED_CB'', 5), (''BPF_SOCK_OPS_NEEDS_ECN'', 6),
     (''BPF_SOCK_OPS_BASE_RTT'', 7), (''BPF_SOCK_OPS_RTO_CB'', 8), (''BPF_SOCK_OPS_RETRANS_CB'',
     9), (''BPF_SOCK_OPS_STATE_CB'', 10), (''BPF_SOCK_OPS_TCP_LISTEN_CB'', 11),
     (''BPF_SOCK_OPS_RTT_CB'', 12), (''BPF_SOCK_OPS_PARSE_HDR_OPT_CB'', 13),
     (''BPF_SOCK_OPS_HDR_OPT_LEN_CB'', 14), (''BPF_SOCK_OPS_WRITE_HDR_OPT_CB'', 15)]"

definition x86_anon_TCP_BPF_IW :: "(string \<times> int) list" where
  "x86_anon_TCP_BPF_IW = [
     (''TCP_BPF_IW'', 1001), (''TCP_BPF_SNDCWND_CLAMP'', 1002), (''TCP_BPF_DELACK_MAX'', 1003),
     (''TCP_BPF_RTO_MIN'', 1004), (''TCP_BPF_SYN'', 1005), (''TCP_BPF_SYN_IP'', 1006),
     (''TCP_BPF_SYN_MAC'', 1007)]"

definition x86_anon_BPF_LOAD_HDR_OPT_TCP_SYN :: "(string \<times> int) list" where
  "x86_anon_BPF_LOAD_HDR_OPT_TCP_SYN = [
     (''BPF_LOAD_HDR_OPT_TCP_SYN'', 1)]"

definition x86_anon_BPF_FIB_LOOKUP_DIRECT :: "(string \<times> int) list" where
  "x86_anon_BPF_FIB_LOOKUP_DIRECT = [
     (''BPF_FIB_LOOKUP_DIRECT'', 1), (''BPF_FIB_LOOKUP_OUTPUT'', 2),
     (''BPF_FIB_LOOKUP_SKIP_NEIGH'', 4)]"

definition x86_anon_BPF_FIB_LKUP_RET_SUCCESS :: "(string \<times> int) list" where
  "x86_anon_BPF_FIB_LKUP_RET_SUCCESS = [
     (''BPF_FIB_LKUP_RET_SUCCESS'', 0), (''BPF_FIB_LKUP_RET_BLACKHOLE'', 1),
     (''BPF_FIB_LKUP_RET_UNREACHABLE'', 2), (''BPF_FIB_LKUP_RET_PROHIBIT'', 3),
     (''BPF_FIB_LKUP_RET_NOT_FWDED'', 4), (''BPF_FIB_LKUP_RET_FWD_DISABLED'', 5),
     (''BPF_FIB_LKUP_RET_UNSUPP_LWT'', 6), (''BPF_FIB_LKUP_RET_NO_NEIGH'', 7),
     (''BPF_FIB_LKUP_RET_FRAG_NEEDED'', 8)]"

definition x86_anon_BPF_F_NEIGH :: "(string \<times> int) list" where
  "x86_anon_BPF_F_NEIGH = [
     (''BPF_F_NEIGH'', 2), (''BPF_F_PEER'', 4), (''BPF_F_NEXTHOP'', 8)]"

definition x86_anon_LWT_BPF_PROG_UNSPEC :: "(string \<times> int) list" where
  "x86_anon_LWT_BPF_PROG_UNSPEC = [
     (''LWT_BPF_PROG_UNSPEC'', 0), (''LWT_BPF_PROG_FD'', 1), (''LWT_BPF_PROG_NAME'', 2),
     (''__LWT_BPF_PROG_MAX'', 3)]"

definition x86_anon_LWT_BPF_UNSPEC :: "(string \<times> int) list" where
  "x86_anon_LWT_BPF_UNSPEC = [
     (''LWT_BPF_UNSPEC'', 0), (''LWT_BPF_IN'', 1), (''LWT_BPF_OUT'', 2), (''LWT_BPF_XMIT'', 3),
     (''LWT_BPF_XMIT_HEADROOM'', 4), (''__LWT_BPF_MAX'', 5)]"

definition x86_anon_SK_DIAG_BPF_STORAGE_REQ_NONE :: "(string \<times> int) list" where
  "x86_anon_SK_DIAG_BPF_STORAGE_REQ_NONE = [
     (''SK_DIAG_BPF_STORAGE_REQ_NONE'', 0), (''SK_DIAG_BPF_STORAGE_REQ_MAP_FD'', 1),
     (''__SK_DIAG_BPF_STORAGE_REQ_MAX'', 2)]"

definition x86_anon_SK_DIAG_BPF_STORAGE_REP_NONE :: "(string \<times> int) list" where
  "x86_anon_SK_DIAG_BPF_STORAGE_REP_NONE = [
     (''SK_DIAG_BPF_STORAGE_REP_NONE'', 0), (''SK_DIAG_BPF_STORAGE'', 1),
     (''__SK_DIAG_BPF_STORAGE_REP_MAX'', 2)]"

definition x86_anon_SK_DIAG_BPF_STORAGE_NONE :: "(string \<times> int) list" where
  "x86_anon_SK_DIAG_BPF_STORAGE_NONE = [
     (''SK_DIAG_BPF_STORAGE_NONE'', 0), (''SK_DIAG_BPF_STORAGE_PAD'', 1),
     (''SK_DIAG_BPF_STORAGE_MAP_ID'', 2), (''SK_DIAG_BPF_STORAGE_MAP_VALUE'', 3),
     (''__SK_DIAG_BPF_STORAGE_MAX'', 4)]"

definition x86_anon_BPF_TCP_ESTABLISHED :: "(string \<times> int) list" where
  "x86_anon_BPF_TCP_ESTABLISHED = [
     (''BPF_TCP_ESTABLISHED'', 1), (''BPF_TCP_SYN_SENT'', 2), (''BPF_TCP_SYN_RECV'', 3),
     (''BPF_TCP_FIN_WAIT1'', 4), (''BPF_TCP_FIN_WAIT2'', 5), (''BPF_TCP_TIME_WAIT'', 6),
     (''BPF_TCP_CLOSE'', 7), (''BPF_TCP_CLOSE_WAIT'', 8), (''BPF_TCP_LAST_ACK'', 9),
     (''BPF_TCP_LISTEN'', 10), (''BPF_TCP_CLOSING'', 11), (''BPF_TCP_NEW_SYN_RECV'', 12),
     (''BPF_TCP_MAX_STATES'', 13)]"

definition x86_anon_BPF_WRITE_HDR_TCP_CURRENT_MSS :: "(string \<times> int) list" where
  "x86_anon_BPF_WRITE_HDR_TCP_CURRENT_MSS = [
     (''BPF_WRITE_HDR_TCP_CURRENT_MSS'', 1), (''BPF_WRITE_HDR_TCP_SYNACK_COOKIE'', 2)]"

definition x86_anon_TCP_BPF_IPV4 :: "(string \<times> int) list" where
  "x86_anon_TCP_BPF_IPV4 = [
     (''TCP_BPF_IPV4'', 0), (''TCP_BPF_IPV6'', 1), (''TCP_BPF_NUM_PROTS'', 2)]"

definition x86_anon_TCP_BPF_BASE :: "(string \<times> int) list" where
  "x86_anon_TCP_BPF_BASE = [
     (''TCP_BPF_BASE'', 0), (''TCP_BPF_TX'', 1), (''TCP_BPF_RX'', 2), (''TCP_BPF_TXRX'', 3),
     (''TCP_BPF_NUM_CFGS'', 4)]"

definition x86_anon_UDP_BPF_IPV4 :: "(string \<times> int) list" where
  "x86_anon_UDP_BPF_IPV4 = [
     (''UDP_BPF_IPV4'', 0), (''UDP_BPF_IPV6'', 1), (''UDP_BPF_NUM_PROTS'', 2)]"

definition x86_anon_SEG6_LOCAL_BPF_PROG_UNSPEC :: "(string \<times> int) list" where
  "x86_anon_SEG6_LOCAL_BPF_PROG_UNSPEC = [
     (''SEG6_LOCAL_BPF_PROG_UNSPEC'', 0), (''SEG6_LOCAL_BPF_PROG'', 1),
     (''SEG6_LOCAL_BPF_PROG_NAME'', 2), (''__SEG6_LOCAL_BPF_PROG_MAX'', 3)]"

lemmas x86_enum_defs =
  x86_netns_bpf_attach_type_def x86_bpf_netdev_command_def x86_bpf_xdp_mode_def
  x86_cgroup_bpf_attach_type_def x86_bpf_type_flag_def x86_bpf_arg_type_def
  x86_bpf_return_type_def x86_bpf_reg_type_def x86_bpf_cgroup_storage_type_def
  x86_bpf_tramp_prog_type_def x86_bpf_prog_type_def x86_bpf_attach_type_def x86_bpf_map_type_def
  x86_bpf_cgroup_iter_order_def x86_bpf_link_type_def x86_bpf_iter_task_type_def
  x86_bpf_kptr_type_def x86_bpf_jit_poke_reason_def x86_bpf_text_poke_type_def
  x86_bpf_func_id_def x86_bpf_iter_feature_def x86_bpf_task_fd_type_def x86_bpf_access_type_def
  x86_bpf_dynptr_type_def x86_bpf_reg_liveness_def x86_bpf_cmd_def x86_bpf_stats_type_def
  x86_perf_bpf_event_type_def x86_bpf_audit_def x86_bpf_core_relo_kind_def
  x86_bpf_stack_slot_type_def x86_bpf_access_src_def x86_bpf_type_def
  x86_bpf_task_vma_iter_find_op_def x86_bpf_lru_list_type_def x86_bpf_struct_walk_result_def
  x86_bpf_stack_build_id_status_def x86_bpf_struct_ops_state_def x86_bpf_ret_code_def
  x86_bpf_adj_room_mode_def x86_bpf_hdr_start_off_def x86_bpf_lwt_encap_mode_def
  x86_bpf_check_mtu_flags_def x86_bpf_check_mtu_ret_def x86_anon_BPF_MAP_VALUE_OFF_MAX_def
  x86_anon_BPF_REG_0_def x86_anon_BPF_F_INDEX_MASK_def x86_anon_BPF_F_GET_BRANCH_RECORDS_SIZE_def
  x86_anon_BPF_ANY_def x86_anon_BPF_F_NO_PREALLOC_def x86_anon_BPF_RB_NO_WAKEUP_def
  x86_anon_BPF_RB_AVAIL_DATA_def x86_anon_BPF_RINGBUF_BUSY_BIT_def
  x86_anon_BPF_LOCAL_STORAGE_GET_F_CREATE_def
  x86_anon___ctx_convertBPF_PROG_TYPE_SOCKET_FILTER_def x86_anon_BPF_F_BROADCAST_def
  x86_anon_BPF_F_SKIP_FIELD_MASK_def x86_anon_BPF_F_SYSCTL_BASE_NAME_def
  x86_anon_BPF_STRUCT_OPS_TYPE_bpf_dummy_ops_def x86_anon_BPF_F_BPRM_SECUREEXEC_def
  x86_anon_BPF_FLOW_DISSECTOR_F_PARSE_1ST_FRAG_def x86_anon_BPF_F_RECOMPUTE_CSUM_def
  x86_anon_BPF_F_HDR_FIELD_MASK_def x86_anon_BPF_F_PSEUDO_HDR_def x86_anon_BPF_F_INGRESS_def
  x86_anon_BPF_F_TUNINFO_IPV6_def x86_anon_BPF_F_ZERO_CSUM_TX_def
  x86_anon_BPF_F_TUNINFO_FLAGS_def x86_anon_BPF_CSUM_LEVEL_QUERY_def
  x86_anon_BPF_F_ADJ_ROOM_FIXED_GSO_def x86_anon_BPF_ADJ_ROOM_ENCAP_L2_MASK_def
  x86_anon_BPF_SK_LOOKUP_F_REPLACE_def x86_anon_BPF_SKB_TSTAMP_UNSPEC_def
  x86_anon_BPF_SOCK_OPS_RTO_CB_FLAG_def x86_anon_BPF_SOCK_OPS_VOID_def x86_anon_TCP_BPF_IW_def
  x86_anon_BPF_LOAD_HDR_OPT_TCP_SYN_def x86_anon_BPF_FIB_LOOKUP_DIRECT_def
  x86_anon_BPF_FIB_LKUP_RET_SUCCESS_def x86_anon_BPF_F_NEIGH_def x86_anon_LWT_BPF_PROG_UNSPEC_def
  x86_anon_LWT_BPF_UNSPEC_def x86_anon_SK_DIAG_BPF_STORAGE_REQ_NONE_def
  x86_anon_SK_DIAG_BPF_STORAGE_REP_NONE_def x86_anon_SK_DIAG_BPF_STORAGE_NONE_def
  x86_anon_BPF_TCP_ESTABLISHED_def x86_anon_BPF_WRITE_HDR_TCP_CURRENT_MSS_def
  x86_anon_TCP_BPF_IPV4_def x86_anon_TCP_BPF_BASE_def x86_anon_UDP_BPF_IPV4_def
  x86_anon_SEG6_LOCAL_BPF_PROG_UNSPEC_def

end
