(* ===== verification/VmlinuxX86.thy ===== *)
theory VmlinuxX86
  imports CLayout
begin

text \<open>
  The BPF data types of the x86_64 kernel header the BPF program is compiled against
  (\<^verbatim>\<open>vmlinux/x86_64/vmlinux.h\<close>), as layout terms: every struct, union and typedef with its
  members in the header's order, the types they embed first. A term says how a type is laid out and
  no more: a member that is a pointer, to data or to a function, is its eight bytes, and one that is
  an enumeration its four; what a pointer points to is not kept.
\<close>

definition x86___u8 :: ctype where "x86___u8 = Scalar 1"

definition x86___s16 :: ctype where "x86___s16 = Scalar 2"

definition x86___s32 :: ctype where "x86___s32 = Scalar 4"

definition x86_bpf_insn :: ctype where
  "x86_bpf_insn = Struct [
     Field ''code'' x86___u8, Bits ''dst_reg'' 1 4, Bits ''src_reg'' 1 4, Field ''off'' x86___s16,
     Field ''imm'' x86___s32]"

definition x86___u32 :: ctype where "x86___u32 = Scalar 4"

definition x86___u64 :: ctype where "x86___u64 = Scalar 8"

definition x86_bpf_attr :: ctype where
  "x86_bpf_attr = Union [
     Field '''' (Struct [Field ''map_type'' x86___u32, Field ''key_size'' x86___u32, Field
     ''value_size'' x86___u32, Field ''max_entries'' x86___u32, Field ''map_flags'' x86___u32,
     Field ''inner_map_fd'' x86___u32, Field ''numa_node'' x86___u32, Field ''map_name'' (Array
     (Scalar 1) 16), Field ''map_ifindex'' x86___u32, Field ''btf_fd'' x86___u32, Field
     ''btf_key_type_id'' x86___u32, Field ''btf_value_type_id'' x86___u32, Field
     ''btf_vmlinux_value_type_id'' x86___u32, Field ''map_extra'' x86___u64]), Field '''' (Struct
     [Field ''map_fd'' x86___u32, Field ''key'' x86___u64, Field '''' (Union [Field ''value''
     x86___u64, Field ''next_key'' x86___u64]), Field ''flags'' x86___u64]), Field ''batch''
     (Struct [Field ''in_batch'' x86___u64, Field ''out_batch'' x86___u64, Field ''keys''
     x86___u64, Field ''values'' x86___u64, Field ''count'' x86___u32, Field ''map_fd'' x86___u32,
     Field ''elem_flags'' x86___u64, Field ''flags'' x86___u64]), Field '''' (Struct [Field
     ''prog_type'' x86___u32, Field ''insn_cnt'' x86___u32, Field ''insns'' x86___u64, Field
     ''license'' x86___u64, Field ''log_level'' x86___u32, Field ''log_size'' x86___u32, Field
     ''log_buf'' x86___u64, Field ''kern_version'' x86___u32, Field ''prog_flags'' x86___u32,
     Field ''prog_name'' (Array (Scalar 1) 16), Field ''prog_ifindex'' x86___u32, Field
     ''expected_attach_type'' x86___u32, Field ''prog_btf_fd'' x86___u32, Field
     ''func_info_rec_size'' x86___u32, Field ''func_info'' x86___u64, Field ''func_info_cnt''
     x86___u32, Field ''line_info_rec_size'' x86___u32, Field ''line_info'' x86___u64, Field
     ''line_info_cnt'' x86___u32, Field ''attach_btf_id'' x86___u32, Field '''' (Union [Field
     ''attach_prog_fd'' x86___u32, Field ''attach_btf_obj_fd'' x86___u32]), Field
     ''core_relo_cnt'' x86___u32, Field ''fd_array'' x86___u64, Field ''core_relos'' x86___u64,
     Field ''core_relo_rec_size'' x86___u32]), Field '''' (Struct [Field ''pathname'' x86___u64,
     Field ''bpf_fd'' x86___u32, Field ''file_flags'' x86___u32]), Field '''' (Struct [Field
     ''target_fd'' x86___u32, Field ''attach_bpf_fd'' x86___u32, Field ''attach_type'' x86___u32,
     Field ''attach_flags'' x86___u32, Field ''replace_bpf_fd'' x86___u32]), Field ''test''
     (Struct [Field ''prog_fd'' x86___u32, Field ''retval'' x86___u32, Field ''data_size_in''
     x86___u32, Field ''data_size_out'' x86___u32, Field ''data_in'' x86___u64, Field ''data_out''
     x86___u64, Field ''repeat'' x86___u32, Field ''duration'' x86___u32, Field ''ctx_size_in''
     x86___u32, Field ''ctx_size_out'' x86___u32, Field ''ctx_in'' x86___u64, Field ''ctx_out''
     x86___u64, Field ''flags'' x86___u32, Field ''cpu'' x86___u32, Field ''batch_size''
     x86___u32]), Field '''' (Struct [Field '''' (Union [Field ''start_id'' x86___u32, Field
     ''prog_id'' x86___u32, Field ''map_id'' x86___u32, Field ''btf_id'' x86___u32, Field
     ''link_id'' x86___u32]), Field ''next_id'' x86___u32, Field ''open_flags'' x86___u32]), Field
     ''info'' (Struct [Field ''bpf_fd'' x86___u32, Field ''info_len'' x86___u32, Field ''info''
     x86___u64]), Field ''query'' (Struct [Field ''target_fd'' x86___u32, Field ''attach_type''
     x86___u32, Field ''query_flags'' x86___u32, Field ''attach_flags'' x86___u32, Field
     ''prog_ids'' x86___u64, Field ''prog_cnt'' x86___u32, Field ''prog_attach_flags''
     x86___u64]), Field ''raw_tracepoint'' (Struct [Field ''name'' x86___u64, Field ''prog_fd''
     x86___u32]), Field '''' (Struct [Field ''btf'' x86___u64, Field ''btf_log_buf'' x86___u64,
     Field ''btf_size'' x86___u32, Field ''btf_log_size'' x86___u32, Field ''btf_log_level''
     x86___u32]), Field ''task_fd_query'' (Struct [Field ''pid'' x86___u32, Field ''fd''
     x86___u32, Field ''flags'' x86___u32, Field ''buf_len'' x86___u32, Field ''buf'' x86___u64,
     Field ''prog_id'' x86___u32, Field ''fd_type'' x86___u32, Field ''probe_offset'' x86___u64,
     Field ''probe_addr'' x86___u64]), Field ''link_create'' (Struct [Field ''prog_fd'' x86___u32,
     Field '''' (Union [Field ''target_fd'' x86___u32, Field ''target_ifindex'' x86___u32]), Field
     ''attach_type'' x86___u32, Field ''flags'' x86___u32, Field '''' (Union [Field
     ''target_btf_id'' x86___u32, Field '''' (Struct [Field ''iter_info'' x86___u64, Field
     ''iter_info_len'' x86___u32]), Field ''perf_event'' (Struct [Field ''bpf_cookie''
     x86___u64]), Field ''kprobe_multi'' (Struct [Field ''flags'' x86___u32, Field ''cnt''
     x86___u32, Field ''syms'' x86___u64, Field ''addrs'' x86___u64, Field ''cookies''
     x86___u64]), Field ''tracing'' (Struct [Field ''target_btf_id'' x86___u32, Field ''cookie''
     x86___u64])])]), Field ''link_update'' (Struct [Field ''link_fd'' x86___u32, Field
     ''new_prog_fd'' x86___u32, Field ''flags'' x86___u32, Field ''old_prog_fd'' x86___u32]),
     Field ''link_detach'' (Struct [Field ''link_fd'' x86___u32]), Field ''enable_stats'' (Struct
     [Field ''type'' x86___u32]), Field ''iter_create'' (Struct [Field ''link_fd'' x86___u32,
     Field ''flags'' x86___u32]), Field ''prog_bind_map'' (Struct [Field ''prog_fd'' x86___u32,
     Field ''map_fd'' x86___u32, Field ''flags'' x86___u32])]"

definition x86_bpf_link_info :: ctype where
  "x86_bpf_link_info = Struct [
     Field ''type'' x86___u32, Field ''id'' x86___u32, Field ''prog_id'' x86___u32, Field ''''
     (Union [Field ''raw_tracepoint'' (Struct [Field ''tp_name'' x86___u64, Field ''tp_name_len''
     x86___u32]), Field ''tracing'' (Struct [Field ''attach_type'' x86___u32, Field
     ''target_obj_id'' x86___u32, Field ''target_btf_id'' x86___u32]), Field ''cgroup'' (Struct
     [Field ''cgroup_id'' x86___u64, Field ''attach_type'' x86___u32]), Field ''iter'' (Struct
     [Field ''target_name'' x86___u64, Field ''target_name_len'' x86___u32, Field '''' (Union
     [Field ''map'' (Struct [Field ''map_id'' x86___u32])]), Field '''' (Union [Field ''cgroup''
     (Struct [Field ''cgroup_id'' x86___u64, Field ''order'' x86___u32]), Field ''task'' (Struct
     [Field ''tid'' x86___u32, Field ''pid'' x86___u32])])]), Field ''netns'' (Struct [Field
     ''netns_ino'' x86___u32, Field ''attach_type'' x86___u32]), Field ''xdp'' (Struct [Field
     ''ifindex'' x86___u32])])]"

definition x86_bpf_prog_info :: ctype where
  "x86_bpf_prog_info = Struct [
     Field ''type'' x86___u32, Field ''id'' x86___u32, Field ''tag'' (Array (x86___u8) 8), Field
     ''jited_prog_len'' x86___u32, Field ''xlated_prog_len'' x86___u32, Field ''jited_prog_insns''
     x86___u64, Field ''xlated_prog_insns'' x86___u64, Field ''load_time'' x86___u64, Field
     ''created_by_uid'' x86___u32, Field ''nr_map_ids'' x86___u32, Field ''map_ids'' x86___u64,
     Field ''name'' (Array (Scalar 1) 16), Field ''ifindex'' x86___u32, Bits ''gpl_compatible'' 4
     1, Field ''netns_dev'' x86___u64, Field ''netns_ino'' x86___u64, Field ''nr_jited_ksyms''
     x86___u32, Field ''nr_jited_func_lens'' x86___u32, Field ''jited_ksyms'' x86___u64, Field
     ''jited_func_lens'' x86___u64, Field ''btf_id'' x86___u32, Field ''func_info_rec_size''
     x86___u32, Field ''func_info'' x86___u64, Field ''nr_func_info'' x86___u32, Field
     ''nr_line_info'' x86___u32, Field ''line_info'' x86___u64, Field ''jited_line_info''
     x86___u64, Field ''nr_jited_line_info'' x86___u32, Field ''line_info_rec_size'' x86___u32,
     Field ''jited_line_info_rec_size'' x86___u32, Field ''nr_prog_tags'' x86___u32, Field
     ''prog_tags'' x86___u64, Field ''run_time_ns'' x86___u64, Field ''run_cnt'' x86___u64, Field
     ''recursion_misses'' x86___u64, Field ''verified_insns'' x86___u32, Field
     ''attach_btf_obj_id'' x86___u32, Field ''attach_btf_id'' x86___u32]"

definition x86_bpf_map_info :: ctype where
  "x86_bpf_map_info = Struct [
     Field ''type'' x86___u32, Field ''id'' x86___u32, Field ''key_size'' x86___u32, Field
     ''value_size'' x86___u32, Field ''max_entries'' x86___u32, Field ''map_flags'' x86___u32,
     Field ''name'' (Array (Scalar 1) 16), Field ''ifindex'' x86___u32, Field
     ''btf_vmlinux_value_type_id'' x86___u32, Field ''netns_dev'' x86___u64, Field ''netns_ino''
     x86___u64, Field ''btf_id'' x86___u32, Field ''btf_key_type_id'' x86___u32, Field
     ''btf_value_type_id'' x86___u32, Field ''map_extra'' x86___u64]"

definition x86_bpf_btf_info :: ctype where
  "x86_bpf_btf_info = Struct [
     Field ''btf'' x86___u64, Field ''btf_size'' x86___u32, Field ''id'' x86___u32, Field ''name''
     x86___u64, Field ''name_len'' x86___u32, Field ''kernel_btf'' x86___u32]"

definition x86_bpf_func_info :: ctype where
  "x86_bpf_func_info = Struct [
     Field ''insn_off'' x86___u32, Field ''type_id'' x86___u32]"

definition x86_bpf_line_info :: ctype where
  "x86_bpf_line_info = Struct [
     Field ''insn_off'' x86___u32, Field ''file_name_off'' x86___u32, Field ''line_off''
     x86___u32, Field ''line_col'' x86___u32]"

definition x86_bpf_core_relo :: ctype where
  "x86_bpf_core_relo = Struct [
     Field ''insn_off'' x86___u32, Field ''type_id'' x86___u32, Field ''access_str_off''
     x86___u32, Field ''kind'' enum_t]"

definition x86___u16 :: ctype where "x86___u16 = Scalar 2"

definition x86___be16 :: ctype where "x86___be16 = x86___u16"

definition x86_bpf_sock :: ctype where
  "x86_bpf_sock = Struct [
     Field ''bound_dev_if'' x86___u32, Field ''family'' x86___u32, Field ''type'' x86___u32, Field
     ''protocol'' x86___u32, Field ''mark'' x86___u32, Field ''priority'' x86___u32, Field
     ''src_ip4'' x86___u32, Field ''src_ip6'' (Array (x86___u32) 4), Field ''src_port'' x86___u32,
     Field ''dst_port'' x86___be16, Field ''dst_ip4'' x86___u32, Field ''dst_ip6'' (Array
     (x86___u32) 4), Field ''state'' x86___u32, Field ''rx_queue_mapping'' x86___s32]"

definition x86_bpf_sock_addr :: ctype where
  "x86_bpf_sock_addr = Struct [
     Field ''user_family'' x86___u32, Field ''user_ip4'' x86___u32, Field ''user_ip6'' (Array
     (x86___u32) 4), Field ''user_port'' x86___u32, Field ''family'' x86___u32, Field ''type''
     x86___u32, Field ''protocol'' x86___u32, Field ''msg_src_ip4'' x86___u32, Field
     ''msg_src_ip6'' (Array (x86___u32) 4), Field '''' (Union [Field ''sk'' ptr_t])]"

definition x86_bpf_sock_ops :: ctype where
  "x86_bpf_sock_ops = Struct [
     Field ''op'' x86___u32, Field '''' (Union [Field ''args'' (Array (x86___u32) 4), Field
     ''reply'' x86___u32, Field ''replylong'' (Array (x86___u32) 4)]), Field ''family'' x86___u32,
     Field ''remote_ip4'' x86___u32, Field ''local_ip4'' x86___u32, Field ''remote_ip6'' (Array
     (x86___u32) 4), Field ''local_ip6'' (Array (x86___u32) 4), Field ''remote_port'' x86___u32,
     Field ''local_port'' x86___u32, Field ''is_fullsock'' x86___u32, Field ''snd_cwnd''
     x86___u32, Field ''srtt_us'' x86___u32, Field ''bpf_sock_ops_cb_flags'' x86___u32, Field
     ''state'' x86___u32, Field ''rtt_min'' x86___u32, Field ''snd_ssthresh'' x86___u32, Field
     ''rcv_nxt'' x86___u32, Field ''snd_nxt'' x86___u32, Field ''snd_una'' x86___u32, Field
     ''mss_cache'' x86___u32, Field ''ecn_flags'' x86___u32, Field ''rate_delivered'' x86___u32,
     Field ''rate_interval_us'' x86___u32, Field ''packets_out'' x86___u32, Field ''retrans_out''
     x86___u32, Field ''total_retrans'' x86___u32, Field ''segs_in'' x86___u32, Field
     ''data_segs_in'' x86___u32, Field ''segs_out'' x86___u32, Field ''data_segs_out'' x86___u32,
     Field ''lost_out'' x86___u32, Field ''sacked_out'' x86___u32, Field ''sk_txhash'' x86___u32,
     Field ''bytes_received'' x86___u64, Field ''bytes_acked'' x86___u64, Field '''' (Union [Field
     ''sk'' ptr_t]), Field '''' (Union [Field ''skb_data'' ptr_t]), Field '''' (Union [Field
     ''skb_data_end'' ptr_t]), Field ''skb_len'' x86___u32, Field ''skb_tcp_flags'' x86___u32]"

definition x86_bpf_sk_lookup :: ctype where
  "x86_bpf_sk_lookup = Struct [
     Field '''' (Union [Field '''' (Union [Field ''sk'' ptr_t]), Field ''cookie'' x86___u64]),
     Field ''family'' x86___u32, Field ''protocol'' x86___u32, Field ''remote_ip4'' x86___u32,
     Field ''remote_ip6'' (Array (x86___u32) 4), Field ''remote_port'' x86___be16, Field
     ''local_ip4'' x86___u32, Field ''local_ip6'' (Array (x86___u32) 4), Field ''local_port''
     x86___u32, Field ''ingress_ifindex'' x86___u32]"

definition x86_bpf_sockopt :: ctype where
  "x86_bpf_sockopt = Struct [
     Field '''' (Union [Field ''sk'' ptr_t]), Field '''' (Union [Field ''optval'' ptr_t]), Field
     '''' (Union [Field ''optval_end'' ptr_t]), Field ''level'' x86___s32, Field ''optname''
     x86___s32, Field ''optlen'' x86___s32, Field ''retval'' x86___s32]"

definition x86___be32 :: ctype where "x86___be32 = x86___u32"

definition x86_bpf_flow_keys :: ctype where
  "x86_bpf_flow_keys = Struct [
     Field ''nhoff'' x86___u16, Field ''thoff'' x86___u16, Field ''addr_proto'' x86___u16, Field
     ''is_frag'' x86___u8, Field ''is_first_frag'' x86___u8, Field ''is_encap'' x86___u8, Field
     ''ip_proto'' x86___u8, Field ''n_proto'' x86___be16, Field ''sport'' x86___be16, Field
     ''dport'' x86___be16, Field '''' (Union [Field '''' (Struct [Field ''ipv4_src'' x86___be32,
     Field ''ipv4_dst'' x86___be32]), Field '''' (Struct [Field ''ipv6_src'' (Array (x86___u32)
     4), Field ''ipv6_dst'' (Array (x86___u32) 4)])]), Field ''flags'' x86___u32, Field
     ''flow_label'' x86___be32]"

definition x86_bpf_tunnel_key :: ctype where
  "x86_bpf_tunnel_key = Struct [
     Field ''tunnel_id'' x86___u32, Field '''' (Union [Field ''remote_ipv4'' x86___u32, Field
     ''remote_ipv6'' (Array (x86___u32) 4)]), Field ''tunnel_tos'' x86___u8, Field ''tunnel_ttl''
     x86___u8, Field '''' (Union [Field ''tunnel_ext'' x86___u16, Field ''tunnel_flags''
     x86___be16]), Field ''tunnel_label'' x86___u32, Field '''' (Union [Field ''local_ipv4''
     x86___u32, Field ''local_ipv6'' (Array (x86___u32) 4)])]"

definition x86_bpf_tcp_sock :: ctype where
  "x86_bpf_tcp_sock = Struct [
     Field ''snd_cwnd'' x86___u32, Field ''srtt_us'' x86___u32, Field ''rtt_min'' x86___u32, Field
     ''snd_ssthresh'' x86___u32, Field ''rcv_nxt'' x86___u32, Field ''snd_nxt'' x86___u32, Field
     ''snd_una'' x86___u32, Field ''mss_cache'' x86___u32, Field ''ecn_flags'' x86___u32, Field
     ''rate_delivered'' x86___u32, Field ''rate_interval_us'' x86___u32, Field ''packets_out''
     x86___u32, Field ''retrans_out'' x86___u32, Field ''total_retrans'' x86___u32, Field
     ''segs_in'' x86___u32, Field ''data_segs_in'' x86___u32, Field ''segs_out'' x86___u32, Field
     ''data_segs_out'' x86___u32, Field ''lost_out'' x86___u32, Field ''sacked_out'' x86___u32,
     Field ''bytes_received'' x86___u64, Field ''bytes_acked'' x86___u64, Field ''dsack_dups''
     x86___u32, Field ''delivered'' x86___u32, Field ''delivered_ce'' x86___u32, Field
     ''icsk_retransmits'' x86___u32]"

definition x86_bpf_sock_tuple :: ctype where
  "x86_bpf_sock_tuple = Struct [
     Field '''' (Union [Field ''ipv4'' (Struct [Field ''saddr'' x86___be32, Field ''daddr''
     x86___be32, Field ''sport'' x86___be16, Field ''dport'' x86___be16]), Field ''ipv6'' (Struct
     [Field ''saddr'' (Array (x86___be32) 4), Field ''daddr'' (Array (x86___be32) 4), Field
     ''sport'' x86___be16, Field ''dport'' x86___be16])])]"

definition x86_bpf_fib_lookup :: ctype where
  "x86_bpf_fib_lookup = Struct [
     Field ''family'' x86___u8, Field ''l4_protocol'' x86___u8, Field ''sport'' x86___be16, Field
     ''dport'' x86___be16, Field '''' (Union [Field ''tot_len'' x86___u16, Field ''mtu_result''
     x86___u16]), Field ''ifindex'' x86___u32, Field '''' (Union [Field ''tos'' x86___u8, Field
     ''flowinfo'' x86___be32, Field ''rt_metric'' x86___u32]), Field '''' (Union [Field
     ''ipv4_src'' x86___be32, Field ''ipv6_src'' (Array (x86___u32) 4)]), Field '''' (Union [Field
     ''ipv4_dst'' x86___be32, Field ''ipv6_dst'' (Array (x86___u32) 4)]), Field ''h_vlan_proto''
     x86___be16, Field ''h_vlan_TCI'' x86___be16, Field ''smac'' (Array (x86___u8) 6), Field
     ''dmac'' (Array (x86___u8) 6)]"

definition x86_bpf_xfrm_state :: ctype where
  "x86_bpf_xfrm_state = Struct [
     Field ''reqid'' x86___u32, Field ''spi'' x86___u32, Field ''family'' x86___u16, Field ''ext''
     x86___u16, Field '''' (Union [Field ''remote_ipv4'' x86___u32, Field ''remote_ipv6'' (Array
     (x86___u32) 4)])]"

definition x86_bpf_cgroup_dev_ctx :: ctype where
  "x86_bpf_cgroup_dev_ctx = Struct [
     Field ''access_type'' x86___u32, Field ''major'' x86___u32, Field ''minor'' x86___u32]"

definition x86_bpf_raw_tracepoint_args :: ctype where
  "x86_bpf_raw_tracepoint_args = Struct [
     Field ''args'' (Array (x86___u64) 0)]"

definition x86_bpf_sysctl :: ctype where
  "x86_bpf_sysctl = Struct [
     Field ''write'' x86___u32, Field ''file_pos'' x86___u32]"

definition x86_bpf_pidns_info :: ctype where
  "x86_bpf_pidns_info = Struct [
     Field ''pid'' x86___u32, Field ''tgid'' x86___u32]"

definition x86_pt_regs :: ctype where
  "x86_pt_regs = Struct [
     Field ''r15'' (Scalar 8), Field ''r14'' (Scalar 8), Field ''r13'' (Scalar 8), Field ''r12''
     (Scalar 8), Field ''bp'' (Scalar 8), Field ''bx'' (Scalar 8), Field ''r11'' (Scalar 8), Field
     ''r10'' (Scalar 8), Field ''r9'' (Scalar 8), Field ''r8'' (Scalar 8), Field ''ax'' (Scalar
     8), Field ''cx'' (Scalar 8), Field ''dx'' (Scalar 8), Field ''si'' (Scalar 8), Field ''di''
     (Scalar 8), Field ''orig_ax'' (Scalar 8), Field ''ip'' (Scalar 8), Field ''cs'' (Scalar 8),
     Field ''flags'' (Scalar 8), Field ''sp'' (Scalar 8), Field ''ss'' (Scalar 8)]"

definition x86_bpf_user_pt_regs_t :: ctype where "x86_bpf_user_pt_regs_t = x86_pt_regs"

definition x86_bpf_perf_event_data :: ctype where
  "x86_bpf_perf_event_data = Struct [
     Field ''regs'' x86_bpf_user_pt_regs_t, Field ''sample_period'' x86___u64, Field ''addr''
     x86___u64]"

definition x86_bpf_redir_neigh :: ctype where
  "x86_bpf_redir_neigh = Struct [
     Field ''nh_family'' x86___u32, Field '''' (Union [Field ''ipv4_nh'' x86___be32, Field
     ''ipv6_nh'' (Array (x86___u32) 4)])]"

definition x86_bpf_spin_lock :: ctype where
  "x86_bpf_spin_lock = Struct [
     Field ''val'' x86___u32]"

definition x86_bpf_timer :: ctype where
  "x86_bpf_timer = Struct [
     Bits '''' 8 64, Bits '''' 8 64]"

definition x86_bpf_dynptr :: ctype where
  "x86_bpf_dynptr = Struct [
     Bits '''' 8 64, Bits '''' 8 64]"

definition x86_bpf_cgroup_storage_key :: ctype where
  "x86_bpf_cgroup_storage_key = Struct [
     Field ''cgroup_inode_id'' x86___u64, Field ''attach_type'' x86___u32]"

definition x86_bpf_lpm_trie_key :: ctype where
  "x86_bpf_lpm_trie_key = Struct [
     Field ''prefixlen'' x86___u32, Field ''data'' (Array (x86___u8) 0)]"

definition x86_bpf_stack_build_id :: ctype where
  "x86_bpf_stack_build_id = Struct [
     Field ''status'' x86___s32, Field ''build_id'' (Array (Scalar 1) 20), Field '''' (Union
     [Field ''offset'' x86___u64, Field ''ip'' x86___u64])]"

definition x86_bpf_iter_link_info :: ctype where
  "x86_bpf_iter_link_info = Union [
     Field ''map'' (Struct [Field ''map_fd'' x86___u32]), Field ''cgroup'' (Struct [Field
     ''order'' enum_t, Field ''cgroup_fd'' x86___u32, Field ''cgroup_id'' x86___u64]), Field
     ''task'' (Struct [Field ''tid'' x86___u32, Field ''pid'' x86___u32, Field ''pid_fd''
     x86___u32])]"

definition x86_bpf_devmap_val :: ctype where
  "x86_bpf_devmap_val = Struct [
     Field ''ifindex'' x86___u32, Field ''bpf_prog'' (Union [Field ''fd'' (Scalar 4), Field ''id''
     x86___u32])]"

definition x86_bpf_cpumap_val :: ctype where
  "x86_bpf_cpumap_val = Struct [
     Field ''qsize'' x86___u32, Field ''bpf_prog'' (Union [Field ''fd'' (Scalar 4), Field ''id''
     x86___u32])]"

definition x86_bpf_map_ops :: ctype where
  "x86_bpf_map_ops = Struct [
     Field ''map_alloc_check'' ptr_t, Field ''map_alloc'' ptr_t, Field ''map_release'' ptr_t,
     Field ''map_free'' ptr_t, Field ''map_get_next_key'' ptr_t, Field ''map_release_uref'' ptr_t,
     Field ''map_lookup_elem_sys_only'' ptr_t, Field ''map_lookup_batch'' ptr_t, Field
     ''map_lookup_and_delete_elem'' ptr_t, Field ''map_lookup_and_delete_batch'' ptr_t, Field
     ''map_update_batch'' ptr_t, Field ''map_delete_batch'' ptr_t, Field ''map_lookup_elem''
     ptr_t, Field ''map_update_elem'' ptr_t, Field ''map_delete_elem'' ptr_t, Field
     ''map_push_elem'' ptr_t, Field ''map_pop_elem'' ptr_t, Field ''map_peek_elem'' ptr_t, Field
     ''map_lookup_percpu_elem'' ptr_t, Field ''map_fd_get_ptr'' ptr_t, Field ''map_fd_put_ptr''
     ptr_t, Field ''map_gen_lookup'' ptr_t, Field ''map_fd_sys_lookup_elem'' ptr_t, Field
     ''map_seq_show_elem'' ptr_t, Field ''map_check_btf'' ptr_t, Field ''map_poke_track'' ptr_t,
     Field ''map_poke_untrack'' ptr_t, Field ''map_poke_run'' ptr_t, Field
     ''map_direct_value_addr'' ptr_t, Field ''map_direct_value_meta'' ptr_t, Field ''map_mmap''
     ptr_t, Field ''map_poll'' ptr_t, Field ''map_local_storage_charge'' ptr_t, Field
     ''map_local_storage_uncharge'' ptr_t, Field ''map_owner_storage_ptr'' ptr_t, Field
     ''map_redirect'' ptr_t, Field ''map_meta_equal'' ptr_t, Field
     ''map_set_for_each_callback_args'' ptr_t, Field ''map_for_each_callback'' ptr_t, Field
     ''map_btf_id'' ptr_t, Field ''iter_seq_info'' ptr_t]"

definition x86_u32 :: ctype where "x86_u32 = x86___u32"

definition x86_u64 :: ctype where "x86_u64 = x86___u64"

definition x86___s64 :: ctype where "x86___s64 = Scalar 8"

definition x86_s64 :: ctype where "x86_s64 = x86___s64"

definition x86_atomic64_t :: ctype where
  "x86_atomic64_t = Struct [
     Field ''counter'' x86_s64]"

definition x86_atomic_long_t :: ctype where "x86_atomic_long_t = x86_atomic64_t"

definition x86_list_head :: ctype where
  "x86_list_head = Struct [
     Field ''next'' ptr_t, Field ''prev'' ptr_t]"

definition x86_work_struct :: ctype where
  "x86_work_struct = Struct [
     Field ''data'' x86_atomic_long_t, Field ''entry'' x86_list_head, Field ''func'' ptr_t]"

definition x86_atomic_t :: ctype where
  "x86_atomic_t = Struct [
     Field ''counter'' (Scalar 4)]"

definition x86_u8 :: ctype where "x86_u8 = x86___u8"

definition x86_u16 :: ctype where "x86_u16 = x86___u16"

definition x86_qspinlock :: ctype where
  "x86_qspinlock = Struct [
     Field '''' (Union [Field ''val'' x86_atomic_t, Field '''' (Struct [Field ''locked'' x86_u8,
     Field ''pending'' x86_u8]), Field '''' (Struct [Field ''locked_pending'' x86_u16, Field
     ''tail'' x86_u16])])]"

definition x86_arch_spinlock_t :: ctype where "x86_arch_spinlock_t = x86_qspinlock"

definition x86_raw_spinlock :: ctype where
  "x86_raw_spinlock = Struct [
     Field ''raw_lock'' x86_arch_spinlock_t]"

definition x86_raw_spinlock_t :: ctype where "x86_raw_spinlock_t = x86_raw_spinlock"

definition x86_optimistic_spin_queue :: ctype where
  "x86_optimistic_spin_queue = Struct [
     Field ''tail'' x86_atomic_t]"

definition x86_mutex :: ctype where
  "x86_mutex = Struct [
     Field ''owner'' x86_atomic_long_t, Field ''wait_lock'' x86_raw_spinlock_t, Field ''osq''
     x86_optimistic_spin_queue, Field ''wait_list'' x86_list_head]"

definition x86_spinlock :: ctype where
  "x86_spinlock = Struct [
     Field '''' (Union [Field ''rlock'' x86_raw_spinlock])]"

definition x86_spinlock_t :: ctype where "x86_spinlock_t = x86_spinlock"

definition x86_bool :: ctype where "x86_bool = Scalar 1"

definition x86_bpf_map :: ctype where
  "x86_bpf_map = Struct [
     Field ''ops'' ptr_t, Field ''inner_map_meta'' ptr_t, Field ''security'' ptr_t, Field
     ''map_type'' enum_t, Field ''key_size'' x86_u32, Field ''value_size'' x86_u32, Field
     ''max_entries'' x86_u32, Field ''map_extra'' x86_u64, Field ''map_flags'' x86_u32, Field
     ''spin_lock_off'' (Scalar 4), Field ''kptr_off_tab'' ptr_t, Field ''timer_off'' (Scalar 4),
     Field ''id'' x86_u32, Field ''numa_node'' (Scalar 4), Field ''btf_key_type_id'' x86_u32,
     Field ''btf_value_type_id'' x86_u32, Field ''btf_vmlinux_value_type_id'' x86_u32, Field
     ''btf'' ptr_t, Field ''objcg'' ptr_t, Field ''name'' (Array (Scalar 1) 16), Field ''off_arr''
     ptr_t, Field ''refcnt'' x86_atomic64_t, Field ''usercnt'' x86_atomic64_t, Field ''work''
     x86_work_struct, Field ''freeze_mutex'' x86_mutex, Field ''writecnt'' x86_atomic64_t, Field
     ''owner'' (Struct [Field ''lock'' x86_spinlock_t, Field ''type'' enum_t, Field ''jited''
     x86_bool, Field ''xdp_has_frags'' x86_bool]), Field ''bypass_spec_v1'' x86_bool, Field
     ''frozen'' x86_bool, Bits '''' 8 64, Bits '''' 8 64, Bits '''' 8 64]"

definition x86_sock_filter :: ctype where
  "x86_sock_filter = Struct [
     Field ''code'' x86___u16, Field ''jt'' x86___u8, Field ''jf'' x86___u8, Field ''k'' x86___u32]"

definition x86_bpf_prog :: ctype where
  "x86_bpf_prog = Struct [
     Field ''pages'' x86_u16, Bits ''jited'' 2 1, Bits ''jit_requested'' 2 1, Bits
     ''gpl_compatible'' 2 1, Bits ''cb_access'' 2 1, Bits ''dst_needed'' 2 1, Bits
     ''blinding_requested'' 2 1, Bits ''blinded'' 2 1, Bits ''is_func'' 2 1, Bits
     ''kprobe_override'' 2 1, Bits ''has_callchain_buf'' 2 1, Bits
     ''enforce_expected_attach_type'' 2 1, Bits ''call_get_stack'' 2 1, Bits ''call_get_func_ip''
     2 1, Bits ''tstamp_type_access'' 2 1, Field ''type'' enum_t, Field ''expected_attach_type''
     enum_t, Field ''len'' x86_u32, Field ''jited_len'' x86_u32, Field ''tag'' (Array (x86_u8) 8),
     Field ''stats'' ptr_t, Field ''active'' ptr_t, Field ''bpf_func'' ptr_t, Field ''aux'' ptr_t,
     Field ''orig_prog'' ptr_t, Field '''' (Union [Field '''' (Struct [Field ''__empty_insns''
     (Struct []), Field ''insns'' (Array (x86_sock_filter) 0)]), Field '''' (Struct [Field
     ''__empty_insnsi'' (Struct []), Field ''insnsi'' (Array (x86_bpf_insn) 0)])])]"

definition x86_rb_node :: ctype where
  "x86_rb_node = Struct [
     Field ''__rb_parent_color'' (Scalar 8), Field ''rb_right'' ptr_t, Field ''rb_left'' ptr_t]"

definition x86_latch_tree_node :: ctype where
  "x86_latch_tree_node = Struct [
     Field ''node'' (Array (x86_rb_node) 2)]"

definition x86_bpf_ksym :: ctype where
  "x86_bpf_ksym = Struct [
     Field ''start'' (Scalar 8), Field ''end'' (Scalar 8), Field ''name'' (Array (Scalar 1) 512),
     Field ''lnode'' x86_list_head, Field ''tnode'' x86_latch_tree_node, Field ''prog'' x86_bool]"

definition x86_callback_head :: ctype where
  "x86_callback_head = Struct [
     Field ''next'' ptr_t, Field ''func'' ptr_t]"

definition x86_bpf_prog_aux :: ctype where
  "x86_bpf_prog_aux = Struct [
     Field ''refcnt'' x86_atomic64_t, Field ''used_map_cnt'' x86_u32, Field ''used_btf_cnt''
     x86_u32, Field ''max_ctx_offset'' x86_u32, Field ''max_pkt_offset'' x86_u32, Field
     ''max_tp_access'' x86_u32, Field ''stack_depth'' x86_u32, Field ''id'' x86_u32, Field
     ''func_cnt'' x86_u32, Field ''func_idx'' x86_u32, Field ''attach_btf_id'' x86_u32, Field
     ''ctx_arg_info_size'' x86_u32, Field ''max_rdonly_access'' x86_u32, Field ''max_rdwr_access''
     x86_u32, Field ''attach_btf'' ptr_t, Field ''ctx_arg_info'' ptr_t, Field ''dst_mutex''
     x86_mutex, Field ''dst_prog'' ptr_t, Field ''dst_trampoline'' ptr_t, Field
     ''saved_dst_prog_type'' enum_t, Field ''saved_dst_attach_type'' enum_t, Field
     ''verifier_zext'' x86_bool, Field ''offload_requested'' x86_bool, Field ''attach_btf_trace''
     x86_bool, Field ''func_proto_unreliable'' x86_bool, Field ''sleepable'' x86_bool, Field
     ''tail_call_reachable'' x86_bool, Field ''xdp_has_frags'' x86_bool, Field
     ''attach_func_proto'' ptr_t, Field ''attach_func_name'' ptr_t, Field ''func'' ptr_t, Field
     ''jit_data'' ptr_t, Field ''poke_tab'' ptr_t, Field ''kfunc_tab'' ptr_t, Field
     ''kfunc_btf_tab'' ptr_t, Field ''size_poke_tab'' x86_u32, Field ''ksym'' x86_bpf_ksym, Field
     ''ops'' ptr_t, Field ''used_maps'' ptr_t, Field ''used_maps_mutex'' x86_mutex, Field
     ''used_btfs'' ptr_t, Field ''prog'' ptr_t, Field ''user'' ptr_t, Field ''load_time'' x86_u64,
     Field ''verified_insns'' x86_u32, Field ''cgroup_atype'' (Scalar 4), Field ''cgroup_storage''
     (Array (ptr_t) 2), Field ''name'' (Array (Scalar 1) 16), Field ''security'' ptr_t, Field
     ''offload'' ptr_t, Field ''btf'' ptr_t, Field ''func_info'' ptr_t, Field ''func_info_aux''
     ptr_t, Field ''linfo'' ptr_t, Field ''jited_linfo'' ptr_t, Field ''func_info_cnt'' x86_u32,
     Field ''nr_linfo'' x86_u32, Field ''linfo_idx'' x86_u32, Field ''num_exentries'' x86_u32,
     Field ''extable'' ptr_t, Field '''' (Union [Field ''work'' x86_work_struct, Field ''rcu''
     x86_callback_head])]"

definition x86_bpf_array :: ctype where
  "x86_bpf_array = Struct [
     Field ''map'' x86_bpf_map, Field ''elem_size'' x86_u32, Field ''index_mask'' x86_u32, Field
     ''aux'' ptr_t, Field '''' (Union [Field ''value'' (Array (Scalar 1) 0), Field ''ptrs'' (Array
     (ptr_t) 0), Field ''pptrs'' (Array (ptr_t) 0)]), Bits '''' 8 64, Bits '''' 8 64, Bits '''' 8
     64, Bits '''' 8 64, Bits '''' 8 64, Bits '''' 8 64]"

definition x86_wait_queue_head :: ctype where
  "x86_wait_queue_head = Struct [
     Field ''lock'' x86_spinlock_t, Field ''head'' x86_list_head]"

definition x86_wait_queue_head_t :: ctype where "x86_wait_queue_head_t = x86_wait_queue_head"

definition x86_llist_node :: ctype where
  "x86_llist_node = Struct [
     Field ''next'' ptr_t]"

definition x86___call_single_node :: ctype where
  "x86___call_single_node = Struct [
     Field ''llist'' x86_llist_node, Field '''' (Union [Field ''u_flags'' (Scalar 4), Field
     ''a_flags'' x86_atomic_t]), Field ''src'' x86_u16, Field ''dst'' x86_u16]"

definition x86_rcuwait :: ctype where
  "x86_rcuwait = Struct [
     Field ''task'' ptr_t]"

definition x86_irq_work :: ctype where
  "x86_irq_work = Struct [
     Field ''node'' x86___call_single_node, Field ''func'' ptr_t, Field ''irqwait'' x86_rcuwait]"

definition x86_bpf_ringbuf_head :: "cfield list" where
  "x86_bpf_ringbuf_head =
     [Field ''waitq'' x86_wait_queue_head_t, Field ''work'' x86_irq_work, Field ''mask'' x86_u64,
     Field ''pages'' ptr_t, Field ''nr_pages'' (Scalar 4)] @
     replicate 6 (Bits '''' 8 64) @
     [Field ''spinlock'' x86_spinlock_t] @
     replicate 7 (Bits '''' 8 64) @
     [Field ''busy'' x86_atomic_t] @
     replicate 487 (Bits '''' 8 64)"

definition x86_bpf_ringbuf_consumer_page :: "cfield list" where
  "x86_bpf_ringbuf_consumer_page =
     [Field ''consumer_pos'' (Scalar 8)] @
     replicate 511 (Bits '''' 8 64)"

definition x86_bpf_ringbuf_producer_page :: "cfield list" where
  "x86_bpf_ringbuf_producer_page =
     [Field ''producer_pos'' (Scalar 8)] @
     replicate 511 (Bits '''' 8 64)"

definition x86_bpf_ringbuf_data :: "cfield list" where
  "x86_bpf_ringbuf_data =
     [Field ''data'' (Array (Scalar 1) 0)]"

definition x86_bpf_ringbuf_fields :: "cfield list" where
  "x86_bpf_ringbuf_fields =
     x86_bpf_ringbuf_head @ x86_bpf_ringbuf_consumer_page @ x86_bpf_ringbuf_producer_page @ x86_bpf_ringbuf_data"

definition x86_bpf_ringbuf :: ctype where "x86_bpf_ringbuf = Struct x86_bpf_ringbuf_fields"

definition x86_bpf_ringbuf_map :: ctype where
  "x86_bpf_ringbuf_map = Struct [
     Field ''map'' x86_bpf_map, Field ''rb'' ptr_t, Bits '''' 8 64, Bits '''' 8 64, Bits '''' 8
     64, Bits '''' 8 64, Bits '''' 8 64, Bits '''' 8 64, Bits '''' 8 64]"

definition x86_bpf_ringbuf_hdr :: ctype where
  "x86_bpf_ringbuf_hdr = Struct [
     Field ''len'' x86_u32, Field ''pg_off'' x86_u32]"

definition x86___kernel_ulong_t :: ctype where "x86___kernel_ulong_t = Scalar 8"

definition x86___kernel_size_t :: ctype where "x86___kernel_size_t = x86___kernel_ulong_t"

definition x86_size_t :: ctype where "x86_size_t = x86___kernel_size_t"

definition x86_bpf_func_proto :: ctype where
  "x86_bpf_func_proto = Struct [
     Field ''func'' ptr_t, Field ''gpl_only'' x86_bool, Field ''pkt_access'' x86_bool, Field
     ''ret_type'' enum_t, Field '''' (Union [Field '''' (Struct [Field ''arg1_type'' enum_t, Field
     ''arg2_type'' enum_t, Field ''arg3_type'' enum_t, Field ''arg4_type'' enum_t, Field
     ''arg5_type'' enum_t]), Field ''arg_type'' (Array (enum_t) 5)]), Field '''' (Union [Field
     '''' (Struct [Field ''arg1_btf_id'' ptr_t, Field ''arg2_btf_id'' ptr_t, Field ''arg3_btf_id''
     ptr_t, Field ''arg4_btf_id'' ptr_t, Field ''arg5_btf_id'' ptr_t]), Field ''arg_btf_id''
     (Array (ptr_t) 5), Field '''' (Struct [Field ''arg1_size'' x86_size_t, Field ''arg2_size''
     x86_size_t, Field ''arg3_size'' x86_size_t, Field ''arg4_size'' x86_size_t, Field
     ''arg5_size'' x86_size_t]), Field ''arg_size'' (Array (x86_size_t) 5)]), Field ''ret_btf_id''
     ptr_t, Field ''allowed'' ptr_t]"

definition x86_s32 :: ctype where "x86_s32 = x86___s32"

definition x86_tnum :: ctype where
  "x86_tnum = Struct [
     Field ''value'' x86_u64, Field ''mask'' x86_u64]"

definition x86_bpf_reg_state :: ctype where
  "x86_bpf_reg_state = Struct [
     Field ''type'' enum_t, Field ''off'' x86_s32, Field '''' (Union [Field ''range'' (Scalar 4),
     Field '''' (Struct [Field ''map_ptr'' ptr_t, Field ''map_uid'' x86_u32]), Field '''' (Struct
     [Field ''btf'' ptr_t, Field ''btf_id'' x86_u32]), Field ''mem_size'' x86_u32, Field
     ''dynptr'' (Struct [Field ''type'' enum_t, Field ''first_slot'' x86_bool]), Field ''raw''
     (Struct [Field ''raw1'' (Scalar 8), Field ''raw2'' (Scalar 8)]), Field ''subprogno''
     x86_u32]), Field ''id'' x86_u32, Field ''ref_obj_id'' x86_u32, Field ''var_off'' x86_tnum,
     Field ''smin_value'' x86_s64, Field ''smax_value'' x86_s64, Field ''umin_value'' x86_u64,
     Field ''umax_value'' x86_u64, Field ''s32_min_value'' x86_s32, Field ''s32_max_value''
     x86_s32, Field ''u32_min_value'' x86_u32, Field ''u32_max_value'' x86_u32, Field ''parent''
     ptr_t, Field ''frameno'' x86_u32, Field ''subreg_def'' x86_s32, Field ''live'' enum_t, Field
     ''precise'' x86_bool]"

definition x86_bpf_func_state :: ctype where
  "x86_bpf_func_state = Struct [
     Field ''regs'' (Array (x86_bpf_reg_state) 11), Field ''callsite'' (Scalar 4), Field
     ''frameno'' x86_u32, Field ''subprogno'' x86_u32, Field ''async_entry_cnt'' x86_u32, Field
     ''in_callback_fn'' x86_bool, Field ''callback_ret_range'' x86_tnum, Field
     ''in_async_callback_fn'' x86_bool, Field ''acquired_refs'' (Scalar 4), Field ''refs'' ptr_t,
     Field ''allocated_stack'' (Scalar 4), Field ''stack'' ptr_t]"

definition x86_bpf_verifier_state :: ctype where
  "x86_bpf_verifier_state = Struct [
     Field ''frame'' (Array (ptr_t) 8), Field ''parent'' ptr_t, Field ''branches'' x86_u32, Field
     ''insn_idx'' x86_u32, Field ''curframe'' x86_u32, Field ''active_spin_lock'' x86_u32, Field
     ''speculative'' x86_bool, Field ''first_insn_idx'' x86_u32, Field ''last_insn_idx'' x86_u32,
     Field ''jmp_history'' ptr_t, Field ''jmp_history_cnt'' x86_u32]"

definition x86_bpf_loop_inline_state :: ctype where
  "x86_bpf_loop_inline_state = Struct [
     Bits ''initialized'' 4 1, Bits ''fit_for_inline'' 4 1, Field ''callback_subprogno'' x86_u32]"

definition x86_bpf_insn_aux_data :: ctype where
  "x86_bpf_insn_aux_data = Struct [
     Field '''' (Union [Field ''ptr_type'' enum_t, Field ''map_ptr_state'' (Scalar 8), Field
     ''call_imm'' x86_s32, Field ''alu_limit'' x86_u32, Field '''' (Struct [Field ''map_index''
     x86_u32, Field ''map_off'' x86_u32]), Field ''btf_var'' (Struct [Field ''reg_type'' enum_t,
     Field '''' (Union [Field '''' (Struct [Field ''btf'' ptr_t, Field ''btf_id'' x86_u32]), Field
     ''mem_size'' x86_u32])]), Field ''loop_inline_state'' x86_bpf_loop_inline_state]), Field
     ''map_key_state'' x86_u64, Field ''ctx_field_size'' (Scalar 4), Field ''seen'' x86_u32, Field
     ''sanitize_stack_spill'' x86_bool, Field ''zext_dst'' x86_bool, Field ''alu_state'' x86_u8,
     Field ''orig_idx'' (Scalar 4), Field ''prune_point'' x86_bool, Field ''jmp_point'' x86_bool]"

definition x86_bpf_subprog_info :: ctype where
  "x86_bpf_subprog_info = Struct [
     Field ''start'' x86_u32, Field ''linfo_idx'' x86_u32, Field ''stack_depth'' x86_u16, Field
     ''has_tail_call'' x86_bool, Field ''tail_call_reachable'' x86_bool, Field ''has_ld_abs''
     x86_bool, Field ''is_async_cb'' x86_bool]"

definition x86_btf_mod_pair :: ctype where
  "x86_btf_mod_pair = Struct [
     Field ''btf'' ptr_t, Field ''module'' ptr_t]"

definition x86_bpf_verifier_log :: ctype where
  "x86_bpf_verifier_log = Struct [
     Field ''level'' x86_u32, Field ''kbuf'' (Array (Scalar 1) 1024), Field ''ubuf'' ptr_t, Field
     ''len_used'' x86_u32, Field ''len_total'' x86_u32]"

definition x86_bpf_id_pair :: ctype where
  "x86_bpf_id_pair = Struct [
     Field ''old'' x86_u32, Field ''cur'' x86_u32]"

definition x86_sockptr_t :: ctype where
  "x86_sockptr_t = Struct [
     Field '''' (Union [Field ''kernel'' ptr_t, Field ''user'' ptr_t]), Bits ''is_kernel'' 1 1]"

definition x86_bpfptr_t :: ctype where "x86_bpfptr_t = x86_sockptr_t"

definition x86_bpf_verifier_env :: ctype where
  "x86_bpf_verifier_env = Struct [
     Field ''insn_idx'' x86_u32, Field ''prev_insn_idx'' x86_u32, Field ''prog'' ptr_t, Field
     ''ops'' ptr_t, Field ''head'' ptr_t, Field ''stack_size'' (Scalar 4), Field
     ''strict_alignment'' x86_bool, Field ''test_state_freq'' x86_bool, Field ''cur_state'' ptr_t,
     Field ''explored_states'' ptr_t, Field ''free_list'' ptr_t, Field ''used_maps'' (Array
     (ptr_t) 64), Field ''used_btfs'' (Array (x86_btf_mod_pair) 64), Field ''used_map_cnt''
     x86_u32, Field ''used_btf_cnt'' x86_u32, Field ''id_gen'' x86_u32, Field
     ''explore_alu_limits'' x86_bool, Field ''allow_ptr_leaks'' x86_bool, Field
     ''allow_uninit_stack'' x86_bool, Field ''allow_ptr_to_map_access'' x86_bool, Field
     ''bpf_capable'' x86_bool, Field ''bypass_spec_v1'' x86_bool, Field ''bypass_spec_v4''
     x86_bool, Field ''seen_direct_write'' x86_bool, Field ''insn_aux_data'' ptr_t, Field
     ''prev_linfo'' ptr_t, Field ''log'' x86_bpf_verifier_log, Field ''subprog_info'' (Array
     (x86_bpf_subprog_info) 257), Field ''idmap_scratch'' (Array (x86_bpf_id_pair) 75), Field
     ''cfg'' (Struct [Field ''insn_state'' ptr_t, Field ''insn_stack'' ptr_t, Field ''cur_stack''
     (Scalar 4)]), Field ''pass_cnt'' x86_u32, Field ''subprog_cnt'' x86_u32, Field
     ''prev_insn_processed'' x86_u32, Field ''insn_processed'' x86_u32, Field
     ''prev_jmps_processed'' x86_u32, Field ''jmps_processed'' x86_u32, Field
     ''verification_time'' x86_u64, Field ''max_states_per_insn'' x86_u32, Field ''total_states''
     x86_u32, Field ''peak_states'' x86_u32, Field ''longest_mark_read_walk'' x86_u32, Field
     ''fd_array'' x86_bpfptr_t, Field ''scratched_regs'' x86_u32, Field ''scratched_stack_slots''
     x86_u64, Field ''prev_log_len'' x86_u32, Field ''prev_insn_print_len'' x86_u32, Field
     ''type_str_buf'' (Array (Scalar 1) 64)]"

definition x86_bpf_call_arg_meta :: ctype where
  "x86_bpf_call_arg_meta = Struct [
     Field ''map_ptr'' ptr_t, Field ''raw_mode'' x86_bool, Field ''pkt_access'' x86_bool, Field
     ''release_regno'' x86_u8, Field ''regno'' (Scalar 4), Field ''access_size'' (Scalar 4), Field
     ''mem_size'' (Scalar 4), Field ''msize_max_value'' x86_u64, Field ''ref_obj_id'' (Scalar 4),
     Field ''map_uid'' (Scalar 4), Field ''func_id'' (Scalar 4), Field ''btf'' ptr_t, Field
     ''btf_id'' x86_u32, Field ''ret_btf'' ptr_t, Field ''ret_btf_id'' x86_u32, Field
     ''subprogno'' x86_u32, Field ''kptr_off_desc'' ptr_t, Field ''uninit_dynptr_regno'' x86_u8]"

definition x86_bpf_prog_array_item :: ctype where
  "x86_bpf_prog_array_item = Struct [
     Field ''prog'' ptr_t, Field '''' (Union [Field ''cgroup_storage'' (Array (ptr_t) 2), Field
     ''bpf_cookie'' x86_u64])]"

definition x86_bpf_prog_array :: ctype where
  "x86_bpf_prog_array = Struct [
     Field ''rcu'' x86_callback_head, Field ''items'' (Array (x86_bpf_prog_array_item) 0)]"

definition x86_bpf_link :: ctype where
  "x86_bpf_link = Struct [
     Field ''refcnt'' x86_atomic64_t, Field ''id'' x86_u32, Field ''type'' enum_t, Field ''ops''
     ptr_t, Field ''prog'' ptr_t, Field ''work'' x86_work_struct]"

definition x86_bpf_ctx_arg_aux :: ctype where
  "x86_bpf_ctx_arg_aux = Struct [
     Field ''offset'' x86_u32, Field ''reg_type'' enum_t, Field ''btf_id'' x86_u32]"

definition x86_bpf_verifier_ops :: ctype where
  "x86_bpf_verifier_ops = Struct [
     Field ''get_func_proto'' ptr_t, Field ''is_valid_access'' ptr_t, Field ''gen_prologue''
     ptr_t, Field ''gen_ld_abs'' ptr_t, Field ''convert_ctx_access'' ptr_t, Field
     ''btf_struct_access'' ptr_t]"

definition x86_bpf_insn_access_aux :: ctype where
  "x86_bpf_insn_access_aux = Struct [
     Field ''reg_type'' enum_t, Field '''' (Union [Field ''ctx_field_size'' (Scalar 4), Field ''''
     (Struct [Field ''btf'' ptr_t, Field ''btf_id'' x86_u32])]), Field ''log'' ptr_t]"

lemmas x86_type_defs =
  x86___u8_def x86___s16_def x86___s32_def x86_bpf_insn_def x86___u32_def x86___u64_def
  x86_bpf_attr_def x86_bpf_link_info_def x86_bpf_prog_info_def x86_bpf_map_info_def
  x86_bpf_btf_info_def x86_bpf_func_info_def x86_bpf_line_info_def x86_bpf_core_relo_def
  x86___u16_def x86___be16_def x86_bpf_sock_def x86_bpf_sock_addr_def x86_bpf_sock_ops_def
  x86_bpf_sk_lookup_def x86_bpf_sockopt_def x86___be32_def x86_bpf_flow_keys_def
  x86_bpf_tunnel_key_def x86_bpf_tcp_sock_def x86_bpf_sock_tuple_def x86_bpf_fib_lookup_def
  x86_bpf_xfrm_state_def x86_bpf_cgroup_dev_ctx_def x86_bpf_raw_tracepoint_args_def
  x86_bpf_sysctl_def x86_bpf_pidns_info_def x86_pt_regs_def x86_bpf_user_pt_regs_t_def
  x86_bpf_perf_event_data_def x86_bpf_redir_neigh_def x86_bpf_spin_lock_def x86_bpf_timer_def
  x86_bpf_dynptr_def x86_bpf_cgroup_storage_key_def x86_bpf_lpm_trie_key_def
  x86_bpf_stack_build_id_def x86_bpf_iter_link_info_def x86_bpf_devmap_val_def
  x86_bpf_cpumap_val_def x86_bpf_map_ops_def x86_u32_def x86_u64_def x86___s64_def x86_s64_def
  x86_atomic64_t_def x86_atomic_long_t_def x86_list_head_def x86_work_struct_def x86_atomic_t_def
  x86_u8_def x86_u16_def x86_qspinlock_def x86_arch_spinlock_t_def x86_raw_spinlock_def
  x86_raw_spinlock_t_def x86_optimistic_spin_queue_def x86_mutex_def x86_spinlock_def
  x86_spinlock_t_def x86_bool_def x86_bpf_map_def x86_sock_filter_def x86_bpf_prog_def
  x86_rb_node_def x86_latch_tree_node_def x86_bpf_ksym_def x86_callback_head_def
  x86_bpf_prog_aux_def x86_bpf_array_def x86_wait_queue_head_def x86_wait_queue_head_t_def
  x86_llist_node_def x86___call_single_node_def x86_rcuwait_def x86_irq_work_def
  x86_bpf_ringbuf_head_def x86_bpf_ringbuf_consumer_page_def x86_bpf_ringbuf_producer_page_def
  x86_bpf_ringbuf_data_def x86_bpf_ringbuf_fields_def x86_bpf_ringbuf_def x86_bpf_ringbuf_map_def
  x86_bpf_ringbuf_hdr_def x86___kernel_ulong_t_def x86___kernel_size_t_def x86_size_t_def
  x86_bpf_func_proto_def x86_s32_def x86_tnum_def x86_bpf_reg_state_def x86_bpf_func_state_def
  x86_bpf_verifier_state_def x86_bpf_loop_inline_state_def x86_bpf_insn_aux_data_def
  x86_bpf_subprog_info_def x86_btf_mod_pair_def x86_bpf_verifier_log_def x86_bpf_id_pair_def
  x86_sockptr_t_def x86_bpfptr_t_def x86_bpf_verifier_env_def x86_bpf_call_arg_meta_def
  x86_bpf_prog_array_item_def x86_bpf_prog_array_def x86_bpf_link_def x86_bpf_ctx_arg_aux_def
  x86_bpf_verifier_ops_def x86_bpf_insn_access_aux_def

end
