(* ===== verification/VmlinuxArm.thy ===== *)
theory VmlinuxArm
  imports CLayout
begin

text \<open>
  The BPF data types of the aarch64 kernel header the BPF program is compiled against
  (\<^verbatim>\<open>vmlinux/aarch64/vmlinux.h\<close>), as layout terms: every struct, union and typedef with its
  members in the header's order, the types they embed first. A term says how a type is laid out and
  no more: a member that is a pointer, to data or to a function, is its eight bytes, and one that is
  an enumeration its four; what a pointer points to is not kept.
\<close>

definition arm___u8 :: ctype where "arm___u8 = Scalar 1"

definition arm___s16 :: ctype where "arm___s16 = Scalar 2"

definition arm___s32 :: ctype where "arm___s32 = Scalar 4"

definition arm_bpf_insn :: ctype where
  "arm_bpf_insn = Struct [
     Field ''code'' arm___u8, Bits ''dst_reg'' 1 4, Bits ''src_reg'' 1 4, Field ''off'' arm___s16,
     Field ''imm'' arm___s32]"

definition arm___u32 :: ctype where "arm___u32 = Scalar 4"

definition arm___u64 :: ctype where "arm___u64 = Scalar 8"

definition arm_bpf_attr :: ctype where
  "arm_bpf_attr = Union [
     Field '''' (Struct [Field ''map_type'' arm___u32, Field ''key_size'' arm___u32, Field
     ''value_size'' arm___u32, Field ''max_entries'' arm___u32, Field ''map_flags'' arm___u32,
     Field ''inner_map_fd'' arm___u32, Field ''numa_node'' arm___u32, Field ''map_name'' (Array
     (Scalar 1) 16), Field ''map_ifindex'' arm___u32, Field ''btf_fd'' arm___u32, Field
     ''btf_key_type_id'' arm___u32, Field ''btf_value_type_id'' arm___u32, Field
     ''btf_vmlinux_value_type_id'' arm___u32, Field ''map_extra'' arm___u64]), Field '''' (Struct
     [Field ''map_fd'' arm___u32, Field ''key'' arm___u64, Field '''' (Union [Field ''value''
     arm___u64, Field ''next_key'' arm___u64]), Field ''flags'' arm___u64]), Field ''batch''
     (Struct [Field ''in_batch'' arm___u64, Field ''out_batch'' arm___u64, Field ''keys''
     arm___u64, Field ''values'' arm___u64, Field ''count'' arm___u32, Field ''map_fd'' arm___u32,
     Field ''elem_flags'' arm___u64, Field ''flags'' arm___u64]), Field '''' (Struct [Field
     ''prog_type'' arm___u32, Field ''insn_cnt'' arm___u32, Field ''insns'' arm___u64, Field
     ''license'' arm___u64, Field ''log_level'' arm___u32, Field ''log_size'' arm___u32, Field
     ''log_buf'' arm___u64, Field ''kern_version'' arm___u32, Field ''prog_flags'' arm___u32,
     Field ''prog_name'' (Array (Scalar 1) 16), Field ''prog_ifindex'' arm___u32, Field
     ''expected_attach_type'' arm___u32, Field ''prog_btf_fd'' arm___u32, Field
     ''func_info_rec_size'' arm___u32, Field ''func_info'' arm___u64, Field ''func_info_cnt''
     arm___u32, Field ''line_info_rec_size'' arm___u32, Field ''line_info'' arm___u64, Field
     ''line_info_cnt'' arm___u32, Field ''attach_btf_id'' arm___u32, Field '''' (Union [Field
     ''attach_prog_fd'' arm___u32, Field ''attach_btf_obj_fd'' arm___u32]), Field
     ''core_relo_cnt'' arm___u32, Field ''fd_array'' arm___u64, Field ''core_relos'' arm___u64,
     Field ''core_relo_rec_size'' arm___u32]), Field '''' (Struct [Field ''pathname'' arm___u64,
     Field ''bpf_fd'' arm___u32, Field ''file_flags'' arm___u32]), Field '''' (Struct [Field
     ''target_fd'' arm___u32, Field ''attach_bpf_fd'' arm___u32, Field ''attach_type'' arm___u32,
     Field ''attach_flags'' arm___u32, Field ''replace_bpf_fd'' arm___u32]), Field ''test''
     (Struct [Field ''prog_fd'' arm___u32, Field ''retval'' arm___u32, Field ''data_size_in''
     arm___u32, Field ''data_size_out'' arm___u32, Field ''data_in'' arm___u64, Field ''data_out''
     arm___u64, Field ''repeat'' arm___u32, Field ''duration'' arm___u32, Field ''ctx_size_in''
     arm___u32, Field ''ctx_size_out'' arm___u32, Field ''ctx_in'' arm___u64, Field ''ctx_out''
     arm___u64, Field ''flags'' arm___u32, Field ''cpu'' arm___u32, Field ''batch_size''
     arm___u32]), Field '''' (Struct [Field '''' (Union [Field ''start_id'' arm___u32, Field
     ''prog_id'' arm___u32, Field ''map_id'' arm___u32, Field ''btf_id'' arm___u32, Field
     ''link_id'' arm___u32]), Field ''next_id'' arm___u32, Field ''open_flags'' arm___u32]), Field
     ''info'' (Struct [Field ''bpf_fd'' arm___u32, Field ''info_len'' arm___u32, Field ''info''
     arm___u64]), Field ''query'' (Struct [Field ''target_fd'' arm___u32, Field ''attach_type''
     arm___u32, Field ''query_flags'' arm___u32, Field ''attach_flags'' arm___u32, Field
     ''prog_ids'' arm___u64, Field ''prog_cnt'' arm___u32, Field ''prog_attach_flags''
     arm___u64]), Field ''raw_tracepoint'' (Struct [Field ''name'' arm___u64, Field ''prog_fd''
     arm___u32]), Field '''' (Struct [Field ''btf'' arm___u64, Field ''btf_log_buf'' arm___u64,
     Field ''btf_size'' arm___u32, Field ''btf_log_size'' arm___u32, Field ''btf_log_level''
     arm___u32]), Field ''task_fd_query'' (Struct [Field ''pid'' arm___u32, Field ''fd''
     arm___u32, Field ''flags'' arm___u32, Field ''buf_len'' arm___u32, Field ''buf'' arm___u64,
     Field ''prog_id'' arm___u32, Field ''fd_type'' arm___u32, Field ''probe_offset'' arm___u64,
     Field ''probe_addr'' arm___u64]), Field ''link_create'' (Struct [Field ''prog_fd'' arm___u32,
     Field '''' (Union [Field ''target_fd'' arm___u32, Field ''target_ifindex'' arm___u32]), Field
     ''attach_type'' arm___u32, Field ''flags'' arm___u32, Field '''' (Union [Field
     ''target_btf_id'' arm___u32, Field '''' (Struct [Field ''iter_info'' arm___u64, Field
     ''iter_info_len'' arm___u32]), Field ''perf_event'' (Struct [Field ''bpf_cookie''
     arm___u64]), Field ''kprobe_multi'' (Struct [Field ''flags'' arm___u32, Field ''cnt''
     arm___u32, Field ''syms'' arm___u64, Field ''addrs'' arm___u64, Field ''cookies''
     arm___u64]), Field ''tracing'' (Struct [Field ''target_btf_id'' arm___u32, Field ''cookie''
     arm___u64])])]), Field ''link_update'' (Struct [Field ''link_fd'' arm___u32, Field
     ''new_prog_fd'' arm___u32, Field ''flags'' arm___u32, Field ''old_prog_fd'' arm___u32]),
     Field ''link_detach'' (Struct [Field ''link_fd'' arm___u32]), Field ''enable_stats'' (Struct
     [Field ''type'' arm___u32]), Field ''iter_create'' (Struct [Field ''link_fd'' arm___u32,
     Field ''flags'' arm___u32]), Field ''prog_bind_map'' (Struct [Field ''prog_fd'' arm___u32,
     Field ''map_fd'' arm___u32, Field ''flags'' arm___u32])]"

definition arm_bpf_link_info :: ctype where
  "arm_bpf_link_info = Struct [
     Field ''type'' arm___u32, Field ''id'' arm___u32, Field ''prog_id'' arm___u32, Field ''''
     (Union [Field ''raw_tracepoint'' (Struct [Field ''tp_name'' arm___u64, Field ''tp_name_len''
     arm___u32]), Field ''tracing'' (Struct [Field ''attach_type'' arm___u32, Field
     ''target_obj_id'' arm___u32, Field ''target_btf_id'' arm___u32]), Field ''cgroup'' (Struct
     [Field ''cgroup_id'' arm___u64, Field ''attach_type'' arm___u32]), Field ''iter'' (Struct
     [Field ''target_name'' arm___u64, Field ''target_name_len'' arm___u32, Field '''' (Union
     [Field ''map'' (Struct [Field ''map_id'' arm___u32])]), Field '''' (Union [Field ''cgroup''
     (Struct [Field ''cgroup_id'' arm___u64, Field ''order'' arm___u32]), Field ''task'' (Struct
     [Field ''tid'' arm___u32, Field ''pid'' arm___u32])])]), Field ''netns'' (Struct [Field
     ''netns_ino'' arm___u32, Field ''attach_type'' arm___u32]), Field ''xdp'' (Struct [Field
     ''ifindex'' arm___u32])])]"

definition arm_bpf_prog_info :: ctype where
  "arm_bpf_prog_info = Struct [
     Field ''type'' arm___u32, Field ''id'' arm___u32, Field ''tag'' (Array (arm___u8) 8), Field
     ''jited_prog_len'' arm___u32, Field ''xlated_prog_len'' arm___u32, Field ''jited_prog_insns''
     arm___u64, Field ''xlated_prog_insns'' arm___u64, Field ''load_time'' arm___u64, Field
     ''created_by_uid'' arm___u32, Field ''nr_map_ids'' arm___u32, Field ''map_ids'' arm___u64,
     Field ''name'' (Array (Scalar 1) 16), Field ''ifindex'' arm___u32, Bits ''gpl_compatible'' 4
     1, Field ''netns_dev'' arm___u64, Field ''netns_ino'' arm___u64, Field ''nr_jited_ksyms''
     arm___u32, Field ''nr_jited_func_lens'' arm___u32, Field ''jited_ksyms'' arm___u64, Field
     ''jited_func_lens'' arm___u64, Field ''btf_id'' arm___u32, Field ''func_info_rec_size''
     arm___u32, Field ''func_info'' arm___u64, Field ''nr_func_info'' arm___u32, Field
     ''nr_line_info'' arm___u32, Field ''line_info'' arm___u64, Field ''jited_line_info''
     arm___u64, Field ''nr_jited_line_info'' arm___u32, Field ''line_info_rec_size'' arm___u32,
     Field ''jited_line_info_rec_size'' arm___u32, Field ''nr_prog_tags'' arm___u32, Field
     ''prog_tags'' arm___u64, Field ''run_time_ns'' arm___u64, Field ''run_cnt'' arm___u64, Field
     ''recursion_misses'' arm___u64, Field ''verified_insns'' arm___u32, Field
     ''attach_btf_obj_id'' arm___u32, Field ''attach_btf_id'' arm___u32]"

definition arm_bpf_map_info :: ctype where
  "arm_bpf_map_info = Struct [
     Field ''type'' arm___u32, Field ''id'' arm___u32, Field ''key_size'' arm___u32, Field
     ''value_size'' arm___u32, Field ''max_entries'' arm___u32, Field ''map_flags'' arm___u32,
     Field ''name'' (Array (Scalar 1) 16), Field ''ifindex'' arm___u32, Field
     ''btf_vmlinux_value_type_id'' arm___u32, Field ''netns_dev'' arm___u64, Field ''netns_ino''
     arm___u64, Field ''btf_id'' arm___u32, Field ''btf_key_type_id'' arm___u32, Field
     ''btf_value_type_id'' arm___u32, Field ''map_extra'' arm___u64]"

definition arm_bpf_btf_info :: ctype where
  "arm_bpf_btf_info = Struct [
     Field ''btf'' arm___u64, Field ''btf_size'' arm___u32, Field ''id'' arm___u32, Field ''name''
     arm___u64, Field ''name_len'' arm___u32, Field ''kernel_btf'' arm___u32]"

definition arm_bpf_func_info :: ctype where
  "arm_bpf_func_info = Struct [
     Field ''insn_off'' arm___u32, Field ''type_id'' arm___u32]"

definition arm_bpf_line_info :: ctype where
  "arm_bpf_line_info = Struct [
     Field ''insn_off'' arm___u32, Field ''file_name_off'' arm___u32, Field ''line_off''
     arm___u32, Field ''line_col'' arm___u32]"

definition arm_bpf_core_relo :: ctype where
  "arm_bpf_core_relo = Struct [
     Field ''insn_off'' arm___u32, Field ''type_id'' arm___u32, Field ''access_str_off''
     arm___u32, Field ''kind'' enum_t]"

definition arm___u16 :: ctype where "arm___u16 = Scalar 2"

definition arm___be16 :: ctype where "arm___be16 = arm___u16"

definition arm_bpf_sock :: ctype where
  "arm_bpf_sock = Struct [
     Field ''bound_dev_if'' arm___u32, Field ''family'' arm___u32, Field ''type'' arm___u32, Field
     ''protocol'' arm___u32, Field ''mark'' arm___u32, Field ''priority'' arm___u32, Field
     ''src_ip4'' arm___u32, Field ''src_ip6'' (Array (arm___u32) 4), Field ''src_port'' arm___u32,
     Field ''dst_port'' arm___be16, Field ''dst_ip4'' arm___u32, Field ''dst_ip6'' (Array
     (arm___u32) 4), Field ''state'' arm___u32, Field ''rx_queue_mapping'' arm___s32]"

definition arm_bpf_sock_addr :: ctype where
  "arm_bpf_sock_addr = Struct [
     Field ''user_family'' arm___u32, Field ''user_ip4'' arm___u32, Field ''user_ip6'' (Array
     (arm___u32) 4), Field ''user_port'' arm___u32, Field ''family'' arm___u32, Field ''type''
     arm___u32, Field ''protocol'' arm___u32, Field ''msg_src_ip4'' arm___u32, Field
     ''msg_src_ip6'' (Array (arm___u32) 4), Field '''' (Union [Field ''sk'' ptr_t])]"

definition arm_bpf_sock_ops :: ctype where
  "arm_bpf_sock_ops = Struct [
     Field ''op'' arm___u32, Field '''' (Union [Field ''args'' (Array (arm___u32) 4), Field
     ''reply'' arm___u32, Field ''replylong'' (Array (arm___u32) 4)]), Field ''family'' arm___u32,
     Field ''remote_ip4'' arm___u32, Field ''local_ip4'' arm___u32, Field ''remote_ip6'' (Array
     (arm___u32) 4), Field ''local_ip6'' (Array (arm___u32) 4), Field ''remote_port'' arm___u32,
     Field ''local_port'' arm___u32, Field ''is_fullsock'' arm___u32, Field ''snd_cwnd''
     arm___u32, Field ''srtt_us'' arm___u32, Field ''bpf_sock_ops_cb_flags'' arm___u32, Field
     ''state'' arm___u32, Field ''rtt_min'' arm___u32, Field ''snd_ssthresh'' arm___u32, Field
     ''rcv_nxt'' arm___u32, Field ''snd_nxt'' arm___u32, Field ''snd_una'' arm___u32, Field
     ''mss_cache'' arm___u32, Field ''ecn_flags'' arm___u32, Field ''rate_delivered'' arm___u32,
     Field ''rate_interval_us'' arm___u32, Field ''packets_out'' arm___u32, Field ''retrans_out''
     arm___u32, Field ''total_retrans'' arm___u32, Field ''segs_in'' arm___u32, Field
     ''data_segs_in'' arm___u32, Field ''segs_out'' arm___u32, Field ''data_segs_out'' arm___u32,
     Field ''lost_out'' arm___u32, Field ''sacked_out'' arm___u32, Field ''sk_txhash'' arm___u32,
     Field ''bytes_received'' arm___u64, Field ''bytes_acked'' arm___u64, Field '''' (Union [Field
     ''sk'' ptr_t]), Field '''' (Union [Field ''skb_data'' ptr_t]), Field '''' (Union [Field
     ''skb_data_end'' ptr_t]), Field ''skb_len'' arm___u32, Field ''skb_tcp_flags'' arm___u32]"

definition arm_bpf_sk_lookup :: ctype where
  "arm_bpf_sk_lookup = Struct [
     Field '''' (Union [Field '''' (Union [Field ''sk'' ptr_t]), Field ''cookie'' arm___u64]),
     Field ''family'' arm___u32, Field ''protocol'' arm___u32, Field ''remote_ip4'' arm___u32,
     Field ''remote_ip6'' (Array (arm___u32) 4), Field ''remote_port'' arm___be16, Field
     ''local_ip4'' arm___u32, Field ''local_ip6'' (Array (arm___u32) 4), Field ''local_port''
     arm___u32, Field ''ingress_ifindex'' arm___u32]"

definition arm_bpf_sockopt :: ctype where
  "arm_bpf_sockopt = Struct [
     Field '''' (Union [Field ''sk'' ptr_t]), Field '''' (Union [Field ''optval'' ptr_t]), Field
     '''' (Union [Field ''optval_end'' ptr_t]), Field ''level'' arm___s32, Field ''optname''
     arm___s32, Field ''optlen'' arm___s32, Field ''retval'' arm___s32]"

definition arm___be32 :: ctype where "arm___be32 = arm___u32"

definition arm_bpf_flow_keys :: ctype where
  "arm_bpf_flow_keys = Struct [
     Field ''nhoff'' arm___u16, Field ''thoff'' arm___u16, Field ''addr_proto'' arm___u16, Field
     ''is_frag'' arm___u8, Field ''is_first_frag'' arm___u8, Field ''is_encap'' arm___u8, Field
     ''ip_proto'' arm___u8, Field ''n_proto'' arm___be16, Field ''sport'' arm___be16, Field
     ''dport'' arm___be16, Field '''' (Union [Field '''' (Struct [Field ''ipv4_src'' arm___be32,
     Field ''ipv4_dst'' arm___be32]), Field '''' (Struct [Field ''ipv6_src'' (Array (arm___u32)
     4), Field ''ipv6_dst'' (Array (arm___u32) 4)])]), Field ''flags'' arm___u32, Field
     ''flow_label'' arm___be32]"

definition arm_bpf_tunnel_key :: ctype where
  "arm_bpf_tunnel_key = Struct [
     Field ''tunnel_id'' arm___u32, Field '''' (Union [Field ''remote_ipv4'' arm___u32, Field
     ''remote_ipv6'' (Array (arm___u32) 4)]), Field ''tunnel_tos'' arm___u8, Field ''tunnel_ttl''
     arm___u8, Field '''' (Union [Field ''tunnel_ext'' arm___u16, Field ''tunnel_flags''
     arm___be16]), Field ''tunnel_label'' arm___u32, Field '''' (Union [Field ''local_ipv4''
     arm___u32, Field ''local_ipv6'' (Array (arm___u32) 4)])]"

definition arm_bpf_tcp_sock :: ctype where
  "arm_bpf_tcp_sock = Struct [
     Field ''snd_cwnd'' arm___u32, Field ''srtt_us'' arm___u32, Field ''rtt_min'' arm___u32, Field
     ''snd_ssthresh'' arm___u32, Field ''rcv_nxt'' arm___u32, Field ''snd_nxt'' arm___u32, Field
     ''snd_una'' arm___u32, Field ''mss_cache'' arm___u32, Field ''ecn_flags'' arm___u32, Field
     ''rate_delivered'' arm___u32, Field ''rate_interval_us'' arm___u32, Field ''packets_out''
     arm___u32, Field ''retrans_out'' arm___u32, Field ''total_retrans'' arm___u32, Field
     ''segs_in'' arm___u32, Field ''data_segs_in'' arm___u32, Field ''segs_out'' arm___u32, Field
     ''data_segs_out'' arm___u32, Field ''lost_out'' arm___u32, Field ''sacked_out'' arm___u32,
     Field ''bytes_received'' arm___u64, Field ''bytes_acked'' arm___u64, Field ''dsack_dups''
     arm___u32, Field ''delivered'' arm___u32, Field ''delivered_ce'' arm___u32, Field
     ''icsk_retransmits'' arm___u32]"

definition arm_bpf_sock_tuple :: ctype where
  "arm_bpf_sock_tuple = Struct [
     Field '''' (Union [Field ''ipv4'' (Struct [Field ''saddr'' arm___be32, Field ''daddr''
     arm___be32, Field ''sport'' arm___be16, Field ''dport'' arm___be16]), Field ''ipv6'' (Struct
     [Field ''saddr'' (Array (arm___be32) 4), Field ''daddr'' (Array (arm___be32) 4), Field
     ''sport'' arm___be16, Field ''dport'' arm___be16])])]"

definition arm_bpf_fib_lookup :: ctype where
  "arm_bpf_fib_lookup = Struct [
     Field ''family'' arm___u8, Field ''l4_protocol'' arm___u8, Field ''sport'' arm___be16, Field
     ''dport'' arm___be16, Field '''' (Union [Field ''tot_len'' arm___u16, Field ''mtu_result''
     arm___u16]), Field ''ifindex'' arm___u32, Field '''' (Union [Field ''tos'' arm___u8, Field
     ''flowinfo'' arm___be32, Field ''rt_metric'' arm___u32]), Field '''' (Union [Field
     ''ipv4_src'' arm___be32, Field ''ipv6_src'' (Array (arm___u32) 4)]), Field '''' (Union [Field
     ''ipv4_dst'' arm___be32, Field ''ipv6_dst'' (Array (arm___u32) 4)]), Field ''h_vlan_proto''
     arm___be16, Field ''h_vlan_TCI'' arm___be16, Field ''smac'' (Array (arm___u8) 6), Field
     ''dmac'' (Array (arm___u8) 6)]"

definition arm_bpf_xfrm_state :: ctype where
  "arm_bpf_xfrm_state = Struct [
     Field ''reqid'' arm___u32, Field ''spi'' arm___u32, Field ''family'' arm___u16, Field ''ext''
     arm___u16, Field '''' (Union [Field ''remote_ipv4'' arm___u32, Field ''remote_ipv6'' (Array
     (arm___u32) 4)])]"

definition arm_bpf_cgroup_dev_ctx :: ctype where
  "arm_bpf_cgroup_dev_ctx = Struct [
     Field ''access_type'' arm___u32, Field ''major'' arm___u32, Field ''minor'' arm___u32]"

definition arm_bpf_raw_tracepoint_args :: ctype where
  "arm_bpf_raw_tracepoint_args = Struct [
     Field ''args'' (Array (arm___u64) 0)]"

definition arm_bpf_sysctl :: ctype where
  "arm_bpf_sysctl = Struct [
     Field ''write'' arm___u32, Field ''file_pos'' arm___u32]"

definition arm_bpf_pidns_info :: ctype where
  "arm_bpf_pidns_info = Struct [
     Field ''pid'' arm___u32, Field ''tgid'' arm___u32]"

definition arm_user_pt_regs :: ctype where
  "arm_user_pt_regs = Struct [
     Field ''regs'' (Array (arm___u64) 31), Field ''sp'' arm___u64, Field ''pc'' arm___u64, Field
     ''pstate'' arm___u64]"

definition arm_bpf_user_pt_regs_t :: ctype where "arm_bpf_user_pt_regs_t = arm_user_pt_regs"

definition arm_bpf_perf_event_data :: ctype where
  "arm_bpf_perf_event_data = Struct [
     Field ''regs'' arm_bpf_user_pt_regs_t, Field ''sample_period'' arm___u64, Field ''addr''
     arm___u64]"

definition arm_bpf_redir_neigh :: ctype where
  "arm_bpf_redir_neigh = Struct [
     Field ''nh_family'' arm___u32, Field '''' (Union [Field ''ipv4_nh'' arm___be32, Field
     ''ipv6_nh'' (Array (arm___u32) 4)])]"

definition arm_bpf_spin_lock :: ctype where
  "arm_bpf_spin_lock = Struct [
     Field ''val'' arm___u32]"

definition arm_bpf_timer :: ctype where
  "arm_bpf_timer = Struct [
     Bits '''' 8 64, Bits '''' 8 64]"

definition arm_bpf_dynptr :: ctype where
  "arm_bpf_dynptr = Struct [
     Bits '''' 8 64, Bits '''' 8 64]"

definition arm_bpf_cgroup_storage_key :: ctype where
  "arm_bpf_cgroup_storage_key = Struct [
     Field ''cgroup_inode_id'' arm___u64, Field ''attach_type'' arm___u32]"

definition arm_bpf_lpm_trie_key :: ctype where
  "arm_bpf_lpm_trie_key = Struct [
     Field ''prefixlen'' arm___u32, Field ''data'' (Array (arm___u8) 0)]"

definition arm_bpf_stack_build_id :: ctype where
  "arm_bpf_stack_build_id = Struct [
     Field ''status'' arm___s32, Field ''build_id'' (Array (Scalar 1) 20), Field '''' (Union
     [Field ''offset'' arm___u64, Field ''ip'' arm___u64])]"

definition arm_bpf_iter_link_info :: ctype where
  "arm_bpf_iter_link_info = Union [
     Field ''map'' (Struct [Field ''map_fd'' arm___u32]), Field ''cgroup'' (Struct [Field
     ''order'' enum_t, Field ''cgroup_fd'' arm___u32, Field ''cgroup_id'' arm___u64]), Field
     ''task'' (Struct [Field ''tid'' arm___u32, Field ''pid'' arm___u32, Field ''pid_fd''
     arm___u32])]"

definition arm_bpf_devmap_val :: ctype where
  "arm_bpf_devmap_val = Struct [
     Field ''ifindex'' arm___u32, Field ''bpf_prog'' (Union [Field ''fd'' (Scalar 4), Field ''id''
     arm___u32])]"

definition arm_bpf_cpumap_val :: ctype where
  "arm_bpf_cpumap_val = Struct [
     Field ''qsize'' arm___u32, Field ''bpf_prog'' (Union [Field ''fd'' (Scalar 4), Field ''id''
     arm___u32])]"

definition arm_bpf_map_ops :: ctype where
  "arm_bpf_map_ops = Struct [
     Field ''map_alloc_check'' ptr_t, Field ''map_alloc'' ptr_t, Field ''map_release'' ptr_t,
     Field ''map_free'' ptr_t, Field ''map_get_next_key'' ptr_t, Field ''map_release_uref'' ptr_t,
     Field ''map_lookup_elem_sys_only'' ptr_t, Field ''map_lookup_batch'' ptr_t, Field
     ''map_lookup_and_delete_elem'' ptr_t, Field ''map_lookup_and_delete_batch'' ptr_t, Field
     ''map_update_batch'' ptr_t, Field ''map_delete_batch'' ptr_t, Field ''map_lookup_elem''
     ptr_t, Field ''map_update_elem'' ptr_t, Field ''map_delete_elem'' ptr_t, Field
     ''map_push_elem'' ptr_t, Field ''map_pop_elem'' ptr_t, Field ''map_peek_elem'' ptr_t, Field
     ''map_lookup_percpu_elem'' ptr_t, Field ''map_fd_get_ptr'' ptr_t, Field ''map_fd_put_ptr''
     ptr_t, Field ''map_gen_lookup'' ptr_t, Field ''map_fd_sys_lookup_elem'' ptr_t, Field
     ''map_seq_show_elem'' ptr_t, Field ''map_check_btf'' ptr_t, Field ''map_poke_track'' ptr_t,
     Field ''map_poke_untrack'' ptr_t, Field ''map_poke_run'' ptr_t, Field
     ''map_direct_value_addr'' ptr_t, Field ''map_direct_value_meta'' ptr_t, Field ''map_mmap''
     ptr_t, Field ''map_poll'' ptr_t, Field ''map_local_storage_charge'' ptr_t, Field
     ''map_local_storage_uncharge'' ptr_t, Field ''map_owner_storage_ptr'' ptr_t, Field
     ''map_redirect'' ptr_t, Field ''map_meta_equal'' ptr_t, Field
     ''map_set_for_each_callback_args'' ptr_t, Field ''map_for_each_callback'' ptr_t, Field
     ''map_btf_id'' ptr_t, Field ''iter_seq_info'' ptr_t]"

definition arm_u32 :: ctype where "arm_u32 = arm___u32"

definition arm_u64 :: ctype where "arm_u64 = arm___u64"

definition arm___s64 :: ctype where "arm___s64 = Scalar 8"

definition arm_s64 :: ctype where "arm_s64 = arm___s64"

definition arm_atomic64_t :: ctype where
  "arm_atomic64_t = Struct [
     Field ''counter'' arm_s64]"

definition arm_atomic_long_t :: ctype where "arm_atomic_long_t = arm_atomic64_t"

definition arm_list_head :: ctype where
  "arm_list_head = Struct [
     Field ''next'' ptr_t, Field ''prev'' ptr_t]"

definition arm_work_struct :: ctype where
  "arm_work_struct = Struct [
     Field ''data'' arm_atomic_long_t, Field ''entry'' arm_list_head, Field ''func'' ptr_t]"

definition arm_atomic_t :: ctype where
  "arm_atomic_t = Struct [
     Field ''counter'' (Scalar 4)]"

definition arm_u8 :: ctype where "arm_u8 = arm___u8"

definition arm_u16 :: ctype where "arm_u16 = arm___u16"

definition arm_qspinlock :: ctype where
  "arm_qspinlock = Struct [
     Field '''' (Union [Field ''val'' arm_atomic_t, Field '''' (Struct [Field ''locked'' arm_u8,
     Field ''pending'' arm_u8]), Field '''' (Struct [Field ''locked_pending'' arm_u16, Field
     ''tail'' arm_u16])])]"

definition arm_arch_spinlock_t :: ctype where "arm_arch_spinlock_t = arm_qspinlock"

definition arm_raw_spinlock :: ctype where
  "arm_raw_spinlock = Struct [
     Field ''raw_lock'' arm_arch_spinlock_t]"

definition arm_raw_spinlock_t :: ctype where "arm_raw_spinlock_t = arm_raw_spinlock"

definition arm_optimistic_spin_queue :: ctype where
  "arm_optimistic_spin_queue = Struct [
     Field ''tail'' arm_atomic_t]"

definition arm_mutex :: ctype where
  "arm_mutex = Struct [
     Field ''owner'' arm_atomic_long_t, Field ''wait_lock'' arm_raw_spinlock_t, Field ''osq''
     arm_optimistic_spin_queue, Field ''wait_list'' arm_list_head]"

definition arm_spinlock :: ctype where
  "arm_spinlock = Struct [
     Field '''' (Union [Field ''rlock'' arm_raw_spinlock])]"

definition arm_spinlock_t :: ctype where "arm_spinlock_t = arm_spinlock"

definition arm_bool :: ctype where "arm_bool = Scalar 1"

definition arm_bpf_map :: ctype where
  "arm_bpf_map = Struct [
     Field ''ops'' ptr_t, Field ''inner_map_meta'' ptr_t, Field ''security'' ptr_t, Field
     ''map_type'' enum_t, Field ''key_size'' arm_u32, Field ''value_size'' arm_u32, Field
     ''max_entries'' arm_u32, Field ''map_extra'' arm_u64, Field ''map_flags'' arm_u32, Field
     ''spin_lock_off'' (Scalar 4), Field ''kptr_off_tab'' ptr_t, Field ''timer_off'' (Scalar 4),
     Field ''id'' arm_u32, Field ''numa_node'' (Scalar 4), Field ''btf_key_type_id'' arm_u32,
     Field ''btf_value_type_id'' arm_u32, Field ''btf_vmlinux_value_type_id'' arm_u32, Field
     ''btf'' ptr_t, Field ''objcg'' ptr_t, Field ''name'' (Array (Scalar 1) 16), Field ''off_arr''
     ptr_t, Field ''refcnt'' arm_atomic64_t, Field ''usercnt'' arm_atomic64_t, Field ''work''
     arm_work_struct, Field ''freeze_mutex'' arm_mutex, Field ''writecnt'' arm_atomic64_t, Field
     ''owner'' (Struct [Field ''lock'' arm_spinlock_t, Field ''type'' enum_t, Field ''jited''
     arm_bool, Field ''xdp_has_frags'' arm_bool]), Field ''bypass_spec_v1'' arm_bool, Field
     ''frozen'' arm_bool, Bits '''' 8 16, Bits '''' 8 64, Bits '''' 8 64, Bits '''' 8 64]"

definition arm_sock_filter :: ctype where
  "arm_sock_filter = Struct [
     Field ''code'' arm___u16, Field ''jt'' arm___u8, Field ''jf'' arm___u8, Field ''k'' arm___u32]"

definition arm_bpf_prog :: ctype where
  "arm_bpf_prog = Struct [
     Field ''pages'' arm_u16, Bits ''jited'' 2 1, Bits ''jit_requested'' 2 1, Bits
     ''gpl_compatible'' 2 1, Bits ''cb_access'' 2 1, Bits ''dst_needed'' 2 1, Bits
     ''blinding_requested'' 2 1, Bits ''blinded'' 2 1, Bits ''is_func'' 2 1, Bits
     ''kprobe_override'' 2 1, Bits ''has_callchain_buf'' 2 1, Bits
     ''enforce_expected_attach_type'' 2 1, Bits ''call_get_stack'' 2 1, Bits ''call_get_func_ip''
     2 1, Bits ''tstamp_type_access'' 2 1, Field ''type'' enum_t, Field ''expected_attach_type''
     enum_t, Field ''len'' arm_u32, Field ''jited_len'' arm_u32, Field ''tag'' (Array (arm_u8) 8),
     Field ''stats'' ptr_t, Field ''active'' ptr_t, Field ''bpf_func'' ptr_t, Field ''aux'' ptr_t,
     Field ''orig_prog'' ptr_t, Field '''' (Union [Field '''' (Struct [Field ''__empty_insns''
     (Struct []), Field ''insns'' (Array (arm_sock_filter) 0)]), Field '''' (Struct [Field
     ''__empty_insnsi'' (Struct []), Field ''insnsi'' (Array (arm_bpf_insn) 0)])])]"

definition arm_rb_node :: ctype where
  "arm_rb_node = Struct [
     Field ''__rb_parent_color'' (Scalar 8), Field ''rb_right'' ptr_t, Field ''rb_left'' ptr_t]"

definition arm_latch_tree_node :: ctype where
  "arm_latch_tree_node = Struct [
     Field ''node'' (Array (arm_rb_node) 2)]"

definition arm_bpf_ksym :: ctype where
  "arm_bpf_ksym = Struct [
     Field ''start'' (Scalar 8), Field ''end'' (Scalar 8), Field ''name'' (Array (Scalar 1) 512),
     Field ''lnode'' arm_list_head, Field ''tnode'' arm_latch_tree_node, Field ''prog'' arm_bool]"

definition arm_callback_head :: ctype where
  "arm_callback_head = Struct [
     Field ''next'' ptr_t, Field ''func'' ptr_t]"

definition arm_bpf_prog_aux :: ctype where
  "arm_bpf_prog_aux = Struct [
     Field ''refcnt'' arm_atomic64_t, Field ''used_map_cnt'' arm_u32, Field ''used_btf_cnt''
     arm_u32, Field ''max_ctx_offset'' arm_u32, Field ''max_pkt_offset'' arm_u32, Field
     ''max_tp_access'' arm_u32, Field ''stack_depth'' arm_u32, Field ''id'' arm_u32, Field
     ''func_cnt'' arm_u32, Field ''func_idx'' arm_u32, Field ''attach_btf_id'' arm_u32, Field
     ''ctx_arg_info_size'' arm_u32, Field ''max_rdonly_access'' arm_u32, Field ''max_rdwr_access''
     arm_u32, Field ''attach_btf'' ptr_t, Field ''ctx_arg_info'' ptr_t, Field ''dst_mutex''
     arm_mutex, Field ''dst_prog'' ptr_t, Field ''dst_trampoline'' ptr_t, Field
     ''saved_dst_prog_type'' enum_t, Field ''saved_dst_attach_type'' enum_t, Field
     ''verifier_zext'' arm_bool, Field ''offload_requested'' arm_bool, Field ''attach_btf_trace''
     arm_bool, Field ''func_proto_unreliable'' arm_bool, Field ''sleepable'' arm_bool, Field
     ''tail_call_reachable'' arm_bool, Field ''xdp_has_frags'' arm_bool, Field
     ''attach_func_proto'' ptr_t, Field ''attach_func_name'' ptr_t, Field ''func'' ptr_t, Field
     ''jit_data'' ptr_t, Field ''poke_tab'' ptr_t, Field ''kfunc_tab'' ptr_t, Field
     ''kfunc_btf_tab'' ptr_t, Field ''size_poke_tab'' arm_u32, Field ''ksym'' arm_bpf_ksym, Field
     ''ops'' ptr_t, Field ''used_maps'' ptr_t, Field ''used_maps_mutex'' arm_mutex, Field
     ''used_btfs'' ptr_t, Field ''prog'' ptr_t, Field ''user'' ptr_t, Field ''load_time'' arm_u64,
     Field ''verified_insns'' arm_u32, Field ''cgroup_atype'' (Scalar 4), Field ''cgroup_storage''
     (Array (ptr_t) 2), Field ''name'' (Array (Scalar 1) 16), Field ''security'' ptr_t, Field
     ''offload'' ptr_t, Field ''btf'' ptr_t, Field ''func_info'' ptr_t, Field ''func_info_aux''
     ptr_t, Field ''linfo'' ptr_t, Field ''jited_linfo'' ptr_t, Field ''func_info_cnt'' arm_u32,
     Field ''nr_linfo'' arm_u32, Field ''linfo_idx'' arm_u32, Field ''num_exentries'' arm_u32,
     Field ''extable'' ptr_t, Field '''' (Union [Field ''work'' arm_work_struct, Field ''rcu''
     arm_callback_head])]"

definition arm_bpf_array :: ctype where
  "arm_bpf_array = Struct [
     Field ''map'' arm_bpf_map, Field ''elem_size'' arm_u32, Field ''index_mask'' arm_u32, Field
     ''aux'' ptr_t, Field '''' (Union [Field ''value'' (Array (Scalar 1) 0), Field ''ptrs'' (Array
     (ptr_t) 0), Field ''pptrs'' (Array (ptr_t) 0)]), Bits '''' 8 64, Bits '''' 8 64, Bits '''' 8
     64, Bits '''' 8 64, Bits '''' 8 64, Bits '''' 8 64]"

definition arm_wait_queue_head :: ctype where
  "arm_wait_queue_head = Struct [
     Field ''lock'' arm_spinlock_t, Field ''head'' arm_list_head]"

definition arm_wait_queue_head_t :: ctype where "arm_wait_queue_head_t = arm_wait_queue_head"

definition arm_llist_node :: ctype where
  "arm_llist_node = Struct [
     Field ''next'' ptr_t]"

definition arm___call_single_node :: ctype where
  "arm___call_single_node = Struct [
     Field ''llist'' arm_llist_node, Field '''' (Union [Field ''u_flags'' (Scalar 4), Field
     ''a_flags'' arm_atomic_t]), Field ''src'' arm_u16, Field ''dst'' arm_u16]"

definition arm_rcuwait :: ctype where
  "arm_rcuwait = Struct [
     Field ''task'' ptr_t]"

definition arm_irq_work :: ctype where
  "arm_irq_work = Struct [
     Field ''node'' arm___call_single_node, Field ''func'' ptr_t, Field ''irqwait'' arm_rcuwait]"

definition arm_bpf_ringbuf_head :: "cfield list" where
  "arm_bpf_ringbuf_head =
     [Field ''waitq'' arm_wait_queue_head_t, Field ''work'' arm_irq_work, Field ''mask'' arm_u64,
     Field ''pages'' ptr_t, Field ''nr_pages'' (Scalar 4), Bits '''' 8 32] @
     replicate 6 (Bits '''' 8 64) @
     [Field ''spinlock'' arm_spinlock_t, Bits '''' 8 32] @
     replicate 7 (Bits '''' 8 64) @
     [Field ''busy'' arm_atomic_t, Bits '''' 8 32] @
     replicate 487 (Bits '''' 8 64)"

definition arm_bpf_ringbuf_consumer_page :: "cfield list" where
  "arm_bpf_ringbuf_consumer_page =
     [Field ''consumer_pos'' (Scalar 8)] @
     replicate 511 (Bits '''' 8 64)"

definition arm_bpf_ringbuf_producer_page :: "cfield list" where
  "arm_bpf_ringbuf_producer_page =
     [Field ''producer_pos'' (Scalar 8)] @
     replicate 511 (Bits '''' 8 64)"

definition arm_bpf_ringbuf_data :: "cfield list" where
  "arm_bpf_ringbuf_data =
     [Field ''data'' (Array (Scalar 1) 0)]"

definition arm_bpf_ringbuf_fields :: "cfield list" where
  "arm_bpf_ringbuf_fields =
     arm_bpf_ringbuf_head @ arm_bpf_ringbuf_consumer_page @ arm_bpf_ringbuf_producer_page @ arm_bpf_ringbuf_data"

definition arm_bpf_ringbuf :: ctype where "arm_bpf_ringbuf = Struct arm_bpf_ringbuf_fields"

definition arm_bpf_ringbuf_map :: ctype where
  "arm_bpf_ringbuf_map = Struct [
     Field ''map'' arm_bpf_map, Field ''rb'' ptr_t, Bits '''' 8 64, Bits '''' 8 64, Bits '''' 8
     64, Bits '''' 8 64, Bits '''' 8 64, Bits '''' 8 64, Bits '''' 8 64]"

definition arm_bpf_ringbuf_hdr :: ctype where
  "arm_bpf_ringbuf_hdr = Struct [
     Field ''len'' arm_u32, Field ''pg_off'' arm_u32]"

definition arm___kernel_ulong_t :: ctype where "arm___kernel_ulong_t = Scalar 8"

definition arm___kernel_size_t :: ctype where "arm___kernel_size_t = arm___kernel_ulong_t"

definition arm_size_t :: ctype where "arm_size_t = arm___kernel_size_t"

definition arm_bpf_func_proto :: ctype where
  "arm_bpf_func_proto = Struct [
     Field ''func'' ptr_t, Field ''gpl_only'' arm_bool, Field ''pkt_access'' arm_bool, Field
     ''ret_type'' enum_t, Field '''' (Union [Field '''' (Struct [Field ''arg1_type'' enum_t, Field
     ''arg2_type'' enum_t, Field ''arg3_type'' enum_t, Field ''arg4_type'' enum_t, Field
     ''arg5_type'' enum_t]), Field ''arg_type'' (Array (enum_t) 5)]), Field '''' (Union [Field
     '''' (Struct [Field ''arg1_btf_id'' ptr_t, Field ''arg2_btf_id'' ptr_t, Field ''arg3_btf_id''
     ptr_t, Field ''arg4_btf_id'' ptr_t, Field ''arg5_btf_id'' ptr_t]), Field ''arg_btf_id''
     (Array (ptr_t) 5), Field '''' (Struct [Field ''arg1_size'' arm_size_t, Field ''arg2_size''
     arm_size_t, Field ''arg3_size'' arm_size_t, Field ''arg4_size'' arm_size_t, Field
     ''arg5_size'' arm_size_t]), Field ''arg_size'' (Array (arm_size_t) 5)]), Field ''ret_btf_id''
     ptr_t, Field ''allowed'' ptr_t]"

definition arm_s32 :: ctype where "arm_s32 = arm___s32"

definition arm_tnum :: ctype where
  "arm_tnum = Struct [
     Field ''value'' arm_u64, Field ''mask'' arm_u64]"

definition arm_bpf_reg_state :: ctype where
  "arm_bpf_reg_state = Struct [
     Field ''type'' enum_t, Field ''off'' arm_s32, Field '''' (Union [Field ''range'' (Scalar 4),
     Field '''' (Struct [Field ''map_ptr'' ptr_t, Field ''map_uid'' arm_u32]), Field '''' (Struct
     [Field ''btf'' ptr_t, Field ''btf_id'' arm_u32]), Field ''mem_size'' arm_u32, Field
     ''dynptr'' (Struct [Field ''type'' enum_t, Field ''first_slot'' arm_bool]), Field ''raw''
     (Struct [Field ''raw1'' (Scalar 8), Field ''raw2'' (Scalar 8)]), Field ''subprogno''
     arm_u32]), Field ''id'' arm_u32, Field ''ref_obj_id'' arm_u32, Field ''var_off'' arm_tnum,
     Field ''smin_value'' arm_s64, Field ''smax_value'' arm_s64, Field ''umin_value'' arm_u64,
     Field ''umax_value'' arm_u64, Field ''s32_min_value'' arm_s32, Field ''s32_max_value''
     arm_s32, Field ''u32_min_value'' arm_u32, Field ''u32_max_value'' arm_u32, Field ''parent''
     ptr_t, Field ''frameno'' arm_u32, Field ''subreg_def'' arm_s32, Field ''live'' enum_t, Field
     ''precise'' arm_bool]"

definition arm_bpf_func_state :: ctype where
  "arm_bpf_func_state = Struct [
     Field ''regs'' (Array (arm_bpf_reg_state) 11), Field ''callsite'' (Scalar 4), Field
     ''frameno'' arm_u32, Field ''subprogno'' arm_u32, Field ''async_entry_cnt'' arm_u32, Field
     ''in_callback_fn'' arm_bool, Field ''callback_ret_range'' arm_tnum, Field
     ''in_async_callback_fn'' arm_bool, Field ''acquired_refs'' (Scalar 4), Field ''refs'' ptr_t,
     Field ''allocated_stack'' (Scalar 4), Field ''stack'' ptr_t]"

definition arm_bpf_verifier_state :: ctype where
  "arm_bpf_verifier_state = Struct [
     Field ''frame'' (Array (ptr_t) 8), Field ''parent'' ptr_t, Field ''branches'' arm_u32, Field
     ''insn_idx'' arm_u32, Field ''curframe'' arm_u32, Field ''active_spin_lock'' arm_u32, Field
     ''speculative'' arm_bool, Field ''first_insn_idx'' arm_u32, Field ''last_insn_idx'' arm_u32,
     Field ''jmp_history'' ptr_t, Field ''jmp_history_cnt'' arm_u32]"

definition arm_bpf_loop_inline_state :: ctype where
  "arm_bpf_loop_inline_state = Struct [
     Bits ''initialized'' 4 1, Bits ''fit_for_inline'' 4 1, Field ''callback_subprogno'' arm_u32]"

definition arm_bpf_insn_aux_data :: ctype where
  "arm_bpf_insn_aux_data = Struct [
     Field '''' (Union [Field ''ptr_type'' enum_t, Field ''map_ptr_state'' (Scalar 8), Field
     ''call_imm'' arm_s32, Field ''alu_limit'' arm_u32, Field '''' (Struct [Field ''map_index''
     arm_u32, Field ''map_off'' arm_u32]), Field ''btf_var'' (Struct [Field ''reg_type'' enum_t,
     Field '''' (Union [Field '''' (Struct [Field ''btf'' ptr_t, Field ''btf_id'' arm_u32]), Field
     ''mem_size'' arm_u32])]), Field ''loop_inline_state'' arm_bpf_loop_inline_state]), Field
     ''map_key_state'' arm_u64, Field ''ctx_field_size'' (Scalar 4), Field ''seen'' arm_u32, Field
     ''sanitize_stack_spill'' arm_bool, Field ''zext_dst'' arm_bool, Field ''alu_state'' arm_u8,
     Field ''orig_idx'' (Scalar 4), Field ''prune_point'' arm_bool]"

definition arm_bpf_subprog_info :: ctype where
  "arm_bpf_subprog_info = Struct [
     Field ''start'' arm_u32, Field ''linfo_idx'' arm_u32, Field ''stack_depth'' arm_u16, Field
     ''has_tail_call'' arm_bool, Field ''tail_call_reachable'' arm_bool, Field ''has_ld_abs''
     arm_bool, Field ''is_async_cb'' arm_bool]"

definition arm_btf_mod_pair :: ctype where
  "arm_btf_mod_pair = Struct [
     Field ''btf'' ptr_t, Field ''module'' ptr_t]"

definition arm_bpf_verifier_log :: ctype where
  "arm_bpf_verifier_log = Struct [
     Field ''level'' arm_u32, Field ''kbuf'' (Array (Scalar 1) 1024), Field ''ubuf'' ptr_t, Field
     ''len_used'' arm_u32, Field ''len_total'' arm_u32]"

definition arm_bpf_id_pair :: ctype where
  "arm_bpf_id_pair = Struct [
     Field ''old'' arm_u32, Field ''cur'' arm_u32]"

definition arm_sockptr_t :: ctype where
  "arm_sockptr_t = Struct [
     Field '''' (Union [Field ''kernel'' ptr_t, Field ''user'' ptr_t]), Bits ''is_kernel'' 1 1]"

definition arm_bpfptr_t :: ctype where "arm_bpfptr_t = arm_sockptr_t"

definition arm_bpf_verifier_env :: ctype where
  "arm_bpf_verifier_env = Struct [
     Field ''insn_idx'' arm_u32, Field ''prev_insn_idx'' arm_u32, Field ''prog'' ptr_t, Field
     ''ops'' ptr_t, Field ''head'' ptr_t, Field ''stack_size'' (Scalar 4), Field
     ''strict_alignment'' arm_bool, Field ''test_state_freq'' arm_bool, Field ''cur_state'' ptr_t,
     Field ''explored_states'' ptr_t, Field ''free_list'' ptr_t, Field ''used_maps'' (Array
     (ptr_t) 64), Field ''used_btfs'' (Array (arm_btf_mod_pair) 64), Field ''used_map_cnt''
     arm_u32, Field ''used_btf_cnt'' arm_u32, Field ''id_gen'' arm_u32, Field
     ''explore_alu_limits'' arm_bool, Field ''allow_ptr_leaks'' arm_bool, Field
     ''allow_uninit_stack'' arm_bool, Field ''allow_ptr_to_map_access'' arm_bool, Field
     ''bpf_capable'' arm_bool, Field ''bypass_spec_v1'' arm_bool, Field ''bypass_spec_v4''
     arm_bool, Field ''seen_direct_write'' arm_bool, Field ''insn_aux_data'' ptr_t, Field
     ''prev_linfo'' ptr_t, Field ''log'' arm_bpf_verifier_log, Field ''subprog_info'' (Array
     (arm_bpf_subprog_info) 257), Field ''idmap_scratch'' (Array (arm_bpf_id_pair) 75), Field
     ''cfg'' (Struct [Field ''insn_state'' ptr_t, Field ''insn_stack'' ptr_t, Field ''cur_stack''
     (Scalar 4)]), Field ''pass_cnt'' arm_u32, Field ''subprog_cnt'' arm_u32, Field
     ''prev_insn_processed'' arm_u32, Field ''insn_processed'' arm_u32, Field
     ''prev_jmps_processed'' arm_u32, Field ''jmps_processed'' arm_u32, Field
     ''verification_time'' arm_u64, Field ''max_states_per_insn'' arm_u32, Field ''total_states''
     arm_u32, Field ''peak_states'' arm_u32, Field ''longest_mark_read_walk'' arm_u32, Field
     ''fd_array'' arm_bpfptr_t, Field ''scratched_regs'' arm_u32, Field ''scratched_stack_slots''
     arm_u64, Field ''prev_log_len'' arm_u32, Field ''prev_insn_print_len'' arm_u32, Field
     ''type_str_buf'' (Array (Scalar 1) 64)]"

definition arm_bpf_call_arg_meta :: ctype where
  "arm_bpf_call_arg_meta = Struct [
     Field ''map_ptr'' ptr_t, Field ''raw_mode'' arm_bool, Field ''pkt_access'' arm_bool, Field
     ''release_regno'' arm_u8, Field ''regno'' (Scalar 4), Field ''access_size'' (Scalar 4), Field
     ''mem_size'' (Scalar 4), Field ''msize_max_value'' arm_u64, Field ''ref_obj_id'' (Scalar 4),
     Field ''map_uid'' (Scalar 4), Field ''func_id'' (Scalar 4), Field ''btf'' ptr_t, Field
     ''btf_id'' arm_u32, Field ''ret_btf'' ptr_t, Field ''ret_btf_id'' arm_u32, Field
     ''subprogno'' arm_u32, Field ''kptr_off_desc'' ptr_t, Field ''uninit_dynptr_regno'' arm_u8]"

definition arm_bpf_prog_array_item :: ctype where
  "arm_bpf_prog_array_item = Struct [
     Field ''prog'' ptr_t, Field '''' (Union [Field ''cgroup_storage'' (Array (ptr_t) 2), Field
     ''bpf_cookie'' arm_u64])]"

definition arm_bpf_prog_array :: ctype where
  "arm_bpf_prog_array = Struct [
     Field ''rcu'' arm_callback_head, Field ''items'' (Array (arm_bpf_prog_array_item) 0)]"

definition arm_bpf_link :: ctype where
  "arm_bpf_link = Struct [
     Field ''refcnt'' arm_atomic64_t, Field ''id'' arm_u32, Field ''type'' enum_t, Field ''ops''
     ptr_t, Field ''prog'' ptr_t, Field ''work'' arm_work_struct]"

definition arm_bpf_ctx_arg_aux :: ctype where
  "arm_bpf_ctx_arg_aux = Struct [
     Field ''offset'' arm_u32, Field ''reg_type'' enum_t, Field ''btf_id'' arm_u32]"

definition arm_bpf_verifier_ops :: ctype where
  "arm_bpf_verifier_ops = Struct [
     Field ''get_func_proto'' ptr_t, Field ''is_valid_access'' ptr_t, Field ''gen_prologue''
     ptr_t, Field ''gen_ld_abs'' ptr_t, Field ''convert_ctx_access'' ptr_t, Field
     ''btf_struct_access'' ptr_t]"

definition arm_bpf_insn_access_aux :: ctype where
  "arm_bpf_insn_access_aux = Struct [
     Field ''reg_type'' enum_t, Field '''' (Union [Field ''ctx_field_size'' (Scalar 4), Field ''''
     (Struct [Field ''btf'' ptr_t, Field ''btf_id'' arm_u32])]), Field ''log'' ptr_t]"

definition arm_pt_regs :: ctype where
  "arm_pt_regs = Struct [
     Field '''' (Union [Field ''user_regs'' arm_user_pt_regs, Field '''' (Struct [Field ''regs''
     (Array (arm_u64) 31), Field ''sp'' arm_u64, Field ''pc'' arm_u64, Field ''pstate''
     arm_u64])]), Field ''orig_x0'' arm_u64, Field ''syscallno'' arm_s32, Field ''unused2''
     arm_u32, Field ''sdei_ttbr1'' arm_u64, Field ''pmr_save'' arm_u64, Field ''stackframe''
     (Array (arm_u64) 2), Field ''lockdep_hardirqs'' arm_u64, Field ''exit_rcu'' arm_u64]"

lemmas arm_type_defs =
  arm___u8_def arm___s16_def arm___s32_def arm_bpf_insn_def arm___u32_def arm___u64_def
  arm_bpf_attr_def arm_bpf_link_info_def arm_bpf_prog_info_def arm_bpf_map_info_def
  arm_bpf_btf_info_def arm_bpf_func_info_def arm_bpf_line_info_def arm_bpf_core_relo_def
  arm___u16_def arm___be16_def arm_bpf_sock_def arm_bpf_sock_addr_def arm_bpf_sock_ops_def
  arm_bpf_sk_lookup_def arm_bpf_sockopt_def arm___be32_def arm_bpf_flow_keys_def
  arm_bpf_tunnel_key_def arm_bpf_tcp_sock_def arm_bpf_sock_tuple_def arm_bpf_fib_lookup_def
  arm_bpf_xfrm_state_def arm_bpf_cgroup_dev_ctx_def arm_bpf_raw_tracepoint_args_def
  arm_bpf_sysctl_def arm_bpf_pidns_info_def arm_user_pt_regs_def arm_bpf_user_pt_regs_t_def
  arm_bpf_perf_event_data_def arm_bpf_redir_neigh_def arm_bpf_spin_lock_def arm_bpf_timer_def
  arm_bpf_dynptr_def arm_bpf_cgroup_storage_key_def arm_bpf_lpm_trie_key_def
  arm_bpf_stack_build_id_def arm_bpf_iter_link_info_def arm_bpf_devmap_val_def
  arm_bpf_cpumap_val_def arm_bpf_map_ops_def arm_u32_def arm_u64_def arm___s64_def arm_s64_def
  arm_atomic64_t_def arm_atomic_long_t_def arm_list_head_def arm_work_struct_def arm_atomic_t_def
  arm_u8_def arm_u16_def arm_qspinlock_def arm_arch_spinlock_t_def arm_raw_spinlock_def
  arm_raw_spinlock_t_def arm_optimistic_spin_queue_def arm_mutex_def arm_spinlock_def
  arm_spinlock_t_def arm_bool_def arm_bpf_map_def arm_sock_filter_def arm_bpf_prog_def
  arm_rb_node_def arm_latch_tree_node_def arm_bpf_ksym_def arm_callback_head_def
  arm_bpf_prog_aux_def arm_bpf_array_def arm_wait_queue_head_def arm_wait_queue_head_t_def
  arm_llist_node_def arm___call_single_node_def arm_rcuwait_def arm_irq_work_def
  arm_bpf_ringbuf_head_def arm_bpf_ringbuf_consumer_page_def arm_bpf_ringbuf_producer_page_def
  arm_bpf_ringbuf_data_def arm_bpf_ringbuf_fields_def arm_bpf_ringbuf_def arm_bpf_ringbuf_map_def
  arm_bpf_ringbuf_hdr_def arm___kernel_ulong_t_def arm___kernel_size_t_def arm_size_t_def
  arm_bpf_func_proto_def arm_s32_def arm_tnum_def arm_bpf_reg_state_def arm_bpf_func_state_def
  arm_bpf_verifier_state_def arm_bpf_loop_inline_state_def arm_bpf_insn_aux_data_def
  arm_bpf_subprog_info_def arm_btf_mod_pair_def arm_bpf_verifier_log_def arm_bpf_id_pair_def
  arm_sockptr_t_def arm_bpfptr_t_def arm_bpf_verifier_env_def arm_bpf_call_arg_meta_def
  arm_bpf_prog_array_item_def arm_bpf_prog_array_def arm_bpf_link_def arm_bpf_ctx_arg_aux_def
  arm_bpf_verifier_ops_def arm_bpf_insn_access_aux_def arm_pt_regs_def

end
