(* ===== verification/Vmlinux.thy ===== *)
theory Vmlinux
  imports VmlinuxX86Enums VmlinuxArmEnums VmlinuxX86 VmlinuxArm
begin

text \<open>
  What the BPF program is compiled against: one source is built for x86_64 and for aarch64, each
  with its own generated \<^verbatim>\<open>vmlinux.h\<close>. Where the two headers agree on an enumeration or on the
  layout of a type they are interchangeable here; the registers of a traced process and what embeds
  them differ, and the ring buffer of the kernel has the page structure its consumer maps in both.
\<close>

section \<open>What the two headers share\<close>

text \<open>Every BPF enumeration has the same enumerators with the same values.\<close>

lemma shared_enums:
  "x86_netns_bpf_attach_type = arm_netns_bpf_attach_type"
  "x86_bpf_netdev_command = arm_bpf_netdev_command"
  "x86_bpf_xdp_mode = arm_bpf_xdp_mode"
  "x86_cgroup_bpf_attach_type = arm_cgroup_bpf_attach_type"
  "x86_bpf_type_flag = arm_bpf_type_flag"
  "x86_bpf_arg_type = arm_bpf_arg_type"
  "x86_bpf_return_type = arm_bpf_return_type"
  "x86_bpf_reg_type = arm_bpf_reg_type"
  "x86_bpf_cgroup_storage_type = arm_bpf_cgroup_storage_type"
  "x86_bpf_tramp_prog_type = arm_bpf_tramp_prog_type"
  "x86_bpf_prog_type = arm_bpf_prog_type"
  "x86_bpf_attach_type = arm_bpf_attach_type"
  "x86_bpf_map_type = arm_bpf_map_type"
  "x86_bpf_cgroup_iter_order = arm_bpf_cgroup_iter_order"
  "x86_bpf_link_type = arm_bpf_link_type"
  "x86_bpf_iter_task_type = arm_bpf_iter_task_type"
  "x86_bpf_kptr_type = arm_bpf_kptr_type"
  "x86_bpf_jit_poke_reason = arm_bpf_jit_poke_reason"
  "x86_bpf_text_poke_type = arm_bpf_text_poke_type"
  "x86_bpf_func_id = arm_bpf_func_id"
  "x86_bpf_iter_feature = arm_bpf_iter_feature"
  "x86_bpf_task_fd_type = arm_bpf_task_fd_type"
  "x86_bpf_access_type = arm_bpf_access_type"
  "x86_bpf_dynptr_type = arm_bpf_dynptr_type"
  "x86_bpf_reg_liveness = arm_bpf_reg_liveness"
  "x86_bpf_cmd = arm_bpf_cmd"
  "x86_bpf_stats_type = arm_bpf_stats_type"
  "x86_perf_bpf_event_type = arm_perf_bpf_event_type"
  "x86_bpf_audit = arm_bpf_audit"
  "x86_bpf_core_relo_kind = arm_bpf_core_relo_kind"
  "x86_bpf_stack_slot_type = arm_bpf_stack_slot_type"
  "x86_bpf_access_src = arm_bpf_access_src"
  "x86_bpf_type = arm_bpf_type"
  "x86_bpf_task_vma_iter_find_op = arm_bpf_task_vma_iter_find_op"
  "x86_bpf_lru_list_type = arm_bpf_lru_list_type"
  "x86_bpf_struct_walk_result = arm_bpf_struct_walk_result"
  "x86_bpf_stack_build_id_status = arm_bpf_stack_build_id_status"
  "x86_bpf_struct_ops_state = arm_bpf_struct_ops_state"
  "x86_bpf_ret_code = arm_bpf_ret_code"
  "x86_bpf_adj_room_mode = arm_bpf_adj_room_mode"
  "x86_bpf_hdr_start_off = arm_bpf_hdr_start_off"
  "x86_bpf_lwt_encap_mode = arm_bpf_lwt_encap_mode"
  "x86_bpf_check_mtu_flags = arm_bpf_check_mtu_flags"
  "x86_bpf_check_mtu_ret = arm_bpf_check_mtu_ret"
  "x86_anon_BPF_MAP_VALUE_OFF_MAX = arm_anon_BPF_MAP_VALUE_OFF_MAX"
  "x86_anon_BPF_REG_0 = arm_anon_BPF_REG_0"
  "x86_anon_BPF_F_INDEX_MASK = arm_anon_BPF_F_INDEX_MASK"
  "x86_anon_BPF_F_GET_BRANCH_RECORDS_SIZE = arm_anon_BPF_F_GET_BRANCH_RECORDS_SIZE"
  "x86_anon_BPF_ANY = arm_anon_BPF_ANY"
  "x86_anon_BPF_F_NO_PREALLOC = arm_anon_BPF_F_NO_PREALLOC"
  "x86_anon_BPF_RB_NO_WAKEUP = arm_anon_BPF_RB_NO_WAKEUP"
  "x86_anon_BPF_RB_AVAIL_DATA = arm_anon_BPF_RB_AVAIL_DATA"
  "x86_anon_BPF_RINGBUF_BUSY_BIT = arm_anon_BPF_RINGBUF_BUSY_BIT"
  "x86_anon_BPF_LOCAL_STORAGE_GET_F_CREATE = arm_anon_BPF_LOCAL_STORAGE_GET_F_CREATE"
  "x86_anon___ctx_convertBPF_PROG_TYPE_SOCKET_FILTER = arm_anon___ctx_convertBPF_PROG_TYPE_SOCKET_FILTER"
  "x86_anon_BPF_F_BROADCAST = arm_anon_BPF_F_BROADCAST"
  "x86_anon_BPF_F_SKIP_FIELD_MASK = arm_anon_BPF_F_SKIP_FIELD_MASK"
  "x86_anon_BPF_F_SYSCTL_BASE_NAME = arm_anon_BPF_F_SYSCTL_BASE_NAME"
  "x86_anon_BPF_STRUCT_OPS_TYPE_bpf_dummy_ops = arm_anon_BPF_STRUCT_OPS_TYPE_bpf_dummy_ops"
  "x86_anon_BPF_F_BPRM_SECUREEXEC = arm_anon_BPF_F_BPRM_SECUREEXEC"
  "x86_anon_BPF_FLOW_DISSECTOR_F_PARSE_1ST_FRAG = arm_anon_BPF_FLOW_DISSECTOR_F_PARSE_1ST_FRAG"
  "x86_anon_BPF_F_RECOMPUTE_CSUM = arm_anon_BPF_F_RECOMPUTE_CSUM"
  "x86_anon_BPF_F_HDR_FIELD_MASK = arm_anon_BPF_F_HDR_FIELD_MASK"
  "x86_anon_BPF_F_PSEUDO_HDR = arm_anon_BPF_F_PSEUDO_HDR"
  "x86_anon_BPF_F_INGRESS = arm_anon_BPF_F_INGRESS"
  "x86_anon_BPF_F_TUNINFO_IPV6 = arm_anon_BPF_F_TUNINFO_IPV6"
  "x86_anon_BPF_F_ZERO_CSUM_TX = arm_anon_BPF_F_ZERO_CSUM_TX"
  "x86_anon_BPF_F_TUNINFO_FLAGS = arm_anon_BPF_F_TUNINFO_FLAGS"
  "x86_anon_BPF_CSUM_LEVEL_QUERY = arm_anon_BPF_CSUM_LEVEL_QUERY"
  "x86_anon_BPF_F_ADJ_ROOM_FIXED_GSO = arm_anon_BPF_F_ADJ_ROOM_FIXED_GSO"
  "x86_anon_BPF_ADJ_ROOM_ENCAP_L2_MASK = arm_anon_BPF_ADJ_ROOM_ENCAP_L2_MASK"
  "x86_anon_BPF_SK_LOOKUP_F_REPLACE = arm_anon_BPF_SK_LOOKUP_F_REPLACE"
  "x86_anon_BPF_SKB_TSTAMP_UNSPEC = arm_anon_BPF_SKB_TSTAMP_UNSPEC"
  "x86_anon_BPF_SOCK_OPS_RTO_CB_FLAG = arm_anon_BPF_SOCK_OPS_RTO_CB_FLAG"
  "x86_anon_BPF_SOCK_OPS_VOID = arm_anon_BPF_SOCK_OPS_VOID"
  "x86_anon_TCP_BPF_IW = arm_anon_TCP_BPF_IW"
  "x86_anon_BPF_LOAD_HDR_OPT_TCP_SYN = arm_anon_BPF_LOAD_HDR_OPT_TCP_SYN"
  "x86_anon_BPF_FIB_LOOKUP_DIRECT = arm_anon_BPF_FIB_LOOKUP_DIRECT"
  "x86_anon_BPF_FIB_LKUP_RET_SUCCESS = arm_anon_BPF_FIB_LKUP_RET_SUCCESS"
  "x86_anon_BPF_F_NEIGH = arm_anon_BPF_F_NEIGH"
  "x86_anon_LWT_BPF_PROG_UNSPEC = arm_anon_LWT_BPF_PROG_UNSPEC"
  "x86_anon_LWT_BPF_UNSPEC = arm_anon_LWT_BPF_UNSPEC"
  "x86_anon_SK_DIAG_BPF_STORAGE_REQ_NONE = arm_anon_SK_DIAG_BPF_STORAGE_REQ_NONE"
  "x86_anon_SK_DIAG_BPF_STORAGE_REP_NONE = arm_anon_SK_DIAG_BPF_STORAGE_REP_NONE"
  "x86_anon_SK_DIAG_BPF_STORAGE_NONE = arm_anon_SK_DIAG_BPF_STORAGE_NONE"
  "x86_anon_BPF_TCP_ESTABLISHED = arm_anon_BPF_TCP_ESTABLISHED"
  "x86_anon_BPF_WRITE_HDR_TCP_CURRENT_MSS = arm_anon_BPF_WRITE_HDR_TCP_CURRENT_MSS"
  "x86_anon_TCP_BPF_IPV4 = arm_anon_TCP_BPF_IPV4"
  "x86_anon_TCP_BPF_BASE = arm_anon_TCP_BPF_BASE"
  "x86_anon_UDP_BPF_IPV4 = arm_anon_UDP_BPF_IPV4"
  "x86_anon_SEG6_LOCAL_BPF_PROG_UNSPEC = arm_anon_SEG6_LOCAL_BPF_PROG_UNSPEC"
  by (simp_all only: x86_enum_defs arm_enum_defs)

text \<open>These types are laid out alike, member by member.\<close>

lemma shared_types:
  "x86___u8 = arm___u8"
  "x86___s16 = arm___s16"
  "x86___s32 = arm___s32"
  "x86_bpf_insn = arm_bpf_insn"
  "x86___u32 = arm___u32"
  "x86___u64 = arm___u64"
  "x86_bpf_attr = arm_bpf_attr"
  "x86_bpf_link_info = arm_bpf_link_info"
  "x86_bpf_prog_info = arm_bpf_prog_info"
  "x86_bpf_map_info = arm_bpf_map_info"
  "x86_bpf_btf_info = arm_bpf_btf_info"
  "x86_bpf_func_info = arm_bpf_func_info"
  "x86_bpf_line_info = arm_bpf_line_info"
  "x86_bpf_core_relo = arm_bpf_core_relo"
  "x86___u16 = arm___u16"
  "x86___be16 = arm___be16"
  "x86_bpf_sock = arm_bpf_sock"
  "x86_bpf_sock_addr = arm_bpf_sock_addr"
  "x86_bpf_sock_ops = arm_bpf_sock_ops"
  "x86_bpf_sk_lookup = arm_bpf_sk_lookup"
  "x86_bpf_sockopt = arm_bpf_sockopt"
  "x86___be32 = arm___be32"
  "x86_bpf_flow_keys = arm_bpf_flow_keys"
  "x86_bpf_tunnel_key = arm_bpf_tunnel_key"
  "x86_bpf_tcp_sock = arm_bpf_tcp_sock"
  "x86_bpf_sock_tuple = arm_bpf_sock_tuple"
  "x86_bpf_fib_lookup = arm_bpf_fib_lookup"
  "x86_bpf_xfrm_state = arm_bpf_xfrm_state"
  "x86_bpf_cgroup_dev_ctx = arm_bpf_cgroup_dev_ctx"
  "x86_bpf_raw_tracepoint_args = arm_bpf_raw_tracepoint_args"
  "x86_bpf_sysctl = arm_bpf_sysctl"
  "x86_bpf_pidns_info = arm_bpf_pidns_info"
  "x86_bpf_redir_neigh = arm_bpf_redir_neigh"
  "x86_bpf_spin_lock = arm_bpf_spin_lock"
  "x86_bpf_timer = arm_bpf_timer"
  "x86_bpf_dynptr = arm_bpf_dynptr"
  "x86_bpf_cgroup_storage_key = arm_bpf_cgroup_storage_key"
  "x86_bpf_lpm_trie_key = arm_bpf_lpm_trie_key"
  "x86_bpf_stack_build_id = arm_bpf_stack_build_id"
  "x86_bpf_iter_link_info = arm_bpf_iter_link_info"
  "x86_bpf_devmap_val = arm_bpf_devmap_val"
  "x86_bpf_cpumap_val = arm_bpf_cpumap_val"
  "x86_bpf_map_ops = arm_bpf_map_ops"
  "x86_u32 = arm_u32"
  "x86_u64 = arm_u64"
  "x86___s64 = arm___s64"
  "x86_s64 = arm_s64"
  "x86_atomic64_t = arm_atomic64_t"
  "x86_atomic_long_t = arm_atomic_long_t"
  "x86_list_head = arm_list_head"
  "x86_work_struct = arm_work_struct"
  "x86_atomic_t = arm_atomic_t"
  "x86_u8 = arm_u8"
  "x86_u16 = arm_u16"
  "x86_qspinlock = arm_qspinlock"
  "x86_arch_spinlock_t = arm_arch_spinlock_t"
  "x86_raw_spinlock = arm_raw_spinlock"
  "x86_raw_spinlock_t = arm_raw_spinlock_t"
  "x86_optimistic_spin_queue = arm_optimistic_spin_queue"
  "x86_mutex = arm_mutex"
  "x86_spinlock = arm_spinlock"
  "x86_spinlock_t = arm_spinlock_t"
  "x86_bool = arm_bool"
  "x86_sock_filter = arm_sock_filter"
  "x86_bpf_prog = arm_bpf_prog"
  "x86_rb_node = arm_rb_node"
  "x86_latch_tree_node = arm_latch_tree_node"
  "x86_bpf_ksym = arm_bpf_ksym"
  "x86_callback_head = arm_callback_head"
  "x86_bpf_prog_aux = arm_bpf_prog_aux"
  "x86_wait_queue_head = arm_wait_queue_head"
  "x86_wait_queue_head_t = arm_wait_queue_head_t"
  "x86_llist_node = arm_llist_node"
  "x86___call_single_node = arm___call_single_node"
  "x86_rcuwait = arm_rcuwait"
  "x86_irq_work = arm_irq_work"
  "x86_bpf_ringbuf_hdr = arm_bpf_ringbuf_hdr"
  "x86___kernel_ulong_t = arm___kernel_ulong_t"
  "x86___kernel_size_t = arm___kernel_size_t"
  "x86_size_t = arm_size_t"
  "x86_bpf_func_proto = arm_bpf_func_proto"
  "x86_s32 = arm_s32"
  "x86_tnum = arm_tnum"
  "x86_bpf_reg_state = arm_bpf_reg_state"
  "x86_bpf_func_state = arm_bpf_func_state"
  "x86_bpf_verifier_state = arm_bpf_verifier_state"
  "x86_bpf_loop_inline_state = arm_bpf_loop_inline_state"
  "x86_bpf_subprog_info = arm_bpf_subprog_info"
  "x86_btf_mod_pair = arm_btf_mod_pair"
  "x86_bpf_verifier_log = arm_bpf_verifier_log"
  "x86_bpf_id_pair = arm_bpf_id_pair"
  "x86_sockptr_t = arm_sockptr_t"
  "x86_bpfptr_t = arm_bpfptr_t"
  "x86_bpf_verifier_env = arm_bpf_verifier_env"
  "x86_bpf_call_arg_meta = arm_bpf_call_arg_meta"
  "x86_bpf_prog_array_item = arm_bpf_prog_array_item"
  "x86_bpf_prog_array = arm_bpf_prog_array"
  "x86_bpf_link = arm_bpf_link"
  "x86_bpf_ctx_arg_aux = arm_bpf_ctx_arg_aux"
  "x86_bpf_verifier_ops = arm_bpf_verifier_ops"
  "x86_bpf_insn_access_aux = arm_bpf_insn_access_aux"
  by (simp_all only: x86_type_defs arm_type_defs)

lemma bpf_insn_size: "sizeof x86_bpf_insn = 8" and bpf_attr_size: "sizeof x86_bpf_attr = 144"
  by (simp_all add: x86_type_defs align_up_def place_bits_def)

section \<open>Where they differ\<close>

text \<open>The registers of a traced process differ, and so do the types that embed them; of the other types
only \<open>bpf_map\<close>, \<open>bpf_array\<close>, \<open>bpf_ringbuf_map\<close> and \<open>bpf_insn_aux_data\<close> are laid out differently.\<close>

lemma register_sizes: "sizeof x86_pt_regs = 168" "sizeof arm_pt_regs = 336"
  by (simp_all add: x86_type_defs arm_type_defs align_up_def place_bits_def)

lemma perf_event_sizes: "sizeof x86_bpf_perf_event_data = 184" "sizeof arm_bpf_perf_event_data = 288"
  by (simp_all add: x86_type_defs arm_type_defs align_up_def place_bits_def)

section \<open>The ring buffer's pages\<close>

text \<open>
  The members of the ring buffer before its consumer position fill exactly one page, the consumer
  and the producer page one each.
\<close>

lemmas ringbuf_parts =
  x86_bpf_ringbuf_fields_def x86_bpf_ringbuf_head_def x86_bpf_ringbuf_consumer_page_def
  x86_bpf_ringbuf_producer_page_def x86_bpf_ringbuf_data_def
  arm_bpf_ringbuf_fields_def arm_bpf_ringbuf_head_def arm_bpf_ringbuf_consumer_page_def
  arm_bpf_ringbuf_producer_page_def arm_bpf_ringbuf_data_def

lemmas ringbuf_calc = struct_end_padding offset_from_padding offset_from_steps align_up_def place_bits_def

lemma ringbuf_member_sizes:
  "sizeof x86_wait_queue_head_t = 24" "alignof x86_wait_queue_head_t = 8"
  "sizeof x86_irq_work = 32" "alignof x86_irq_work = 8"
  "sizeof x86_u64 = 8" "alignof x86_u64 = 8"
  "sizeof x86_spinlock_t = 4" "alignof x86_spinlock_t = 4"
  "sizeof x86_atomic_t = 4" "alignof x86_atomic_t = 4"
  "sizeof arm_wait_queue_head_t = 24" "alignof arm_wait_queue_head_t = 8"
  "sizeof arm_irq_work = 32" "alignof arm_irq_work = 8"
  "sizeof arm_u64 = 8" "alignof arm_u64 = 8"
  "sizeof arm_spinlock_t = 4" "alignof arm_spinlock_t = 4"
  "sizeof arm_atomic_t = 4" "alignof arm_atomic_t = 4"
  by (simp_all add: x86_type_defs arm_type_defs align_up_def)

lemma ringbuf_alignment: "alignof_fields x86_bpf_ringbuf_fields = 8" "alignof_fields arm_bpf_ringbuf_fields = 8"
  by (simp_all add: ringbuf_parts alignof_fields_append alignof_padding ringbuf_member_sizes)

lemma ringbuf_ends:
  "struct_end 0 x86_bpf_ringbuf_fields = 8 * 12288" "struct_end 0 arm_bpf_ringbuf_fields = 8 * 12288"
  by (simp_all add: ringbuf_parts ringbuf_member_sizes ringbuf_calc)

text \<open>The ring buffer the kernel shares with the extractor keeps each position on its own page, in
  both headers: the consumer position starts the second page, the producer position the third, and
  the data area begins with the fourth, so that the consumer can map its page writable and the
  rest read-only.\<close>

theorem ringbuf_pages:
  "map (offsetof x86_bpf_ringbuf_fields) [''consumer_pos'', ''producer_pos'', ''data''] =
     [Some 4096, Some (2 * 4096), Some (3 * 4096)] \<and>
   map (offsetof arm_bpf_ringbuf_fields) [''consumer_pos'', ''producer_pos'', ''data''] =
     [Some 4096, Some (2 * 4096), Some (3 * 4096)] \<and>
   sizeof x86_bpf_ringbuf = 3 * 4096 \<and> sizeof arm_bpf_ringbuf = 3 * 4096"
proof (intro conjI)
  show "map (offsetof x86_bpf_ringbuf_fields) [''consumer_pos'', ''producer_pos'', ''data''] =
      [Some 4096, Some (2 * 4096), Some (3 * 4096)]"
    by (simp add: offsetof_def ringbuf_parts ringbuf_member_sizes ringbuf_calc del: offset_from.simps(2))
  show "map (offsetof arm_bpf_ringbuf_fields) [''consumer_pos'', ''producer_pos'', ''data''] =
      [Some 4096, Some (2 * 4096), Some (3 * 4096)]"
    by (simp add: offsetof_def ringbuf_parts ringbuf_member_sizes ringbuf_calc del: offset_from.simps(2))
  show "sizeof x86_bpf_ringbuf = 3 * 4096" and "sizeof arm_bpf_ringbuf = 3 * 4096"
    by (simp_all add: x86_bpf_ringbuf_def arm_bpf_ringbuf_def ringbuf_ends ringbuf_alignment align_up_def)
qed

end
