(* ===== verification/Spec2Isabelle.thy ===== *)
theory Spec2Isabelle
  imports EndToEnd Refinement DataProperties ListenerProperties ArchiverProperties AlertProperties P2pProperties
    ConnectivityProperties LogProperties MetricsProperties RpcProperties ToolProperties SharedUtils Vmlinux
begin

text \<open>
  A verification development for peer-observer: its five extractors (eBPF, P2P, log, RPC and IPC) and the
  tools that consume events, the archiver with its replayer, the alerts tool, the connectivity check, the
  metrics tool, the logger and the websocket tool. The eBPF extractor is the BPF program that hooks into
  the tracepoints of Bitcoin Core (\<^verbatim>\<open>extractors/ebpf/src/bpf/tracing.bpf.c\<close>), the kernel
  headers it is compiled against (\<^verbatim>\<open>vmlinux/x86_64/vmlinux.h\<close>, \<^verbatim>\<open>vmlinux/aarch64/vmlinux.h\<close>),
  and the Rust program that loads it, consumes its ring buffers and publishes events
  (\<^verbatim>\<open>extractors/ebpf/src/lib.rs\<close>, \<^verbatim>\<open>shared/src/protobuf/ebpf_extractor/*.rs\<close>). The P2P
  extractor is \<^verbatim>\<open>extractors/p2p/src/lib.rs\<close>, the log extractor \<^verbatim>\<open>extractors/log/src/lib.rs\<close> with
  \<^verbatim>\<open>shared/src/log_matchers.rs\<close>, the RPC and IPC extractors \<^verbatim>\<open>extractors/rpc/src/lib.rs\<close> and
  \<^verbatim>\<open>extractors/ipc/src\<close>; the tools are \<^verbatim>\<open>tools/archive/src\<close>, \<^verbatim>\<open>tools/alerts/src\<close>,
  \<^verbatim>\<open>tools/connectivity-check/src/main.rs\<close>, \<^verbatim>\<open>tools/metrics/src/lib.rs\<close>, \<^verbatim>\<open>tools/logger/src/lib.rs\<close>
  and \<^verbatim>\<open>tools/websocket/src/lib.rs\<close>.

  \<^bold>\<open>How the program works.\<close> A tracepoint of bitcoind fires with integers and pointers into its
  memory. The BPF handler of that tracepoint copies the strings and bytes behind the pointers into
  a C struct and puts the struct into a ring buffer: the two P2P message handlers reserve a record
  in place (four ring buffers, by message size), the ten others copy an object from the stack into
  a ring buffer of their own. In user space libbpf calls, per record, the callback registered for
  the ring buffer; it reinterprets the bytes as a Rust struct, converts it to a protobuf event,
  stamps it with the time and publishes it on a NATS subject. Around this, the extractor finds the
  pid of bitcoind, initialises the listener, and loops: shutdown, poll, restart of bitcoind, idle
  exit. The archiver subscribes to all subjects, decodes each payload, filters and possibly strips
  it, and appends it, length-delimited, to the current file, which is compressed or not and rotated
  by size; a shutdown drains the subscription with a deadline. The replayer reads such files back.
  The alerts tool counts the pings and address messages of each peer in sliding windows, reports a
  peer once per kind, and forgets peers that disconnect or go silent. The P2P extractor accepts
  connections of a node, answers its handshake and pings, measures the node with pings of its own,
  and publishes announced addresses, inventories and fee filters. The connectivity check queues the
  addresses peers announce; 50 threads that share a cache of recent successes try them, and a sink
  counts and tabulates the results. The log extractor reads the node's log from a pipe, takes a line
  apart (time, thread, category, level, message), and publishes it with the event that the first
  matching pattern finds in the message. The metrics tool turns every event into changes of a metrics
  registry, and keeps from one event to the next the orphan transactions and the address tables of the
  node, of which it counts the changes, and the compact block reconstructions that are not complete.
  The RPC extractor makes at each tick of two timers the calls that are not disabled and publishes the
  responses, the IPC extractor at each tick the tip of the chain. The logger prints the events its flags
  select. The websocket tool keeps for every connected client what it subscribes to and sends it those
  events as JSON.

  \<^bold>\<open>The theories.\<close>
  \<^item> \<^theory_text>\<open>Prelude\<close>: words, byte ranges, little-endian images, C strings.
  \<^item> \<^theory_text>\<open>CLayout\<close>: C data layout (offsets, sizes, alignment, bit-fields) and typed access to a
    byte image; \<^theory_text>\<open>TracingTypes\<close>: the macros, ring buffer maps and structs of
    \<^verbatim>\<open>tracing.bpf.c\<close>, each with its record, its layout and its byte image;
    \<^theory_text>\<open>TracingLayouts\<close>: their computed tables.
  \<^item> \<^theory_text>\<open>BpfHelpers\<close>: the kernel's helpers as parameters (\<open>bpf_env\<close>) with their documented
    contract (\<open>probe_ok\<close>, \<open>reserve_ok\<close>), and the sequence of helper calls a handler makes;
    \<^theory_text>\<open>ReferenceHelpers\<close>: an implementation of the contract for every memory.
  \<^item> \<^theory_text>\<open>NetMessages\<close>, \<^theory_text>\<open>EventHandlers\<close>: the twelve handlers of \<^verbatim>\<open>tracing.bpf.c\<close>, one
    definition each, and the reference routine the two message handlers equal.
  \<^item> \<^theory_text>\<open>HandlerFacts\<close>: the locale \<open>bpf_handler\<close> (what every handler keeps), interpreted by
    all twelve, and runs of tracepoint hits.
  \<^item> \<^theory_text>\<open>RustStd\<close>: faults of Rust code and \<^verbatim>\<open>String::from_utf8_lossy\<close>; \<^theory_text>\<open>Ctypes\<close>:
    \<^verbatim>\<open>ctypes.rs\<close>; \<^theory_text>\<open>EbpfEvents\<close>: the conversions to protobuf and the decoding of messages;
    \<^theory_text>\<open>ExtractorHandlers\<close>: the callbacks of \<^verbatim>\<open>lib.rs\<close>.
  \<^item> \<^theory_text>\<open>WireFormat\<close>, \<^theory_text>\<open>Channels\<close>: the computed Rust layouts, and the locales \<open>channel\<close> and
    \<open>sound_channel\<close> (the consumer decodes what the producer wrote, whatever the memory held
    before), interpreted for every struct.
  \<^item> \<^theory_text>\<open>Delivery\<close>, \<^theory_text>\<open>MessageDelivery\<close>, \<^theory_text>\<open>HandlerDelivery\<close>, \<^theory_text>\<open>EndToEnd\<close>: a tracepoint's
    arguments become the event a subscriber sees, one property per tracepoint; \<^theory_text>\<open>Pipeline\<close>:
    safety of every sequence of hits; \<^theory_text>\<open>Refinement\<close>: the abstract specification of a hit
    (\<open>hit_spec\<close>: no structs, no bytes) and the proof that runs of the program refine it;
    \<^theory_text>\<open>DataProperties\<close>: layouts, strings, capacities.
  \<^item> \<^theory_text>\<open>Listener\<close>, \<^theory_text>\<open>ExtractorLoop\<close>, \<^theory_text>\<open>ListenerProperties\<close>: startup and the run loop of
    \<^verbatim>\<open>lib.rs\<close> as a state machine (\<open>iteration\<close>, \<open>run_loop\<close>, the relation \<open>loop_step\<close>).
  \<^item> \<^theory_text>\<open>RustIo\<close>: buffered writers and readers of the standard library, and the locale
    \<open>byte_sink\<close> (a writer that holds what was written to it), interpreted by the buffered writer,
    the archiver's counting writer and the socket of the metrics server. \<^theory_text>\<open>ArchiveRead\<close>: \<^verbatim>\<open>read.rs\<close> and \<^verbatim>\<open>replayer.rs\<close>, and
    the locale \<open>length_delimiter\<close> with the varint encoding; \<^theory_text>\<open>ArchiveFormat\<close>: the file format;
    \<^theory_text>\<open>ArchiveProperties\<close>: round trip, truncation, errors, and that a replay of any bytes gives
    just the complete messages they begin with.
  \<^item> \<^theory_text>\<open>PbEvents\<close>: the protobuf messages as a consumer decodes them. \<^theory_text>\<open>ArchiveWrite\<close>: writers
    and files of \<^verbatim>\<open>archiver/mod.rs\<close>; \<^theory_text>\<open>ArchiveFileFacts\<close>: what a file holds;
    \<^theory_text>\<open>ArchiveFilter\<close>: filters and low-data mode; \<^theory_text>\<open>Archiver\<close>: startup and loop, where a run that
    fails says which files it leaves and with which bytes, the writers dropped as Rust drops them;
    \<^theory_text>\<open>ArchiverFacts\<close>: their invariant; \<^theory_text>\<open>ArchiverProperties\<close>: a run's files read back as the
    events it received, rotation, names, what survives a crash, an error or a full disk, shutdown.
  \<^item> \<^theory_text>\<open>Alerts\<close>: the alerts tool; \<^theory_text>\<open>AlertProperties\<close>: the windows are exact, the alerts refine a
    specification without windows and clocks, memory, cleanup, subscriptions.
  \<^item> \<^theory_text>\<open>Primitives\<close>: the conversions of addresses and inventory items, with the display of IP
    addresses; \<^theory_text>\<open>IpText\<close>: parsing them, and the helpers of \<^verbatim>\<open>util.rs\<close>.
  \<^item> \<^theory_text>\<open>P2pExtractor\<close>: the P2P extractor, a connection as a state machine whose steps are bytes that
    arrive, polls of the reading future, and ticks; \<^theory_text>\<open>P2pFraming\<close>: its specification as whole messages
    and the refinement of runs; \<^theory_text>\<open>P2pProperties\<close>: refinement, completeness, what a tick within a
    message does, handshake, flags, the ping measurement.
  \<^item> \<^theory_text>\<open>ConnectivityCheck\<close>: receiving, workers and their cache, sink; \<^theory_text>\<open>ConnectivityProperties\<close>: what
    holds for every interleaving of the workers (an output taken from the cache stands for a success
    of the same address and port less than the recency bound ago), and the time stamps.
  \<^item> \<^theory_text>\<open>LogRegex\<close>: the regular expressions that the log patterns use, with the outcomes of a match
    in the order of preference, and the contract of the regex crate (\<open>regex_crate\<close>);
    \<^theory_text>\<open>LogMatchers\<close>: the patterns, the matchers and the parser of a line; \<^theory_text>\<open>LogFacts\<close>: reading a
    line that has the shape of Bitcoin Core's; \<^theory_text>\<open>LogExtractor\<close>: the pipe and the loop;
    \<^theory_text>\<open>LogProperties\<close>: how a line of Bitcoin Core's shape is read, under conditions stated one by one
    and for thread names that are taken for categories too; nothing panics, every line is published.
  \<^item> \<^theory_text>\<open>RpcEvents\<close>, \<^theory_text>\<open>ObservedEvents\<close>: the messages of the RPC and IPC extractors, and the event of
    any extractor as a subscriber decodes it.
  \<^item> \<^theory_text>\<open>MetricsOps\<close>: the operations on the registry; \<^theory_text>\<open>RpcGauges\<close>: the RPC responses of which no
    state is kept; \<^theory_text>\<open>MetricsTool\<close>: the handlers of all other events, the state and the loop;
    \<^theory_text>\<open>MetricsProperties\<close>: the invariant of the state, the counters of the orphanage, the
    reconstructions, the changes of the address tables, and the way of a log line from the pipe to the
    counters.
  \<^item> \<^theory_text>\<open>RpcExtractor\<close>: the calls, what each publishes and counts, the loop, and the conversions that
    can panic; \<^theory_text>\<open>RpcProperties\<close>: the address tables of two responses through the extractor to the
    counters of the metrics tool, what a run publishes, and malformed replies.
  \<^item> \<^theory_text>\<open>IpcExtractor\<close>, \<^theory_text>\<open>LoggerTool\<close>, \<^theory_text>\<open>WebsocketTool\<close>: these programs, the last as steps of its
    concurrent tasks. The lock of the client map is in the state: a broadcast takes it and keeps it over
    the sends it awaits, a task over the close it awaits, each such send or close is a step that ends when
    the client lets it, and a step that needs the lock is possible only while it is free. \<^theory_text>\<open>ToolProperties\<close>:
    what their runs publish, show and send, with a machine for a single websocket client that every run
    of the tool refines, and what a client that stops reading does to the others.
  \<^item> \<^theory_text>\<open>SharedUtils\<close>: what all programs share, the options of the NATS connection and the server that
    answers requests with the metrics, whose socket is another \<open>byte_sink\<close>.
  \<^item> \<^theory_text>\<open>VmlinuxX86Enums\<close>, \<^theory_text>\<open>VmlinuxX86\<close>, \<^theory_text>\<open>VmlinuxArmEnums\<close>, \<^theory_text>\<open>VmlinuxArm\<close>: the BPF part
    of the two kernel headers, declaration by declaration, the types as layouts only (a pointer is its
    eight bytes, an enumeration its four); \<^theory_text>\<open>Vmlinux\<close>: where the two headers agree, where they differ,
    and the pages of the kernel's ring buffer.

  \<^bold>\<open>Correspondence.\<close> Definitions have the source's names. Where C and Rust use one name the Rust
  struct has the suffix \<open>_rs\<close>, the C record \<open>_c\<close>, the protobuf message \<open>_pb\<close>; the Rust callbacks are
  prefixed \<open>rs_\<close>, a C parameter \<open>id\<close> is \<open>id'\<close>. Integers keep their width as words. Memory of
  bitcoind is a partial map from addresses to bytes. A stale byte under a reserved record stays in
  the record unless the handler overwrites it. Rust's \<^verbatim>\<open>unsafe\<close> reads and slice panics are faults:
  values of the callback's result.

  \<^bold>\<open>Bounds.\<close> Only \<open>captures_all\<close> has fuel, the number of matches an iterator finds: each starts
  behind the last, so one more than the length of the text is enough. The other recursions are structural, or end with the length of the
  string (\<open>from_utf8_lossy\<close>, \<open>utf8_valid\<close>). \<open>run_loop\<close> consumes a list of ticks, one per iteration:
  statements about runs hold for every list; so do \<open>arch_loop\<close>, \<open>alerts_loop\<close>, \<open>p2p_conn_run\<close>,
  \<open>check_run\<close>, \<open>log_loop\<close>, \<open>metrics_loop\<close>, \<open>rpc_loop\<close>, \<open>ipc_loop\<close>, \<open>logger_loop\<close>, \<open>ws_run\<close> and
  \<open>accept_loop\<close>, whose lists are schedules; \<open>ws_run\<close> is \<open>None\<close> for a schedule with a step that is not
  possible where it stands. \<open>open_fresh\<close>, the
  retrying loop that opens an archive file, consumes the readings of the clock; when they end it is
  \<open>Spinning\<close>, and \<open>fresh_name_found\<close> shows how many are enough. \<open>flush_buf\<close>, \<open>write_all\<close> and
  \<open>replay_events\<close> end with the bytes left. Byte counters and times of the tools are natural numbers:
  they stay below the 64 bits of the code for any file and clock there is. Message payloads are bounded by the 4,194,304 bytes of
  the largest class.

  \<^bold>\<open>Parameters.\<close> The kernel helpers; libbpf (\<open>libbpf\<close>: which maps and programs exist, whether
  adding and attaching succeeds; the value of a poll); rust-bitcoin (\<open>rust_bitcoin\<close>: decoding a raw
  message with its conversion, and double SHA-256); the operating system (\<open>os\<close>); the clock. For the
  tools: the protobuf library's encoding (\<open>prost\<close>), zstd (\<open>zstd\<close>), the formatting of a time stamp,
  what each write call takes or fails with (\<open>fate\<close>), the iteration order of a hash map. For the P2P
  extractor: rust-bitcoin's magic, encoding and decoding and the base32 library (\<open>p2p_lib\<close>), the
  clock and random numbers (\<open>p2p_env\<close>). For the log extractor: the captures of a regular expression and
  the reading of a time stamp (\<open>log_lib\<close>). For the metrics tool: the decoding of a payload and the
  generated tables of IP addresses (\<open>ip_tables\<close>). For the RPC extractor: what the node answers, the clock,
  and whether a publication succeeds (\<open>rpc_world\<close>). For the websocket tool: decoding, JSON, and the
  parsing of subscriptions (\<open>ws_lib\<close>). The
  theorems hold for all of them, under the contracts they name.

  \<^bold>\<open>Not modelled.\<close> Logging, and \<^verbatim>\<open>Display\<close> other than of addresses and log events; the bytes of the protobuf
  encoding and the NATS client (libraries); the conversion of rust-bitcoin's messages
  (\<^verbatim>\<open>message.rs\<close>); the connection attempt of the connectivity check and the tables its build
  generates. Of the RPC extractor, the conversions that only copy or cast fields of the types of the
  client library, which are not part of the repository, and the deserialization in \<^verbatim>\<open>rpc_compat.rs\<close>: their
  results are inputs. The Cap'n Proto session of the IPC extractor, the websocket handshake and JSON
  (libraries); the binaries around the run functions; the declarations of the metrics and the floating point means and percentiles
  (\<^verbatim>\<open>metrics.rs\<close>, \<^verbatim>\<open>stat_util.rs\<close>), which the operations on the registry only name. The rest of the kernel
  headers is not used by the program.
\<close>

end
